(* ===== verification/Prelude.thy ===== *)
theory Prelude
  imports Main "HOL-Library.Char_ord" "HOL-Library.List_Lexorder" "HOL-Library.Sublist"
begin

text \<open>
  Shared vocabulary of the development: Go strings as byte lists with the parts of the
  packages \<^verbatim>\<open>strings\<close>, \<^verbatim>\<open>unicode\<close>, \<^verbatim>\<open>unicode/utf8\<close>, \<^verbatim>\<open>sort\<close> and \<^verbatim>\<open>time\<close> that the
  modelled code calls, Go errors as values, contexts, 64-bit wrap-around, and the generic
  lemmas on lists, options and sums that the component theories share.
\<close>

section \<open>Errors, results and contexts\<close>

text \<open>
  A Go function returning \<^verbatim>\<open>error\<close> returns an \<open>error option\<close> (\<open>None\<close> is \<^verbatim>\<open>nil\<close>); one
  returning \<^verbatim>\<open>(T, error)\<close> returns \<open>error + 'a\<close>. The sentinels of the several packages
  with the same meaning share one constructor. \<open>ErrOther\<close> stands for an error that a
  port or a context passes through unchanged.
\<close>

datatype error =
    ErrUnauthorized
  | ErrForbidden
  | ErrNotFound
  | ErrValidation
  | ErrConflict
  | ErrRateLimited
  | ErrIdempotencyConflict
  | ErrIdempotencyInProgress
  | ErrIdempotencyFailed
  | ErrVersionConflict int
  | ErrVerificationFailed
  | ErrInvalidState
  | ErrInvalidActor
  | ErrInvalidCursor
  | ErrInvalidPage
  | ErrInvalidJSON
  | ErrDuplicateObjectKey
  | ErrOther string

type_synonym 'a result = "error + 'a"

text \<open>
  A \<^verbatim>\<open>context.Context\<close> is nil or answers each successive \<^verbatim>\<open>Err()\<close> call; cancellation may
  happen between two calls, so the answer depends on the number of the observation.
\<close>

datatype go_context = NilContext | Context "nat \<Rightarrow> error option"

definition Background :: go_context where
  "Background = Context (\<lambda>_. None)"

fun ctx_err :: "go_context \<Rightarrow> nat \<Rightarrow> error option" where
  "ctx_err NilContext n = Some ErrUnauthorized"
| "ctx_err (Context obs) n = obs n"

lemma ctx_err_Background [simp]: "ctx_err Background n = None"
  by (simp add: Background_def)

text \<open>The context as a callee sees it after \<open>k\<close> observations of the caller.\<close>

fun ctx_drop :: "nat \<Rightarrow> go_context \<Rightarrow> go_context" where
  "ctx_drop k NilContext = NilContext"
| "ctx_drop k (Context obs) = Context (\<lambda>n. obs (k + n))"

lemma ctx_err_drop [simp]: "ctx_err (ctx_drop k ctx) n = ctx_err ctx (k + n)"
  by (cases ctx) simp_all

lemma ctx_drop_Background [simp]: "ctx_drop k Background = Background"
  by (simp add: Background_def)

text \<open>The guard \<^verbatim>\<open>if err := f(); err != nil { return err }\<close> followed by the rest.\<close>

definition on_ok :: "error option \<Rightarrow> error option \<Rightarrow> error option" where
  "on_ok e rest = (case e of Some x \<Rightarrow> Some x | None \<Rightarrow> rest)"

lemma on_ok_None_iff [simp]: "on_ok e rest = None \<longleftrightarrow> e = None \<and> rest = None"
  by (simp add: on_ok_def split: option.splits)

lemma on_ok_simps [simp]: "on_ok None rest = rest" "on_ok (Some x) rest = Some x"
  by (simp_all add: on_ok_def)

text \<open>The same guard in a function that also returns a value or a new state.\<close>

definition check_then :: "error option \<Rightarrow> 'a result \<Rightarrow> 'a result" where
  "check_then e rest = (case e of Some x \<Rightarrow> Inl x | None \<Rightarrow> rest)"

lemma check_then_simps [simp]: "check_then None rest = rest" "check_then (Some x) rest = Inl x"
  by (simp_all add: check_then_def)

lemma check_then_Inr_iff [simp]: "check_then e rest = Inr y \<longleftrightarrow> e = None \<and> rest = Inr y"
  by (cases e) simp_all

definition bind_result :: "'a result \<Rightarrow> ('a \<Rightarrow> 'b result) \<Rightarrow> 'b result" where
  "bind_result r f = (case r of Inl e \<Rightarrow> Inl e | Inr x \<Rightarrow> f x)"

lemma bind_result_simps [simp]:
  "bind_result (Inl e) f = Inl e" "bind_result (Inr x) f = f x"
  by (simp_all add: bind_result_def)

lemma bind_result_Inr_iff [simp]:
  "bind_result r f = Inr y \<longleftrightarrow> (\<exists>x. r = Inr x \<and> f x = Inr y)"
  by (cases r) simp_all

text \<open>
  A Go \<^verbatim>\<open>switch\<close> on a value whose cases list constants: the first case that contains the
  value is taken, \<open>None\<close> is the default.
\<close>

fun switch_lookup :: "('k list \<times> 'v) list \<Rightarrow> 'k \<Rightarrow> 'v option" where
  "switch_lookup [] k = None"
| "switch_lookup ((ks, v) # cs) k = (if k \<in> set ks then Some v else switch_lookup cs k)"

lemma switch_lookup_Some:
  "switch_lookup cs k = Some v \<Longrightarrow> \<exists>ks. (ks, v) \<in> set cs \<and> k \<in> set ks"
  by (induction cs k rule: switch_lookup.induct) (auto split: if_splits)

section \<open>Fixed-width integers and times\<close>

text \<open>Go's \<^verbatim>\<open>int64\<close> arithmetic wraps: \<open>i64\<close> reads the low 64 bits as two's complement.\<close>

definition i64 :: "int \<Rightarrow> int" where
  "i64 x = (x + 2 ^ 63) mod 2 ^ 64 - 2 ^ 63"

lemma i64_id: "- (2 ^ 63) \<le> x \<Longrightarrow> x < 2 ^ 63 \<Longrightarrow> i64 x = x"
  by (simp add: i64_def)

lemma i64_range: "- (2 ^ 63) \<le> i64 x \<and> i64 x < 2 ^ 63"
proof -
  have "0 \<le> (x + 2 ^ 63) mod 2 ^ 64" "(x + 2 ^ 63) mod 2 ^ 64 < (2 ^ 64 :: int)"
    by simp_all
  then show ?thesis unfolding i64_def by simp
qed

text \<open>
  A \<^verbatim>\<open>time.Time\<close> is its instant in nanoseconds since the zero time
  (0001-01-01 00:00:00 UTC), so \<^verbatim>\<open>IsZero\<close> is equality with 0, \<^verbatim>\<open>Before\<close> and \<^verbatim>\<open>After\<close> are the
  order of \<open>int\<close>, \<^verbatim>\<open>Add\<close> is addition, and \<^verbatim>\<open>UTC()\<close>, which changes the location only, is
  the identity. A \<^verbatim>\<open>time.Duration\<close> is its \<^verbatim>\<open>int64\<close> count of nanoseconds.
\<close>

type_synonym time = int
type_synonym duration = int

abbreviation (input) is_zero_time :: "time \<Rightarrow> bool" where
  "is_zero_time t \<equiv> t = 0"

definition Second :: duration where "Second = 1000000000"
definition Minute :: duration where "Minute = 60 * Second"
definition Hour :: duration where "Hour = 60 * Minute"

lemmas duration_defs = Second_def Minute_def Hour_def

text \<open>
  \<^verbatim>\<open>value.Year()\<close> lies in 1..9999 exactly for the instants from the zero time up to
  10000-01-01, which is 3652059 days later.
\<close>

definition year_10000 :: time where
  "year_10000 = 3652059 * 24 * Hour"

section \<open>Byte strings\<close>

definition byte :: "char \<Rightarrow> nat" where
  "byte c = of_char c"

text \<open>
  The UTF-8 encodings of the runes with \<^verbatim>\<open>unicode.IsSpace\<close>: the six ASCII ones, U+0085,
  U+00A0, U+1680, U+2000 to U+200A, U+2028, U+2029, U+202F, U+205F and U+3000.
\<close>

definition space_encodings :: "string list" where
  "space_encodings =
    [[CHR 0x09], [CHR 0x0A], [CHR 0x0B], [CHR 0x0C], [CHR 0x0D], [CHR 0x20],
     [CHR 0xC2, CHR 0x85], [CHR 0xC2, CHR 0xA0], [CHR 0xE1, CHR 0x9A, CHR 0x80],
     [CHR 0xE2, CHR 0x80, CHR 0x80], [CHR 0xE2, CHR 0x80, CHR 0x81],
     [CHR 0xE2, CHR 0x80, CHR 0x82], [CHR 0xE2, CHR 0x80, CHR 0x83],
     [CHR 0xE2, CHR 0x80, CHR 0x84], [CHR 0xE2, CHR 0x80, CHR 0x85],
     [CHR 0xE2, CHR 0x80, CHR 0x86], [CHR 0xE2, CHR 0x80, CHR 0x87],
     [CHR 0xE2, CHR 0x80, CHR 0x88], [CHR 0xE2, CHR 0x80, CHR 0x89],
     [CHR 0xE2, CHR 0x80, CHR 0x8A], [CHR 0xE2, CHR 0x80, CHR 0xA8],
     [CHR 0xE2, CHR 0x80, CHR 0xA9], [CHR 0xE2, CHR 0x80, CHR 0xAF],
     [CHR 0xE2, CHR 0x81, CHR 0x9F], [CHR 0xE3, CHR 0x80, CHR 0x80]]"

text \<open>
  Removing encodings from the front until none matches. Trimming on the right removes
  reversed encodings from the reversed string: the first byte of each encoding is the
  only one that can start a rune, so a byte suffix equal to an encoding is the last rune.
\<close>

function strip_runes :: "string list \<Rightarrow> string \<Rightarrow> string" where
  "strip_runes encs s =
    (case find (\<lambda>e. e \<noteq> [] \<and> prefix e s) encs of
       None \<Rightarrow> s
     | Some e \<Rightarrow> strip_runes encs (drop (length e) s))"
  by pat_completeness auto
termination
proof (relation "measure (\<lambda>(encs, s). length s)")
  fix encs s e
  assume "find (\<lambda>e. e \<noteq> [] \<and> prefix e s) encs = Some e"
  then have "e \<noteq> []" "length e \<le> length s"
    by (auto simp: find_Some_iff dest: prefix_length_le)
  then show "((encs, drop (length e) s), (encs, s)) \<in> measure (\<lambda>(encs, s). length s)"
    by (cases e) auto
qed simp

declare strip_runes.simps [simp del]

definition trim_left :: "string \<Rightarrow> string" where
  "trim_left s = strip_runes space_encodings s"

definition trim_right :: "string \<Rightarrow> string" where
  "trim_right s = rev (strip_runes (map rev space_encodings) (rev s))"

definition TrimSpace :: "string \<Rightarrow> string" where
  "TrimSpace s = trim_right (trim_left s)"

definition blank :: "string \<Rightarrow> bool" where
  "blank s \<longleftrightarrow> TrimSpace s = []"

definition cont_byte :: "char \<Rightarrow> bool" where
  "cont_byte c \<longleftrightarrow> 0x80 \<le> byte c \<and> byte c \<le> 0xBF"

text \<open>\<^verbatim>\<open>utf8.ValidString\<close>: no overlong forms, no surrogates, nothing above U+10FFFF.\<close>

fun utf8_valid :: "string \<Rightarrow> bool" where
  "utf8_valid [] = True"
| "utf8_valid (a # s) =
    (let x = byte a in
     if x < 0x80 then utf8_valid s
     else if 0xC2 \<le> x \<and> x \<le> 0xDF then
       (case s of b # r \<Rightarrow> cont_byte b \<and> utf8_valid r | [] \<Rightarrow> False)
     else if 0xE0 \<le> x \<and> x \<le> 0xEF then
       (case s of b # c # r \<Rightarrow>
            cont_byte b \<and> cont_byte c \<and> (x = 0xE0 \<longrightarrow> 0xA0 \<le> byte b) \<and>
            (x = 0xED \<longrightarrow> byte b \<le> 0x9F) \<and> utf8_valid r
        | _ \<Rightarrow> False)
     else if 0xF0 \<le> x \<and> x \<le> 0xF4 then
       (case s of b # c # d # r \<Rightarrow>
            cont_byte b \<and> cont_byte c \<and> cont_byte d \<and> (x = 0xF0 \<longrightarrow> 0x90 \<le> byte b) \<and>
            (x = 0xF4 \<longrightarrow> byte b \<le> 0x8F) \<and> utf8_valid r
        | _ \<Rightarrow> False)
     else False)"

definition contains_nul :: "string \<Rightarrow> bool" where
  "contains_nul s \<longleftrightarrow> CHR 0x00 \<in> set s"

text \<open>
  Collecting strings into a \<^verbatim>\<open>map[string]struct{}\<close>, appending its keys and calling
  \<^verbatim>\<open>sort.Strings\<close> gives the distinct members in byte order, whatever the iteration order.
\<close>

definition sorted_set :: "string list \<Rightarrow> string list" where
  "sorted_set xs = sort (remdups xs)"

text \<open>\<^verbatim>\<open>strings.TrimSpace\<close> each value, drop the empty ones, then the sorted key set.\<close>

definition trimmed_set :: "string list \<Rightarrow> string list" where
  "trimmed_set xs = sorted_set (filter (\<lambda>v. v \<noteq> []) (map TrimSpace xs))"

subsection \<open>Trimming\<close>

definition space_free_left :: "string list \<Rightarrow> string \<Rightarrow> bool" where
  "space_free_left encs s \<longleftrightarrow> (\<forall>e\<in>set encs. e \<noteq> [] \<longrightarrow> \<not> prefix e s)"

lemma strip_runes_fixed: "space_free_left encs s \<Longrightarrow> strip_runes encs s = s"
  by (subst strip_runes.simps) (auto simp: space_free_left_def find_None_iff split: option.splits dest!: find_Some_iff[THEN iffD1])

lemma strip_runes_free: "space_free_left encs (strip_runes encs s)"
proof (induction encs s rule: strip_runes.induct)
  case (1 encs s)
  show ?case
    by (subst strip_runes.simps)
       (auto simp: space_free_left_def find_None_iff 1[unfolded space_free_left_def] split: option.splits)
qed

lemma strip_runes_suffix: "suffix (strip_runes encs s) s"
proof (induction encs s rule: strip_runes.induct)
  case (1 encs s)
  show ?case
    by (subst strip_runes.simps)
       (auto split: option.splits intro: suffix_order.trans [OF 1 suffix_drop])
qed

lemma space_free_left_prefix: "space_free_left encs s \<Longrightarrow> prefix t s \<Longrightarrow> space_free_left encs t"
  unfolding space_free_left_def by (blast intro: prefix_order.trans)

lemma trim_right_prefix: "prefix (trim_right s) s"
  using strip_runes_suffix [of "map rev space_encodings" "rev s"]
  by (simp add: trim_right_def suffix_to_prefix)

lemma trim_left_suffix: "suffix (trim_left s) s"
  by (simp add: trim_left_def strip_runes_suffix)

lemma trim_right_idem: "trim_right (trim_right s) = trim_right s"
  by (simp add: trim_right_def strip_runes_fixed strip_runes_free)

lemma TrimSpace_idem [simp]: "TrimSpace (TrimSpace s) = TrimSpace s"
proof -
  let ?l = "trim_left s"
  have "space_free_left space_encodings ?l"
    by (simp add: trim_left_def strip_runes_free)
  then have "space_free_left space_encodings (trim_right ?l)"
    using trim_right_prefix by (rule space_free_left_prefix)
  then have "trim_left (trim_right ?l) = trim_right ?l"
    by (simp add: trim_left_def strip_runes_fixed)
  then show ?thesis by (simp add: TrimSpace_def trim_right_idem)
qed

lemma TrimSpace_Nil [simp]: "TrimSpace [] = []"
  by (simp add: TrimSpace_def trim_left_def trim_right_def strip_runes_fixed space_free_left_def)

lemma set_TrimSpace: "set (TrimSpace s) \<subseteq> set s"
  unfolding TrimSpace_def
  using set_mono_prefix [OF trim_right_prefix [of "trim_left s"]]
    set_mono_suffix [OF trim_left_suffix [of s]] by blast

text \<open>A string that begins and ends with a graphic ASCII character is unchanged.\<close>

definition graphic :: "char \<Rightarrow> bool" where
  "graphic c \<longleftrightarrow> 0x21 \<le> byte c \<and> byte c \<le> 0x7E"

definition edge_safe :: "string \<Rightarrow> bool" where
  "edge_safe s \<longleftrightarrow> s \<noteq> [] \<and> graphic (hd s) \<and> graphic (last s)"

lemma edge_safe_nonempty: "edge_safe s \<Longrightarrow> s \<noteq> []"
  by (simp add: edge_safe_def)

lemma space_encodings_edges: "e \<in> set space_encodings \<Longrightarrow> \<not> graphic (hd e) \<and> \<not> graphic (last e)"
  unfolding space_encodings_def by (auto simp: graphic_def byte_def)

lemma TrimSpace_edge [simp]: "edge_safe s \<Longrightarrow> TrimSpace s = s"
proof -
  assume e: "edge_safe s"
  have "space_free_left space_encodings s"
    using e unfolding space_free_left_def edge_safe_def
    by (metis hd_append2 prefix_def space_encodings_edges)
  moreover have "space_free_left (map rev space_encodings) (rev s)"
    using e unfolding space_free_left_def edge_safe_def
    by (auto simp: prefix_def) (metis hd_append2 hd_rev rev_is_Nil_conv space_encodings_edges)
  ultimately show ?thesis
    by (simp add: TrimSpace_def trim_left_def trim_right_def strip_runes_fixed)
qed

subsection \<open>Sorted key sets\<close>

lemma sorted_set_laws [simp]:
  "set (sorted_set xs) = set xs" "sorted (sorted_set xs)" "distinct (sorted_set xs)"
  by (simp_all add: sorted_set_def)

lemma sorted_set_canonical: "set xs = set ys \<Longrightarrow> sorted_set xs = sorted_set ys"
  by (rule sorted_distinct_set_unique) simp_all

lemma sorted_set_Nil_iff [simp]: "sorted_set xs = [] \<longleftrightarrow> xs = []"
  by (metis set_empty sorted_set_laws(1))

lemma sorted_set_idem [simp]: "sorted_set (sorted_set xs) = sorted_set xs"
  by (rule sorted_set_canonical) simp

lemma set_trimmed_set: "set (trimmed_set xs) = TrimSpace ` set xs - {[]}"
  by (auto simp: trimmed_set_def)

lemma trimmed_set_idem [simp]: "trimmed_set (trimmed_set xs) = trimmed_set xs"
proof -
  have "TrimSpace ` set (trimmed_set xs) - {[]} = set (trimmed_set xs)"
    unfolding set_trimmed_set by (auto simp: image_iff) (metis Diff_iff TrimSpace_idem image_eqI singletonD)
  then have "set (filter (\<lambda>v. v \<noteq> []) (map TrimSpace (trimmed_set xs))) = set (trimmed_set xs)"
    by auto
  then have "trimmed_set (trimmed_set xs) = sorted_set (trimmed_set xs)"
    unfolding trimmed_set_def [of "trimmed_set xs"] by (rule sorted_set_canonical)
  then show ?thesis by (simp add: trimmed_set_def)
qed

end
