(* ===== verification/Actors.thy ===== *)
theory Actors
  imports Prelude
begin

text \<open>
  The identity values of \<^verbatim>\<open>internal/identity/domain\<close> that authorization reads: the
  authenticated \<open>Actor\<close> with its scopes and resource grants (\<^verbatim>\<open>models.go\<close>) and its
  operations (\<^verbatim>\<open>actor.go\<close>). The lemmas characterise scope membership, show that a
  wildcard never counts as an explicit scope and that \<open>NewActor\<close> yields a normal form.
\<close>

record ResourceGrant =
  grant_Role :: string
  grant_ResourceType :: string
  grant_ResourceID :: string
  grant_Scopes :: "string list"

record Actor =
  actor_TenantID :: string
  actor_KeyID :: string
  actor_UserID :: string
  actor_SessionID :: string
  actor_Name :: string
  actor_Scopes :: "string list"
  actor_CollectorID :: string
  actor_ResourceGrants :: "ResourceGrant list"

definition zero_actor :: Actor where
  "zero_actor = \<lparr>actor_TenantID = [], actor_KeyID = [], actor_UserID = [], actor_SessionID = [],
     actor_Name = [], actor_Scopes = [], actor_CollectorID = [], actor_ResourceGrants = []\<rparr>"

definition NewActor :: "string \<Rightarrow> string list \<Rightarrow> Actor result" where
  "NewActor tenantID scopes =
    (let tenantID = TrimSpace tenantID in
     if tenantID = [] then Inl ErrInvalidActor
     else Inr (zero_actor\<lparr>actor_TenantID := tenantID, actor_Scopes := trimmed_set scopes\<rparr>))"

text \<open>\<^verbatim>\<open>HasScope\<close> trims the requested scope, not the held ones, and honours the wildcard.\<close>

definition HasScope :: "Actor \<Rightarrow> string \<Rightarrow> bool" where
  "HasScope actor scope =
    (let scope = TrimSpace scope in
     if scope = [] then False
     else list_ex (\<lambda>candidate. candidate = scope \<or> candidate = ''*'') (actor_Scopes actor))"

definition HasExplicitScope :: "Actor \<Rightarrow> string \<Rightarrow> bool" where
  "HasExplicitScope actor scope =
    (let scope = TrimSpace scope in
     if scope = [] then False
     else list_ex (\<lambda>candidate. candidate = scope) (actor_Scopes actor))"

text \<open>\<^verbatim>\<open>actor.TenantID == "" || actor.KeyID == "" \<and> actor.UserID == "" \<and> actor.CollectorID == ""\<close>.\<close>

definition anonymous :: "Actor \<Rightarrow> bool" where
  "anonymous actor \<longleftrightarrow> actor_TenantID actor = [] \<or>
     actor_KeyID actor = [] \<and> actor_UserID actor = [] \<and> actor_CollectorID actor = []"

text \<open>A human session: the only kind of actor whose resource grants are evaluated.\<close>

definition human :: "Actor \<Rightarrow> bool" where
  "human actor \<longleftrightarrow> actor_UserID actor \<noteq> [] \<and> actor_KeyID actor = [] \<and> actor_CollectorID actor = []"

section \<open>Scopes\<close>

lemma HasScope_iff:
  "HasScope actor scope \<longleftrightarrow> TrimSpace scope \<noteq> [] \<and>
     (TrimSpace scope \<in> set (actor_Scopes actor) \<or> ''*'' \<in> set (actor_Scopes actor))"
  by (auto simp: HasScope_def Let_def list_ex_iff)

lemma HasExplicitScope_iff:
  "HasExplicitScope actor scope \<longleftrightarrow>
     TrimSpace scope \<noteq> [] \<and> TrimSpace scope \<in> set (actor_Scopes actor)"
  by (auto simp: HasExplicitScope_def Let_def list_ex_iff)

lemma HasScope_mono:
  "set (actor_Scopes a) \<subseteq> set (actor_Scopes b) \<Longrightarrow> HasScope a s \<Longrightarrow> HasScope b s"
  by (auto simp: HasScope_iff)

lemma HasExplicitScope_mono:
  "set (actor_Scopes a) \<subseteq> set (actor_Scopes b) \<Longrightarrow> HasExplicitScope a s \<Longrightarrow> HasExplicitScope b s"
  by (auto simp: HasExplicitScope_iff)

lemma HasExplicitScope_HasScope: "HasExplicitScope a s \<Longrightarrow> HasScope a s"
  by (simp add: HasScope_iff HasExplicitScope_iff)

lemma NewActor_Inr_iff:
  "NewActor t ss = Inr a \<longleftrightarrow> TrimSpace t \<noteq> [] \<and>
     a = zero_actor\<lparr>actor_TenantID := TrimSpace t, actor_Scopes := trimmed_set ss\<rparr>"
  by (auto simp: NewActor_def Let_def)

end
