(* ===== verification/Actions.thy ===== *)
theory Actions
  imports Prelude
begin

text \<open>
  The closed action registry of \<^verbatim>\<open>internal/authz/actions.go\<close>: every registered \<open>Action\<close>
  constant and the capability and ownership boundary that \<open>DefinitionFor\<close> assigns to it.
  An action is a string, as in the code, so an unregistered one is any other string; the
  equations of the constants are collected in \<open>action_ids\<close>.
\<close>

named_theorems action_ids

type_synonym Action = string

definition ActionAPIKeysRead :: Action where [action_ids]: "ActionAPIKeysRead = ''api_keys.read''"
definition ActionAPIKeysManage :: Action where [action_ids]: "ActionAPIKeysManage = ''api_keys.manage''"
definition ActionMembershipsManage :: Action where [action_ids]: "ActionMembershipsManage = ''memberships.manage''"
definition ActionRoleBindingsRead :: Action where [action_ids]: "ActionRoleBindingsRead = ''role_bindings.read''"
definition ActionControlsRead :: Action where [action_ids]: "ActionControlsRead = ''controls.read''"
definition ActionControlsManage :: Action where [action_ids]: "ActionControlsManage = ''controls.manage''"
definition ActionVulnerabilityPostureRead :: Action where [action_ids]: "ActionVulnerabilityPostureRead = ''vulnerability_posture.read''"
definition ActionControlCoverageRead :: Action where [action_ids]: "ActionControlCoverageRead = ''control_coverage.read''"
definition ActionCollectorsRead :: Action where [action_ids]: "ActionCollectorsRead = ''collectors.read''"
definition ActionCommercialCollectorsRead :: Action where [action_ids]: "ActionCommercialCollectorsRead = ''commercial_collectors.read''"
definition ActionCollectorHealthRead :: Action where [action_ids]: "ActionCollectorHealthRead = ''collector_health.read''"
definition ActionCollectorsManage :: Action where [action_ids]: "ActionCollectorsManage = ''collectors.manage''"
definition ActionMarketplaceCollectorsRead :: Action where [action_ids]: "ActionMarketplaceCollectorsRead = ''marketplace_collectors.read''"
definition ActionMarketplaceCollectorsManage :: Action where [action_ids]: "ActionMarketplaceCollectorsManage = ''marketplace_collectors.manage''"
definition ActionSigningCustodyRead :: Action where [action_ids]: "ActionSigningCustodyRead = ''signing_custody.read''"
definition ActionSigningKeysManage :: Action where [action_ids]: "ActionSigningKeysManage = ''signing_keys.manage''"
definition ActionTransparencyMetadataPublish :: Action where [action_ids]: "ActionTransparencyMetadataPublish = ''transparency_metadata.publish''"
definition ActionSigningKeysRead :: Action where [action_ids]: "ActionSigningKeysRead = ''signing_keys.read''"
definition ActionRetentionPoliciesRead :: Action where [action_ids]: "ActionRetentionPoliciesRead = ''retention_policies.read''"
definition ActionRetentionPoliciesManage :: Action where [action_ids]: "ActionRetentionPoliciesManage = ''retention_policies.manage''"
definition ActionRetentionReportRead :: Action where [action_ids]: "ActionRetentionReportRead = ''retention_report.read''"
definition ActionRetentionMarkersManage :: Action where [action_ids]: "ActionRetentionMarkersManage = ''retention_markers.manage''"
definition ActionAuditLogRead :: Action where [action_ids]: "ActionAuditLogRead = ''audit_log.read''"
definition ActionTenantMetricsRead :: Action where [action_ids]: "ActionTenantMetricsRead = ''tenant_metrics.read''"
definition ActionReportTemplatesManage :: Action where [action_ids]: "ActionReportTemplatesManage = ''report_templates.manage''"
definition ActionBundleImport :: Action where [action_ids]: "ActionBundleImport = ''bundle.import''"
definition ActionQuestionnaireTemplatesManage :: Action where [action_ids]: "ActionQuestionnaireTemplatesManage = ''questionnaire_templates.manage''"
definition ActionRedactionProfilesManage :: Action where [action_ids]: "ActionRedactionProfilesManage = ''redaction_profiles.manage''"
definition ActionInstanceSnapshotRead :: Action where [action_ids]: "ActionInstanceSnapshotRead = ''instance_snapshot.read''"
definition ActionInstanceReadinessRead :: Action where [action_ids]: "ActionInstanceReadinessRead = ''instance_readiness.read''"
definition ActionInstanceMetricsRead :: Action where [action_ids]: "ActionInstanceMetricsRead = ''instance_metrics.read''"
definition ActionOutboxDiagnosticsRead :: Action where [action_ids]: "ActionOutboxDiagnosticsRead = ''outbox_diagnostics.read''"
definition ActionOutboxReplay :: Action where [action_ids]: "ActionOutboxReplay = ''outbox.replay''"
definition ActionSaaSProfilesManage :: Action where [action_ids]: "ActionSaaSProfilesManage = ''saas_profiles.manage''"
definition ActionTenantSubjectVerify :: Action where [action_ids]: "ActionTenantSubjectVerify = ''tenant_subject.verify''"
definition ActionBackupGenerate :: Action where [action_ids]: "ActionBackupGenerate = ''backup.generate''"
definition ActionProductsRead :: Action where [action_ids]: "ActionProductsRead = ''products.read''"
definition ActionProductsCreate :: Action where [action_ids]: "ActionProductsCreate = ''products.create''"
definition ActionProjectsRead :: Action where [action_ids]: "ActionProjectsRead = ''projects.read''"
definition ActionProjectsCreate :: Action where [action_ids]: "ActionProjectsCreate = ''projects.create''"
definition ActionReleasesRead :: Action where [action_ids]: "ActionReleasesRead = ''releases.read''"
definition ActionReleasesManage :: Action where [action_ids]: "ActionReleasesManage = ''releases.manage''"
definition ActionBuildsRead :: Action where [action_ids]: "ActionBuildsRead = ''builds.read''"
definition ActionBuildsCreate :: Action where [action_ids]: "ActionBuildsCreate = ''builds.create''"
definition ActionBuildAttestationsCreate :: Action where [action_ids]: "ActionBuildAttestationsCreate = ''build_attestations.create''"
definition ActionReleaseCandidatesCreate :: Action where [action_ids]: "ActionReleaseCandidatesCreate = ''release_candidates.create''"
definition ActionReleaseCandidatesRead :: Action where [action_ids]: "ActionReleaseCandidatesRead = ''release_candidates.read''"
definition ActionEnvironmentsRead :: Action where [action_ids]: "ActionEnvironmentsRead = ''environments.read''"
definition ActionEnvironmentsCreate :: Action where [action_ids]: "ActionEnvironmentsCreate = ''environments.create''"
definition ActionDeploymentsRead :: Action where [action_ids]: "ActionDeploymentsRead = ''deployments.read''"
definition ActionDeploymentsRecord :: Action where [action_ids]: "ActionDeploymentsRecord = ''deployments.record''"
definition ActionIncidentsManage :: Action where [action_ids]: "ActionIncidentsManage = ''incidents.manage''"
definition ActionVulnerabilityDecisionsRecord :: Action where [action_ids]: "ActionVulnerabilityDecisionsRecord = ''vulnerability_decisions.record''"
definition ActionApprovalsRecord :: Action where [action_ids]: "ActionApprovalsRecord = ''approvals.record''"
definition ActionWaiversManage :: Action where [action_ids]: "ActionWaiversManage = ''waivers.manage''"
definition ActionExceptionsManage :: Action where [action_ids]: "ActionExceptionsManage = ''exceptions.manage''"
definition ActionVulnerabilityWorkflowsRecord :: Action where [action_ids]: "ActionVulnerabilityWorkflowsRecord = ''vulnerability_workflows.record''"
definition ActionPolicyEvaluationsCreate :: Action where [action_ids]: "ActionPolicyEvaluationsCreate = ''policy_evaluations.create''"
definition ActionCustomPoliciesCreate :: Action where [action_ids]: "ActionCustomPoliciesCreate = ''custom_policies.create''"
definition ActionCustomPoliciesEvaluate :: Action where [action_ids]: "ActionCustomPoliciesEvaluate = ''custom_policies.evaluate''"
definition ActionVulnerabilityDecisionsRead :: Action where [action_ids]: "ActionVulnerabilityDecisionsRead = ''vulnerability_decisions.read''"
definition ActionExceptionsRead :: Action where [action_ids]: "ActionExceptionsRead = ''exceptions.read''"
definition ActionControlEvidenceRead :: Action where [action_ids]: "ActionControlEvidenceRead = ''control_evidence.read''"
definition ActionVulnerabilityDecisionSummaryRead :: Action where [action_ids]: "ActionVulnerabilityDecisionSummaryRead = ''vulnerability_decision_summary.read''"
definition ActionReleaseReadinessRead :: Action where [action_ids]: "ActionReleaseReadinessRead = ''release_readiness.read''"
definition ActionReleaseSecuritySummaryRead :: Action where [action_ids]: "ActionReleaseSecuritySummaryRead = ''release_security_summary.read''"
definition ActionControlTemplatesRead :: Action where [action_ids]: "ActionControlTemplatesRead = ''control_templates.read''"
definition ActionControlEvidenceLink :: Action where [action_ids]: "ActionControlEvidenceLink = ''control_evidence.link''"
definition ActionArtifactsWrite :: Action where [action_ids]: "ActionArtifactsWrite = ''artifacts.write''"
definition ActionArtifactsRead :: Action where [action_ids]: "ActionArtifactsRead = ''artifacts.read''"
definition ActionEvidenceWrite :: Action where [action_ids]: "ActionEvidenceWrite = ''evidence.write''"
definition ActionSecurityEvidenceWrite :: Action where [action_ids]: "ActionSecurityEvidenceWrite = ''security_evidence.write''"
definition ActionEvidenceRead :: Action where [action_ids]: "ActionEvidenceRead = ''evidence.read''"
definition ActionSBOMsRead :: Action where [action_ids]: "ActionSBOMsRead = ''sboms.read''"
definition ActionVEXDocumentsRead :: Action where [action_ids]: "ActionVEXDocumentsRead = ''vex_documents.read''"
definition ActionOpenAPIContractsRead :: Action where [action_ids]: "ActionOpenAPIContractsRead = ''openapi_contracts.read''"
definition ActionVulnerabilityScansRead :: Action where [action_ids]: "ActionVulnerabilityScansRead = ''vulnerability_scans.read''"
definition ActionEvidenceLifecycleRead :: Action where [action_ids]: "ActionEvidenceLifecycleRead = ''evidence_lifecycle.read''"
definition ActionSBOMComponentsRead :: Action where [action_ids]: "ActionSBOMComponentsRead = ''sbom_components.read''"
definition ActionVEXPreviewRead :: Action where [action_ids]: "ActionVEXPreviewRead = ''vex_preview.read''"
definition ActionEvidenceDiffsCreate :: Action where [action_ids]: "ActionEvidenceDiffsCreate = ''evidence_diffs.create''"
definition ActionSourceRepositoriesCreate :: Action where [action_ids]: "ActionSourceRepositoriesCreate = ''source_repositories.create''"
definition ActionSourceCommitsRecord :: Action where [action_ids]: "ActionSourceCommitsRecord = ''source_commits.record''"
definition ActionSourceBranchesUpsert :: Action where [action_ids]: "ActionSourceBranchesUpsert = ''source_branches.upsert''"
definition ActionPullRequestsRecord :: Action where [action_ids]: "ActionPullRequestsRecord = ''pull_requests.record''"
definition ActionSourceSnapshotsRecord :: Action where [action_ids]: "ActionSourceSnapshotsRecord = ''source_snapshots.record''"
definition ActionSourceRepositoriesRead :: Action where [action_ids]: "ActionSourceRepositoriesRead = ''source_repositories.read''"
definition ActionEvidenceVerify :: Action where [action_ids]: "ActionEvidenceVerify = ''evidence.verify''"
definition ActionDSSEVerify :: Action where [action_ids]: "ActionDSSEVerify = ''dsse.verify''"
definition ActionAuditChainVerify :: Action where [action_ids]: "ActionAuditChainVerify = ''audit_chain.verify''"
definition ActionMerkleBatchVerify :: Action where [action_ids]: "ActionMerkleBatchVerify = ''merkle_batch.verify''"
definition ActionMerkleCheckpointVerify :: Action where [action_ids]: "ActionMerkleCheckpointVerify = ''merkle_checkpoint.verify''"
definition ActionReleaseManifestCheckpointVerify :: Action where [action_ids]: "ActionReleaseManifestCheckpointVerify = ''release_manifest_checkpoint.verify''"
definition ActionBackupManifestVerify :: Action where [action_ids]: "ActionBackupManifestVerify = ''backup_manifest.verify''"
definition ActionReleaseBundleVerify :: Action where [action_ids]: "ActionReleaseBundleVerify = ''release_bundle.verify''"
definition ActionCosignVerify :: Action where [action_ids]: "ActionCosignVerify = ''cosign.verify''"
definition ActionArtifactSignatureVerify :: Action where [action_ids]: "ActionArtifactSignatureVerify = ''artifact_signature.verify''"
definition ActionSubjectVerificationDispatch :: Action where [action_ids]: "ActionSubjectVerificationDispatch = ''subject_verification.dispatch''"
definition ActionArtifactSignaturesRead :: Action where [action_ids]: "ActionArtifactSignaturesRead = ''artifact_signatures.read''"
definition ActionReleaseVulnerabilityPostureRead :: Action where [action_ids]: "ActionReleaseVulnerabilityPostureRead = ''release_vulnerability_posture.read''"
definition ActionControlCoverageReportRead :: Action where [action_ids]: "ActionControlCoverageReportRead = ''control_coverage_report.read''"
definition ActionCRAReadinessReportRead :: Action where [action_ids]: "ActionCRAReadinessReportRead = ''cra_readiness_report.read''"
definition ActionCRAVulnerabilityHandlingRead :: Action where [action_ids]: "ActionCRAVulnerabilityHandlingRead = ''cra_vulnerability_handling.read''"
definition ActionReleaseReadinessReportRead :: Action where [action_ids]: "ActionReleaseReadinessReportRead = ''release_readiness_report.read''"
definition ActionSecurityUpdateEvidenceRead :: Action where [action_ids]: "ActionSecurityUpdateEvidenceRead = ''security_update_evidence.read''"
definition ActionIncidentReportRead :: Action where [action_ids]: "ActionIncidentReportRead = ''incident_report.read''"
definition ActionCRAReadinessHTMLGenerate :: Action where [action_ids]: "ActionCRAReadinessHTMLGenerate = ''cra_readiness_html.generate''"
definition ActionPDFReportsGenerate :: Action where [action_ids]: "ActionPDFReportsGenerate = ''pdf_reports.generate''"
definition ActionGraphSnapshotsCreate :: Action where [action_ids]: "ActionGraphSnapshotsCreate = ''graph_snapshots.create''"
definition ActionQuestionnaireDraftsCreate :: Action where [action_ids]: "ActionQuestionnaireDraftsCreate = ''questionnaire_drafts.create''"
definition ActionAnswerLibraryEntriesCreate :: Action where [action_ids]: "ActionAnswerLibraryEntriesCreate = ''answer_library_entries.create''"
definition ActionQuestionnairePackagesCreate :: Action where [action_ids]: "ActionQuestionnairePackagesCreate = ''questionnaire_packages.create''"
definition ActionCustomerPackagesCreate :: Action where [action_ids]: "ActionCustomerPackagesCreate = ''customer_packages.create''"
definition ActionCustomerPackagesAccess :: Action where [action_ids]: "ActionCustomerPackagesAccess = ''customer_packages.access''"
definition ActionPortalAccessManage :: Action where [action_ids]: "ActionPortalAccessManage = ''portal_access.manage''"
definition ActionAnswerLibraryEntriesRead :: Action where [action_ids]: "ActionAnswerLibraryEntriesRead = ''answer_library_entries.read''"
definition ActionPortalAccessRead :: Action where [action_ids]: "ActionPortalAccessRead = ''portal_access.read''"
definition ActionReleaseBundlesRead :: Action where [action_ids]: "ActionReleaseBundlesRead = ''release_bundles.read''"
definition ActionEvidenceSummariesCreate :: Action where [action_ids]: "ActionEvidenceSummariesCreate = ''evidence_summaries.create''"
definition ActionEvidenceBundlesExport :: Action where [action_ids]: "ActionEvidenceBundlesExport = ''evidence_bundles.export''"
definition ActionReleaseBundlesCreate :: Action where [action_ids]: "ActionReleaseBundlesCreate = ''release_bundles.create''"
definition ActionTrustConfigurationsManage :: Action where [action_ids]: "ActionTrustConfigurationsManage = ''trust_configurations.manage''"
definition ActionSigningOperationsCreate :: Action where [action_ids]: "ActionSigningOperationsCreate = ''signing_operations.create''"
definition ActionMerkleBatchesCreate :: Action where [action_ids]: "ActionMerkleBatchesCreate = ''merkle_batches.create''"
definition ActionTransparencyCheckpointsRecord :: Action where [action_ids]: "ActionTransparencyCheckpointsRecord = ''transparency_checkpoints.record''"
definition ActionAnomalyReportsGenerate :: Action where [action_ids]: "ActionAnomalyReportsGenerate = ''anomaly_reports.generate''"
definition ActionSSOSessionsLogout :: Action where [action_ids]: "ActionSSOSessionsLogout = ''sso_sessions.logout''"
definition ActionPortalPackagesRead :: Action where [action_ids]: "ActionPortalPackagesRead = ''portal_packages.read''"
definition ActionPortalPackagesDownload :: Action where [action_ids]: "ActionPortalPackagesDownload = ''portal_packages.download''"
definition ActionSignedIncidentWebhookRecord :: Action where [action_ids]: "ActionSignedIncidentWebhookRecord = ''incident_webhooks.record''"
definition ActionSSOCredentialsExchange :: Action where [action_ids]: "ActionSSOCredentialsExchange = ''sso_credentials.exchange''"

section \<open>Boundaries and definitions\<close>

datatype Boundary =
    TenantBoundary
  | InstanceBoundary
  | ResourceBoundary
  | CredentialBoundary
  | SelfSessionBoundary
  | PackageTokenBoundary
  | SignedWebhookBoundary
  | VerifiedIdentityBoundary

record Definition =
  def_Scope :: string
  def_Boundary :: Boundary

definition definition_cases :: "(Action list \<times> Definition) list" where
  "definition_cases =
    [([ActionSSOCredentialsExchange],
       \<lparr>def_Scope = [], def_Boundary = VerifiedIdentityBoundary\<rparr>),
     ([ActionSignedIncidentWebhookRecord],
       \<lparr>def_Scope = [], def_Boundary = SignedWebhookBoundary\<rparr>),
     ([ActionPortalPackagesRead, ActionPortalPackagesDownload],
       \<lparr>def_Scope = [], def_Boundary = PackageTokenBoundary\<rparr>),
     ([ActionSSOSessionsLogout],
       \<lparr>def_Scope = [], def_Boundary = SelfSessionBoundary\<rparr>),
     ([ActionAnomalyReportsGenerate],
       \<lparr>def_Scope = ''report:read'', def_Boundary = ResourceBoundary\<rparr>),
     ([ActionTrustConfigurationsManage, ActionSigningOperationsCreate,
        ActionMerkleBatchesCreate, ActionTransparencyCheckpointsRecord],
       \<lparr>def_Scope = ''keys:admin'', def_Boundary = TenantBoundary\<rparr>),
     ([ActionAnswerLibraryEntriesRead, ActionPortalAccessRead],
       \<lparr>def_Scope = ''package:read'', def_Boundary = ResourceBoundary\<rparr>),
     ([ActionReleaseBundlesRead, ActionEvidenceBundlesExport],
       \<lparr>def_Scope = ''bundle:read'', def_Boundary = ResourceBoundary\<rparr>),
     ([ActionEvidenceSummariesCreate],
       \<lparr>def_Scope = ''report:read'', def_Boundary = ResourceBoundary\<rparr>),
     ([ActionReleaseBundlesCreate],
       \<lparr>def_Scope = ''bundle:write'', def_Boundary = ResourceBoundary\<rparr>),
     ([ActionCRAReadinessHTMLGenerate, ActionPDFReportsGenerate],
       \<lparr>def_Scope = ''report:read'', def_Boundary = ResourceBoundary\<rparr>),
     ([ActionGraphSnapshotsCreate],
       \<lparr>def_Scope = ''evidence:read'', def_Boundary = ResourceBoundary\<rparr>),
     ([ActionQuestionnaireDraftsCreate, ActionCustomerPackagesAccess],
       \<lparr>def_Scope = ''package:read'', def_Boundary = ResourceBoundary\<rparr>),
     ([ActionAnswerLibraryEntriesCreate, ActionQuestionnairePackagesCreate,
        ActionCustomerPackagesCreate, ActionPortalAccessManage],
       \<lparr>def_Scope = ''package:write'', def_Boundary = ResourceBoundary\<rparr>),
     ([ActionReleaseVulnerabilityPostureRead],
       \<lparr>def_Scope = ''security:read'', def_Boundary = ResourceBoundary\<rparr>),
     ([ActionControlCoverageReportRead, ActionCRAReadinessReportRead,
        ActionCRAVulnerabilityHandlingRead, ActionSecurityUpdateEvidenceRead],
       \<lparr>def_Scope = ''report:read'', def_Boundary = ResourceBoundary\<rparr>),
     ([ActionReleaseReadinessReportRead],
       \<lparr>def_Scope = ''verify:read'', def_Boundary = ResourceBoundary\<rparr>),
     ([ActionIncidentReportRead],
       \<lparr>def_Scope = ''incident:read'', def_Boundary = ResourceBoundary\<rparr>),
     ([ActionEvidenceVerify, ActionDSSEVerify, ActionAuditChainVerify,
        ActionMerkleBatchVerify, ActionMerkleCheckpointVerify,
        ActionReleaseManifestCheckpointVerify, ActionBackupManifestVerify,
        ActionReleaseBundleVerify, ActionCosignVerify, ActionArtifactSignatureVerify,
        ActionSubjectVerificationDispatch],
       \<lparr>def_Scope = ''verify:read'', def_Boundary = ResourceBoundary\<rparr>),
     ([ActionArtifactSignaturesRead],
       \<lparr>def_Scope = ''evidence:read'', def_Boundary = ResourceBoundary\<rparr>),
     ([ActionSourceRepositoriesCreate, ActionSourceCommitsRecord,
        ActionSourceBranchesUpsert, ActionPullRequestsRecord, ActionSourceSnapshotsRecord],
       \<lparr>def_Scope = ''source:write'', def_Boundary = ResourceBoundary\<rparr>),
     ([ActionSourceRepositoriesRead],
       \<lparr>def_Scope = ''source:read'', def_Boundary = ResourceBoundary\<rparr>),
     ([ActionAPIKeysRead, ActionAPIKeysManage, ActionRetentionPoliciesManage,
        ActionRetentionReportRead, ActionRetentionMarkersManage, ActionAuditLogRead,
        ActionTenantMetricsRead, ActionBackupGenerate],
       \<lparr>def_Scope = ''admin'', def_Boundary = TenantBoundary\<rparr>),
     ([ActionMembershipsManage, ActionRoleBindingsRead],
       \<lparr>def_Scope = ''identity:admin'', def_Boundary = TenantBoundary\<rparr>),
     ([ActionControlsRead],
       \<lparr>def_Scope = ''controls:read'', def_Boundary = TenantBoundary\<rparr>),
     ([ActionControlsManage],
       \<lparr>def_Scope = ''controls:admin'', def_Boundary = TenantBoundary\<rparr>),
     ([ActionVulnerabilityPostureRead],
       \<lparr>def_Scope = ''security:read'', def_Boundary = TenantBoundary\<rparr>),
     ([ActionControlCoverageRead, ActionReportTemplatesManage],
       \<lparr>def_Scope = ''report:read'', def_Boundary = TenantBoundary\<rparr>),
     ([ActionCollectorsRead, ActionCommercialCollectorsRead, ActionCollectorHealthRead,
        ActionMarketplaceCollectorsRead],
       \<lparr>def_Scope = ''collector:read'', def_Boundary = TenantBoundary\<rparr>),
     ([ActionCollectorsManage, ActionMarketplaceCollectorsManage],
       \<lparr>def_Scope = ''collector:admin'', def_Boundary = TenantBoundary\<rparr>),
     ([ActionSigningCustodyRead, ActionSigningKeysManage,
        ActionTransparencyMetadataPublish],
       \<lparr>def_Scope = ''keys:admin'', def_Boundary = TenantBoundary\<rparr>),
     ([ActionSigningKeysRead, ActionRetentionPoliciesRead, ActionTenantSubjectVerify],
       \<lparr>def_Scope = ''verify:read'', def_Boundary = TenantBoundary\<rparr>),
     ([ActionBundleImport],
       \<lparr>def_Scope = ''bundle:write'', def_Boundary = TenantBoundary\<rparr>),
     ([ActionQuestionnaireTemplatesManage, ActionRedactionProfilesManage],
       \<lparr>def_Scope = ''package:write'', def_Boundary = TenantBoundary\<rparr>),
     ([ActionInstanceSnapshotRead, ActionInstanceReadinessRead,
        ActionInstanceMetricsRead, ActionOutboxDiagnosticsRead, ActionOutboxReplay,
        ActionSaaSProfilesManage],
       \<lparr>def_Scope = ''instance:admin'', def_Boundary = InstanceBoundary\<rparr>),
     ([ActionProductsRead],
       \<lparr>def_Scope = ''product:read'', def_Boundary = ResourceBoundary\<rparr>),
     ([ActionProductsCreate],
       \<lparr>def_Scope = ''product:write'', def_Boundary = TenantBoundary\<rparr>),
     ([ActionProjectsRead],
       \<lparr>def_Scope = ''project:read'', def_Boundary = ResourceBoundary\<rparr>),
     ([ActionProjectsCreate],
       \<lparr>def_Scope = ''project:write'', def_Boundary = ResourceBoundary\<rparr>),
     ([ActionReleasesRead, ActionReleaseCandidatesRead],
       \<lparr>def_Scope = ''release:read'', def_Boundary = ResourceBoundary\<rparr>),
     ([ActionReleasesManage],
       \<lparr>def_Scope = ''release:write'', def_Boundary = ResourceBoundary\<rparr>),
     ([ActionBuildsRead],
       \<lparr>def_Scope = ''build:read'', def_Boundary = ResourceBoundary\<rparr>),
     ([ActionBuildsCreate],
       \<lparr>def_Scope = ''build:write'', def_Boundary = ResourceBoundary\<rparr>),
     ([ActionBuildAttestationsCreate],
       \<lparr>def_Scope = ''build:write'', def_Boundary = ResourceBoundary\<rparr>),
     ([ActionReleaseCandidatesCreate],
       \<lparr>def_Scope = ''release:write'', def_Boundary = ResourceBoundary\<rparr>),
     ([ActionEnvironmentsRead, ActionDeploymentsRead],
       \<lparr>def_Scope = ''deployment:read'', def_Boundary = ResourceBoundary\<rparr>),
     ([ActionEnvironmentsCreate, ActionDeploymentsRecord],
       \<lparr>def_Scope = ''deployment:write'', def_Boundary = ResourceBoundary\<rparr>),
     ([ActionIncidentsManage],
       \<lparr>def_Scope = ''incident:write'', def_Boundary = ResourceBoundary\<rparr>),
     ([ActionVulnerabilityDecisionsRecord],
       \<lparr>def_Scope = ''evidence:write'', def_Boundary = ResourceBoundary\<rparr>),
     ([ActionApprovalsRecord, ActionExceptionsManage],
       \<lparr>def_Scope = ''release:write'', def_Boundary = ResourceBoundary\<rparr>),
     ([ActionWaiversManage, ActionCustomPoliciesCreate],
       \<lparr>def_Scope = ''policy:write'', def_Boundary = ResourceBoundary\<rparr>),
     ([ActionVulnerabilityWorkflowsRecord],
       \<lparr>def_Scope = ''security:write'', def_Boundary = ResourceBoundary\<rparr>),
     ([ActionPolicyEvaluationsCreate],
       \<lparr>def_Scope = ''verify:read'', def_Boundary = ResourceBoundary\<rparr>),
     ([ActionCustomPoliciesEvaluate],
       \<lparr>def_Scope = ''policy:read'', def_Boundary = ResourceBoundary\<rparr>),
     ([ActionVulnerabilityDecisionsRead],
       \<lparr>def_Scope = ''evidence:read'', def_Boundary = ResourceBoundary\<rparr>),
     ([ActionExceptionsRead, ActionReleaseReadinessRead],
       \<lparr>def_Scope = ''verify:read'', def_Boundary = ResourceBoundary\<rparr>),
     ([ActionControlEvidenceRead],
       \<lparr>def_Scope = ''controls:read'', def_Boundary = ResourceBoundary\<rparr>),
     ([ActionControlEvidenceLink],
       \<lparr>def_Scope = ''controls:write'', def_Boundary = ResourceBoundary\<rparr>),
     ([ActionVulnerabilityDecisionSummaryRead, ActionReleaseSecuritySummaryRead],
       \<lparr>def_Scope = ''report:read'', def_Boundary = ResourceBoundary\<rparr>),
     ([ActionControlTemplatesRead],
       \<lparr>def_Scope = ''controls:read'', def_Boundary = CredentialBoundary\<rparr>),
     ([ActionArtifactsWrite, ActionEvidenceWrite],
       \<lparr>def_Scope = ''evidence:write'', def_Boundary = ResourceBoundary\<rparr>),
     ([ActionSecurityEvidenceWrite],
       \<lparr>def_Scope = ''security:write'', def_Boundary = ResourceBoundary\<rparr>),
     ([ActionArtifactsRead, ActionEvidenceRead, ActionSBOMsRead, ActionVEXDocumentsRead,
        ActionOpenAPIContractsRead, ActionVulnerabilityScansRead,
        ActionEvidenceLifecycleRead, ActionSBOMComponentsRead, ActionVEXPreviewRead,
        ActionEvidenceDiffsCreate],
       \<lparr>def_Scope = ''evidence:read'', def_Boundary = ResourceBoundary\<rparr>)]"

text \<open>The \<^verbatim>\<open>switch\<close> of \<^verbatim>\<open>DefinitionFor\<close>: the first case that lists the action, none by default.\<close>

definition DefinitionFor :: "Action \<Rightarrow> Definition option" where
  "DefinitionFor action = switch_lookup definition_cases action"

section \<open>Facts of the registry\<close>

lemma DefinitionFor_case:
  "DefinitionFor action = Some d \<Longrightarrow> \<exists>ks. (ks, d) \<in> set definition_cases"
  unfolding DefinitionFor_def by (blast dest: switch_lookup_Some)

text \<open>Instance authority has exactly one capability, and it is used for nothing else.\<close>

lemma DefinitionFor_instance:
  "DefinitionFor action = Some d \<Longrightarrow>
     def_Boundary d = InstanceBoundary \<longleftrightarrow> def_Scope d = ''instance:admin''"
proof -
  assume "DefinitionFor action = Some d"
  then obtain ks where "(ks, d) \<in> set definition_cases" by (blast dest: DefinitionFor_case)
  moreover have "list_all (\<lambda>(ks, d). def_Boundary d = InstanceBoundary \<longleftrightarrow>
      def_Scope d = ''instance:admin'') definition_cases"
    by (simp add: definition_cases_def)
  ultimately show ?thesis by (auto simp: list_all_iff)
qed

lemma DefinitionFor_scope:
  assumes "DefinitionFor action = Some d" and "def_Boundary d \<in> {TenantBoundary, InstanceBoundary, ResourceBoundary, CredentialBoundary}"
  shows "edge_safe (def_Scope d) \<and> def_Scope d \<noteq> ''*''"
proof -
  from assms(1) obtain ks where "(ks, d) \<in> set definition_cases" by (blast dest: DefinitionFor_case)
  moreover have "list_all (\<lambda>(ks, d). def_Boundary d \<in> {TenantBoundary, InstanceBoundary, ResourceBoundary, CredentialBoundary} \<longrightarrow>
      edge_safe (def_Scope d) \<and> def_Scope d \<noteq> ''*'') definition_cases"
    by (simp add: definition_cases_def edge_safe_def graphic_def byte_def)
  ultimately show ?thesis using assms(2) by (auto simp: list_all_iff)
qed

end
