(* ===== verification/Resource_Policy.thy ===== *)
theory Resource_Policy
  imports Actors Actions
begin

text \<open>
  Resource coordinates and the rules that interpret them: \<open>ResourceReferences\<close> of
  \<^verbatim>\<open>internal/authz/policy.go\<close>, the current-grant evaluator of \<^verbatim>\<open>grants.go\<close>, the coordinate
  shapes of \<^verbatim>\<open>resource_policy.go\<close> and \<^verbatim>\<open>catalog_policy.go\<close>, and the package grants of
  \<^verbatim>\<open>package_policy.go\<close>. The lemmas give the logical content of the grant evaluator, its
  monotonicity, and the coordinates that no accepted shape may carry.
\<close>

record ResourceReferences =
  ref_TenantID :: string
  ref_OrganizationID :: string
  ref_ProductID :: string
  ref_ProjectID :: string
  ref_ReleaseID :: string
  ref_ArtifactID :: string
  ref_BuildID :: string
  ref_DeploymentID :: string
  ref_EnvironmentID :: string
  ref_CustomerPackageID :: string

text \<open>The zero value \<^verbatim>\<open>ResourceReferences{}\<close>.\<close>

definition no_refs :: ResourceReferences where
  "no_refs = \<lparr>ref_TenantID = [], ref_OrganizationID = [], ref_ProductID = [], ref_ProjectID = [],
     ref_ReleaseID = [], ref_ArtifactID = [], ref_BuildID = [], ref_DeploymentID = [],
     ref_EnvironmentID = [], ref_CustomerPackageID = []\<rparr>"

section \<open>Grants\<close>

definition grantHasCapability :: "ResourceGrant \<Rightarrow> string \<Rightarrow> bool" where
  "grantHasCapability grant scope =
    list_ex (\<lambda>granted. granted = scope \<or> granted = ''admin'' \<or> granted = ''*'') (grant_Scopes grant)"

text \<open>The \<^verbatim>\<open>switch grant.ResourceType\<close> of \<^verbatim>\<open>authorizeCurrentGrant\<close>.\<close>

definition grantCovers :: "string \<Rightarrow> ResourceReferences \<Rightarrow> bool \<Rightarrow> ResourceGrant \<Rightarrow> bool" where
  "grantCovers tenant refs tenantWide grant =
    (let ty = grant_ResourceType grant; rid = grant_ResourceID grant in
     if ty = [] \<or> ty = ''tenant'' then rid = [] \<or> rid = tenant
     else if ty = ''product'' then \<not> tenantWide \<and> ref_ProductID refs \<noteq> [] \<and> rid = ref_ProductID refs
     else if ty = ''project'' then \<not> tenantWide \<and> ref_ProjectID refs \<noteq> [] \<and> rid = ref_ProjectID refs
     else if ty = ''release'' then \<not> tenantWide \<and> ref_ReleaseID refs \<noteq> [] \<and> rid = ref_ReleaseID refs
     else False)"

fun grantLoop :: "string \<Rightarrow> string \<Rightarrow> ResourceReferences \<Rightarrow> bool \<Rightarrow> ResourceGrant list \<Rightarrow> error option" where
  "grantLoop tenant scope refs tenantWide [] = Some ErrForbidden"
| "grantLoop tenant scope refs tenantWide (grant # rest) =
    (if \<not> grantHasCapability grant scope then grantLoop tenant scope refs tenantWide rest
     else if grantCovers tenant refs tenantWide grant then None
     else grantLoop tenant scope refs tenantWide rest)"

definition authorizeCurrentGrant :: "Actor \<Rightarrow> string \<Rightarrow> ResourceReferences \<Rightarrow> bool \<Rightarrow> error option" where
  "authorizeCurrentGrant actor scope refs tenantWide =
    (if actor_UserID actor = [] \<or> actor_KeyID actor \<noteq> [] \<or> actor_CollectorID actor \<noteq> [] then None
     else grantLoop (actor_TenantID actor) scope refs tenantWide (actor_ResourceGrants actor))"

definition package_grant_actions :: "Action list" where
  "package_grant_actions = [ActionCustomerPackagesAccess, ActionPortalAccessRead, ActionPortalAccessManage,
     ActionQuestionnairePackagesCreate, ActionEvidenceSummariesCreate, ActionAnomalyReportsGenerate]"

definition authorizePackageGrant :: "Actor \<Rightarrow> string \<Rightarrow> Action \<Rightarrow> ResourceReferences \<Rightarrow> error option" where
  "authorizePackageGrant actor scope action refs =
    (if action \<notin> set package_grant_actions then Some ErrForbidden
     else if ref_CustomerPackageID refs = [] then Some ErrForbidden
     else if list_ex (\<lambda>grant. grant_ResourceType grant = ''customer_security_package'' \<and>
            grant_ResourceID grant = ref_CustomerPackageID refs \<and> grantHasCapability grant scope)
          (actor_ResourceGrants actor) then None
     else Some ErrForbidden)"

section \<open>Coordinate shapes\<close>

definition tenant_evaluation_actions :: "Action list" where
  "tenant_evaluation_actions =
      [ActionAnswerLibraryEntriesRead, ActionPortalAccessRead,
        ActionEvidenceSummariesCreate, ActionAnomalyReportsGenerate,
        ActionPDFReportsGenerate, ActionGraphSnapshotsCreate,
        ActionQuestionnaireDraftsCreate, ActionAnswerLibraryEntriesCreate,
        ActionQuestionnairePackagesCreate, ActionControlCoverageReportRead,
        ActionEvidenceVerify, ActionDSSEVerify, ActionAuditChainVerify,
        ActionMerkleBatchVerify, ActionMerkleCheckpointVerify,
        ActionReleaseManifestCheckpointVerify, ActionBackupManifestVerify,
        ActionArtifactSignaturesRead, ActionSourceRepositoriesCreate,
        ActionSourceCommitsRecord, ActionSourceBranchesUpsert, ActionPullRequestsRecord,
        ActionSourceSnapshotsRecord, ActionSourceRepositoriesRead, ActionProductsRead,
        ActionProjectsRead, ActionProjectsCreate, ActionReleasesRead,
        ActionReleasesManage, ActionBuildsRead, ActionBuildsCreate,
        ActionBuildAttestationsCreate, ActionReleaseCandidatesCreate,
        ActionReleaseCandidatesRead, ActionArtifactsRead, ActionEnvironmentsRead,
        ActionDeploymentsRead, ActionIncidentsManage, ActionApprovalsRecord,
        ActionWaiversManage, ActionVulnerabilityWorkflowsRecord,
        ActionCustomPoliciesCreate, ActionVulnerabilityDecisionsRead,
        ActionExceptionsRead, ActionControlEvidenceRead,
        ActionVulnerabilityDecisionSummaryRead, ActionReleaseReadinessRead,
        ActionReleaseSecuritySummaryRead, ActionControlEvidenceLink, ActionEvidenceRead,
        ActionSBOMsRead, ActionVEXDocumentsRead, ActionOpenAPIContractsRead,
        ActionVulnerabilityScansRead, ActionEvidenceLifecycleRead,
        ActionSBOMComponentsRead, ActionVEXPreviewRead]"

definition allowsTenantResourceEvaluation :: "Action \<Rightarrow> bool" where
  "allowsTenantResourceEvaluation action \<longleftrightarrow> action \<in> set tenant_evaluation_actions"

definition catalog_cases :: "(Action list \<times> (ResourceReferences \<Rightarrow> bool)) list" where
  "catalog_cases =
    [([ActionProductsRead, ActionProjectsCreate],
       \<lambda>refs. ref_ProductID refs \<noteq> [] \<and>
         refs = no_refs\<lparr>ref_ProductID := ref_ProductID refs\<rparr>),
     ([ActionReleasesManage],
       \<lambda>refs. ref_ProductID refs \<noteq> [] \<and>
         (refs = no_refs\<lparr>ref_ProductID := ref_ProductID refs\<rparr> \<or>
         ref_ReleaseID refs \<noteq> [] \<and> refs = no_refs\<lparr>ref_ProductID := ref_ProductID refs,
         ref_ReleaseID := ref_ReleaseID refs\<rparr>)),
     ([ActionProjectsRead],
       \<lambda>refs. ref_ProductID refs \<noteq> [] \<and> ref_ProjectID refs \<noteq> [] \<and>
         refs = no_refs\<lparr>ref_ProductID := ref_ProductID refs,
         ref_ProjectID := ref_ProjectID refs\<rparr>),
     ([ActionReleasesRead, ActionReleaseCandidatesRead, ActionReleaseCandidatesCreate],
       \<lambda>refs. ref_ProductID refs \<noteq> [] \<and> ref_ReleaseID refs \<noteq> [] \<and>
         refs = no_refs\<lparr>ref_ProductID := ref_ProductID refs,
         ref_ReleaseID := ref_ReleaseID refs\<rparr>),
     ([ActionBuildsRead, ActionBuildAttestationsCreate],
       \<lambda>refs. ref_ProductID refs \<noteq> [] \<and> ref_ProjectID refs \<noteq> [] \<and>
         ref_ReleaseID refs \<noteq> [] \<and> ref_BuildID refs \<noteq> [] \<and>
         refs = no_refs\<lparr>ref_ProductID := ref_ProductID refs, ref_ProjectID := ref_ProjectID refs,
         ref_ReleaseID := ref_ReleaseID refs, ref_BuildID := ref_BuildID refs\<rparr>),
     ([ActionBuildsCreate],
       \<lambda>refs. ref_ProductID refs \<noteq> [] \<and> ref_ProjectID refs \<noteq> [] \<and>
         ref_ReleaseID refs \<noteq> [] \<and> refs = no_refs\<lparr>ref_ProductID := ref_ProductID refs,
         ref_ProjectID := ref_ProjectID refs, ref_ReleaseID := ref_ReleaseID refs\<rparr>)]"

definition validCatalogResources :: "Action \<Rightarrow> ResourceReferences \<Rightarrow> bool" where
  "validCatalogResources action refs =
    (case switch_lookup catalog_cases action of Some shape \<Rightarrow> shape refs | None \<Rightarrow> False)"

definition resource_cases :: "(Action list \<times> (ResourceReferences \<Rightarrow> bool)) list" where
  "resource_cases =
    [([ActionAnswerLibraryEntriesRead],
       \<lambda>refs. ref_ProductID refs \<noteq> [] \<and> refs = no_refs\<lparr>ref_ProductID := ref_ProductID refs,
         ref_ReleaseID := ref_ReleaseID refs\<rparr>),
     ([ActionPortalAccessRead],
       \<lambda>refs. ref_ProductID refs \<noteq> [] \<and> ref_CustomerPackageID refs \<noteq> [] \<and>
         refs = no_refs\<lparr>ref_ProductID := ref_ProductID refs, ref_ReleaseID := ref_ReleaseID refs,
         ref_CustomerPackageID := ref_CustomerPackageID refs\<rparr>),
     ([ActionReleaseBundlesRead, ActionReleaseBundlesCreate],
       \<lambda>refs. ref_ProductID refs \<noteq> [] \<and> ref_ReleaseID refs \<noteq> [] \<and>
         refs = no_refs\<lparr>ref_ProductID := ref_ProductID refs,
         ref_ReleaseID := ref_ReleaseID refs\<rparr>),
     ([ActionEvidenceSummariesCreate, ActionAnomalyReportsGenerate],
       \<lambda>refs. ref_ProductID refs \<noteq> [] \<and> refs = no_refs\<lparr>ref_ProductID := ref_ProductID refs,
         ref_ProjectID := ref_ProjectID refs, ref_ReleaseID := ref_ReleaseID refs,
         ref_BuildID := ref_BuildID refs, ref_DeploymentID := ref_DeploymentID refs,
         ref_CustomerPackageID := ref_CustomerPackageID refs\<rparr>),
     ([ActionEvidenceBundlesExport],
       \<lambda>refs. refs = no_refs \<or> ref_ProductID refs \<noteq> [] \<and>
         refs = no_refs\<lparr>ref_ProductID := ref_ProductID refs, ref_ProjectID := ref_ProjectID refs,
         ref_ReleaseID := ref_ReleaseID refs, ref_BuildID := ref_BuildID refs,
         ref_DeploymentID := ref_DeploymentID refs\<rparr>),
     ([ActionCRAReadinessHTMLGenerate, ActionPDFReportsGenerate,
        ActionGraphSnapshotsCreate, ActionQuestionnaireDraftsCreate,
        ActionAnswerLibraryEntriesCreate, ActionCustomerPackagesCreate],
       \<lambda>refs. ref_ProductID refs \<noteq> [] \<and> refs = no_refs\<lparr>ref_ProductID := ref_ProductID refs,
         ref_ReleaseID := ref_ReleaseID refs\<rparr>),
     ([ActionQuestionnairePackagesCreate],
       \<lambda>refs. ref_ProductID refs \<noteq> [] \<and> refs = no_refs\<lparr>ref_ProductID := ref_ProductID refs,
         ref_ReleaseID := ref_ReleaseID refs, ref_CustomerPackageID := ref_CustomerPackageID refs\<rparr>),
     ([ActionCustomerPackagesAccess, ActionPortalAccessManage],
       \<lambda>refs. ref_ProductID refs \<noteq> [] \<and> ref_CustomerPackageID refs \<noteq> [] \<and>
         refs = no_refs\<lparr>ref_ProductID := ref_ProductID refs, ref_ReleaseID := ref_ReleaseID refs,
         ref_CustomerPackageID := ref_CustomerPackageID refs\<rparr>),
     ([ActionReleaseVulnerabilityPostureRead, ActionCRAVulnerabilityHandlingRead,
        ActionReleaseReadinessReportRead, ActionSecurityUpdateEvidenceRead],
       \<lambda>refs. ref_ProductID refs \<noteq> [] \<and> ref_ReleaseID refs \<noteq> [] \<and>
         refs = no_refs\<lparr>ref_ProductID := ref_ProductID refs,
         ref_ReleaseID := ref_ReleaseID refs\<rparr>),
     ([ActionControlCoverageReportRead],
       \<lambda>refs. refs = no_refs \<or> ref_ProductID refs \<noteq> [] \<and>
         refs = no_refs\<lparr>ref_ProductID := ref_ProductID refs,
         ref_ReleaseID := ref_ReleaseID refs\<rparr>),
     ([ActionCRAReadinessReportRead, ActionIncidentReportRead],
       \<lambda>refs. ref_ProductID refs \<noteq> [] \<and> refs = no_refs\<lparr>ref_ProductID := ref_ProductID refs,
         ref_ReleaseID := ref_ReleaseID refs\<rparr>),
     ([ActionEvidenceVerify, ActionDSSEVerify],
       \<lambda>refs. refs \<noteq> no_refs \<and> refs = no_refs\<lparr>ref_ProductID := ref_ProductID refs,
         ref_ProjectID := ref_ProjectID refs, ref_ReleaseID := ref_ReleaseID refs,
         ref_BuildID := ref_BuildID refs, ref_DeploymentID := ref_DeploymentID refs\<rparr>),
     ([ActionReleaseBundleVerify],
       \<lambda>refs. ref_ProductID refs \<noteq> [] \<and> ref_ReleaseID refs \<noteq> [] \<and>
         refs = no_refs\<lparr>ref_ProductID := ref_ProductID refs,
         ref_ReleaseID := ref_ReleaseID refs\<rparr>),
     ([ActionCosignVerify, ActionArtifactSignatureVerify],
       \<lambda>refs. ref_ArtifactID refs \<noteq> [] \<and>
         refs = no_refs\<lparr>ref_ArtifactID := ref_ArtifactID refs\<rparr>),
     ([ActionArtifactSignaturesRead],
       \<lambda>refs. refs = no_refs\<lparr>ref_ProductID := ref_ProductID refs, ref_ProjectID := ref_ProjectID refs,
         ref_ReleaseID := ref_ReleaseID refs\<rparr>),
     ([ActionSourceRepositoriesCreate, ActionSourceCommitsRecord,
        ActionSourceBranchesUpsert, ActionPullRequestsRecord, ActionSourceSnapshotsRecord],
       \<lambda>refs. ref_ProductID refs \<noteq> [] \<and> ref_ProjectID refs \<noteq> [] \<and>
         refs = no_refs\<lparr>ref_ProductID := ref_ProductID refs,
         ref_ProjectID := ref_ProjectID refs\<rparr>),
     ([ActionSourceRepositoriesRead],
       \<lambda>refs. refs = no_refs \<or> ref_ProductID refs \<noteq> [] \<and> ref_ProjectID refs \<noteq> [] \<and>
         refs = no_refs\<lparr>ref_ProductID := ref_ProductID refs,
         ref_ProjectID := ref_ProjectID refs\<rparr>),
     ([ActionEnvironmentsCreate],
       \<lambda>refs. ref_ProductID refs \<noteq> [] \<and>
         refs = no_refs\<lparr>ref_ProductID := ref_ProductID refs\<rparr>),
     ([ActionEnvironmentsRead],
       \<lambda>refs. ref_ProductID refs \<noteq> [] \<and> ref_EnvironmentID refs \<noteq> [] \<and>
         refs = no_refs\<lparr>ref_ProductID := ref_ProductID refs,
         ref_EnvironmentID := ref_EnvironmentID refs\<rparr>),
     ([ActionDeploymentsRecord],
       \<lambda>refs. ref_ProductID refs \<noteq> [] \<and> ref_ReleaseID refs \<noteq> [] \<and>
         ref_EnvironmentID refs \<noteq> [] \<and> refs = no_refs\<lparr>ref_ProductID := ref_ProductID refs,
         ref_ReleaseID := ref_ReleaseID refs, ref_EnvironmentID := ref_EnvironmentID refs\<rparr>),
     ([ActionDeploymentsRead],
       \<lambda>refs. ref_ProductID refs \<noteq> [] \<and> ref_ReleaseID refs \<noteq> [] \<and>
         ref_EnvironmentID refs \<noteq> [] \<and> ref_DeploymentID refs \<noteq> [] \<and>
         refs = no_refs\<lparr>ref_ProductID := ref_ProductID refs, ref_ReleaseID := ref_ReleaseID refs,
         ref_EnvironmentID := ref_EnvironmentID refs, ref_DeploymentID := ref_DeploymentID refs\<rparr>),
     ([ActionIncidentsManage],
       \<lambda>refs. ref_ProductID refs \<noteq> [] \<and> refs = no_refs\<lparr>ref_ProductID := ref_ProductID refs,
         ref_ProjectID := ref_ProjectID refs, ref_ReleaseID := ref_ReleaseID refs,
         ref_BuildID := ref_BuildID refs, ref_DeploymentID := ref_DeploymentID refs\<rparr>),
     ([ActionVulnerabilityDecisionsRecord, ActionApprovalsRecord, ActionWaiversManage,
        ActionExceptionsManage, ActionVulnerabilityWorkflowsRecord,
        ActionPolicyEvaluationsCreate, ActionCustomPoliciesCreate,
        ActionCustomPoliciesEvaluate],
       \<lambda>refs. ref_ProductID refs \<noteq> [] \<and> refs = no_refs\<lparr>ref_ProductID := ref_ProductID refs,
         ref_ProjectID := ref_ProjectID refs, ref_ReleaseID := ref_ReleaseID refs\<rparr>),
     ([ActionVulnerabilityDecisionsRead],
       \<lambda>refs. ref_ProductID refs \<noteq> [] \<and> refs = no_refs\<lparr>ref_ProductID := ref_ProductID refs,
         ref_ReleaseID := ref_ReleaseID refs\<rparr>),
     ([ActionExceptionsRead, ActionVulnerabilityDecisionSummaryRead,
        ActionReleaseReadinessRead, ActionReleaseSecuritySummaryRead],
       \<lambda>refs. ref_ProductID refs \<noteq> [] \<and> ref_ReleaseID refs \<noteq> [] \<and>
         refs = no_refs\<lparr>ref_ProductID := ref_ProductID refs,
         ref_ReleaseID := ref_ReleaseID refs\<rparr>),
     ([ActionControlEvidenceRead],
       \<lambda>refs. refs = no_refs\<lparr>ref_ProductID := ref_ProductID refs, ref_ProjectID := ref_ProjectID refs,
         ref_ReleaseID := ref_ReleaseID refs\<rparr>),
     ([ActionControlEvidenceLink],
       \<lambda>refs. if ref_ArtifactID refs \<noteq> [] then
           refs = no_refs\<lparr>ref_ArtifactID := ref_ArtifactID refs, ref_ProductID := ref_ProductID refs,
             ref_ReleaseID := ref_ReleaseID refs\<rparr>
         else refs = no_refs\<lparr>ref_ProductID := ref_ProductID refs, ref_ProjectID := ref_ProjectID refs,
             ref_ReleaseID := ref_ReleaseID refs\<rparr> \<and>
           (ref_ProductID refs \<noteq> [] \<or> ref_ProjectID refs = [] \<and> ref_ReleaseID refs = [])),
     ([ActionEvidenceWrite, ActionSecurityEvidenceWrite],
       \<lambda>refs. if refs \<noteq> no_refs\<lparr>ref_ProductID := ref_ProductID refs, ref_ProjectID := ref_ProjectID refs,
             ref_ReleaseID := ref_ReleaseID refs, ref_BuildID := ref_BuildID refs,
             ref_DeploymentID := ref_DeploymentID refs\<rparr> then False
         else if refs = no_refs then True
         else ref_ProductID refs \<noteq> [] \<and>
           (ref_BuildID refs = [] \<or> ref_ProjectID refs \<noteq> [] \<and> ref_ReleaseID refs \<noteq> []) \<and>
           (ref_DeploymentID refs = [] \<or> ref_ReleaseID refs \<noteq> [])),
     ([ActionEvidenceRead, ActionSBOMsRead, ActionVEXDocumentsRead,
        ActionOpenAPIContractsRead, ActionVulnerabilityScansRead,
        ActionEvidenceLifecycleRead, ActionSBOMComponentsRead, ActionVEXPreviewRead,
        ActionEvidenceDiffsCreate],
       \<lambda>refs. refs = no_refs\<lparr>ref_ProductID := ref_ProductID refs, ref_ProjectID := ref_ProjectID refs,
         ref_ReleaseID := ref_ReleaseID refs\<rparr>)]"

definition validResourceReferences :: "Action \<Rightarrow> ResourceReferences \<Rightarrow> bool" where
  "validResourceReferences action refs =
    (case switch_lookup resource_cases action of
       Some shape \<Rightarrow> shape refs
     | None \<Rightarrow> validCatalogResources action refs)"

section \<open>Facts\<close>

lemma no_refs_sel [simp]:
  "ref_TenantID no_refs = []" "ref_OrganizationID no_refs = []" "ref_ProductID no_refs = []"
  "ref_ProjectID no_refs = []" "ref_ReleaseID no_refs = []" "ref_ArtifactID no_refs = []"
  "ref_BuildID no_refs = []" "ref_DeploymentID no_refs = []" "ref_EnvironmentID no_refs = []"
  "ref_CustomerPackageID no_refs = []"
  by (simp_all add: no_refs_def)

lemma grantHasCapability_iff:
  "grantHasCapability g scope \<longleftrightarrow>
     scope \<in> set (grant_Scopes g) \<or> ''admin'' \<in> set (grant_Scopes g) \<or> ''*'' \<in> set (grant_Scopes g)"
  by (auto simp: grantHasCapability_def list_ex_iff)

lemma grantLoop_None_iff:
  "grantLoop tenant scope refs tw gs = None \<longleftrightarrow>
     (\<exists>g\<in>set gs. grantHasCapability g scope \<and> grantCovers tenant refs tw g)"
  by (induction gs) auto

lemma grantLoop_error: "grantLoop tenant scope refs tw gs \<in> {None, Some ErrForbidden}"
  by (induction gs) auto

lemma authorizeCurrentGrant_None_iff:
  "authorizeCurrentGrant actor scope refs tw = None \<longleftrightarrow>
     (human actor \<longrightarrow> (\<exists>g\<in>set (actor_ResourceGrants actor).
        grantHasCapability g scope \<and> grantCovers (actor_TenantID actor) refs tw g))"
  by (auto simp: authorizeCurrentGrant_def human_def grantLoop_None_iff)

lemma authorizeCurrentGrant_error:
  "authorizeCurrentGrant actor scope refs tw \<in> {None, Some ErrForbidden}"
  using grantLoop_error by (auto simp: authorizeCurrentGrant_def)

lemma authorizePackageGrant_None_iff:
  "authorizePackageGrant actor scope action refs = None \<longleftrightarrow>
     action \<in> set package_grant_actions \<and> ref_CustomerPackageID refs \<noteq> [] \<and>
     (\<exists>g\<in>set (actor_ResourceGrants actor). grant_ResourceType g = ''customer_security_package'' \<and>
        grant_ResourceID g = ref_CustomerPackageID refs \<and> grantHasCapability g scope)"
  by (auto simp: authorizePackageGrant_def list_ex_iff)

lemma authorizePackageGrant_error:
  "authorizePackageGrant actor scope action refs \<in> {None, Some ErrForbidden}"
  by (auto simp: authorizePackageGrant_def)

text \<open>A tenant-wide grant covers every coordinate; coverage only grows with the coordinates.\<close>

lemma grantCovers_tenant_wide:
  "grantCovers tenant no_refs True g \<Longrightarrow> grantCovers tenant refs tw g"
  by (auto simp: grantCovers_def Let_def split: if_splits)

text \<open>
  Every accepted coordinate shape leaves the tenant and organization coordinates blank:
  the tenant was compared with the actor's before the shape is inspected.
\<close>

definition shape_blank_ok :: "(ResourceReferences \<Rightarrow> bool) \<Rightarrow> bool" where
  "shape_blank_ok p \<longleftrightarrow> (\<forall>refs. p refs \<longrightarrow> ref_TenantID refs = [] \<and> ref_OrganizationID refs = [])"

lemma refs_eq_iff:
  "refs = refs' \<longleftrightarrow>
     ref_TenantID refs = ref_TenantID refs' \<and> ref_OrganizationID refs = ref_OrganizationID refs' \<and>
     ref_ProductID refs = ref_ProductID refs' \<and> ref_ProjectID refs = ref_ProjectID refs' \<and>
     ref_ReleaseID refs = ref_ReleaseID refs' \<and> ref_ArtifactID refs = ref_ArtifactID refs' \<and>
     ref_BuildID refs = ref_BuildID refs' \<and> ref_DeploymentID refs = ref_DeploymentID refs' \<and>
     ref_EnvironmentID refs = ref_EnvironmentID refs' \<and>
     ref_CustomerPackageID refs = ref_CustomerPackageID (refs' :: ResourceReferences)"
  by (cases refs; cases refs') simp

lemma catalog_cases_blank: "list_all (\<lambda>(ks, p). shape_blank_ok p) catalog_cases"
  by (auto simp: catalog_cases_def shape_blank_ok_def refs_eq_iff)

lemma resource_cases_blank: "list_all (\<lambda>(ks, p). shape_blank_ok p) resource_cases"
  by (simp add: resource_cases_def shape_blank_ok_def refs_eq_iff)

lemma switch_lookup_all:
  "switch_lookup cs k = Some v \<Longrightarrow> list_all (\<lambda>(ks, v). P v) cs \<Longrightarrow> P v"
  by (auto simp: list_all_iff dest!: switch_lookup_Some)

lemma validResourceReferences_blank:
  "validResourceReferences action refs \<Longrightarrow> ref_TenantID refs = [] \<and> ref_OrganizationID refs = []"
  using catalog_cases_blank resource_cases_blank
  unfolding validResourceReferences_def validCatalogResources_def shape_blank_ok_def
  by (auto split: option.splits dest!: switch_lookup_all)

end
