(* ===== verification/Authorization.thy ===== *)
theory Authorization
  imports Resource_Policy "HOL-Library.Word"
begin

text \<open>
  The authorization decision of \<^verbatim>\<open>internal/authz\<close>: \<open>Authorize\<close> and its boundaries
  (\<^verbatim>\<open>policy.go\<close>), resource evaluation (\<^verbatim>\<open>resource_policy.go\<close>), association-backed artifact
  requests (\<^verbatim>\<open>artifact_policy.go\<close>), the storage filter derived from grants
  (\<^verbatim>\<open>visibility.go\<close>) and instance authority (\<^verbatim>\<open>instance_policy.go\<close>).
  The theory \<open>Authorization_Properties\<close> states what the decision promises.
\<close>

section \<open>Requests and evaluation modes\<close>

text \<open>\<^verbatim>\<open>type Evaluation uint8\<close>: three named values, every larger one is refused.\<close>

type_synonym Evaluation = "8 word"

definition ResolvedEvaluation :: Evaluation where "ResolvedEvaluation = 0"
definition ScopeEvaluation :: Evaluation where "ScopeEvaluation = 1"
definition TenantEvaluation :: Evaluation where "TenantEvaluation = 2"

lemmas evaluation_defs = ResolvedEvaluation_def ScopeEvaluation_def TenantEvaluation_def

record Request =
  req_Action :: Action
  req_Resources :: ResourceReferences
  req_Evaluation :: Evaluation

definition plain_request :: "Action \<Rightarrow> Request" where
  "plain_request action = \<lparr>req_Action = action, req_Resources = no_refs, req_Evaluation = ResolvedEvaluation\<rparr>"

record Visibility =
  vis_TenantID :: string
  vis_TenantWide :: bool
  vis_ProductIDs :: "string list"
  vis_ProjectIDs :: "string list"
  vis_ReleaseIDs :: "string list"
  vis_CustomerPackageIDs :: "string list"

record ArtifactVisibilityRequest =
  avr_TenantID :: string
  avr_ArtifactID :: string
  avr_ProductID :: string
  avr_ReleaseID :: string
  avr_TenantWide :: bool
  avr_AllowedProductIDs :: "string list"
  avr_AllowedProjectIDs :: "string list"
  avr_AllowedReleaseIDs :: "string list"

text \<open>An \<^verbatim>\<open>ArtifactVisibilityReader\<close> is nil or a port of the caller's transaction.\<close>

type_synonym ArtifactVisibilityReader = "(ArtifactVisibilityRequest \<Rightarrow> bool result) option"

definition holds_scope :: "Actor \<Rightarrow> string \<Rightarrow> bool" where
  "holds_scope actor scope \<longleftrightarrow> HasScope actor scope \<or> HasScope actor ''admin''"

section \<open>The decision\<close>

definition authorizeResource :: "Actor \<Rightarrow> string \<Rightarrow> Request \<Rightarrow> error option" where
  "authorizeResource actor scope request =
    (let refs = req_Resources request in
     if ref_TenantID refs \<noteq> [] \<and> ref_TenantID refs \<noteq> actor_TenantID actor then Some ErrForbidden
     else let refs = refs\<lparr>ref_TenantID := []\<rparr> in
     if \<not> HasScope actor scope \<and> \<not> HasScope actor ''admin'' then Some ErrForbidden
     else if req_Evaluation request = ScopeEvaluation then
       (if refs \<noteq> no_refs then Some ErrForbidden else None)
     else if req_Evaluation request = TenantEvaluation then
       (if \<not> allowsTenantResourceEvaluation (req_Action request) \<or> refs \<noteq> no_refs then Some ErrForbidden
        else authorizeCurrentGrant actor scope no_refs True)
     else if req_Evaluation request = ResolvedEvaluation then
       (if \<not> validResourceReferences (req_Action request) refs then Some ErrForbidden
        else if authorizeCurrentGrant actor scope refs False = None then None
        else authorizePackageGrant actor scope (req_Action request) refs)
     else Some ErrForbidden)"

definition artifact_visibility_actions :: "Action list" where
  "artifact_visibility_actions =
    [ActionControlEvidenceLink, ActionArtifactsRead, ActionArtifactsWrite, ActionEvidenceWrite,
     ActionSecurityEvidenceWrite, ActionEvidenceDiffsCreate, ActionVEXPreviewRead, ActionBuildsCreate,
     ActionBuildAttestationsCreate, ActionReleaseCandidatesCreate]"

definition allowsArtifactVisibility :: "Action \<Rightarrow> bool" where
  "allowsArtifactVisibility action \<longleftrightarrow> action \<in> set artifact_visibility_actions"

text \<open>The keys of the grant sets that \<^verbatim>\<open>visibilityForGrants\<close> builds, one resource type at a time.\<close>

definition grantedIDs :: "string \<Rightarrow> string \<Rightarrow> ResourceGrant list \<Rightarrow> string list" where
  "grantedIDs ty scope gs = sorted_set (map grant_ResourceID
     (filter (\<lambda>g. \<not> (grant_ResourceID g = [] \<or> \<not> grantHasCapability g scope) \<and> grant_ResourceType g = ty) gs))"

definition visibilityForGrants :: "Actor \<Rightarrow> string \<Rightarrow> bool \<Rightarrow> bool \<Rightarrow> bool \<Rightarrow> Visibility" where
  "visibilityForGrants actor scope allowProjects allowReleases allowPackages =
    (let visibility = \<lparr>vis_TenantID = actor_TenantID actor, vis_TenantWide = False, vis_ProductIDs = [],
           vis_ProjectIDs = [], vis_ReleaseIDs = [], vis_CustomerPackageIDs = []\<rparr>;
         gs = actor_ResourceGrants actor in
     if authorizeCurrentGrant actor scope no_refs True = None then visibility\<lparr>vis_TenantWide := True\<rparr>
     else visibility\<lparr>
       vis_ProductIDs := grantedIDs ''product'' scope gs,
       vis_ProjectIDs := (if allowProjects then grantedIDs ''project'' scope gs else []),
       vis_ReleaseIDs := (if allowReleases then grantedIDs ''release'' scope gs else []),
       vis_CustomerPackageIDs := (if allowPackages then grantedIDs ''customer_security_package'' scope gs else [])\<rparr>)"

definition authorizeArtifact ::
  "go_context \<Rightarrow> Actor \<Rightarrow> string \<Rightarrow> Request \<Rightarrow> ArtifactVisibilityReader \<Rightarrow> error option" where
  "authorizeArtifact ctx actor scope request reader =
    on_ok (authorizeResource actor scope
        \<lparr>req_Action = req_Action request,
         req_Resources = no_refs\<lparr>ref_TenantID := ref_TenantID (req_Resources request)\<rparr>,
         req_Evaluation = ScopeEvaluation\<rparr>)
    (let refs = (req_Resources request)\<lparr>ref_TenantID := []\<rparr>; action = req_Action request in
     if action = ActionControlEvidenceLink \<and> \<not> validResourceReferences action refs \<or>
        action \<noteq> ActionControlEvidenceLink \<and> refs \<noteq> no_refs\<lparr>ref_ArtifactID := ref_ArtifactID refs\<rparr>
     then Some ErrForbidden
     else let visibility = visibilityForGrants actor scope True True False in
     if actor_UserID actor = [] \<or> actor_KeyID actor \<noteq> [] \<or> actor_CollectorID actor \<noteq> [] \<or>
        (action = ActionControlEvidenceLink \<or> action = ActionArtifactsRead) \<and> vis_TenantWide visibility
     then None
     else case reader of
       None \<Rightarrow> Some ErrForbidden
     | Some visible \<Rightarrow>
        (if \<not> vis_TenantWide visibility \<and>
            length (vis_ProductIDs visibility) + length (vis_ProjectIDs visibility) +
            length (vis_ReleaseIDs visibility) = 0
         then Some ErrForbidden
         else case visible \<lparr>avr_TenantID = vis_TenantID visibility, avr_ArtifactID = ref_ArtifactID refs,
                avr_ProductID = ref_ProductID refs, avr_ReleaseID = ref_ReleaseID refs,
                avr_TenantWide = vis_TenantWide visibility, avr_AllowedProductIDs = vis_ProductIDs visibility,
                avr_AllowedProjectIDs = vis_ProjectIDs visibility,
                avr_AllowedReleaseIDs = vis_ReleaseIDs visibility\<rparr> of
            Inl err \<Rightarrow> Some err
          | Inr seen \<Rightarrow> on_ok (ctx_err ctx 1) (if \<not> seen then Some ErrForbidden else None)))"

definition boundaryDecision ::
  "go_context \<Rightarrow> Actor \<Rightarrow> Request \<Rightarrow> Definition \<Rightarrow> ArtifactVisibilityReader \<Rightarrow> error option" where
  "boundaryDecision ctx actor request d artifacts =
    (case def_Boundary d of
       SelfSessionBoundary \<Rightarrow>
         (if req_Evaluation request \<noteq> ResolvedEvaluation \<or> req_Resources request \<noteq> no_refs \<or>
             TrimSpace (actor_UserID actor) = [] \<or> TrimSpace (actor_SessionID actor) = [] \<or>
             actor_KeyID actor \<noteq> [] \<or> actor_CollectorID actor \<noteq> []
          then Some ErrForbidden else None)
     | InstanceBoundary \<Rightarrow>
         (if req_Evaluation request \<noteq> ResolvedEvaluation \<or> req_Resources request \<noteq> no_refs \<or>
             \<not> HasExplicitScope actor (def_Scope d)
          then Some ErrForbidden else None)
     | TenantBoundary \<Rightarrow>
         (if req_Evaluation request = ScopeEvaluation then Some ErrForbidden
          else let resources = req_Resources request in
          if ref_TenantID resources \<noteq> [] \<and> ref_TenantID resources \<noteq> actor_TenantID actor
          then Some ErrForbidden
          else if resources\<lparr>ref_TenantID := []\<rparr> \<noteq> no_refs then Some ErrForbidden
          else if \<not> HasScope actor (def_Scope d) \<and> \<not> HasScope actor ''admin'' then Some ErrForbidden
          else authorizeCurrentGrant actor (def_Scope d) no_refs True)
     | ResourceBoundary \<Rightarrow>
         (if allowsArtifactVisibility (req_Action request) \<and>
             req_Evaluation request = ResolvedEvaluation \<and> ref_ArtifactID (req_Resources request) \<noteq> []
          then authorizeArtifact ctx actor (def_Scope d) request artifacts
          else authorizeResource actor (def_Scope d) request)
     | CredentialBoundary \<Rightarrow>
         (if req_Evaluation request \<noteq> ResolvedEvaluation \<or> req_Resources request \<noteq> no_refs \<or>
             \<not> HasScope actor (def_Scope d) \<and> \<not> HasScope actor ''admin''
          then Some ErrForbidden else None)
     | _ \<Rightarrow> Some ErrForbidden)"

definition authorizeWithArtifactVisibility ::
  "go_context \<Rightarrow> Actor \<Rightarrow> Request \<Rightarrow> ArtifactVisibilityReader \<Rightarrow> error option" where
  "authorizeWithArtifactVisibility ctx actor request artifacts =
    on_ok (ctx_err ctx 0)
    (if anonymous actor then Some ErrUnauthorized
     else case DefinitionFor (req_Action request) of
       None \<Rightarrow> Some ErrForbidden
     | Some d \<Rightarrow>
        (if TenantEvaluation < req_Evaluation request then Some ErrForbidden
         else boundaryDecision ctx actor request d artifacts))"

definition Authorize :: "go_context \<Rightarrow> Actor \<Rightarrow> Request \<Rightarrow> error option" where
  "Authorize ctx actor request = authorizeWithArtifactVisibility ctx actor request None"

definition AuthorizeWithArtifactVisibility ::
  "go_context \<Rightarrow> Actor \<Rightarrow> Request \<Rightarrow> ArtifactVisibilityReader \<Rightarrow> error option" where
  "AuthorizeWithArtifactVisibility ctx actor request reader =
    (if \<not> allowsArtifactVisibility (req_Action request) then Some ErrForbidden
     else authorizeWithArtifactVisibility ctx actor request reader)"

section \<open>Read visibility and instance authority\<close>

definition visibility_actions :: "Action list" where
  "visibility_actions =
    [ActionEnvironmentsRead, ActionDeploymentsRead, ActionVulnerabilityDecisionsRead, ActionExceptionsRead,
     ActionControlEvidenceRead, ActionVulnerabilityDecisionSummaryRead, ActionReleaseReadinessRead,
     ActionReleaseSecuritySummaryRead, ActionEvidenceRead, ActionSBOMComponentsRead, ActionProductsRead,
     ActionReleaseCandidatesRead, ActionArtifactsRead, ActionSourceRepositoriesRead,
     ActionArtifactSignaturesRead, ActionReleaseReadinessReportRead, ActionAnswerLibraryEntriesRead,
     ActionPortalAccessRead]"

definition project_visibility_actions :: "Action list" where
  "project_visibility_actions =
    [ActionControlEvidenceRead, ActionEvidenceRead, ActionSBOMComponentsRead, ActionArtifactsRead,
     ActionSourceRepositoriesRead, ActionArtifactSignaturesRead]"

definition ReadVisibility :: "go_context \<Rightarrow> Actor \<Rightarrow> Action \<Rightarrow> Visibility result" where
  "ReadVisibility ctx actor action =
    (case Authorize ctx actor \<lparr>req_Action = action, req_Resources = no_refs, req_Evaluation = ScopeEvaluation\<rparr> of
       Some err \<Rightarrow> Inl err
     | None \<Rightarrow>
        (if action \<notin> set visibility_actions then Inl ErrForbidden
         else case DefinitionFor action of
           None \<Rightarrow> Inl ErrForbidden
         | Some d \<Rightarrow>
            (let v = visibilityForGrants actor (def_Scope d) (action \<in> set project_visibility_actions)
                   (action \<noteq> ActionEnvironmentsRead \<and> action \<noteq> ActionProductsRead \<and>
                    action \<noteq> ActionSourceRepositoriesRead) (action = ActionPortalAccessRead);
                 v = (if action = ActionProductsRead
                      then v\<lparr>vis_ProductIDs := filter (\<lambda>i. \<not> TrimSpace i \<noteq> i) (vis_ProductIDs v)\<rparr> else v)
             in Inr (if action = ActionReleaseCandidatesRead
                  then v\<lparr>vis_ProductIDs := filter (\<lambda>i. \<not> TrimSpace i = []) (vis_ProductIDs v),
                         vis_ReleaseIDs := filter (\<lambda>i. \<not> TrimSpace i = []) (vis_ReleaseIDs v)\<rparr> else v))))"

definition explicitInstanceAuthority :: "Actor \<Rightarrow> bool" where
  "explicitInstanceAuthority actor = HasExplicitScope actor ''instance:admin''"

fun CheckAPIKeyScopeDelegation :: "Actor \<Rightarrow> string list \<Rightarrow> error option" where
  "CheckAPIKeyScopeDelegation actor [] = None"
| "CheckAPIKeyScopeDelegation actor (scope # scopes) =
    (if TrimSpace scope = ''instance:admin'' \<and> \<not> explicitInstanceAuthority actor then Some ErrForbidden
     else CheckAPIKeyScopeDelegation actor scopes)"

definition AuthorizeMetrics :: "go_context \<Rightarrow> Actor \<Rightarrow> Action result" where
  "AuthorizeMetrics ctx actor =
    (let action = (if explicitInstanceAuthority actor then ActionInstanceMetricsRead else ActionTenantMetricsRead)
     in case Authorize ctx actor (plain_request action) of
          Some err \<Rightarrow> Inl err
        | None \<Rightarrow> Inr action)"

end
