(* ===== verification/Authorization_Properties.thy ===== *)
theory Authorization_Properties
  imports Authorization
begin

text \<open>
  What the authorization decision promises. \<open>permits\<close> is a declarative reference monitor
  written with sets and quantifiers; \<open>Authorize_permits\<close> shows that the code's decision
  implements it for every live context. The properties are tenant isolation, no authority
  without a capability, explicit instance authority, least privilege of human grants,
  monotonicity, agreement of list filters with point reads, and safe key delegation.
\<close>

section \<open>The reference monitor\<close>

definition capable :: "Actor \<Rightarrow> string \<Rightarrow> bool" where
  "capable actor scope \<longleftrightarrow> {scope, ''admin'', ''*''} \<inter> set (actor_Scopes actor) \<noteq> {}"

definition own_tenant :: "Actor \<Rightarrow> ResourceReferences \<Rightarrow> bool" where
  "own_tenant actor refs \<longleftrightarrow> ref_TenantID refs \<in> {[], actor_TenantID actor}"

definition local_refs :: "ResourceReferences \<Rightarrow> ResourceReferences" where
  "local_refs refs = refs\<lparr>ref_TenantID := []\<rparr>"

definition granted :: "Actor \<Rightarrow> string \<Rightarrow> ResourceReferences \<Rightarrow> bool \<Rightarrow> bool" where
  "granted actor scope refs tenantWide \<longleftrightarrow>
     (human actor \<longrightarrow> (\<exists>g\<in>set (actor_ResourceGrants actor).
        grantHasCapability g scope \<and> grantCovers (actor_TenantID actor) refs tenantWide g))"

definition package_granted :: "Actor \<Rightarrow> string \<Rightarrow> Action \<Rightarrow> ResourceReferences \<Rightarrow> bool" where
  "package_granted actor scope action refs \<longleftrightarrow>
     action \<in> set package_grant_actions \<and> ref_CustomerPackageID refs \<noteq> [] \<and>
     (\<exists>g\<in>set (actor_ResourceGrants actor). grant_ResourceType g = ''customer_security_package'' \<and>
        grant_ResourceID g = ref_CustomerPackageID refs \<and> grantHasCapability g scope)"

text \<open>Without an association reader, a scoped human has no artifact authority.\<close>

definition artifact_permits :: "Actor \<Rightarrow> string \<Rightarrow> Request \<Rightarrow> bool" where
  "artifact_permits actor scope r \<longleftrightarrow>
     (let refs = local_refs (req_Resources r); action = req_Action r in
      (if action = ActionControlEvidenceLink then validResourceReferences action refs
       else refs = no_refs\<lparr>ref_ArtifactID := ref_ArtifactID refs\<rparr>) \<and>
      (human actor \<longrightarrow> action \<in> {ActionControlEvidenceLink, ActionArtifactsRead} \<and>
         granted actor scope no_refs True))"

definition resource_permits :: "Actor \<Rightarrow> string \<Rightarrow> Request \<Rightarrow> bool" where
  "resource_permits actor scope r \<longleftrightarrow>
     (let refs = local_refs (req_Resources r); action = req_Action r in
      (req_Evaluation r = ScopeEvaluation \<and> refs = no_refs) \<or>
      (req_Evaluation r = TenantEvaluation \<and> refs = no_refs \<and> allowsTenantResourceEvaluation action \<and>
         granted actor scope no_refs True) \<or>
      (req_Evaluation r = ResolvedEvaluation \<and>
         (if allowsArtifactVisibility action \<and> ref_ArtifactID refs \<noteq> [] then artifact_permits actor scope r
          else validResourceReferences action refs \<and>
            (granted actor scope refs False \<or> package_granted actor scope action refs))))"

definition permits :: "Actor \<Rightarrow> Request \<Rightarrow> bool" where
  "permits actor r \<longleftrightarrow> \<not> anonymous actor \<and>
     (\<exists>d. DefinitionFor (req_Action r) = Some d \<and>
       (case def_Boundary d of
          SelfSessionBoundary \<Rightarrow> req_Evaluation r = ResolvedEvaluation \<and> req_Resources r = no_refs \<and>
            human actor \<and> \<not> blank (actor_UserID actor) \<and> \<not> blank (actor_SessionID actor)
        | InstanceBoundary \<Rightarrow> req_Evaluation r = ResolvedEvaluation \<and> req_Resources r = no_refs \<and>
            ''instance:admin'' \<in> set (actor_Scopes actor)
        | TenantBoundary \<Rightarrow> req_Evaluation r \<in> {ResolvedEvaluation, TenantEvaluation} \<and>
            own_tenant actor (req_Resources r) \<and> local_refs (req_Resources r) = no_refs \<and>
            capable actor (def_Scope d) \<and> granted actor (def_Scope d) no_refs True
        | ResourceBoundary \<Rightarrow> own_tenant actor (req_Resources r) \<and> capable actor (def_Scope d) \<and>
            resource_permits actor (def_Scope d) r
        | CredentialBoundary \<Rightarrow> req_Evaluation r = ResolvedEvaluation \<and> req_Resources r = no_refs \<and>
            capable actor (def_Scope d)
        | _ \<Rightarrow> False))"

section \<open>The code implements the monitor\<close>

lemma edge_safe_admin [simp]: "edge_safe ''admin''" and edge_safe_instance [simp]: "edge_safe ''instance:admin''"
  by (simp_all add: edge_safe_def graphic_def byte_def)

lemma TrimSpace_literals [simp]: "TrimSpace ''admin'' = ''admin''" "TrimSpace ''instance:admin'' = ''instance:admin''"
  using TrimSpace_edge [OF edge_safe_admin] TrimSpace_edge [OF edge_safe_instance] by simp_all

lemma capable_iff:
  "edge_safe scope \<Longrightarrow> HasScope actor scope \<or> HasScope actor ''admin'' \<longleftrightarrow> capable actor scope"
  by (auto simp: HasScope_iff capable_def dest: edge_safe_nonempty)

lemma granted_iff: "authorizeCurrentGrant actor scope refs tw = None \<longleftrightarrow> granted actor scope refs tw"
  by (simp add: authorizeCurrentGrant_None_iff granted_def)

lemma package_granted_iff:
  "authorizePackageGrant actor scope action refs = None \<longleftrightarrow> package_granted actor scope action refs"
  by (simp add: authorizePackageGrant_None_iff package_granted_def)

lemma evaluation_le: "\<not> TenantEvaluation < e \<longleftrightarrow> e \<in> {ResolvedEvaluation, ScopeEvaluation, TenantEvaluation}"
proof -
  have "e \<le> 2 \<longleftrightarrow> e = 0 \<or> e = 1 \<or> e = (2 :: 8 word)"
    by (auto simp: unat_arith_simps)
  then show ?thesis by (simp add: evaluation_defs not_less)
qed

lemma evaluation_distinct [simp]:
  "ResolvedEvaluation \<noteq> ScopeEvaluation" "ScopeEvaluation \<noteq> ResolvedEvaluation"
  "ResolvedEvaluation \<noteq> TenantEvaluation" "TenantEvaluation \<noteq> ResolvedEvaluation"
  "ScopeEvaluation \<noteq> TenantEvaluation" "TenantEvaluation \<noteq> ScopeEvaluation"
  by (simp_all add: evaluation_defs)

lemma authorizeResource_None_iff:
  assumes "edge_safe scope"
  shows "authorizeResource actor scope r = None \<longleftrightarrow>
    own_tenant actor (req_Resources r) \<and> capable actor scope \<and>
    (let refs = local_refs (req_Resources r) in
      (req_Evaluation r = ScopeEvaluation \<and> refs = no_refs) \<or>
      (req_Evaluation r = TenantEvaluation \<and> refs = no_refs \<and>
         allowsTenantResourceEvaluation (req_Action r) \<and> granted actor scope no_refs True) \<or>
      (req_Evaluation r = ResolvedEvaluation \<and> validResourceReferences (req_Action r) refs \<and>
         (granted actor scope refs False \<or> package_granted actor scope (req_Action r) refs)))"
  using capable_iff [OF assms, of actor]
  unfolding authorizeResource_def Let_def own_tenant_def local_refs_def
  by (auto simp: granted_iff package_granted_iff)

lemma authorizeArtifact_None_iff:
  assumes "edge_safe scope"
  shows "authorizeArtifact ctx actor scope r None = None \<longleftrightarrow>
    own_tenant actor (req_Resources r) \<and> capable actor scope \<and> artifact_permits actor scope r"
proof -
  have vis: "vis_TenantWide (visibilityForGrants actor scope True True False) \<longleftrightarrow> granted actor scope no_refs True"
    by (simp add: visibilityForGrants_def Let_def granted_iff)
  show ?thesis
    unfolding authorizeArtifact_def artifact_permits_def Let_def on_ok_None_iff
      authorizeResource_None_iff [OF assms]
    by (auto simp: vis own_tenant_def local_refs_def human_def)
qed

lemmas DefinitionFor_edge = DefinitionFor_scope [THEN conjunct1]

lemma boundaryDecision_None_iff:
  assumes d: "DefinitionFor (req_Action r) = Some d"
  shows "\<not> anonymous actor \<and> \<not> TenantEvaluation < req_Evaluation r \<and> boundaryDecision ctx actor r d None = None \<longleftrightarrow>
    permits actor r"
proof (cases "def_Boundary d")
  case TenantBoundary
  with d show ?thesis
    using capable_iff [OF DefinitionFor_edge [OF d], of actor]
    by (auto simp: permits_def boundaryDecision_def Let_def own_tenant_def local_refs_def granted_iff evaluation_le)
next
  case InstanceBoundary
  with d show ?thesis
    using DefinitionFor_instance [OF d]
    by (auto simp: permits_def boundaryDecision_def HasExplicitScope_iff evaluation_le)
next
  case ResourceBoundary
  with d have e: "edge_safe (def_Scope d)" by (simp add: DefinitionFor_edge)
  from ResourceBoundary d show ?thesis
    by (auto simp: permits_def boundaryDecision_def resource_permits_def Let_def local_refs_def evaluation_le
        authorizeResource_None_iff [OF e] authorizeArtifact_None_iff [OF e] split: if_splits)
next
  case CredentialBoundary
  with d show ?thesis
    using capable_iff [OF DefinitionFor_edge [OF d], of actor]
    by (auto simp: permits_def boundaryDecision_def evaluation_le)
next
  case SelfSessionBoundary
  with d show ?thesis
    by (auto simp: permits_def boundaryDecision_def human_def blank_def evaluation_le)
qed (use d in \<open>auto simp: permits_def boundaryDecision_def\<close>)

lemma Authorize_permits:
  "ctx_err ctx 0 = None \<Longrightarrow> Authorize ctx actor r = None \<longleftrightarrow> permits actor r"
proof (cases "DefinitionFor (req_Action r)")
  case None
  then show ?thesis
    by (auto simp: Authorize_def authorizeWithArtifactVisibility_def permits_def)
next
  case (Some d)
  assume "ctx_err ctx 0 = None"
  with Some boundaryDecision_None_iff [OF Some, of actor ctx] show ?thesis
    by (simp add: Authorize_def authorizeWithArtifactVisibility_def) blast
qed


section \<open>Tenant isolation and capabilities, with any artifact reader\<close>

lemma authorizeArtifact_preflight:
  "edge_safe scope \<Longrightarrow> authorizeArtifact ctx actor scope r reader = None \<Longrightarrow>
     own_tenant actor (req_Resources r) \<and> capable actor scope"
  unfolding authorizeArtifact_def on_ok_None_iff
  by (auto simp: authorizeResource_None_iff own_tenant_def)

lemma own_tenant_no_refs [simp]: "own_tenant actor no_refs"
  by (simp add: own_tenant_def)

lemma boundaryDecision_sound:
  assumes d: "DefinitionFor (req_Action r) = Some d" and ok: "boundaryDecision ctx actor r d reader = None"
  shows "own_tenant actor (req_Resources r) \<and>
    (case def_Boundary d of
       SelfSessionBoundary \<Rightarrow> human actor
     | InstanceBoundary \<Rightarrow> ''instance:admin'' \<in> set (actor_Scopes actor)
     | _ \<Rightarrow> capable actor (def_Scope d))"
proof (cases "def_Boundary d")
  case TenantBoundary
  with d ok show ?thesis
    using capable_iff [OF DefinitionFor_edge [OF d], of actor]
    by (auto simp: boundaryDecision_def Let_def own_tenant_def split: if_splits)
next
  case InstanceBoundary
  with d ok show ?thesis
    using DefinitionFor_instance [OF d]
    by (auto simp: boundaryDecision_def HasExplicitScope_iff split: if_splits)
next
  case ResourceBoundary
  with d have e: "edge_safe (def_Scope d)" by (simp add: DefinitionFor_edge)
  from ResourceBoundary ok show ?thesis
    by (auto simp: boundaryDecision_def authorizeResource_None_iff [OF e] split: if_splits
        dest: authorizeArtifact_preflight [OF e])
next
  case CredentialBoundary
  with d ok show ?thesis
    using capable_iff [OF DefinitionFor_edge [OF d], of actor]
    by (auto simp: boundaryDecision_def split: if_splits)
next
  case SelfSessionBoundary
  with ok show ?thesis by (auto simp: boundaryDecision_def human_def split: if_splits)
qed (use ok in \<open>auto simp: boundaryDecision_def\<close>)

lemma authorize_success:
  assumes "authorizeWithArtifactVisibility ctx actor r reader = None"
  obtains d where "DefinitionFor (req_Action r) = Some d" "\<not> anonymous actor"
    "boundaryDecision ctx actor r d reader = None" "ctx_err ctx 0 = None"
  using assms by (auto simp: authorizeWithArtifactVisibility_def split: option.splits if_splits)

text \<open>
  C1: tenant isolation. Whatever artifact reader the caller supplies, a request that the
  policy allows comes from an authenticated actor and names no tenant but the actor's own.
\<close>

theorem authorize_tenant_isolation:
  assumes "authorizeWithArtifactVisibility ctx actor r reader = None"
  shows "\<not> anonymous actor \<and> ref_TenantID (req_Resources r) \<in> {[], actor_TenantID actor}"
proof -
  from assms obtain d where "DefinitionFor (req_Action r) = Some d" "\<not> anonymous actor"
    "boundaryDecision ctx actor r d reader = None" by (rule authorize_success)
  then show ?thesis using boundaryDecision_sound by (simp add: own_tenant_def)
qed

text \<open>
  C2: no authority without a capability. An allowed action is registered; unless it only
  ends the actor's own session, the actor holds the registered scope, admin or the wildcard,
  and for an instance action the explicit instance scope.
\<close>

theorem authorize_requires_capability:
  assumes "authorizeWithArtifactVisibility ctx actor r reader = None"
  shows "\<exists>d. DefinitionFor (req_Action r) = Some d \<and>
    (case def_Boundary d of
       SelfSessionBoundary \<Rightarrow> human actor
     | InstanceBoundary \<Rightarrow> ''instance:admin'' \<in> set (actor_Scopes actor)
     | _ \<Rightarrow> capable actor (def_Scope d))"
proof -
  from assms obtain d where "DefinitionFor (req_Action r) = Some d"
    "boundaryDecision ctx actor r d reader = None" by (rule authorize_success)
  then show ?thesis using boundaryDecision_sound by blast
qed

lemma Authorize_permitsD: "Authorize ctx actor r = None \<Longrightarrow> permits actor r"
proof -
  assume ok: "Authorize ctx actor r = None"
  then have "ctx_err ctx 0 = None" unfolding Authorize_def by (rule authorize_success)
  with ok show ?thesis by (simp add: Authorize_permits)
qed

section \<open>Least privilege of human grants\<close>

text \<open>The coordinates of a request that a grant can name.\<close>

definition grant_targets :: "Actor \<Rightarrow> ResourceReferences \<Rightarrow> (string \<times> string) set" where
  "grant_targets actor refs =
     {([], []), ([], actor_TenantID actor), (''tenant'', []), (''tenant'', actor_TenantID actor),
      (''product'', ref_ProductID refs), (''project'', ref_ProjectID refs), (''release'', ref_ReleaseID refs),
      (''customer_security_package'', ref_CustomerPackageID refs)}"

lemma grantCovers_target:
  "grantCovers (actor_TenantID actor) refs tw g \<Longrightarrow>
     (grant_ResourceType g, grant_ResourceID g) \<in> grant_targets actor refs"
  by (auto simp: grantCovers_def Let_def grant_targets_def split: if_splits)

lemma granted_targets:
  "human actor \<Longrightarrow> granted actor scope refs tw \<Longrightarrow>
     \<exists>g\<in>set (actor_ResourceGrants actor). grantHasCapability g scope \<and>
       (grant_ResourceType g, grant_ResourceID g) \<in> grant_targets actor refs"
  unfolding granted_def by (blast intro: grantCovers_target)

text \<open>
  C3: least privilege. When a human session is allowed to act on resolved coordinates, one
  of its current grants carries the capability and names the tenant, product, project,
  release or customer package of exactly these coordinates.
\<close>

theorem human_resource_least_privilege:
  assumes "Authorize ctx actor r = None" and "human actor"
    and "DefinitionFor (req_Action r) = Some d" and "def_Boundary d = ResourceBoundary"
    and "req_Evaluation r = ResolvedEvaluation"
  shows "\<exists>g\<in>set (actor_ResourceGrants actor). grantHasCapability g (def_Scope d) \<and>
    (grant_ResourceType g, grant_ResourceID g) \<in> grant_targets actor (req_Resources r)"
proof -
  let ?refs = "local_refs (req_Resources r)"
  from assms(1) have "permits actor r" by (rule Authorize_permitsD)
  with assms(3-5) have "resource_permits actor (def_Scope d) r" by (simp add: permits_def)
  with assms(2,5) consider
      "granted actor (def_Scope d) no_refs True"
    | "granted actor (def_Scope d) ?refs False"
    | "package_granted actor (def_Scope d) (req_Action r) ?refs"
    by (auto simp: resource_permits_def artifact_permits_def Let_def split: if_splits)
  then show ?thesis
  proof cases
    case 1
    then have "granted actor (def_Scope d) ?refs False"
      unfolding granted_def by (blast intro: grantCovers_tenant_wide)
    from granted_targets [OF assms(2) this] show ?thesis by (simp add: grant_targets_def local_refs_def)
  next
    case 2
    from granted_targets [OF assms(2) 2] show ?thesis by (simp add: grant_targets_def local_refs_def)
  next
    case 3
    then show ?thesis by (auto simp: package_granted_def grant_targets_def local_refs_def)
  qed
qed


section \<open>Monotonicity\<close>

text \<open>The same identity with at least the same scopes and grants.\<close>

definition extends :: "Actor \<Rightarrow> Actor \<Rightarrow> bool" where
  "extends a b \<longleftrightarrow> actor_TenantID a = actor_TenantID b \<and> actor_KeyID a = actor_KeyID b \<and>
     actor_UserID a = actor_UserID b \<and> actor_SessionID a = actor_SessionID b \<and>
     actor_CollectorID a = actor_CollectorID b \<and>
     set (actor_Scopes a) \<subseteq> set (actor_Scopes b) \<and>
     set (actor_ResourceGrants a) \<subseteq> set (actor_ResourceGrants b)"

lemma extends_identity:
  "extends a b \<Longrightarrow> anonymous b = anonymous a" "extends a b \<Longrightarrow> human b = human a"
  "extends a b \<Longrightarrow> own_tenant b refs = own_tenant a refs"
  by (simp_all add: extends_def anonymous_def human_def own_tenant_def)

lemma extends_capable: "extends a b \<Longrightarrow> capable a scope \<Longrightarrow> capable b scope"
  unfolding extends_def capable_def by blast

lemma extends_granted: "extends a b \<Longrightarrow> granted a scope refs tw \<Longrightarrow> granted b scope refs tw"
  unfolding granted_def by (auto simp: extends_identity(2)) (auto simp: extends_def)

lemma extends_package_granted:
  "extends a b \<Longrightarrow> package_granted a scope action refs \<Longrightarrow> package_granted b scope action refs"
  unfolding package_granted_def extends_def by blast

lemma extends_artifact_permits: "extends a b \<Longrightarrow> artifact_permits a scope r \<Longrightarrow> artifact_permits b scope r"
  by (auto simp: artifact_permits_def Let_def extends_identity intro: extends_granted)

lemma extends_resource_permits: "extends a b \<Longrightarrow> resource_permits a scope r \<Longrightarrow> resource_permits b scope r"
  by (auto simp: resource_permits_def Let_def split: if_splits
      intro: extends_granted extends_package_granted extends_artifact_permits)

lemma extends_permits: "extends a b \<Longrightarrow> permits a r \<Longrightarrow> permits b r"
proof -
  assume ab: "extends a b" and "permits a r"
  then obtain d where d: "DefinitionFor (req_Action r) = Some d" and "\<not> anonymous b"
    by (auto simp: permits_def extends_identity)
  have "set (actor_Scopes a) \<subseteq> set (actor_Scopes b)" "actor_UserID a = actor_UserID b"
    "actor_SessionID a = actor_SessionID b" using ab by (simp_all add: extends_def)
  with ab d \<open>permits a r\<close> \<open>\<not> anonymous b\<close> show "permits b r"
    unfolding permits_def
    by (cases "def_Boundary d")
       (auto simp: extends_identity intro: extends_capable extends_granted extends_resource_permits)
qed

text \<open>
  Authority is monotone. Adding scopes or grants to an actor never revokes a decision
  that was allowed, so no deny rule hides in the order of grants.
\<close>

lemma authorize_monotone:
  assumes "extends a b" and "Authorize ctx a r = None"
  shows "Authorize ctx b r = None"
proof -
  from assms(2) have "ctx_err ctx 0 = None" unfolding Authorize_def by (rule authorize_success)
  moreover have "permits b r" using assms(1) Authorize_permitsD [OF assms(2)] by (rule extends_permits)
  ultimately show ?thesis by (simp add: Authorize_permits)
qed

section \<open>Instance authority\<close>

text \<open>
  Instance actions. An instance-wide action is allowed exactly for an authenticated
  actor that holds the explicit instance scope; neither admin nor the wildcard suffices.
\<close>

lemma instance_authority_explicit:
  assumes "DefinitionFor action = Some d" and "def_Boundary d = InstanceBoundary" and "ctx_err ctx 0 = None"
  shows "Authorize ctx actor (plain_request action) = None \<longleftrightarrow>
    \<not> anonymous actor \<and> ''instance:admin'' \<in> set (actor_Scopes actor)"
  using assms by (auto simp: Authorize_permits permits_def plain_request_def)

lemma delegation_None_iff:
  "CheckAPIKeyScopeDelegation actor scopes = None \<longleftrightarrow>
     (''instance:admin'' \<in> TrimSpace ` set scopes \<longrightarrow> ''instance:admin'' \<in> set (actor_Scopes actor))"
  by (induction actor scopes rule: CheckAPIKeyScopeDelegation.induct)
     (auto simp: explicitInstanceAuthority_def HasExplicitScope_iff)

text \<open>
  Delegation cannot escalate. When an actor without explicit instance authority passes
  the delegation check for the scopes of a new key, no credential carrying exactly these
  scopes is allowed any instance action, whatever identity fields it has.
\<close>

lemma delegation_cannot_escalate:
  assumes "CheckAPIKeyScopeDelegation issuer scopes = None" and "\<not> explicitInstanceAuthority issuer"
    and "actor_Scopes key = scopes"
    and "DefinitionFor (req_Action r) = Some d" and "def_Boundary d = InstanceBoundary"
  shows "authorizeWithArtifactVisibility ctx key r reader \<noteq> None"
proof
  assume "authorizeWithArtifactVisibility ctx key r reader = None"
  then have "''instance:admin'' \<in> set scopes"
    by (rule authorize_success) (use assms(3-5) in \<open>auto dest!: boundaryDecision_sound\<close>)
  then have "''instance:admin'' \<in> TrimSpace ` set scopes"
    by (metis TrimSpace_literals(2) image_eqI)
  with assms(1,2) show False
    by (simp add: delegation_None_iff explicitInstanceAuthority_def HasExplicitScope_iff)
qed

section \<open>List filters agree with point reads\<close>

definition visible_under :: "Visibility \<Rightarrow> ResourceReferences \<Rightarrow> bool" where
  "visible_under v refs \<longleftrightarrow> vis_TenantWide v \<or>
     (ref_ProductID refs \<noteq> [] \<and> ref_ProductID refs \<in> set (vis_ProductIDs v)) \<or>
     (ref_ProjectID refs \<noteq> [] \<and> ref_ProjectID refs \<in> set (vis_ProjectIDs v)) \<or>
     (ref_ReleaseID refs \<noteq> [] \<and> ref_ReleaseID refs \<in> set (vis_ReleaseIDs v)) \<or>
     (ref_CustomerPackageID refs \<noteq> [] \<and> ref_CustomerPackageID refs \<in> set (vis_CustomerPackageIDs v))"

lemma set_grantedIDs:
  "i \<in> set (grantedIDs ty scope gs) \<longleftrightarrow> i \<noteq> [] \<and>
     (\<exists>g\<in>set gs. grant_ResourceType g = ty \<and> grant_ResourceID g = i \<and> grantHasCapability g scope)"
  by (auto simp: grantedIDs_def)

text \<open>The coordinates that a list filter ignores are blank in every accepted point shape.\<close>

lemma visibility_shapes:
  "list_all (\<lambda>action. \<forall>refs. validResourceReferences action refs \<longrightarrow>
     (action \<notin> set project_visibility_actions \<longrightarrow> ref_ProjectID refs = []) \<and>
     (action \<in> {ActionEnvironmentsRead, ActionProductsRead, ActionSourceRepositoriesRead} \<longrightarrow> ref_ReleaseID refs = []) \<and>
     ref_ArtifactID refs = []) visibility_actions"
  unfolding visibility_actions_def list.pred_inject
  by (intro conjI TrueI)
     (simp_all add: validResourceReferences_def validCatalogResources_def resource_cases_def catalog_cases_def
        project_visibility_actions_def action_ids refs_eq_iff)


lemma visibility_package_action:
  "action \<in> set visibility_actions \<Longrightarrow> action \<in> set package_grant_actions \<longleftrightarrow> action = ActionPortalAccessRead"
  by (auto simp: visibility_actions_def package_grant_actions_def action_ids)

lemma scope_evaluation_resource:
  assumes "Authorize ctx actor \<lparr>req_Action = action, req_Resources = no_refs, req_Evaluation = ScopeEvaluation\<rparr> = None"
  obtains d where "DefinitionFor action = Some d" "def_Boundary d = ResourceBoundary" "\<not> anonymous actor"
    "capable actor (def_Scope d)"
proof -
  from Authorize_permitsD [OF assms] obtain d where d: "DefinitionFor action = Some d" "\<not> anonymous actor"
    by (auto simp: permits_def)
  moreover from Authorize_permitsD [OF assms] d(1)
  have "def_Boundary d = ResourceBoundary \<and> capable actor (def_Scope d)"
    by (cases "def_Boundary d") (simp_all add: permits_def)
  ultimately show thesis using that by blast
qed

lemma grantCovers_split:
  "grantCovers tenant refs False g \<longleftrightarrow> grantCovers tenant no_refs True g \<or>
     (ref_ProductID refs \<noteq> [] \<and> grant_ResourceType g = ''product'' \<and> grant_ResourceID g = ref_ProductID refs) \<or>
     (ref_ProjectID refs \<noteq> [] \<and> grant_ResourceType g = ''project'' \<and> grant_ResourceID g = ref_ProjectID refs) \<or>
     (ref_ReleaseID refs \<noteq> [] \<and> grant_ResourceType g = ''release'' \<and> grant_ResourceID g = ref_ReleaseID refs)"
  by (simp add: grantCovers_def Let_def)

lemma human_granted_visible:
  assumes "human actor"
  shows "granted actor scope refs False \<longleftrightarrow> granted actor scope no_refs True \<or>
    (ref_ProductID refs \<in> set (grantedIDs ''product'' scope (actor_ResourceGrants actor))) \<or>
    (ref_ProjectID refs \<in> set (grantedIDs ''project'' scope (actor_ResourceGrants actor))) \<or>
    (ref_ReleaseID refs \<in> set (grantedIDs ''release'' scope (actor_ResourceGrants actor)))"
  unfolding granted_def set_grantedIDs grantCovers_split [of _ refs] using assms by blast

lemma Nil_notin_grantedIDs: "i \<in> set (grantedIDs ty scope gs) \<Longrightarrow> i \<noteq> []"
  by (simp add: set_grantedIDs)

lemma ReadVisibility_Inr:
  assumes "ReadVisibility ctx actor action = Inr v" and "action \<notin> {ActionProductsRead, ActionReleaseCandidatesRead}"
  obtains d where "action \<in> set visibility_actions" "DefinitionFor action = Some d" "def_Boundary d = ResourceBoundary"
    "\<not> anonymous actor" "capable actor (def_Scope d)" "ctx_err ctx 0 = None"
    "v = visibilityForGrants actor (def_Scope d) (action \<in> set project_visibility_actions)
       (action \<noteq> ActionEnvironmentsRead \<and> action \<noteq> ActionProductsRead \<and> action \<noteq> ActionSourceRepositoriesRead)
       (action = ActionPortalAccessRead)"
proof -
  let ?r = "\<lparr>req_Action = action, req_Resources = no_refs, req_Evaluation = ScopeEvaluation\<rparr>"
  from assms(1) have ok: "Authorize ctx actor ?r = None" by (simp add: ReadVisibility_def split: option.splits)
  from ok obtain d where d: "DefinitionFor action = Some d"
    "def_Boundary d = ResourceBoundary" "\<not> anonymous actor" "capable actor (def_Scope d)"
    by (rule scope_evaluation_resource)
  moreover have "ctx_err ctx 0 = None" using ok unfolding Authorize_def by (rule authorize_success)
  moreover from assms ok d(1) have "action \<in> set visibility_actions"
    "v = visibilityForGrants actor (def_Scope d) (action \<in> set project_visibility_actions)
       (action \<noteq> ActionEnvironmentsRead \<and> action \<noteq> ActionProductsRead \<and> action \<noteq> ActionSourceRepositoriesRead)
       (action = ActionPortalAccessRead)"
    by (simp_all add: ReadVisibility_def split: if_splits)
  ultimately show thesis by (intro that)
qed


section \<open>Witnesses\<close>

text \<open>
  A reviewer session with one product grant, an automation key, and a read of a release of
  that product.
\<close>

definition reviewer :: Actor where
  "reviewer = zero_actor\<lparr>actor_TenantID := ''t1'', actor_UserID := ''u1'', actor_SessionID := ''s1'',
     actor_Scopes := [''release:read'', ''deployment:read''],
     actor_ResourceGrants := [\<lparr>grant_Role = ''auditor'', grant_ResourceType = ''product'',
       grant_ResourceID = ''p1'', grant_Scopes = [''release:read'', ''deployment:read'']\<rparr>]\<rparr>"

definition automation_key :: Actor where
  "automation_key = zero_actor\<lparr>actor_TenantID := ''t1'', actor_KeyID := ''k1'', actor_Scopes := [''admin'', ''*'']\<rparr>"

definition operator :: Actor where
  "operator = automation_key\<lparr>actor_Scopes := [''instance:admin'']\<rparr>"

definition read_release :: Request where
  "read_release = \<lparr>req_Action = ActionReleasesRead,
     req_Resources = no_refs\<lparr>ref_TenantID := ''t1'', ref_ProductID := ''p1'', ref_ReleaseID := ''r1''\<rparr>,
     req_Evaluation = ResolvedEvaluation\<rparr>"

lemmas sample_defs = reviewer_def automation_key_def operator_def read_release_def zero_actor_def

lemma sample_registry:
  "DefinitionFor ActionReleasesRead = Some \<lparr>def_Scope = ''release:read'', def_Boundary = ResourceBoundary\<rparr>"
  "DefinitionFor ActionEnvironmentsRead = Some \<lparr>def_Scope = ''deployment:read'', def_Boundary = ResourceBoundary\<rparr>"
  "DefinitionFor ActionOutboxReplay = Some \<lparr>def_Scope = ''instance:admin'', def_Boundary = InstanceBoundary\<rparr>"
  by (simp_all add: DefinitionFor_def definition_cases_def action_ids)

lemma sample_shape:
  "validResourceReferences ActionReleasesRead (no_refs\<lparr>ref_ProductID := ''p1'', ref_ReleaseID := ''r1''\<rparr>)"
  "validResourceReferences ActionEnvironmentsRead (no_refs\<lparr>ref_ProductID := ''p1'', ref_EnvironmentID := ''e1''\<rparr>)"
  by (simp_all add: validResourceReferences_def validCatalogResources_def resource_cases_def catalog_cases_def
      action_ids)

lemma reviewer_reads_release: "Authorize Background reviewer read_release = None"
  using sample_registry(1) sample_shape(1)
  by (simp add: Authorize_permits permits_def resource_permits_def Let_def sample_defs own_tenant_def local_refs_def
      anonymous_def capable_def granted_def grantHasCapability_def grantCovers_def allowsArtifactVisibility_def
      artifact_visibility_actions_def action_ids no_refs_def)

lemma reviewer_human: "human reviewer" and read_release_fields: "req_Action read_release = ActionReleasesRead"
  "req_Evaluation read_release = ResolvedEvaluation"
  by (simp_all add: sample_defs human_def)

theorem authorize_tenant_isolation_witness:
  "ref_TenantID (req_Resources read_release) \<in> {[], actor_TenantID reviewer}"
  using authorize_tenant_isolation [OF reviewer_reads_release [unfolded Authorize_def]] by blast

theorem authorize_requires_capability_witness:
  "\<exists>d. DefinitionFor (req_Action read_release) = Some d \<and> capable reviewer (def_Scope d)"
  using authorize_requires_capability [OF reviewer_reads_release [unfolded Authorize_def]] sample_registry(1)
  by (simp add: read_release_def)

theorem human_resource_least_privilege_witness:
  "\<exists>g\<in>set (actor_ResourceGrants reviewer). grantHasCapability g ''release:read'' \<and>
    (grant_ResourceType g, grant_ResourceID g) \<in> grant_targets reviewer (req_Resources read_release)"
  using human_resource_least_privilege [OF reviewer_reads_release reviewer_human] sample_registry(1)
  by (simp add: read_release_fields)

lemma authorize_monotone_sample:
  "Authorize Background (reviewer\<lparr>actor_Scopes := ''evidence:read'' # actor_Scopes reviewer\<rparr>) read_release = None"
  by (rule authorize_monotone [OF _ reviewer_reads_release]) (auto simp: extends_def)

lemma instance_authority_sample:
  "Authorize Background operator (plain_request ActionOutboxReplay) = None \<and>
   Authorize Background automation_key (plain_request ActionOutboxReplay) \<noteq> None"
  using instance_authority_explicit [OF sample_registry(3), of Background operator]
    instance_authority_explicit [OF sample_registry(3), of Background automation_key]
  by (simp add: sample_defs anonymous_def)

lemma delegation_cannot_escalate_sample:
  "authorizeWithArtifactVisibility Background automation_key (plain_request ActionOutboxReplay) None \<noteq> None"
proof (rule delegation_cannot_escalate)
  show "CheckAPIKeyScopeDelegation automation_key [''admin'', ''*''] = None"
    by (auto simp: delegation_None_iff TrimSpace_edge edge_safe_def graphic_def byte_def)
  show "DefinitionFor (req_Action (plain_request ActionOutboxReplay)) =
      Some \<lparr>def_Scope = ''instance:admin'', def_Boundary = InstanceBoundary\<rparr>"
    using sample_registry(3) by (simp add: plain_request_def)
qed (simp_all add: explicitInstanceAuthority_def HasExplicitScope_iff sample_defs)

lemma reviewer_environment_filter:
  "\<exists>v. ReadVisibility Background reviewer ActionEnvironmentsRead = Inr v"
proof -
  have "Authorize Background reviewer
      \<lparr>req_Action = ActionEnvironmentsRead, req_Resources = no_refs, req_Evaluation = ScopeEvaluation\<rparr> = None"
    using sample_registry(2)
    by (simp add: Authorize_permits permits_def resource_permits_def Let_def sample_defs anonymous_def capable_def
        local_refs_def own_tenant_def no_refs_def)
  then show ?thesis using sample_registry(2) by (simp add: ReadVisibility_def visibility_actions_def Let_def)
qed


end
