(* ===== verification/Credential_Policies.thy ===== *)
theory Credential_Policies
  imports Authorization
begin

text \<open>
  The four policies of \<^verbatim>\<open>internal/authz\<close> for credentials other than API actors: customer portal
  tokens (\<^verbatim>\<open>portal_policy.go\<close>), collector bindings and attribution (\<^verbatim>\<open>collector_binding.go\<close>,
  \<^verbatim>\<open>collector_attribution.go\<close>), single sign-on exchanges (\<^verbatim>\<open>sso_exchange_policy.go\<close>) and
  signed incident webhooks (\<^verbatim>\<open>incident_webhook_policy.go\<close>).
\<close>

section \<open>Identifiers\<close>

definition validPortalPolicyID :: "string \<Rightarrow> bool" where
  "validPortalPolicyID i \<longleftrightarrow> i \<noteq> [] \<and> length i \<le> 1024 \<and> TrimSpace i = i \<and> utf8_valid i \<and> \<not> contains_nul i"

section \<open>Customer portal tokens\<close>

record PortalTokenGrant =
  ptg_TenantID :: string
  ptg_AccessID :: string
  ptg_PackageID :: string
  ptg_ExpiresAt :: time
  ptg_Revoked :: bool
  ptg_RequireNDA :: bool
  ptg_NDAAccepted :: bool

record PortalPackageRequest =
  ppr_Action :: Action
  ppr_Scope :: ResourceReferences
  ppr_Target :: ResourceReferences
  ppr_ExpiresAt :: time
  ppr_Now :: time
  ppr_NDAAccepted :: bool
  ppr_NDAAcceptedBy :: string

definition CheckPortalTokenValidity :: "go_context \<Rightarrow> PortalTokenGrant \<Rightarrow> time \<Rightarrow> error option" where
  "CheckPortalTokenValidity ctx grant now =
    on_ok (ctx_err ctx 0)
    (if \<not> validPortalPolicyID (ptg_TenantID grant) \<or> \<not> validPortalPolicyID (ptg_AccessID grant) \<or>
        \<not> validPortalPolicyID (ptg_PackageID grant) \<or> ptg_Revoked grant \<or> is_zero_time now \<or>
        \<not> ptg_ExpiresAt grant > now
     then Some ErrUnauthorized else None)"

definition AuthorizePortalPackage ::
  "go_context \<Rightarrow> PortalTokenGrant \<Rightarrow> PortalPackageRequest \<Rightarrow> error option" where
  "AuthorizePortalPackage ctx grant request =
    on_ok (CheckPortalTokenValidity ctx grant (ppr_Now request))
    (case DefinitionFor (ppr_Action request) of
       None \<Rightarrow> Some ErrForbidden
     | Some d \<Rightarrow>
       (if def_Boundary d \<noteq> PackageTokenBoundary then Some ErrForbidden
        else let scope = ppr_Scope request in
        if \<not> validPortalPolicyID (ref_ProductID scope) \<or> \<not> validPortalPolicyID (ref_ReleaseID scope) \<or>
           scope \<noteq> no_refs\<lparr>ref_TenantID := ptg_TenantID grant, ref_ProductID := ref_ProductID scope,
             ref_ReleaseID := ref_ReleaseID scope, ref_CustomerPackageID := ptg_PackageID grant\<rparr> \<or>
           ppr_Target request \<noteq> scope \<or> \<not> ppr_ExpiresAt request > ppr_Now request
        then Some ErrNotFound
        else if ptg_RequireNDA grant \<and> \<not> ptg_NDAAccepted grant \<and>
           (\<not> ppr_NDAAccepted request \<or> TrimSpace (ppr_NDAAcceptedBy request) = [])
        then Some ErrForbidden
        else None))"

section \<open>Collectors\<close>

record CollectorCredentialBinding =
  ccb_ID :: string
  ccb_TenantID :: string
  ccb_APIKeyID :: string
  ccb_Status :: string
  ccb_AllowedScopes :: "string list"

text \<open>The inlined check \<^verbatim>\<open>scope == "" || len(scope) > 128 || \<dots>\<close> of a declared capability.\<close>

definition invalid_capability :: "string \<Rightarrow> bool" where
  "invalid_capability scope \<longleftrightarrow> scope = [] \<or> length scope > 128 \<or> TrimSpace scope \<noteq> scope \<or>
     \<not> utf8_valid scope \<or> contains_nul scope"

definition CheckCollectorCredentialBinding :: "Actor \<Rightarrow> CollectorCredentialBinding \<Rightarrow> error option" where
  "CheckCollectorCredentialBinding actor binding =
    (if list_ex (\<lambda>i. \<not> validPortalPolicyID i) [ccb_ID binding, ccb_TenantID binding, ccb_APIKeyID binding]
     then Some ErrForbidden
     else if actor_TenantID actor \<noteq> ccb_TenantID binding \<or> actor_KeyID actor \<noteq> ccb_APIKeyID binding \<or>
        actor_UserID actor \<noteq> [] \<or> actor_SessionID actor \<noteq> [] \<or>
        actor_CollectorID actor \<noteq> [] \<and> actor_CollectorID actor \<noteq> ccb_ID binding \<or>
        ccb_Status binding \<noteq> ''active'' \<or>
        length (ccb_AllowedScopes binding) = 0 \<or> length (ccb_AllowedScopes binding) > 1024 \<or>
        length (actor_Scopes actor) = 0 \<or> length (actor_Scopes actor) > 1024
     then Some ErrForbidden
     else if list_ex invalid_capability (ccb_AllowedScopes binding) then Some ErrForbidden
     else if list_ex (\<lambda>scope. scope \<notin> set (ccb_AllowedScopes binding)) (actor_Scopes actor) then Some ErrForbidden
     else None)"

text \<open>A value of type \<^verbatim>\<open>any\<close> as the type assertion \<^verbatim>\<open>claimedSource.(string)\<close> sees it.\<close>

datatype any_claim = StringClaim string | NonStringClaim

definition CheckCollectorAttribution ::
  "go_context \<Rightarrow> Actor \<Rightarrow> string \<Rightarrow> (string \<Rightarrow> any_claim option) \<Rightarrow> error option" where
  "CheckCollectorAttribution ctx actor collectorID sourceIdentity =
    on_ok (ctx_err ctx 0)
    (if anonymous actor then Some ErrUnauthorized
     else let claim = sourceIdentity ''collector_id'' in
     if actor_CollectorID actor = [] then
       (if collectorID \<noteq> [] \<or> claim \<noteq> None then Some ErrForbidden else None)
     else if list_ex (\<lambda>i. \<not> validPortalPolicyID i) [actor_TenantID actor, actor_KeyID actor, actor_CollectorID actor]
     then Some ErrForbidden
     else if actor_UserID actor \<noteq> [] \<or> actor_SessionID actor \<noteq> [] \<or>
        collectorID \<noteq> [] \<and> collectorID \<noteq> actor_CollectorID actor
     then Some ErrForbidden
     else case claim of
        None \<Rightarrow> None
      | Some (StringClaim i) \<Rightarrow> (if i \<noteq> actor_CollectorID actor then Some ErrForbidden else None)
      | Some NonStringClaim \<Rightarrow> Some ErrForbidden)"

section \<open>Single sign-on exchange\<close>

record SSOExchangeProvider =
  prov_ID :: string
  prov_TenantID :: string
  prov_Status :: string

record SSOExchangeLink =
  link_ID :: string
  link_TenantID :: string
  link_ProviderID :: string
  link_UserID :: string
  link_Subject :: string
  link_Verified :: bool

record SSOExchangeUser =
  user_ID :: string
  user_TenantID :: string
  user_Status :: string

record SSOExchangeRequest =
  sso_Action :: Action
  sso_ProviderID :: string
  sso_Subject :: string
  sso_Provider :: SSOExchangeProvider
  sso_Link :: SSOExchangeLink
  sso_User :: SSOExchangeUser
  sso_LinkFound :: bool
  sso_UserFound :: bool
  sso_VerificationResult :: string
  sso_CredentialChecks :: "string list"
  sso_VerifierCompleted :: bool
  sso_HasCapabilities :: bool

text \<open>\<^verbatim>\<open>ssoExchangePolicyContext\<close> and \<^verbatim>\<open>webhookPolicyContext\<close> have the same body.\<close>

definition ssoExchangePolicyContext :: "go_context \<Rightarrow> error option" where
  "ssoExchangePolicyContext ctx = ctx_err ctx 0"

definition webhookPolicyContext :: "go_context \<Rightarrow> error option" where
  "webhookPolicyContext ctx = ctx_err ctx 0"

definition CheckSSOExchangeProvider :: "go_context \<Rightarrow> SSOExchangeProvider \<Rightarrow> string \<Rightarrow> error option" where
  "CheckSSOExchangeProvider ctx provider expectedID =
    on_ok (ssoExchangePolicyContext ctx)
    (if \<not> validPortalPolicyID expectedID \<or> \<not> validPortalPolicyID (prov_TenantID provider) \<or>
        prov_ID provider \<noteq> expectedID \<or> prov_Status provider \<noteq> ''active''
     then Some ErrNotFound else None)"

definition CheckSSOCredentialVerification :: "go_context \<Rightarrow> string \<Rightarrow> bool \<Rightarrow> string list \<Rightarrow> error option" where
  "CheckSSOCredentialVerification ctx outcome completed checks =
    on_ok (ssoExchangePolicyContext ctx)
    (if \<not> completed \<or> outcome \<noteq> ''passed'' \<or> length checks = 0 then Some ErrUnauthorized
     else if list_ex (\<lambda>c. c \<noteq> ''passed'') checks then Some ErrUnauthorized
     else None)"

definition CheckSSOExchangeLink ::
  "go_context \<Rightarrow> SSOExchangeProvider \<Rightarrow> string \<Rightarrow> SSOExchangeLink \<Rightarrow> bool \<Rightarrow> error option" where
  "CheckSSOExchangeLink ctx provider subject link found =
    on_ok (ssoExchangePolicyContext ctx)
    (if \<not> found \<or> \<not> validPortalPolicyID (link_ID link) \<or> \<not> validPortalPolicyID (link_UserID link) \<or>
        subject = [] \<or> length subject > 65536 \<or> TrimSpace subject \<noteq> subject \<or> \<not> utf8_valid subject \<or>
        contains_nul subject \<or> link_TenantID link \<noteq> prov_TenantID provider \<or>
        link_ProviderID link \<noteq> prov_ID provider \<or> link_Subject link \<noteq> subject \<or> \<not> link_Verified link
     then Some ErrUnauthorized else None)"

definition CheckSSOExchangeUser ::
  "go_context \<Rightarrow> SSOExchangeProvider \<Rightarrow> SSOExchangeLink \<Rightarrow> SSOExchangeUser \<Rightarrow> bool \<Rightarrow> error option" where
  "CheckSSOExchangeUser ctx provider link user found =
    on_ok (ssoExchangePolicyContext ctx)
    (if \<not> found \<or> user_ID user \<noteq> link_UserID link \<or> user_TenantID user \<noteq> prov_TenantID provider \<or>
        user_Status user \<noteq> ''active''
     then Some ErrUnauthorized else None)"

definition AuthorizeSSOExchange :: "go_context \<Rightarrow> SSOExchangeRequest \<Rightarrow> error option" where
  "AuthorizeSSOExchange ctx request =
    on_ok (ssoExchangePolicyContext ctx)
    (case DefinitionFor (sso_Action request) of
       None \<Rightarrow> Some ErrForbidden
     | Some d \<Rightarrow>
       (if def_Boundary d \<noteq> VerifiedIdentityBoundary then Some ErrForbidden
        else on_ok (CheckSSOExchangeProvider (ctx_drop 1 ctx) (sso_Provider request) (sso_ProviderID request))
         (on_ok (CheckSSOCredentialVerification (ctx_drop 2 ctx) (sso_VerificationResult request)
             (sso_VerifierCompleted request) (sso_CredentialChecks request))
         (on_ok (CheckSSOExchangeLink (ctx_drop 3 ctx) (sso_Provider request) (sso_Subject request)
             (sso_Link request) (sso_LinkFound request))
         (on_ok (CheckSSOExchangeUser (ctx_drop 4 ctx) (sso_Provider request) (sso_Link request)
             (sso_User request) (sso_UserFound request))
         (if \<not> sso_HasCapabilities request then Some ErrForbidden else None))))))"

definition CheckSSOExchangeSessionLifetime :: "go_context \<Rightarrow> time \<Rightarrow> time \<Rightarrow> time \<Rightarrow> error option" where
  "CheckSSOExchangeSessionLifetime ctx createdAt expiresAt now =
    on_ok (ssoExchangePolicyContext ctx)
    (if is_zero_time createdAt \<or> is_zero_time now \<or> \<not> expiresAt > now \<or> expiresAt > createdAt + 12 * Hour
     then Some ErrUnauthorized else None)"

section \<open>Signed incident webhooks\<close>

definition IncidentWebhookTimestampTolerance :: duration where
  "IncidentWebhookTimestampTolerance = 5 * Minute"

record IncidentWebhookBinding =
  iwb_TenantID :: string
  iwb_ReceiverID :: string
  iwb_IncidentID :: string
  iwb_Status :: string
  iwb_Provider :: string

record IncidentWebhookSubject =
  iws_ID :: string
  iws_TenantID :: string
  iws_Kind :: string
  iws_Resources :: ResourceReferences

text \<open>The zero value \<^verbatim>\<open>IncidentWebhookSubject{}\<close>: no evidence association.\<close>

definition no_subject :: IncidentWebhookSubject where
  "no_subject = \<lparr>iws_ID = [], iws_TenantID = [], iws_Kind = [], iws_Resources = no_refs\<rparr>"

record IncidentWebhookRequest =
  iwr_Action :: Action
  iwr_Incident :: IncidentWebhookSubject
  iwr_Evidence :: IncidentWebhookSubject
  iwr_Timestamp :: time
  iwr_Now :: time

definition CheckIncidentWebhookTimestamp :: "go_context \<Rightarrow> time \<Rightarrow> time \<Rightarrow> error option" where
  "CheckIncidentWebhookTimestamp ctx timestamp now =
    on_ok (webhookPolicyContext ctx)
    (if is_zero_time timestamp \<or> is_zero_time now \<or> timestamp < now + (- IncidentWebhookTimestampTolerance) \<or>
        timestamp > now + IncidentWebhookTimestampTolerance
     then Some ErrUnauthorized else None)"

definition CheckIncidentWebhookBinding ::
  "go_context \<Rightarrow> IncidentWebhookBinding \<Rightarrow> string \<Rightarrow> string \<Rightarrow> error option" where
  "CheckIncidentWebhookBinding ctx binding tenantID receiverID =
    on_ok (webhookPolicyContext ctx)
    (if \<not> validPortalPolicyID tenantID \<or> \<not> validPortalPolicyID receiverID \<or>
        \<not> validPortalPolicyID (iwb_IncidentID binding) \<or> iwb_TenantID binding \<noteq> tenantID \<or>
        iwb_ReceiverID binding \<noteq> receiverID \<or> iwb_Status binding \<noteq> ''active'' \<or>
        length (iwb_Provider binding) > 65536 \<or> \<not> utf8_valid (iwb_Provider binding) \<or>
        contains_nul (iwb_Provider binding) \<or> TrimSpace (iwb_Provider binding) = []
     then Some ErrNotFound else None)"

definition validWebhookPolicySubject :: "IncidentWebhookSubject \<Rightarrow> string \<Rightarrow> string \<Rightarrow> bool" where
  "validWebhookPolicySubject subject tenant kind =
    (if \<not> validPortalPolicyID (iws_ID subject) \<or> iws_TenantID subject \<noteq> tenant \<or> iws_Kind subject \<noteq> kind
     then False
     else let r = iws_Resources subject in
     if list_ex (\<lambda>i. i \<noteq> [] \<and> \<not> validPortalPolicyID i)
          [ref_ProductID r, ref_ProjectID r, ref_ReleaseID r, ref_BuildID r, ref_DeploymentID r] then False
     else if kind = ''incident'' then ref_ProductID r \<noteq> [] \<and>
       r = no_refs\<lparr>ref_ProductID := ref_ProductID r, ref_ReleaseID := ref_ReleaseID r\<rparr>
     else ref_ProductID r \<noteq> [] \<and>
       r = no_refs\<lparr>ref_ProductID := ref_ProductID r, ref_ProjectID := ref_ProjectID r,
         ref_ReleaseID := ref_ReleaseID r, ref_BuildID := ref_BuildID r, ref_DeploymentID := ref_DeploymentID r\<rparr>)"

definition AuthorizeIncidentWebhook ::
  "go_context \<Rightarrow> IncidentWebhookBinding \<Rightarrow> IncidentWebhookRequest \<Rightarrow> error option" where
  "AuthorizeIncidentWebhook ctx binding request =
    on_ok (CheckIncidentWebhookTimestamp ctx (iwr_Timestamp request) (iwr_Now request))
    (case DefinitionFor (iwr_Action request) of
       None \<Rightarrow> Some ErrForbidden
     | Some d \<Rightarrow>
       (if def_Boundary d \<noteq> SignedWebhookBoundary then Some ErrForbidden
        else on_ok (CheckIncidentWebhookBinding (ctx_drop 1 ctx) binding (iwb_TenantID binding) (iwb_ReceiverID binding))
        (let incident = iwr_Incident request; evidence = iwr_Evidence request in
         if \<not> validWebhookPolicySubject incident (iwb_TenantID binding) ''incident'' \<or>
            iws_ID incident \<noteq> iwb_IncidentID binding
         then Some ErrNotFound
         else if evidence = no_subject then None
         else if \<not> validWebhookPolicySubject evidence (iwb_TenantID binding) ''evidence'' \<or>
            ref_ProductID (iws_Resources evidence) \<noteq> ref_ProductID (iws_Resources incident) \<or>
            ref_ReleaseID (iws_Resources evidence) \<noteq> [] \<and>
            ref_ReleaseID (iws_Resources evidence) \<noteq> ref_ReleaseID (iws_Resources incident)
         then Some ErrNotFound
         else None)))"

end
