(* ===== verification/Credential_Properties.thy ===== *)
theory Credential_Properties
  imports Credential_Policies Authorization_Properties
begin

text \<open>
  What the credential policies promise: a portal token reaches one unexpired package, a
  collector key never exceeds its declared capabilities, an identity exchange needs every
  positive proof, a webhook reaches its one bound incident, and no action can be reached
  through two kinds of credential.
\<close>

section \<open>Portal tokens\<close>

lemma boundary_case_None_iff:
  "(case DefinitionFor action of None \<Rightarrow> Some e | Some d \<Rightarrow> (if def_Boundary d \<noteq> b then Some e' else f)) = None
    \<longleftrightarrow> (\<exists>d. DefinitionFor action = Some d \<and> def_Boundary d = b) \<and> f = None"
  by (auto split: option.splits)

definition token_live :: "PortalTokenGrant \<Rightarrow> time \<Rightarrow> bool" where
  "token_live grant now \<longleftrightarrow> \<not> ptg_Revoked grant \<and> now \<noteq> 0 \<and> now < ptg_ExpiresAt grant \<and>
     (\<forall>i\<in>{ptg_TenantID grant, ptg_AccessID grant, ptg_PackageID grant}. validPortalPolicyID i)"

lemma CheckPortalTokenValidity_None_iff:
  "CheckPortalTokenValidity ctx grant now = None \<longleftrightarrow> ctx_err ctx 0 = None \<and> token_live grant now"
  by (auto simp: CheckPortalTokenValidity_def token_live_def)

text \<open>
  C5: a portal token reaches exactly its own package. Access is allowed if and only if the
  token is live, the action is a package-token action, the package returned by storage
  lies at the coordinates of the grant's tenant and package with valid product and release,
  neither token nor package has expired, and a required NDA was accepted by someone.
\<close>

theorem portal_package_exact:
  assumes "ctx_err ctx 0 = None"
  shows "AuthorizePortalPackage ctx grant r = None \<longleftrightarrow>
    token_live grant (ppr_Now r) \<and>
    (\<exists>d. DefinitionFor (ppr_Action r) = Some d \<and> def_Boundary d = PackageTokenBoundary) \<and>
    (\<exists>product release. validPortalPolicyID product \<and> validPortalPolicyID release \<and>
       ppr_Target r = no_refs\<lparr>ref_TenantID := ptg_TenantID grant, ref_ProductID := product,
         ref_ReleaseID := release, ref_CustomerPackageID := ptg_PackageID grant\<rparr> \<and> ppr_Scope r = ppr_Target r) \<and>
    ppr_Now r < ppr_ExpiresAt r \<and>
    (ptg_RequireNDA grant \<longrightarrow> ptg_NDAAccepted grant \<or> ppr_NDAAccepted r \<and> \<not> blank (ppr_NDAAcceptedBy r))"
    (is "_ \<longleftrightarrow> ?live \<and> ?bound \<and> ?place \<and> ?time \<and> ?nda")
proof -
  let ?s = "ppr_Scope r"
  let ?at = "\<lambda>p q. no_refs\<lparr>ref_TenantID := ptg_TenantID grant, ref_ProductID := p,
         ref_ReleaseID := q, ref_CustomerPackageID := ptg_PackageID grant\<rparr>"
  have place: "?place \<longleftrightarrow> validPortalPolicyID (ref_ProductID ?s) \<and> validPortalPolicyID (ref_ReleaseID ?s) \<and>
      ?s = ?at (ref_ProductID ?s) (ref_ReleaseID ?s) \<and> ppr_Target r = ?s"
    by (auto simp: refs_eq_iff)
  show ?thesis
    unfolding AuthorizePortalPackage_def on_ok_None_iff boundary_case_None_iff CheckPortalTokenValidity_None_iff
      place Let_def
    using assms by (auto simp: blank_def)
qed

section \<open>Collectors\<close>

lemma CheckCollectorCredentialBinding_None:
  "CheckCollectorCredentialBinding actor binding = None \<Longrightarrow>
     actor_TenantID actor = ccb_TenantID binding \<and> actor_KeyID actor = ccb_APIKeyID binding \<and>
     \<not> human actor \<and> set (actor_Scopes actor) \<subseteq> set (ccb_AllowedScopes binding) \<and> ccb_Status binding = ''active''"
  by (auto simp: CheckCollectorCredentialBinding_def human_def list_ex_iff split: if_splits)

text \<open>
  C6: a collector credential is confined to its declared binding. When the binding check and
  the policy both pass, the request stays in the binding's tenant, the binding is active, and
  a capability that allows the action was declared literally in the binding's scopes; an
  instance action needs the declared instance scope.
\<close>

theorem collector_binding_confines:
  assumes "CheckCollectorCredentialBinding actor binding = None"
    and "authorizeWithArtifactVisibility ctx actor r reader = None"
  shows "ccb_Status binding = ''active'' \<and> ref_TenantID (req_Resources r) \<in> {[], ccb_TenantID binding} \<and>
    (\<exists>d. DefinitionFor (req_Action r) = Some d \<and>
      (if def_Boundary d = InstanceBoundary then ''instance:admin'' \<in> set (ccb_AllowedScopes binding)
       else {def_Scope d, ''admin'', ''*''} \<inter> set (ccb_AllowedScopes binding) \<noteq> {}))"
proof -
  note b = CheckCollectorCredentialBinding_None [OF assms(1)]
  from assms(2) obtain d where d: "DefinitionFor (req_Action r) = Some d"
    "boundaryDecision ctx actor r d reader = None" by (rule authorize_success)
  from boundaryDecision_sound [OF d] b
  have "ref_TenantID (req_Resources r) \<in> {[], ccb_TenantID binding}" by (simp add: own_tenant_def)
  moreover from boundaryDecision_sound [OF d] b
  have "if def_Boundary d = InstanceBoundary then ''instance:admin'' \<in> set (ccb_AllowedScopes binding)
       else {def_Scope d, ''admin'', ''*''} \<inter> set (ccb_AllowedScopes binding) \<noteq> {}"
    by (cases "def_Boundary d") (auto simp: capable_def)
  ultimately show ?thesis using b d(1) by blast
qed

text \<open>A request body can only confirm the collector that the credential already names.\<close>

lemma collector_attribution_truthful:
  "CheckCollectorAttribution ctx actor collectorID source = None \<Longrightarrow>
     collectorID \<in> {[], actor_CollectorID actor} \<and>
     source ''collector_id'' \<in> {None, Some (StringClaim (actor_CollectorID actor))} \<and>
     (actor_CollectorID actor = [] \<longrightarrow> source ''collector_id'' = None)"
  by (auto simp: CheckCollectorAttribution_def Let_def split: if_splits option.splits any_claim.splits)

section \<open>Identity exchange\<close>

definition exchange_proved :: "SSOExchangeRequest \<Rightarrow> bool" where
  "exchange_proved r \<longleftrightarrow>
     prov_ID (sso_Provider r) = sso_ProviderID r \<and> prov_Status (sso_Provider r) = ''active'' \<and>
     sso_VerifierCompleted r \<and> sso_VerificationResult r = ''passed'' \<and>
     sso_CredentialChecks r \<noteq> [] \<and> set (sso_CredentialChecks r) = {''passed''} \<and>
     sso_LinkFound r \<and> link_Verified (sso_Link r) \<and> link_Subject (sso_Link r) = sso_Subject r \<and>
     link_ProviderID (sso_Link r) = sso_ProviderID r \<and>
     sso_UserFound r \<and> user_ID (sso_User r) = link_UserID (sso_Link r) \<and> user_Status (sso_User r) = ''active'' \<and>
     link_TenantID (sso_Link r) = prov_TenantID (sso_Provider r) \<and>
     user_TenantID (sso_User r) = prov_TenantID (sso_Provider r) \<and> sso_HasCapabilities r"

lemma sso_check_D:
  "CheckSSOExchangeProvider ctx p i = None \<Longrightarrow> ctx_err ctx 0 = None \<and> prov_ID p = i \<and> prov_Status p = ''active''"
  "CheckSSOCredentialVerification ctx res completed cs = None \<Longrightarrow>
     ctx_err ctx 0 = None \<and> completed \<and> res = ''passed'' \<and> cs \<noteq> [] \<and> (\<forall>c\<in>set cs. c = ''passed'')"
  "CheckSSOExchangeLink ctx p subject l found = None \<Longrightarrow>
     ctx_err ctx 0 = None \<and> found \<and> link_TenantID l = prov_TenantID p \<and> link_ProviderID l = prov_ID p \<and>
     link_Subject l = subject \<and> link_Verified l"
  "CheckSSOExchangeUser ctx p l u found = None \<Longrightarrow>
     ctx_err ctx 0 = None \<and> found \<and> user_ID u = link_UserID l \<and> user_TenantID u = prov_TenantID p \<and>
     user_Status u = ''active''"
  by (simp_all add: CheckSSOExchangeProvider_def CheckSSOCredentialVerification_def CheckSSOExchangeLink_def
      CheckSSOExchangeUser_def ssoExchangePolicyContext_def list_ex_iff split: if_splits)

lemma AuthorizeSSOExchange_sound:
  assumes "AuthorizeSSOExchange ctx r = None"
  shows "exchange_proved r" and "n < 5 \<Longrightarrow> ctx_err ctx n = None"
    and "\<exists>d. DefinitionFor (sso_Action r) = Some d \<and> def_Boundary d = VerifiedIdentityBoundary"
proof -
  from assms have ok: "ctx_err ctx 0 = None"
    "\<exists>d. DefinitionFor (sso_Action r) = Some d \<and> def_Boundary d = VerifiedIdentityBoundary"
    "CheckSSOExchangeProvider (ctx_drop 1 ctx) (sso_Provider r) (sso_ProviderID r) = None"
    "CheckSSOCredentialVerification (ctx_drop 2 ctx) (sso_VerificationResult r)
       (sso_VerifierCompleted r) (sso_CredentialChecks r) = None"
    "CheckSSOExchangeLink (ctx_drop 3 ctx) (sso_Provider r) (sso_Subject r) (sso_Link r) (sso_LinkFound r) = None"
    "CheckSSOExchangeUser (ctx_drop 4 ctx) (sso_Provider r) (sso_Link r) (sso_User r) (sso_UserFound r) = None"
    "sso_HasCapabilities r"
    unfolding AuthorizeSSOExchange_def boundary_case_None_iff on_ok_None_iff
    by (simp_all add: ssoExchangePolicyContext_def split: if_splits)
  note checks = sso_check_D(1) [OF ok(3)] sso_check_D(2) [OF ok(4)] sso_check_D(3) [OF ok(5)] sso_check_D(4) [OF ok(6)]
  from checks(2) have "set (sso_CredentialChecks r) = {''passed''}"
    by (auto simp: neq_Nil_conv)
  with checks ok(7) show "exchange_proved r" by (simp add: exchange_proved_def)
  from checks ok(1) show "ctx_err ctx n = None" if "n < 5"
    using that by (auto simp: less_Suc_eq numeral_eq_Suc)
  show "\<exists>d. DefinitionFor (sso_Action r) = Some d \<and> def_Boundary d = VerifiedIdentityBoundary" by (rule ok(2))
qed

lemma exchange_lifetime:
  "CheckSSOExchangeSessionLifetime ctx created expires now = None \<Longrightarrow>
     now < expires \<and> expires - created \<le> 12 * Hour"
  by (auto simp: CheckSSOExchangeSessionLifetime_def split: if_splits)


section \<open>Signed webhooks\<close>

lemma validWebhookPolicySubject_D:
  "validWebhookPolicySubject s tenant kind \<Longrightarrow>
     iws_TenantID s = tenant \<and> iws_Kind s = kind \<and> ref_ProductID (iws_Resources s) \<noteq> []"
  by (auto simp: validWebhookPolicySubject_def Let_def split: if_splits)

lemma AuthorizeIncidentWebhook_D:
  assumes "AuthorizeIncidentWebhook ctx binding r = None"
  shows "CheckIncidentWebhookTimestamp ctx (iwr_Timestamp r) (iwr_Now r) = None"
    and "\<exists>d. DefinitionFor (iwr_Action r) = Some d \<and> def_Boundary d = SignedWebhookBoundary"
    and "iwb_Status binding = ''active''"
    and "validWebhookPolicySubject (iwr_Incident r) (iwb_TenantID binding) ''incident''"
    and "iws_ID (iwr_Incident r) = iwb_IncidentID binding"
    and "iwr_Evidence r = no_subject \<or>
      validWebhookPolicySubject (iwr_Evidence r) (iwb_TenantID binding) ''evidence'' \<and>
      ref_ProductID (iws_Resources (iwr_Evidence r)) = ref_ProductID (iws_Resources (iwr_Incident r)) \<and>
      ref_ReleaseID (iws_Resources (iwr_Evidence r)) \<in> {[], ref_ReleaseID (iws_Resources (iwr_Incident r))}"
  using assms unfolding AuthorizeIncidentWebhook_def boundary_case_None_iff on_ok_None_iff Let_def
  by (simp_all add: CheckIncidentWebhookBinding_def split: if_splits)

text \<open>
  A signed webhook is confined. An allowed delivery is at most five minutes away from
  the current time in either direction, concerns exactly the incident its active receiver is
  bound to, and any attached evidence belongs to the same tenant and product and to no
  release other than the incident's.
\<close>

lemma incident_webhook_confined:
  assumes "AuthorizeIncidentWebhook ctx binding r = None"
  shows "\<bar>iwr_Timestamp r - iwr_Now r\<bar> \<le> 5 * Minute \<and> iwb_Status binding = ''active'' \<and>
    iws_ID (iwr_Incident r) = iwb_IncidentID binding \<and> iws_TenantID (iwr_Incident r) = iwb_TenantID binding \<and>
    (iwr_Evidence r \<noteq> no_subject \<longrightarrow> iws_TenantID (iwr_Evidence r) = iwb_TenantID binding \<and>
      ref_ProductID (iws_Resources (iwr_Evidence r)) = ref_ProductID (iws_Resources (iwr_Incident r)) \<and>
      ref_ReleaseID (iws_Resources (iwr_Evidence r)) \<in> {[], ref_ReleaseID (iws_Resources (iwr_Incident r))})"
proof -
  note D = AuthorizeIncidentWebhook_D [OF assms]
  from D(1) have "\<bar>iwr_Timestamp r - iwr_Now r\<bar> \<le> 5 * Minute"
    by (auto simp: CheckIncidentWebhookTimestamp_def IncidentWebhookTimestampTolerance_def split: if_splits)
  with D(3-6) show ?thesis by (blast dest: validWebhookPolicySubject_D)
qed

section \<open>One kind of credential per action\<close>

definition api_can :: "Action \<Rightarrow> bool" where
  "api_can action \<longleftrightarrow> (\<exists>ctx actor r reader. req_Action r = action \<and> authorizeWithArtifactVisibility ctx actor r reader = None)"

definition portal_can :: "Action \<Rightarrow> bool" where
  "portal_can action \<longleftrightarrow> (\<exists>ctx g r. ppr_Action r = action \<and> AuthorizePortalPackage ctx g r = None)"

definition exchange_can :: "Action \<Rightarrow> bool" where
  "exchange_can action \<longleftrightarrow> (\<exists>ctx r. sso_Action r = action \<and> AuthorizeSSOExchange ctx r = None)"

definition webhook_can :: "Action \<Rightarrow> bool" where
  "webhook_can action \<longleftrightarrow> (\<exists>ctx b r. iwr_Action r = action \<and> AuthorizeIncidentWebhook ctx b r = None)"

definition at_boundary :: "Action \<Rightarrow> Boundary set \<Rightarrow> bool" where
  "at_boundary action bs \<longleftrightarrow> (\<exists>d. DefinitionFor action = Some d \<and> def_Boundary d \<in> bs)"

lemma api_boundary: "api_can action \<Longrightarrow> at_boundary action (- {PackageTokenBoundary, VerifiedIdentityBoundary, SignedWebhookBoundary})"
  unfolding api_can_def at_boundary_def by (force elim!: authorize_success simp: boundaryDecision_def)

lemma portal_boundary: "portal_can action \<Longrightarrow> at_boundary action {PackageTokenBoundary}"
  unfolding portal_can_def at_boundary_def AuthorizePortalPackage_def on_ok_None_iff boundary_case_None_iff by auto

lemma exchange_boundary: "exchange_can action \<Longrightarrow> at_boundary action {VerifiedIdentityBoundary}"
  unfolding exchange_can_def at_boundary_def by (auto dest!: AuthorizeSSOExchange_sound(3))

lemma webhook_boundary: "webhook_can action \<Longrightarrow> at_boundary action {SignedWebhookBoundary}"
  unfolding webhook_can_def at_boundary_def by (auto dest!: AuthorizeIncidentWebhook_D(2))

text \<open>
  Credential kinds do not overlap. For every action at most one of the four deciders
  (API actor, portal token, identity exchange, signed webhook) can ever allow it, so a scope
  cannot replace a token, a signature or a verified identity, and conversely.
\<close>

lemma credential_kinds_disjoint:
  "length (filter (\<lambda>can. can action) [api_can, portal_can, exchange_can, webhook_can]) \<le> 1"
  using api_boundary [of action] portal_boundary [of action] exchange_boundary [of action] webhook_boundary [of action]
  by (auto simp: at_boundary_def)

section \<open>Witnesses\<close>

lemma sample_ids:
  "validPortalPolicyID ''t1''" "validPortalPolicyID ''a1''" "validPortalPolicyID ''pkg1''" "validPortalPolicyID ''p1''"
  "validPortalPolicyID ''r1''" "validPortalPolicyID ''k1''" "validPortalPolicyID ''c1''" "validPortalPolicyID ''inc1''"
  "validPortalPolicyID ''idp1''" "validPortalPolicyID ''u1''"
  by (simp_all add: validPortalPolicyID_def edge_safe_def graphic_def byte_def contains_nul_def)

lemma sample_credential_registry:
  "DefinitionFor ActionPortalPackagesDownload = Some \<lparr>def_Scope = [], def_Boundary = PackageTokenBoundary\<rparr>"
  "DefinitionFor ActionSignedIncidentWebhookRecord = Some \<lparr>def_Scope = [], def_Boundary = SignedWebhookBoundary\<rparr>"
  "DefinitionFor ActionSSOCredentialsExchange = Some \<lparr>def_Scope = [], def_Boundary = VerifiedIdentityBoundary\<rparr>"
  by (simp_all add: DefinitionFor_def definition_cases_def action_ids)

definition sample_token :: PortalTokenGrant where
  "sample_token = \<lparr>ptg_TenantID = ''t1'', ptg_AccessID = ''a1'', ptg_PackageID = ''pkg1'', ptg_ExpiresAt = 20,
     ptg_Revoked = False, ptg_RequireNDA = True, ptg_NDAAccepted = False\<rparr>"

definition sample_download :: "time \<Rightarrow> PortalPackageRequest" where
  "sample_download now = (let place = no_refs\<lparr>ref_TenantID := ''t1'', ref_ProductID := ''p1'', ref_ReleaseID := ''r1'',
       ref_CustomerPackageID := ''pkg1''\<rparr> in
     \<lparr>ppr_Action = ActionPortalPackagesDownload, ppr_Scope = place, ppr_Target = place, ppr_ExpiresAt = 30,
      ppr_Now = now, ppr_NDAAccepted = True, ppr_NDAAcceptedBy = ''u1''\<rparr>)"

theorem portal_package_exact_witness:
  "AuthorizePortalPackage Background sample_token (sample_download 10) = None \<and>
   AuthorizePortalPackage Background sample_token (sample_download 20) \<noteq> None"
proof -
  have "\<not> blank ''u1''" by (simp add: blank_def edge_safe_def graphic_def byte_def)
  then show ?thesis
    using portal_package_exact [of Background sample_token "sample_download 10"]
      portal_package_exact [of Background sample_token "sample_download 20"] sample_ids sample_credential_registry(1)
    by (auto simp: sample_download_def sample_token_def token_live_def Let_def)
qed

definition sample_binding :: CollectorCredentialBinding where
  "sample_binding = \<lparr>ccb_ID = ''c1'', ccb_TenantID = ''t1'', ccb_APIKeyID = ''k1'', ccb_Status = ''active'',
     ccb_AllowedScopes = [''release:read'', ''evidence:write'']\<rparr>"

definition sample_collector :: Actor where
  "sample_collector = zero_actor\<lparr>actor_TenantID := ''t1'', actor_KeyID := ''k1'', actor_CollectorID := ''c1'',
     actor_Scopes := [''release:read'']\<rparr>"

theorem collector_binding_confines_witness:
  "authorizeWithArtifactVisibility Background sample_collector read_release None = None \<and>
   (\<exists>d. DefinitionFor ActionReleasesRead = Some d \<and>
      {def_Scope d, ''admin'', ''*''} \<inter> set (ccb_AllowedScopes sample_binding) \<noteq> {})"
proof -
  have bind: "CheckCollectorCredentialBinding sample_collector sample_binding = None"
    using sample_ids
    by (simp add: CheckCollectorCredentialBinding_def sample_collector_def sample_binding_def zero_actor_def
        invalid_capability_def edge_safe_def graphic_def byte_def contains_nul_def)
  have "Authorize Background sample_collector read_release = None"
    using sample_registry(1) sample_shape(1)
    by (simp add: Authorize_permits permits_def resource_permits_def Let_def sample_collector_def zero_actor_def
        read_release_def own_tenant_def local_refs_def anonymous_def capable_def granted_def human_def no_refs_def
        allowsArtifactVisibility_def artifact_visibility_actions_def action_ids)
  then have ok: "authorizeWithArtifactVisibility Background sample_collector read_release None = None"
    by (simp add: Authorize_def)
  from collector_binding_confines [OF bind ok] ok sample_registry(1) show ?thesis
    by (simp add: read_release_def)
qed

definition sample_exchange :: SSOExchangeRequest where
  "sample_exchange =
    \<lparr>sso_Action = ActionSSOCredentialsExchange, sso_ProviderID = ''idp1'', sso_Subject = ''u1'',
     sso_Provider = \<lparr>prov_ID = ''idp1'', prov_TenantID = ''t1'', prov_Status = ''active''\<rparr>,
     sso_Link = \<lparr>link_ID = ''a1'', link_TenantID = ''t1'', link_ProviderID = ''idp1'', link_UserID = ''u1'',
       link_Subject = ''u1'', link_Verified = True\<rparr>,
     sso_User = \<lparr>user_ID = ''u1'', user_TenantID = ''t1'', user_Status = ''active''\<rparr>,
     sso_LinkFound = True, sso_UserFound = True, sso_VerificationResult = ''passed'',
     sso_CredentialChecks = [''passed''], sso_VerifierCompleted = True, sso_HasCapabilities = True\<rparr>"


definition sample_webhook :: IncidentWebhookBinding where
  "sample_webhook = \<lparr>iwb_TenantID = ''t1'', iwb_ReceiverID = ''c1'', iwb_IncidentID = ''inc1'',
     iwb_Status = ''active'', iwb_Provider = ''u1''\<rparr>"

definition sample_delivery :: IncidentWebhookRequest where
  "sample_delivery = \<lparr>iwr_Action = ActionSignedIncidentWebhookRecord,
     iwr_Incident = \<lparr>iws_ID = ''inc1'', iws_TenantID = ''t1'', iws_Kind = ''incident'',
       iws_Resources = no_refs\<lparr>ref_ProductID := ''p1'', ref_ReleaseID := ''r1''\<rparr>\<rparr>,
     iwr_Evidence = \<lparr>iws_ID = ''a1'', iws_TenantID = ''t1'', iws_Kind = ''evidence'',
       iws_Resources = no_refs\<lparr>ref_ProductID := ''p1''\<rparr>\<rparr>,
     iwr_Timestamp = 10, iwr_Now = 20\<rparr>"

lemma incident_webhook_sample:
  "AuthorizeIncidentWebhook Background sample_webhook sample_delivery = None \<and>
   iws_ID (iwr_Incident sample_delivery) = iwb_IncidentID sample_webhook"
proof -
  have ok: "AuthorizeIncidentWebhook Background sample_webhook sample_delivery = None"
    using sample_ids sample_credential_registry(2)
    by (simp add: AuthorizeIncidentWebhook_def sample_webhook_def sample_delivery_def webhookPolicyContext_def
        CheckIncidentWebhookTimestamp_def CheckIncidentWebhookBinding_def IncidentWebhookTimestampTolerance_def
        duration_defs validWebhookPolicySubject_def validPortalPolicyID_def no_subject_def)
  from incident_webhook_confined [OF ok] ok show ?thesis by blast
qed

end
