(* ===== verification/Sessions.thy ===== *)
theory Sessions
  imports Prelude
begin

text \<open>
  Short-lived identity state of \<^verbatim>\<open>internal/identity/domain\<close>: SSO sessions and their lifecycle
  policy (\<^verbatim>\<open>session_lifecycle.go\<close>), OIDC and SAML login requests and the use of a SAML
  assertion (\<^verbatim>\<open>oidc_authentication_request.go\<close>, \<^verbatim>\<open>saml_authentication_request.go\<close>). The locale
  \<open>validity_window\<close> states what all of them promise: a bounded interval that is never
  entered a second time.
\<close>

section \<open>Session lifecycle\<close>

definition MaximumSessionLifetime :: duration where "MaximumSessionLifetime = 12 * Hour"
definition DefaultSessionIdleTimeout :: duration where "DefaultSessionIdleTimeout = 30 * Minute"

record SessionPolicy =
  MaximumLifetime :: duration
  IdleTimeout :: duration

record SSOSession =
  sess_ID :: string
  sess_TenantID :: string
  sess_UserID :: string
  sess_ProviderID :: string
  sess_Prefix :: string
  sess_Groups :: "string list"
  sess_ExpiresAt :: time
  sess_RevokedAt :: "time option"
  sess_SchemaVersion :: string
  sess_CreatedAt :: time
  sess_LastUsedAt :: "time option"
  sess_MaximumLifetimeSeconds :: int
  sess_IdleTimeoutSeconds :: int
  sess_Hash :: string

definition Normalized :: "SessionPolicy \<Rightarrow> SessionPolicy \<times> bool" where
  "Normalized p =
    (let p = (if MaximumLifetime p = 0 then p\<lparr>MaximumLifetime := MaximumSessionLifetime\<rparr> else p);
         p = (if IdleTimeout p = 0 then p\<lparr>IdleTimeout := DefaultSessionIdleTimeout\<rparr> else p)
     in (p, MaximumLifetime p \<ge> Minute \<and> MaximumLifetime p \<le> MaximumSessionLifetime \<and>
            IdleTimeout p \<ge> Minute \<and> IdleTimeout p \<le> MaximumLifetime p \<and>
            MaximumLifetime p mod Second = 0 \<and> IdleTimeout p mod Second = 0))"

definition LifecyclePolicy :: "SSOSession \<Rightarrow> SessionPolicy \<times> bool" where
  "LifecyclePolicy s =
    (if list_ex (\<lambda>seconds. seconds \<noteq> 0 \<and> (seconds < 60 \<or> seconds > MaximumSessionLifetime div Second))
          [sess_MaximumLifetimeSeconds s, sess_IdleTimeoutSeconds s]
     then (\<lparr>MaximumLifetime = 0, IdleTimeout = 0\<rparr>, False)
     else Normalized \<lparr>MaximumLifetime = i64 (sess_MaximumLifetimeSeconds s * Second),
                      IdleTimeout = i64 (sess_IdleTimeoutSeconds s * Second)\<rparr>)"

definition ActiveAt :: "SSOSession \<Rightarrow> time \<Rightarrow> bool" where
  "ActiveAt s now =
    (case LifecyclePolicy s of (p, ok) \<Rightarrow>
      if \<not> ok \<or> is_zero_time now \<or> is_zero_time (sess_CreatedAt s) \<or> now < sess_CreatedAt s \<or>
         sess_RevokedAt s \<noteq> None \<or> \<not> sess_ExpiresAt s > now \<or>
         sess_ExpiresAt s > sess_CreatedAt s + MaximumLifetime p
      then False
      else let last = (case sess_LastUsedAt s of Some t \<Rightarrow> t | None \<Rightarrow> sess_CreatedAt s) in
        \<not> last < sess_CreatedAt s \<and> last < sess_ExpiresAt s \<and> now < last + IdleTimeout p)"

section \<open>Login requests\<close>

definition OIDCAuthenticationRequestSchemaVersion :: string where
  "OIDCAuthenticationRequestSchemaVersion = ''oidc-authentication-request.v1.0.0''"
definition MaximumOIDCAuthenticationRequestLifetime :: duration where
  "MaximumOIDCAuthenticationRequestLifetime = 5 * Minute"
definition MaximumOIDCAuthenticationRequestsPerProvider :: nat where
  "MaximumOIDCAuthenticationRequestsPerProvider = 64"

record OIDCAuthenticationRequest =
  oidc_ID :: string
  oidc_TenantID :: string
  oidc_ProviderID :: string
  oidc_Delivery :: string
  oidc_TrustFingerprint :: string
  oidc_StateHash :: string
  oidc_NonceHash :: string
  oidc_CreatedAt :: time
  oidc_ExpiresAt :: time
  oidc_ConsumedAt :: "time option"
  oidc_SchemaVersion :: string

definition OIDC_PendingAt :: "OIDCAuthenticationRequest \<Rightarrow> time \<Rightarrow> bool" where
  "OIDC_PendingAt r now \<longleftrightarrow> oidc_ID r \<noteq> [] \<and> oidc_TenantID r \<noteq> [] \<and> oidc_ProviderID r \<noteq> [] \<and>
     (oidc_Delivery r = ''api'' \<or> oidc_Delivery r = ''browser'') \<and>
     oidc_SchemaVersion r = OIDCAuthenticationRequestSchemaVersion \<and>
     \<not> is_zero_time now \<and> \<not> is_zero_time (oidc_CreatedAt r) \<and> \<not> now < oidc_CreatedAt r \<and>
     oidc_ExpiresAt r > now \<and>
     \<not> oidc_ExpiresAt r > oidc_CreatedAt r + MaximumOIDCAuthenticationRequestLifetime \<and>
     oidc_ConsumedAt r = None"

definition SAMLAuthenticationRequestSchemaVersion :: string where
  "SAMLAuthenticationRequestSchemaVersion = ''saml-authentication-request.v1.0.0''"
definition MaximumSAMLAuthenticationRequestLifetime :: duration where
  "MaximumSAMLAuthenticationRequestLifetime = 5 * Minute"
definition SAMLNameIDUnspecified :: string where
  "SAMLNameIDUnspecified = ''urn:oasis:names:tc:SAML:1.1:nameid-format:unspecified''"

record SAMLAuthenticationRequest =
  saml_ID :: string
  saml_TenantID :: string
  saml_ProviderID :: string
  saml_Delivery :: string
  saml_Issuer :: string
  saml_Audience :: string
  saml_Recipient :: string
  saml_NameIDFormat :: string
  saml_TrustFingerprint :: string
  saml_StateHash :: string
  saml_CreatedAt :: time
  saml_ExpiresAt :: time
  saml_ConsumedAt :: "time option"
  saml_SchemaVersion :: string

record SAMLAssertionUse =
  use_AssertionHash :: string
  use_IssuedAt :: time
  use_ExpiresAt :: time

definition letter_byte :: "char \<Rightarrow> bool" where
  "letter_byte c \<longleftrightarrow> CHR ''A'' \<le> c \<and> c \<le> CHR ''Z'' \<or> CHR ''a'' \<le> c \<and> c \<le> CHR ''z''"
definition digit_byte :: "char \<Rightarrow> bool" where
  "digit_byte c \<longleftrightarrow> CHR ''0'' \<le> c \<and> c \<le> CHR ''9''"

fun saml_id_loop :: "nat \<Rightarrow> string \<Rightarrow> bool" where
  "saml_id_loop i [] = True"
| "saml_id_loop i (b # bs) =
    (if letter_byte b \<or> b = CHR ''_'' \<or> i > 0 \<and> (digit_byte b \<or> b = CHR ''-'' \<or> b = CHR ''.'')
     then saml_id_loop (i + 1) bs else False)"

definition ValidSAMLID :: "string \<Rightarrow> bool" where
  "ValidSAMLID v = (if length v = 0 \<or> length v > 128 then False else saml_id_loop 0 v)"

definition NormalizeSAMLNameIDFormat :: "string \<Rightarrow> string \<times> bool" where
  "NormalizeSAMLNameIDFormat v =
    (let v = (if v = [] then SAMLNameIDUnspecified else v) in
     if v \<in> set [SAMLNameIDUnspecified, ''urn:oasis:names:tc:SAML:2.0:nameid-format:persistent'',
          ''urn:oasis:names:tc:SAML:2.0:nameid-format:transient'',
          ''urn:oasis:names:tc:SAML:1.1:nameid-format:emailAddress'']
     then (v, True) else ([], False))"

definition finiteSAMLTime :: "time \<Rightarrow> bool" where
  "finiteSAMLTime t \<longleftrightarrow> \<not> is_zero_time t \<and> 0 \<le> t \<and> t < year_10000"

definition SAML_PendingAt :: "SAMLAuthenticationRequest \<Rightarrow> time \<Rightarrow> bool" where
  "SAML_PendingAt r now =
    (case NormalizeSAMLNameIDFormat (saml_NameIDFormat r) of (format, ok) \<Rightarrow>
      ValidSAMLID (saml_ID r) \<and> saml_TenantID r \<noteq> [] \<and> saml_ProviderID r \<noteq> [] \<and> saml_Issuer r \<noteq> [] \<and>
      saml_Audience r \<noteq> [] \<and> saml_Recipient r \<noteq> [] \<and> ok \<and> format = saml_NameIDFormat r \<and>
      (saml_Delivery r = ''api'' \<or> saml_Delivery r = ''browser'') \<and>
      saml_SchemaVersion r = SAMLAuthenticationRequestSchemaVersion \<and> saml_ConsumedAt r = None \<and>
      finiteSAMLTime now \<and> finiteSAMLTime (saml_CreatedAt r) \<and> finiteSAMLTime (saml_ExpiresAt r) \<and>
      \<not> now < saml_CreatedAt r \<and> saml_ExpiresAt r > now \<and>
      \<not> saml_ExpiresAt r > saml_CreatedAt r + MaximumSAMLAuthenticationRequestLifetime)"

text \<open>
  \<^verbatim>\<open>hex.DecodeString\<close>: pairs of hexadecimal digits, no value on any other byte or an odd length.
\<close>

definition hex_digit :: "char \<Rightarrow> nat option" where
  "hex_digit c =
    (if digit_byte c then Some (byte c - byte CHR ''0'')
     else if CHR ''a'' \<le> c \<and> c \<le> CHR ''f'' then Some (byte c - byte CHR ''a'' + 10)
     else if CHR ''A'' \<le> c \<and> c \<le> CHR ''F'' then Some (byte c - byte CHR ''A'' + 10)
     else None)"

fun hex_decode :: "string \<Rightarrow> nat list option" where
  "hex_decode [] = Some []"
| "hex_decode [c] = None"
| "hex_decode (a # b # s) =
    (case (hex_digit a, hex_digit b) of
       (Some x, Some y) \<Rightarrow> map_option (\<lambda>r. (16 * x + y) # r) (hex_decode s)
     | _ \<Rightarrow> None)"

text \<open>
  \<^verbatim>\<open>v == strings.ToLower(v)\<close> on ASCII text. Text that is not ASCII is refused by the
  hexadecimal decoding that follows in each of the uses.
\<close>

definition lower_case :: "string \<Rightarrow> bool" where
  "lower_case s \<longleftrightarrow> list_all (\<lambda>c. \<not> (CHR ''A'' \<le> c \<and> c \<le> CHR ''Z'')) s"

definition ValidAt :: "SAMLAssertionUse \<Rightarrow> time \<Rightarrow> bool" where
  "ValidAt p now =
    (if length (use_AssertionHash p) \<noteq> 71 \<or> \<not> prefix ''sha256:'' (use_AssertionHash p) \<or>
        \<not> lower_case (use_AssertionHash p) then False
     else if \<not> (case hex_decode (drop 7 (use_AssertionHash p)) of Some h \<Rightarrow> length h = 32 | None \<Rightarrow> False) then False
     else finiteSAMLTime now \<and> finiteSAMLTime (use_IssuedAt p) \<and> finiteSAMLTime (use_ExpiresAt p) \<and>
       \<not> use_IssuedAt p > now + Minute \<and> use_ExpiresAt p > now \<and> use_ExpiresAt p > use_IssuedAt p \<and>
       \<not> use_ExpiresAt p > use_IssuedAt p + MaximumSAMLAuthenticationRequestLifetime)"

section \<open>The interface: a bounded window\<close>

locale validity_window =
  fixes valid_at :: "'a \<Rightarrow> time \<Rightarrow> bool" and opens :: "'a \<Rightarrow> time" and limit :: duration
  assumes opens: "valid_at x t \<Longrightarrow> opens x \<le> t"
    and closes: "valid_at x t \<Longrightarrow> t < opens x + limit"
    and convex: "valid_at x t \<Longrightarrow> valid_at x u \<Longrightarrow> t \<le> s \<Longrightarrow> s \<le> u \<Longrightarrow> valid_at x s"
begin

lemma span: "valid_at x t \<Longrightarrow> valid_at x u \<Longrightarrow> u - t < limit"
  using opens [of x t] closes [of x u] by simp

lemma not_revived: "valid_at x t \<Longrightarrow> t \<le> s \<Longrightarrow> \<not> valid_at x s \<Longrightarrow> s \<le> u \<Longrightarrow> \<not> valid_at x u"
  using convex by blast

lemma over: "opens x + limit \<le> u \<Longrightarrow> \<not> valid_at x u"
  using closes by fastforce

end

section \<open>Sessions keep the policy they were issued with\<close>

lemma session_seconds: "MaximumSessionLifetime div Second = 43200"
  by (simp add: MaximumSessionLifetime_def duration_defs)

text \<open>
  Multiplying the persisted seconds cannot overflow: the wrap-around of \<^verbatim>\<open>int64\<close> is never
  reached, because the guard refuses every count above twelve hours first.
\<close>

lemma LifecyclePolicy_ok:
  assumes "LifecyclePolicy s = (p, True)"
  shows "MaximumLifetime p = (if sess_MaximumLifetimeSeconds s = 0 then MaximumSessionLifetime
      else sess_MaximumLifetimeSeconds s * Second)"
    and "IdleTimeout p = (if sess_IdleTimeoutSeconds s = 0 then DefaultSessionIdleTimeout
      else sess_IdleTimeoutSeconds s * Second)"
    and "Minute \<le> IdleTimeout p" "IdleTimeout p \<le> MaximumLifetime p" "MaximumLifetime p \<le> MaximumSessionLifetime"
proof -
  let ?m = "sess_MaximumLifetimeSeconds s" and ?i = "sess_IdleTimeoutSeconds s"
  from assms have range: "?m = 0 \<or> 60 \<le> ?m \<and> ?m \<le> 43200" "?i = 0 \<or> 60 \<le> ?i \<and> ?i \<le> 43200"
    by (auto simp: LifecyclePolicy_def session_seconds split: if_splits)
  then have wrap: "i64 (?m * Second) = ?m * Second" "i64 (?i * Second) = ?i * Second"
    by (auto intro!: i64_id simp: Second_def)
  from assms have norm: "Normalized \<lparr>MaximumLifetime = ?m * Second, IdleTimeout = ?i * Second\<rparr> = (p, True)"
    unfolding LifecyclePolicy_def wrap by (simp split: if_splits)
  then show "MaximumLifetime p = (if ?m = 0 then MaximumSessionLifetime else ?m * Second)"
    "IdleTimeout p = (if ?i = 0 then DefaultSessionIdleTimeout else ?i * Second)"
    "Minute \<le> IdleTimeout p" "IdleTimeout p \<le> MaximumLifetime p" "MaximumLifetime p \<le> MaximumSessionLifetime"
    by (auto simp: Normalized_def Let_def Second_def split: if_splits)
qed

text \<open>Writing the effective policy back as seconds, as the store does, keeps the policy.\<close>

lemma LifecyclePolicy_persisted:
  assumes "LifecyclePolicy s = (p, True)"
  shows "LifecyclePolicy (s\<lparr>sess_MaximumLifetimeSeconds := MaximumLifetime p div Second,
    sess_IdleTimeoutSeconds := IdleTimeout p div Second\<rparr>) = (p, True)"
proof -
  note ok = LifecyclePolicy_ok [OF assms]
  define m i where "m = MaximumLifetime p div Second" and "i = IdleTimeout p div Second"
  from ok have p: "MaximumLifetime p = m * Second" "IdleTimeout p = i * Second"
    by (auto simp: m_def i_def MaximumSessionLifetime_def DefaultSessionIdleTimeout_def duration_defs)
  from ok(3-5) have range: "60 \<le> i" "i \<le> m" "m \<le> 43200"
    unfolding p by (simp_all add: MaximumSessionLifetime_def duration_defs)
  then have "i64 (m * Second) = m * Second" "i64 (i * Second) = i * Second"
    by (auto intro!: i64_id simp: Second_def)
  with range show ?thesis
    unfolding LifecyclePolicy_def session_seconds m_def [symmetric] i_def [symmetric]
    by (cases p) (use p in \<open>simp add: Normalized_def Let_def MaximumSessionLifetime_def duration_defs\<close>)
qed

definition last_used :: "SSOSession \<Rightarrow> time" where
  "last_used s = (case sess_LastUsedAt s of Some t \<Rightarrow> t | None \<Rightarrow> sess_CreatedAt s)"

lemma ActiveAt_iff:
  "ActiveAt s now \<longleftrightarrow> (\<exists>p. LifecyclePolicy s = (p, True) \<and> now \<noteq> 0 \<and> sess_CreatedAt s \<noteq> 0 \<and>
     sess_RevokedAt s = None \<and> sess_CreatedAt s \<le> now \<and> now < sess_ExpiresAt s \<and>
     sess_ExpiresAt s \<le> sess_CreatedAt s + MaximumLifetime p \<and>
     sess_CreatedAt s \<le> last_used s \<and> last_used s < sess_ExpiresAt s \<and> now < last_used s + IdleTimeout p)"
proof (cases "LifecyclePolicy s")
  case (Pair p ok)
  then show ?thesis by (cases ok) (auto simp: ActiveAt_def last_used_def Let_def)
qed

interpretation session_window: validity_window
  "\<lambda>s t. ActiveAt s t \<and> 0 < sess_CreatedAt s" sess_CreatedAt MaximumSessionLifetime
proof unfold_locales
  fix s t u r
  assume t: "ActiveAt s t \<and> 0 < sess_CreatedAt s"
  then obtain p where p: "LifecyclePolicy s = (p, True)" and a: "sess_CreatedAt s \<le> t" "t < sess_ExpiresAt s"
    "sess_ExpiresAt s \<le> sess_CreatedAt s + MaximumLifetime p" by (auto simp: ActiveAt_iff)
  from a(1) show "sess_CreatedAt s \<le> t" .
  from a LifecyclePolicy_ok(5) [OF p] show "t < sess_CreatedAt s + MaximumSessionLifetime" by simp
  assume "ActiveAt s u \<and> 0 < sess_CreatedAt s" "t \<le> r" "r \<le> u"
  with t show "ActiveAt s r \<and> 0 < sess_CreatedAt s" by (auto simp: ActiveAt_iff)
qed

interpretation oidc_window: validity_window
  "\<lambda>r t. OIDC_PendingAt r t \<and> 0 < oidc_CreatedAt r" oidc_CreatedAt MaximumOIDCAuthenticationRequestLifetime
  by unfold_locales (auto simp: OIDC_PendingAt_def)

interpretation saml_window: validity_window
  SAML_PendingAt saml_CreatedAt MaximumSAMLAuthenticationRequestLifetime
  by unfold_locales (auto simp: SAML_PendingAt_def finiteSAMLTime_def split: prod.splits)

interpretation assertion_window: validity_window
  ValidAt "\<lambda>p. use_IssuedAt p - Minute" "MaximumSAMLAuthenticationRequestLifetime + Minute"
  by unfold_locales (auto simp: ValidAt_def finiteSAMLTime_def split: if_splits)

end
