(* ===== verification/Rows.thy ===== *)
theory Rows
  imports Sessions "HOL-Library.AList"
begin

text \<open>
  The persisted records of \<^verbatim>\<open>internal/domain/domain.go\<close> that the unit of work stores, field by
  field, and the tables that hold them. A Go map with string keys is an association list;
  the locale \<open>go_map\<close> states the laws of lookup, assignment, \<^verbatim>\<open>delete\<close> and \<^verbatim>\<open>range\<close> that the
  repositories rely on, and is interpreted on the association-list operations.
  Schema-free values are JSON values. The repositories copy rows through \<^verbatim>\<open>encoding/json\<close>;
  rows here are the values that survive this copy unchanged (valid UTF-8 text, timestamps of
  the years 0 to 9999), so a copy is the value itself.
\<close>

section \<open>Go maps\<close>

type_synonym ('k, 'v) table = "('k \<times> 'v) list"

definition tbl_get :: "('k, 'v) table \<Rightarrow> 'k \<Rightarrow> 'v option" where
  "tbl_get t k = map_of t k"

definition tbl_put :: "('k, 'v) table \<Rightarrow> 'k \<Rightarrow> 'v \<Rightarrow> ('k, 'v) table" where
  "tbl_put t k v = AList.update k v t"

definition tbl_del :: "('k, 'v) table \<Rightarrow> 'k \<Rightarrow> ('k, 'v) table" where
  "tbl_del t k = AList.delete k t"

text \<open>\<^verbatim>\<open>for _, v := range m { if p(v) { \<dots> return } }\<close>: some stored value satisfies the test.\<close>

definition tbl_any :: "('v \<Rightarrow> bool) \<Rightarrow> ('k, 'v) table \<Rightarrow> bool" where
  "tbl_any p t = list_ex (\<lambda>k. case tbl_get t k of Some v \<Rightarrow> p v | None \<Rightarrow> False) (map fst t)"

locale go_map =
  fixes get :: "'m \<Rightarrow> 'k \<Rightarrow> 'v option" and put :: "'m \<Rightarrow> 'k \<Rightarrow> 'v \<Rightarrow> 'm" and del :: "'m \<Rightarrow> 'k \<Rightarrow> 'm"
    and any :: "('v \<Rightarrow> bool) \<Rightarrow> 'm \<Rightarrow> bool"
  assumes get_put: "get (put m k v) = (get m)(k \<mapsto> v)"
    and get_del: "get (del m k) = (get m)(k := None)"
    and any_iff: "any p m \<longleftrightarrow> (\<exists>k v. get m k = Some v \<and> p v)"
begin

lemma insert_keeps: "get m k = None \<Longrightarrow> get m j = Some w \<Longrightarrow> get (put m k v) j = Some w"
  by (auto simp: get_put)

lemma insert_preserves_unique:
  assumes "\<And>j k v w. get m j = Some v \<Longrightarrow> get m k = Some w \<Longrightarrow> same v w \<Longrightarrow> j = k"
    and "\<not> any (same u) m" and "\<And>v w. same v w \<Longrightarrow> same w v"
    and "get (put m i u) j = Some v" "get (put m i u) k = Some w" "same v w"
  shows "j = k"
  using assms(1,2,4-6) assms(3) [OF assms(6)] by (auto simp: get_put any_iff split: if_splits)

lemma put_invariant:
  "(\<And>k w. get m k = Some w \<Longrightarrow> P k w) \<Longrightarrow> P i v \<Longrightarrow> get (put m i v) j = Some u \<Longrightarrow> P j u"
  by (auto simp: get_put split: if_splits)

end

interpretation tbl: go_map tbl_get tbl_put tbl_del tbl_any
proof unfold_locales
  show "tbl_any p m \<longleftrightarrow> (\<exists>k v. tbl_get m k = Some v \<and> p v)" for p :: "'b \<Rightarrow> bool" and m :: "('a, 'b) table"
  proof
    assume "tbl_any p m"
    then show "\<exists>k v. tbl_get m k = Some v \<and> p v"
      by (auto simp: tbl_any_def list_ex_iff split: option.splits)
  next
    assume "\<exists>k v. tbl_get m k = Some v \<and> p v"
    then obtain k v where kv: "tbl_get m k = Some v" "p v" by blast
    then have "k \<in> fst ` set m" by (force simp: tbl_get_def dest: map_of_SomeD)
    with kv show "tbl_any p m" by (force simp: tbl_any_def list_ex_iff)
  qed
qed (auto simp: tbl_get_def tbl_put_def tbl_del_def update_conv' delete_conv')

lemmas tbl_simps [simp] = tbl.get_put tbl.get_del

text \<open>Deleting, during a \<^verbatim>\<open>range\<close> loop, the rows that fail a test.\<close>

definition tbl_filter :: "('v \<Rightarrow> bool) \<Rightarrow> ('k, 'v) table \<Rightarrow> ('k, 'v) table" where
  "tbl_filter p t = filter (\<lambda>(k, v). p v) (AList.clearjunk t)"

lemma map_of_filter_distinct:
  "distinct (map fst t) \<Longrightarrow> map_of (filter (\<lambda>(k, v). p v) t) k =
     (case map_of t k of Some v \<Rightarrow> if p v then Some v else None | None \<Rightarrow> None)"
  by (induction t) (auto simp: map_of_eq_None_iff image_iff split: option.splits)

lemma tbl_get_filter [simp]:
  "tbl_get (tbl_filter p t) k = (case tbl_get t k of Some v \<Rightarrow> if p v then Some v else None | None \<Rightarrow> None)"
  by (simp add: tbl_get_def tbl_filter_def map_of_filter_distinct distinct_clearjunk map_of_clearjunk)

text \<open>The number of rows that pass a test, as a counter in a \<^verbatim>\<open>range\<close> loop computes it.\<close>

definition tbl_count :: "('v \<Rightarrow> bool) \<Rightarrow> ('k, 'v) table \<Rightarrow> nat" where
  "tbl_count p t = length (tbl_filter p t)"

lemma tbl_get_Nil [simp]: "tbl_get [] k = None"
  by (simp add: tbl_get_def)

section \<open>Schema-free values\<close>

text \<open>
  An object lists its members sorted by key, so that \<^verbatim>\<open>reflect.DeepEqual\<close> of two decoded
  values is equality; a number keeps its literal.
\<close>

datatype json =
    JNull
  | JBool bool
  | JNumber string
  | JString string
  | JArray "json list"
  | JObject "(string \<times> json) list"

type_synonym json_object = "(string \<times> json) list"

section \<open>Records\<close>

record Tenant =
  tenant_ID :: string
  tenant_Name :: string
  tenant_CreatedAt :: time

record Organization =
  org_ID :: string
  org_TenantID :: string
  org_Name :: string
  org_Slug :: string
  org_Status :: string
  org_SchemaVersion :: string
  org_CreatedAt :: time

record HumanUser =
  huser_ID :: string
  huser_TenantID :: string
  huser_OrganizationID :: string
  huser_Email :: string
  huser_DisplayName :: string
  huser_Status :: string
  huser_DeactivatedAt :: "time option"
  huser_SchemaVersion :: string
  huser_CreatedAt :: time

record RoleBinding =
  rb_ID :: string
  rb_TenantID :: string
  rb_SubjectType :: string
  rb_SubjectID :: string
  rb_Role :: string
  rb_ResourceType :: string
  rb_ResourceID :: string
  rb_SchemaVersion :: string
  rb_CreatedAt :: time

record SSOProvider =
  idp_ID :: string
  idp_TenantID :: string
  idp_Name :: string
  idp_Type :: string
  idp_Issuer :: string
  idp_ClientID :: string
  idp_GroupsClaim :: string
  idp_RoleMapping :: "(string \<times> string) list"
  idp_JWKS :: json_object
  idp_SAMLSigningCertificates :: "string list"
  idp_TrustMaterialUpdatedAt :: "time option"
  idp_Status :: string
  idp_SchemaVersion :: string
  idp_CreatedAt :: time

record UserIdentityLink =
  ulink_ID :: string
  ulink_TenantID :: string
  ulink_UserID :: string
  ulink_ProviderID :: string
  ulink_Subject :: string
  ulink_Email :: string
  ulink_Verified :: bool
  ulink_SchemaVersion :: string
  ulink_CreatedAt :: time

record APIKey =
  key_ID :: string
  key_TenantID :: string
  key_Name :: string
  key_Prefix :: string
  key_Scopes :: "string list"
  key_CreatedAt :: time
  key_ExpiresAt :: "time option"
  key_RevokedAt :: "time option"
  key_LastUsedAt :: "time option"
  key_Hash :: string

record Collector =
  coll_ID :: string
  coll_TenantID :: string
  coll_Name :: string
  coll_Type :: string
  coll_Version :: string
  coll_APIKeyID :: string
  coll_Status :: string
  coll_AllowedScopes :: "string list"
  coll_LastSeenAt :: "time option"
  coll_SchemaVersion :: string
  coll_CreatedAt :: time

record CustomerPortalAccess =
  cpa_ID :: string
  cpa_TenantID :: string
  cpa_PackageID :: string
  cpa_CustomerName :: string
  cpa_ReviewerName :: string
  cpa_ReviewerEmail :: string
  cpa_RequireNDA :: bool
  cpa_NDAAcceptedAt :: "time option"
  cpa_NDAAcceptedBy :: string
  cpa_Watermark :: string
  cpa_Prefix :: string
  cpa_ExpiresAt :: time
  cpa_RevokedAt :: "time option"
  cpa_AccessCount :: int
  cpa_FailedAccessCount :: int
  cpa_LastAccessedAt :: "time option"
  cpa_LastFailedAt :: "time option"
  cpa_SchemaVersion :: string
  cpa_CreatedAt :: time
  cpa_Hash :: string

record Product =
  prod_ID :: string
  prod_TenantID :: string
  prod_Name :: string
  prod_Slug :: string
  prod_CreatedAt :: time

record Project =
  proj_ID :: string
  proj_TenantID :: string
  proj_ProductID :: string
  proj_Name :: string
  proj_CreatedAt :: time

record Release =
  rel_ID :: string
  rel_TenantID :: string
  rel_ProductID :: string
  rel_Version :: string
  rel_Revision :: int
  rel_State :: string
  rel_CreatedAt :: time
  rel_FrozenAt :: "time option"
  rel_ApprovedAt :: "time option"

record Artifact =
  art_ID :: string
  art_TenantID :: string
  art_Name :: string
  art_MediaType :: string
  art_Size :: int
  art_Digest :: string
  art_CreatedAt :: time

record BuildOutput =
  out_ArtifactID :: string
  out_Digest :: string

record BuildRun =
  build_ID :: string
  build_TenantID :: string
  build_ProjectID :: string
  build_ReleaseID :: string
  build_CollectorID :: string
  build_Provider :: string
  build_CommitSHA :: string
  build_Repository :: string
  build_WorkflowRef :: string
  build_RunID :: string
  build_RunAttempt :: int
  build_JobID :: string
  build_Actor :: string
  build_Ref :: string
  build_OIDCSubject :: string
  build_Status :: string
  build_StartedAt :: time
  build_FinishedAt :: "time option"
  build_ParametersHash :: string
  build_EnvironmentHash :: string
  build_SourceIdentity :: json_object
  build_Outputs :: "BuildOutput list"
  build_SchemaVersion :: string
  build_CreatedAt :: time

record SubjectRef =
  sref_Type :: string
  sref_ID :: string
  sref_Digest :: string

record EvidenceRef =
  eref_Type :: string
  eref_ID :: string
  eref_Relationship :: string

record EvidenceNotice =
  note_Code :: string
  note_Message :: string

record EvidenceItem =
  ev_ID :: string
  ev_TenantID :: string
  ev_ProductID :: string
  ev_ProjectID :: string
  ev_ReleaseID :: string
  ev_BuildID :: string
  ev_DeploymentID :: string
  ev_Type :: string
  ev_Subtype :: string
  ev_Title :: string
  ev_SourceSystem :: string
  ev_SourceIdentity :: json_object
  ev_CollectorID :: string
  ev_UploadedBy :: string
  ev_ObservedAt :: time
  ev_EvidenceVersion :: int
  ev_SchemaVersion :: string
  ev_PayloadRef :: string
  ev_PayloadHash :: string
  ev_PayloadMediaType :: string
  ev_PayloadSize :: int
  ev_CanonicalHash :: string
  ev_Canonicalization :: string
  ev_SubjectRefs :: "SubjectRef list"
  ev_RelatedEvidenceRefs :: "EvidenceRef list"
  ev_Supersedes :: string
  ev_SupersededBy :: string
  ev_TrustLevel :: string
  ev_VerificationStatus :: string
  ev_SignatureRefs :: "string list"
  ev_ChainEntryID :: string
  ev_Tags :: "string list"
  ev_Metadata :: json_object
  ev_Warnings :: "EvidenceNotice list"
  ev_Limitations :: "string list"
  ev_CreatedAt :: time

record EvidenceLifecycleEvent =
  life_ID :: string
  life_TenantID :: string
  life_EvidenceID :: string
  life_Action :: string
  life_Reason :: string
  life_Details :: json_object
  life_ReplacementID :: string
  life_ActorID :: string
  life_SchemaVersion :: string
  life_CreatedAt :: time

record ReleaseCandidate =
  cand_ID :: string
  cand_TenantID :: string
  cand_ReleaseID :: string
  cand_Name :: string
  cand_Revision :: int
  cand_State :: string
  cand_BuildIDs :: "string list"
  cand_ArtifactIDs :: "string list"
  cand_SBOMIDs :: "string list"
  cand_ScanIDs :: "string list"
  cand_VEXIDs :: "string list"
  cand_ContractIDs :: "string list"
  cand_BundleIDs :: "string list"
  cand_SnapshotHash :: string
  cand_SchemaVersion :: string
  cand_CreatedAt :: time
  cand_PromotedAt :: "time option"
  cand_RejectedAt :: "time option"

record ControlFramework =
  fw_ID :: string
  fw_TenantID :: string
  fw_Name :: string
  fw_Slug :: string
  fw_Version :: string
  fw_Description :: string
  fw_Status :: string
  fw_SchemaVersion :: string
  fw_CreatedAt :: time

record ControlEvidenceRequirement =
  creq_Type :: string
  creq_FreshnessDays :: int
  creq_Required :: bool

record SecurityControl =
  ctl_ID :: string
  ctl_TenantID :: string
  ctl_FrameworkID :: string
  ctl_Code :: string
  ctl_Title :: string
  ctl_Objective :: string
  ctl_EvidenceRequirements :: "ControlEvidenceRequirement list"
  ctl_Applicability :: "string list"
  ctl_Limitations :: "string list"
  ctl_SchemaVersion :: string
  ctl_CreatedAt :: time

record ControlEvidence =
  cev_ID :: string
  cev_TenantID :: string
  cev_ControlID :: string
  cev_EvidenceType :: string
  cev_SubjectType :: string
  cev_SubjectID :: string
  cev_ProductID :: string
  cev_ReleaseID :: string
  cev_Confidence :: string
  cev_Notes :: string
  cev_SchemaVersion :: string
  cev_CreatedAt :: time

record VulnerabilityIdentity =
  vid_CVE :: string
  vid_GHSA :: string
  vid_OSV :: string
  vid_VendorAdvisory :: string
  vid_PURL :: string
  vid_CPE :: string

record VulnerabilityFinding =
  find_ID :: string
  find_Vulnerability :: string
  find_Component :: string
  find_Severity :: string
  find_State :: string
  find_SeveritySource :: string
  find_FixVersion :: string
  find_Identity :: VulnerabilityIdentity

record VulnerabilityScan =
  scan_ID :: string
  scan_TenantID :: string
  scan_EvidenceID :: string
  scan_ReleaseID :: string
  scan_Scanner :: string
  scan_Adapter :: string
  scan_AdapterVersion :: string
  scan_SourceSchema :: string
  scan_TargetRef :: string
  scan_Summary :: "(string \<times> int) list option"
  scan_Findings :: "VulnerabilityFinding list option"
  scan_CreatedAt :: time

record VulnerabilityDecision =
  dec_ID :: string
  dec_TenantID :: string
  dec_FindingID :: string
  dec_ScanID :: string
  dec_ReleaseID :: string
  dec_Vulnerability :: string
  dec_Component :: string
  dec_SBOMID :: string
  dec_SBOMComponentPURL :: string
  dec_SBOMComponentName :: string
  dec_Status :: string
  dec_Justification :: string
  dec_ImpactStatement :: string
  dec_ActionStatement :: string
  dec_CustomerVisible :: bool
  dec_InternalNotes :: string
  dec_Source :: string
  dec_EvidenceID :: string
  dec_EvidenceIDs :: "string list"
  dec_SupportingRefs :: "SubjectRef list"
  dec_VEXDocumentID :: string
  dec_Supersedes :: string
  dec_SupersededBy :: string
  dec_ApprovedBy :: string
  dec_ReviewedAt :: "time option"
  dec_ReviewDueAt :: "time option"
  dec_SchemaVersion :: string
  dec_CreatedAt :: time

record Exception =
  exc_ID :: string
  exc_TenantID :: string
  exc_ReleaseID :: string
  exc_FindingID :: string
  exc_ControlID :: string
  exc_Reason :: string
  exc_Owner :: string
  exc_ExpiresAt :: time
  exc_Approved :: bool
  exc_ApprovedBy :: string
  exc_ApprovedAt :: "time option"
  exc_CreatedAt :: time

record DeploymentEnvironment =
  env_ID :: string
  env_TenantID :: string
  env_ProductID :: string
  env_Name :: string
  env_Kind :: string
  env_SchemaVersion :: string
  env_CreatedAt :: time

record DeploymentEvent =
  dep_ID :: string
  dep_TenantID :: string
  dep_EnvironmentID :: string
  dep_ReleaseID :: string
  dep_ArtifactIDs :: "string list"
  dep_Status :: string
  dep_StartedAt :: time
  dep_FinishedAt :: "time option"
  dep_RollbackOf :: string
  dep_EvidenceID :: string
  dep_SchemaVersion :: string
  dep_CreatedAt :: time

end
