(* ===== verification/Store.thy ===== *)
theory Store
  imports Rows
begin

text \<open>
  The transaction-scoped repositories of \<^verbatim>\<open>internal/app/memory_uow.go\<close> for identity and the
  release catalog. Each operation is the function that \<^verbatim>\<open>mutate\<close> runs on the unit's private
  snapshot: it returns an error or the snapshot after the write. A failed command is rolled
  back (\<^verbatim>\<open>ExecuteUnitOfWork\<close>), so the snapshot of a failed operation is never read again.
\<close>

section \<open>The snapshot\<close>

record MemoryUnitOfWorkSnapshot =
  Tenants :: "(string, Tenant) table"
  APIKeys :: "(string, APIKey) table"
  Collectors :: "(string, Collector) table"
  Organizations :: "(string, Organization) table"
  Users :: "(string, HumanUser) table"
  RoleBindings :: "(string, RoleBinding) table"
  SSOProviders :: "(string, SSOProvider) table"
  IdentityLinks :: "(string, UserIdentityLink) table"
  SSOSessions :: "(string, SSOSession) table"
  OIDCAuthenticationRequests :: "(string, OIDCAuthenticationRequest) table"
  PortalAccess :: "(string, CustomerPortalAccess) table"
  Products :: "(string, Product) table"
  Projects :: "(string, Project) table"
  Releases :: "(string, Release) table"
  Artifacts :: "(string, Artifact) table"
  ReleaseCandidates :: "(string, ReleaseCandidate) table"
  BuildRuns :: "(string, BuildRun) table"
  DeploymentEnvironments :: "(string, DeploymentEnvironment) table"
  DeploymentEvents :: "(string, DeploymentEvent) table"
  ControlFrameworks :: "(string, ControlFramework) table"
  SecurityControls :: "(string, SecurityControl) table"
  ControlEvidences :: "(string, ControlEvidence) table"
  Evidence :: "(string, EvidenceItem) table"
  EvidenceLifecycle :: "(string, EvidenceLifecycleEvent) table"
  VulnerabilityScans :: "(string, VulnerabilityScan) table"
  Decisions :: "(string, VulnerabilityDecision) table"
  Exceptions :: "(string, Exception) table"

definition emptyMemoryUnitOfWorkSnapshot :: MemoryUnitOfWorkSnapshot where
  "emptyMemoryUnitOfWorkSnapshot =
    \<lparr>Tenants = [], APIKeys = [], Collectors = [], Organizations = [], Users = [], RoleBindings = [],
     SSOProviders = [], IdentityLinks = [], SSOSessions = [], OIDCAuthenticationRequests = [], PortalAccess = [],
     Products = [], Projects = [], Releases = [], Artifacts = [], ReleaseCandidates = [], BuildRuns = [],
     DeploymentEnvironments = [], DeploymentEvents = [], ControlFrameworks = [], SecurityControls = [],
     ControlEvidences = [], Evidence = [], EvidenceLifecycle = [], VulnerabilityScans = [], Decisions = [],
     Exceptions = []\<rparr>"

type_synonym repository_op = "MemoryUnitOfWorkSnapshot \<Rightarrow> MemoryUnitOfWorkSnapshot result"

definition requireMemoryTenant :: "MemoryUnitOfWorkSnapshot \<Rightarrow> string \<Rightarrow> error option" where
  "requireMemoryTenant s tenantID =
    (if tenantID = [] then Some ErrValidation
     else case tbl_get (Tenants s) tenantID of None \<Rightarrow> Some ErrNotFound | Some _ \<Rightarrow> None)"

text \<open>
  \<^verbatim>\<open>memoryResourceBelongsToTenant\<close> reads the tenant of a row by its type; the selector is an
  argument here. A blank reference counts as owned.
\<close>

definition memoryResourceBelongsToTenant ::
  "('r \<Rightarrow> string) \<Rightarrow> string \<Rightarrow> string \<Rightarrow> (string, 'r) table \<Rightarrow> bool" where
  "memoryResourceBelongsToTenant tenant_of i tenantID resources =
    (if i = [] then True
     else case tbl_get resources i of None \<Rightarrow> False | Some r \<Rightarrow> tenant_of r = tenantID)"

section \<open>Identity repository\<close>

definition InsertTenant :: "Tenant \<Rightarrow> repository_op" where
  "InsertTenant v s =
    (if tenant_ID v = [] \<or> tenant_Name v = [] \<or> is_zero_time (tenant_CreatedAt v) then Inl ErrValidation
     else if tbl_get (Tenants s) (tenant_ID v) \<noteq> None then Inl ErrConflict
     else Inr (s\<lparr>Tenants := tbl_put (Tenants s) (tenant_ID v) v\<rparr>))"

definition InsertAPIKey :: "APIKey \<Rightarrow> repository_op" where
  "InsertAPIKey v s =
    check_then (requireMemoryTenant s (key_TenantID v))
    (if key_ID v = [] \<or> key_Name v = [] \<or> key_Prefix v = [] \<or> key_Hash v = [] \<or> is_zero_time (key_CreatedAt v)
     then Inl ErrValidation
     else if tbl_get (APIKeys s) (key_ID v) \<noteq> None then Inl ErrConflict
     else Inr (s\<lparr>APIKeys := tbl_put (APIKeys s) (key_ID v) v\<rparr>))"

definition UpdateAPIKeyLastUsed :: "APIKey \<Rightarrow> repository_op" where
  "UpdateAPIKeyLastUsed v s =
    check_then (requireMemoryTenant s (key_TenantID v))
    (case (tbl_get (APIKeys s) (key_ID v), key_LastUsedAt v) of
       (Some stored, Some observedAt) \<Rightarrow>
        (if key_TenantID stored \<noteq> key_TenantID v \<or> key_Prefix stored \<noteq> key_Prefix v \<or>
            key_Hash stored \<noteq> key_Hash v \<or> key_RevokedAt stored \<noteq> None
         then Inl ErrConflict
         else Inr (s\<lparr>APIKeys := tbl_put (APIKeys s) (key_ID v)
           (case key_LastUsedAt stored of
              Some t \<Rightarrow> if observedAt > t then stored\<lparr>key_LastUsedAt := Some observedAt\<rparr> else stored
            | None \<Rightarrow> stored\<lparr>key_LastUsedAt := Some observedAt\<rparr>)\<rparr>))
     | _ \<Rightarrow> Inl ErrConflict)"

definition UpdateCollectorLastSeen :: "Collector \<Rightarrow> repository_op" where
  "UpdateCollectorLastSeen v s =
    check_then (requireMemoryTenant s (coll_TenantID v))
    (case (tbl_get (Collectors s) (coll_ID v), coll_LastSeenAt v) of
       (Some stored, Some observedAt) \<Rightarrow>
        (if coll_TenantID stored \<noteq> coll_TenantID v \<or> coll_APIKeyID stored \<noteq> coll_APIKeyID v then Inl ErrConflict
         else Inr (s\<lparr>Collectors := tbl_put (Collectors s) (coll_ID v)
           (case coll_LastSeenAt stored of
              Some t \<Rightarrow> if observedAt > t then stored\<lparr>coll_LastSeenAt := Some observedAt\<rparr> else stored
            | None \<Rightarrow> stored\<lparr>coll_LastSeenAt := Some observedAt\<rparr>)\<rparr>))
     | _ \<Rightarrow> Inl ErrConflict)"

definition InsertOrganization :: "Organization \<Rightarrow> repository_op" where
  "InsertOrganization v s =
    check_then (requireMemoryTenant s (org_TenantID v))
    (if org_ID v = [] \<or> org_Name v = [] \<or> org_Slug v = [] \<or> org_Status v = [] \<or> org_SchemaVersion v = [] \<or>
        is_zero_time (org_CreatedAt v)
     then Inl ErrValidation
     else if tbl_get (Organizations s) (org_ID v) \<noteq> None then Inl ErrConflict
     else if tbl_any (\<lambda>e. org_TenantID e = org_TenantID v \<and> org_Slug e = org_Slug v) (Organizations s)
     then Inl ErrConflict
     else Inr (s\<lparr>Organizations := tbl_put (Organizations s) (org_ID v) v\<rparr>))"

definition InsertHumanUser :: "HumanUser \<Rightarrow> repository_op" where
  "InsertHumanUser v s =
    check_then (requireMemoryTenant s (huser_TenantID v))
    (if huser_ID v = [] \<or> huser_Email v = [] \<or> huser_DisplayName v = [] \<or> huser_Status v = [] \<or>
        huser_SchemaVersion v = [] \<or> is_zero_time (huser_CreatedAt v)
     then Inl ErrValidation
     else if \<not> memoryResourceBelongsToTenant org_TenantID (huser_OrganizationID v) (huser_TenantID v) (Organizations s)
     then Inl ErrNotFound
     else if tbl_get (Users s) (huser_ID v) \<noteq> None then Inl ErrConflict
     else if tbl_any (\<lambda>e. huser_TenantID e = huser_TenantID v \<and> huser_Email e = huser_Email v) (Users s)
     then Inl ErrConflict
     else Inr (s\<lparr>Users := tbl_put (Users s) (huser_ID v) v\<rparr>))"

definition DeactivateHumanUser :: "HumanUser \<Rightarrow> repository_op" where
  "DeactivateHumanUser v s =
    check_then (requireMemoryTenant s (huser_TenantID v))
    (case tbl_get (Users s) (huser_ID v) of
       None \<Rightarrow> Inl ErrConflict
     | Some stored \<Rightarrow>
        (if huser_TenantID stored \<noteq> huser_TenantID v \<or> huser_Status stored \<noteq> ''active'' \<or>
            huser_Status v \<noteq> ''deactivated'' \<or> huser_DeactivatedAt v = None
         then Inl ErrConflict
         else Inr (s\<lparr>Users := tbl_put (Users s) (huser_ID v) v\<rparr>)))"

definition validRoleSubject :: "string \<Rightarrow> bool" where
  "validRoleSubject v \<longleftrightarrow> v = ''user'' \<or> v = ''collector''"

definition validRole :: "string \<Rightarrow> bool" where
  "validRole v \<longleftrightarrow> v \<in> set [''tenant_admin'', ''security_engineer'', ''release_manager'', ''customer_verifier'', ''collector'']"

definition memoryRoleSubjectBelongsToTenant :: "MemoryUnitOfWorkSnapshot \<Rightarrow> string \<Rightarrow> string \<Rightarrow> string \<Rightarrow> bool" where
  "memoryRoleSubjectBelongsToTenant s tenantID subjectType subjectID =
    (if subjectType = ''user'' then memoryResourceBelongsToTenant huser_TenantID subjectID tenantID (Users s)
     else if subjectType = ''collector'' then memoryResourceBelongsToTenant coll_TenantID subjectID tenantID (Collectors s)
     else False)"

definition memoryRoleResourceBelongsToTenant :: "MemoryUnitOfWorkSnapshot \<Rightarrow> string \<Rightarrow> string \<Rightarrow> string \<Rightarrow> bool" where
  "memoryRoleResourceBelongsToTenant s tenantID resourceType resourceID =
    (if resourceType = [] then resourceID = []
     else if resourceType = ''tenant'' then resourceID = [] \<or> resourceID = tenantID
     else if resourceType = ''product'' then memoryResourceBelongsToTenant prod_TenantID resourceID tenantID (Products s)
     else if resourceType = ''project'' then memoryResourceBelongsToTenant proj_TenantID resourceID tenantID (Projects s)
     else if resourceType = ''release'' then memoryResourceBelongsToTenant rel_TenantID resourceID tenantID (Releases s)
     else False)"

definition InsertRoleBinding :: "RoleBinding \<Rightarrow> repository_op" where
  "InsertRoleBinding v s =
    check_then (requireMemoryTenant s (rb_TenantID v))
    (if rb_ID v = [] \<or> \<not> validRoleSubject (rb_SubjectType v) \<or> rb_SubjectID v = [] \<or> \<not> validRole (rb_Role v) \<or>
        rb_SchemaVersion v = [] \<or> is_zero_time (rb_CreatedAt v)
     then Inl ErrValidation
     else if \<not> memoryRoleSubjectBelongsToTenant s (rb_TenantID v) (rb_SubjectType v) (rb_SubjectID v) \<or>
        \<not> memoryRoleResourceBelongsToTenant s (rb_TenantID v) (rb_ResourceType v) (rb_ResourceID v)
     then Inl ErrNotFound
     else if tbl_get (RoleBindings s) (rb_ID v) \<noteq> None then Inl ErrConflict
     else Inr (s\<lparr>RoleBindings := tbl_put (RoleBindings s) (rb_ID v) v\<rparr>))"

definition validSSOType :: "string \<Rightarrow> bool" where
  "validSSOType v \<longleftrightarrow> v = ''oidc'' \<or> v = ''saml''"

definition InsertSSOProvider :: "SSOProvider \<Rightarrow> repository_op" where
  "InsertSSOProvider v s =
    check_then (requireMemoryTenant s (idp_TenantID v))
    (if idp_ID v = [] \<or> idp_Name v = [] \<or> \<not> validSSOType (idp_Type v) \<or> idp_Issuer v = [] \<or> idp_ClientID v = [] \<or>
        idp_Status v = [] \<or> idp_SchemaVersion v = [] \<or> is_zero_time (idp_CreatedAt v)
     then Inl ErrValidation
     else if tbl_get (SSOProviders s) (idp_ID v) \<noteq> None then Inl ErrConflict
     else Inr (s\<lparr>SSOProviders := tbl_put (SSOProviders s) (idp_ID v) v\<rparr>))"

definition sameSSOProviderTrustState :: "SSOProvider \<Rightarrow> SSOProvider \<Rightarrow> bool" where
  "sameSSOProviderTrustState left right \<longleftrightarrow>
     idp_ID left = idp_ID right \<and> idp_TenantID left = idp_TenantID right \<and> idp_Type left = idp_Type right \<and>
     idp_Issuer left = idp_Issuer right \<and> idp_ClientID left = idp_ClientID right \<and>
     idp_Status left = idp_Status right \<and> idp_JWKS left = idp_JWKS right \<and>
     idp_SAMLSigningCertificates left = idp_SAMLSigningCertificates right \<and>
     idp_TrustMaterialUpdatedAt left = idp_TrustMaterialUpdatedAt right"

definition CompareAndSwapSSOProviderTrustMaterial :: "SSOProvider \<Rightarrow> SSOProvider \<Rightarrow> repository_op" where
  "CompareAndSwapSSOProviderTrustMaterial expected v s =
    check_then (requireMemoryTenant s (idp_TenantID v))
    (case tbl_get (SSOProviders s) (idp_ID v) of
       None \<Rightarrow> Inl ErrConflict
     | Some stored \<Rightarrow>
        (if \<not> sameSSOProviderTrustState stored expected \<or> idp_ID expected \<noteq> idp_ID v \<or>
            idp_TenantID expected \<noteq> idp_TenantID v \<or> idp_Type expected \<noteq> idp_Type v \<or>
            idp_Issuer expected \<noteq> idp_Issuer v \<or> idp_ClientID expected \<noteq> idp_ClientID v \<or>
            idp_Status expected \<noteq> idp_Status v \<or> idp_TrustMaterialUpdatedAt v = None
         then Inl ErrConflict
         else Inr (s\<lparr>SSOProviders := tbl_put (SSOProviders s) (idp_ID v) v\<rparr>)))"

definition InsertUserIdentityLink :: "UserIdentityLink \<Rightarrow> repository_op" where
  "InsertUserIdentityLink v s =
    check_then (requireMemoryTenant s (ulink_TenantID v))
    (if ulink_ID v = [] \<or> ulink_Subject v = [] \<or> ulink_Email v = [] \<or> \<not> ulink_Verified v \<or>
        ulink_SchemaVersion v = [] \<or> is_zero_time (ulink_CreatedAt v)
     then Inl ErrValidation
     else if \<not> memoryResourceBelongsToTenant huser_TenantID (ulink_UserID v) (ulink_TenantID v) (Users s) \<or>
        \<not> memoryResourceBelongsToTenant idp_TenantID (ulink_ProviderID v) (ulink_TenantID v) (SSOProviders s)
     then Inl ErrNotFound
     else if tbl_any (\<lambda>e. ulink_TenantID e = ulink_TenantID v \<and> ulink_ProviderID e = ulink_ProviderID v \<and>
          ulink_Subject e = ulink_Subject v) (IdentityLinks s)
     then Inl ErrConflict
     else if tbl_get (IdentityLinks s) (ulink_ID v) \<noteq> None then Inl ErrConflict
     else Inr (s\<lparr>IdentityLinks := tbl_put (IdentityLinks s) (ulink_ID v) v\<rparr>))"

subsection \<open>Sessions\<close>

definition InsertSSOSession :: "SSOSession \<Rightarrow> repository_op" where
  "InsertSSOSession v s =
    check_then (requireMemoryTenant s (sess_TenantID v))
    (if sess_ID v = [] \<or> sess_Prefix v = [] \<or> sess_Hash v = [] \<or> is_zero_time (sess_ExpiresAt v) \<or>
        sess_SchemaVersion v = [] \<or> is_zero_time (sess_CreatedAt v)
     then Inl ErrValidation
     else case LifecyclePolicy v of (policy, ok) \<Rightarrow>
     if \<not> ok \<or> \<not> ActiveAt v (sess_CreatedAt v) then Inl ErrValidation
     else let v = v\<lparr>sess_MaximumLifetimeSeconds := MaximumLifetime policy div Second,
                    sess_IdleTimeoutSeconds := IdleTimeout policy div Second\<rparr> in
     if \<not> (case tbl_get (Users s) (sess_UserID v) of
             None \<Rightarrow> False
           | Some user \<Rightarrow> huser_TenantID user = sess_TenantID v \<and> huser_Status user = ''active'') \<or>
        \<not> memoryResourceBelongsToTenant idp_TenantID (sess_ProviderID v) (sess_TenantID v) (SSOProviders s)
     then Inl ErrNotFound
     else if tbl_get (SSOSessions s) (sess_ID v) \<noteq> None then Inl ErrConflict
     else Inr (s\<lparr>SSOSessions := tbl_put (SSOSessions s) (sess_ID v) v\<rparr>))"

definition memoryMembershipText :: "string \<Rightarrow> nat \<Rightarrow> bool" where
  "memoryMembershipText v limit \<longleftrightarrow> length v \<le> limit \<and> utf8_valid v \<and> \<not> contains_nul v"

definition memoryMembershipQueryText :: "string \<Rightarrow> nat \<Rightarrow> bool" where
  "memoryMembershipQueryText v limit \<longleftrightarrow> v \<noteq> [] \<and> TrimSpace v = v \<and> memoryMembershipText v limit"

definition membershipRead :: "string \<Rightarrow> repository_op \<Rightarrow> repository_op" where
  "membershipRead tenant read s =
    (if \<not> memoryMembershipQueryText tenant 1024 then Inl ErrValidation
     else check_then (requireMemoryTenant s tenant) (read s))"

definition secretHashEqual :: "string \<Rightarrow> string \<Rightarrow> bool" where
  "secretHashEqual stored candidate = (if length stored \<noteq> 64 \<or> length candidate \<noteq> 64 then False else stored = candidate)"

definition truncate_us :: "time \<Rightarrow> time" where
  "truncate_us t = t - t mod 1000"

definition ValidateActiveSSOSession :: "SSOSession \<Rightarrow> time \<Rightarrow> repository_op" where
  "ValidateActiveSSOSession v now s =
    (if sess_ID v = [] \<or> sess_TenantID v = [] \<or> sess_UserID v = [] \<or> sess_ProviderID v = [] \<or> sess_Prefix v = [] \<or>
        sess_Hash v = [] \<or> is_zero_time now
     then Inl ErrValidation
     else membershipRead (sess_TenantID v) (\<lambda>s. case tbl_get (SSOSessions s) (sess_ID v) of
        None \<Rightarrow> Inl ErrUnauthorized
      | Some stored \<Rightarrow>
        (if sess_ID stored \<noteq> sess_ID v \<or> sess_TenantID stored \<noteq> sess_TenantID v \<or> sess_UserID stored \<noteq> sess_UserID v \<or>
            sess_ProviderID stored \<noteq> sess_ProviderID v \<or> sess_Prefix stored \<noteq> sess_Prefix v \<or>
            \<not> secretHashEqual (sess_Hash stored) (sess_Hash v) \<or> \<not> ActiveAt stored now \<or>
            sess_CreatedAt stored \<noteq> sess_CreatedAt v \<or> sess_ExpiresAt stored \<noteq> sess_ExpiresAt v \<or>
            sess_Groups stored \<noteq> sess_Groups v
         then Inl ErrUnauthorized
         else if \<not> (case tbl_get (Users s) (sess_UserID stored) of
               None \<Rightarrow> False
             | Some user \<Rightarrow> huser_ID user = sess_UserID stored \<and> huser_TenantID user = sess_TenantID stored \<and>
                 huser_Status user = ''active'')
         then Inl ErrUnauthorized
         else if \<not> (case tbl_get (SSOProviders s) (sess_ProviderID stored) of
               None \<Rightarrow> False
             | Some p \<Rightarrow> idp_ID p = sess_ProviderID stored \<and> idp_TenantID p = sess_TenantID stored \<and>
                 idp_Status p = ''active'')
         then Inl ErrUnauthorized
         else let at = truncate_us now;
                  at = (case sess_LastUsedAt stored of Some t \<Rightarrow> if t > at then t else at | None \<Rightarrow> at)
         in Inr (s\<lparr>SSOSessions := tbl_put (SSOSessions s) (sess_ID stored) (stored\<lparr>sess_LastUsedAt := Some at\<rparr>)\<rparr>))) s)"

definition RevokeSSOSession :: "SSOSession \<Rightarrow> repository_op" where
  "RevokeSSOSession v s =
    check_then (requireMemoryTenant s (sess_TenantID v))
    (case tbl_get (SSOSessions s) (sess_ID v) of
       None \<Rightarrow> Inl ErrConflict
     | Some stored \<Rightarrow>
        (if sess_TenantID stored \<noteq> sess_TenantID v \<or> sess_UserID stored \<noteq> sess_UserID v \<or>
            sess_ProviderID stored \<noteq> sess_ProviderID v \<or> sess_Hash stored \<noteq> sess_Hash v \<or>
            sess_RevokedAt stored \<noteq> None \<or> sess_RevokedAt v = None
         then Inl ErrConflict
         else Inr (s\<lparr>SSOSessions := tbl_put (SSOSessions s) (sess_ID v) (stored\<lparr>sess_RevokedAt := sess_RevokedAt v\<rparr>)\<rparr>)))"

subsection \<open>Customer portal access\<close>

definition InsertCustomerPortalAccess :: "CustomerPortalAccess \<Rightarrow> repository_op" where
  "InsertCustomerPortalAccess v s =
    check_then (requireMemoryTenant s (cpa_TenantID v))
    (if cpa_ID v = [] \<or> cpa_PackageID v = [] \<or> cpa_CustomerName v = [] \<or> cpa_Prefix v = [] \<or> cpa_Hash v = [] \<or>
        is_zero_time (cpa_ExpiresAt v) \<or> cpa_SchemaVersion v = [] \<or> is_zero_time (cpa_CreatedAt v)
     then Inl ErrValidation
     else if tbl_get (PortalAccess s) (cpa_ID v) \<noteq> None then Inl ErrConflict
     else Inr (s\<lparr>PortalAccess := tbl_put (PortalAccess s) (cpa_ID v) v\<rparr>))"

definition UpdateCustomerPortalAccess :: "CustomerPortalAccess \<Rightarrow> CustomerPortalAccess \<Rightarrow> repository_op" where
  "UpdateCustomerPortalAccess previous v s =
    check_then (requireMemoryTenant s (cpa_TenantID v))
    (case tbl_get (PortalAccess s) (cpa_ID v) of
       None \<Rightarrow> Inl ErrConflict
     | Some stored \<Rightarrow>
        (if cpa_TenantID stored \<noteq> cpa_TenantID v \<or> cpa_ID previous \<noteq> cpa_ID v \<or>
            cpa_AccessCount stored \<noteq> cpa_AccessCount previous \<or>
            cpa_FailedAccessCount stored \<noteq> cpa_FailedAccessCount previous \<or>
            (cpa_RevokedAt stored = None) \<noteq> (cpa_RevokedAt previous = None)
         then Inl ErrConflict
         else Inr (s\<lparr>PortalAccess := tbl_put (PortalAccess s) (cpa_ID v) v\<rparr>)))"

end
