(* ===== verification/Store_Catalog.thy ===== *)
theory Store_Catalog
  imports Store
begin

text \<open>
  The remaining repositories of \<^verbatim>\<open>internal/app/memory_uow.go\<close> that this development covers:
  the release catalog, builds, deployments, controls, evidence and its lifecycle,
  vulnerability decisions and exceptions.
\<close>

section \<open>Release catalog\<close>

text \<open>Reads scan or look up one tenant's rows; a scan over distinct keys finds at most one row.\<close>

definition tbl_find :: "('v \<Rightarrow> bool) \<Rightarrow> ('k, 'v) table \<Rightarrow> 'v option" where
  "tbl_find p t = find p (List.map_filter (\<lambda>k. tbl_get t k) (map fst t))"

definition ProductBySlug :: "string \<Rightarrow> string \<Rightarrow> MemoryUnitOfWorkSnapshot \<Rightarrow> Product option result" where
  "ProductBySlug tenantID slug s =
    (let tenantID = TrimSpace tenantID; slug = TrimSpace slug in
     if tenantID = [] \<or> slug = [] then Inl ErrValidation
     else Inr (tbl_find (\<lambda>v. prod_TenantID v = tenantID \<and> prod_Slug v = slug) (Products s)))"

definition GetProduct :: "string \<Rightarrow> string \<Rightarrow> MemoryUnitOfWorkSnapshot \<Rightarrow> Product result" where
  "GetProduct tenantID i s =
    (let tenantID = TrimSpace tenantID; i = TrimSpace i in
     if tenantID = [] \<or> i = [] then Inl ErrValidation
     else case tbl_get (Products s) i of
       None \<Rightarrow> Inl ErrNotFound
     | Some v \<Rightarrow> if prod_TenantID v \<noteq> tenantID then Inl ErrNotFound else Inr v)"

definition parent_product_ok :: "MemoryUnitOfWorkSnapshot \<Rightarrow> string \<Rightarrow> string \<Rightarrow> bool" where
  "parent_product_ok s tenantID productID =
    (case tbl_get (Products s) productID of None \<Rightarrow> False | Some p \<Rightarrow> prod_TenantID p = tenantID)"

definition GetProject :: "string \<Rightarrow> string \<Rightarrow> MemoryUnitOfWorkSnapshot \<Rightarrow> Project result" where
  "GetProject tenantID i s =
    (let tenantID = TrimSpace tenantID; i = TrimSpace i in
     if tenantID = [] \<or> i = [] then Inl ErrValidation
     else case tbl_get (Projects s) i of
       None \<Rightarrow> Inl ErrNotFound
     | Some v \<Rightarrow> if proj_TenantID v \<noteq> tenantID then Inl ErrNotFound
         else if \<not> parent_product_ok s tenantID (proj_ProductID v) then Inl ErrNotFound else Inr v)"

definition GetRelease :: "string \<Rightarrow> string \<Rightarrow> MemoryUnitOfWorkSnapshot \<Rightarrow> Release result" where
  "GetRelease tenantID i s =
    (let tenantID = TrimSpace tenantID; i = TrimSpace i in
     if tenantID = [] \<or> i = [] then Inl ErrValidation
     else case tbl_get (Releases s) i of
       None \<Rightarrow> Inl ErrNotFound
     | Some v \<Rightarrow> if rel_TenantID v \<noteq> tenantID then Inl ErrNotFound
         else if \<not> parent_product_ok s tenantID (rel_ProductID v) then Inl ErrNotFound else Inr v)"

definition ReleaseByVersion ::
  "string \<Rightarrow> string \<Rightarrow> string \<Rightarrow> MemoryUnitOfWorkSnapshot \<Rightarrow> Release option result" where
  "ReleaseByVersion tenantID productID version s =
    (let tenantID = TrimSpace tenantID; productID = TrimSpace productID; version = TrimSpace version in
     if tenantID = [] \<or> productID = [] \<or> version = [] then Inl ErrValidation
     else Inr (tbl_find (\<lambda>v. rel_TenantID v = tenantID \<and> rel_ProductID v = productID \<and> rel_Version v = version)
       (Releases s)))"

definition GetArtifact :: "string \<Rightarrow> string \<Rightarrow> MemoryUnitOfWorkSnapshot \<Rightarrow> Artifact result" where
  "GetArtifact tenantID i s =
    (case tbl_get (Artifacts s) (TrimSpace i) of
       None \<Rightarrow> Inl ErrNotFound
     | Some v \<Rightarrow> if art_TenantID v \<noteq> TrimSpace tenantID then Inl ErrNotFound else Inr v)"

definition ArtifactByDigest :: "string \<Rightarrow> string \<Rightarrow> MemoryUnitOfWorkSnapshot \<Rightarrow> Artifact option result" where
  "ArtifactByDigest tenantID digest s =
    (let tenantID = TrimSpace tenantID; digest = TrimSpace digest in
     if tenantID = [] \<or> digest = [] then Inl ErrValidation
     else Inr (tbl_find (\<lambda>v. art_TenantID v = tenantID \<and> art_Digest v = digest) (Artifacts s)))"

definition InsertProduct :: "Product \<Rightarrow> repository_op" where
  "InsertProduct v s =
    check_then (requireMemoryTenant s (prod_TenantID v))
    (if prod_ID v = [] \<or> prod_Name v = [] \<or> prod_Slug v = [] \<or> is_zero_time (prod_CreatedAt v) then Inl ErrValidation
     else if tbl_get (Products s) (prod_ID v) \<noteq> None then Inl ErrConflict
     else if tbl_any (\<lambda>e. prod_TenantID e = prod_TenantID v \<and> prod_Slug e = prod_Slug v) (Products s)
     then Inl ErrConflict
     else Inr (s\<lparr>Products := tbl_put (Products s) (prod_ID v) v\<rparr>))"

definition InsertProject :: "Project \<Rightarrow> repository_op" where
  "InsertProject v s =
    check_then (requireMemoryTenant s (proj_TenantID v))
    (if \<not> parent_product_ok s (proj_TenantID v) (proj_ProductID v) then Inl ErrNotFound
     else if proj_ID v = [] \<or> proj_Name v = [] \<or> is_zero_time (proj_CreatedAt v) then Inl ErrValidation
     else if tbl_get (Projects s) (proj_ID v) \<noteq> None then Inl ErrConflict
     else Inr (s\<lparr>Projects := tbl_put (Projects s) (proj_ID v) v\<rparr>))"

definition InsertRelease :: "Release \<Rightarrow> repository_op" where
  "InsertRelease v s =
    (let v = (if rel_Revision v = 0 then v\<lparr>rel_Revision := 1\<rparr> else v) in
     check_then (requireMemoryTenant s (rel_TenantID v))
     (if \<not> parent_product_ok s (rel_TenantID v) (rel_ProductID v) then Inl ErrNotFound
      else if rel_ID v = [] \<or> rel_Version v = [] \<or> rel_Revision v < 1 \<or> rel_State v = [] \<or>
         is_zero_time (rel_CreatedAt v)
      then Inl ErrValidation
      else if tbl_get (Releases s) (rel_ID v) \<noteq> None then Inl ErrConflict
      else if tbl_any (\<lambda>e. rel_TenantID e = rel_TenantID v \<and> rel_ProductID e = rel_ProductID v \<and>
           rel_Version e = rel_Version v) (Releases s)
      then Inl ErrConflict
      else Inr (s\<lparr>Releases := tbl_put (Releases s) (rel_ID v) v\<rparr>)))"

definition NewVersionConflict :: "int \<Rightarrow> error" where
  "NewVersionConflict currentRevision = (if currentRevision < 1 then ErrConflict else ErrVersionConflict currentRevision)"

definition UpdateReleaseState :: "Release \<Rightarrow> string \<Rightarrow> repository_op" where
  "UpdateReleaseState v expectedState s =
    check_then (requireMemoryTenant s (rel_TenantID v))
    (if rel_ID v = [] \<or> rel_ProductID v = [] \<or> rel_Revision v < 2 \<or> rel_State v = [] \<or> expectedState = []
     then Inl ErrValidation
     else case tbl_get (Releases s) (rel_ID v) of
       None \<Rightarrow> Inl ErrNotFound
     | Some stored \<Rightarrow>
        (if rel_TenantID stored \<noteq> rel_TenantID v \<or> rel_ProductID stored \<noteq> rel_ProductID v then Inl ErrNotFound
         else if i64 (rel_Revision stored + 1) \<noteq> rel_Revision v then Inl (NewVersionConflict (rel_Revision stored))
         else if rel_State stored \<noteq> expectedState then Inl ErrConflict
         else Inr (s\<lparr>Releases := tbl_put (Releases s) (rel_ID v) v\<rparr>)))"

definition InsertArtifact :: "Artifact \<Rightarrow> repository_op" where
  "InsertArtifact v s =
    check_then (requireMemoryTenant s (art_TenantID v))
    (if art_ID v = [] \<or> art_Name v = [] \<or> art_MediaType v = [] \<or> art_Digest v = [] \<or> art_Size v < 0 \<or>
        is_zero_time (art_CreatedAt v)
     then Inl ErrValidation
     else if tbl_get (Artifacts s) (art_ID v) \<noteq> None then Inl ErrConflict
     else if tbl_any (\<lambda>e. art_TenantID e = art_TenantID v \<and> art_Digest e = art_Digest v) (Artifacts s)
     then Inl ErrConflict
     else Inr (s\<lparr>Artifacts := tbl_put (Artifacts s) (art_ID v) v\<rparr>))"

definition InsertReleaseCandidate :: "ReleaseCandidate \<Rightarrow> repository_op" where
  "InsertReleaseCandidate v s =
    (let v = (if cand_Revision v = 0 then v\<lparr>cand_Revision := 1\<rparr> else v) in
     check_then (requireMemoryTenant s (cand_TenantID v))
     (if cand_ID v = [] \<or> cand_ReleaseID v = [] \<or> cand_Name v = [] \<or> cand_Revision v < 1 \<or> cand_State v = [] \<or>
         cand_SnapshotHash v = [] \<or> cand_SchemaVersion v = [] \<or> is_zero_time (cand_CreatedAt v)
      then Inl ErrValidation
      else if \<not> memoryResourceBelongsToTenant rel_TenantID (cand_ReleaseID v) (cand_TenantID v) (Releases s)
      then Inl ErrNotFound
      else if tbl_get (ReleaseCandidates s) (cand_ID v) \<noteq> None then Inl ErrConflict
      else Inr (s\<lparr>ReleaseCandidates := tbl_put (ReleaseCandidates s) (cand_ID v) v\<rparr>)))"

definition UpdateReleaseCandidateState :: "ReleaseCandidate \<Rightarrow> string \<Rightarrow> repository_op" where
  "UpdateReleaseCandidateState v expectedState s =
    check_then (requireMemoryTenant s (cand_TenantID v))
    (case tbl_get (ReleaseCandidates s) (cand_ID v) of
       None \<Rightarrow> Inl ErrNotFound
     | Some stored \<Rightarrow>
        (if cand_TenantID stored \<noteq> cand_TenantID v \<or> cand_ReleaseID stored \<noteq> cand_ReleaseID v then Inl ErrNotFound
         else if cand_Revision v < 2 then Inl ErrValidation
         else if i64 (cand_Revision stored + 1) \<noteq> cand_Revision v then Inl (NewVersionConflict (cand_Revision stored))
         else if expectedState = [] \<or> cand_State stored \<noteq> expectedState then Inl ErrConflict
         else Inr (s\<lparr>ReleaseCandidates := tbl_put (ReleaseCandidates s) (cand_ID v) v\<rparr>)))"

section \<open>Collectors, builds and deployments\<close>

definition InsertCollector :: "Collector \<Rightarrow> repository_op" where
  "InsertCollector v s =
    check_then (requireMemoryTenant s (coll_TenantID v))
    (if coll_ID v = [] \<or> coll_Name v = [] \<or> coll_Type v = [] \<or> coll_Version v = [] \<or> coll_APIKeyID v = [] \<or>
        coll_Status v = [] \<or> length (coll_AllowedScopes v) = 0 \<or> coll_SchemaVersion v = [] \<or>
        is_zero_time (coll_CreatedAt v)
     then Inl ErrValidation
     else if \<not> memoryResourceBelongsToTenant key_TenantID (coll_APIKeyID v) (coll_TenantID v) (APIKeys s)
     then Inl ErrNotFound
     else if tbl_get (Collectors s) (coll_ID v) \<noteq> None then Inl ErrConflict
     else if tbl_any (\<lambda>e. coll_TenantID e = coll_TenantID v \<and> coll_Name e = coll_Name v) (Collectors s)
     then Inl ErrConflict
     else Inr (s\<lparr>Collectors := tbl_put (Collectors s) (coll_ID v) v\<rparr>))"

text \<open>The loop over \<^verbatim>\<open>build.Outputs\<close>; a blank artifact reference only needs a digest.\<close>

fun build_outputs_error :: "MemoryUnitOfWorkSnapshot \<Rightarrow> string \<Rightarrow> BuildOutput list \<Rightarrow> error option" where
  "build_outputs_error s tenantID [] = None"
| "build_outputs_error s tenantID (out # outs) =
    (if out_Digest out = [] then Some ErrValidation
     else if out_ArtifactID out = [] then build_outputs_error s tenantID outs
     else case tbl_get (Artifacts s) (out_ArtifactID out) of
       None \<Rightarrow> Some ErrNotFound
     | Some a \<Rightarrow> if art_TenantID a \<noteq> tenantID \<or> art_Digest a \<noteq> out_Digest out then Some ErrNotFound
         else build_outputs_error s tenantID outs)"

definition InsertBuildRun :: "BuildRun \<Rightarrow> repository_op" where
  "InsertBuildRun v s =
    check_then (requireMemoryTenant s (build_TenantID v))
    (if build_ID v = [] \<or> build_ProjectID v = [] \<or> build_ReleaseID v = [] \<or> build_Provider v = [] \<or>
        build_CommitSHA v = [] \<or> build_Status v = [] \<or> is_zero_time (build_StartedAt v) \<or>
        build_SchemaVersion v = [] \<or> is_zero_time (build_CreatedAt v)
     then Inl ErrValidation
     else if \<not> memoryResourceBelongsToTenant proj_TenantID (build_ProjectID v) (build_TenantID v) (Projects s) \<or>
        \<not> memoryResourceBelongsToTenant rel_TenantID (build_ReleaseID v) (build_TenantID v) (Releases s)
     then Inl ErrNotFound
     else if build_CollectorID v \<noteq> [] \<and>
        \<not> memoryResourceBelongsToTenant coll_TenantID (build_CollectorID v) (build_TenantID v) (Collectors s)
     then Inl ErrNotFound
     else check_then (build_outputs_error s (build_TenantID v) (build_Outputs v))
     (if tbl_get (BuildRuns s) (build_ID v) \<noteq> None then Inl ErrConflict
      else Inr (s\<lparr>BuildRuns := tbl_put (BuildRuns s) (build_ID v) v\<rparr>)))"

definition InsertDeploymentEnvironment :: "DeploymentEnvironment \<Rightarrow> repository_op" where
  "InsertDeploymentEnvironment v s =
    check_then (requireMemoryTenant s (env_TenantID v))
    (if env_ID v = [] \<or> env_ProductID v = [] \<or> env_Name v = [] \<or> env_Kind v = [] \<or> env_SchemaVersion v = [] \<or>
        is_zero_time (env_CreatedAt v)
     then Inl ErrValidation
     else if \<not> memoryResourceBelongsToTenant prod_TenantID (env_ProductID v) (env_TenantID v) (Products s)
     then Inl ErrNotFound
     else if tbl_get (DeploymentEnvironments s) (env_ID v) \<noteq> None then Inl ErrConflict
     else if tbl_any (\<lambda>e. env_TenantID e = env_TenantID v \<and> env_ProductID e = env_ProductID v \<and> env_Name e = env_Name v)
          (DeploymentEnvironments s)
     then Inl ErrConflict
     else Inr (s\<lparr>DeploymentEnvironments := tbl_put (DeploymentEnvironments s) (env_ID v) v\<rparr>))"

definition InsertDeploymentEvent :: "DeploymentEvent \<Rightarrow> repository_op" where
  "InsertDeploymentEvent v s =
    check_then (requireMemoryTenant s (dep_TenantID v))
    (if dep_ID v = [] \<or> dep_EnvironmentID v = [] \<or> dep_ReleaseID v = [] \<or> dep_Status v = [] \<or>
        is_zero_time (dep_StartedAt v) \<or> dep_EvidenceID v = [] \<or> dep_SchemaVersion v = [] \<or>
        is_zero_time (dep_CreatedAt v)
     then Inl ErrValidation
     else case (tbl_get (DeploymentEnvironments s) (dep_EnvironmentID v), tbl_get (Releases s) (dep_ReleaseID v),
                tbl_get (Evidence s) (dep_EvidenceID v)) of
       (Some env, Some release, Some evidence) \<Rightarrow>
        (if env_TenantID env \<noteq> dep_TenantID v \<or>
            rel_TenantID release \<noteq> dep_TenantID v \<or> rel_ProductID release \<noteq> env_ProductID env \<or>
            ev_TenantID evidence \<noteq> dep_TenantID v \<or> ev_DeploymentID evidence \<noteq> dep_ID v \<or>
            ev_ProductID evidence \<noteq> env_ProductID env \<or> ev_ReleaseID evidence \<noteq> rel_ID release
         then Inl ErrNotFound
         else if list_ex (\<lambda>i. \<not> memoryResourceBelongsToTenant art_TenantID i (dep_TenantID v) (Artifacts s))
              (dep_ArtifactIDs v)
         then Inl ErrNotFound
         else if dep_RollbackOf v \<noteq> [] \<and>
            \<not> (case tbl_get (DeploymentEvents s) (dep_RollbackOf v) of
                 None \<Rightarrow> False
               | Some previous \<Rightarrow> dep_TenantID previous = dep_TenantID v \<and>
                   dep_EnvironmentID previous = dep_EnvironmentID v)
         then Inl ErrNotFound
         else if tbl_get (DeploymentEvents s) (dep_ID v) \<noteq> None then Inl ErrConflict
         else Inr (s\<lparr>DeploymentEvents := tbl_put (DeploymentEvents s) (dep_ID v) v\<rparr>))
     | _ \<Rightarrow> Inl ErrNotFound)"

section \<open>Controls\<close>

definition InsertControlFramework :: "ControlFramework \<Rightarrow> repository_op" where
  "InsertControlFramework v s =
    check_then (requireMemoryTenant s (fw_TenantID v))
    (if fw_ID v = [] \<or> fw_Name v = [] \<or> fw_Slug v = [] \<or> fw_Version v = [] \<or> fw_Status v = [] \<or>
        fw_SchemaVersion v = [] \<or> is_zero_time (fw_CreatedAt v)
     then Inl ErrValidation
     else if tbl_get (ControlFrameworks s) (fw_ID v) \<noteq> None then Inl ErrConflict
     else if tbl_any (\<lambda>e. fw_TenantID e = fw_TenantID v \<and> fw_Slug e = fw_Slug v \<and> fw_Version e = fw_Version v)
          (ControlFrameworks s)
     then Inl ErrConflict
     else Inr (s\<lparr>ControlFrameworks := tbl_put (ControlFrameworks s) (fw_ID v) v\<rparr>))"

definition InsertSecurityControl :: "SecurityControl \<Rightarrow> repository_op" where
  "InsertSecurityControl v s =
    check_then (requireMemoryTenant s (ctl_TenantID v))
    (if ctl_ID v = [] \<or> ctl_FrameworkID v = [] \<or> ctl_Code v = [] \<or> ctl_Title v = [] \<or> ctl_Objective v = [] \<or>
        ctl_SchemaVersion v = [] \<or> is_zero_time (ctl_CreatedAt v)
     then Inl ErrValidation
     else if \<not> (case tbl_get (ControlFrameworks s) (ctl_FrameworkID v) of
             None \<Rightarrow> False | Some f \<Rightarrow> fw_TenantID f = ctl_TenantID v)
     then Inl ErrNotFound
     else if tbl_get (SecurityControls s) (ctl_ID v) \<noteq> None then Inl ErrConflict
     else if tbl_any (\<lambda>e. ctl_TenantID e = ctl_TenantID v \<and> ctl_FrameworkID e = ctl_FrameworkID v \<and>
          ctl_Code e = ctl_Code v) (SecurityControls s)
     then Inl ErrConflict
     else Inr (s\<lparr>SecurityControls := tbl_put (SecurityControls s) (ctl_ID v) v\<rparr>))"

definition InsertControlEvidence :: "ControlEvidence \<Rightarrow> repository_op" where
  "InsertControlEvidence v s =
    check_then (requireMemoryTenant s (cev_TenantID v))
    (if cev_ID v = [] \<or> cev_ControlID v = [] \<or> cev_EvidenceType v = [] \<or> cev_SubjectType v = [] \<or>
        cev_SubjectID v = [] \<or> cev_Confidence v = [] \<or> cev_SchemaVersion v = [] \<or> is_zero_time (cev_CreatedAt v)
     then Inl ErrValidation
     else if \<not> (case tbl_get (SecurityControls s) (cev_ControlID v) of
             None \<Rightarrow> False | Some c \<Rightarrow> ctl_TenantID c = cev_TenantID v)
     then Inl ErrNotFound
     else if tbl_get (ControlEvidences s) (cev_ID v) \<noteq> None then Inl ErrConflict
     else if tbl_any (\<lambda>e. cev_TenantID e = cev_TenantID v \<and> cev_ControlID e = cev_ControlID v \<and>
          cev_EvidenceType e = cev_EvidenceType v \<and> cev_SubjectType e = cev_SubjectType v \<and>
          cev_SubjectID e = cev_SubjectID v \<and> cev_ProductID e = cev_ProductID v \<and>
          cev_ReleaseID e = cev_ReleaseID v) (ControlEvidences s)
     then Inl ErrConflict
     else Inr (s\<lparr>ControlEvidences := tbl_put (ControlEvidences s) (cev_ID v) v\<rparr>))"

end
