(* ===== verification/Store_Evidence.thy ===== *)
theory Store_Evidence
  imports Store_Catalog
begin

text \<open>
  Evidence, scans, vulnerability decisions and exceptions of \<^verbatim>\<open>internal/app/memory_uow.go\<close>,
  and the one-time OIDC login requests of \<^verbatim>\<open>memory_oidc_authentication_requests.go\<close>.
\<close>

section \<open>Evidence\<close>

text \<open>The selected part of a parent row, the zero value when the reference is blank.\<close>

definition product_of_project :: "MemoryUnitOfWorkSnapshot \<Rightarrow> string \<Rightarrow> string" where
  "product_of_project s i = (case tbl_get (Projects s) i of Some p \<Rightarrow> proj_ProductID p | None \<Rightarrow> [])"

definition release_of_build :: "MemoryUnitOfWorkSnapshot \<Rightarrow> string \<Rightarrow> string" where
  "release_of_build s i = (case tbl_get (BuildRuns s) i of Some b \<Rightarrow> build_ReleaseID b | None \<Rightarrow> [])"

definition build_scope_ok ::
  "MemoryUnitOfWorkSnapshot \<Rightarrow> string \<Rightarrow> string \<Rightarrow> string \<Rightarrow> string \<Rightarrow> BuildRun \<Rightarrow> bool" where
  "build_scope_ok s tenantID productID projectID releaseID b \<longleftrightarrow>
     \<not> (build_TenantID b \<noteq> tenantID \<or> projectID \<noteq> [] \<and> build_ProjectID b \<noteq> projectID \<or>
        releaseID \<noteq> [] \<and> build_ReleaseID b \<noteq> releaseID) \<and>
     (case (tbl_get (Projects s) (build_ProjectID b), tbl_get (Releases s) (build_ReleaseID b)) of
        (Some p, Some r) \<Rightarrow>
          \<not> (proj_TenantID p \<noteq> tenantID \<or> rel_TenantID r \<noteq> tenantID \<or> proj_ProductID p \<noteq> rel_ProductID r \<or>
             productID \<noteq> [] \<and> proj_ProductID p \<noteq> productID)
      | _ \<Rightarrow> False)"

definition deployment_scope_ok ::
  "MemoryUnitOfWorkSnapshot \<Rightarrow> string \<Rightarrow> string \<Rightarrow> string \<Rightarrow> string \<Rightarrow> string \<Rightarrow> DeploymentEvent \<Rightarrow> bool" where
  "deployment_scope_ok s tenantID productID projectID releaseID buildID d \<longleftrightarrow>
     \<not> (dep_TenantID d \<noteq> tenantID \<or> releaseID \<noteq> [] \<and> dep_ReleaseID d \<noteq> releaseID \<or>
        buildID \<noteq> [] \<and> dep_ReleaseID d \<noteq> release_of_build s buildID) \<and>
     (case (tbl_get (DeploymentEnvironments s) (dep_EnvironmentID d), tbl_get (Releases s) (dep_ReleaseID d)) of
        (Some e, Some r) \<Rightarrow>
          \<not> (env_TenantID e \<noteq> tenantID \<or> rel_TenantID r \<noteq> tenantID \<or> env_ProductID e \<noteq> rel_ProductID r \<or>
             productID \<noteq> [] \<and> env_ProductID e \<noteq> productID \<or>
             projectID \<noteq> [] \<and> product_of_project s projectID \<noteq> env_ProductID e)
      | _ \<Rightarrow> False)"

definition validateMemoryEvidenceScope ::
  "MemoryUnitOfWorkSnapshot \<Rightarrow> string \<Rightarrow> string \<Rightarrow> string \<Rightarrow> string \<Rightarrow> string \<Rightarrow> string \<Rightarrow> error option" where
  "validateMemoryEvidenceScope s tenantID productID projectID releaseID buildID deploymentID =
    on_ok (requireMemoryTenant s tenantID)
    (if productID \<noteq> [] \<and> \<not> memoryResourceBelongsToTenant prod_TenantID productID tenantID (Products s)
     then Some ErrNotFound
     else if projectID \<noteq> [] \<and>
        \<not> (case tbl_get (Projects s) projectID of
             None \<Rightarrow> False
           | Some p \<Rightarrow> \<not> (proj_TenantID p \<noteq> tenantID \<or> productID \<noteq> [] \<and> proj_ProductID p \<noteq> productID))
     then Some ErrNotFound
     else if releaseID \<noteq> [] \<and>
        \<not> (case tbl_get (Releases s) releaseID of
             None \<Rightarrow> False
           | Some r \<Rightarrow> \<not> (rel_TenantID r \<noteq> tenantID \<or> productID \<noteq> [] \<and> rel_ProductID r \<noteq> productID \<or>
                projectID \<noteq> [] \<and> rel_ProductID r \<noteq> product_of_project s projectID))
     then Some ErrNotFound
     else if buildID \<noteq> [] \<and>
        \<not> (case tbl_get (BuildRuns s) buildID of
             None \<Rightarrow> False | Some b \<Rightarrow> build_scope_ok s tenantID productID projectID releaseID b)
     then Some ErrNotFound
     else if deploymentID \<noteq> [] \<and>
        \<not> (case tbl_get (DeploymentEvents s) deploymentID of
             None \<Rightarrow> False | Some d \<Rightarrow> deployment_scope_ok s tenantID productID projectID releaseID buildID d)
     then Some ErrNotFound
     else None)"

definition GetEvidence :: "string \<Rightarrow> string \<Rightarrow> MemoryUnitOfWorkSnapshot \<Rightarrow> EvidenceItem result" where
  "GetEvidence tenantID i s =
    (case tbl_get (Evidence s) i of
       None \<Rightarrow> Inl ErrNotFound
     | Some v \<Rightarrow> if ev_TenantID v \<noteq> tenantID then Inl ErrNotFound else Inr v)"

definition InsertEvidence :: "EvidenceItem \<Rightarrow> repository_op" where
  "InsertEvidence v s =
    (if ev_ID v = [] \<or> ev_Type v = [] \<or> ev_Title v = [] \<or> ev_PayloadHash v = [] \<or> ev_CanonicalHash v = [] \<or>
        is_zero_time (ev_CreatedAt v)
     then Inl ErrValidation
     else let deploymentID =
        (if ev_DeploymentID v \<noteq> [] \<and> ev_Type v = ''deployment'' \<and> ev_Subtype v = ''event'' \<and>
            tbl_get (DeploymentEvents s) (ev_DeploymentID v) = None
         then [] else ev_DeploymentID v) in
     check_then (validateMemoryEvidenceScope s (ev_TenantID v) (ev_ProductID v) (ev_ProjectID v) (ev_ReleaseID v)
        (ev_BuildID v) deploymentID)
     (if tbl_get (Evidence s) (ev_ID v) \<noteq> None then Inl ErrConflict
      else Inr (s\<lparr>Evidence := tbl_put (Evidence s) (ev_ID v) v\<rparr>)))"

definition validEvidenceLinkReplacement :: "EvidenceItem \<Rightarrow> EvidenceItem \<Rightarrow> bool" where
  "validEvidenceLinkReplacement expected replacement \<longleftrightarrow>
     ev_ID expected \<noteq> [] \<and> ev_TenantID expected \<noteq> [] \<and>
     ev_ID expected = ev_ID replacement \<and> ev_TenantID expected = ev_TenantID replacement \<and>
     ev_ProjectID expected = ev_ProjectID replacement \<and> ev_BuildID expected = ev_BuildID replacement \<and>
     ev_DeploymentID expected = ev_DeploymentID replacement"

text \<open>The references are compared by their JSON text, which determines the list.\<close>

definition sameEvidenceLinkState :: "EvidenceItem \<Rightarrow> EvidenceItem \<Rightarrow> bool" where
  "sameEvidenceLinkState left right =
    (if ev_ID left \<noteq> ev_ID right \<or> ev_TenantID left \<noteq> ev_TenantID right \<or> ev_ProductID left \<noteq> ev_ProductID right \<or>
        ev_ProjectID left \<noteq> ev_ProjectID right \<or> ev_ReleaseID left \<noteq> ev_ReleaseID right \<or>
        ev_BuildID left \<noteq> ev_BuildID right \<or> ev_DeploymentID left \<noteq> ev_DeploymentID right
     then False
     else ev_RelatedEvidenceRefs left = ev_RelatedEvidenceRefs right)"

definition CompareAndSwapEvidenceLinks :: "EvidenceItem \<Rightarrow> EvidenceItem \<Rightarrow> repository_op" where
  "CompareAndSwapEvidenceLinks expected v s =
    (if \<not> validEvidenceLinkReplacement expected v then Inl ErrValidation
     else case tbl_get (Evidence s) (ev_ID v) of
       None \<Rightarrow> Inl ErrNotFound
     | Some stored \<Rightarrow>
        (if ev_TenantID stored \<noteq> ev_TenantID v then Inl ErrNotFound
         else if \<not> sameEvidenceLinkState stored expected then Inl ErrConflict
         else check_then (validateMemoryEvidenceScope s (ev_TenantID v) (ev_ProductID v) (ev_ProjectID v)
             (ev_ReleaseID v) (ev_BuildID v) (ev_DeploymentID v))
         (Inr (s\<lparr>Evidence := tbl_put (Evidence s) (ev_ID stored)
           (stored\<lparr>ev_ProductID := ev_ProductID v, ev_ReleaseID := ev_ReleaseID v,
              ev_RelatedEvidenceRefs := ev_RelatedEvidenceRefs v\<rparr>)\<rparr>))))"

definition RecordSupersession :: "EvidenceItem \<Rightarrow> EvidenceItem \<Rightarrow> repository_op" where
  "RecordSupersession superseded replacement s =
    check_then (requireMemoryTenant s (ev_TenantID superseded))
    (if ev_TenantID superseded \<noteq> ev_TenantID replacement \<or> ev_ID superseded = [] \<or> ev_ID replacement = [] \<or>
        ev_SupersededBy superseded \<noteq> ev_ID replacement \<or> ev_Supersedes replacement \<noteq> ev_ID superseded
     then Inl ErrValidation
     else case tbl_get (Evidence s) (ev_ID superseded) of
       None \<Rightarrow> Inl ErrNotFound
     | Some storedSuperseded \<Rightarrow>
        (if ev_TenantID storedSuperseded \<noteq> ev_TenantID superseded then Inl ErrNotFound
         else case tbl_get (Evidence s) (ev_ID replacement) of
           None \<Rightarrow> Inl ErrNotFound
         | Some storedReplacement \<Rightarrow>
            (if ev_TenantID storedReplacement \<noteq> ev_TenantID superseded then Inl ErrNotFound
             else if ev_SupersededBy storedSuperseded \<noteq> [] \<or> ev_Supersedes storedReplacement \<noteq> [] then Inl ErrConflict
             else Inr (s\<lparr>Evidence :=
                tbl_put (tbl_put (Evidence s) (ev_ID superseded) superseded) (ev_ID replacement) replacement\<rparr>))))"

definition AppendLifecycle :: "EvidenceLifecycleEvent \<Rightarrow> repository_op" where
  "AppendLifecycle v s =
    check_then (requireMemoryTenant s (life_TenantID v))
    (if \<not> (case tbl_get (Evidence s) (life_EvidenceID v) of
             None \<Rightarrow> False | Some e \<Rightarrow> ev_TenantID e = life_TenantID v)
     then Inl ErrNotFound
     else if life_ID v = [] \<or> life_Action v = [] \<or> is_zero_time (life_CreatedAt v) then Inl ErrValidation
     else if tbl_get (EvidenceLifecycle s) (life_ID v) \<noteq> None then Inl ErrConflict
     else Inr (s\<lparr>EvidenceLifecycle := tbl_put (EvidenceLifecycle s) (life_ID v) v\<rparr>))"

definition InsertVulnerabilityScan :: "VulnerabilityScan \<Rightarrow> repository_op" where
  "InsertVulnerabilityScan v s =
    check_then (requireMemoryTenant s (scan_TenantID v))
    (let parsedProjection = scan_Scanner v \<noteq> [] \<and> scan_TargetRef v \<noteq> [];
         acceptedProjection = scan_Scanner v = [] \<and> scan_Adapter v = [] \<and> scan_AdapterVersion v = [] \<and>
           scan_SourceSchema v = [] \<and> scan_TargetRef v = [] \<and> scan_Summary v = None \<and> scan_Findings v = None in
     if scan_ID v = [] \<or> scan_EvidenceID v = [] \<or> \<not> parsedProjection \<and> \<not> acceptedProjection \<or>
        is_zero_time (scan_CreatedAt v)
     then Inl ErrValidation
     else if \<not> memoryResourceBelongsToTenant ev_TenantID (scan_EvidenceID v) (scan_TenantID v) (Evidence s) \<or>
        \<not> memoryResourceBelongsToTenant rel_TenantID (scan_ReleaseID v) (scan_TenantID v) (Releases s)
     then Inl ErrNotFound
     else if tbl_get (VulnerabilityScans s) (scan_ID v) \<noteq> None then Inl ErrConflict
     else Inr (s\<lparr>VulnerabilityScans := tbl_put (VulnerabilityScans s) (scan_ID v) v\<rparr>))"

section \<open>Decisions and exceptions\<close>

definition InsertVulnerabilityDecision :: "VulnerabilityDecision \<Rightarrow> repository_op" where
  "InsertVulnerabilityDecision v s =
    check_then (requireMemoryTenant s (dec_TenantID v))
    (if \<not> memoryResourceBelongsToTenant rel_TenantID (dec_ReleaseID v) (dec_TenantID v) (Releases s) \<or>
        \<not> memoryResourceBelongsToTenant ev_TenantID (dec_EvidenceID v) (dec_TenantID v) (Evidence s)
     then Inl ErrNotFound
     else if dec_ID v = [] \<or> dec_FindingID v = [] \<or> dec_ScanID v = [] \<or> dec_Vulnerability v = [] \<or>
        dec_Status v = [] \<or> dec_Justification v = [] \<or> dec_Source v = [] \<or> is_zero_time (dec_CreatedAt v)
     then Inl ErrValidation
     else if tbl_get (Decisions s) (dec_ID v) \<noteq> None then Inl ErrConflict
     else Inr (s\<lparr>Decisions := tbl_put (Decisions s) (dec_ID v) v\<rparr>))"

definition SupersedeAndInsert :: "VulnerabilityDecision \<Rightarrow> VulnerabilityDecision list \<Rightarrow> repository_op" where
  "SupersedeAndInsert v superseded s =
    check_then (requireMemoryTenant s (dec_TenantID v))
    (if dec_ID v = [] \<or> dec_FindingID v = [] \<or> dec_ScanID v = [] \<or> dec_Vulnerability v = [] \<or> dec_Status v = [] \<or>
        dec_Justification v = [] \<or> dec_Source v = [] \<or> dec_SchemaVersion v = [] \<or> is_zero_time (dec_CreatedAt v)
     then Inl ErrValidation
     else if \<not> memoryResourceBelongsToTenant rel_TenantID (dec_ReleaseID v) (dec_TenantID v) (Releases s) \<or>
        \<not> memoryResourceBelongsToTenant ev_TenantID (dec_EvidenceID v) (dec_TenantID v) (Evidence s)
     then Inl ErrNotFound
     else if \<not> (case tbl_get (VulnerabilityScans s) (dec_ScanID v) of
             None \<Rightarrow> False | Some scan \<Rightarrow> scan_TenantID scan = dec_TenantID v)
     then Inl ErrNotFound
     else if tbl_get (Decisions s) (dec_ID v) \<noteq> None then Inl ErrConflict
     else if list_ex (\<lambda>prior. \<not> (case tbl_get (Decisions s) (dec_ID prior) of
            None \<Rightarrow> False
          | Some stored \<Rightarrow> dec_TenantID stored = dec_TenantID v \<and> dec_SupersededBy stored = [] \<and>
              dec_SupersededBy prior = dec_ID v)) superseded
     then Inl ErrConflict
     else Inr (s\<lparr>Decisions := tbl_put (foldl (\<lambda>t prior. tbl_put t (dec_ID prior) prior) (Decisions s) superseded)
        (dec_ID v) v\<rparr>))"

definition InsertException :: "Exception \<Rightarrow> repository_op" where
  "InsertException v s =
    check_then (requireMemoryTenant s (exc_TenantID v))
    (if exc_ID v = [] \<or> exc_ReleaseID v = [] \<or> exc_Reason v = [] \<or> exc_Owner v = [] \<or>
        \<not> exc_ExpiresAt v > exc_CreatedAt v \<or> is_zero_time (exc_CreatedAt v) \<or> exc_Approved v \<or>
        exc_ApprovedBy v \<noteq> [] \<or> exc_ApprovedAt v \<noteq> None
     then Inl ErrValidation
     else if \<not> memoryResourceBelongsToTenant rel_TenantID (exc_ReleaseID v) (exc_TenantID v) (Releases s)
     then Inl ErrNotFound
     else if exc_ControlID v \<noteq> [] \<and>
        \<not> memoryResourceBelongsToTenant ctl_TenantID (exc_ControlID v) (exc_TenantID v) (SecurityControls s)
     then Inl ErrNotFound
     else if tbl_get (Exceptions s) (exc_ID v) \<noteq> None then Inl ErrConflict
     else Inr (s\<lparr>Exceptions := tbl_put (Exceptions s) (exc_ID v) v\<rparr>))"

definition ApproveException :: "Exception \<Rightarrow> repository_op" where
  "ApproveException v s =
    check_then (requireMemoryTenant s (exc_TenantID v))
    (case tbl_get (Exceptions s) (exc_ID v) of
       None \<Rightarrow> Inl ErrNotFound
     | Some stored \<Rightarrow>
        (if exc_TenantID stored \<noteq> exc_TenantID v then Inl ErrNotFound
         else if exc_Approved stored \<or> \<not> exc_Approved v \<or> exc_ApprovedBy v = [] \<or>
            (case exc_ApprovedAt v of None \<Rightarrow> True | Some t \<Rightarrow> \<not> exc_ExpiresAt v > t)
         then Inl ErrConflict
         else Inr (s\<lparr>Exceptions := tbl_put (Exceptions s) (exc_ID v) v\<rparr>)))"

section \<open>One-time OIDC login requests\<close>

definition memoryOIDCHash :: "string \<Rightarrow> bool" where
  "memoryOIDCHash v \<longleftrightarrow> (case hex_decode v of Some raw \<Rightarrow> length raw = 32 | None \<Rightarrow> False) \<and> lower_case v"

definition validMemoryOIDCRequest :: "OIDCAuthenticationRequest \<Rightarrow> bool" where
  "validMemoryOIDCRequest v \<longleftrightarrow>
     memoryMembershipQueryText (oidc_ID v) 1024 \<and> memoryMembershipQueryText (oidc_TenantID v) 1024 \<and>
     memoryMembershipQueryText (oidc_ProviderID v) 1024 \<and> length (oidc_TrustFingerprint v) = 71 \<and>
     prefix ''sha256:'' (oidc_TrustFingerprint v) \<and> memoryOIDCHash (drop 7 (oidc_TrustFingerprint v)) \<and>
     memoryOIDCHash (oidc_StateHash v) \<and> memoryOIDCHash (oidc_NonceHash v) \<and> oidc_StateHash v \<noteq> oidc_NonceHash v"

definition memoryOIDCProvider :: "MemoryUnitOfWorkSnapshot \<Rightarrow> string \<Rightarrow> string \<Rightarrow> SSOProvider result" where
  "memoryOIDCProvider s tenant i =
    (case tbl_get (SSOProviders s) i of
       None \<Rightarrow> Inl ErrNotFound
     | Some p \<Rightarrow>
        (if idp_TenantID p \<noteq> tenant \<or> idp_ID p \<noteq> i then Inl ErrNotFound
         else if idp_Type p \<noteq> ''oidc'' \<or> idp_Status p \<noteq> ''active'' \<or> idp_Issuer p = [] \<or> idp_ClientID p = [] \<or>
            idp_JWKS p = []
         then Inl ErrUnauthorized
         else Inr p))"

text \<open>
  \<open>fingerprint\<close> stands for \<^verbatim>\<open>identityapp.OIDCProviderTrustFingerprint\<close>. The \<^verbatim>\<open>range\<close> loop skips and
  deletes the expired requests of the same provider, counts its live ones and refuses a
  request that collides with any other; the order of iteration does not matter.
\<close>

definition oidc_expired_peer :: "OIDCAuthenticationRequest \<Rightarrow> time \<Rightarrow> OIDCAuthenticationRequest \<Rightarrow> bool" where
  "oidc_expired_peer v at e \<longleftrightarrow> oidc_TenantID e = oidc_TenantID v \<and> oidc_ProviderID e = oidc_ProviderID v \<and>
     \<not> oidc_ExpiresAt e > at"

definition InsertOIDCAuthenticationRequest ::
  "(SSOProvider \<Rightarrow> string result) \<Rightarrow> OIDCAuthenticationRequest \<Rightarrow> time \<Rightarrow> repository_op" where
  "InsertOIDCAuthenticationRequest fingerprint v at s =
    (if \<not> validMemoryOIDCRequest v \<or> \<not> OIDC_PendingAt v at then Inl ErrValidation
     else bind_result (memoryOIDCProvider s (oidc_TenantID v) (oidc_ProviderID v)) (\<lambda>p.
       if fingerprint p \<noteq> Inr (oidc_TrustFingerprint v) then Inl ErrConflict
       else let live = tbl_filter (\<lambda>e. \<not> oidc_expired_peer v at e) (OIDCAuthenticationRequests s);
                count = tbl_count (\<lambda>e. oidc_TenantID e = oidc_TenantID v \<and> oidc_ProviderID e = oidc_ProviderID v) live in
       if tbl_get live (oidc_ID v) \<noteq> None \<or>
          tbl_any (\<lambda>e. oidc_StateHash e = oidc_StateHash v \<or> oidc_NonceHash e = oidc_NonceHash v) live
       then Inl ErrConflict
       else if count \<ge> MaximumOIDCAuthenticationRequestsPerProvider then Inl ErrRateLimited
       else Inr (s\<lparr>OIDCAuthenticationRequests := tbl_put live (oidc_ID v) v\<rparr>)))"

definition ConsumeOIDCAuthenticationRequest ::
  "(SSOProvider \<Rightarrow> string result) \<Rightarrow> OIDCAuthenticationRequest \<Rightarrow> time \<Rightarrow> repository_op" where
  "ConsumeOIDCAuthenticationRequest fingerprint expected now s =
    (if \<not> validMemoryOIDCRequest expected then Inl ErrValidation
     else bind_result (memoryOIDCProvider s (oidc_TenantID expected) (oidc_ProviderID expected)) (\<lambda>p.
       if fingerprint p \<noteq> Inr (oidc_TrustFingerprint expected) then Inl ErrUnauthorized
       else let consumed = truncate_us now in
       case tbl_get (OIDCAuthenticationRequests s) (oidc_ID expected) of
         None \<Rightarrow> Inl ErrUnauthorized
       | Some v \<Rightarrow>
          (if oidc_TenantID v \<noteq> oidc_TenantID expected \<or> oidc_ProviderID v \<noteq> oidc_ProviderID expected \<or>
              oidc_Delivery v \<noteq> oidc_Delivery expected \<or> oidc_TrustFingerprint v \<noteq> oidc_TrustFingerprint expected \<or>
              oidc_StateHash v \<noteq> oidc_StateHash expected \<or> oidc_NonceHash v \<noteq> oidc_NonceHash expected \<or>
              oidc_SchemaVersion v \<noteq> oidc_SchemaVersion expected \<or> oidc_CreatedAt v \<noteq> oidc_CreatedAt expected \<or>
              oidc_ExpiresAt v \<noteq> oidc_ExpiresAt expected \<or> \<not> OIDC_PendingAt v consumed
           then Inl ErrUnauthorized
           else Inr (s\<lparr>OIDCAuthenticationRequests :=
              tbl_put (OIDCAuthenticationRequests s) (oidc_ID v) (v\<lparr>oidc_ConsumedAt := Some consumed\<rparr>)\<rparr>))))"

end
