(* ===== verification/Store_Registry.thy ===== *)
theory Store_Registry
  imports Store_Evidence
begin

text \<open>
  An abstract view of the store: which identifiers of which kind are registered for which
  tenant. \<open>repo_call\<close> collects the writing operations of the repositories and
  \<open>exec\<close> runs one. The main lemma shows that every successful call either leaves the
  registry unchanged or adds one fresh row of an existing tenant, so rows are never
  dropped, renamed or moved to another tenant.
\<close>

section \<open>Calls\<close>

datatype repo_call =
    DoInsertTenant Tenant
  | DoInsertAPIKey APIKey
  | DoUpdateAPIKeyLastUsed APIKey
  | DoUpdateCollectorLastSeen Collector
  | DoInsertOrganization Organization
  | DoInsertHumanUser HumanUser
  | DoDeactivateHumanUser HumanUser
  | DoInsertRoleBinding RoleBinding
  | DoInsertSSOProvider SSOProvider
  | DoCompareAndSwapSSOProviderTrustMaterial SSOProvider SSOProvider
  | DoInsertUserIdentityLink UserIdentityLink
  | DoInsertSSOSession SSOSession
  | DoValidateActiveSSOSession SSOSession time
  | DoRevokeSSOSession SSOSession
  | DoInsertCustomerPortalAccess CustomerPortalAccess
  | DoUpdateCustomerPortalAccess CustomerPortalAccess CustomerPortalAccess
  | DoInsertProduct Product
  | DoInsertProject Project
  | DoInsertRelease Release
  | DoUpdateReleaseState Release string
  | DoInsertArtifact Artifact
  | DoInsertReleaseCandidate ReleaseCandidate
  | DoUpdateReleaseCandidateState ReleaseCandidate string
  | DoInsertCollector Collector
  | DoInsertBuildRun BuildRun
  | DoInsertDeploymentEnvironment DeploymentEnvironment
  | DoInsertDeploymentEvent DeploymentEvent
  | DoInsertControlFramework ControlFramework
  | DoInsertSecurityControl SecurityControl
  | DoInsertControlEvidence ControlEvidence
  | DoInsertEvidence EvidenceItem
  | DoCompareAndSwapEvidenceLinks EvidenceItem EvidenceItem
  | DoRecordSupersession EvidenceItem EvidenceItem
  | DoAppendLifecycle EvidenceLifecycleEvent
  | DoInsertVulnerabilityScan VulnerabilityScan
  | DoInsertVulnerabilityDecision VulnerabilityDecision
  | DoSupersedeAndInsert VulnerabilityDecision "VulnerabilityDecision list"
  | DoInsertException Exception
  | DoApproveException Exception
  | DoInsertOIDCAuthenticationRequest "SSOProvider \<Rightarrow> string result" OIDCAuthenticationRequest time
  | DoConsumeOIDCAuthenticationRequest "SSOProvider \<Rightarrow> string result" OIDCAuthenticationRequest time

fun exec :: "repo_call \<Rightarrow> repository_op" where
  "exec (DoInsertTenant a) = InsertTenant a"
| "exec (DoInsertAPIKey a) = InsertAPIKey a"
| "exec (DoUpdateAPIKeyLastUsed a) = UpdateAPIKeyLastUsed a"
| "exec (DoUpdateCollectorLastSeen a) = UpdateCollectorLastSeen a"
| "exec (DoInsertOrganization a) = InsertOrganization a"
| "exec (DoInsertHumanUser a) = InsertHumanUser a"
| "exec (DoDeactivateHumanUser a) = DeactivateHumanUser a"
| "exec (DoInsertRoleBinding a) = InsertRoleBinding a"
| "exec (DoInsertSSOProvider a) = InsertSSOProvider a"
| "exec (DoCompareAndSwapSSOProviderTrustMaterial a b) = CompareAndSwapSSOProviderTrustMaterial a b"
| "exec (DoInsertUserIdentityLink a) = InsertUserIdentityLink a"
| "exec (DoInsertSSOSession a) = InsertSSOSession a"
| "exec (DoValidateActiveSSOSession a b) = ValidateActiveSSOSession a b"
| "exec (DoRevokeSSOSession a) = RevokeSSOSession a"
| "exec (DoInsertCustomerPortalAccess a) = InsertCustomerPortalAccess a"
| "exec (DoUpdateCustomerPortalAccess a b) = UpdateCustomerPortalAccess a b"
| "exec (DoInsertProduct a) = InsertProduct a"
| "exec (DoInsertProject a) = InsertProject a"
| "exec (DoInsertRelease a) = InsertRelease a"
| "exec (DoUpdateReleaseState a b) = UpdateReleaseState a b"
| "exec (DoInsertArtifact a) = InsertArtifact a"
| "exec (DoInsertReleaseCandidate a) = InsertReleaseCandidate a"
| "exec (DoUpdateReleaseCandidateState a b) = UpdateReleaseCandidateState a b"
| "exec (DoInsertCollector a) = InsertCollector a"
| "exec (DoInsertBuildRun a) = InsertBuildRun a"
| "exec (DoInsertDeploymentEnvironment a) = InsertDeploymentEnvironment a"
| "exec (DoInsertDeploymentEvent a) = InsertDeploymentEvent a"
| "exec (DoInsertControlFramework a) = InsertControlFramework a"
| "exec (DoInsertSecurityControl a) = InsertSecurityControl a"
| "exec (DoInsertControlEvidence a) = InsertControlEvidence a"
| "exec (DoInsertEvidence a) = InsertEvidence a"
| "exec (DoCompareAndSwapEvidenceLinks a b) = CompareAndSwapEvidenceLinks a b"
| "exec (DoRecordSupersession a b) = RecordSupersession a b"
| "exec (DoAppendLifecycle a) = AppendLifecycle a"
| "exec (DoInsertVulnerabilityScan a) = InsertVulnerabilityScan a"
| "exec (DoInsertVulnerabilityDecision a) = InsertVulnerabilityDecision a"
| "exec (DoSupersedeAndInsert a b) = SupersedeAndInsert a b"
| "exec (DoInsertException a) = InsertException a"
| "exec (DoApproveException a) = ApproveException a"
| "exec (DoInsertOIDCAuthenticationRequest a b c) = InsertOIDCAuthenticationRequest a b c"
| "exec (DoConsumeOIDCAuthenticationRequest a b c) = ConsumeOIDCAuthenticationRequest a b c"

section \<open>The registry\<close>

datatype kind =
    KTenant
  | KAPIKey
  | KCollector
  | KOrganization
  | KUser
  | KRoleBinding
  | KSSOProvider
  | KIdentityLink
  | KSSOSession
  | KPortalAccess
  | KProduct
  | KProject
  | KRelease
  | KArtifact
  | KCandidate
  | KBuildRun
  | KEnvironment
  | KDeployment
  | KFramework
  | KControl
  | KControlEvidence
  | KEvidence
  | KLifecycle
  | KScan
  | KDecision
  | KException

type_synonym registry = "kind \<Rightarrow> string \<Rightarrow> (string \<times> string) option"

fun registered :: "MemoryUnitOfWorkSnapshot \<Rightarrow> registry" where
  "registered s KTenant = (\<lambda>i. map_option (\<lambda>v. (tenant_ID v, tenant_ID v)) (tbl_get (Tenants s) i))"
| "registered s KAPIKey = (\<lambda>i. map_option (\<lambda>v. (key_ID v, key_TenantID v)) (tbl_get (APIKeys s) i))"
| "registered s KCollector = (\<lambda>i. map_option (\<lambda>v. (coll_ID v, coll_TenantID v)) (tbl_get (Collectors s) i))"
| "registered s KOrganization = (\<lambda>i. map_option (\<lambda>v. (org_ID v, org_TenantID v)) (tbl_get (Organizations s) i))"
| "registered s KUser = (\<lambda>i. map_option (\<lambda>v. (huser_ID v, huser_TenantID v)) (tbl_get (Users s) i))"
| "registered s KRoleBinding = (\<lambda>i. map_option (\<lambda>v. (rb_ID v, rb_TenantID v)) (tbl_get (RoleBindings s) i))"
| "registered s KSSOProvider = (\<lambda>i. map_option (\<lambda>v. (idp_ID v, idp_TenantID v)) (tbl_get (SSOProviders s) i))"
| "registered s KIdentityLink = (\<lambda>i. map_option (\<lambda>v. (ulink_ID v, ulink_TenantID v)) (tbl_get (IdentityLinks s) i))"
| "registered s KSSOSession = (\<lambda>i. map_option (\<lambda>v. (sess_ID v, sess_TenantID v)) (tbl_get (SSOSessions s) i))"
| "registered s KPortalAccess = (\<lambda>i. map_option (\<lambda>v. (cpa_ID v, cpa_TenantID v)) (tbl_get (PortalAccess s) i))"
| "registered s KProduct = (\<lambda>i. map_option (\<lambda>v. (prod_ID v, prod_TenantID v)) (tbl_get (Products s) i))"
| "registered s KProject = (\<lambda>i. map_option (\<lambda>v. (proj_ID v, proj_TenantID v)) (tbl_get (Projects s) i))"
| "registered s KRelease = (\<lambda>i. map_option (\<lambda>v. (rel_ID v, rel_TenantID v)) (tbl_get (Releases s) i))"
| "registered s KArtifact = (\<lambda>i. map_option (\<lambda>v. (art_ID v, art_TenantID v)) (tbl_get (Artifacts s) i))"
| "registered s KCandidate = (\<lambda>i. map_option (\<lambda>v. (cand_ID v, cand_TenantID v)) (tbl_get (ReleaseCandidates s) i))"
| "registered s KBuildRun = (\<lambda>i. map_option (\<lambda>v. (build_ID v, build_TenantID v)) (tbl_get (BuildRuns s) i))"
| "registered s KEnvironment = (\<lambda>i. map_option (\<lambda>v. (env_ID v, env_TenantID v)) (tbl_get (DeploymentEnvironments s) i))"
| "registered s KDeployment = (\<lambda>i. map_option (\<lambda>v. (dep_ID v, dep_TenantID v)) (tbl_get (DeploymentEvents s) i))"
| "registered s KFramework = (\<lambda>i. map_option (\<lambda>v. (fw_ID v, fw_TenantID v)) (tbl_get (ControlFrameworks s) i))"
| "registered s KControl = (\<lambda>i. map_option (\<lambda>v. (ctl_ID v, ctl_TenantID v)) (tbl_get (SecurityControls s) i))"
| "registered s KControlEvidence = (\<lambda>i. map_option (\<lambda>v. (cev_ID v, cev_TenantID v)) (tbl_get (ControlEvidences s) i))"
| "registered s KEvidence = (\<lambda>i. map_option (\<lambda>v. (ev_ID v, ev_TenantID v)) (tbl_get (Evidence s) i))"
| "registered s KLifecycle = (\<lambda>i. map_option (\<lambda>v. (life_ID v, life_TenantID v)) (tbl_get (EvidenceLifecycle s) i))"
| "registered s KScan = (\<lambda>i. map_option (\<lambda>v. (scan_ID v, scan_TenantID v)) (tbl_get (VulnerabilityScans s) i))"
| "registered s KDecision = (\<lambda>i. map_option (\<lambda>v. (dec_ID v, dec_TenantID v)) (tbl_get (Decisions s) i))"
| "registered s KException = (\<lambda>i. map_option (\<lambda>v. (exc_ID v, exc_TenantID v)) (tbl_get (Exceptions s) i))"

definition abs_step :: "registry \<Rightarrow> registry \<Rightarrow> bool" where
  "abs_step R R' \<longleftrightarrow> R' = R \<or>
     (\<exists>k i t. i \<noteq> [] \<and> R k i = None \<and> (R KTenant t \<noteq> None \<or> k = KTenant \<and> t = i) \<and>
        R' = R(k := (R k)(i \<mapsto> (i, t))))"

definition registry_ok :: "registry \<Rightarrow> bool" where
  "registry_ok R \<longleftrightarrow> (\<forall>k i j t. R k i = Some (j, t) \<longrightarrow> j = i \<and> i \<noteq> [] \<and> R KTenant t \<noteq> None)"

lemma abs_step_refl: "R' = R \<Longrightarrow> abs_step R R'"
  by (simp add: abs_step_def)

lemma abs_insert:
  "i \<noteq> [] \<Longrightarrow> R k i = None \<Longrightarrow> R KTenant t \<noteq> None \<or> k = KTenant \<and> t = i \<Longrightarrow>
     abs_step R (R(k := (R k)(i \<mapsto> (i, t))))"
  unfolding abs_step_def by blast

lemma abs_rewrite: "R k i = Some x \<Longrightarrow> abs_step R (R(k := (R k)(i \<mapsto> x)))"
  by (rule abs_step_refl) (auto simp: fun_eq_iff)

lemma abs_step_ok: "abs_step R R' \<Longrightarrow> registry_ok R \<Longrightarrow> registry_ok R'"
  unfolding abs_step_def registry_ok_def by (elim disjE exE conjE) (auto split: if_splits)

lemma abs_step_keeps: "abs_step R R' \<Longrightarrow> R k i = Some x \<Longrightarrow> R' k i = Some x"
  unfolding abs_step_def by auto

text \<open>Writing one table changes one kind of the registry.\<close>


lemma registered_KTenant: "registered (s\<lparr>Tenants := tbl_put (Tenants s) i v\<rparr>) = (registered s)(KTenant := (registered s KTenant)(i \<mapsto> (tenant_ID v, tenant_ID v)))"
  by (rule ext, rename_tac k, case_tac k) (simp_all add: fun_eq_iff)

lemma registered_KAPIKey: "registered (s\<lparr>APIKeys := tbl_put (APIKeys s) i v\<rparr>) = (registered s)(KAPIKey := (registered s KAPIKey)(i \<mapsto> (key_ID v, key_TenantID v)))"
  by (rule ext, rename_tac k, case_tac k) (simp_all add: fun_eq_iff)

lemma registered_KCollector: "registered (s\<lparr>Collectors := tbl_put (Collectors s) i v\<rparr>) = (registered s)(KCollector := (registered s KCollector)(i \<mapsto> (coll_ID v, coll_TenantID v)))"
  by (rule ext, rename_tac k, case_tac k) (simp_all add: fun_eq_iff)

lemma registered_KOrganization: "registered (s\<lparr>Organizations := tbl_put (Organizations s) i v\<rparr>) = (registered s)(KOrganization := (registered s KOrganization)(i \<mapsto> (org_ID v, org_TenantID v)))"
  by (rule ext, rename_tac k, case_tac k) (simp_all add: fun_eq_iff)

lemma registered_KUser: "registered (s\<lparr>Users := tbl_put (Users s) i v\<rparr>) = (registered s)(KUser := (registered s KUser)(i \<mapsto> (huser_ID v, huser_TenantID v)))"
  by (rule ext, rename_tac k, case_tac k) (simp_all add: fun_eq_iff)

lemma registered_KRoleBinding: "registered (s\<lparr>RoleBindings := tbl_put (RoleBindings s) i v\<rparr>) = (registered s)(KRoleBinding := (registered s KRoleBinding)(i \<mapsto> (rb_ID v, rb_TenantID v)))"
  by (rule ext, rename_tac k, case_tac k) (simp_all add: fun_eq_iff)

lemma registered_KSSOProvider: "registered (s\<lparr>SSOProviders := tbl_put (SSOProviders s) i v\<rparr>) = (registered s)(KSSOProvider := (registered s KSSOProvider)(i \<mapsto> (idp_ID v, idp_TenantID v)))"
  by (rule ext, rename_tac k, case_tac k) (simp_all add: fun_eq_iff)

lemma registered_KIdentityLink: "registered (s\<lparr>IdentityLinks := tbl_put (IdentityLinks s) i v\<rparr>) = (registered s)(KIdentityLink := (registered s KIdentityLink)(i \<mapsto> (ulink_ID v, ulink_TenantID v)))"
  by (rule ext, rename_tac k, case_tac k) (simp_all add: fun_eq_iff)

lemma registered_KSSOSession: "registered (s\<lparr>SSOSessions := tbl_put (SSOSessions s) i v\<rparr>) = (registered s)(KSSOSession := (registered s KSSOSession)(i \<mapsto> (sess_ID v, sess_TenantID v)))"
  by (rule ext, rename_tac k, case_tac k) (simp_all add: fun_eq_iff)

lemma registered_KPortalAccess: "registered (s\<lparr>PortalAccess := tbl_put (PortalAccess s) i v\<rparr>) = (registered s)(KPortalAccess := (registered s KPortalAccess)(i \<mapsto> (cpa_ID v, cpa_TenantID v)))"
  by (rule ext, rename_tac k, case_tac k) (simp_all add: fun_eq_iff)

lemma registered_KProduct: "registered (s\<lparr>Products := tbl_put (Products s) i v\<rparr>) = (registered s)(KProduct := (registered s KProduct)(i \<mapsto> (prod_ID v, prod_TenantID v)))"
  by (rule ext, rename_tac k, case_tac k) (simp_all add: fun_eq_iff)

lemma registered_KProject: "registered (s\<lparr>Projects := tbl_put (Projects s) i v\<rparr>) = (registered s)(KProject := (registered s KProject)(i \<mapsto> (proj_ID v, proj_TenantID v)))"
  by (rule ext, rename_tac k, case_tac k) (simp_all add: fun_eq_iff)

lemma registered_KRelease: "registered (s\<lparr>Releases := tbl_put (Releases s) i v\<rparr>) = (registered s)(KRelease := (registered s KRelease)(i \<mapsto> (rel_ID v, rel_TenantID v)))"
  by (rule ext, rename_tac k, case_tac k) (simp_all add: fun_eq_iff)

lemma registered_KArtifact: "registered (s\<lparr>Artifacts := tbl_put (Artifacts s) i v\<rparr>) = (registered s)(KArtifact := (registered s KArtifact)(i \<mapsto> (art_ID v, art_TenantID v)))"
  by (rule ext, rename_tac k, case_tac k) (simp_all add: fun_eq_iff)

lemma registered_KCandidate: "registered (s\<lparr>ReleaseCandidates := tbl_put (ReleaseCandidates s) i v\<rparr>) = (registered s)(KCandidate := (registered s KCandidate)(i \<mapsto> (cand_ID v, cand_TenantID v)))"
  by (rule ext, rename_tac k, case_tac k) (simp_all add: fun_eq_iff)

lemma registered_KBuildRun: "registered (s\<lparr>BuildRuns := tbl_put (BuildRuns s) i v\<rparr>) = (registered s)(KBuildRun := (registered s KBuildRun)(i \<mapsto> (build_ID v, build_TenantID v)))"
  by (rule ext, rename_tac k, case_tac k) (simp_all add: fun_eq_iff)

lemma registered_KEnvironment: "registered (s\<lparr>DeploymentEnvironments := tbl_put (DeploymentEnvironments s) i v\<rparr>) = (registered s)(KEnvironment := (registered s KEnvironment)(i \<mapsto> (env_ID v, env_TenantID v)))"
  by (rule ext, rename_tac k, case_tac k) (simp_all add: fun_eq_iff)

lemma registered_KDeployment: "registered (s\<lparr>DeploymentEvents := tbl_put (DeploymentEvents s) i v\<rparr>) = (registered s)(KDeployment := (registered s KDeployment)(i \<mapsto> (dep_ID v, dep_TenantID v)))"
  by (rule ext, rename_tac k, case_tac k) (simp_all add: fun_eq_iff)

lemma registered_KFramework: "registered (s\<lparr>ControlFrameworks := tbl_put (ControlFrameworks s) i v\<rparr>) = (registered s)(KFramework := (registered s KFramework)(i \<mapsto> (fw_ID v, fw_TenantID v)))"
  by (rule ext, rename_tac k, case_tac k) (simp_all add: fun_eq_iff)

lemma registered_KControl: "registered (s\<lparr>SecurityControls := tbl_put (SecurityControls s) i v\<rparr>) = (registered s)(KControl := (registered s KControl)(i \<mapsto> (ctl_ID v, ctl_TenantID v)))"
  by (rule ext, rename_tac k, case_tac k) (simp_all add: fun_eq_iff)

lemma registered_KControlEvidence: "registered (s\<lparr>ControlEvidences := tbl_put (ControlEvidences s) i v\<rparr>) = (registered s)(KControlEvidence := (registered s KControlEvidence)(i \<mapsto> (cev_ID v, cev_TenantID v)))"
  by (rule ext, rename_tac k, case_tac k) (simp_all add: fun_eq_iff)

lemma registered_KEvidence: "registered (s\<lparr>Evidence := tbl_put (Evidence s) i v\<rparr>) = (registered s)(KEvidence := (registered s KEvidence)(i \<mapsto> (ev_ID v, ev_TenantID v)))"
  by (rule ext, rename_tac k, case_tac k) (simp_all add: fun_eq_iff)

lemma registered_KLifecycle: "registered (s\<lparr>EvidenceLifecycle := tbl_put (EvidenceLifecycle s) i v\<rparr>) = (registered s)(KLifecycle := (registered s KLifecycle)(i \<mapsto> (life_ID v, life_TenantID v)))"
  by (rule ext, rename_tac k, case_tac k) (simp_all add: fun_eq_iff)

lemma registered_KScan: "registered (s\<lparr>VulnerabilityScans := tbl_put (VulnerabilityScans s) i v\<rparr>) = (registered s)(KScan := (registered s KScan)(i \<mapsto> (scan_ID v, scan_TenantID v)))"
  by (rule ext, rename_tac k, case_tac k) (simp_all add: fun_eq_iff)

lemma registered_KDecision: "registered (s\<lparr>Decisions := tbl_put (Decisions s) i v\<rparr>) = (registered s)(KDecision := (registered s KDecision)(i \<mapsto> (dec_ID v, dec_TenantID v)))"
  by (rule ext, rename_tac k, case_tac k) (simp_all add: fun_eq_iff)

lemma registered_KException: "registered (s\<lparr>Exceptions := tbl_put (Exceptions s) i v\<rparr>) = (registered s)(KException := (registered s KException)(i \<mapsto> (exc_ID v, exc_TenantID v)))"
  by (rule ext, rename_tac k, case_tac k) (simp_all add: fun_eq_iff)

lemmas registered_put = registered_KTenant registered_KAPIKey registered_KCollector registered_KOrganization registered_KUser registered_KRoleBinding registered_KSSOProvider registered_KIdentityLink registered_KSSOSession registered_KPortalAccess registered_KProduct registered_KProject registered_KRelease registered_KArtifact registered_KCandidate registered_KBuildRun registered_KEnvironment registered_KDeployment registered_KFramework registered_KControl registered_KControlEvidence registered_KEvidence registered_KLifecycle registered_KScan registered_KDecision registered_KException

lemma registered_oidc: "registered (s\<lparr>OIDCAuthenticationRequests := t\<rparr>) = registered s"
  by (rule ext, rename_tac k, case_tac k) simp_all

lemma tenant_known: "requireMemoryTenant s t = None \<longleftrightarrow> t \<noteq> [] \<and> registered s KTenant t \<noteq> None"
  by (auto simp: requireMemoryTenant_def split: option.splits)

lemma registered_None [simp]:
"(registered s KAPIKey i = None) = (tbl_get (APIKeys s) i = None)" "(registered s KCollector i = None) = (tbl_get (Collectors s) i = None)" "(registered s KOrganization i = None) = (tbl_get (Organizations s) i = None)" "(registered s KUser i = None) = (tbl_get (Users s) i = None)" "(registered s KRoleBinding i = None) = (tbl_get (RoleBindings s) i = None)" "(registered s KSSOProvider i = None) = (tbl_get (SSOProviders s) i = None)" "(registered s KIdentityLink i = None) = (tbl_get (IdentityLinks s) i = None)" "(registered s KSSOSession i = None) = (tbl_get (SSOSessions s) i = None)" "(registered s KPortalAccess i = None) = (tbl_get (PortalAccess s) i = None)" "(registered s KProduct i = None) = (tbl_get (Products s) i = None)" "(registered s KProject i = None) = (tbl_get (Projects s) i = None)" "(registered s KRelease i = None) = (tbl_get (Releases s) i = None)" "(registered s KArtifact i = None) = (tbl_get (Artifacts s) i = None)" "(registered s KCandidate i = None) = (tbl_get (ReleaseCandidates s) i = None)" "(registered s KBuildRun i = None) = (tbl_get (BuildRuns s) i = None)" "(registered s KEnvironment i = None) = (tbl_get (DeploymentEnvironments s) i = None)" "(registered s KDeployment i = None) = (tbl_get (DeploymentEvents s) i = None)" "(registered s KFramework i = None) = (tbl_get (ControlFrameworks s) i = None)" "(registered s KControl i = None) = (tbl_get (SecurityControls s) i = None)" "(registered s KControlEvidence i = None) = (tbl_get (ControlEvidences s) i = None)" "(registered s KEvidence i = None) = (tbl_get (Evidence s) i = None)" "(registered s KLifecycle i = None) = (tbl_get (EvidenceLifecycle s) i = None)" "(registered s KScan i = None) = (tbl_get (VulnerabilityScans s) i = None)" "(registered s KDecision i = None) = (tbl_get (Decisions s) i = None)" "(registered s KException i = None) = (tbl_get (Exceptions s) i = None)"
  by simp_all

declare registered.simps [simp del]

lemma registry_okD: "registry_ok R \<Longrightarrow> R k i = Some (j, t) \<Longrightarrow> j = i \<and> i \<noteq> [] \<and> R KTenant t \<noteq> None"
  by (simp add: registry_ok_def)

lemma row_KTenant: "registry_ok (registered s) \<Longrightarrow> tbl_get (Tenants s) i = Some v \<Longrightarrow>
     tenant_ID v = i \<and> registered s KTenant i = Some (i, tenant_ID v)"
  by (auto simp: registered.simps dest!: registry_okD [of _ KTenant i])
lemma row_KAPIKey: "registry_ok (registered s) \<Longrightarrow> tbl_get (APIKeys s) i = Some v \<Longrightarrow>
     key_ID v = i \<and> registered s KAPIKey i = Some (i, key_TenantID v)"
  by (auto simp: registered.simps dest!: registry_okD [of _ KAPIKey i])
lemma row_KCollector: "registry_ok (registered s) \<Longrightarrow> tbl_get (Collectors s) i = Some v \<Longrightarrow>
     coll_ID v = i \<and> registered s KCollector i = Some (i, coll_TenantID v)"
  by (auto simp: registered.simps dest!: registry_okD [of _ KCollector i])
lemma row_KOrganization: "registry_ok (registered s) \<Longrightarrow> tbl_get (Organizations s) i = Some v \<Longrightarrow>
     org_ID v = i \<and> registered s KOrganization i = Some (i, org_TenantID v)"
  by (auto simp: registered.simps dest!: registry_okD [of _ KOrganization i])
lemma row_KUser: "registry_ok (registered s) \<Longrightarrow> tbl_get (Users s) i = Some v \<Longrightarrow>
     huser_ID v = i \<and> registered s KUser i = Some (i, huser_TenantID v)"
  by (auto simp: registered.simps dest!: registry_okD [of _ KUser i])
lemma row_KRoleBinding: "registry_ok (registered s) \<Longrightarrow> tbl_get (RoleBindings s) i = Some v \<Longrightarrow>
     rb_ID v = i \<and> registered s KRoleBinding i = Some (i, rb_TenantID v)"
  by (auto simp: registered.simps dest!: registry_okD [of _ KRoleBinding i])
lemma row_KSSOProvider: "registry_ok (registered s) \<Longrightarrow> tbl_get (SSOProviders s) i = Some v \<Longrightarrow>
     idp_ID v = i \<and> registered s KSSOProvider i = Some (i, idp_TenantID v)"
  by (auto simp: registered.simps dest!: registry_okD [of _ KSSOProvider i])
lemma row_KIdentityLink: "registry_ok (registered s) \<Longrightarrow> tbl_get (IdentityLinks s) i = Some v \<Longrightarrow>
     ulink_ID v = i \<and> registered s KIdentityLink i = Some (i, ulink_TenantID v)"
  by (auto simp: registered.simps dest!: registry_okD [of _ KIdentityLink i])
lemma row_KSSOSession: "registry_ok (registered s) \<Longrightarrow> tbl_get (SSOSessions s) i = Some v \<Longrightarrow>
     sess_ID v = i \<and> registered s KSSOSession i = Some (i, sess_TenantID v)"
  by (auto simp: registered.simps dest!: registry_okD [of _ KSSOSession i])
lemma row_KPortalAccess: "registry_ok (registered s) \<Longrightarrow> tbl_get (PortalAccess s) i = Some v \<Longrightarrow>
     cpa_ID v = i \<and> registered s KPortalAccess i = Some (i, cpa_TenantID v)"
  by (auto simp: registered.simps dest!: registry_okD [of _ KPortalAccess i])
lemma row_KProduct: "registry_ok (registered s) \<Longrightarrow> tbl_get (Products s) i = Some v \<Longrightarrow>
     prod_ID v = i \<and> registered s KProduct i = Some (i, prod_TenantID v)"
  by (auto simp: registered.simps dest!: registry_okD [of _ KProduct i])
lemma row_KProject: "registry_ok (registered s) \<Longrightarrow> tbl_get (Projects s) i = Some v \<Longrightarrow>
     proj_ID v = i \<and> registered s KProject i = Some (i, proj_TenantID v)"
  by (auto simp: registered.simps dest!: registry_okD [of _ KProject i])
lemma row_KRelease: "registry_ok (registered s) \<Longrightarrow> tbl_get (Releases s) i = Some v \<Longrightarrow>
     rel_ID v = i \<and> registered s KRelease i = Some (i, rel_TenantID v)"
  by (auto simp: registered.simps dest!: registry_okD [of _ KRelease i])
lemma row_KArtifact: "registry_ok (registered s) \<Longrightarrow> tbl_get (Artifacts s) i = Some v \<Longrightarrow>
     art_ID v = i \<and> registered s KArtifact i = Some (i, art_TenantID v)"
  by (auto simp: registered.simps dest!: registry_okD [of _ KArtifact i])
lemma row_KCandidate: "registry_ok (registered s) \<Longrightarrow> tbl_get (ReleaseCandidates s) i = Some v \<Longrightarrow>
     cand_ID v = i \<and> registered s KCandidate i = Some (i, cand_TenantID v)"
  by (auto simp: registered.simps dest!: registry_okD [of _ KCandidate i])
lemma row_KBuildRun: "registry_ok (registered s) \<Longrightarrow> tbl_get (BuildRuns s) i = Some v \<Longrightarrow>
     build_ID v = i \<and> registered s KBuildRun i = Some (i, build_TenantID v)"
  by (auto simp: registered.simps dest!: registry_okD [of _ KBuildRun i])
lemma row_KEnvironment: "registry_ok (registered s) \<Longrightarrow> tbl_get (DeploymentEnvironments s) i = Some v \<Longrightarrow>
     env_ID v = i \<and> registered s KEnvironment i = Some (i, env_TenantID v)"
  by (auto simp: registered.simps dest!: registry_okD [of _ KEnvironment i])
lemma row_KDeployment: "registry_ok (registered s) \<Longrightarrow> tbl_get (DeploymentEvents s) i = Some v \<Longrightarrow>
     dep_ID v = i \<and> registered s KDeployment i = Some (i, dep_TenantID v)"
  by (auto simp: registered.simps dest!: registry_okD [of _ KDeployment i])
lemma row_KFramework: "registry_ok (registered s) \<Longrightarrow> tbl_get (ControlFrameworks s) i = Some v \<Longrightarrow>
     fw_ID v = i \<and> registered s KFramework i = Some (i, fw_TenantID v)"
  by (auto simp: registered.simps dest!: registry_okD [of _ KFramework i])
lemma row_KControl: "registry_ok (registered s) \<Longrightarrow> tbl_get (SecurityControls s) i = Some v \<Longrightarrow>
     ctl_ID v = i \<and> registered s KControl i = Some (i, ctl_TenantID v)"
  by (auto simp: registered.simps dest!: registry_okD [of _ KControl i])
lemma row_KControlEvidence: "registry_ok (registered s) \<Longrightarrow> tbl_get (ControlEvidences s) i = Some v \<Longrightarrow>
     cev_ID v = i \<and> registered s KControlEvidence i = Some (i, cev_TenantID v)"
  by (auto simp: registered.simps dest!: registry_okD [of _ KControlEvidence i])
lemma row_KEvidence: "registry_ok (registered s) \<Longrightarrow> tbl_get (Evidence s) i = Some v \<Longrightarrow>
     ev_ID v = i \<and> registered s KEvidence i = Some (i, ev_TenantID v)"
  by (auto simp: registered.simps dest!: registry_okD [of _ KEvidence i])
lemma row_KLifecycle: "registry_ok (registered s) \<Longrightarrow> tbl_get (EvidenceLifecycle s) i = Some v \<Longrightarrow>
     life_ID v = i \<and> registered s KLifecycle i = Some (i, life_TenantID v)"
  by (auto simp: registered.simps dest!: registry_okD [of _ KLifecycle i])
lemma row_KScan: "registry_ok (registered s) \<Longrightarrow> tbl_get (VulnerabilityScans s) i = Some v \<Longrightarrow>
     scan_ID v = i \<and> registered s KScan i = Some (i, scan_TenantID v)"
  by (auto simp: registered.simps dest!: registry_okD [of _ KScan i])
lemma row_KDecision: "registry_ok (registered s) \<Longrightarrow> tbl_get (Decisions s) i = Some v \<Longrightarrow>
     dec_ID v = i \<and> registered s KDecision i = Some (i, dec_TenantID v)"
  by (auto simp: registered.simps dest!: registry_okD [of _ KDecision i])
lemma row_KException: "registry_ok (registered s) \<Longrightarrow> tbl_get (Exceptions s) i = Some v \<Longrightarrow>
     exc_ID v = i \<and> registered s KException i = Some (i, exc_TenantID v)"
  by (auto simp: registered.simps dest!: registry_okD [of _ KException i])

lemma scope_tenant: "validateMemoryEvidenceScope s t p j r b d = None \<Longrightarrow> requireMemoryTenant s t = None"
  by (simp add: validateMemoryEvidenceScope_def)

section \<open>Every call refines an abstract step\<close>

subsection \<open>Insertions\<close>

lemma InsertTenant_step: "InsertTenant v s = Inr s' \<Longrightarrow> abs_step (registered s) (registered s')"
  by (auto simp: InsertTenant_def Let_def tenant_known registered_KTenant split: if_splits option.splits prod.splits intro!: abs_insert) (simp add: registered.simps)
lemma InsertAPIKey_step: "InsertAPIKey v s = Inr s' \<Longrightarrow> abs_step (registered s) (registered s')"
  by (auto simp: InsertAPIKey_def Let_def tenant_known registered_KAPIKey split: if_splits option.splits prod.splits intro!: abs_insert)
lemma InsertOrganization_step: "InsertOrganization v s = Inr s' \<Longrightarrow> abs_step (registered s) (registered s')"
  by (auto simp: InsertOrganization_def Let_def tenant_known registered_KOrganization split: if_splits option.splits prod.splits intro!: abs_insert)
lemma InsertHumanUser_step: "InsertHumanUser v s = Inr s' \<Longrightarrow> abs_step (registered s) (registered s')"
  by (auto simp: InsertHumanUser_def Let_def tenant_known registered_KUser split: if_splits option.splits prod.splits intro!: abs_insert)
lemma InsertRoleBinding_step: "InsertRoleBinding v s = Inr s' \<Longrightarrow> abs_step (registered s) (registered s')"
  by (auto simp: InsertRoleBinding_def Let_def tenant_known registered_KRoleBinding split: if_splits option.splits prod.splits intro!: abs_insert)
lemma InsertSSOProvider_step: "InsertSSOProvider v s = Inr s' \<Longrightarrow> abs_step (registered s) (registered s')"
  by (auto simp: InsertSSOProvider_def Let_def tenant_known registered_KSSOProvider split: if_splits option.splits prod.splits intro!: abs_insert)
lemma InsertUserIdentityLink_step: "InsertUserIdentityLink v s = Inr s' \<Longrightarrow> abs_step (registered s) (registered s')"
  by (auto simp: InsertUserIdentityLink_def Let_def tenant_known registered_KIdentityLink split: if_splits option.splits prod.splits intro!: abs_insert)
lemma InsertSSOSession_step: "InsertSSOSession v s = Inr s' \<Longrightarrow> abs_step (registered s) (registered s')"
  by (auto simp: InsertSSOSession_def Let_def tenant_known registered_KSSOSession split: if_splits option.splits prod.splits intro!: abs_insert)
lemma InsertCustomerPortalAccess_step: "InsertCustomerPortalAccess v s = Inr s' \<Longrightarrow> abs_step (registered s) (registered s')"
  by (auto simp: InsertCustomerPortalAccess_def Let_def tenant_known registered_KPortalAccess split: if_splits option.splits prod.splits intro!: abs_insert)
lemma InsertProduct_step: "InsertProduct v s = Inr s' \<Longrightarrow> abs_step (registered s) (registered s')"
  by (auto simp: InsertProduct_def Let_def tenant_known registered_KProduct split: if_splits option.splits prod.splits intro!: abs_insert)
lemma InsertProject_step: "InsertProject v s = Inr s' \<Longrightarrow> abs_step (registered s) (registered s')"
  by (auto simp: InsertProject_def Let_def tenant_known registered_KProject split: if_splits option.splits prod.splits intro!: abs_insert)
lemma InsertRelease_step: "InsertRelease v s = Inr s' \<Longrightarrow> abs_step (registered s) (registered s')"
  by (auto simp: InsertRelease_def Let_def tenant_known registered_KRelease split: if_splits option.splits prod.splits intro!: abs_insert)
lemma InsertArtifact_step: "InsertArtifact v s = Inr s' \<Longrightarrow> abs_step (registered s) (registered s')"
  by (auto simp: InsertArtifact_def Let_def tenant_known registered_KArtifact split: if_splits option.splits prod.splits intro!: abs_insert)
lemma InsertReleaseCandidate_step: "InsertReleaseCandidate v s = Inr s' \<Longrightarrow> abs_step (registered s) (registered s')"
  by (auto simp: InsertReleaseCandidate_def Let_def tenant_known registered_KCandidate split: if_splits option.splits prod.splits intro!: abs_insert)
lemma InsertCollector_step: "InsertCollector v s = Inr s' \<Longrightarrow> abs_step (registered s) (registered s')"
  by (auto simp: InsertCollector_def Let_def tenant_known registered_KCollector split: if_splits option.splits prod.splits intro!: abs_insert)
lemma InsertBuildRun_step: "InsertBuildRun v s = Inr s' \<Longrightarrow> abs_step (registered s) (registered s')"
  by (auto simp: InsertBuildRun_def Let_def tenant_known registered_KBuildRun split: if_splits option.splits prod.splits intro!: abs_insert)
lemma InsertDeploymentEnvironment_step: "InsertDeploymentEnvironment v s = Inr s' \<Longrightarrow> abs_step (registered s) (registered s')"
  by (auto simp: InsertDeploymentEnvironment_def Let_def tenant_known registered_KEnvironment split: if_splits option.splits prod.splits intro!: abs_insert)
lemma InsertDeploymentEvent_step: "InsertDeploymentEvent v s = Inr s' \<Longrightarrow> abs_step (registered s) (registered s')"
  by (auto simp: InsertDeploymentEvent_def Let_def tenant_known registered_KDeployment split: if_splits option.splits prod.splits intro!: abs_insert)
lemma InsertControlFramework_step: "InsertControlFramework v s = Inr s' \<Longrightarrow> abs_step (registered s) (registered s')"
  by (auto simp: InsertControlFramework_def Let_def tenant_known registered_KFramework split: if_splits option.splits prod.splits intro!: abs_insert)
lemma InsertSecurityControl_step: "InsertSecurityControl v s = Inr s' \<Longrightarrow> abs_step (registered s) (registered s')"
  by (auto simp: InsertSecurityControl_def Let_def tenant_known registered_KControl split: if_splits option.splits prod.splits intro!: abs_insert)
lemma InsertControlEvidence_step: "InsertControlEvidence v s = Inr s' \<Longrightarrow> abs_step (registered s) (registered s')"
  by (auto simp: InsertControlEvidence_def Let_def tenant_known registered_KControlEvidence split: if_splits option.splits prod.splits intro!: abs_insert)
lemma InsertEvidence_step: "InsertEvidence v s = Inr s' \<Longrightarrow> abs_step (registered s) (registered s')"
  by (auto simp: InsertEvidence_def Let_def tenant_known registered_KEvidence split: if_splits option.splits prod.splits intro!: abs_insert dest!: scope_tenant)
lemma AppendLifecycle_step: "AppendLifecycle v s = Inr s' \<Longrightarrow> abs_step (registered s) (registered s')"
  by (auto simp: AppendLifecycle_def Let_def tenant_known registered_KLifecycle split: if_splits option.splits prod.splits intro!: abs_insert)
lemma InsertVulnerabilityScan_step: "InsertVulnerabilityScan v s = Inr s' \<Longrightarrow> abs_step (registered s) (registered s')"
  by (auto simp: InsertVulnerabilityScan_def Let_def tenant_known registered_KScan split: if_splits option.splits prod.splits intro!: abs_insert)
lemma InsertVulnerabilityDecision_step: "InsertVulnerabilityDecision v s = Inr s' \<Longrightarrow> abs_step (registered s) (registered s')"
  by (auto simp: InsertVulnerabilityDecision_def Let_def tenant_known registered_KDecision split: if_splits option.splits prod.splits intro!: abs_insert)
lemma InsertException_step: "InsertException v s = Inr s' \<Longrightarrow> abs_step (registered s) (registered s')"
  by (auto simp: InsertException_def Let_def tenant_known registered_KException split: if_splits option.splits prod.splits intro!: abs_insert)

subsection \<open>Updates\<close>

lemma UpdateAPIKeyLastUsed_step:
  assumes "registry_ok (registered s)" and "UpdateAPIKeyLastUsed v s = Inr s'"
  shows "abs_step (registered s) (registered s')"
  using assms(2)
  by (auto simp: UpdateAPIKeyLastUsed_def Let_def registered_KAPIKey split: if_splits option.splits
      dest!: row_KAPIKey [OF assms(1)] intro!: abs_rewrite)
lemma UpdateCollectorLastSeen_step:
  assumes "registry_ok (registered s)" and "UpdateCollectorLastSeen v s = Inr s'"
  shows "abs_step (registered s) (registered s')"
  using assms(2)
  by (auto simp: UpdateCollectorLastSeen_def Let_def registered_KCollector split: if_splits option.splits
      dest!: row_KCollector [OF assms(1)] intro!: abs_rewrite)
lemma DeactivateHumanUser_step:
  assumes "registry_ok (registered s)" and "DeactivateHumanUser v s = Inr s'"
  shows "abs_step (registered s) (registered s')"
  using assms(2)
  by (auto simp: DeactivateHumanUser_def Let_def registered_KUser split: if_splits option.splits
      dest!: row_KUser [OF assms(1)] intro!: abs_rewrite)
lemma CompareAndSwapSSOProviderTrustMaterial_step:
  assumes "registry_ok (registered s)" and "CompareAndSwapSSOProviderTrustMaterial e v s = Inr s'"
  shows "abs_step (registered s) (registered s')"
  using assms(2)
  by (auto simp: CompareAndSwapSSOProviderTrustMaterial_def Let_def membershipRead_def sameSSOProviderTrustState_def registered_KSSOProvider split: if_splits option.splits
      dest!: row_KSSOProvider [OF assms(1)] intro!: abs_rewrite)
lemma RevokeSSOSession_step:
  assumes "registry_ok (registered s)" and "RevokeSSOSession v s = Inr s'"
  shows "abs_step (registered s) (registered s')"
  using assms(2)
  by (auto simp: RevokeSSOSession_def Let_def registered_KSSOSession split: if_splits option.splits
      dest!: row_KSSOSession [OF assms(1)] intro!: abs_rewrite)
lemma UpdateCustomerPortalAccess_step:
  assumes "registry_ok (registered s)" and "UpdateCustomerPortalAccess p v s = Inr s'"
  shows "abs_step (registered s) (registered s')"
  using assms(2)
  by (auto simp: UpdateCustomerPortalAccess_def Let_def registered_KPortalAccess split: if_splits option.splits
      dest!: row_KPortalAccess [OF assms(1)] intro!: abs_rewrite)
lemma UpdateReleaseState_step:
  assumes "registry_ok (registered s)" and "UpdateReleaseState v st s = Inr s'"
  shows "abs_step (registered s) (registered s')"
  using assms(2)
  by (auto simp: UpdateReleaseState_def Let_def registered_KRelease split: if_splits option.splits
      dest!: row_KRelease [OF assms(1)] intro!: abs_rewrite)
lemma UpdateReleaseCandidateState_step:
  assumes "registry_ok (registered s)" and "UpdateReleaseCandidateState v st s = Inr s'"
  shows "abs_step (registered s) (registered s')"
  using assms(2)
  by (auto simp: UpdateReleaseCandidateState_def Let_def registered_KCandidate split: if_splits option.splits
      dest!: row_KCandidate [OF assms(1)] intro!: abs_rewrite)
lemma CompareAndSwapEvidenceLinks_step:
  assumes "registry_ok (registered s)" and "CompareAndSwapEvidenceLinks e v s = Inr s'"
  shows "abs_step (registered s) (registered s')"
  using assms(2)
  by (auto simp: CompareAndSwapEvidenceLinks_def Let_def registered_KEvidence split: if_splits option.splits
      dest!: row_KEvidence [OF assms(1)] intro!: abs_rewrite)
lemma ApproveException_step:
  assumes "registry_ok (registered s)" and "ApproveException v s = Inr s'"
  shows "abs_step (registered s) (registered s')"
  using assms(2)
  by (auto simp: ApproveException_def Let_def registered_KException split: if_splits option.splits
      dest!: row_KException [OF assms(1)] intro!: abs_rewrite)
lemma ValidateActiveSSOSession_step:
  assumes "registry_ok (registered s)" and "ValidateActiveSSOSession v t s = Inr s'"
  shows "abs_step (registered s) (registered s')"
  using assms(2)
  by (auto simp: ValidateActiveSSOSession_def Let_def membershipRead_def sameSSOProviderTrustState_def registered_KSSOSession split: if_splits option.splits
      dest!: row_KSSOSession [OF assms(1)] intro!: abs_rewrite)
lemma RecordSupersession_step:
  assumes ok: "registry_ok (registered s)" and "RecordSupersession a b s = Inr s'"
  shows "abs_step (registered s) (registered s')"
proof -
  from assms(2) obtain x y where xy: "tbl_get (Evidence s) (ev_ID a) = Some x" "ev_TenantID x = ev_TenantID a"
    "tbl_get (Evidence s) (ev_ID b) = Some y" "ev_TenantID y = ev_TenantID b"
    and s': "s' = s\<lparr>Evidence := tbl_put (tbl_put (Evidence s) (ev_ID a) a) (ev_ID b) b\<rparr>"
    by (auto simp: RecordSupersession_def split: if_splits option.splits)
  let ?s = "s\<lparr>Evidence := tbl_put (Evidence s) (ev_ID a) a\<rparr>"
  from row_KEvidence [OF ok xy(1)] xy(2) have one: "registered ?s = registered s"
    unfolding registered_KEvidence by (auto simp: fun_eq_iff)
  from row_KEvidence [OF ok xy(3)] xy(4) have "registered (?s\<lparr>Evidence := tbl_put (Evidence ?s) (ev_ID b) b\<rparr>) = registered ?s"
    by (subst registered_KEvidence) (auto simp: one fun_eq_iff)
  then show ?thesis unfolding s' one by (intro abs_step_refl) simp
qed

text \<open>Replacing existing decisions by rows of the same tenant is invisible in the registry.\<close>

lemma registered_decisions:
  assumes "registry_ok (registered s)"
    and "\<And>p. p \<in> set ps \<Longrightarrow> registered s KDecision (dec_ID p) = Some (dec_ID p, dec_TenantID p)"
  shows "registered (s\<lparr>Decisions := foldl (\<lambda>t p. tbl_put t (dec_ID p) p) (Decisions s) ps\<rparr>) = registered s"
  using assms
proof (induction ps arbitrary: s)
  case (Cons p ps)
  let ?s = "s\<lparr>Decisions := tbl_put (Decisions s) (dec_ID p) p\<rparr>"
  from Cons.prems(2) [of p] have same: "registered ?s = registered s"
    unfolding registered_KDecision by (auto simp: fun_eq_iff)
  have "registered (?s\<lparr>Decisions := foldl (\<lambda>t p. tbl_put t (dec_ID p) p) (Decisions ?s) ps\<rparr>) = registered ?s"
    by (rule Cons.IH) (use Cons.prems in \<open>auto simp: same\<close>)
  then show ?case by (simp add: same)
qed simp

lemma registered_KDecision': "registered (s\<lparr>Decisions := tbl_put t i v\<rparr>) =
    (registered (s\<lparr>Decisions := t\<rparr>))(KDecision := (registered (s\<lparr>Decisions := t\<rparr>) KDecision)(i \<mapsto> (dec_ID v, dec_TenantID v)))"
  using registered_KDecision [of "s\<lparr>Decisions := t\<rparr>" i v] by simp

lemma SupersedeAndInsert_step:
  assumes ok: "registry_ok (registered s)" and "SupersedeAndInsert v ps s = Inr s'"
    and same: "\<And>p. p \<in> set ps \<Longrightarrow> dec_TenantID p = dec_TenantID v"
  shows "abs_step (registered s) (registered s')"
proof -
  let ?t = "foldl (\<lambda>t p. tbl_put t (dec_ID p) p) (Decisions s) ps"
  from assms(2) have v: "dec_ID v \<noteq> []" "tbl_get (Decisions s) (dec_ID v) = None"
    "registered s KTenant (dec_TenantID v) \<noteq> None"
    and ps: "\<And>p. p \<in> set ps \<Longrightarrow> \<exists>x. tbl_get (Decisions s) (dec_ID p) = Some x \<and> dec_TenantID x = dec_TenantID v"
    and s': "s' = s\<lparr>Decisions := tbl_put ?t (dec_ID v) v\<rparr>"
    by (auto simp: SupersedeAndInsert_def tenant_known list_ex_iff split: if_splits option.splits)
  have "registered (s\<lparr>Decisions := ?t\<rparr>) = registered s"
    by (rule registered_decisions [OF ok]) (use ps same row_KDecision [OF ok] in fastforce)
  with v show ?thesis unfolding s' registered_KDecision' by (auto intro!: abs_insert)
qed

lemma oidc_steps:
  "InsertOIDCAuthenticationRequest f v t s = Inr s' \<Longrightarrow> abs_step (registered s) (registered s')"
  "ConsumeOIDCAuthenticationRequest f v t s = Inr s' \<Longrightarrow> abs_step (registered s) (registered s')"
  by (auto simp: InsertOIDCAuthenticationRequest_def ConsumeOIDCAuthenticationRequest_def Let_def registered_oidc
      split: if_splits option.splits intro!: abs_step_refl)

text \<open>
  \<^verbatim>\<open>SupersedeAndInsert\<close> stores the caller's superseded rows without comparing their tenant with
  the stored rows; a coherent call passes the rows it read.
\<close>

fun coherent :: "repo_call \<Rightarrow> bool" where
  "coherent (DoSupersedeAndInsert v ps) = (\<forall>p\<in>set ps. dec_TenantID p = dec_TenantID v)"
| "coherent c = True"

lemmas insert_steps = InsertTenant_step InsertAPIKey_step InsertOrganization_step InsertHumanUser_step
  InsertRoleBinding_step InsertSSOProvider_step InsertUserIdentityLink_step InsertSSOSession_step
  InsertCustomerPortalAccess_step InsertProduct_step InsertProject_step InsertRelease_step InsertArtifact_step
  InsertReleaseCandidate_step InsertCollector_step InsertBuildRun_step InsertDeploymentEnvironment_step
  InsertDeploymentEvent_step InsertControlFramework_step InsertSecurityControl_step InsertControlEvidence_step
  InsertEvidence_step AppendLifecycle_step InsertVulnerabilityScan_step InsertVulnerabilityDecision_step
  InsertException_step

lemmas update_steps = UpdateAPIKeyLastUsed_step UpdateCollectorLastSeen_step DeactivateHumanUser_step
  CompareAndSwapSSOProviderTrustMaterial_step RevokeSSOSession_step UpdateCustomerPortalAccess_step
  UpdateReleaseState_step UpdateReleaseCandidateState_step CompareAndSwapEvidenceLinks_step ApproveException_step
  ValidateActiveSSOSession_step RecordSupersession_step

lemma exec_step:
  assumes "registry_ok (registered s)" and "coherent c" and "exec c s = Inr s'"
  shows "abs_step (registered s) (registered s')"
  using assms
  by (cases c) (auto elim: insert_steps update_steps SupersedeAndInsert_step oidc_steps)

section \<open>Reachable snapshots\<close>

fun run :: "repo_call list \<Rightarrow> repository_op" where
  "run [] s = Inr s"
| "run (c # cs) s = bind_result (exec c s) (run cs)"

inductive reachable :: "MemoryUnitOfWorkSnapshot \<Rightarrow> bool" where
  reach_empty: "reachable emptyMemoryUnitOfWorkSnapshot"
| reach_exec: "reachable s \<Longrightarrow> coherent c \<Longrightarrow> exec c s = Inr s' \<Longrightarrow> reachable s'"

lemma empty_registry: "registered emptyMemoryUnitOfWorkSnapshot = (\<lambda>k i. None)"
  by (rule ext, rename_tac k, case_tac k) (simp_all add: registered.simps emptyMemoryUnitOfWorkSnapshot_def)

lemma reachable_ok: "reachable s \<Longrightarrow> registry_ok (registered s)"
proof (induction rule: reachable.induct)
  case reach_empty
  then show ?case by (simp add: empty_registry registry_ok_def)
next
  case (reach_exec s c s')
  then show ?case by (blast intro: abs_step_ok exec_step)
qed

lemma run_keeps:
  assumes "registry_ok (registered s)" and "list_all coherent cs" and "run cs s = Inr s'"
  shows "registry_ok (registered s') \<and> (\<forall>k i x. registered s k i = Some x \<longrightarrow> registered s' k i = Some x)"
  using assms
proof (induction cs arbitrary: s)
  case (Cons c cs)
  then obtain s1 where s1: "exec c s = Inr s1" "run cs s1 = Inr s'" by auto
  with Cons.prems have step: "abs_step (registered s) (registered s1)" by (auto intro: exec_step)
  with Cons.prems have "registry_ok (registered s1)" by (blast intro: abs_step_ok)
  with Cons s1 have "registry_ok (registered s') \<and> (\<forall>k i x. registered s1 k i = Some x \<longrightarrow> registered s' k i = Some x)"
    by simp
  with abs_step_keeps [OF step] show ?case by blast
qed simp

end
