(* ===== verification/Store_Properties.thy ===== *)
theory Store_Properties
  imports Store_Registry
begin

text \<open>
  What the repositories promise over every reachable snapshot: rows are append-only and stay
  with their tenant, natural keys are unique, a login request is consumed at most once, and a
  session that is revoked or has lapsed is never revived.
\<close>

section \<open>Frames: each call writes one table\<close>

lemma InsertTenant_writes: "InsertTenant v s = Inr s' \<Longrightarrow> \<exists>t. s' = s\<lparr>Tenants := t\<rparr>"
  unfolding InsertTenant_def Let_def by (auto split: if_splits option.splits prod.splits)
lemma InsertAPIKey_writes: "InsertAPIKey v s = Inr s' \<Longrightarrow> \<exists>t. s' = s\<lparr>APIKeys := t\<rparr>"
  unfolding InsertAPIKey_def Let_def by (auto split: if_splits option.splits prod.splits)
lemma UpdateAPIKeyLastUsed_writes: "UpdateAPIKeyLastUsed v s = Inr s' \<Longrightarrow> \<exists>t. s' = s\<lparr>APIKeys := t\<rparr>"
  unfolding UpdateAPIKeyLastUsed_def Let_def by (auto split: if_splits option.splits prod.splits)
lemma UpdateCollectorLastSeen_writes: "UpdateCollectorLastSeen v s = Inr s' \<Longrightarrow> \<exists>t. s' = s\<lparr>Collectors := t\<rparr>"
  unfolding UpdateCollectorLastSeen_def Let_def by (auto split: if_splits option.splits prod.splits)
lemma InsertOrganization_writes: "InsertOrganization v s = Inr s' \<Longrightarrow> \<exists>t. s' = s\<lparr>Organizations := t\<rparr>"
  unfolding InsertOrganization_def Let_def by (auto split: if_splits option.splits prod.splits)
lemma InsertHumanUser_writes: "InsertHumanUser v s = Inr s' \<Longrightarrow> \<exists>t. s' = s\<lparr>Users := t\<rparr>"
  unfolding InsertHumanUser_def Let_def by (auto split: if_splits option.splits prod.splits)
lemma DeactivateHumanUser_writes: "DeactivateHumanUser v s = Inr s' \<Longrightarrow> \<exists>t. s' = s\<lparr>Users := t\<rparr>"
  unfolding DeactivateHumanUser_def Let_def by (auto split: if_splits option.splits prod.splits)
lemma InsertRoleBinding_writes: "InsertRoleBinding v s = Inr s' \<Longrightarrow> \<exists>t. s' = s\<lparr>RoleBindings := t\<rparr>"
  unfolding InsertRoleBinding_def Let_def by (auto split: if_splits option.splits prod.splits)
lemma InsertSSOProvider_writes: "InsertSSOProvider v s = Inr s' \<Longrightarrow> \<exists>t. s' = s\<lparr>SSOProviders := t\<rparr>"
  unfolding InsertSSOProvider_def Let_def by (auto split: if_splits option.splits prod.splits)
lemma CompareAndSwapSSOProviderTrustMaterial_writes: "CompareAndSwapSSOProviderTrustMaterial v w s = Inr s' \<Longrightarrow> \<exists>t. s' = s\<lparr>SSOProviders := t\<rparr>"
  unfolding CompareAndSwapSSOProviderTrustMaterial_def Let_def by (auto split: if_splits option.splits prod.splits)
lemma InsertUserIdentityLink_writes: "InsertUserIdentityLink v s = Inr s' \<Longrightarrow> \<exists>t. s' = s\<lparr>IdentityLinks := t\<rparr>"
  unfolding InsertUserIdentityLink_def Let_def by (auto split: if_splits option.splits prod.splits)
lemma InsertSSOSession_writes: "InsertSSOSession v s = Inr s' \<Longrightarrow> \<exists>t. s' = s\<lparr>SSOSessions := t\<rparr>"
  unfolding InsertSSOSession_def Let_def by (auto split: if_splits option.splits prod.splits)
lemma ValidateActiveSSOSession_writes: "ValidateActiveSSOSession v w s = Inr s' \<Longrightarrow> \<exists>t. s' = s\<lparr>SSOSessions := t\<rparr>"
  unfolding ValidateActiveSSOSession_def membershipRead_def Let_def by (auto split: if_splits option.splits prod.splits)
lemma RevokeSSOSession_writes: "RevokeSSOSession v s = Inr s' \<Longrightarrow> \<exists>t. s' = s\<lparr>SSOSessions := t\<rparr>"
  unfolding RevokeSSOSession_def Let_def by (auto split: if_splits option.splits prod.splits)
lemma InsertCustomerPortalAccess_writes: "InsertCustomerPortalAccess v s = Inr s' \<Longrightarrow> \<exists>t. s' = s\<lparr>PortalAccess := t\<rparr>"
  unfolding InsertCustomerPortalAccess_def Let_def by (auto split: if_splits option.splits prod.splits)
lemma UpdateCustomerPortalAccess_writes: "UpdateCustomerPortalAccess v w s = Inr s' \<Longrightarrow> \<exists>t. s' = s\<lparr>PortalAccess := t\<rparr>"
  unfolding UpdateCustomerPortalAccess_def Let_def by (auto split: if_splits option.splits prod.splits)
lemma InsertProduct_writes: "InsertProduct v s = Inr s' \<Longrightarrow> \<exists>t. s' = s\<lparr>Products := t\<rparr>"
  unfolding InsertProduct_def Let_def by (auto split: if_splits option.splits prod.splits)
lemma InsertProject_writes: "InsertProject v s = Inr s' \<Longrightarrow> \<exists>t. s' = s\<lparr>Projects := t\<rparr>"
  unfolding InsertProject_def Let_def by (auto split: if_splits option.splits prod.splits)
lemma InsertRelease_writes: "InsertRelease v s = Inr s' \<Longrightarrow> \<exists>t. s' = s\<lparr>Releases := t\<rparr>"
  unfolding InsertRelease_def Let_def by (auto split: if_splits option.splits prod.splits)
lemma UpdateReleaseState_writes: "UpdateReleaseState v w s = Inr s' \<Longrightarrow> \<exists>t. s' = s\<lparr>Releases := t\<rparr>"
  unfolding UpdateReleaseState_def Let_def by (auto split: if_splits option.splits prod.splits)
lemma InsertArtifact_writes: "InsertArtifact v s = Inr s' \<Longrightarrow> \<exists>t. s' = s\<lparr>Artifacts := t\<rparr>"
  unfolding InsertArtifact_def Let_def by (auto split: if_splits option.splits prod.splits)
lemma InsertReleaseCandidate_writes: "InsertReleaseCandidate v s = Inr s' \<Longrightarrow> \<exists>t. s' = s\<lparr>ReleaseCandidates := t\<rparr>"
  unfolding InsertReleaseCandidate_def Let_def by (auto split: if_splits option.splits prod.splits)
lemma UpdateReleaseCandidateState_writes: "UpdateReleaseCandidateState v w s = Inr s' \<Longrightarrow> \<exists>t. s' = s\<lparr>ReleaseCandidates := t\<rparr>"
  unfolding UpdateReleaseCandidateState_def Let_def by (auto split: if_splits option.splits prod.splits)
lemma InsertCollector_writes: "InsertCollector v s = Inr s' \<Longrightarrow> \<exists>t. s' = s\<lparr>Collectors := t\<rparr>"
  unfolding InsertCollector_def Let_def by (auto split: if_splits option.splits prod.splits)
lemma InsertBuildRun_writes: "InsertBuildRun v s = Inr s' \<Longrightarrow> \<exists>t. s' = s\<lparr>BuildRuns := t\<rparr>"
  unfolding InsertBuildRun_def Let_def by (auto split: if_splits option.splits prod.splits)
lemma InsertDeploymentEnvironment_writes: "InsertDeploymentEnvironment v s = Inr s' \<Longrightarrow> \<exists>t. s' = s\<lparr>DeploymentEnvironments := t\<rparr>"
  unfolding InsertDeploymentEnvironment_def Let_def by (auto split: if_splits option.splits prod.splits)
lemma InsertDeploymentEvent_writes: "InsertDeploymentEvent v s = Inr s' \<Longrightarrow> \<exists>t. s' = s\<lparr>DeploymentEvents := t\<rparr>"
  unfolding InsertDeploymentEvent_def Let_def by (auto split: if_splits option.splits prod.splits)
lemma InsertControlFramework_writes: "InsertControlFramework v s = Inr s' \<Longrightarrow> \<exists>t. s' = s\<lparr>ControlFrameworks := t\<rparr>"
  unfolding InsertControlFramework_def Let_def by (auto split: if_splits option.splits prod.splits)
lemma InsertSecurityControl_writes: "InsertSecurityControl v s = Inr s' \<Longrightarrow> \<exists>t. s' = s\<lparr>SecurityControls := t\<rparr>"
  unfolding InsertSecurityControl_def Let_def by (auto split: if_splits option.splits prod.splits)
lemma InsertControlEvidence_writes: "InsertControlEvidence v s = Inr s' \<Longrightarrow> \<exists>t. s' = s\<lparr>ControlEvidences := t\<rparr>"
  unfolding InsertControlEvidence_def Let_def by (auto split: if_splits option.splits prod.splits)
lemma InsertEvidence_writes: "InsertEvidence v s = Inr s' \<Longrightarrow> \<exists>t. s' = s\<lparr>Evidence := t\<rparr>"
  unfolding InsertEvidence_def Let_def by (auto split: if_splits option.splits prod.splits)
lemma CompareAndSwapEvidenceLinks_writes: "CompareAndSwapEvidenceLinks v w s = Inr s' \<Longrightarrow> \<exists>t. s' = s\<lparr>Evidence := t\<rparr>"
  unfolding CompareAndSwapEvidenceLinks_def Let_def by (auto split: if_splits option.splits prod.splits)
lemma RecordSupersession_writes: "RecordSupersession v w s = Inr s' \<Longrightarrow> \<exists>t. s' = s\<lparr>Evidence := t\<rparr>"
  unfolding RecordSupersession_def Let_def by (auto split: if_splits option.splits prod.splits)
lemma AppendLifecycle_writes: "AppendLifecycle v s = Inr s' \<Longrightarrow> \<exists>t. s' = s\<lparr>EvidenceLifecycle := t\<rparr>"
  unfolding AppendLifecycle_def Let_def by (auto split: if_splits option.splits prod.splits)
lemma InsertVulnerabilityScan_writes: "InsertVulnerabilityScan v s = Inr s' \<Longrightarrow> \<exists>t. s' = s\<lparr>VulnerabilityScans := t\<rparr>"
  unfolding InsertVulnerabilityScan_def Let_def by (auto split: if_splits option.splits prod.splits)
lemma InsertVulnerabilityDecision_writes: "InsertVulnerabilityDecision v s = Inr s' \<Longrightarrow> \<exists>t. s' = s\<lparr>Decisions := t\<rparr>"
  unfolding InsertVulnerabilityDecision_def Let_def by (auto split: if_splits option.splits prod.splits)
lemma SupersedeAndInsert_writes: "SupersedeAndInsert v w s = Inr s' \<Longrightarrow> \<exists>t. s' = s\<lparr>Decisions := t\<rparr>"
  unfolding SupersedeAndInsert_def Let_def by (auto split: if_splits option.splits prod.splits)
lemma InsertException_writes: "InsertException v s = Inr s' \<Longrightarrow> \<exists>t. s' = s\<lparr>Exceptions := t\<rparr>"
  unfolding InsertException_def Let_def by (auto split: if_splits option.splits prod.splits)
lemma ApproveException_writes: "ApproveException v s = Inr s' \<Longrightarrow> \<exists>t. s' = s\<lparr>Exceptions := t\<rparr>"
  unfolding ApproveException_def Let_def by (auto split: if_splits option.splits prod.splits)
lemma InsertOIDCAuthenticationRequest_writes: "InsertOIDCAuthenticationRequest v w x s = Inr s' \<Longrightarrow> \<exists>t. s' = s\<lparr>OIDCAuthenticationRequests := t\<rparr>"
  unfolding InsertOIDCAuthenticationRequest_def Let_def by (auto split: if_splits option.splits prod.splits)
lemma ConsumeOIDCAuthenticationRequest_writes: "ConsumeOIDCAuthenticationRequest v w x s = Inr s' \<Longrightarrow> \<exists>t. s' = s\<lparr>OIDCAuthenticationRequests := t\<rparr>"
  unfolding ConsumeOIDCAuthenticationRequest_def Let_def by (auto split: if_splits option.splits prod.splits)

lemmas writes = InsertTenant_writes InsertAPIKey_writes UpdateAPIKeyLastUsed_writes UpdateCollectorLastSeen_writes
  InsertOrganization_writes InsertHumanUser_writes DeactivateHumanUser_writes InsertRoleBinding_writes
  InsertSSOProvider_writes CompareAndSwapSSOProviderTrustMaterial_writes InsertUserIdentityLink_writes InsertSSOSession_writes
  ValidateActiveSSOSession_writes RevokeSSOSession_writes InsertCustomerPortalAccess_writes UpdateCustomerPortalAccess_writes
  InsertProduct_writes InsertProject_writes InsertRelease_writes UpdateReleaseState_writes
  InsertArtifact_writes InsertReleaseCandidate_writes UpdateReleaseCandidateState_writes InsertCollector_writes
  InsertBuildRun_writes InsertDeploymentEnvironment_writes InsertDeploymentEvent_writes InsertControlFramework_writes
  InsertSecurityControl_writes InsertControlEvidence_writes InsertEvidence_writes CompareAndSwapEvidenceLinks_writes
  RecordSupersession_writes AppendLifecycle_writes InsertVulnerabilityScan_writes InsertVulnerabilityDecision_writes
  SupersedeAndInsert_writes InsertException_writes ApproveException_writes InsertOIDCAuthenticationRequest_writes
  ConsumeOIDCAuthenticationRequest_writes

lemma frame_Products: "exec c s = Inr s' \<Longrightarrow> (\<And>v. c \<noteq> DoInsertProduct v) \<Longrightarrow> Products s' = Products s"
  by (cases c) (auto dest!: writes)

lemma frame_Artifacts: "exec c s = Inr s' \<Longrightarrow> (\<And>v. c \<noteq> DoInsertArtifact v) \<Longrightarrow> Artifacts s' = Artifacts s"
  by (cases c) (auto dest!: writes)

lemma frame_IdentityLinks:
  "exec c s = Inr s' \<Longrightarrow> (\<And>v. c \<noteq> DoInsertUserIdentityLink v) \<Longrightarrow> IdentityLinks s' = IdentityLinks s"
  by (cases c) (auto dest!: writes)

lemma frame_SSOSessions:
  "exec c s = Inr s' \<Longrightarrow> (\<And>v. c \<noteq> DoInsertSSOSession v) \<Longrightarrow> (\<And>v t. c \<noteq> DoValidateActiveSSOSession v t) \<Longrightarrow>
     (\<And>v. c \<noteq> DoRevokeSSOSession v) \<Longrightarrow> SSOSessions s' = SSOSessions s"
  by (cases c) (auto dest!: writes)

lemma frame_OIDC:
  "exec c s = Inr s' \<Longrightarrow> (\<And>f v t. c \<noteq> DoInsertOIDCAuthenticationRequest f v t) \<Longrightarrow>
     (\<And>f v t. c \<noteq> DoConsumeOIDCAuthenticationRequest f v t) \<Longrightarrow>
     OIDCAuthenticationRequests s' = OIDCAuthenticationRequests s"
  by (cases c) (auto dest!: writes)

section \<open>The store refines an append-only registry\<close>



section \<open>Natural keys\<close>

definition unique_by :: "('v \<Rightarrow> 'n) \<Rightarrow> (string, 'v) table \<Rightarrow> bool" where
  "unique_by key t \<longleftrightarrow> (\<forall>i j v w. tbl_get t i = Some v \<and> tbl_get t j = Some w \<and> key v = key w \<longrightarrow> i = j)"

lemma unique_by_put:
  assumes "unique_by key t" and "\<not> tbl_any (\<lambda>e. key e = key v) t"
  shows "unique_by key (tbl_put t i v)"
proof -
  from assms(2) have "\<not> tbl_any (\<lambda>e. key v = key e) t" by (simp add: eq_commute)
  then show ?thesis
    unfolding unique_by_def using assms(1) tbl.insert_preserves_unique [of t "\<lambda>v w. key v = key w" v i]
    by (metis unique_by_def)
qed

definition natural_keys :: "MemoryUnitOfWorkSnapshot \<Rightarrow> bool" where
  "natural_keys s \<longleftrightarrow>
     unique_by (\<lambda>v. (prod_TenantID v, prod_Slug v)) (Products s) \<and>
     unique_by (\<lambda>v. (art_TenantID v, art_Digest v)) (Artifacts s) \<and>
     unique_by (\<lambda>v. (ulink_TenantID v, ulink_ProviderID v, ulink_Subject v)) (IdentityLinks s)"

lemma insert_product_key: "InsertProduct v s = Inr s' \<Longrightarrow>
    unique_by (\<lambda>v. (prod_TenantID v, prod_Slug v)) (Products s) \<Longrightarrow>
    unique_by (\<lambda>v. (prod_TenantID v, prod_Slug v)) (Products s')"
  by (auto simp: InsertProduct_def split: if_splits intro!: unique_by_put)

lemma insert_artifact_key: "InsertArtifact v s = Inr s' \<Longrightarrow>
    unique_by (\<lambda>v. (art_TenantID v, art_Digest v)) (Artifacts s) \<Longrightarrow>
    unique_by (\<lambda>v. (art_TenantID v, art_Digest v)) (Artifacts s')"
  by (auto simp: InsertArtifact_def split: if_splits intro!: unique_by_put)

lemma insert_link_key: "InsertUserIdentityLink v s = Inr s' \<Longrightarrow>
    unique_by (\<lambda>v. (ulink_TenantID v, ulink_ProviderID v, ulink_Subject v)) (IdentityLinks s) \<Longrightarrow>
    unique_by (\<lambda>v. (ulink_TenantID v, ulink_ProviderID v, ulink_Subject v)) (IdentityLinks s')"
  by (auto simp: InsertUserIdentityLink_def split: if_splits intro!: unique_by_put)

lemma natural_keys_exec:
  assumes "natural_keys s" and "exec c s = Inr s'"
  shows "natural_keys s'"
proof -
  from assms have "unique_by (\<lambda>v. (prod_TenantID v, prod_Slug v)) (Products s')"
    by (cases "\<exists>v. c = DoInsertProduct v") (auto simp: natural_keys_def frame_Products elim: insert_product_key)
  moreover from assms have "unique_by (\<lambda>v. (art_TenantID v, art_Digest v)) (Artifacts s')"
    by (cases "\<exists>v. c = DoInsertArtifact v") (auto simp: natural_keys_def frame_Artifacts elim: insert_artifact_key)
  moreover from assms have "unique_by (\<lambda>v. (ulink_TenantID v, ulink_ProviderID v, ulink_Subject v)) (IdentityLinks s')"
    by (cases "\<exists>v. c = DoInsertUserIdentityLink v") (auto simp: natural_keys_def frame_IdentityLinks elim: insert_link_key)
  ultimately show ?thesis by (simp add: natural_keys_def)
qed

lemma natural_keys_reachable: "reachable s \<Longrightarrow> natural_keys s"
proof (induction rule: reachable.induct)
  case reach_empty
  then show ?case by (simp add: natural_keys_def unique_by_def emptyMemoryUnitOfWorkSnapshot_def)
next
  case (reach_exec s c s')
  then show ?case by (blast intro: natural_keys_exec)
qed

text \<open>
  C13: natural keys are unique. In every reachable snapshot a tenant has at most one product
  per slug and one artifact per digest, and one identity-provider subject is linked to at
  most one user, so a verified login never resolves to two accounts.
\<close>

theorem store_natural_keys:
  assumes "reachable s"
  shows "(tbl_get (Products s) i = Some v \<and> tbl_get (Products s) j = Some w \<and>
      prod_TenantID v = prod_TenantID w \<and> prod_Slug v = prod_Slug w \<longrightarrow> i = j) \<and>
    (tbl_get (Artifacts s) i = Some a \<and> tbl_get (Artifacts s) j = Some b \<and>
      art_TenantID a = art_TenantID b \<and> art_Digest a = art_Digest b \<longrightarrow> i = j) \<and>
    (tbl_get (IdentityLinks s) i = Some x \<and> tbl_get (IdentityLinks s) j = Some y \<and> ulink_TenantID x = ulink_TenantID y \<and>
      ulink_ProviderID x = ulink_ProviderID y \<and> ulink_Subject x = ulink_Subject y \<longrightarrow> i = j \<and> ulink_UserID x = ulink_UserID y)"
proof -
  from natural_keys_reachable [OF assms] have
    "unique_by (\<lambda>v. (prod_TenantID v, prod_Slug v)) (Products s)"
    "unique_by (\<lambda>v. (art_TenantID v, art_Digest v)) (Artifacts s)"
    "unique_by (\<lambda>v. (ulink_TenantID v, ulink_ProviderID v, ulink_Subject v)) (IdentityLinks s)"
    by (simp_all add: natural_keys_def)
  then show ?thesis unfolding unique_by_def by (metis (no_types, lifting) option.inject)
qed

section \<open>Sessions\<close>

text \<open>A session that is not active at some time after its creation is not active later.\<close>

lemma ActiveAt_earlier:
  "ActiveAt v t \<Longrightarrow> 0 < sess_CreatedAt v \<Longrightarrow> sess_CreatedAt v \<le> t0 \<Longrightarrow> t0 \<le> t \<Longrightarrow> ActiveAt v t0"
  by (auto simp: ActiveAt_iff)

definition dead_from :: "time \<Rightarrow> SSOSession \<Rightarrow> bool" where
  "dead_from t0 v \<longleftrightarrow> (\<forall>t\<ge>t0. \<not> ActiveAt v t)"

lemma dead_revoked: "sess_RevokedAt v \<noteq> None \<Longrightarrow> dead_from t0 v"
  by (auto simp: dead_from_def ActiveAt_iff)

text \<open>A call that observes the clock observes a time that is not before \<open>t0\<close>.\<close>

fun not_before :: "time \<Rightarrow> repo_call \<Rightarrow> bool" where
  "not_before t0 (DoValidateActiveSSOSession v t) = (t0 \<le> t)"
| "not_before t0 c = True"

lemma dead_insert:
  "InsertSSOSession v s = Inr s' \<Longrightarrow> tbl_get (SSOSessions s) i = Some w \<Longrightarrow> tbl_get (SSOSessions s') i = Some w"
  by (auto simp: InsertSSOSession_def Let_def split: if_splits prod.splits)

lemma dead_validate:
  "ValidateActiveSSOSession v t s = Inr s' \<Longrightarrow> t0 \<le> t \<Longrightarrow> tbl_get (SSOSessions s) i = Some w \<Longrightarrow> dead_from t0 w \<Longrightarrow>
     tbl_get (SSOSessions s') i = Some w"
  by (auto simp: ValidateActiveSSOSession_def membershipRead_def Let_def dead_from_def split: if_splits option.splits)

lemma dead_revoke:
  "RevokeSSOSession v s = Inr s' \<Longrightarrow> tbl_get (SSOSessions s) i = Some w \<Longrightarrow> dead_from t0 w \<Longrightarrow>
     \<exists>w'. tbl_get (SSOSessions s') i = Some w' \<and> dead_from t0 w'"
  by (auto simp: RevokeSSOSession_def split: if_splits option.splits intro!: dead_revoked)

lemma dead_exec:
  assumes "exec c s = Inr s'" and "not_before t0 c" and "tbl_get (SSOSessions s) i = Some w" and "dead_from t0 w"
  shows "\<exists>w'. tbl_get (SSOSessions s') i = Some w' \<and> dead_from t0 w'"
proof -
  consider v where "c = DoInsertSSOSession v" | v t where "c = DoValidateActiveSSOSession v t"
    | v where "c = DoRevokeSSOSession v" | "SSOSessions s' = SSOSessions s"
    using frame_SSOSessions [OF assms(1)] by blast
  then show ?thesis
  proof cases
    case 1 with assms show ?thesis by (auto dest: dead_insert)
  next
    case 2 with assms show ?thesis by (auto dest: dead_validate)
  next
    case 3 with assms show ?thesis by (auto intro: dead_revoke)
  next
    case 4 with assms show ?thesis by auto
  qed
qed

lemma dead_run:
  "run cs s = Inr s' \<Longrightarrow> list_all (not_before t0) cs \<Longrightarrow> tbl_get (SSOSessions s) i = Some w \<Longrightarrow> dead_from t0 w \<Longrightarrow>
     \<exists>w'. tbl_get (SSOSessions s') i = Some w' \<and> dead_from t0 w'"
proof (induction cs arbitrary: s w)
  case (Cons c cs)
  then obtain s1 where s1: "exec c s = Inr s1" "run cs s1 = Inr s'" by auto
  with Cons.prems obtain w1 where "tbl_get (SSOSessions s1) i = Some w1" "dead_from t0 w1"
    using dead_exec [of c s s1 t0 i w] by auto
  with Cons s1 show ?case by simp
qed simp

text \<open>
  C11: sessions are never revived. Once a stored session is not active at some time after its
  creation (it was revoked, expired, or idle for too long), no later sequence of repository
  calls makes it active again at that or any later time; in particular, recording its use does
  not extend a lapsed session.
\<close>

theorem session_never_revived:
  assumes "tbl_get (SSOSessions s) i = Some v" and "0 < sess_CreatedAt v" and "sess_CreatedAt v \<le> t0"
    and "\<not> ActiveAt v t0" and "list_all (not_before t0) cs" and "run cs s = Inr s'"
  shows "\<exists>v'. tbl_get (SSOSessions s') i = Some v' \<and> (\<forall>t\<ge>t0. \<not> ActiveAt v' t)"
proof -
  have "dead_from t0 v"
    using ActiveAt_earlier assms(2-4) by (auto simp: dead_from_def)
  from dead_run [OF assms(6,5,1) this] show ?thesis by (simp add: dead_from_def)
qed

lemma InsertSSOSession_Inr:
  assumes "InsertSSOSession v s = Inr s'"
  obtains p where "LifecyclePolicy v = (p, True)"
    "SSOSessions s' = tbl_put (SSOSessions s) (sess_ID v) (v\<lparr>sess_MaximumLifetimeSeconds := MaximumLifetime p div Second,
       sess_IdleTimeoutSeconds := IdleTimeout p div Second\<rparr>)"
  using assms by (auto simp: InsertSSOSession_def Let_def split: if_splits prod.splits)

text \<open>
  C14: sessions keep bounded policies. A stored session has the lifecycle policy it was issued
  with, and whenever it is active the time lies between its creation and its expiry, at most
  twelve hours apart, and within the idle timeout since its last use.
\<close>

theorem session_policy_retained:
  assumes "InsertSSOSession v s = Inr s'"
  shows "\<exists>w p. tbl_get (SSOSessions s') (sess_ID v) = Some w \<and> LifecyclePolicy v = (p, True) \<and> LifecyclePolicy w = (p, True) \<and>
    (\<forall>t. ActiveAt w t \<longrightarrow> sess_CreatedAt w \<le> t \<and> t < sess_ExpiresAt w \<and>
       sess_ExpiresAt w \<le> sess_CreatedAt w + MaximumLifetime p \<and> MaximumLifetime p \<le> 12 * Hour \<and>
       t < last_used w + IdleTimeout p \<and> sess_RevokedAt w = None)"
  using assms
proof (rule InsertSSOSession_Inr)
  fix p :: SessionPolicy
  let ?w = "v\<lparr>sess_MaximumLifetimeSeconds := MaximumLifetime p div Second,
     sess_IdleTimeoutSeconds := IdleTimeout p div Second\<rparr>"
  assume p: "LifecyclePolicy v = (p, True)" and put: "SSOSessions s' = tbl_put (SSOSessions s) (sess_ID v) ?w"
  note w = LifecyclePolicy_persisted [OF p]
  have "\<forall>t. ActiveAt ?w t \<longrightarrow> sess_CreatedAt ?w \<le> t \<and> t < sess_ExpiresAt ?w \<and>
       sess_ExpiresAt ?w \<le> sess_CreatedAt ?w + MaximumLifetime p \<and> MaximumLifetime p \<le> 12 * Hour \<and>
       t < last_used ?w + IdleTimeout p \<and> sess_RevokedAt ?w = None"
    using LifecyclePolicy_ok(5) [OF p] unfolding ActiveAt_iff w by (auto simp: MaximumSessionLifetime_def)
  with p w put show ?thesis by (intro exI [of _ ?w] exI [of _ p]) simp
qed

section \<open>One-time login requests\<close>

definition oidc_keys :: "MemoryUnitOfWorkSnapshot \<Rightarrow> bool" where
  "oidc_keys s \<longleftrightarrow> (\<forall>i v. tbl_get (OIDCAuthenticationRequests s) i = Some v \<longrightarrow> oidc_ID v = i)"

lemma oidc_keysD: "oidc_keys s \<Longrightarrow> tbl_get (OIDCAuthenticationRequests s) i = Some v \<Longrightarrow> oidc_ID v = i"
  by (simp add: oidc_keys_def)

lemma ConsumeOIDC_Inr:
  assumes "ConsumeOIDCAuthenticationRequest f v t s = Inr s'"
  obtains w where "tbl_get (OIDCAuthenticationRequests s) (oidc_ID v) = Some w" "oidc_ConsumedAt w = None"
    "oidc_ExpiresAt w = oidc_ExpiresAt v"
    "OIDCAuthenticationRequests s' = tbl_put (OIDCAuthenticationRequests s) (oidc_ID w)
       (w\<lparr>oidc_ConsumedAt := Some (truncate_us t)\<rparr>)"
proof -
  from assms obtain w where w: "tbl_get (OIDCAuthenticationRequests s) (oidc_ID v) = Some w"
    by (auto simp: ConsumeOIDCAuthenticationRequest_def Let_def split: if_splits option.splits)
  with assms have "OIDC_PendingAt w (truncate_us t)" "oidc_ExpiresAt w = oidc_ExpiresAt v"
    "s' = s\<lparr>OIDCAuthenticationRequests := tbl_put (OIDCAuthenticationRequests s) (oidc_ID w)
       (w\<lparr>oidc_ConsumedAt := Some (truncate_us t)\<rparr>)\<rparr>"
    by (auto simp: ConsumeOIDCAuthenticationRequest_def Let_def split: if_splits)
  with w show thesis by (intro that [of w]) (simp_all add: OIDC_PendingAt_def)
qed

lemma InsertOIDC_Inr:
  assumes "InsertOIDCAuthenticationRequest f v t s = Inr s'"
  obtains live where "live = tbl_filter (\<lambda>e. \<not> oidc_expired_peer v t e) (OIDCAuthenticationRequests s)"
    "tbl_get live (oidc_ID v) = None" "OIDCAuthenticationRequests s' = tbl_put live (oidc_ID v) v"
  using assms unfolding InsertOIDCAuthenticationRequest_def Let_def by (auto simp del: tbl_get_filter split: if_splits)

lemma oidc_keys_insert: "InsertOIDCAuthenticationRequest f v t s = Inr s' \<Longrightarrow> oidc_keys s \<Longrightarrow> oidc_keys s'"
  by (erule InsertOIDC_Inr) (simp add: oidc_keys_def split: option.splits if_splits)

lemma oidc_keys_consume: "ConsumeOIDCAuthenticationRequest f v t s = Inr s' \<Longrightarrow> oidc_keys s \<Longrightarrow> oidc_keys s'"
  by (erule ConsumeOIDC_Inr) (simp add: oidc_keys_def)

lemma oidc_keys_exec: "exec c s = Inr s' \<Longrightarrow> oidc_keys s \<Longrightarrow> oidc_keys s'"
proof -
  assume ok: "exec c s = Inr s'" and keys: "oidc_keys s"
  consider f v t where "c = DoInsertOIDCAuthenticationRequest f v t"
    | f v t where "c = DoConsumeOIDCAuthenticationRequest f v t"
    | "OIDCAuthenticationRequests s' = OIDCAuthenticationRequests s"
    using frame_OIDC [OF ok] by blast
  then show ?thesis
  proof cases
    case 1 with ok keys show ?thesis by (auto intro: oidc_keys_insert)
  next
    case 2 with ok keys show ?thesis by (auto intro: oidc_keys_consume)
  next
    case 3 with keys show ?thesis by (simp add: oidc_keys_def)
  qed
qed

lemma reachable_oidc_keys: "reachable s \<Longrightarrow> oidc_keys s"
  by (induction rule: reachable.induct)
     (simp add: oidc_keys_def emptyMemoryUnitOfWorkSnapshot_def, blast intro: oidc_keys_exec)

definition spent :: "string \<Rightarrow> time \<Rightarrow> MemoryUnitOfWorkSnapshot \<Rightarrow> bool" where
  "spent i expires s \<longleftrightarrow> oidc_keys s \<and> (\<exists>v. tbl_get (OIDCAuthenticationRequests s) i = Some v \<and>
     oidc_ConsumedAt v \<noteq> None \<and> oidc_ExpiresAt v = expires)"

text \<open>New login requests are only inserted while the consumed one has not expired.\<close>

fun within :: "time \<Rightarrow> repo_call \<Rightarrow> bool" where
  "within expires (DoInsertOIDCAuthenticationRequest f v t) = (t < expires)"
| "within expires c = True"

lemma spent_consume:
  assumes ok: "ConsumeOIDCAuthenticationRequest f v t s = Inr s'" and keys: "oidc_keys s"
  shows "spent (oidc_ID v) (oidc_ExpiresAt v) s'"
  using ok
proof (rule ConsumeOIDC_Inr)
  fix w
  assume w: "tbl_get (OIDCAuthenticationRequests s) (oidc_ID v) = Some w" "oidc_ExpiresAt w = oidc_ExpiresAt v"
    "OIDCAuthenticationRequests s' = tbl_put (OIDCAuthenticationRequests s) (oidc_ID w)
       (w\<lparr>oidc_ConsumedAt := Some (truncate_us t)\<rparr>)"
  from oidc_keysD [OF keys w(1)] w(2,3) oidc_keys_consume [OF ok keys] show ?thesis by (simp add: spent_def)
qed

lemma spent_refuses:
  assumes "spent (oidc_ID v) expires s"
  shows "\<exists>err. ConsumeOIDCAuthenticationRequest f v t s = Inl err"
proof (cases "ConsumeOIDCAuthenticationRequest f v t s")
  case (Inr s')
  then show ?thesis by (rule ConsumeOIDC_Inr) (use assms in \<open>simp add: spent_def\<close>)
qed simp

lemma spent_other_consume:
  assumes ok: "ConsumeOIDCAuthenticationRequest f v t s = Inr s'" and sp: "spent i expires s"
  shows "spent i expires s'"
  using ok
proof (rule ConsumeOIDC_Inr)
  fix w
  assume w: "tbl_get (OIDCAuthenticationRequests s) (oidc_ID v) = Some w"
    "OIDCAuthenticationRequests s' = tbl_put (OIDCAuthenticationRequests s) (oidc_ID w)
       (w\<lparr>oidc_ConsumedAt := Some (truncate_us t)\<rparr>)"
  from sp have keys: "oidc_keys s" by (simp add: spent_def)
  have "oidc_ID w \<noteq> i" using ok sp spent_refuses [of v expires s f t] oidc_keysD [OF keys w(1)] by auto
  with sp w(2) oidc_keys_consume [OF ok keys] show ?thesis by (auto simp: spent_def)
qed

lemma spent_insert:
  assumes ok: "InsertOIDCAuthenticationRequest f v t s = Inr s'" and t: "t < expires" and sp: "spent i expires s"
  shows "spent i expires s'"
proof -
  from sp obtain w where w: "tbl_get (OIDCAuthenticationRequests s) i = Some w" "oidc_ConsumedAt w \<noteq> None"
    "oidc_ExpiresAt w = expires" and keys: "oidc_keys s" by (auto simp: spent_def)
  from ok obtain live where live: "live = tbl_filter (\<lambda>e. \<not> oidc_expired_peer v t e) (OIDCAuthenticationRequests s)"
    "tbl_get live (oidc_ID v) = None" "OIDCAuthenticationRequests s' = tbl_put live (oidc_ID v) v"
    by (rule InsertOIDC_Inr)
  from w t have "tbl_get live i = Some w" unfolding live(1) by (simp add: oidc_expired_peer_def)
  with live(2,3) w oidc_keys_insert [OF ok keys] show ?thesis by (auto simp: spent_def)
qed

lemma spent_exec: "exec c s = Inr s' \<Longrightarrow> within expires c \<Longrightarrow> spent i expires s \<Longrightarrow> spent i expires s'"
proof -
  assume ok: "exec c s = Inr s'" and w: "within expires c" and sp: "spent i expires s"
  consider f v t where "c = DoInsertOIDCAuthenticationRequest f v t"
    | f v t where "c = DoConsumeOIDCAuthenticationRequest f v t"
    | "OIDCAuthenticationRequests s' = OIDCAuthenticationRequests s"
    using frame_OIDC [OF ok] by blast
  then show ?thesis
  proof cases
    case 1 with ok w sp show ?thesis by (auto intro: spent_insert)
  next
    case 2 with ok sp show ?thesis by (auto intro: spent_other_consume)
  next
    case 3 with sp show ?thesis by (simp add: spent_def oidc_keys_def)
  qed
qed

lemma spent_run: "run cs s = Inr s' \<Longrightarrow> list_all (within expires) cs \<Longrightarrow> spent i expires s \<Longrightarrow> spent i expires s'"
  by (induction cs arbitrary: s) (auto dest: spent_exec)

text \<open>
  C12: a login request is consumed at most once. After a successful consumption, every further
  attempt to consume the request with the same identifier fails during its lifetime, whatever
  calls, including other consumptions and new requests, happen in between.
\<close>

theorem oidc_request_consumed_once:
  assumes "reachable s" and "ConsumeOIDCAuthenticationRequest f v t s = Inr s1"
    and "list_all (within (oidc_ExpiresAt v)) cs" and "run cs s1 = Inr s2" and "oidc_ID v' = oidc_ID v"
  shows "\<exists>err. ConsumeOIDCAuthenticationRequest f' v' t' s2 = Inl err"
proof -
  from assms(2) reachable_oidc_keys [OF assms(1)] have "spent (oidc_ID v) (oidc_ExpiresAt v) s1" by (rule spent_consume)
  with assms(3,4) have "spent (oidc_ID v') (oidc_ExpiresAt v) s2" unfolding assms(5) by (blast intro: spent_run)
  then show ?thesis by (rule spent_refuses)
qed

section \<open>Witnesses\<close>

definition sample_provider :: SSOProvider where
  "sample_provider = \<lparr>idp_ID = ''idp1'', idp_TenantID = ''t1'', idp_Name = ''corp'', idp_Type = ''oidc'',
     idp_Issuer = ''https://id'', idp_ClientID = ''cl'', idp_GroupsClaim = [], idp_RoleMapping = [],
     idp_JWKS = [(''keys'', JArray [])], idp_SAMLSigningCertificates = [], idp_TrustMaterialUpdatedAt = None,
     idp_Status = ''active'', idp_SchemaVersion = ''v1'', idp_CreatedAt = 1000\<rparr>"

definition sample_user :: HumanUser where
  "sample_user = \<lparr>huser_ID = ''u1'', huser_TenantID = ''t1'', huser_OrganizationID = [], huser_Email = ''a@b'',
     huser_DisplayName = ''A'', huser_Status = ''active'', huser_DeactivatedAt = None, huser_SchemaVersion = ''v1'',
     huser_CreatedAt = 1000\<rparr>"

definition sample_session :: SSOSession where
  "sample_session = \<lparr>sess_ID = ''s1'', sess_TenantID = ''t1'', sess_UserID = ''u1'', sess_ProviderID = ''idp1'',
     sess_Prefix = ''evysso_'', sess_Groups = [], sess_ExpiresAt = 1000 + Hour, sess_RevokedAt = None,
     sess_SchemaVersion = ''v1'', sess_CreatedAt = 1000, sess_LastUsedAt = None, sess_MaximumLifetimeSeconds = 0,
     sess_IdleTimeoutSeconds = 0, sess_Hash = replicate 64 CHR ''a''\<rparr>"

definition sample_login :: OIDCAuthenticationRequest where
  "sample_login = \<lparr>oidc_ID = ''q1'', oidc_TenantID = ''t1'', oidc_ProviderID = ''idp1'', oidc_Delivery = ''api'',
     oidc_TrustFingerprint = ''sha256:'' @ replicate 64 CHR ''0'', oidc_StateHash = replicate 64 CHR ''1'',
     oidc_NonceHash = replicate 64 CHR ''2'', oidc_CreatedAt = 1000, oidc_ExpiresAt = 1000 + Minute,
     oidc_ConsumedAt = None, oidc_SchemaVersion = OIDCAuthenticationRequestSchemaVersion\<rparr>"

definition sample_fingerprint :: "SSOProvider \<Rightarrow> string result" where
  "sample_fingerprint p = Inr (''sha256:'' @ replicate 64 CHR ''0'')"

definition sample_calls :: "repo_call list" where
  "sample_calls =
    [DoInsertTenant \<lparr>tenant_ID = ''t1'', tenant_Name = ''acme'', tenant_CreatedAt = 1000\<rparr>,
     DoInsertSSOProvider sample_provider, DoInsertHumanUser sample_user, DoInsertSSOSession sample_session,
     DoInsertOIDCAuthenticationRequest sample_fingerprint sample_login 1000]"

definition sample_product_call :: repo_call where
  "sample_product_call = DoInsertProduct \<lparr>prod_ID = ''p1'', prod_TenantID = ''t1'', prod_Name = ''app'',
     prod_Slug = ''app'', prod_CreatedAt = 1000\<rparr>"

definition result_or :: "'a \<Rightarrow> 'a result \<Rightarrow> 'a" where
  "result_or d r = (case r of Inr x \<Rightarrow> x | Inl _ \<Rightarrow> d)"

definition sample_store :: MemoryUnitOfWorkSnapshot where
  "sample_store = result_or emptyMemoryUnitOfWorkSnapshot (run sample_calls emptyMemoryUnitOfWorkSnapshot)"

lemma result_or_Inr: "(case r of Inr _ \<Rightarrow> True | Inl _ \<Rightarrow> False) \<Longrightarrow> r = Inr (result_or d r)"
  by (cases r) (simp_all add: result_or_def)

lemma run_sample: "run sample_calls emptyMemoryUnitOfWorkSnapshot = Inr sample_store"
  unfolding sample_store_def by (rule result_or_Inr) code_simp

lemma run_reachable: "run cs s = Inr s' \<Longrightarrow> list_all coherent cs \<Longrightarrow> reachable s \<Longrightarrow> reachable s'"
  by (induction cs arbitrary: s) (auto intro: reach_exec)

lemma sample_reachable: "reachable sample_store"
  by (rule run_reachable [OF run_sample _ reach_empty]) (simp add: sample_calls_def)

definition sample_store2 :: MemoryUnitOfWorkSnapshot where
  "sample_store2 = result_or emptyMemoryUnitOfWorkSnapshot (exec sample_product_call sample_store)"

lemma exec_sample: "exec sample_product_call sample_store = Inr sample_store2"
  unfolding sample_store2_def by (rule result_or_Inr) code_simp

lemma run_product: "run [sample_product_call] sample_store = Inr sample_store2"
  by (simp add: exec_sample)

lemma product_coherent: "coherent sample_product_call"
  by (simp add: sample_product_call_def)



lemma sample_reachable2: "reachable sample_store2"
  using sample_reachable product_coherent exec_sample by (rule reach_exec)

theorem store_natural_keys_witness:
  "{i. \<exists>v. tbl_get (Products sample_store2) i = Some v \<and> prod_TenantID v = ''t1'' \<and> prod_Slug v = ''app''} = {''p1''}"
proof -
  have "(case tbl_get (Products sample_store2) ''p1'' of
      Some v \<Rightarrow> prod_TenantID v = ''t1'' \<and> prod_Slug v = ''app'' | None \<Rightarrow> False)" by code_simp
  then obtain v where v: "tbl_get (Products sample_store2) ''p1'' = Some v" "prod_TenantID v = ''t1''" "prod_Slug v = ''app''"
    by (auto split: option.splits)
  have "i = ''p1''" if "tbl_get (Products sample_store2) i = Some w" "prod_TenantID w = ''t1''" "prod_Slug w = ''app''" for i w
    using store_natural_keys [OF sample_reachable2, of i w "''p1''" v] v that by simp
  with v show ?thesis by blast
qed

lemma sample_session_row: "\<exists>v. tbl_get (SSOSessions sample_store) ''s1'' = Some v \<and> sess_CreatedAt v = 1000 \<and> \<not> ActiveAt v (1000 + Hour)"
proof -
  have "(case tbl_get (SSOSessions sample_store) ''s1'' of
      Some v \<Rightarrow> sess_CreatedAt v = 1000 \<and> \<not> ActiveAt v (1000 + Hour) | None \<Rightarrow> False)" by code_simp
  then show ?thesis by (auto split: option.splits)
qed

theorem session_never_revived_witness:
  "\<exists>v'. tbl_get (SSOSessions sample_store2) ''s1'' = Some v' \<and> \<not> ActiveAt v' (1000 + 2 * Hour)"
proof -
  from sample_session_row obtain v where v: "tbl_get (SSOSessions sample_store) ''s1'' = Some v"
    "sess_CreatedAt v = 1000" "\<not> ActiveAt v (1000 + Hour)" by blast
  have "\<exists>v'. tbl_get (SSOSessions sample_store2) ''s1'' = Some v' \<and> (\<forall>t\<ge>1000 + Hour. \<not> ActiveAt v' t)"
    by (rule session_never_revived [OF v(1) _ _ v(3) _ run_product])
       (simp_all add: v(2) duration_defs sample_product_call_def)
  then show ?thesis by (auto simp: duration_defs)
qed

definition sample_store3 :: MemoryUnitOfWorkSnapshot where
  "sample_store3 = result_or emptyMemoryUnitOfWorkSnapshot
     (ConsumeOIDCAuthenticationRequest sample_fingerprint sample_login 2000 sample_store)"

lemma consume_sample: "ConsumeOIDCAuthenticationRequest sample_fingerprint sample_login 2000 sample_store = Inr sample_store3"
  unfolding sample_store3_def by (rule result_or_Inr) code_simp

theorem oidc_request_consumed_once_witness:
  "\<exists>err. ConsumeOIDCAuthenticationRequest sample_fingerprint sample_login 3000 sample_store3 = Inl err"
  by (rule oidc_request_consumed_once [OF sample_reachable consume_sample, of "[]"]) simp_all

theorem session_policy_retained_witness:
  "\<exists>s' w p. InsertSSOSession (sample_session\<lparr>sess_ID := ''s2''\<rparr>) sample_store = Inr s' \<and>
    tbl_get (SSOSessions s') ''s2'' = Some w \<and> LifecyclePolicy w = (p, True)"
proof -
  let ?v = "sample_session\<lparr>sess_ID := ''s2''\<rparr>"
  have "InsertSSOSession ?v sample_store = Inr (result_or emptyMemoryUnitOfWorkSnapshot (InsertSSOSession ?v sample_store))"
    by (rule result_or_Inr) code_simp
  from session_policy_retained [OF this] this show ?thesis by auto
qed

end
