(* ===== verification/Unit_Of_Work.thy ===== *)
theory Unit_Of_Work
  imports Store_Properties "HOL-Library.Word"
begin

text \<open>
  The transaction protocol of \<^verbatim>\<open>internal/app/memory_uow.go\<close> and \<^verbatim>\<open>uow.go\<close>: a factory holds the
  committed snapshot and a \<^verbatim>\<open>uint64\<close> version, a unit works on a private copy, and a commit
  succeeds only when no other unit has committed since the copy was made. \<open>uow_step\<close> lets
  any number of units interleave; the main result is that the committed snapshot is always
  the sequential execution of the committed units in commit order. The mutexes make each of
  the methods one atomic step.
\<close>

section \<open>Factory and units\<close>

record MemoryUnitOfWorkFactory =
  fac_version :: "64 word"
  fac_state :: MemoryUnitOfWorkSnapshot

record memoryUnitOfWork =
  unit_version :: "64 word"
  unit_state :: MemoryUnitOfWorkSnapshot
  unit_closed :: bool

definition NewMemoryUnitOfWorkFactory :: MemoryUnitOfWorkFactory where
  "NewMemoryUnitOfWorkFactory = \<lparr>fac_version = 0, fac_state = emptyMemoryUnitOfWorkSnapshot\<rparr>"

definition BeginUnitOfWork :: "error option \<Rightarrow> MemoryUnitOfWorkFactory \<Rightarrow> memoryUnitOfWork result" where
  "BeginUnitOfWork ctxErr f =
    check_then ctxErr (Inr \<lparr>unit_version = fac_version f, unit_state = fac_state f, unit_closed = False\<rparr>)"

definition Commit ::
  "error option \<Rightarrow> memoryUnitOfWork \<Rightarrow> MemoryUnitOfWorkFactory \<Rightarrow>
     error option \<times> memoryUnitOfWork \<times> MemoryUnitOfWorkFactory" where
  "Commit ctxErr u f =
    (case ctxErr of Some e \<Rightarrow> (Some e, u, f)
     | None \<Rightarrow>
        (if unit_closed u then (Some ErrConflict, u, f)
         else if fac_version f \<noteq> unit_version u then (Some ErrConflict, u\<lparr>unit_closed := True\<rparr>, f)
         else (None, u\<lparr>unit_closed := True\<rparr>, f\<lparr>fac_state := unit_state u, fac_version := fac_version f + 1\<rparr>)))"

definition Rollback :: "memoryUnitOfWork \<Rightarrow> error option \<times> memoryUnitOfWork" where
  "Rollback u = (if unit_closed u then (Some ErrConflict, u) else (None, u\<lparr>unit_closed := True\<rparr>))"

definition mutate :: "error option \<Rightarrow> memoryUnitOfWork \<Rightarrow> repository_op \<Rightarrow> error option \<times> memoryUnitOfWork" where
  "mutate ctxErr u f =
    (case ctxErr of Some e \<Rightarrow> (Some e, u)
     | None \<Rightarrow>
        (if unit_closed u then (Some ErrConflict, u)
         else case f (unit_state u) of
            Inl e \<Rightarrow> (Some e, u)
          | Inr s \<Rightarrow> (None, u\<lparr>unit_state := s\<rparr>)))"

text \<open>
  \<^verbatim>\<open>ExecuteUnitOfWork\<close> of a command that makes a sequence of repository calls, outside any
  active unit: the deferred rollback runs unless the commit succeeded. \<open>ctx_err ctx n\<close> is the
  answer of the n-th \<^verbatim>\<open>ctx.Err()\<close>.
\<close>

fun command :: "go_context \<Rightarrow> nat \<Rightarrow> repo_call list \<Rightarrow> memoryUnitOfWork \<Rightarrow> error option \<times> memoryUnitOfWork" where
  "command ctx n [] u = (None, u)"
| "command ctx n (c # cs) u =
    (case mutate (ctx_err ctx n) u (exec c) of
       (Some e, u) \<Rightarrow> (Some e, u)
     | (None, u) \<Rightarrow> command ctx (n + 1) cs u)"

definition ExecuteUnitOfWork ::
  "go_context \<Rightarrow> repo_call list \<Rightarrow> MemoryUnitOfWorkFactory \<Rightarrow> error option \<times> MemoryUnitOfWorkFactory" where
  "ExecuteUnitOfWork ctx cs f =
    (case ctx_err ctx 0 of Some e \<Rightarrow> (Some e, f)
     | None \<Rightarrow>
        (case BeginUnitOfWork (ctx_err ctx 1) f of
           Inl e \<Rightarrow> (Some e, f)
         | Inr u \<Rightarrow>
            (case command ctx 2 cs u of
               (Some e, u) \<Rightarrow> (case Rollback u of _ \<Rightarrow> (Some e, f))
             | (None, u) \<Rightarrow>
                (case Commit (ctx_err ctx (2 + length cs)) u f of
                   (Some e, u, f) \<Rightarrow> (case Rollback u of _ \<Rightarrow> (Some e, f))
                 | (None, u, f) \<Rightarrow> (None, f)))))"

section \<open>A command is atomic\<close>

lemma mutate_None: "mutate e u f = (None, u') \<longleftrightarrow> e = None \<and> \<not> unit_closed u \<and>
    (\<exists>s. f (unit_state u) = Inr s \<and> u' = u\<lparr>unit_state := s\<rparr>)"
  by (auto simp: mutate_def split: option.splits if_splits sum.splits)

lemma command_None:
  "command ctx n cs u = (None, u') \<Longrightarrow> \<exists>s. run cs (unit_state u) = Inr s \<and> u' = u\<lparr>unit_state := s\<rparr>"
proof (induction ctx n cs u rule: command.induct)
  case (1 ctx n u)
  then show ?case by (cases u) simp
next
  case (2 ctx n c cs u)
  from "2.prems" obtain u1 where u1: "mutate (ctx_err ctx n) u (exec c) = (None, u1)" "command ctx (n + 1) cs u1 = (None, u')"
    by (auto split: prod.splits option.splits)
  from mutate_None [THEN iffD1, OF u1(1)] obtain s where s: "exec c (unit_state u) = Inr s" "u1 = u\<lparr>unit_state := s\<rparr>" by blast
  from "2.IH" [OF u1(1) [symmetric] _ u1(2)] s show ?case by auto
qed

text \<open>
  A command is all or nothing. When \<open>ExecuteUnitOfWork\<close> succeeds, the committed snapshot
  is the result of all calls of the command in order and the version is incremented; when it
  returns an error (a failed call, a cancellation, a conflict) the factory is unchanged.
\<close>

lemma execute_atomic:
  "case ExecuteUnitOfWork ctx cs f of
     (None, f') \<Rightarrow> run cs (fac_state f) = Inr (fac_state f') \<and> fac_version f' = fac_version f + 1
   | (Some e, f') \<Rightarrow> f' = f"
proof (cases "ctx_err ctx 0 = None \<and> ctx_err ctx 1 = None")
  case False
  then show ?thesis
    by (cases "ctx_err ctx 0"; cases "ctx_err ctx 1") (simp_all add: ExecuteUnitOfWork_def BeginUnitOfWork_def del: One_nat_def)
next
  case True
  let ?u = "\<lparr>unit_version = fac_version f, unit_state = fac_state f, unit_closed = False\<rparr>"
  obtain r u' where cmd: "command ctx 2 cs ?u = (r, u')" by fastforce
  show ?thesis
  proof (cases r)
    case (Some e)
    with True cmd show ?thesis by (simp add: ExecuteUnitOfWork_def BeginUnitOfWork_def del: One_nat_def)
  next
    case None
    with cmd command_None [of ctx 2 cs ?u u'] obtain s where s: "run cs (fac_state f) = Inr s" "u' = ?u\<lparr>unit_state := s\<rparr>"
      by auto
    with True cmd None show ?thesis
      by (cases "ctx_err ctx (2 + length cs)") (simp_all add: ExecuteUnitOfWork_def BeginUnitOfWork_def Commit_def del: One_nat_def)
  qed
qed

section \<open>Interleaved units\<close>

text \<open>
  A system is a factory and any number of units; \<open>calls\<close> records what an open unit has executed
  and \<open>history\<close> the calls of the committed units, in commit order. They observe the run and do
  not influence it.
\<close>

record system =
  factory :: MemoryUnitOfWorkFactory
  units :: "nat \<Rightarrow> memoryUnitOfWork option"
  calls :: "nat \<Rightarrow> repo_call list"
  history :: "repo_call list list"

definition initial_system :: system where
  "initial_system = \<lparr>factory = NewMemoryUnitOfWorkFactory, units = (\<lambda>_. None), calls = (\<lambda>_. []), history = []\<rparr>"

inductive uow_step :: "system \<Rightarrow> system \<Rightarrow> bool" where
  step_begin: "units y n = None \<Longrightarrow> BeginUnitOfWork e (factory y) = Inr u \<Longrightarrow>
    uow_step y (y\<lparr>units := (units y)(n \<mapsto> u), calls := (calls y)(n := [])\<rparr>)"
| step_call: "units y n = Some u \<Longrightarrow> coherent c \<Longrightarrow> mutate e u (exec c) = (None, u') \<Longrightarrow>
    uow_step y (y\<lparr>units := (units y)(n \<mapsto> u'), calls := (calls y)(n := calls y n @ [c])\<rparr>)"
| step_call_error: "units y n = Some u \<Longrightarrow> mutate e u (exec c) = (Some err, u') \<Longrightarrow>
    uow_step y (y\<lparr>units := (units y)(n \<mapsto> u')\<rparr>)"
| step_commit: "units y n = Some u \<Longrightarrow> Commit e u (factory y) = (None, u', f') \<Longrightarrow>
    uow_step y (y\<lparr>units := (units y)(n \<mapsto> u'), factory := f', history := history y @ [calls y n]\<rparr>)"
| step_commit_error: "units y n = Some u \<Longrightarrow> Commit e u (factory y) = (Some err, u', f') \<Longrightarrow>
    uow_step y (y\<lparr>units := (units y)(n \<mapsto> u'), factory := f'\<rparr>)"
| step_rollback: "units y n = Some u \<Longrightarrow> Rollback u = (r, u') \<Longrightarrow>
    uow_step y (y\<lparr>units := (units y)(n \<mapsto> u')\<rparr>)"

inductive uow_reachable :: "system \<Rightarrow> bool" where
  uow_init: "uow_reachable initial_system"
| uow_next: "uow_reachable y \<Longrightarrow> uow_step y y' \<Longrightarrow> uow_reachable y'"

definition serial :: "repo_call list list \<Rightarrow> MemoryUnitOfWorkSnapshot result" where
  "serial h = run (concat h) emptyMemoryUnitOfWorkSnapshot"

text \<open>An open unit is a run of its calls on the state after some prefix of the history.\<close>

definition unit_ok :: "system \<Rightarrow> nat \<Rightarrow> memoryUnitOfWork \<Rightarrow> bool" where
  "unit_ok y n u \<longleftrightarrow> list_all coherent (calls y n) \<and>
     (\<not> unit_closed u \<longrightarrow> (\<exists>k base. k \<le> length (history y) \<and> unit_version u = of_nat k \<and>
        serial (take k (history y)) = Inr base \<and> run (calls y n) base = Inr (unit_state u)))"

definition system_ok :: "system \<Rightarrow> bool" where
  "system_ok y \<longleftrightarrow> fac_version (factory y) = of_nat (length (history y)) \<and>
     serial (history y) = Inr (fac_state (factory y)) \<and> list_all (list_all coherent) (history y) \<and>
     (\<forall>n u. units y n = Some u \<longrightarrow> unit_ok y n u)"

lemma run_append: "run (cs @ ds) s = bind_result (run cs s) (run ds)"
proof (induction cs arbitrary: s)
  case (Cons c cs)
  then show ?case by (cases "exec c s") simp_all
qed simp

lemma serial_snoc: "serial (h @ [cs]) = bind_result (serial h) (run cs)"
  by (simp add: serial_def run_append)

lemma unit_ok_frame:
  "unit_ok y n u \<Longrightarrow> calls y' n = calls y n \<Longrightarrow> history y' = history y \<Longrightarrow> unit_ok y' n u"
  by (simp add: unit_ok_def)

lemma unit_ok_extend:
  assumes "unit_ok y n u" and "calls y' n = calls y n" and "history y' = history y @ [cs]"
  shows "unit_ok y' n u"
proof (cases "unit_closed u")
  case False
  with assms(1) obtain k base where k: "k \<le> length (history y)" "unit_version u = of_nat k"
    "serial (take k (history y)) = Inr base" "run (calls y n) base = Inr (unit_state u)"
    "list_all coherent (calls y n)" by (auto simp: unit_ok_def)
  then have "k \<le> length (history y')" "serial (take k (history y')) = Inr base" by (simp_all add: assms(3))
  with k assms(2) show ?thesis unfolding unit_ok_def by auto
qed (use assms in \<open>simp add: unit_ok_def\<close>)

lemma system_ok_unit:
  assumes ok: "system_ok y" and same: "factory y' = factory y" "history y' = history y"
    and others: "\<And>m. m \<noteq> n \<Longrightarrow> units y' m = units y m \<and> calls y' m = calls y m"
    and new: "\<And>v. units y' n = Some v \<Longrightarrow> unit_ok y' n v"
  shows "system_ok y'"
proof -
  have "unit_ok y' m v" if "units y' m = Some v" for m v
  proof (cases "m = n")
    case False
    with others [OF False] that ok have "unit_ok y m v" by (simp add: system_ok_def)
    then show ?thesis by (rule unit_ok_frame) (simp_all add: same others [OF False])
  qed (use that new in simp)
  with ok same show ?thesis by (simp add: system_ok_def)
qed

lemma unit_ok_closed: "unit_closed u \<Longrightarrow> list_all coherent (calls y n) \<Longrightarrow> unit_ok y n u"
  by (simp add: unit_ok_def)

lemma system_ok_step:
  assumes "uow_step y y'" and "system_ok y" and "length (history y) < 2 ^ 64"
  shows "system_ok y'"
  using assms(1)
proof (cases rule: uow_step.cases)
  case (step_begin n e u)
  then have u: "u = \<lparr>unit_version = fac_version (factory y), unit_state = fac_state (factory y), unit_closed = False\<rparr>"
    by (simp add: BeginUnitOfWork_def)
  have "unit_ok y' n u" using assms(2) unfolding step_begin(1) u unit_ok_def
    by (auto simp: system_ok_def intro!: exI [of _ "length (history y)"])
  with step_begin(1) show ?thesis by (intro system_ok_unit [OF assms(2), of y' n]) auto
next
  case (step_call n u c e u')
  from mutate_None [THEN iffD1, OF step_call(4)] obtain s where
    s: "\<not> unit_closed u" "exec c (unit_state u) = Inr s" "u' = u\<lparr>unit_state := s\<rparr>" by blast
  from assms(2) step_call(2) have "unit_ok y n u" by (simp add: system_ok_def)
  then have "unit_ok y' n u'" unfolding step_call(1) using s step_call(3)
    by (auto simp: unit_ok_def run_append)
  with step_call(1) show ?thesis by (intro system_ok_unit [OF assms(2), of y' n]) auto
next
  case (step_call_error n u e c err u')
  then have "u' = u" by (auto simp: mutate_def split: option.splits if_splits sum.splits)
  moreover from assms(2) step_call_error(2) have "unit_ok y n u" by (simp add: system_ok_def)
  ultimately show ?thesis using step_call_error(1)
    by (intro system_ok_unit [OF assms(2), of y' n]) (auto elim: unit_ok_frame)
next
  case (step_commit n u e u' f')
  then have c: "\<not> unit_closed u" "fac_version (factory y) = unit_version u" "u' = u\<lparr>unit_closed := True\<rparr>"
    "f' = (factory y)\<lparr>fac_state := unit_state u, fac_version := fac_version (factory y) + 1\<rparr>"
    by (auto simp: Commit_def split: option.splits if_splits)
  from assms(2) step_commit(2) have "unit_ok y n u" by (simp add: system_ok_def)
  with c(1) obtain k base where k: "k \<le> length (history y)" "unit_version u = of_nat k"
    "serial (take k (history y)) = Inr base" "run (calls y n) base = Inr (unit_state u)"
    and coh: "list_all coherent (calls y n)" unfolding unit_ok_def by blast
  have "(of_nat k :: 64 word) = of_nat (length (history y))" using assms(2) c(2) k(2) by (simp add: system_ok_def)
  then have "k = length (history y)"
    using assms(3) k(1) by (simp add: word_of_nat_eq_iff take_bit_eq_mod)
  with k assms(2) have "serial (history y @ [calls y n]) = Inr (unit_state u)"
    by (simp add: serial_snoc)
  moreover have "unit_ok y' m v" if "units y' m = Some v" for m v
  proof (cases "m = n")
    case True
    with that step_commit(1) c(3) coh show ?thesis by (auto intro!: unit_ok_closed)
  next
    case False
    with that step_commit(1) have "units y m = Some v" by simp
    with assms(2) have "unit_ok y m v" by (simp add: system_ok_def)
    then show ?thesis by (rule unit_ok_extend) (simp_all add: step_commit(1))
  qed
  ultimately show ?thesis
    using assms(2) coh unfolding system_ok_def step_commit(1) c(4) by simp
next
  case (step_commit_error n u e err u' f')
  then have f: "f' = factory y" and "u' = u \<or> unit_closed u'"
    by (auto simp: Commit_def split: option.splits if_splits)
  moreover from assms(2) step_commit_error(2) have "unit_ok y n u" by (simp add: system_ok_def)
  ultimately have "unit_ok y' n u'" unfolding step_commit_error(1) by (auto simp: unit_ok_def)
  with f step_commit_error(1) show ?thesis by (intro system_ok_unit [OF assms(2), of y' n]) auto
next
  case (step_rollback n u r u')
  then have "u' = u \<or> unit_closed u'" by (auto simp: Rollback_def split: if_splits)
  moreover from assms(2) step_rollback(2) have "unit_ok y n u" by (simp add: system_ok_def)
  ultimately have "unit_ok y' n u'" unfolding step_rollback(1) by (auto simp: unit_ok_def)
  with step_rollback(1) show ?thesis by (intro system_ok_unit [OF assms(2), of y' n]) auto
qed

lemma history_grows: "uow_step y y' \<Longrightarrow> length (history y) \<le> length (history y')"
  by (induction rule: uow_step.induct) simp_all

lemma uow_system_ok: "uow_reachable y \<Longrightarrow> length (history y) < 2 ^ 64 \<Longrightarrow> system_ok y"
proof (induction rule: uow_reachable.induct)
  case uow_init
  show ?case by (simp add: system_ok_def initial_system_def NewMemoryUnitOfWorkFactory_def serial_def)
next
  case (uow_next y y')
  with history_grows [OF uow_next.hyps(2)] have "length (history y) < 2 ^ 64" by linarith
  with uow_next show ?case by (blast intro: system_ok_step)
qed

text \<open>
  C8: interleaved units are serializable. However any number of units begin, call repositories,
  fail, roll back and commit, the committed snapshot equals the sequential execution, in commit
  order, of exactly the calls of the committed units; a unit based on a stale snapshot never
  commits. The bound excludes only a wrap-around of the 64-bit version.
\<close>

theorem units_serializable:
  assumes "uow_reachable y" and "length (history y) < 2 ^ 64"
  shows "run (concat (history y)) emptyMemoryUnitOfWorkSnapshot = Inr (fac_state (factory y))"
  using uow_system_ok [OF assms] by (simp add: system_ok_def serial_def)

text \<open>
  Storage invariants hold under concurrency. Every snapshot committed by interleaved units
  is a reachable snapshot of the repositories: its natural keys are unique and every row
  belongs to a stored tenant.
\<close>

lemma committed_snapshot_ok:
  assumes "uow_reachable y" and "length (history y) < 2 ^ 64"
  shows "reachable (fac_state (factory y)) \<and> natural_keys (fac_state (factory y)) \<and>
    registry_ok (registered (fac_state (factory y)))"
proof -
  from uow_system_ok [OF assms] have "reachable (fac_state (factory y))"
    unfolding system_ok_def serial_def
    by (elim conjE run_reachable) (auto simp: list_all_iff intro: reach_empty)
  then show ?thesis using reachable_ok natural_keys_reachable by blast
qed

section \<open>Witnesses\<close>

definition sample_tenant_call :: repo_call where
  "sample_tenant_call = DoInsertTenant \<lparr>tenant_ID = ''t1'', tenant_Name = ''acme'', tenant_CreatedAt = 1000\<rparr>"

definition tenant_store :: MemoryUnitOfWorkSnapshot where
  "tenant_store = emptyMemoryUnitOfWorkSnapshot\<lparr>Tenants :=
     [(''t1'', \<lparr>tenant_ID = ''t1'', tenant_Name = ''acme'', tenant_CreatedAt = 1000\<rparr>)]\<rparr>"

lemma tenant_call: "exec sample_tenant_call emptyMemoryUnitOfWorkSnapshot = Inr tenant_store"
  by (simp add: sample_tenant_call_def tenant_store_def InsertTenant_def emptyMemoryUnitOfWorkSnapshot_def tbl_put_def)

text \<open>One unit begins, inserts a tenant and commits.\<close>

lemma committed_system: "\<exists>y. uow_reachable y \<and> history y = [[sample_tenant_call]]"
proof -
  let ?u = "\<lparr>unit_version = 0, unit_state = emptyMemoryUnitOfWorkSnapshot, unit_closed = False\<rparr>"
  let ?y1 = "initial_system\<lparr>units := (units initial_system)(0 \<mapsto> ?u), calls := (calls initial_system)(0 := [])\<rparr>"
  let ?v = "?u\<lparr>unit_state := tenant_store\<rparr>"
  let ?y2 = "?y1\<lparr>units := (units ?y1)(0 \<mapsto> ?v), calls := (calls ?y1)(0 := calls ?y1 0 @ [sample_tenant_call])\<rparr>"
  let ?f = "\<lparr>fac_version = 1, fac_state = tenant_store\<rparr>"
  let ?y3 = "?y2\<lparr>units := (units ?y2)(0 \<mapsto> ?v\<lparr>unit_closed := True\<rparr>), factory := ?f, history := history ?y2 @ [calls ?y2 0]\<rparr>"
  have "uow_step initial_system ?y1"
    by (rule step_begin [where e = None])
       (simp_all add: initial_system_def NewMemoryUnitOfWorkFactory_def BeginUnitOfWork_def)
  moreover have "uow_step ?y1 ?y2"
    by (rule step_call [where e = None and u = ?u])
       (simp_all add: mutate_def tenant_call, simp add: sample_tenant_call_def)
  moreover have "uow_step ?y2 ?y3"
    by (rule step_commit [where e = None and u = ?v])
       (simp_all add: Commit_def initial_system_def NewMemoryUnitOfWorkFactory_def)
  ultimately have "uow_reachable ?y3" by (blast intro: uow_init uow_next)
  moreover have "history ?y3 = [[sample_tenant_call]]" by (simp add: initial_system_def)
  ultimately show ?thesis by blast
qed

theorem units_serializable_witness:
  "\<exists>y. uow_reachable y \<and> history y = [[sample_tenant_call]] \<and>
    run [sample_tenant_call] emptyMemoryUnitOfWorkSnapshot = Inr (fac_state (factory y))"
proof -
  from committed_system obtain y where y: "uow_reachable y" "history y = [[sample_tenant_call]]" by blast
  with units_serializable [OF y(1)] show ?thesis by auto
qed

lemma committed_snapshot_sample:
  "\<exists>y. uow_reachable y \<and> history y = [[sample_tenant_call]] \<and> natural_keys (fac_state (factory y))"
proof -
  from committed_system obtain y where y: "uow_reachable y" "history y = [[sample_tenant_call]]" by blast
  with committed_snapshot_ok [OF y(1)] show ?thesis by auto
qed

end
