(* ===== verification/Idempotency_Keys.thy ===== *)
theory Idempotency_Keys
  imports Prelude
begin

text \<open>
  Storage keys of idempotency records (\<^verbatim>\<open>internal/app/idempotency_keys.go\<close>): five request
  coordinates, each in unpadded URL-safe base64, joined by dots. The base64 codec of the
  standard library is modelled on bytes; its decoder skips line breaks and ignores the unused
  bits of a final partial group, as \<^verbatim>\<open>encoding/base64\<close> documents for non-strict encodings.
\<close>

section \<open>Unpadded URL-safe base64\<close>

definition b64_alphabet :: string where
  "b64_alphabet = ''ABCDEFGHIJKLMNOPQRSTUVWXYZabcdefghijklmnopqrstuvwxyz0123456789-_''"

definition b64_char :: "nat \<Rightarrow> char" where
  "b64_char n = b64_alphabet ! n"

fun index_of :: "'a list \<Rightarrow> 'a \<Rightarrow> nat option" where
  "index_of [] c = None"
| "index_of (x # xs) c = (if x = c then Some 0 else map_option Suc (index_of xs c))"

definition b64_value :: "char \<Rightarrow> nat option" where
  "b64_value c = index_of b64_alphabet c"

fun b64_encode :: "nat list \<Rightarrow> string" where
  "b64_encode [] = []"
| "b64_encode [a] = map b64_char [a div 4, a mod 4 * 16]"
| "b64_encode [a, b] = map b64_char [a div 4, a mod 4 * 16 + b div 16, b mod 16 * 4]"
| "b64_encode (a # b # c # r) =
     map b64_char [a div 4, a mod 4 * 16 + b div 16, b mod 16 * 4 + c div 64, c mod 64] @ b64_encode r"

fun b64_groups :: "nat list \<Rightarrow> nat list option" where
  "b64_groups [] = Some []"
| "b64_groups [p] = None"
| "b64_groups [p, q] = Some [p * 4 + q div 16]"
| "b64_groups [p, q, r] = Some [p * 4 + q div 16, q mod 16 * 16 + r div 4]"
| "b64_groups (p # q # r # s # t) =
     map_option (\<lambda>u. [p * 4 + q div 16, q mod 16 * 16 + r div 4, r mod 4 * 64 + s] @ u) (b64_groups t)"

fun b64_values :: "string \<Rightarrow> nat list option" where
  "b64_values [] = Some []"
| "b64_values (c # s) =
    (case b64_value c of
       None \<Rightarrow> None
     | Some n \<Rightarrow> map_option (\<lambda>ns. n # ns) (b64_values s))"

definition b64_decode :: "string \<Rightarrow> nat list option" where
  "b64_decode s = Option.bind (b64_values (filter (\<lambda>c. c \<noteq> CHR 0x0A \<and> c \<noteq> CHR 0x0D) s)) b64_groups"

definition EncodeToString :: "string \<Rightarrow> string" where
  "EncodeToString s = b64_encode (map byte s)"

definition DecodeString :: "string \<Rightarrow> string option" where
  "DecodeString s = map_option (map char_of) (b64_decode s)"

section \<open>Record keys\<close>

record IdempotencyRecordKey =
  ik_TenantID :: string
  ik_ActorID :: string
  ik_Method :: string
  ik_Path :: string
  ik_IdempotencyKey :: string

text \<open>\<^verbatim>\<open>strings.Split\<close> with a one-byte separator, and \<^verbatim>\<open>strings.Join\<close>.\<close>

fun split_on :: "char \<Rightarrow> string \<Rightarrow> string list" where
  "split_on sep [] = [[]]"
| "split_on sep (c # s) =
    (if c = sep then [] # split_on sep s
     else case split_on sep s of p # ps \<Rightarrow> (c # p) # ps | [] \<Rightarrow> [[c]])"

fun join :: "char \<Rightarrow> string list \<Rightarrow> string" where
  "join sep [] = []"
| "join sep [p] = p"
| "join sep (p # q # ps) = p @ sep # join sep (q # ps)"

definition NewIdempotencyRecordKey :: "string \<Rightarrow> string \<Rightarrow> string \<Rightarrow> string \<Rightarrow> string \<Rightarrow> string" where
  "NewIdempotencyRecordKey tenantID actorID meth path key =
    ''v2:'' @ join CHR ''.'' (map EncodeToString [tenantID, actorID, meth, path, key])"

definition idempotencyRecordKeyFromParts :: "string list \<Rightarrow> IdempotencyRecordKey option" where
  "idempotencyRecordKeyFromParts parts =
    (if length parts \<noteq> 5 \<or> parts ! 0 = [] \<or> parts ! 1 = [] \<or> parts ! 4 = [] then None
     else Some \<lparr>ik_TenantID = parts ! 0, ik_ActorID = parts ! 1, ik_Method = parts ! 2, ik_Path = parts ! 3,
       ik_IdempotencyKey = parts ! 4\<rparr>)"

fun decode_parts :: "string list \<Rightarrow> string list option" where
  "decode_parts [] = Some []"
| "decode_parts (p # ps) =
    (case DecodeString p of
       None \<Rightarrow> None
     | Some raw \<Rightarrow> map_option (\<lambda>rs. raw # rs) (decode_parts ps))"

definition ParseIdempotencyRecordKey :: "string \<Rightarrow> IdempotencyRecordKey option" where
  "ParseIdempotencyRecordKey v =
    (let v = TrimSpace v in
     if prefix ''v2:'' v then
       (let parts = split_on CHR ''.'' (drop 3 v) in
        if length parts \<noteq> 5 then None
        else Option.bind (decode_parts parts) idempotencyRecordKeyFromParts)
     else idempotencyRecordKeyFromParts (split_on CHR 0x00 v))"

section \<open>The codec round trip\<close>

lemma length_alphabet: "length b64_alphabet = 64"
  by (simp add: b64_alphabet_def)

lemma distinct_alphabet: "distinct b64_alphabet"
  by (simp add: b64_alphabet_def)

lemma index_of_nth: "distinct xs \<Longrightarrow> n < length xs \<Longrightarrow> index_of xs (xs ! n) = Some n"
  by (induction xs arbitrary: n) (auto simp: nth_Cons split: nat.splits)

lemma b64_value_char [simp]: "n < 64 \<Longrightarrow> b64_value (b64_char n) = Some n"
  using index_of_nth [OF distinct_alphabet] by (simp add: b64_value_def b64_char_def length_alphabet)

lemma alphabet_graphic: "list_all (\<lambda>c. graphic c \<and> c \<noteq> CHR ''.'' \<and> c \<noteq> CHR 0x0A \<and> c \<noteq> CHR 0x0D) b64_alphabet"
  by (simp add: b64_alphabet_def graphic_def byte_def)

lemma b64_char_plain [simp]:
  "n < 64 \<Longrightarrow> graphic (b64_char n)" "n < 64 \<Longrightarrow> b64_char n \<noteq> CHR ''.''"
  "n < 64 \<Longrightarrow> b64_char n \<noteq> CHR 0x0A" "n < 64 \<Longrightarrow> b64_char n \<noteq> CHR 0x0D"
  using alphabet_graphic length_alphabet by (auto simp: list_all_length b64_char_def)

lemma sextets [simp]:
  fixes a b :: nat
  shows "a < 256 \<Longrightarrow> a div 4 < 64" "a mod 4 * 16 < 64" "b < 256 \<Longrightarrow> a mod 4 * 16 + b div 16 < 64" "a mod 16 * 4 < 64"
    "b < 256 \<Longrightarrow> a mod 16 * 4 + b div 64 < 64" "a mod 64 < 64"
proof -
  have m: "a mod 4 \<le> 3" "a mod 16 \<le> 15" by (simp_all add: mod_less_eq_dividend less_Suc_eq_le [symmetric])
  show "a < 256 \<Longrightarrow> a div 4 < 64" by (simp add: less_mult_imp_div_less)
  show "a mod 4 * 16 < 64" "a mod 16 * 4 < 64" "a mod 64 < 64" using m by auto
  assume b: "b < 256"
  then have "b div 16 < 16" "b div 64 < 4" by (simp_all add: less_mult_imp_div_less)
  with m show "a mod 4 * 16 + b div 16 < 64" "a mod 16 * 4 + b div 64 < 64" by linarith+
qed

lemma b64_values_append: "b64_values (s @ t) =
    Option.bind (b64_values s) (\<lambda>m. map_option (\<lambda>n. m @ n) (b64_values t))"
  by (induction s) (auto split: option.splits simp: option.map_comp comp_def map_option_case)

definition b64_plain :: "char \<Rightarrow> bool" where
  "b64_plain c \<longleftrightarrow> graphic c \<and> c \<noteq> CHR ''.'' \<and> c \<noteq> CHR 0x0A \<and> c \<noteq> CHR 0x0D"

lemma b64_char_is_plain [simp]: "n < 64 \<Longrightarrow> b64_plain (b64_char n)"
  by (simp add: b64_plain_def)

lemma b64_encode_plain: "list_all (\<lambda>b. b < 256) bs \<Longrightarrow> list_all b64_plain (b64_encode bs)"
  by (induction bs rule: b64_encode.induct) simp_all

lemma b64_roundtrip: "list_all (\<lambda>b. b < 256) bs \<Longrightarrow> b64_decode (b64_encode bs) = Some bs"
proof -
  assume bs: "list_all (\<lambda>b. b < 256) bs"
  from b64_encode_plain [OF bs] have "filter (\<lambda>c. c \<noteq> CHR 0x0A \<and> c \<noteq> CHR 0x0D) (b64_encode bs) = b64_encode bs"
    by (auto intro!: filter_True simp: list_all_iff b64_plain_def)
  moreover from bs have "Option.bind (b64_values (b64_encode bs)) b64_groups = Some bs"
  proof (induction bs rule: b64_encode.induct)
    case (3 a b)
    then have "b div 16 < 16" by (simp add: less_mult_imp_div_less)
    with 3 show ?case by simp
  next
    case (4 a b c r)
    then obtain m where m: "b64_values (b64_encode r) = Some m" "b64_groups m = Some r"
      by (cases "b64_values (b64_encode r)") auto
    have "b div 16 < 16" "c div 64 < 4" using 4 by (simp_all add: less_mult_imp_div_less)
    with m 4 show ?case by (simp add: b64_values_append)
  qed simp_all
  ultimately show ?thesis by (simp add: b64_decode_def)
qed

lemma DecodeString_EncodeToString [simp]: "DecodeString (EncodeToString s) = Some s"
proof -
  have "list_all (\<lambda>b. b < 256) (map byte s)" by (auto simp: list_all_iff byte_def)
  then show ?thesis by (simp add: DecodeString_def EncodeToString_def b64_roundtrip comp_def byte_def)
qed

section \<open>The key round trip\<close>

lemma EncodeToString_plain: "c \<in> set (EncodeToString s) \<Longrightarrow> graphic c \<and> c \<noteq> CHR ''.''"
  using b64_encode_plain [of "map byte s"] by (auto simp: EncodeToString_def list_all_iff byte_def b64_plain_def)

lemma EncodeToString_Nil_iff: "EncodeToString s = [] \<longleftrightarrow> s = []"
  by (cases "map byte s" rule: b64_encode.cases) (auto simp: EncodeToString_def)

lemma split_on_plain: "sep \<notin> set p \<Longrightarrow> split_on sep p = [p]"
  by (induction p) auto

lemma split_on_append: "sep \<notin> set p \<Longrightarrow> split_on sep (p @ sep # s) = p # split_on sep s"
  by (induction p) auto

lemma split_join: "ps \<noteq> [] \<Longrightarrow> list_all (\<lambda>p. sep \<notin> set p) ps \<Longrightarrow> split_on sep (join sep ps) = ps"
  by (induction sep ps rule: join.induct) (simp_all add: split_on_plain split_on_append)

lemma decode_parts_encoded: "decode_parts (map EncodeToString ss) = Some ss"
  by (induction ss) simp_all

text \<open>
  C18: storage keys are unambiguous. Parsing a key built from five coordinates returns exactly
  these coordinates, whatever bytes they contain (separators, NULs, spaces), as long as tenant,
  actor and client key are not empty.
\<close>

theorem idempotency_key_roundtrip:
  assumes "tenant \<noteq> []" and "actor \<noteq> []" and "key \<noteq> []"
  shows "ParseIdempotencyRecordKey (NewIdempotencyRecordKey tenant actor meth path key) =
    Some \<lparr>ik_TenantID = tenant, ik_ActorID = actor, ik_Method = meth, ik_Path = path, ik_IdempotencyKey = key\<rparr>"
proof -
  let ?ps = "map EncodeToString [tenant, actor, meth, path, key]"
  let ?v = "NewIdempotencyRecordKey tenant actor meth path key"
  have "last ?v = last (EncodeToString key)"
    using assms(3) by (simp add: NewIdempotencyRecordKey_def EncodeToString_Nil_iff)
  moreover have "last (EncodeToString key) \<in> set (EncodeToString key)"
    using assms(3) EncodeToString_Nil_iff by (metis last_in_set)
  ultimately have "graphic (last ?v)" using EncodeToString_plain by simp
  then have "edge_safe ?v" by (simp add: edge_safe_def NewIdempotencyRecordKey_def graphic_def byte_def)
  then have trim: "TrimSpace ?v = ?v" by simp
  have "split_on CHR ''.'' (join CHR ''.'' ?ps) = ?ps"
    by (rule split_join) (auto dest: EncodeToString_plain)
  then have "split_on CHR ''.'' (drop 3 ?v) = ?ps" by (simp add: NewIdempotencyRecordKey_def del: list.map)
  with assms show ?thesis
    unfolding ParseIdempotencyRecordKey_def Let_def trim
    by (simp add: decode_parts_encoded idempotencyRecordKeyFromParts_def NewIdempotencyRecordKey_def [of tenant])
qed

theorem idempotency_key_roundtrip_witness:
  "ParseIdempotencyRecordKey (NewIdempotencyRecordKey ''t.1'' ''user:u'' ''POST'' ''/v1'' ''k 1'') =
    Some \<lparr>ik_TenantID = ''t.1'', ik_ActorID = ''user:u'', ik_Method = ''POST'', ik_Path = ''/v1'', ik_IdempotencyKey = ''k 1''\<rparr>"
  by (rule idempotency_key_roundtrip) simp_all

end
