(* ===== verification/Idempotency.thy ===== *)
theory Idempotency
  imports Idempotency_Keys Rows Actors
begin

text \<open>
  Idempotent commands: the record life cycle of \<^verbatim>\<open>internal/app/idempotency.go\<close>, its repository
  in \<^verbatim>\<open>memory_uow.go\<close> and the executor of \<^verbatim>\<open>idempotency_unit_of_work.go\<close>, which runs a command
  and stores its replay record in one transaction. A ledger is the committed state: known
  tenants, idempotency records and the state \<open>'b\<close> that commands change. The redaction of a
  response before it is stored (\<^verbatim>\<open>safeIdempotencyReplayResponse\<close>), the command, the
  authorization checks, the clock readings and a failing commit are arguments.
\<close>

section \<open>Records and reservations\<close>

definition IdempotencyPending :: string where "IdempotencyPending = ''pending''"
definition IdempotencyCompleted :: string where "IdempotencyCompleted = ''completed''"
definition IdempotencyFailed :: string where "IdempotencyFailed = ''failed''"

lemmas idempotency_states = IdempotencyPending_def IdempotencyCompleted_def IdempotencyFailed_def

definition defaultIdempotencyLease :: duration where "defaultIdempotencyLease = 2 * Minute"
definition defaultIdempotencyRetention :: duration where "defaultIdempotencyRetention = 24 * Hour"

record IdempotencyRecord =
  ir_State :: string
  ir_RequestHash :: string
  ir_OwnerTokenHash :: string
  ir_Status :: int
  ir_Response :: json
  ir_CreatedAt :: time
  ir_UpdatedAt :: time
  ir_LeaseExpiresAt :: "time option"
  ir_CompletedAt :: "time option"
  ir_FailedAt :: "time option"
  ir_ExpiresAt :: time

record IdempotencyReservation =
  res_Key :: IdempotencyRecordKey
  res_RequestHash :: string
  res_OwnerTokenHash :: string
  res_Now :: time
  res_LeaseExpiresAt :: time
  res_ExpiresAt :: time

datatype IdempotencyReservationOutcome =
    IdempotencyReservationAcquired
  | IdempotencyReservationRecovered
  | IdempotencyReservationReplay
  | IdempotencyReservationPending
  | IdempotencyReservationFailure

definition validateIdempotencyKey :: "IdempotencyRecordKey \<Rightarrow> error option" where
  "validateIdempotencyKey key =
    (if TrimSpace (ik_TenantID key) = [] \<or> TrimSpace (ik_ActorID key) = [] \<or> TrimSpace (ik_Method key) = [] \<or>
        TrimSpace (ik_Path key) = [] \<or> TrimSpace (ik_IdempotencyKey key) = []
     then Some ErrValidation else None)"

text \<open>\<open>owner\<close> is the digest of the freshly generated owner token.\<close>

definition newIdempotencyReservation ::
  "IdempotencyRecordKey \<Rightarrow> string \<Rightarrow> time \<Rightarrow> string \<Rightarrow> IdempotencyReservation result" where
  "newIdempotencyReservation key requestHash now owner =
    (if validateIdempotencyKey key \<noteq> None \<or> TrimSpace requestHash = [] \<or> is_zero_time now then Inl ErrValidation
     else Inr \<lparr>res_Key = key, res_RequestHash = requestHash, res_OwnerTokenHash = owner, res_Now = now,
       res_LeaseExpiresAt = now + defaultIdempotencyLease, res_ExpiresAt = now + defaultIdempotencyRetention\<rparr>)"

definition validateIdempotencyReservation :: "IdempotencyReservation \<Rightarrow> error option" where
  "validateIdempotencyReservation r =
    (if validateIdempotencyKey (res_Key r) \<noteq> None \<or> TrimSpace (res_RequestHash r) = [] \<or>
        TrimSpace (res_OwnerTokenHash r) = [] \<or> is_zero_time (res_Now r) \<or> is_zero_time (res_LeaseExpiresAt r) \<or>
        is_zero_time (res_ExpiresAt r) \<or> \<not> res_LeaseExpiresAt r > res_Now r \<or> \<not> res_ExpiresAt r > res_Now r
     then Some ErrValidation else None)"

type_synonym redactor = "json \<Rightarrow> json result"

definition normalizeLegacyIdempotencyRecord :: "redactor \<Rightarrow> IdempotencyRecord \<Rightarrow> IdempotencyRecord result" where
  "normalizeLegacyIdempotencyRecord safe v =
    (if TrimSpace (ir_RequestHash v) = [] \<or> is_zero_time (ir_CreatedAt v) \<or> ir_Status v < 100 \<or> ir_Status v > 599
     then Inl ErrValidation
     else let v = (if ir_State v = [] then v\<lparr>ir_State := IdempotencyCompleted\<rparr> else v) in
     if ir_State v \<noteq> IdempotencyCompleted then Inl ErrValidation
     else let v = (if is_zero_time (ir_UpdatedAt v) then v\<lparr>ir_UpdatedAt := ir_CreatedAt v\<rparr> else v);
              v = (if ir_CompletedAt v = None then v\<lparr>ir_CompletedAt := Some (ir_CreatedAt v)\<rparr> else v);
              v = (if is_zero_time (ir_ExpiresAt v)
                   then v\<lparr>ir_ExpiresAt := ir_CreatedAt v + defaultIdempotencyRetention\<rparr> else v) in
     bind_result (safe (ir_Response v)) (\<lambda>safeResponse.
       Inr (v\<lparr>ir_Response := safeResponse, ir_OwnerTokenHash := [], ir_LeaseExpiresAt := None, ir_FailedAt := None\<rparr>)))"

definition replayableIdempotencyRecord :: "redactor \<Rightarrow> IdempotencyRecord \<Rightarrow> IdempotencyRecord result" where
  "replayableIdempotencyRecord safe v =
    (if ir_State v = [] then normalizeLegacyIdempotencyRecord safe v
     else if ir_State v \<noteq> IdempotencyCompleted \<or> TrimSpace (ir_RequestHash v) = [] \<or> ir_Status v < 100 \<or>
        ir_Status v > 599 \<or> is_zero_time (ir_ExpiresAt v)
     then Inl ErrValidation
     else bind_result (safe (ir_Response v)) (\<lambda>safeResponse. Inr (v\<lparr>ir_Response := safeResponse\<rparr>)))"

definition pendingIdempotencyRecord :: "IdempotencyReservation \<Rightarrow> IdempotencyRecord" where
  "pendingIdempotencyRecord r =
    \<lparr>ir_State = IdempotencyPending, ir_RequestHash = res_RequestHash r, ir_OwnerTokenHash = res_OwnerTokenHash r,
     ir_Status = 0, ir_Response = JNull, ir_CreatedAt = res_Now r, ir_UpdatedAt = res_Now r,
     ir_LeaseExpiresAt = Some (res_LeaseExpiresAt r), ir_CompletedAt = None, ir_FailedAt = None,
     ir_ExpiresAt = res_ExpiresAt r\<rparr>"

definition recoveredPendingIdempotencyRecord :: "IdempotencyRecord \<Rightarrow> IdempotencyReservation \<Rightarrow> IdempotencyRecord" where
  "recoveredPendingIdempotencyRecord previous r =
    (pendingIdempotencyRecord r)\<lparr>ir_CreatedAt := ir_CreatedAt previous, ir_ExpiresAt := ir_ExpiresAt previous\<rparr>"

section \<open>The repository\<close>

record 'b ledger =
  led_tenants :: "string list"
  led_records :: "(IdempotencyRecordKey, IdempotencyRecord) table"
  led_business :: 'b

definition ledger_tenant :: "'b ledger \<Rightarrow> string \<Rightarrow> error option" where
  "ledger_tenant L t = (if t = [] then Some ErrValidation else if t \<in> set (led_tenants L) then None else Some ErrNotFound)"

definition Reserve ::
  "redactor \<Rightarrow> IdempotencyReservation \<Rightarrow> 'b ledger \<Rightarrow>
     (IdempotencyReservationOutcome \<times> IdempotencyRecord \<times> 'b ledger) result" where
  "Reserve safe r L =
    check_then (validateIdempotencyReservation r)
    (check_then (ledger_tenant L (ik_TenantID (res_Key r)))
    (let acquire = (let pending = pendingIdempotencyRecord r in
           Inr (IdempotencyReservationAcquired, pending, L\<lparr>led_records := tbl_put (led_records L) (res_Key r) pending\<rparr>)) in
     case tbl_get (led_records L) (res_Key r) of
       None \<Rightarrow> acquire
     | Some stored \<Rightarrow>
        bind_result (if ir_State stored = [] then normalizeLegacyIdempotencyRecord safe stored else Inr stored) (\<lambda>v.
        if ir_ExpiresAt v > res_Now r then
          (if ir_RequestHash v \<noteq> res_RequestHash r then Inl ErrIdempotencyConflict
           else if ir_State v = IdempotencyCompleted then Inr (IdempotencyReservationReplay, v, L)
           else if ir_State v = IdempotencyFailed then Inr (IdempotencyReservationFailure, v, L)
           else if ir_State v = IdempotencyPending then
             (if (case ir_LeaseExpiresAt v of Some t \<Rightarrow> t > res_Now r | None \<Rightarrow> False)
              then Inr (IdempotencyReservationPending, v, L)
              else let recovered = recoveredPendingIdempotencyRecord v r in
                Inr (IdempotencyReservationRecovered, recovered,
                  L\<lparr>led_records := tbl_put (led_records L) (res_Key r) recovered\<rparr>))
           else Inl ErrValidation)
        else acquire)))"

definition Complete ::
  "IdempotencyRecordKey \<Rightarrow> string \<Rightarrow> int \<Rightarrow> json \<Rightarrow> time \<Rightarrow> 'b ledger \<Rightarrow> 'b ledger result" where
  "Complete key owner status response now L =
    (if validateIdempotencyKey key \<noteq> None \<or> owner = [] \<or> status < 100 \<or> status > 599 \<or> is_zero_time now
     then Inl ErrValidation
     else check_then (ledger_tenant L (ik_TenantID key))
     (case tbl_get (led_records L) key of
        None \<Rightarrow> Inl ErrConflict
      | Some v \<Rightarrow>
         (if ir_State v \<noteq> IdempotencyPending \<or> ir_OwnerTokenHash v \<noteq> owner then Inl ErrConflict
          else Inr (L\<lparr>led_records := tbl_put (led_records L) key
            (v\<lparr>ir_State := IdempotencyCompleted, ir_OwnerTokenHash := [], ir_Status := status, ir_Response := response,
               ir_UpdatedAt := now, ir_LeaseExpiresAt := None, ir_CompletedAt := Some now, ir_FailedAt := None\<rparr>)\<rparr>))))"

definition Fail :: "IdempotencyRecordKey \<Rightarrow> string \<Rightarrow> time \<Rightarrow> 'b ledger \<Rightarrow> 'b ledger result" where
  "Fail key owner now L =
    (if validateIdempotencyKey key \<noteq> None \<or> owner = [] \<or> is_zero_time now then Inl ErrValidation
     else check_then (ledger_tenant L (ik_TenantID key))
     (case tbl_get (led_records L) key of
        None \<Rightarrow> Inl ErrConflict
      | Some v \<Rightarrow>
         (if ir_State v \<noteq> IdempotencyPending \<or> ir_OwnerTokenHash v \<noteq> owner then Inl ErrConflict
          else Inr (L\<lparr>led_records := tbl_put (led_records L) key
            (v\<lparr>ir_State := IdempotencyFailed, ir_OwnerTokenHash := [], ir_Status := 0, ir_Response := JNull,
               ir_UpdatedAt := now, ir_LeaseExpiresAt := None, ir_CompletedAt := None, ir_FailedAt := Some now\<rparr>)\<rparr>))))"

definition DeleteExpired :: "time \<Rightarrow> 'b ledger \<Rightarrow> 'b ledger result" where
  "DeleteExpired now L =
    (if is_zero_time now then Inl ErrValidation
     else Inr (L\<lparr>led_records := tbl_filter (\<lambda>v. \<not> (\<not> is_zero_time (ir_ExpiresAt v) \<and> \<not> ir_ExpiresAt v > now))
       (led_records L)\<rparr>))"

section \<open>The executor\<close>

record 'b executor =
  ex_Authorize :: "'b ledger \<Rightarrow> error option"
  ex_AuthorizeReplay :: "('b ledger \<Rightarrow> json \<Rightarrow> error option) option"
  ex_safe :: redactor
  ex_prepare :: "'b ledger \<Rightarrow> ('b \<Rightarrow> (int \<times> json \<times> 'b) result) option result"
  ex_completedAt :: time
  ex_failedAt :: time
  ex_retryable :: "error \<Rightarrow> bool"
  ex_commit :: "error option"
  ex_failCommit :: "error option"

record idempotencyExecution =
  exe_status :: int
  exe_response :: json
  exe_executed :: bool

text \<open>
  The callback that \<^verbatim>\<open>withReservation\<close> passes to \<^verbatim>\<open>ExecuteUnitOfWork\<close>: the error of the command
  is kept apart from the other errors, and a success carries the unit's ledger.
\<close>

datatype 'b tx_result =
    TxError error
  | TxCommandError error
  | TxOk IdempotencyReservationOutcome IdempotencyRecord int json "'b ledger"

definition reservation_tx :: "'b executor \<Rightarrow> IdempotencyReservation \<Rightarrow> 'b ledger \<Rightarrow> 'b tx_result" where
  "reservation_tx ex r L =
    (case ex_Authorize ex L of
       Some e \<Rightarrow> TxError e
     | None \<Rightarrow>
        (case Reserve (ex_safe ex) r L of
           Inl e \<Rightarrow> TxError e
         | Inr (outcome, v, L1) \<Rightarrow>
            (case outcome of
               IdempotencyReservationReplay \<Rightarrow>
                 (case ex_AuthorizeReplay ex of
                    None \<Rightarrow> TxOk outcome v 0 JNull L1
                  | Some authorize \<Rightarrow>
                     (case replayableIdempotencyRecord (ex_safe ex) v of
                        Inl e \<Rightarrow> TxError e
                      | Inr w \<Rightarrow> (case authorize L1 (ir_Response w) of
                           Some e \<Rightarrow> TxError e | None \<Rightarrow> TxOk outcome v 0 JNull L1)))
             | IdempotencyReservationPending \<Rightarrow> TxOk outcome v 0 JNull L1
             | IdempotencyReservationFailure \<Rightarrow> TxOk outcome v 0 JNull L1
             | _ \<Rightarrow>
                 (case ex_prepare ex L1 of
                    Inl e \<Rightarrow> TxError e
                  | Inr None \<Rightarrow> TxError ErrValidation
                  | Inr (Some run) \<Rightarrow>
                     (case run (led_business L1) of
                        Inl e \<Rightarrow> TxCommandError e
                      | Inr (status, response, b) \<Rightarrow>
                         (case ex_safe ex response of
                            Inl e \<Rightarrow> TxError e
                          | Inr replay \<Rightarrow>
                             (case Complete (res_Key r) (res_OwnerTokenHash r) status replay (ex_completedAt ex)
                                 (L1\<lparr>led_business := b\<rparr>) of
                                Inl e \<Rightarrow> TxError e
                              | Inr L2 \<Rightarrow> TxOk outcome v status response L2)))))))"

definition persistFailure :: "'b executor \<Rightarrow> IdempotencyReservation \<Rightarrow> 'b ledger \<Rightarrow> 'b ledger" where
  "persistFailure ex r L =
    (case Reserve (ex_safe ex) r L of
       Inl e \<Rightarrow> L
     | Inr (outcome, v, L1) \<Rightarrow>
        (if outcome = IdempotencyReservationAcquired \<or> outcome = IdempotencyReservationRecovered then
           (case Fail (res_Key r) (res_OwnerTokenHash r) (ex_failedAt ex) L1 of
              Inl e \<Rightarrow> L
            | Inr L2 \<Rightarrow> (if ex_failCommit ex = None then L2 else L))
         else (if ex_failCommit ex = None then L1 else L)))"

definition withReservation ::
  "'b executor \<Rightarrow> IdempotencyReservation \<Rightarrow> 'b ledger \<Rightarrow> idempotencyExecution result \<times> 'b ledger" where
  "withReservation ex r L =
    (case reservation_tx ex r L of
       TxError e \<Rightarrow> (Inl e, L)
     | TxCommandError e \<Rightarrow> (Inl e, if ex_retryable ex e then L else persistFailure ex r L)
     | TxOk outcome v status response L1 \<Rightarrow>
        (case ex_commit ex of
           Some e \<Rightarrow> (Inl e, L)
         | None \<Rightarrow>
            (case outcome of
               IdempotencyReservationReplay \<Rightarrow>
                 (case replayableIdempotencyRecord (ex_safe ex) v of
                    Inl e \<Rightarrow> (Inl e, L1)
                  | Inr w \<Rightarrow> (Inr \<lparr>exe_status = ir_Status w, exe_response = ir_Response w, exe_executed = False\<rparr>, L1))
             | IdempotencyReservationPending \<Rightarrow> (Inl ErrIdempotencyInProgress, L1)
             | IdempotencyReservationFailure \<Rightarrow> (Inl ErrIdempotencyFailed, L1)
             | _ \<Rightarrow> (Inr \<lparr>exe_status = status, exe_response = response, exe_executed = True\<rparr>, L1))))"

text \<open>
  The entry points. \<open>hash\<close> is \<^verbatim>\<open>hashBytes\<close> (the prefixed SHA-256 digest), \<open>owner\<close> the digest of the new
  owner token; \<open>run = None\<close> is a nil command.
\<close>

definition validDigest :: "string \<Rightarrow> bool" where
  "validDigest s \<longleftrightarrow> take 7 s = ''sha256:'' \<and> length (drop 7 s) = 64 \<and>
     list_all (\<lambda>c. c \<in> set ''0123456789abcdefABCDEF'') (drop 7 s)"

definition idempotencyActorID :: "Actor \<Rightarrow> string" where
  "idempotencyActorID actor =
    (if TrimSpace (actor_KeyID actor) \<noteq> [] then ''api_key:'' @ TrimSpace (actor_KeyID actor)
     else if TrimSpace (actor_UserID actor) \<noteq> [] then ''user:'' @ TrimSpace (actor_UserID actor)
     else if TrimSpace (actor_CollectorID actor) \<noteq> [] then ''collector:'' @ TrimSpace (actor_CollectorID actor)
     else ''anonymous'')"

fun is_nil_context :: "go_context \<Rightarrow> bool" where
  "is_nil_context NilContext = True"
| "is_nil_context (Context _) = False"

definition withRequestHash ::
  "'b executor \<Rightarrow> go_context \<Rightarrow> Actor \<Rightarrow> string \<Rightarrow> string \<Rightarrow> string \<Rightarrow> string \<Rightarrow> time \<Rightarrow> string \<Rightarrow>
     ('b \<Rightarrow> (int \<times> json \<times> 'b) result) option \<Rightarrow> 'b ledger \<Rightarrow> (int \<times> json) result \<times> 'b ledger" where
  "withRequestHash ex ctx actor meth path key requestHash now owner run L =
    (if is_nil_context ctx \<or> Option.is_none run \<or> TrimSpace key = [] \<or> \<not> validDigest requestHash then (Inl ErrValidation, L)
     else case ctx_err ctx 0 of
       Some e \<Rightarrow> (Inl e, L)
     | None \<Rightarrow>
        (case newIdempotencyReservation \<lparr>ik_TenantID = actor_TenantID actor, ik_ActorID = idempotencyActorID actor,
             ik_Method = meth, ik_Path = path, ik_IdempotencyKey = TrimSpace key\<rparr> requestHash now owner of
           Inl e \<Rightarrow> (Inl e, L)
         | Inr r \<Rightarrow>
            (case withReservation (ex\<lparr>ex_prepare := \<lambda>_. Inr run\<rparr>) r L of
               (Inl e, L1) \<Rightarrow> (Inl e, L1)
             | (Inr x, L1) \<Rightarrow> (Inr (exe_status x, exe_response x), L1))))"

definition WithBody ::
  "(string \<Rightarrow> string) \<Rightarrow> 'b executor \<Rightarrow> go_context \<Rightarrow> Actor \<Rightarrow> string \<Rightarrow> string \<Rightarrow> string \<Rightarrow> string \<Rightarrow> time \<Rightarrow> string \<Rightarrow>
     ('b \<Rightarrow> (int \<times> json \<times> 'b) result) option \<Rightarrow> 'b ledger \<Rightarrow> (int \<times> json) result \<times> 'b ledger" where
  "WithBody hash ex ctx actor meth path key body =
    withRequestHash ex ctx actor meth path key (hash (meth @ [CHR 0x0A] @ path @ [CHR 0x0A] @ body))"

definition WithBodyDigest ::
  "(string \<Rightarrow> string) \<Rightarrow> 'b executor \<Rightarrow> go_context \<Rightarrow> Actor \<Rightarrow> string \<Rightarrow> string \<Rightarrow> string \<Rightarrow> string \<Rightarrow> time \<Rightarrow> string \<Rightarrow>
     ('b \<Rightarrow> (int \<times> json \<times> 'b) result) option \<Rightarrow> 'b ledger \<Rightarrow> (int \<times> json) result \<times> 'b ledger" where
  "WithBodyDigest hash ex ctx actor meth path key bodyDigest now owner run L =
    (if \<not> validDigest bodyDigest then (Inl ErrValidation, L)
     else withRequestHash ex ctx actor meth path key
       (hash (meth @ [CHR 0x0A] @ path @ [CHR 0x0A] @ bodyDigest)) now owner run L)"

section \<open>A completed record answers every retry\<close>

text \<open>The record of a key is terminal: completed or failed, not legacy, with a known expiry.\<close>

definition settled :: "IdempotencyRecordKey \<Rightarrow> IdempotencyRecord \<Rightarrow> 'b ledger \<Rightarrow> bool" where
  "settled key v L \<longleftrightarrow> tbl_get (led_records L) key = Some v \<and> ir_State v \<in> {IdempotencyCompleted, IdempotencyFailed}"

lemma state_distinct [simp]:
  "IdempotencyPending \<noteq> IdempotencyCompleted" "IdempotencyPending \<noteq> IdempotencyFailed"
  "IdempotencyCompleted \<noteq> IdempotencyFailed" "IdempotencyCompleted \<noteq> []" "IdempotencyFailed \<noteq> []" "IdempotencyPending \<noteq> []"
  "IdempotencyCompleted \<noteq> IdempotencyPending" "IdempotencyFailed \<noteq> IdempotencyPending" "IdempotencyFailed \<noteq> IdempotencyCompleted"
  "[] \<noteq> IdempotencyCompleted" "[] \<noteq> IdempotencyFailed" "[] \<noteq> IdempotencyPending"
  by (simp_all add: idempotency_states)

lemma Reserve_settled:
  assumes "settled (res_Key r) v L" and "res_Now r < ir_ExpiresAt v" and "Reserve safe r L = Inr (outcome, w, L')"
  shows "L' = L \<and> w = v \<and> ir_RequestHash v = res_RequestHash r \<and>
    outcome = (if ir_State v = IdempotencyCompleted then IdempotencyReservationReplay else IdempotencyReservationFailure)"
  using assms by (auto simp: Reserve_def settled_def Let_def split: if_splits)

lemma Reserve_other:
  "Reserve safe r L = Inr (outcome, w, L') \<Longrightarrow> k \<noteq> res_Key r \<Longrightarrow> tbl_get (led_records L') k = tbl_get (led_records L) k"
  by (auto simp: Reserve_def Let_def split: if_splits option.splits)

lemma Reserve_business: "Reserve safe r L = Inr (outcome, w, L') \<Longrightarrow> led_business L' = led_business L"
  by (auto simp: Reserve_def Let_def split: if_splits option.splits)

lemma Complete_other:
  "Complete key owner st resp now L = Inr L' \<Longrightarrow> k \<noteq> key \<Longrightarrow> tbl_get (led_records L') k = tbl_get (led_records L) k"
  by (auto simp: Complete_def split: if_splits option.splits)

lemma Fail_other: "Fail key owner now L = Inr L' \<Longrightarrow> k \<noteq> key \<Longrightarrow> tbl_get (led_records L') k = tbl_get (led_records L) k"
  by (auto simp: Fail_def split: if_splits option.splits)


text \<open>A transaction either ran the command and completed its own record, or only looked at the ledger.\<close>

lemma reservation_tx_Ok:
  assumes "reservation_tx ex r L = TxOk outcome v status response L2"
  obtains (looked) L1 where "Reserve (ex_safe ex) r L = Inr (outcome, v, L2)"
      "outcome \<in> {IdempotencyReservationReplay, IdempotencyReservationPending, IdempotencyReservationFailure}"
  | (ran) L1 run b replay where "Reserve (ex_safe ex) r L = Inr (outcome, v, L1)"
      "outcome \<in> {IdempotencyReservationAcquired, IdempotencyReservationRecovered}"
      "run (led_business L1) = Inr (status, response, b)" "ex_safe ex response = Inr replay"
      "Complete (res_Key r) (res_OwnerTokenHash r) status replay (ex_completedAt ex) (L1\<lparr>led_business := b\<rparr>) = Inr L2"
  using assms
  by (auto simp: reservation_tx_def split: option.splits sum.splits prod.splits IdempotencyReservationOutcome.splits)

lemma reservation_tx_CommandError:
  assumes "reservation_tx ex r L = TxCommandError e"
  obtains outcome v L1 where "Reserve (ex_safe ex) r L = Inr (outcome, v, L1)"
      "outcome \<in> {IdempotencyReservationAcquired, IdempotencyReservationRecovered}"
  using assms
  by (auto simp: reservation_tx_def split: option.splits sum.splits prod.splits IdempotencyReservationOutcome.splits)

lemma Reserve_looked:
  assumes "Reserve safe r L = Inr (outcome, v, L')"
    and "outcome \<in> {IdempotencyReservationReplay, IdempotencyReservationPending, IdempotencyReservationFailure}"
  shows "L' = L"
  using assms by (auto simp: Reserve_def Let_def split: if_splits option.splits)

lemma persistFailure_other:
  "k \<noteq> res_Key r \<Longrightarrow> tbl_get (led_records (persistFailure ex r L)) k = tbl_get (led_records L) k"
  by (auto simp: persistFailure_def Reserve_other Fail_other split: sum.splits)

lemma Fail_business: "Fail key owner now L = Inr L' \<Longrightarrow> led_business L' = led_business L"
  by (auto simp: Fail_def split: if_splits option.splits)

lemma persistFailure_business [simp]: "led_business (persistFailure ex r L) = led_business L"
  by (auto simp: persistFailure_def Reserve_business dest!: Fail_business split: sum.splits)

lemma withReservation_other:
  assumes "k \<noteq> res_Key r"
  shows "tbl_get (led_records (snd (withReservation ex r L))) k = tbl_get (led_records L) k"
proof (cases "reservation_tx ex r L")
  case (TxOk outcome v status response L2)
  then have "tbl_get (led_records L2) k = tbl_get (led_records L) k"
    by (rule reservation_tx_Ok) (auto simp: Complete_other [OF _ assms] Reserve_other [OF _ assms])
  then show ?thesis
    using TxOk by (auto simp: withReservation_def split: option.splits IdempotencyReservationOutcome.splits sum.splits)
qed (use assms in \<open>simp_all add: withReservation_def persistFailure_other\<close>)

lemma settled_Reserve_outcome:
  assumes "settled (res_Key r) v L" and "res_Now r < ir_ExpiresAt v" and "Reserve safe r L = Inr (outcome, w, L')"
  shows "outcome \<noteq> IdempotencyReservationAcquired" and "outcome \<noteq> IdempotencyReservationRecovered"
  using Reserve_settled [OF assms] by (auto split: if_splits)

text \<open>A request against a settled record changes nothing and never runs a command.\<close>

lemma withReservation_settled:
  assumes "settled (res_Key r) v L" and "res_Now r < ir_ExpiresAt v"
  shows "snd (withReservation ex r L) = L"
    and "fst (withReservation ex r L) = Inr y \<Longrightarrow> \<not> exe_executed y \<and> ir_State v = IdempotencyCompleted \<and>
      res_RequestHash r = ir_RequestHash v \<and> exe_status y = ir_Status v \<and> ex_safe ex (ir_Response v) = Inr (exe_response y)"
proof -
  have no_cmd: "reservation_tx ex r L \<noteq> TxCommandError e" for e
    using settled_Reserve_outcome [OF assms] by (blast elim: reservation_tx_CommandError)
  have ok: "L2 = L \<and> w = v \<and> ir_RequestHash v = res_RequestHash r \<and>
      outcome = (if ir_State v = IdempotencyCompleted then IdempotencyReservationReplay else IdempotencyReservationFailure)"
    if "reservation_tx ex r L = TxOk outcome w status response L2" for outcome w status response L2
    using that
  proof (rule reservation_tx_Ok)
    assume "Reserve (ex_safe ex) r L = Inr (outcome, w, L2)"
    then show ?thesis by (rule Reserve_settled [OF assms])
  qed (use settled_Reserve_outcome [OF assms] in blast)
  show "snd (withReservation ex r L) = L"
    using no_cmd ok by (auto simp: withReservation_def
        split: tx_result.splits option.splits IdempotencyReservationOutcome.splits sum.splits)
  assume "fst (withReservation ex r L) = Inr y"
  then obtain outcome w status response L2 where tx: "reservation_tx ex r L = TxOk outcome w status response L2"
    by (auto simp: withReservation_def split: tx_result.splits)
  show "\<not> exe_executed y \<and> ir_State v = IdempotencyCompleted \<and> res_RequestHash r = ir_RequestHash v \<and>
      exe_status y = ir_Status v \<and> ex_safe ex (ir_Response v) = Inr (exe_response y)"
  proof (cases "ir_State v = IdempotencyCompleted")
    case True
    with \<open>fst (withReservation ex r L) = Inr y\<close> tx ok [OF tx] show ?thesis
      by (auto simp: withReservation_def replayableIdempotencyRecord_def split: option.splits sum.splits if_splits)
  next
    case False
    with \<open>fst (withReservation ex r L) = Inr y\<close> tx ok [OF tx] show ?thesis
      by (auto simp: withReservation_def split: option.splits)
  qed
qed

section \<open>Histories of requests\<close>

datatype 'b event = Request "'b executor" IdempotencyReservation | Cleanup time

fun run_event :: "'b event \<Rightarrow> 'b ledger \<Rightarrow> 'b ledger" where
  "run_event (Request ex r) L = snd (withReservation ex r L)"
| "run_event (Cleanup now) L = (case DeleteExpired now L of Inl e \<Rightarrow> L | Inr L' \<Rightarrow> L')"

fun event_before :: "time \<Rightarrow> IdempotencyRecordKey \<Rightarrow> 'b event \<Rightarrow> bool" where
  "event_before t key (Request ex r) \<longleftrightarrow> (res_Key r = key \<longrightarrow> res_Now r < t)"
| "event_before t key (Cleanup now) \<longleftrightarrow> now < t"

lemma run_event_settled:
  assumes "settled key v L" and "event_before (ir_ExpiresAt v) key e"
  shows "settled key v (run_event e L)"
proof (cases e)
  case (Request ex r)
  then show ?thesis
    using assms withReservation_settled(1) [of r v L ex] withReservation_other [of key r ex L]
    by (cases "res_Key r = key") (simp_all add: settled_def)
next
  case (Cleanup now)
  then show ?thesis
    using assms by (simp add: settled_def DeleteExpired_def)
qed

lemma run_events_settled:
  "settled key v L \<Longrightarrow> list_all (event_before (ir_ExpiresAt v) key) es \<Longrightarrow> settled key v (fold run_event es L)"
  by (induction es arbitrary: L) (simp_all add: run_event_settled)

lemma Reserve_stores:
  assumes "Reserve safe r L = Inr (outcome, v, L1)"
    and "outcome \<in> {IdempotencyReservationAcquired, IdempotencyReservationRecovered}"
  shows "tbl_get (led_records L1) (res_Key r) = Some v" and "ir_RequestHash v = res_RequestHash r"
    and "ir_State v = IdempotencyPending" and "ir_OwnerTokenHash v = res_OwnerTokenHash r"
    and "led_business L1 = led_business L"
  using assms by (auto simp: Reserve_def Let_def pendingIdempotencyRecord_def recoveredPendingIdempotencyRecord_def
      split: if_splits option.splits)

text \<open>What a successful execution leaves behind.\<close>

lemma withReservation_executed:
  assumes "withReservation ex r L = (Inr x, L1)" and "exe_executed x"
  obtains v replay where "settled (res_Key r) v L1" "ir_State v = IdempotencyCompleted"
    "ir_RequestHash v = res_RequestHash r" "ir_Status v = exe_status x" "ir_Response v = replay"
    "ex_safe ex (exe_response x) = Inr replay" "100 \<le> exe_status x" "exe_status x \<le> 599"
    "tbl_get (led_records L1) (res_Key r) = Some v"
proof -
  obtain outcome w status response where tx: "reservation_tx ex r L = TxOk outcome w status response L1"
      and x: "exe_status x = status" "exe_response x = response"
      and oc: "outcome \<in> {IdempotencyReservationAcquired, IdempotencyReservationRecovered}"
    using assms by (auto simp: withReservation_def
        split: tx_result.splits option.splits IdempotencyReservationOutcome.splits sum.splits)
  from tx show ?thesis
  proof (rule reservation_tx_Ok)
    fix L0 run b replay
    assume res: "Reserve (ex_safe ex) r L = Inr (outcome, w, L0)" and safe: "ex_safe ex response = Inr replay"
      and compl: "Complete (res_Key r) (res_OwnerTokenHash r) status replay (ex_completedAt ex) (L0\<lparr>led_business := b\<rparr>) = Inr L1"
    define v where "v = w\<lparr>ir_State := IdempotencyCompleted, ir_OwnerTokenHash := [], ir_Status := status,
      ir_Response := replay, ir_UpdatedAt := ex_completedAt ex, ir_LeaseExpiresAt := None,
      ir_CompletedAt := Some (ex_completedAt ex), ir_FailedAt := None\<rparr>"
    have "tbl_get (led_records L1) (res_Key r) = Some v" "100 \<le> status" "status \<le> 599"
      using compl Reserve_stores [OF res oc] by (auto simp: Complete_def v_def split: if_splits)
    then show thesis
      using safe Reserve_stores [OF res oc] x by (intro that [of v replay]) (simp_all add: settled_def v_def)
  qed (use oc in auto)
qed

text \<open>
  C15: At most once. After a request executed its command, whatever requests (to any key, with
  any executors) and clean-up runs follow before the record expires, a later request with the
  same key never executes again: the ledger stays as it is, and an answer without error is the
  stored status with the redacted response, given only to the same request fingerprint.
\<close>

theorem idempotent_at_most_once:
  assumes "withReservation ex r L = (Inr x, L1)" and "exe_executed x" and "tbl_get (led_records L1) (res_Key r) = Some v"
    and "list_all (event_before (ir_ExpiresAt v) (res_Key r)) es"
    and "res_Key r' = res_Key r" and "res_Now r' < ir_ExpiresAt v"
    and "withReservation ex' r' (fold run_event es L1) = (answer, L2)"
  shows "L2 = fold run_event es L1 \<and>
    (\<forall>y. answer = Inr y \<longrightarrow> \<not> exe_executed y \<and> res_RequestHash r' = res_RequestHash r \<and> exe_status y = exe_status x \<and>
      bind_result (ex_safe ex (exe_response x)) (ex_safe ex') = Inr (exe_response y))"
proof (intro conjI allI impI)
  obtain replay where v: "settled (res_Key r) v L1" "ir_RequestHash v = res_RequestHash r" "ir_Status v = exe_status x"
      "ir_Response v = replay" "ex_safe ex (exe_response x) = Inr replay"
    using withReservation_executed [OF assms(1,2)] assms(3) by (metis option.inject)
  have st: "settled (res_Key r') v (fold run_event es L1)"
    using run_events_settled [OF v(1) assms(4)] assms(5) by simp
  show "L2 = fold run_event es L1"
    using withReservation_settled(1) [OF st assms(6), of ex'] assms(7) by simp
  fix y assume "answer = Inr y"
  then have "\<not> exe_executed y \<and> ir_State v = IdempotencyCompleted \<and> res_RequestHash r' = ir_RequestHash v \<and>
      exe_status y = ir_Status v \<and> ex_safe ex' (ir_Response v) = Inr (exe_response y)"
    using withReservation_settled(2) [OF st assms(6), of ex' y] assms(7) by simp
  then show "\<not> exe_executed y" "res_RequestHash r' = res_RequestHash r" "exe_status y = exe_status x"
      "bind_result (ex_safe ex (exe_response x)) (ex_safe ex') = Inr (exe_response y)"
    using v by simp_all
qed

lemma withReservation_replays:
  assumes "settled (res_Key r) v L" and "ir_State v = IdempotencyCompleted" and "res_Now r < ir_ExpiresAt v"
    and "validateIdempotencyReservation r = None" and "ledger_tenant L (ik_TenantID (res_Key r)) = None"
    and "ex_Authorize ex L = None" and "ir_RequestHash v = res_RequestHash r" and "ex_commit ex = None"
    and "ex_safe ex (ir_Response v) = Inr replay" and "100 \<le> ir_Status v" "ir_Status v \<le> 599"
    and "case ex_AuthorizeReplay ex of None \<Rightarrow> True | Some check \<Rightarrow> check L replay = None" and "ir_ExpiresAt v \<noteq> 0"
  shows "withReservation ex r L = (Inr \<lparr>exe_status = ir_Status v, exe_response = replay, exe_executed = False\<rparr>, L)"
proof -
  have hash: "TrimSpace (ir_RequestHash v) \<noteq> []"
    using assms(4,7) by (auto simp: validateIdempotencyReservation_def split: if_splits)
  have res: "Reserve (ex_safe ex) r L = Inr (IdempotencyReservationReplay, v, L)"
    using assms(1-5,7) by (simp add: Reserve_def settled_def Let_def)
  have rep: "replayableIdempotencyRecord (ex_safe ex) v = Inr (v\<lparr>ir_Response := replay\<rparr>)"
    using assms hash by (simp add: replayableIdempotencyRecord_def)
  show ?thesis
    using assms res rep by (cases "ex_AuthorizeReplay ex") (simp_all add: withReservation_def reservation_tx_def)
qed

lemma withReservation_conflicts:
  assumes "settled (res_Key r) v L" and "res_Now r < ir_ExpiresAt v" and "validateIdempotencyReservation r = None"
    and "ledger_tenant L (ik_TenantID (res_Key r)) = None" and "ex_Authorize ex L = None"
    and "ir_RequestHash v \<noteq> res_RequestHash r"
  shows "withReservation ex r L = (Inl ErrIdempotencyConflict, L)"
  using assms by (auto simp: withReservation_def reservation_tx_def Reserve_def settled_def Let_def)

lemma withReservation_fails:
  assumes "settled (res_Key r) v L" and "ir_State v = IdempotencyFailed" and "res_Now r < ir_ExpiresAt v"
    and "validateIdempotencyReservation r = None" and "ledger_tenant L (ik_TenantID (res_Key r)) = None"
    and "ex_Authorize ex L = None" and "ir_RequestHash v = res_RequestHash r" and "ex_commit ex = None"
  shows "withReservation ex r L = (Inl ErrIdempotencyFailed, L)"
  using assms by (simp add: withReservation_def reservation_tx_def Reserve_def settled_def Let_def)

lemma withReservation_error_business:
  assumes "withReservation ex r L = (Inl e, L1)"
  shows "led_business L1 = led_business L"
proof (cases "reservation_tx ex r L")
  case (TxOk outcome v status response L2)
  then show ?thesis
    by (rule reservation_tx_Ok)
      (use assms TxOk in \<open>auto simp: withReservation_def dest: Reserve_business
        split: option.splits IdempotencyReservationOutcome.splits sum.splits\<close>)
qed (use assms in \<open>auto simp: withReservation_def\<close>)

text \<open>
  C16: Replay is guaranteed. In the same situation, an authorized and well-formed retry with the
  same fingerprint gets exactly the stored status and the redacted response, and one with
  another fingerprint gets the conflict error; neither changes the ledger.
\<close>

theorem idempotent_replay:
  assumes "withReservation ex r L = (Inr x, L1)" and "exe_executed x" and "tbl_get (led_records L1) (res_Key r) = Some v"
    and "list_all (event_before (ir_ExpiresAt v) (res_Key r)) es" and "L2 = fold run_event es L1"
    and "res_Key r' = res_Key r" and "res_Now r' < ir_ExpiresAt v" and "ir_ExpiresAt v \<noteq> 0"
    and "validateIdempotencyReservation r' = None" and "ledger_tenant L2 (ik_TenantID (res_Key r)) = None"
    and "ex_Authorize ex' L2 = None" and "ex_AuthorizeReplay ex' = None" and "ex_commit ex' = None"
    and "bind_result (ex_safe ex (exe_response x)) (ex_safe ex') = Inr replay"
  shows "withReservation ex' r' L2 =
    (if res_RequestHash r' = res_RequestHash r
     then Inr \<lparr>exe_status = exe_status x, exe_response = replay, exe_executed = False\<rparr>
     else Inl ErrIdempotencyConflict, L2)"
proof -
  obtain v' where v: "settled (res_Key r) v L1" "ir_State v = IdempotencyCompleted" "ir_RequestHash v = res_RequestHash r"
      "ir_Status v = exe_status x" "ex_safe ex (exe_response x) = Inr (ir_Response v)"
      "100 \<le> exe_status x" "exe_status x \<le> 599"
    using withReservation_executed [OF assms(1,2)] assms(3) by (metis option.inject)
  have st: "settled (res_Key r') v L2"
    using run_events_settled [OF v(1) assms(4)] assms(5,6) by simp
  show ?thesis
  proof (cases "res_RequestHash r' = res_RequestHash r")
    case True
    then show ?thesis
      using withReservation_replays [OF st v(2) assms(7,9) _ assms(11)] assms v by simp
  next
    case False
    then show ?thesis
      using withReservation_conflicts [OF st assms(7,9) _ assms(11)] assms v by simp
  qed
qed

lemma persistFailure_settles:
  assumes "Reserve (ex_safe ex) r L = Inr (outcome, w, L1)"
    and "outcome \<in> {IdempotencyReservationAcquired, IdempotencyReservationRecovered}"
    and "ex_failCommit ex = None" and "ex_failedAt ex \<noteq> 0"
  shows "\<exists>v. settled (res_Key r) v (persistFailure ex r L) \<and> ir_State v = IdempotencyFailed \<and>
    ir_RequestHash v = res_RequestHash r"
proof -
  have "validateIdempotencyReservation r = None" "ledger_tenant L (ik_TenantID (res_Key r)) = None"
      "ledger_tenant L1 (ik_TenantID (res_Key r)) = ledger_tenant L (ik_TenantID (res_Key r))"
    using assms(1) by (auto simp: Reserve_def Let_def ledger_tenant_def split: if_splits option.splits)
  moreover from this have "validateIdempotencyKey (res_Key r) = None" "res_OwnerTokenHash r \<noteq> []"
    by (auto simp: validateIdempotencyReservation_def split: if_splits)
  ultimately show ?thesis
    using assms Reserve_stores [OF assms(1,2)]
    by (auto simp: persistFailure_def Fail_def settled_def)
qed


section \<open>A concrete history\<close>

definition sample_reservation :: "time \<Rightarrow> string \<Rightarrow> IdempotencyReservation" where
  "sample_reservation now hash =
    \<lparr>res_Key = \<lparr>ik_TenantID = ''t1'', ik_ActorID = ''user:u1'', ik_Method = ''POST'', ik_Path = ''/v1/products'',
       ik_IdempotencyKey = ''k1''\<rparr>,
     res_RequestHash = hash, res_OwnerTokenHash = ''owner'', res_Now = now, res_LeaseExpiresAt = now + 5,
     res_ExpiresAt = now + 90\<rparr>"

definition sample_executor :: "(nat \<Rightarrow> (int \<times> json \<times> nat) result) \<Rightarrow> nat executor" where
  "sample_executor run =
    \<lparr>ex_Authorize = \<lambda>_. None, ex_AuthorizeReplay = None, ex_safe = Inr, ex_prepare = \<lambda>_. Inr (Some run),
     ex_completedAt = 11, ex_failedAt = 12, ex_retryable = \<lambda>_. False, ex_commit = None, ex_failCommit = None\<rparr>"

definition counting :: "nat executor" where
  "counting = sample_executor (\<lambda>n. Inr (201, JNull, n + 1))"

definition failing :: "nat executor" where
  "failing = sample_executor (\<lambda>n. Inl ErrConflict)"

definition sample_ledger :: "nat ledger" where
  "sample_ledger = \<lparr>led_tenants = [''t1''], led_records = [], led_business = 0\<rparr>"

definition sample_after :: "nat executor \<Rightarrow> nat ledger" where
  "sample_after ex = snd (withReservation ex (sample_reservation 10 ''h1'') sample_ledger)"

definition sample_events :: "nat event list" where
  "sample_events = [Request counting (sample_reservation 20 ''h1''), Cleanup 60, Request counting (sample_reservation 70 ''h2'')]"

lemma counting_executes:
  "withReservation counting (sample_reservation 10 ''h1'') sample_ledger =
     (Inr \<lparr>exe_status = 201, exe_response = JNull, exe_executed = True\<rparr>, sample_after counting)"
  by code_simp

lemma failing_fails: "withReservation failing (sample_reservation 10 ''h1'') sample_ledger = (Inl ErrConflict, sample_after failing)"
  by code_simp

lemma sample_record:
  "tbl_get (led_records (sample_after counting)) (res_Key (sample_reservation 10 ''h1'')) =
     Some \<lparr>ir_State = IdempotencyCompleted, ir_RequestHash = ''h1'', ir_OwnerTokenHash = [], ir_Status = 201,
       ir_Response = JNull, ir_CreatedAt = 10, ir_UpdatedAt = 11, ir_LeaseExpiresAt = None, ir_CompletedAt = Some 11,
       ir_FailedAt = None, ir_ExpiresAt = 100\<rparr>"
  by code_simp

lemma sample_events_before: "list_all (event_before 100 (res_Key (sample_reservation 10 ''h1''))) sample_events"
  by code_simp

theorem idempotent_at_most_once_witness:
  "led_business (fold run_event sample_events (sample_after counting)) = 1 \<and>
   snd (withReservation counting (sample_reservation 80 ''h1'') (fold run_event sample_events (sample_after counting))) =
     fold run_event sample_events (sample_after counting)"
proof -
  have "led_business (fold run_event sample_events (sample_after counting)) = 1" by code_simp
  moreover have "res_Key (sample_reservation 80 ''h1'') = res_Key (sample_reservation 10 ''h1'')"
      "res_Now (sample_reservation 80 ''h1'') < 100"
    by (simp_all add: sample_reservation_def)
  ultimately show ?thesis
    using idempotent_at_most_once [OF counting_executes _ sample_record, simplified, OF sample_events_before]
    by (metis surjective_pairing)
qed

theorem idempotent_replay_witness:
  "withReservation counting (sample_reservation 80 ''h1'') (sample_after counting) =
     (Inr \<lparr>exe_status = 201, exe_response = JNull, exe_executed = False\<rparr>, sample_after counting) \<and>
   withReservation counting (sample_reservation 80 ''h2'') (sample_after counting) =
     (Inl ErrIdempotencyConflict, sample_after counting)"
proof -
  have hyps: "validateIdempotencyReservation (sample_reservation 80 h) = None" if "h = ''h1'' \<or> h = ''h2''" for h
    using that by (elim disjE) (simp_all, code_simp, code_simp)
  have "ledger_tenant (sample_after counting) (ik_TenantID (res_Key (sample_reservation 10 ''h1''))) = None" by code_simp
  then show ?thesis
    using idempotent_replay [OF counting_executes _ sample_record, where es = "[]" and ex' = counting and replay = JNull and
        r' = "sample_reservation 80 ''h1''"]
      idempotent_replay [OF counting_executes _ sample_record, where es = "[]" and ex' = counting and replay = JNull and
        r' = "sample_reservation 80 ''h2''"] hyps
    by (simp add: sample_reservation_def counting_def sample_executor_def)
qed

lemma failed_record:
  "tbl_get (led_records (sample_after failing)) (res_Key (sample_reservation 10 ''h1'')) =
     Some \<lparr>ir_State = IdempotencyFailed, ir_RequestHash = ''h1'', ir_OwnerTokenHash = [], ir_Status = 0,
       ir_Response = JNull, ir_CreatedAt = 10, ir_UpdatedAt = 12, ir_LeaseExpiresAt = None, ir_CompletedAt = None,
       ir_FailedAt = Some 12, ir_ExpiresAt = 100\<rparr>"
  by code_simp


end
