(* ===== verification/Hashing.thy ===== *)
theory Hashing
  imports Prelude "HOL-Library.Word"
begin

text \<open>
  \<^verbatim>\<open>crypto/sha256\<close>, \<^verbatim>\<open>encoding/hex\<close> and the prefixed digest \<^verbatim>\<open>hashBytes\<close> that every content address,
  audit link and Merkle node of the server uses. The compression function works on 32-bit words
  with their wrap-around addition.
\<close>

unbundle bit_operations_syntax

section \<open>The compression function\<close>

type_synonym w32 = "32 word"

definition sha_k :: "w32 list" where
  "sha_k =
    [1116352408, 1899447441, 3049323471, 3921009573, 961987163, 1508970993, 2453635748, 2870763221,
     3624381080, 310598401, 607225278, 1426881987, 1925078388, 2162078206, 2614888103, 3248222580,
     3835390401, 4022224774, 264347078, 604807628, 770255983, 1249150122, 1555081692, 1996064986,
     2554220882, 2821834349, 2952996808, 3210313671, 3336571891, 3584528711, 113926993, 338241895,
     666307205, 773529912, 1294757372, 1396182291, 1695183700, 1986661051, 2177026350, 2456956037,
     2730485921, 2820302411, 3259730800, 3345764771, 3516065817, 3600352804, 4094571909, 275423344,
     430227734, 506948616, 659060556, 883997877, 958139571, 1322822218, 1537002063, 1747873779,
     1955562222, 2024104815, 2227730452, 2361852424, 2428436474, 2756734187, 3204031479, 3329325298]"

definition sha_iv :: "w32 list" where
  "sha_iv = [1779033703, 3144134277, 1013904242, 2773480762, 1359893119, 2600822924, 528734635, 1541459225]"

definition rotr :: "nat \<Rightarrow> w32 \<Rightarrow> w32" where
  "rotr n w = drop_bit n w OR push_bit (32 - n) w"

definition small_sigma0 :: "w32 \<Rightarrow> w32" where
  "small_sigma0 w = rotr 7 w XOR rotr 18 w XOR drop_bit 3 w"

definition small_sigma1 :: "w32 \<Rightarrow> w32" where
  "small_sigma1 w = rotr 17 w XOR rotr 19 w XOR drop_bit 10 w"

definition big_sigma0 :: "w32 \<Rightarrow> w32" where
  "big_sigma0 w = rotr 2 w XOR rotr 13 w XOR rotr 22 w"

definition big_sigma1 :: "w32 \<Rightarrow> w32" where
  "big_sigma1 w = rotr 6 w XOR rotr 11 w XOR rotr 25 w"

definition ch_of :: "w32 \<Rightarrow> w32 \<Rightarrow> w32 \<Rightarrow> w32" where
  "ch_of e f g = (e AND f) XOR (NOT e AND g)"

definition majority :: "w32 \<Rightarrow> w32 \<Rightarrow> w32 \<Rightarrow> w32" where
  "majority a b c = (a AND b) XOR (a AND c) XOR (b AND c)"

text \<open>The message schedule is kept in reverse, so that the last sixteen words are at the front.\<close>

fun schedule :: "nat \<Rightarrow> w32 list \<Rightarrow> w32 list" where
  "schedule 0 ws = ws"
| "schedule (Suc n) ws =
     schedule n ((small_sigma1 (ws ! 1) + ws ! 6 + small_sigma0 (ws ! 14) + ws ! 15) # ws)"

fun sha_round :: "w32 list \<Rightarrow> w32 \<times> w32 \<Rightarrow> w32 list" where
  "sha_round [a, b, c, d, e, f, g, h] (k, w) =
    (let t1 = h + big_sigma1 e + ch_of e f g + k + w;
         t2 = big_sigma0 a + majority a b c
     in [t1 + t2, a, b, c, d + t1, e, f, g])"
| "sha_round st kw = st"

definition compress :: "w32 list \<Rightarrow> w32 list \<Rightarrow> w32 list" where
  "compress st block =
    map2 (+) st (foldl sha_round st (zip sha_k (rev (schedule 48 (rev block)))))"

section \<open>Padding, blocks and digests\<close>

definition length_bytes :: "nat \<Rightarrow> nat list" where
  "length_bytes n = map (\<lambda>i. nat ((8 * int n) div 256 ^ (7 - i) mod 256)) [0..<8]"

definition sha_pad :: "nat list \<Rightarrow> nat list" where
  "sha_pad bs = bs @ [128] @ replicate ((119 - length bs mod 64) mod 64) 0 @ length_bytes (length bs)"

fun words_of_bytes :: "nat list \<Rightarrow> w32 list" where
  "words_of_bytes (a # b # c # d # r) = word_of_int (int a * 16777216 + int b * 65536 + int c * 256 + int d) # words_of_bytes r"
| "words_of_bytes r = []"

function sha_blocks :: "w32 list \<Rightarrow> w32 list \<Rightarrow> w32 list" where
  "sha_blocks st ws = (if length ws < 16 then st else sha_blocks (compress st (take 16 ws)) (drop 16 ws))"
  by pat_completeness auto
termination by (relation "measure (\<lambda>(st, ws). length ws)") auto

declare sha_blocks.simps [simp del]

definition bytes_of_word :: "w32 \<Rightarrow> nat list" where
  "bytes_of_word w = (let n = uint w in map nat [n div 16777216, n div 65536 mod 256, n div 256 mod 256, n mod 256])"

definition Sum256 :: "string \<Rightarrow> nat list" where
  "Sum256 s = concat (map bytes_of_word (sha_blocks sha_iv (words_of_bytes (sha_pad (map byte s)))))"

definition hex_digits :: string where
  "hex_digits = ''0123456789abcdef''"

definition hex_char :: "nat \<Rightarrow> char" where
  "hex_char n = hex_digits ! n"

definition hex_of_bytes :: "nat list \<Rightarrow> string" where
  "hex_of_bytes bs = concat (map (\<lambda>b. [hex_char (b div 16), hex_char (b mod 16)]) bs)"

definition hashBytes :: "string \<Rightarrow> string" where
  "hashBytes body = ''sha256:'' @ hex_of_bytes (Sum256 body)"

section \<open>The shape of digests\<close>

lemma length_sha_round: "length st = 8 \<Longrightarrow> length (sha_round st kw) = 8"
  by (cases "(st, kw)" rule: sha_round.cases) (auto simp: Let_def)

lemma length_foldl_sha_round: "length st = 8 \<Longrightarrow> length (foldl sha_round st kws) = 8"
  by (induction kws arbitrary: st) (simp_all add: length_sha_round)

lemma length_sha_blocks: "length st = 8 \<Longrightarrow> length (sha_blocks st ws) = 8"
proof (induction st ws rule: sha_blocks.induct)
  case (1 st ws)
  then show ?case
    by (subst sha_blocks.simps) (simp add: compress_def length_foldl_sha_round)
qed

lemma length_Sum256: "length (Sum256 s) = 32"
proof -
  have "length (concat (map bytes_of_word ws)) = 4 * length ws" for ws
    by (induction ws) (simp_all add: bytes_of_word_def Let_def)
  then show ?thesis
    by (simp add: Sum256_def length_sha_blocks sha_iv_def)
qed

lemma bytes_of_word_less: "b \<in> set (bytes_of_word w) \<Longrightarrow> b < 256"
proof -
  have "uint w div 16777216 < 256"
    using uint_lt2p [of w] by simp
  then show "b \<in> set (bytes_of_word w) \<Longrightarrow> b < 256"
    by (auto simp: bytes_of_word_def Let_def nat_less_iff)
qed

lemma Sum256_bytes: "b \<in> set (Sum256 s) \<Longrightarrow> b < 256"
  by (auto simp: Sum256_def dest: bytes_of_word_less)

lemma length_hex_digits: "length hex_digits = 16"
  by (simp add: hex_digits_def)

lemma hex_char_lower: "n < 16 \<Longrightarrow> hex_char n \<in> set hex_digits"
  by (simp add: hex_char_def length_hex_digits)

lemma hex_of_bytes_digits: "list_all (\<lambda>b. b < 256) bs \<Longrightarrow> c \<in> set (hex_of_bytes bs) \<Longrightarrow> c \<in> set hex_digits"
  by (auto simp: hex_of_bytes_def list_all_iff less_mult_imp_div_less intro!: hex_char_lower)

lemma length_hex_of_bytes [simp]: "length (hex_of_bytes bs) = 2 * length bs"
  by (induction bs) (simp_all add: hex_of_bytes_def)

lemma length_hashBytes [simp]: "length (hashBytes s) = 71"
  by (simp add: hashBytes_def length_Sum256)

lemma hashBytes_chars: "c \<in> set (hashBytes s) \<Longrightarrow> graphic c"
proof -
  have "list_all (\<lambda>b. b < 256) (Sum256 s)"
    by (simp add: list_all_iff Sum256_bytes)
  then have "c \<in> set (hex_of_bytes (Sum256 s)) \<Longrightarrow> c \<in> set hex_digits"
    by (rule hex_of_bytes_digits)
  moreover have "list_all graphic hex_digits" "list_all graphic ''sha256:''"
    by (simp_all add: graphic_def byte_def hex_digits_def)
  ultimately show "c \<in> set (hashBytes s) \<Longrightarrow> graphic c"
    unfolding hashBytes_def list_all_iff by auto
qed

lemma hashBytes_nonempty [simp]: "hashBytes s \<noteq> []" "[] \<noteq> hashBytes s"
  by (simp_all add: hashBytes_def)

lemma hashBytes_no_newline: "CHR 0x0A \<notin> set (hashBytes s)"
  using hashBytes_chars [of "CHR 0x0A" s] by (auto simp: graphic_def byte_def)

lemma TrimSpace_hashBytes [simp]: "TrimSpace (hashBytes s) = hashBytes s"
  by (rule TrimSpace_edge) (metis edge_safe_def hashBytes_chars hashBytes_nonempty(1) hd_in_set last_in_set)

end
