(* ===== verification/Json_Text.thy ===== *)
theory Json_Text
  imports Hashing Rows
begin

text \<open>
  Text that the server hashes or stores as JSON: decimal numerals, \<^verbatim>\<open>Format(time.RFC3339Nano)\<close> of a
  UTC time, and what \<^verbatim>\<open>json.Marshal\<close> followed by a decoder with \<^verbatim>\<open>UseNumber\<close> makes of a schema-free
  value (invalid UTF-8 becomes U+FFFD, members are sorted, numbers keep their literal).
\<close>

section \<open>Numerals\<close>

definition digit :: "nat \<Rightarrow> char" where
  "digit n = ''0123456789'' ! n"

function decimal :: "nat \<Rightarrow> string" where
  "decimal n = (if n < 10 then [digit n] else decimal (n div 10) @ [digit (n mod 10)])"
  by pat_completeness auto
termination by (relation "measure id") auto

declare decimal.simps [simp del]

definition decimal_int :: "int \<Rightarrow> string" where
  "decimal_int i = (if i < 0 then CHR ''-'' # decimal (nat (- i)) else decimal (nat i))"

definition padded :: "nat \<Rightarrow> int \<Rightarrow> string" where
  "padded width i =
    (let s = decimal (nat (abs i)) in (if i < 0 then ''-'' else []) @ replicate (width - length s) CHR ''0'' @ s)"

section \<open>Dates\<close>

text \<open>
  The civil date of a day number counted from 0001-01-01, by eras of 400 years that start on
  1 March.
\<close>

definition civil_from_days :: "int \<Rightarrow> int \<times> int \<times> int" where
  "civil_from_days d =
    (let z = d + 306; era = z div 146097; doe = z mod 146097;
         yoe = (doe - doe div 1460 + doe div 36524 - doe div 146096) div 365;
         doy = doe - (365 * yoe + yoe div 4 - yoe div 100);
         mp = (5 * doy + 2) div 153;
         day = doy - (153 * mp + 2) div 5 + 1;
         month = (if mp < 10 then mp + 3 else mp - 9)
     in (yoe + era * 400 + (if month \<le> 2 then 1 else 0), month, day))"

definition year_of :: "time \<Rightarrow> int" where
  "year_of t = fst (civil_from_days (t div (24 * Hour)))"

text \<open>The fraction of a second without its trailing zeros, and without the point when it is zero.\<close>

definition fraction_text :: "int \<Rightarrow> string" where
  "fraction_text ns =
    (let ds = rev (dropWhile (\<lambda>c. c = CHR ''0'') (rev (padded 9 ns))) in if ds = [] then [] else CHR ''.'' # ds)"

definition Format_RFC3339Nano :: "time \<Rightarrow> string" where
  "Format_RFC3339Nano t =
    (case civil_from_days (t div (24 * Hour)) of (year, month, day) \<Rightarrow>
     let r = t mod (24 * Hour) in
     padded 4 year @ ''-'' @ padded 2 month @ ''-'' @ padded 2 day @ ''T'' @ padded 2 (r div Hour) @ '':'' @
     padded 2 (r div Minute mod 60) @ '':'' @ padded 2 (r div Second mod 60) @ fraction_text (r mod Second) @ ''Z'')"

definition truncate_microsecond :: "time \<Rightarrow> time" where
  "truncate_microsecond t = t div 1000 * 1000"

section \<open>JSON round trips\<close>

text \<open>The length of the valid encoding at the front of a string, 0 if there is none.\<close>

definition rune_length :: "string \<Rightarrow> nat" where
  "rune_length s =
    (if s = [] then 0
     else if byte (hd s) < 0x80 then 1
     else if 1 < length s \<and> byte (hd s) \<le> 0xDF \<and> utf8_valid (take 2 s) then 2
     else if 2 < length s \<and> byte (hd s) \<le> 0xEF \<and> utf8_valid (take 3 s) then 3
     else if 3 < length s \<and> utf8_valid (take 4 s) then 4
     else 0)"

definition replacement_rune :: string where
  "replacement_rune = [CHR 0xEF, CHR 0xBF, CHR 0xBD]"

function coerce_utf8 :: "string \<Rightarrow> string" where
  "coerce_utf8 s =
    (if s = [] then []
     else if rune_length s = 0 then replacement_rune @ coerce_utf8 (tl s)
     else take (rune_length s) s @ coerce_utf8 (drop (rune_length s) s))"
  by pat_completeness auto
termination by (relation "measure length") auto

declare coerce_utf8.simps [simp del]

fun put_member :: "string \<Rightarrow> json \<Rightarrow> json_object \<Rightarrow> json_object" where
  "put_member k v [] = [(k, v)]"
| "put_member k v ((l, w) # ms) =
    (if k = l then (k, v) # ms else if k < l then (k, v) # (l, w) # ms else (l, w) # put_member k v ms)"

fun json_roundtrip :: "json \<Rightarrow> json" where
  "json_roundtrip (JString s) = JString (coerce_utf8 s)"
| "json_roundtrip (JArray vs) = JArray (map json_roundtrip vs)"
| "json_roundtrip (JObject ms) =
     JObject (fold (\<lambda>(k, v). put_member (coerce_utf8 k) v) (map (\<lambda>(k, v). (k, json_roundtrip v)) ms) [])"
| "json_roundtrip v = v"

section \<open>Encoding\<close>

text \<open>
  The string encoder of \<^verbatim>\<open>encoding/json\<close> with HTML escaping: quotes, backslashes, control bytes and
  the three HTML bytes are escaped, so are U+2028 and U+2029, and a byte that starts no valid
  encoding is written as the escape of U+FFFD.
\<close>

definition hex_escape :: "nat \<Rightarrow> string" where
  "hex_escape n = [CHR 0x5C] @ ''u00'' @ [hex_char (n div 16), hex_char (n mod 16)]"

definition escape_ascii :: "char \<Rightarrow> string" where
  "escape_ascii c =
    (if c = CHR 0x22 \<or> c = CHR 0x5C then [CHR 0x5C, c]
     else if c = CHR 0x08 then [CHR 0x5C, CHR ''b'']
     else if c = CHR 0x0C then [CHR 0x5C, CHR ''f'']
     else if c = CHR 0x0A then [CHR 0x5C, CHR ''n'']
     else if c = CHR 0x0D then [CHR 0x5C, CHR ''r'']
     else if c = CHR 0x09 then [CHR 0x5C, CHR ''t'']
     else if byte c < 0x20 \<or> c \<in> {CHR ''<'', CHR ''>'', CHR ''&''} then hex_escape (byte c)
     else [c])"

function escape_string :: "string \<Rightarrow> string" where
  "escape_string s =
    (if s = [] then []
     else if byte (hd s) < 0x80 then escape_ascii (hd s) @ escape_string (tl s)
     else if rune_length s = 0 then [CHR 0x5C] @ ''ufffd'' @ escape_string (tl s)
     else (if take 3 s = [CHR 0xE2, CHR 0x80, CHR 0xA8] then [CHR 0x5C] @ ''u2028''
           else if take 3 s = [CHR 0xE2, CHR 0x80, CHR 0xA9] then [CHR 0x5C] @ ''u2029''
           else take (rune_length s) s) @ escape_string (drop (rune_length s) s))"
  by pat_completeness auto
termination by (relation "measure length") auto

declare escape_string.simps [simp del]

definition quoted :: "string \<Rightarrow> string" where
  "quoted s = [CHR 0x22] @ escape_string s @ [CHR 0x22]"

fun joined :: "string list \<Rightarrow> string" where
  "joined [] = []"
| "joined [s] = s"
| "joined (s # t # ss) = s @ '','' @ joined (t # ss)"

fun encode_json :: "json \<Rightarrow> string" where
  "encode_json JNull = ''null''"
| "encode_json (JBool b) = (if b then ''true'' else ''false'')"
| "encode_json (JNumber l) = l"
| "encode_json (JString s) = quoted s"
| "encode_json (JArray vs) = ''['' @ joined (map encode_json vs) @ '']''"
| "encode_json (JObject ms) = ''{'' @ joined (map (\<lambda>(k, v). quoted k @ '':'' @ encode_json v) ms) @ ''}''"

text \<open>
  \<^verbatim>\<open>application.NormalizedJSONHash\<close>: encode, decode into generic values, encode again and hash. The
  argument \<open>number\<close> is the text of a numeral after its passage through \<^verbatim>\<open>float64\<close>, none when it is
  out of range, which is the decoding error.
\<close>

fun json_numbers :: "json \<Rightarrow> string list" where
  "json_numbers (JNumber l) = [l]"
| "json_numbers (JArray vs) = concat (map json_numbers vs)"
| "json_numbers (JObject ms) = concat (map (\<lambda>(k, v). json_numbers v) ms)"
| "json_numbers v = []"

fun map_numbers :: "(string \<Rightarrow> string) \<Rightarrow> json \<Rightarrow> json" where
  "map_numbers f (JNumber l) = JNumber (f l)"
| "map_numbers f (JArray vs) = JArray (map (map_numbers f) vs)"
| "map_numbers f (JObject ms) = JObject (map (\<lambda>(k, v). (k, map_numbers f v)) ms)"
| "map_numbers f v = v"

definition NormalizedJSONHash :: "(string \<Rightarrow> string option) \<Rightarrow> json \<Rightarrow> string result" where
  "NormalizedJSONHash number v =
    (let decoded = json_roundtrip v in
     if list_ex (\<lambda>l. number l = None) (json_numbers decoded) then Inl (ErrOther ''json: cannot unmarshal number'')
     else Inr (hashBytes (encode_json (map_numbers (\<lambda>l. the (number l)) decoded))))"

section \<open>ASCII text is stable\<close>

lemma coerce_utf8_ascii: "list_all (\<lambda>c. byte c < 0x80) s \<Longrightarrow> coerce_utf8 s = s"
proof (induction s)
  case Nil
  show ?case by (simp add: coerce_utf8.simps)
next
  case (Cons c s)
  then have "rune_length (c # s) = 1" by (simp add: rune_length_def)
  with Cons show ?case by (subst coerce_utf8.simps) simp
qed

lemma coerce_utf8_hashBytes [simp]: "coerce_utf8 (hashBytes s) = hashBytes s"
  by (rule coerce_utf8_ascii) (auto simp: list_all_iff graphic_def dest: hashBytes_chars)

end
