(* ===== verification/Verification.thy ===== *)
theory Verification
  imports Resource_Policy
begin

text \<open>
  Verification receipts and historical signature validity: \<^verbatim>\<open>internal/verification/domain\<close>
  (\<^verbatim>\<open>verification.go\<close>, \<^verbatim>\<open>status.go\<close>, \<^verbatim>\<open>models.go\<close>) and the helpers of \<^verbatim>\<open>internal/verification/app\<close> that
  every verification command shares: the check of a referenced signature
  (\<^verbatim>\<open>release_bundle_verification.go\<close>), the shape of an inspection and the state of the receipt
  (\<^verbatim>\<open>service.go\<close>, \<^verbatim>\<open>subject_receipt.go\<close>). The cryptographic check of one signature value
  (\<^verbatim>\<open>PayloadSignatureVerifier\<close>) is an argument, as it is in the code.
\<close>

section \<open>States and profiles\<close>

definition VerificationStatePassed :: string where "VerificationStatePassed = ''passed''"
definition VerificationStateFailed :: string where "VerificationStateFailed = ''failed''"
definition VerificationStateNotVerified :: string where "VerificationStateNotVerified = ''not_verified''"
definition VerificationStateLimited :: string where "VerificationStateLimited = ''limited''"
definition VerificationStateSkipped :: string where "VerificationStateSkipped = ''skipped''"
definition VerificationStateError :: string where "VerificationStateError = ''error''"

lemmas verification_states = VerificationStatePassed_def VerificationStateFailed_def VerificationStateNotVerified_def
  VerificationStateLimited_def VerificationStateSkipped_def VerificationStateError_def

text \<open>A \<^verbatim>\<open>VerificationState\<close> is its string; the zero value is the empty one.\<close>

definition ParseVerificationState :: "string \<Rightarrow> string result" where
  "ParseVerificationState v =
    (let v = TrimSpace v in
     if v \<in> {VerificationStatePassed, VerificationStateFailed, VerificationStateNotVerified, VerificationStateLimited,
         VerificationStateSkipped, VerificationStateError}
     then Inr v else Inl ErrInvalidState)"

definition parsed_state :: "string \<Rightarrow> string" where
  "parsed_state v = (case ParseVerificationState v of Inl e \<Rightarrow> [] | Inr s \<Rightarrow> s)"

record VerifyCheck =
  vc_Name :: string
  vc_Result :: string
  vc_Detail :: string

record VerificationProfile =
  vp_ID :: string
  vp_Version :: string
  vp_RequiredChecks :: "string list"
  vp_TrustMaterial :: "string list"
  vp_IdentityPolicy :: string
  vp_TransparencyProof :: string
  vp_PayloadScope :: string
  vp_PayloadDigest :: string
  vp_Limitations :: "string list"

definition VerificationProfileSchemaVersion :: string where
  "VerificationProfileSchemaVersion = ''verification-profile.v1.0.0''"

definition normalizedStrings :: "string list \<Rightarrow> string list" where
  "normalizedStrings xs = trimmed_set xs"

definition NormalizeVerificationProfile :: "VerificationProfile \<Rightarrow> VerificationProfile" where
  "NormalizeVerificationProfile p =
    \<lparr>vp_ID = TrimSpace (vp_ID p),
     vp_Version = (if TrimSpace (vp_Version p) = [] then VerificationProfileSchemaVersion else TrimSpace (vp_Version p)),
     vp_RequiredChecks = normalizedStrings (vp_RequiredChecks p),
     vp_TrustMaterial = normalizedStrings (vp_TrustMaterial p),
     vp_IdentityPolicy = TrimSpace (vp_IdentityPolicy p),
     vp_TransparencyProof = TrimSpace (vp_TransparencyProof p),
     vp_PayloadScope = TrimSpace (vp_PayloadScope p),
     vp_PayloadDigest = TrimSpace (vp_PayloadDigest p),
     vp_Limitations = normalizedStrings (vp_Limitations p)\<rparr>"

text \<open>The entries of the map \<^verbatim>\<open>results\<close>, in the order of the checks; a blank name is not a key.\<close>

definition check_results :: "VerifyCheck list \<Rightarrow> string \<Rightarrow> string list" where
  "check_results checks name =
    (if name = [] then [] else map (\<lambda>c. TrimSpace (vc_Result c)) (filter (\<lambda>c. TrimSpace (vc_Name c) = name) checks))"

record aggregate_flags =
  ag_allSkipped :: bool
  ag_limited :: bool
  ag_failed :: bool
  ag_hadError :: bool

definition aggregate_value :: "aggregate_flags \<Rightarrow> string \<Rightarrow> aggregate_flags" where
  "aggregate_value st v =
    (if v = VerificationStateError then st\<lparr>ag_hadError := True\<rparr>
     else if v = VerificationStateFailed then st\<lparr>ag_failed := True\<rparr>
     else if v = VerificationStateSkipped then st
     else if v = VerificationStatePassed then st\<lparr>ag_allSkipped := False\<rparr>
     else st\<lparr>ag_limited := True, ag_allSkipped := False\<rparr>)"

definition aggregate_check :: "(string \<Rightarrow> string list) \<Rightarrow> aggregate_flags \<Rightarrow> string \<Rightarrow> aggregate_flags" where
  "aggregate_check results st required =
    (let values = results required in
     if values = [] then st\<lparr>ag_limited := True, ag_allSkipped := False\<rparr>
     else foldl aggregate_value st values)"

definition AggregateVerificationState :: "VerificationProfile \<Rightarrow> VerifyCheck list \<Rightarrow> string" where
  "AggregateVerificationState profile checks =
    (let profile = NormalizeVerificationProfile profile in
     if vp_ID profile = [] \<or> vp_RequiredChecks profile = [] then parsed_state VerificationStateNotVerified
     else let results = check_results checks in
     if list_all (\<lambda>c. TrimSpace (vc_Name c) = []) checks then parsed_state VerificationStateNotVerified
     else let st = foldl (aggregate_check results)
            \<lparr>ag_allSkipped = True, ag_limited = False, ag_failed = False, ag_hadError = False\<rparr> (vp_RequiredChecks profile)
     in parsed_state
       (if ag_hadError st then VerificationStateError
        else if ag_failed st then VerificationStateFailed
        else if ag_limited st then VerificationStateLimited
        else if ag_allSkipped st then VerificationStateSkipped
        else if list_ex (\<lambda>required. list_ex (\<lambda>v. v \<noteq> VerificationStatePassed) (results required)) (vp_RequiredChecks profile)
        then VerificationStateLimited
        else VerificationStatePassed))"

section \<open>Historical validity of signing keys\<close>

definition SigningKeyStatusActive :: string where "SigningKeyStatusActive = ''active''"
definition SigningKeyStatusRetiring :: string where "SigningKeyStatusRetiring = ''retiring''"
definition SigningKeyStatusRevoked :: string where "SigningKeyStatusRevoked = ''revoked''"
definition SigningKeyStatusLegacyUnspecifiedValue :: string where
  "SigningKeyStatusLegacyUnspecifiedValue = ''legacy_unspecified''"
definition SigningKeyRevocationCompromised :: string where "SigningKeyRevocationCompromised = ''compromised''"
definition SigningKeyRevocationOrdinary :: string where "SigningKeyRevocationOrdinary = ''ordinary''"
definition SigningKeyHistoricalValidityValid :: string where "SigningKeyHistoricalValidityValid = ''valid''"
definition SigningKeyHistoricalValidityCompromised :: string where
  "SigningKeyHistoricalValidityCompromised = ''compromised''"
definition SigningKeyHistoricalValidityOutsideWindow :: string where
  "SigningKeyHistoricalValidityOutsideWindow = ''outside_validity_window''"
definition SigningKeyHistoricalValidityInvalidateAll :: string where
  "SigningKeyHistoricalValidityInvalidateAll = ''invalidate_all''"
definition SigningKeyHistoricalValidityInvalidateFromCompromise :: string where
  "SigningKeyHistoricalValidityInvalidateFromCompromise = ''invalidate_from_compromise''"
definition SigningKeyHistoricalValidityPreserve :: string where
  "SigningKeyHistoricalValidityPreserve = ''preserve''"
definition SigningKeyDefaultProvider :: string where "SigningKeyDefaultProvider = ''local_ed25519''"

lemmas signing_key_constants = SigningKeyStatusActive_def SigningKeyStatusRetiring_def SigningKeyStatusRevoked_def
  SigningKeyStatusLegacyUnspecifiedValue_def SigningKeyRevocationCompromised_def SigningKeyRevocationOrdinary_def
  SigningKeyHistoricalValidityValid_def SigningKeyHistoricalValidityCompromised_def
  SigningKeyHistoricalValidityOutsideWindow_def SigningKeyHistoricalValidityInvalidateAll_def
  SigningKeyHistoricalValidityInvalidateFromCompromise_def SigningKeyHistoricalValidityPreserve_def
  SigningKeyDefaultProvider_def

record SigningKey =
  sk_ID :: string
  sk_TenantID :: string
  sk_KID :: string
  sk_Version :: int
  sk_Provider :: string
  sk_Algorithm :: string
  sk_Status :: string
  sk_PublicKey :: string
  sk_PublicKeyFingerprint :: string
  sk_ValidFrom :: time
  sk_ValidUntil :: "time option"
  sk_CreatedAt :: time
  sk_RevokedAt :: "time option"
  sk_RevocationReason :: string
  sk_RevocationSemantics :: string
  sk_HistoricalValidityPolicy :: string
  sk_CompromisedAt :: "time option"

definition HistoricalValidityAt :: "SigningKey \<Rightarrow> time \<Rightarrow> time \<Rightarrow> string" where
  "HistoricalValidityAt key signedAt verificationTime =
    (if is_zero_time signedAt \<or> is_zero_time verificationTime \<or> verificationTime < signedAt
     then SigningKeyHistoricalValidityOutsideWindow
     else let validFrom = (if is_zero_time (sk_ValidFrom key) then sk_CreatedAt key else sk_ValidFrom key) in
     if is_zero_time validFrom \<or> signedAt < validFrom then SigningKeyHistoricalValidityOutsideWindow
     else let validUntil =
        (if sk_ValidUntil key = None \<and> sk_Status key = SigningKeyStatusRevoked \<and> sk_RevokedAt key \<noteq> None \<and>
            sk_RevocationSemantics key \<noteq> SigningKeyRevocationCompromised
         then sk_RevokedAt key else sk_ValidUntil key) in
     if (case validUntil of Some u \<Rightarrow> signedAt > u | None \<Rightarrow> False) then SigningKeyHistoricalValidityOutsideWindow
     else if sk_RevocationSemantics key = SigningKeyRevocationCompromised then
       (if sk_HistoricalValidityPolicy key = SigningKeyHistoricalValidityInvalidateAll
        then SigningKeyHistoricalValidityCompromised
        else if sk_HistoricalValidityPolicy key = SigningKeyHistoricalValidityInvalidateFromCompromise \<and>
          (case (if sk_CompromisedAt key = None then sk_RevokedAt key else sk_CompromisedAt key) of
             Some c \<Rightarrow> \<not> signedAt < c | None \<Rightarrow> False)
        then SigningKeyHistoricalValidityCompromised
        else SigningKeyHistoricalValidityValid)
     else SigningKeyHistoricalValidityValid)"

section \<open>Signatures and inspections\<close>

record Signature =
  sig_ID :: string
  sig_TenantID :: string
  sig_SubjectType :: string
  sig_SubjectID :: string
  sig_KeyID :: string
  sig_Algorithm :: string
  sig_Value :: string
  sig_CreatedAt :: time

record SubjectReference =
  sub_TenantID :: string
  sub_Type :: string
  sub_ID :: string
  sub_Resources :: ResourceReferences

type_synonym payload_verifier = "string \<Rightarrow> string \<Rightarrow> string \<Rightarrow> bool"

text \<open>Later keys with the same identifier replace earlier ones in the map \<^verbatim>\<open>keys\<close>.\<close>

definition key_lookup :: "string \<Rightarrow> SigningKey list \<Rightarrow> string \<Rightarrow> SigningKey option" where
  "key_lookup tenant publicKeys i =
    find (\<lambda>k. sk_ID k = i) (rev (filter (\<lambda>k. sk_TenantID k = tenant) publicKeys))"

definition validReferencedPayloadSignature ::
  "SubjectReference \<Rightarrow> string list \<Rightarrow> Signature list \<Rightarrow> SigningKey list \<Rightarrow> string \<Rightarrow> time \<Rightarrow> payload_verifier \<Rightarrow> bool" where
  "validReferencedPayloadSignature subject signatureRefs signatures publicKeys payload now verifier =
    list_ex (\<lambda>s.
      sig_ID s \<in> set signatureRefs \<and> sig_TenantID s = sub_TenantID subject \<and> sig_SubjectType s = sub_Type subject \<and>
      sig_SubjectID s = sub_ID subject \<and>
      (case key_lookup (sub_TenantID subject) publicKeys (sig_KeyID s) of
         None \<Rightarrow> False
       | Some key \<Rightarrow> HistoricalValidityAt key (sig_CreatedAt s) now = SigningKeyHistoricalValidityValid \<and>
           verifier (sk_PublicKey key) (sig_Value s) payload)) signatures"

record SubjectInspection =
  ins_Profile :: VerificationProfile
  ins_Checks :: "VerifyCheck list"
  ins_StateOverride :: string

definition validSubjectReference :: "SubjectReference \<Rightarrow> string \<Rightarrow> string \<Rightarrow> string \<Rightarrow> bool" where
  "validSubjectReference v tenantID subjectType subjectID \<longleftrightarrow>
    sub_TenantID v = tenantID \<and> TrimSpace (sub_Type v) = subjectType \<and> TrimSpace (sub_ID v) = subjectID"

definition validInspection :: "SubjectInspection \<Rightarrow> bool" where
  "validInspection v \<longleftrightarrow> \<not> (vp_ID (ins_Profile v) = [] \<or> vp_RequiredChecks (ins_Profile v) = [] \<or> ins_Checks v = []) \<and>
    list_all (\<lambda>c. \<not> (TrimSpace (vc_Name c) = [] \<or> TrimSpace (vc_Result c) = [])) (ins_Checks v)"

definition validConservativeStateOverride :: "SubjectInspection \<Rightarrow> string \<Rightarrow> bool" where
  "validConservativeStateOverride v aggregate \<longleftrightarrow>
    ins_StateOverride v = VerificationStateNotVerified \<and> aggregate = VerificationStateLimited \<and>
    list_all (\<lambda>required.
        let values = map (\<lambda>c. TrimSpace (vc_Result c)) (filter (\<lambda>c. TrimSpace (vc_Name c) = required) (ins_Checks v)) in
        values \<noteq> [] \<and> list_all (\<lambda>x. x = VerificationStateNotVerified) values)
      (vp_RequiredChecks (ins_Profile v))"

definition verificationReturnsFailure :: "string \<Rightarrow> bool" where
  "verificationReturnsFailure state \<longleftrightarrow> state = VerificationStateFailed \<or> state = VerificationStateError"

text \<open>The state that \<^verbatim>\<open>persistVerificationReceipt\<close> records for an inspection.\<close>

definition receipt_state :: "SubjectInspection \<Rightarrow> string result" where
  "receipt_state v =
    (let v = v\<lparr>ins_Profile := NormalizeVerificationProfile (ins_Profile v)\<rparr> in
     if \<not> validInspection v then Inl ErrValidation
     else let state = AggregateVerificationState (ins_Profile v) (ins_Checks v) in
     if ins_StateOverride v \<noteq> [] then
       (if \<not> validConservativeStateOverride v state then Inl ErrValidation else Inr (ins_StateOverride v))
     else Inr state)"

section \<open>What a receipt state means\<close>

lemma state_distinct_passed:
  "distinct [VerificationStatePassed, VerificationStateFailed, VerificationStateNotVerified, VerificationStateLimited,
     VerificationStateSkipped, VerificationStateError]"
  by (simp add: verification_states)

lemma parsed_state_id [simp]:
  "parsed_state VerificationStatePassed = VerificationStatePassed"
  "parsed_state VerificationStateFailed = VerificationStateFailed"
  "parsed_state VerificationStateNotVerified = VerificationStateNotVerified"
  "parsed_state VerificationStateLimited = VerificationStateLimited"
  "parsed_state VerificationStateSkipped = VerificationStateSkipped"
  "parsed_state VerificationStateError = VerificationStateError"
  by (simp_all add: parsed_state_def ParseVerificationState_def verification_states edge_safe_def graphic_def byte_def)

definition unknown_value :: "string \<Rightarrow> bool" where
  "unknown_value v \<longleftrightarrow>
    v \<notin> {VerificationStateError, VerificationStateFailed, VerificationStateSkipped, VerificationStatePassed}"

lemma aggregate_values:
  "ag_hadError (foldl aggregate_value st vs) \<longleftrightarrow> ag_hadError st \<or> VerificationStateError \<in> set vs"
  "ag_failed (foldl aggregate_value st vs) \<longleftrightarrow> ag_failed st \<or> VerificationStateFailed \<in> set vs"
  "ag_limited (foldl aggregate_value st vs) \<longleftrightarrow> ag_limited st \<or> list_ex unknown_value vs"
  "ag_allSkipped (foldl aggregate_value st vs) \<longleftrightarrow>
     ag_allSkipped st \<and> \<not> (VerificationStatePassed \<in> set vs \<or> list_ex unknown_value vs)"
  using state_distinct_passed
  by (induction vs arbitrary: st) (auto simp: aggregate_value_def unknown_value_def)

lemma aggregate_checks:
  "ag_hadError (foldl (aggregate_check res) st rs) \<longleftrightarrow> ag_hadError st \<or> list_ex (\<lambda>r. VerificationStateError \<in> set (res r)) rs"
  "ag_failed (foldl (aggregate_check res) st rs) \<longleftrightarrow> ag_failed st \<or> list_ex (\<lambda>r. VerificationStateFailed \<in> set (res r)) rs"
  "ag_limited (foldl (aggregate_check res) st rs) \<longleftrightarrow>
     ag_limited st \<or> list_ex (\<lambda>r. res r = [] \<or> list_ex unknown_value (res r)) rs"
  "ag_allSkipped (foldl (aggregate_check res) st rs) \<longleftrightarrow>
     ag_allSkipped st \<and> \<not> list_ex (\<lambda>r. res r = [] \<or> VerificationStatePassed \<in> set (res r) \<or> list_ex unknown_value (res r)) rs"
  by (induction rs arbitrary: st) (auto simp: aggregate_check_def Let_def aggregate_values)

text \<open>The declarative reading: which required checks of the normalized profile have which results.\<close>

definition required_results :: "VerificationProfile \<Rightarrow> VerifyCheck list \<Rightarrow> string list list" where
  "required_results profile checks = map (check_results checks) (normalizedStrings (vp_RequiredChecks profile))"

definition aggregate_spec :: "string list list \<Rightarrow> string" where
  "aggregate_spec rss =
    (if VerificationStateError \<in> set (concat rss) then VerificationStateError
     else if VerificationStateFailed \<in> set (concat rss) then VerificationStateFailed
     else if [] \<in> set rss \<or> list_ex unknown_value (concat rss) then VerificationStateLimited
     else if set (concat rss) \<subseteq> {VerificationStateSkipped} then VerificationStateSkipped
     else if set (concat rss) \<subseteq> {VerificationStatePassed} then VerificationStatePassed
     else VerificationStateLimited)"

lemma aggregate_all_known:
  assumes "VerificationStateError \<notin> set vs" and "VerificationStateFailed \<notin> set vs" and "\<not> list_ex unknown_value vs"
  shows "set vs \<subseteq> {VerificationStateSkipped, VerificationStatePassed}"
  using assms by (auto simp: list_ex_iff unknown_value_def)

lemma required_names_nonempty: "r \<in> set (normalizedStrings xs) \<Longrightarrow> r \<noteq> []"
  by (auto simp: normalizedStrings_def set_trimmed_set)

lemma Aggregate_spec:
  "AggregateVerificationState profile checks =
    (if TrimSpace (vp_ID profile) = [] \<or> normalizedStrings (vp_RequiredChecks profile) = [] \<or>
        (\<forall>c\<in>set checks. TrimSpace (vc_Name c) = [])
     then VerificationStateNotVerified else aggregate_spec (required_results profile checks))"
proof -
  let ?rs = "normalizedStrings (vp_RequiredChecks profile)" and ?res = "check_results checks"
  let ?vs = "concat (required_results profile checks)"
  have parts: "list_ex (\<lambda>r. P \<in> set (?res r)) ?rs \<longleftrightarrow> P \<in> set ?vs"
      "list_ex (\<lambda>r. ?res r = [] \<or> list_ex unknown_value (?res r)) ?rs \<longleftrightarrow>
        [] \<in> set (required_results profile checks) \<or> list_ex unknown_value ?vs" for P
    by (auto simp: required_results_def list_ex_iff image_iff) (metis)+
  have skipped: "list_ex (\<lambda>r. ?res r = [] \<or> VerificationStatePassed \<in> set (?res r) \<or> list_ex unknown_value (?res r)) ?rs \<longleftrightarrow>
      VerificationStatePassed \<in> set ?vs \<or> [] \<in> set (required_results profile checks) \<or> list_ex unknown_value ?vs"
    using parts(1) [of VerificationStatePassed] parts(2) by (auto simp: list_ex_iff)
  have other: "list_ex (\<lambda>r. list_ex (\<lambda>v. v \<noteq> VerificationStatePassed) (?res r)) ?rs \<longleftrightarrow>
      \<not> set ?vs \<subseteq> {VerificationStatePassed}"
    by (auto simp: required_results_def list_ex_iff)
  have known: "VerificationStatePassed \<notin> set ?vs \<longleftrightarrow> set ?vs \<subseteq> {VerificationStateSkipped}"
    if "VerificationStateError \<notin> set ?vs" "VerificationStateFailed \<notin> set ?vs" "\<not> list_ex unknown_value ?vs"
    using aggregate_all_known [OF that] state_distinct_passed by auto
  show ?thesis
    unfolding AggregateVerificationState_def NormalizeVerificationProfile_def Let_def aggregate_spec_def
    using known by (simp add: aggregate_checks parts skipped other list_all_iff del: set_concat)
qed

lemma aggregate_spec_passed:
  "rss \<noteq> [] \<Longrightarrow> aggregate_spec rss = VerificationStatePassed \<longleftrightarrow> (\<forall>rs\<in>set rss. rs \<noteq> [] \<and> set rs \<subseteq> {VerificationStatePassed})"
proof
  assume ne: "rss \<noteq> []" and "aggregate_spec rss = VerificationStatePassed"
  then have "[] \<notin> set rss" "set (concat rss) \<subseteq> {VerificationStatePassed}"
    using state_distinct_passed by (auto simp: aggregate_spec_def split: if_splits)
  then show "\<forall>rs\<in>set rss. rs \<noteq> [] \<and> set rs \<subseteq> {VerificationStatePassed}" by auto
next
  assume ne: "rss \<noteq> []" and all: "\<forall>rs\<in>set rss. rs \<noteq> [] \<and> set rs \<subseteq> {VerificationStatePassed}"
  then obtain rs where "rs \<in> set rss" "rs \<noteq> []" "set rs \<subseteq> {VerificationStatePassed}"
    by (cases rss) auto
  then have "VerificationStatePassed \<in> set rs"
    by (metis list.set_intros(1) neq_Nil_conv singletonD subsetD)
  then have "VerificationStatePassed \<in> set (concat rss)"
    using \<open>rs \<in> set rss\<close> by auto
  moreover have "set (concat rss) \<subseteq> {VerificationStatePassed}" using all by auto
  ultimately have "set (concat rss) = {VerificationStatePassed}" by blast
  moreover have "[] \<notin> set rss" using all by auto
  ultimately show "aggregate_spec rss = VerificationStatePassed"
    using state_distinct_passed by (auto simp: aggregate_spec_def list_ex_iff unknown_value_def simp del: set_concat)
qed

lemma aggregate_spec_failure:
  "verificationReturnsFailure (aggregate_spec rss) \<longleftrightarrow>
     (\<exists>rs\<in>set rss. VerificationStateError \<in> set rs \<or> VerificationStateFailed \<in> set rs)"
  using state_distinct_passed by (auto simp: aggregate_spec_def verificationReturnsFailure_def)

lemma required_results_normalized [simp]:
  "required_results (NormalizeVerificationProfile p) checks = required_results p checks"
  by (simp add: required_results_def NormalizeVerificationProfile_def normalizedStrings_def)

text \<open>The inspection is well formed: a profile with required checks, and no blank name or result.\<close>

lemma validInspection_normalized:
  "validInspection (v\<lparr>ins_Profile := NormalizeVerificationProfile (ins_Profile v)\<rparr>) \<longleftrightarrow>
    TrimSpace (vp_ID (ins_Profile v)) \<noteq> [] \<and> required_results (ins_Profile v) (ins_Checks v) \<noteq> [] \<and> ins_Checks v \<noteq> [] \<and>
    (\<forall>c\<in>set (ins_Checks v). TrimSpace (vc_Name c) \<noteq> [] \<and> TrimSpace (vc_Result c) \<noteq> [])"
  by (auto simp: validInspection_def NormalizeVerificationProfile_def required_results_def list_all_iff)

lemma receipt_state_plain:
  assumes "validInspection (v\<lparr>ins_Profile := NormalizeVerificationProfile (ins_Profile v)\<rparr>)" and "ins_StateOverride v = []"
  shows "receipt_state v = Inr (aggregate_spec (required_results (ins_Profile v) (ins_Checks v)))"
proof -
  have "\<not> (\<forall>c\<in>set (ins_Checks v). TrimSpace (vc_Name c) = [])"
    using assms(1) unfolding validInspection_normalized by (cases "ins_Checks v") auto
  moreover have "normalizedStrings (vp_RequiredChecks (ins_Profile v)) \<noteq> []" "TrimSpace (vp_ID (ins_Profile v)) \<noteq> []"
    using assms(1) unfolding validInspection_normalized by (auto simp: required_results_def)
  moreover have "normalizedStrings (vp_RequiredChecks (NormalizeVerificationProfile (ins_Profile v))) =
      normalizedStrings (vp_RequiredChecks (ins_Profile v))"
    "TrimSpace (vp_ID (NormalizeVerificationProfile (ins_Profile v))) = TrimSpace (vp_ID (ins_Profile v))"
    by (simp_all add: NormalizeVerificationProfile_def normalizedStrings_def)
  ultimately show ?thesis
    using assms by (auto simp: receipt_state_def Let_def Aggregate_spec)
qed

lemma receipt_state_override:
  "receipt_state v = Inr s \<Longrightarrow> ins_StateOverride v \<noteq> [] \<Longrightarrow> s = VerificationStateNotVerified"
  by (auto simp: receipt_state_def Let_def validConservativeStateOverride_def split: if_splits)

lemma receipt_state_valid:
  "receipt_state v = Inr s \<Longrightarrow> validInspection (v\<lparr>ins_Profile := NormalizeVerificationProfile (ins_Profile v)\<rparr>)"
  by (auto simp: receipt_state_def Let_def split: if_splits)

lemma receipt_passed_iff:
  "receipt_state v = Inr VerificationStatePassed \<longleftrightarrow>
     validInspection (v\<lparr>ins_Profile := NormalizeVerificationProfile (ins_Profile v)\<rparr>) \<and> ins_StateOverride v = [] \<and>
     (\<forall>r\<in>set (normalizedStrings (vp_RequiredChecks (ins_Profile v))).
        check_results (ins_Checks v) r \<noteq> [] \<and> set (check_results (ins_Checks v) r) \<subseteq> {VerificationStatePassed})"
proof (cases "validInspection (v\<lparr>ins_Profile := NormalizeVerificationProfile (ins_Profile v)\<rparr>) \<and> ins_StateOverride v = []")
  case True
  then have "required_results (ins_Profile v) (ins_Checks v) \<noteq> []"
    by (simp add: validInspection_normalized)
  then show ?thesis
    using True by (simp add: receipt_state_plain aggregate_spec_passed) (simp add: required_results_def)
next
  case False
  then show ?thesis
    using receipt_state_valid [of v] receipt_state_override [of v] state_distinct_passed by auto
qed

lemma receipt_failure_iff:
  "(\<exists>s. receipt_state v = Inr s \<and> verificationReturnsFailure s) \<longleftrightarrow>
     validInspection (v\<lparr>ins_Profile := NormalizeVerificationProfile (ins_Profile v)\<rparr>) \<and> ins_StateOverride v = [] \<and>
     (\<exists>r\<in>set (normalizedStrings (vp_RequiredChecks (ins_Profile v))).
        VerificationStateError \<in> set (check_results (ins_Checks v) r) \<or>
        VerificationStateFailed \<in> set (check_results (ins_Checks v) r))"
proof (cases "validInspection (v\<lparr>ins_Profile := NormalizeVerificationProfile (ins_Profile v)\<rparr>) \<and> ins_StateOverride v = []")
  case True
  then show ?thesis
    by (simp add: receipt_state_plain aggregate_spec_failure) (simp add: required_results_def)
next
  case False
  then show ?thesis
    using receipt_state_valid [of v] receipt_state_override [of v] state_distinct_passed
    by (auto simp: verificationReturnsFailure_def)
qed

text \<open>
  C19: A receipt says passed exactly when the inspection is well formed, carries no override,
  and every required check of its normalized profile has results, all of them passed; it
  reports a failure exactly when some required check has a failed or error result.
\<close>

theorem receipt_state_exact:
  "(receipt_state v = Inr VerificationStatePassed \<longleftrightarrow>
     validInspection (v\<lparr>ins_Profile := NormalizeVerificationProfile (ins_Profile v)\<rparr>) \<and> ins_StateOverride v = [] \<and>
     (\<forall>r\<in>set (normalizedStrings (vp_RequiredChecks (ins_Profile v))).
        check_results (ins_Checks v) r \<noteq> [] \<and> set (check_results (ins_Checks v) r) \<subseteq> {VerificationStatePassed})) \<and>
   ((\<exists>s. receipt_state v = Inr s \<and> verificationReturnsFailure s) \<longleftrightarrow>
     validInspection (v\<lparr>ins_Profile := NormalizeVerificationProfile (ins_Profile v)\<rparr>) \<and> ins_StateOverride v = [] \<and>
     (\<exists>r\<in>set (normalizedStrings (vp_RequiredChecks (ins_Profile v))).
        VerificationStateError \<in> set (check_results (ins_Checks v) r) \<or>
        VerificationStateFailed \<in> set (check_results (ins_Checks v) r)))"
  using receipt_passed_iff receipt_failure_iff by blast

definition sample_inspection :: SubjectInspection where
  "sample_inspection =
    \<lparr>ins_Profile = \<lparr>vp_ID = ''merkle-checkpoint.v1'', vp_Version = [], vp_RequiredChecks = [''merkle_root'', '' root ''],
       vp_TrustMaterial = [], vp_IdentityPolicy = [], vp_TransparencyProof = [], vp_PayloadScope = [],
       vp_PayloadDigest = [], vp_Limitations = []\<rparr>,
     ins_Checks = [\<lparr>vc_Name = ''merkle_root'', vc_Result = ''passed'', vc_Detail = []\<rparr>,
       \<lparr>vc_Name = ''root'', vc_Result = ''passed '', vc_Detail = []\<rparr>], ins_StateOverride = []\<rparr>"

theorem receipt_state_exact_witness: "receipt_state sample_inspection = Inr VerificationStatePassed"
proof -
  have "validInspection (sample_inspection\<lparr>ins_Profile := NormalizeVerificationProfile (ins_Profile sample_inspection)\<rparr>)"
      "ins_StateOverride sample_inspection = []"
      "list_all (\<lambda>r. check_results (ins_Checks sample_inspection) r \<noteq> [] \<and>
        set (check_results (ins_Checks sample_inspection) r) \<subseteq> {VerificationStatePassed})
        (normalizedStrings (vp_RequiredChecks (ins_Profile sample_inspection)))"
    by code_simp+
  then show ?thesis
    using receipt_state_exact [of sample_inspection] by (simp add: list_all_iff)
qed

end
