(* ===== verification/Audit_Chain.thy ===== *)
theory Audit_Chain
  imports Json_Text Verification
begin

text \<open>
  The tenant audit chain: the versioned canonical hash and the link hash of an entry
  (\<^verbatim>\<open>verification/app/audit_chain_hash.go\<close>), the append of \<^verbatim>\<open>internal/app/memory_uow.go\<close>, the inspector
  and the paged inspection of a committed view (\<^verbatim>\<open>verification/app/audit_chain_verification.go\<close>).
  The hasher of canonical fields and the verifier of signature values are arguments, as in the
  code; the length of the JSON that \<^verbatim>\<open>encoding/json\<close> makes of a page or of a list of checks, which
  only feeds the byte budgets, is an argument too. Go's nil map is \<open>JNull\<close>.
\<close>

section \<open>Entries and their hashes\<close>

record AuditChainEntry =
  ace_ID :: string
  ace_TenantID :: string
  ace_Sequence :: int
  ace_EntryType :: string
  ace_SubjectType :: string
  ace_SubjectID :: string
  ace_ActorType :: string
  ace_ActorID :: string
  ace_OccurredAt :: time
  ace_RequestID :: string
  ace_IdempotencyKey :: string
  ace_PayloadHash :: string
  ace_CanonicalEntryHash :: string
  ace_PreviousEntryHash :: string
  ace_EntryHash :: string
  ace_SignatureRef :: string
  ace_Metadata :: json
  ace_SchemaVersion :: string

definition AuditChainEntryLegacySchemaVersion :: string where
  "AuditChainEntryLegacySchemaVersion = ''audit-chain-entry.v1.0.0''"

definition AuditChainEntrySchemaVersion :: string where
  "AuditChainEntrySchemaVersion = ''audit-chain-entry.v2.0.0''"

type_synonym canonical_hasher = "json \<Rightarrow> string result"

text \<open>The map of canonical fields; the order of its members is that of their names.\<close>

definition canonical_fields :: "AuditChainEntry \<Rightarrow> json result" where
  "canonical_fields e =
    (if ace_SchemaVersion e = AuditChainEntryLegacySchemaVersion then
       Inr (JObject
        [(''actor_id'', JString (ace_ActorID e)), (''actor_type'', JString (ace_ActorType e)),
         (''entry_type'', JString (ace_EntryType e)),
         (''occurred_at'', JString (Format_RFC3339Nano (ace_OccurredAt e))),
         (''payload_hash'', JString (ace_PayloadHash e)), (''previous_entry_hash'', JString (ace_PreviousEntryHash e)),
         (''schema_version'', JString (ace_SchemaVersion e)), (''sequence'', JNumber (decimal_int (ace_Sequence e))),
         (''signature_ref'', JString (ace_SignatureRef e)), (''subject_id'', JString (ace_SubjectID e)),
         (''subject_type'', JString (ace_SubjectType e)), (''tenant_id'', JString (ace_TenantID e))])
     else if ace_SchemaVersion e = AuditChainEntrySchemaVersion then
       Inr (JObject
        [(''actor_id'', JString (ace_ActorID e)), (''actor_type'', JString (ace_ActorType e)),
         (''entry_type'', JString (ace_EntryType e)), (''id'', JString (ace_ID e)),
         (''idempotency_key'', JString (ace_IdempotencyKey e)), (''metadata'', ace_Metadata e),
         (''occurred_at'', JString (Format_RFC3339Nano (truncate_microsecond (ace_OccurredAt e)))),
         (''payload_hash'', JString (ace_PayloadHash e)), (''previous_entry_hash'', JString (ace_PreviousEntryHash e)),
         (''request_id'', JString (ace_RequestID e)), (''schema_version'', JString (ace_SchemaVersion e)),
         (''sequence'', JNumber (decimal_int (ace_Sequence e))), (''signature_ref'', JString (ace_SignatureRef e)),
         (''subject_id'', JString (ace_SubjectID e)), (''subject_type'', JString (ace_SubjectType e)),
         (''tenant_id'', JString (ace_TenantID e))])
     else Inl (ErrOther ''unsupported audit-chain entry schema version''))"

definition CanonicalAuditChainEntryHash :: "canonical_hasher \<Rightarrow> AuditChainEntry \<Rightarrow> string result" where
  "CanonicalAuditChainEntryHash hasher e = bind_result (canonical_fields e) hasher"

text \<open>The loop over the nanoseconds that a store with microsecond times has dropped.\<close>

fun nanos_loop :: "canonical_hasher \<Rightarrow> AuditChainEntry \<Rightarrow> time \<Rightarrow> string \<Rightarrow> int list \<Rightarrow> (string \<times> bool) result" where
  "nanos_loop hasher e base canonical [] = Inr (canonical, False)"
| "nanos_loop hasher e base canonical (n # ns) =
    bind_result (CanonicalAuditChainEntryHash hasher (e\<lparr>ace_OccurredAt := base + n\<rparr>)) (\<lambda>c.
      if c = ace_CanonicalEntryHash e then Inr (c, True) else nanos_loop hasher e base c ns)"

definition VerifiedAuditChainCanonicalHash :: "canonical_hasher \<Rightarrow> AuditChainEntry \<Rightarrow> (string \<times> bool) result" where
  "VerifiedAuditChainCanonicalHash hasher e =
    bind_result (CanonicalAuditChainEntryHash hasher e) (\<lambda>canonical.
      if canonical = ace_CanonicalEntryHash e \<or> ace_SchemaVersion e \<noteq> AuditChainEntryLegacySchemaVersion
      then Inr (canonical, canonical = ace_CanonicalEntryHash e)
      else nanos_loop hasher e (truncate_microsecond (ace_OccurredAt e)) canonical [1..999])"

definition link_text :: "string \<Rightarrow> string \<Rightarrow> string" where
  "link_text previous canonical = previous @ [CHR 0x0A] @ canonical"

definition auditChainLinkHash :: "string \<Rightarrow> string \<Rightarrow> string" where
  "auditChainLinkHash previous canonical = hashBytes (link_text previous canonical)"

definition RehashAuditChainEntry :: "canonical_hasher \<Rightarrow> AuditChainEntry \<Rightarrow> AuditChainEntry result" where
  "RehashAuditChainEntry hasher e =
    bind_result (CanonicalAuditChainEntryHash hasher e) (\<lambda>canonical.
      Inr (e\<lparr>ace_CanonicalEntryHash := canonical, ace_EntryHash := auditChainLinkHash (ace_PreviousEntryHash e) canonical\<rparr>))"

definition VerifyAuditChainEntryHash :: "canonical_hasher \<Rightarrow> AuditChainEntry \<Rightarrow> bool" where
  "VerifyAuditChainEntryHash hasher e =
    (case VerifiedAuditChainCanonicalHash hasher e of
       Inl err \<Rightarrow> False
     | Inr (canonical, valid) \<Rightarrow> valid \<and> auditChainLinkHash (ace_PreviousEntryHash e) canonical = ace_EntryHash e)"

section \<open>Appending\<close>

text \<open>
  \<^verbatim>\<open>cloneMemoryAuditEntry\<close>: a JSON round trip of the persisted record. Empty optional members are
  omitted, so an empty metadata object comes back as a nil map; a year outside 0..9999 is an
  encoding error.
\<close>

definition cloneMemoryAuditEntry :: "AuditChainEntry \<Rightarrow> AuditChainEntry result" where
  "cloneMemoryAuditEntry e =
    (if year_of (ace_OccurredAt e) < 0 \<or> 9999 < year_of (ace_OccurredAt e) then Inl (ErrOther ''json: year outside of range'')
     else Inr \<lparr>ace_ID = coerce_utf8 (ace_ID e), ace_TenantID = coerce_utf8 (ace_TenantID e), ace_Sequence = ace_Sequence e,
       ace_EntryType = coerce_utf8 (ace_EntryType e), ace_SubjectType = coerce_utf8 (ace_SubjectType e),
       ace_SubjectID = coerce_utf8 (ace_SubjectID e), ace_ActorType = coerce_utf8 (ace_ActorType e),
       ace_ActorID = coerce_utf8 (ace_ActorID e), ace_OccurredAt = ace_OccurredAt e,
       ace_RequestID = coerce_utf8 (ace_RequestID e), ace_IdempotencyKey = coerce_utf8 (ace_IdempotencyKey e),
       ace_PayloadHash = coerce_utf8 (ace_PayloadHash e), ace_CanonicalEntryHash = coerce_utf8 (ace_CanonicalEntryHash e),
       ace_PreviousEntryHash = coerce_utf8 (ace_PreviousEntryHash e), ace_EntryHash = coerce_utf8 (ace_EntryHash e),
       ace_SignatureRef = coerce_utf8 (ace_SignatureRef e),
       ace_Metadata = (if ace_Metadata e = JObject [] then JNull else json_roundtrip (ace_Metadata e)),
       ace_SchemaVersion = coerce_utf8 (ace_SchemaVersion e)\<rparr>)"

record audit_store =
  as_tenants :: "string list"
  as_entries :: "(string, AuditChainEntry list) table"

definition chain_of :: "audit_store \<Rightarrow> string \<Rightarrow> AuditChainEntry list" where
  "chain_of s t = (case tbl_get (as_entries s) t of None \<Rightarrow> [] | Some es \<Rightarrow> es)"

definition require_audit_tenant :: "audit_store \<Rightarrow> string \<Rightarrow> error option" where
  "require_audit_tenant s t = (if t = [] then Some ErrValidation else if t \<in> set (as_tenants s) then None else Some ErrNotFound)"

definition appendAudit ::
  "canonical_hasher \<Rightarrow> AuditChainEntry \<Rightarrow> audit_store \<Rightarrow> (AuditChainEntry \<times> audit_store) result" where
  "appendAudit hasher entry s =
    check_then (require_audit_tenant s (ace_TenantID entry))
    (if ace_ID entry = [] \<or> ace_EntryType entry = [] \<or> ace_SubjectType entry = [] \<or> ace_SubjectID entry = [] \<or>
        ace_ActorType entry = [] \<or> ace_ActorID entry = [] \<or> is_zero_time (ace_OccurredAt entry)
     then Inl ErrValidation
     else let entries = chain_of s (ace_TenantID entry) in
     if list_ex (\<lambda>existing. ace_ID existing = ace_ID entry) entries then Inl ErrConflict
     else let entry = entry\<lparr>ace_Sequence := i64 (int (length entries) + 1),
            ace_PreviousEntryHash := (if entries = [] then [] else ace_EntryHash (last entries)),
            ace_SchemaVersion := (if ace_SchemaVersion entry = [] then AuditChainEntrySchemaVersion
              else ace_SchemaVersion entry)\<rparr> in
     bind_result (RehashAuditChainEntry hasher entry) (\<lambda>entry.
     bind_result (cloneMemoryAuditEntry entry) (\<lambda>cloned.
       Inr (cloned, s\<lparr>as_entries := tbl_put (as_entries s) (ace_TenantID entry) (entries @ [cloned])\<rparr>))))"

section \<open>Inspecting\<close>

record AuditSignatureBinding =
  asb_Subject :: SubjectReference
  asb_Payload :: string

definition auditSignatureBindingMatches :: "AuditChainEntry \<Rightarrow> AuditSignatureBinding \<Rightarrow> bool" where
  "auditSignatureBindingMatches e b \<longleftrightarrow>
    asb_Payload b \<noteq> [] \<and> sub_TenantID (asb_Subject b) = ace_TenantID e \<and>
    (if ace_SubjectType e \<in> {''release_bundle'', ''evidence_bundle'', ''merkle_batch''}
     then sub_Type (asb_Subject b) = ace_SubjectType e \<and> sub_ID (asb_Subject b) = ace_SubjectID e
     else if ace_SubjectType e = ''signing_operation'' then sub_Type (asb_Subject b) \<noteq> [] \<and> sub_ID (asb_Subject b) \<noteq> []
     else False)"

definition MaxAuditChainVerificationPageEntries :: nat where "MaxAuditChainVerificationPageEntries = 128"
definition MaxAuditChainVerificationBytes :: int where "MaxAuditChainVerificationBytes = 8 * 1024 * 1024"

record AuditChainInspector =
  aci_tenant :: string
  aci_now :: time
  aci_previous :: string
  aci_count :: int
  aci_checks :: "VerifyCheck list"
  aci_passed :: bool
  aci_bytes :: int

definition NewAuditChainInspector :: "string \<Rightarrow> time \<Rightarrow> AuditChainInspector" where
  "NewAuditChainInspector tenant now =
    \<lparr>aci_tenant = tenant, aci_now = now, aci_previous = [], aci_count = 0, aci_checks = [], aci_passed = True, aci_bytes = 0\<rparr>"

text \<open>What the code takes from outside: hashing, signature checks and encoded sizes.\<close>

record audit_tools =
  at_hasher :: canonical_hasher
  at_verifier :: payload_verifier
  at_checks_size :: "VerifyCheck list \<Rightarrow> int option"

definition zero_binding :: AuditSignatureBinding where
  "zero_binding = \<lparr>asb_Subject = \<lparr>sub_TenantID = [], sub_Type = [], sub_ID = [], sub_Resources = no_refs\<rparr>, asb_Payload = []\<rparr>"

definition entry_facts ::
  "audit_tools \<Rightarrow> AuditChainInspector \<Rightarrow> AuditChainEntry \<Rightarrow> AuditSignatureBinding \<Rightarrow> Signature list \<Rightarrow> SigningKey list \<Rightarrow>
     (string \<times> bool) list" where
  "entry_facts tools s e binding signatures keys =
    (let verified = VerifiedAuditChainCanonicalHash (at_hasher tools) e;
         validSignature = (ace_SignatureRef e = [] \<or> auditSignatureBindingMatches e binding \<and>
           validReferencedPayloadSignature (asb_Subject binding) [ace_SignatureRef e] signatures keys (asb_Payload binding)
             (aci_now s) (at_verifier tools))
     in [(''tenant_id'', ace_TenantID e = aci_tenant s),
         (''schema_version'', ace_SchemaVersion e = AuditChainEntryLegacySchemaVersion \<or>
            ace_SchemaVersion e = AuditChainEntrySchemaVersion),
         (''sequence'', ace_Sequence e = i64 (aci_count s + 1)),
         (''previous_hash'', ace_PreviousEntryHash e = aci_previous s),
         (''canonical_entry_hash'', (case verified of Inl _ \<Rightarrow> False | Inr (canonical, matches) \<Rightarrow> matches)),
         (''entry_hash'', (case verified of Inl _ \<Rightarrow> False
            | Inr (canonical, matches) \<Rightarrow> auditChainLinkHash (aci_previous s) canonical = ace_EntryHash e)),
         (''referenced_signature'', validSignature)])"

definition Inspector_Append ::
  "audit_tools \<Rightarrow> AuditChainInspector \<Rightarrow> AuditChainEntry \<Rightarrow> AuditSignatureBinding \<Rightarrow> Signature list \<Rightarrow> SigningKey list \<Rightarrow>
     AuditChainInspector result" where
  "Inspector_Append tools s e binding signatures keys =
    (if length (ace_ID e) > 1024 then Inl ErrConflict
     else let facts = entry_facts tools s e binding signatures keys;
              checks = map (\<lambda>(name, valid). \<lparr>vc_Name = name, vc_Result = (if valid then ''passed'' else ''failed''),
                vc_Detail = ace_ID e\<rparr>) facts in
     case at_checks_size tools checks of
       None \<Rightarrow> Inl ErrConflict
     | Some raw \<Rightarrow>
        (if raw > MaxAuditChainVerificationBytes - aci_bytes s then Inl ErrConflict
         else Inr (s\<lparr>aci_bytes := aci_bytes s + raw, aci_checks := aci_checks s @ checks,
           aci_passed := aci_passed s \<and> list_all snd facts,
           aci_previous := ace_EntryHash e, aci_count := i64 (aci_count s + 1)\<rparr>)))"

definition VerificationProfileAuditChainIntegrity :: string where
  "VerificationProfileAuditChainIntegrity = ''audit-chain-integrity.v1''"

text \<open>The required checks are the names in the order of their first occurrence.\<close>

definition Inspection :: "AuditChainInspector \<Rightarrow> SubjectInspection" where
  "Inspection s =
    (let checks = aci_checks s @ [\<lparr>vc_Name = ''audit_chain'', vc_Result = (if aci_passed s then ''passed'' else ''failed''),
           vc_Detail = []\<rparr>]
     in \<lparr>ins_Profile = NormalizeVerificationProfile
           \<lparr>vp_ID = VerificationProfileAuditChainIntegrity, vp_Version = VerificationProfileSchemaVersion,
            vp_RequiredChecks = rev (remdups (rev (map vc_Name checks))),
            vp_TrustMaterial = [''Evydence audit-chain canonical hashes''],
            vp_IdentityPolicy = ''tenant-scoped verification authorization'', vp_TransparencyProof = ''not_evaluated'',
            vp_PayloadScope = ''tenant audit-chain entries'', vp_PayloadDigest = [],
            vp_Limitations = [''Audit-chain verification does not prove external anchoring or third-party log inclusion.'']\<rparr>,
         ins_Checks = checks, ins_StateOverride = []\<rparr>)"

section \<open>Paged views\<close>

record AuditChainVerificationView =
  acv_TenantID :: string
  acv_HeadSequence :: int
  acv_HeadHash :: string
  acv_EntryCount :: int

record AuditChainVerificationPage =
  acp_Entries :: "AuditChainEntry list"
  acp_Bindings :: "(string, AuditSignatureBinding) table"
  acp_Signatures :: "Signature list"
  acp_Keys :: "SigningKey list"
  acp_BytesRead :: int

text \<open>The entries of one page, in order: each must come after the last one and not after the head.\<close>

fun page_loop ::
  "audit_tools \<Rightarrow> AuditChainVerificationView \<Rightarrow> AuditChainVerificationPage \<Rightarrow> AuditChainEntry list \<Rightarrow>
     int option \<Rightarrow> AuditChainInspector \<Rightarrow> (int option \<times> AuditChainInspector) result" where
  "page_loop tools view page [] after s = Inr (after, s)"
| "page_loop tools view page (e # es) after s =
    (if (case after of Some a \<Rightarrow> ace_Sequence e \<le> a | None \<Rightarrow> False) \<or> ace_Sequence e > acv_HeadSequence view
     then Inl ErrConflict
     else let binding = (case tbl_get (acp_Bindings page) (ace_ID e) of None \<Rightarrow> zero_binding | Some b \<Rightarrow> b) in
     bind_result (Inspector_Append tools s e binding (acp_Signatures page) (acp_Keys page)) (\<lambda>s.
       page_loop tools view page es (Some (ace_Sequence e)) s))"

type_synonym page_reader = "AuditChainVerificationView \<Rightarrow> int option \<Rightarrow> int \<Rightarrow> AuditChainVerificationPage result"

definition page_bytes :: "(AuditChainVerificationPage \<Rightarrow> int option) \<Rightarrow> int \<Rightarrow> AuditChainVerificationPage \<Rightarrow> int result" where
  "page_bytes page_size budget page =
    (if length (acp_Entries page) > MaxAuditChainVerificationPageEntries \<or>
        length (AList.clearjunk (acp_Bindings page)) > MaxAuditChainVerificationPageEntries \<or>
        length (acp_Signatures page) > MaxAuditChainVerificationPageEntries \<or>
        length (acp_Keys page) > MaxAuditChainVerificationPageEntries \<or>
        acp_BytesRead page < 0 \<or> acp_BytesRead page > budget \<or> acp_Entries page \<noteq> [] \<and> acp_BytesRead page = 0
     then Inl ErrConflict
     else if acp_Entries page = [] then Inr (acp_BytesRead page)
     else case page_size page of
       None \<Rightarrow> Inl ErrConflict
     | Some raw \<Rightarrow> (if raw > budget then Inl ErrConflict else Inr (max raw (acp_BytesRead page))))"

text \<open>
  The loop over pages, with the entries it handed to \<^verbatim>\<open>collect\<close>. Every page that is not empty
  takes at least one byte of the budget, so the loop ends.
\<close>

function view_loop ::
  "audit_tools \<Rightarrow> page_reader \<Rightarrow> (AuditChainVerificationPage \<Rightarrow> int option) \<Rightarrow> (nat \<Rightarrow> error option) \<Rightarrow>
     AuditChainVerificationView \<Rightarrow> nat \<Rightarrow> int \<Rightarrow> int option \<Rightarrow> AuditChainInspector \<Rightarrow> AuditChainEntry list \<Rightarrow>
     (int option \<times> AuditChainInspector \<times> AuditChainEntry list) result" where
  "view_loop tools read page_size ctxErr view n budget after s collected =
    check_then (ctxErr n)
    (case read view after budget of
       Inl e \<Rightarrow> Inl e
     | Inr page \<Rightarrow>
        (case page_bytes page_size budget page of
           Inl e \<Rightarrow> Inl e
         | Inr bytes \<Rightarrow>
            (if acp_Entries page = [] then Inr (after, s, collected)
             else case page_loop tools view page (acp_Entries page) after s of
               Inl e \<Rightarrow> Inl e
             | Inr (after', s') \<Rightarrow>
                view_loop tools read page_size ctxErr view (Suc n) (budget - bytes) after' s'
                  (collected @ acp_Entries page))))"
  by pat_completeness auto
termination
  by (relation "measure (\<lambda>(_, _, _, _, _, _, budget, _). nat budget)")
     (auto simp: page_bytes_def split: if_splits option.splits)

declare view_loop.simps [simp del]

definition inspectAuditChainView ::
  "audit_tools \<Rightarrow> page_reader \<Rightarrow> (AuditChainVerificationPage \<Rightarrow> int option) \<Rightarrow> (nat \<Rightarrow> error option) \<Rightarrow>
     AuditChainVerificationView \<Rightarrow> string \<Rightarrow> time \<Rightarrow> (SubjectInspection \<times> AuditChainEntry list) result" where
  "inspectAuditChainView tools read page_size ctxErr view tenant now =
    (if acv_TenantID view \<noteq> tenant then Inl ErrNotFound
     else if acv_EntryCount view < 0 \<or> length (acv_HeadHash view) > 1024 \<or>
        acv_EntryCount view = 0 \<and> (acv_HeadHash view \<noteq> [] \<or> acv_HeadSequence view \<noteq> 0)
     then Inl ErrConflict
     else bind_result (view_loop tools read page_size ctxErr view 0 MaxAuditChainVerificationBytes None
         (NewAuditChainInspector tenant now) [])
       (\<lambda>(after, s, collected).
         if aci_count s \<noteq> acv_EntryCount view \<or> aci_previous s \<noteq> acv_HeadHash view \<or>
            (case after of Some a \<Rightarrow> a \<noteq> acv_HeadSequence view | None \<Rightarrow> False)
         then Inl ErrConflict
         else Inr (Inspection s, collected)))"

end
