(* ===== verification/Signing_Keys.thy ===== *)
theory Signing_Keys
  imports Audit_Chain Store
begin

text \<open>
  Tenant signing keys: the in-memory key repository (\<^verbatim>\<open>memory_uow.go\<close>, \<^verbatim>\<open>memory_signing_key_commands.go\<close>)
  and the commands that rotate and revoke a key (\<^verbatim>\<open>verification/app/signing_key_lifecycle.go\<close>), each
  as the body of its transaction over the slice of the snapshot it touches. The authorization
  decisions, the clock, the generated key and identifiers are arguments of a command.
\<close>

section \<open>The repository\<close>

record StoredSigningKey =
  ssk_Key :: SigningKey
  ssk_Private :: string

record integrity_store =
  is_audit :: audit_store
  is_keys :: "(string, StoredSigningKey) table"
  is_signatures :: "(string, Signature) table"

definition require_tenant :: "integrity_store \<Rightarrow> string \<Rightarrow> error option" where
  "require_tenant s t = require_audit_tenant (is_audit s) t"

definition signingKeyProvider :: "SigningKey \<Rightarrow> string" where
  "signingKeyProvider key = (if sk_Provider key = [] then SigningKeyDefaultProvider else sk_Provider key)"

definition rival :: "SigningKey \<Rightarrow> SigningKey \<Rightarrow> bool" where
  "rival a b \<longleftrightarrow> sk_TenantID b = sk_TenantID a \<and> sk_Status b = SigningKeyStatusActive \<and>
     signingKeyProvider b = signingKeyProvider a"

definition InsertSigningKey :: "StoredSigningKey \<Rightarrow> integrity_store \<Rightarrow> integrity_store result" where
  "InsertSigningKey stored s =
    (let key = ssk_Key stored in
     check_then (require_tenant s (sk_TenantID key))
     (if sk_ID key = [] \<or> sk_KID key = [] \<or> sk_Algorithm key = [] \<or> sk_Status key = [] \<or> sk_PublicKey key = [] \<or>
         is_zero_time (sk_CreatedAt key) then Inl ErrValidation
      else if tbl_get (is_keys s) (sk_ID key) \<noteq> None then Inl ErrConflict
      else if sk_Status key = SigningKeyStatusActive \<and> tbl_any (\<lambda>e. rival key (ssk_Key e)) (is_keys s) then Inl ErrConflict
      else Inr (s\<lparr>is_keys := tbl_put (is_keys s) (sk_ID key) stored\<rparr>)))"

text \<open>The loop over the other rows: \<^verbatim>\<open>id != existing.ID\<close> compares the map key with the stored identifier.\<close>

definition UpdateSigningKey :: "StoredSigningKey \<Rightarrow> string \<Rightarrow> integrity_store \<Rightarrow> integrity_store result" where
  "UpdateSigningKey stored expectedStatus s =
    (let key = ssk_Key stored in
     check_then (require_tenant s (sk_TenantID key))
     (if sk_ID key = [] \<or> sk_Status key = [] \<or> expectedStatus = [] then Inl ErrValidation
      else case tbl_get (is_keys s) (sk_ID key) of
        None \<Rightarrow> Inl ErrNotFound
      | Some existing \<Rightarrow>
         (if sk_TenantID (ssk_Key existing) \<noteq> sk_TenantID key then Inl ErrNotFound
          else if sk_Status (ssk_Key existing) \<noteq> expectedStatus then Inl ErrConflict
          else if sk_Status key = SigningKeyStatusActive \<and>
             tbl_any (\<lambda>e. rival key (ssk_Key e)) (tbl_del (is_keys s) (sk_ID (ssk_Key existing))) then Inl ErrConflict
          else Inr (s\<lparr>is_keys := tbl_put (is_keys s) (sk_ID (ssk_Key existing))
            (if ssk_Private stored = [] then stored\<lparr>ssk_Private := ssk_Private existing\<rparr> else stored)\<rparr>))))"

definition InsertSignature :: "Signature \<Rightarrow> integrity_store \<Rightarrow> integrity_store result" where
  "InsertSignature v s =
    check_then (require_tenant s (sig_TenantID v))
    (case tbl_get (is_keys s) (sig_KeyID v) of
       None \<Rightarrow> Inl ErrNotFound
     | Some key \<Rightarrow>
        (if sk_TenantID (ssk_Key key) \<noteq> sig_TenantID v then Inl ErrNotFound
         else if sig_ID v = [] \<or> sig_SubjectType v = [] \<or> sig_SubjectID v = [] \<or> sig_Algorithm v = [] \<or> sig_Value v = [] \<or>
            is_zero_time (sig_CreatedAt v) then Inl ErrValidation
         else if tbl_get (is_signatures s) (sig_ID v) \<noteq> None then Inl ErrConflict
         else Inr (s\<lparr>is_signatures := tbl_put (is_signatures s) (sig_ID v) v\<rparr>)))"

definition memoryGovernanceText :: "string \<Rightarrow> nat \<Rightarrow> bool" where
  "memoryGovernanceText v limit \<longleftrightarrow> length v \<le> limit \<and> utf8_valid v \<and> \<not> contains_nul v"

definition ParseSigningKeyStatus :: "string \<Rightarrow> string result" where
  "ParseSigningKeyStatus v =
    (let v = TrimSpace v in
     if v \<in> {SigningKeyStatusActive, SigningKeyStatusRetiring, SigningKeyStatusRevoked, SigningKeyStatusLegacyUnspecifiedValue}
     then Inr v else Inl ErrInvalidState)"

definition admin_fields :: "SigningKey \<Rightarrow> (string \<times> nat) list" where
  "admin_fields key =
    [(sk_ID key, 1024), (sk_TenantID key, 1024), (sk_KID key, 1024), (sk_Provider key, 64), (sk_Algorithm key, 64),
     (sk_Status key, 64), (sk_PublicKey key, 16384), (sk_PublicKeyFingerprint key, 1024), (sk_RevocationReason key, 4096),
     (sk_RevocationSemantics key, 64), (sk_HistoricalValidityPolicy key, 64)]"

definition memorySigningAdminKey :: "SigningKey \<Rightarrow> (SigningKey \<times> nat) result" where
  "memorySigningAdminKey key =
    (case ParseSigningKeyStatus (sk_Status key) of
       Inl e \<Rightarrow> Inl ErrConflict
     | Inr status \<Rightarrow>
        (if sk_ID key = [] \<or> sk_TenantID key = [] \<or> sk_KID key = [] \<or> sk_Algorithm key = [] \<or> sk_PublicKey key = [] \<or>
            sk_Version key < 1 \<or> sk_Version key > 2147483647 \<or> is_zero_time (sk_CreatedAt key) \<or> is_zero_time (sk_ValidFrom key)
         then Inl ErrConflict
         else if list_ex (\<lambda>(v, limit). \<not> memoryGovernanceText v limit) (admin_fields key) then Inl ErrConflict
         else Inr (key\<lparr>sk_Status := status\<rparr>, sum_list (map (\<lambda>(v, _). length v) (admin_fields key)))))"

definition MaxSigningRotationKeys :: nat where "MaxSigningRotationKeys = 4096"

text \<open>The rows of a table, one per key.\<close>

definition rows :: "('k, 'v) table \<Rightarrow> ('k \<times> 'v) list" where
  "rows t = AList.clearjunk t"

text \<open>
  The listing stops with a conflict at a row stored under another identifier, at an invalid row,
  at one row too many or when the byte budget is spent; none depends on the order of the map.
\<close>

definition ListLocalSigningKeysForUpdate :: "integrity_store \<Rightarrow> string \<Rightarrow> SigningKey list result" where
  "ListLocalSigningKeysForUpdate s tenant =
    (if \<not> memoryMembershipQueryText tenant 1024 then Inl ErrValidation
     else check_then (require_tenant s tenant)
    (let own = filter (\<lambda>(i, v). sk_TenantID (ssk_Key v) = tenant \<and>
           (sk_Provider (ssk_Key v) = [] \<or> sk_Provider (ssk_Key v) = SigningKeyDefaultProvider)) (rows (is_keys s));
         views = map (\<lambda>(i, v). memorySigningAdminKey (ssk_Key v)) own in
     if list_ex (\<lambda>(i, v). sk_ID (ssk_Key v) \<noteq> i) own \<or> length own > MaxSigningRotationKeys \<or> list_ex isl views \<or>
        sum_list (map (\<lambda>r. snd (projr r)) views) > 8 * 1024 * 1024
     then Inl ErrConflict
     else Inr (sort_key sk_ID (map (\<lambda>r. fst (projr r)) views))))"

definition validSigningKeyText :: "string \<Rightarrow> bool" where
  "validSigningKeyText v \<longleftrightarrow> TrimSpace v \<noteq> [] \<and> utf8_valid v \<and> \<not> contains_nul v"

definition NormalizeSigningKeyID :: "string \<Rightarrow> string result" where
  "NormalizeSigningKeyID raw = (if length raw > 1024 \<or> \<not> validSigningKeyText raw then Inl ErrValidation else Inr (TrimSpace raw))"

definition NormalizeSigningKeyReason :: "string \<Rightarrow> string result" where
  "NormalizeSigningKeyReason raw = (if length raw > 4096 \<or> \<not> validSigningKeyText raw then Inl ErrValidation else Inr (TrimSpace raw))"

definition GetSigningKeyForUpdate :: "integrity_store \<Rightarrow> string \<Rightarrow> string \<Rightarrow> SigningKey result" where
  "GetSigningKeyForUpdate s tenant raw =
    bind_result (NormalizeSigningKeyID raw) (\<lambda>i.
    if \<not> memoryMembershipQueryText tenant 1024 then Inl ErrValidation
    else check_then (require_tenant s tenant)
    (case tbl_get (is_keys s) i of
       None \<Rightarrow> Inl ErrNotFound
     | Some v \<Rightarrow>
        (if sk_TenantID (ssk_Key v) \<noteq> tenant then Inl ErrNotFound
         else if sk_ID (ssk_Key v) \<noteq> i then Inl ErrConflict
         else bind_result (memorySigningAdminKey (ssk_Key v)) (\<lambda>(k, _). Inr k))))"

section \<open>Audit events\<close>

record AuditEvent =
  aev_ID :: string
  aev_TenantID :: string
  aev_EntryType :: string
  aev_SubjectType :: string
  aev_SubjectID :: string
  aev_ActorType :: string
  aev_ActorID :: string
  aev_OccurredAt :: time
  aev_PayloadHash :: string
  aev_SignatureRef :: string

definition event_entry :: "AuditEvent \<Rightarrow> AuditChainEntry" where
  "event_entry v =
    \<lparr>ace_ID = aev_ID v, ace_TenantID = aev_TenantID v, ace_Sequence = 0, ace_EntryType = aev_EntryType v,
     ace_SubjectType = aev_SubjectType v, ace_SubjectID = aev_SubjectID v, ace_ActorType = aev_ActorType v,
     ace_ActorID = aev_ActorID v, ace_OccurredAt = aev_OccurredAt v, ace_RequestID = [], ace_IdempotencyKey = [],
     ace_PayloadHash = aev_PayloadHash v, ace_CanonicalEntryHash = [], ace_PreviousEntryHash = [], ace_EntryHash = [],
     ace_SignatureRef = aev_SignatureRef v, ace_Metadata = JNull, ace_SchemaVersion = AuditChainEntrySchemaVersion\<rparr>"

definition appendAuditEvent :: "canonical_hasher \<Rightarrow> AuditEvent \<Rightarrow> integrity_store \<Rightarrow> integrity_store result" where
  "appendAuditEvent hasher v s =
    bind_result (appendAudit hasher (event_entry v) (is_audit s)) (\<lambda>(_, a). Inr (s\<lparr>is_audit := a\<rparr>))"

definition auditActorType :: "Actor \<Rightarrow> string" where
  "auditActorType actor =
    (if actor_CollectorID actor \<noteq> [] then ''collector'' else if actor_UserID actor \<noteq> [] then ''human_user'' else ''api_key'')"

definition auditActorID :: "Actor \<Rightarrow> string" where
  "auditActorID actor =
    (if actor_CollectorID actor \<noteq> [] then TrimSpace (actor_CollectorID actor)
     else if actor_UserID actor \<noteq> [] then TrimSpace (actor_UserID actor) else TrimSpace (actor_KeyID actor))"

definition validateActor :: "Actor \<Rightarrow> error option" where
  "validateActor actor = (if TrimSpace (actor_TenantID actor) = [] \<or> auditActorID actor = [] then Some ErrForbidden else None)"

definition validateSigningKeyActor :: "Actor \<Rightarrow> error option" where
  "validateSigningKeyActor actor =
    on_ok (validateActor actor)
    (if length (actor_TenantID actor) > 1024 \<or> \<not> validSigningKeyText (actor_TenantID actor) \<or>
        TrimSpace (actor_TenantID actor) \<noteq> actor_TenantID actor
     then Some ErrValidation else None)"

section \<open>Rotation and revocation\<close>

record key_command =
  kc_ctx :: "error option"
  kc_authorize :: "error option"
  kc_txAuthorize :: "error option"
  kc_now :: time
  kc_auditID :: string
  kc_generate :: "int \<Rightarrow> StoredSigningKey result"
  kc_hasher :: canonical_hasher

definition key_event :: "key_command \<Rightarrow> Actor \<Rightarrow> string \<Rightarrow> string \<Rightarrow> AuditEvent" where
  "key_event c actor kind i =
    \<lparr>aev_ID = kc_auditID c, aev_TenantID = actor_TenantID actor, aev_EntryType = kind, aev_SubjectType = ''signing_key'',
     aev_SubjectID = i, aev_ActorType = auditActorType actor, aev_ActorID = auditActorID actor, aev_OccurredAt = kc_now c,
     aev_PayloadHash = [], aev_SignatureRef = []\<rparr>"

definition validPreparedSigningKey :: "StoredSigningKey \<Rightarrow> string \<Rightarrow> string \<Rightarrow> int \<Rightarrow> time \<Rightarrow> bool" where
  "validPreparedSigningKey v tenantID provider version now \<longleftrightarrow>
    (let key = ssk_Key v in
     sk_ID key \<noteq> [] \<and> sk_TenantID key = tenantID \<and> sk_KID key \<noteq> [] \<and> sk_Version key = version \<and> sk_Provider key = provider \<and>
     sk_Algorithm key \<noteq> [] \<and> sk_Status key = SigningKeyStatusActive \<and> sk_PublicKey key \<noteq> [] \<and>
     sk_PublicKeyFingerprint key \<noteq> [] \<and> \<not> sk_ValidFrom key > now \<and> \<not> sk_CreatedAt key > now \<and> ssk_Private v \<noteq> [])"

text \<open>The loop over the listed keys: the next version and the active keys to retire.\<close>

fun rotation_loop :: "string \<Rightarrow> time \<Rightarrow> SigningKey list \<Rightarrow> int \<Rightarrow> SigningKey list \<Rightarrow> (int \<times> SigningKey list) result" where
  "rotation_loop tenant now [] version retiring = Inr (version, retiring)"
| "rotation_loop tenant now (key # keys) version retiring =
    (if sk_TenantID key \<noteq> tenant then Inl ErrNotFound
     else let provider = TrimSpace (sk_Provider key);
              provider = (if provider = [] then SigningKeyDefaultProvider else provider) in
     if provider \<noteq> SigningKeyDefaultProvider then rotation_loop tenant now keys version retiring
     else if sk_Version key \<ge> 2147483647 then Inl ErrConflict
     else let version = (if sk_Version key < 1 \<and> version < 2 then 2
            else if sk_Version key \<ge> version then sk_Version key + 1 else version) in
     if sk_Status key = SigningKeyStatusActive
     then rotation_loop tenant now keys version
       (retiring @ [key\<lparr>sk_Status := SigningKeyStatusRetiring, sk_ValidUntil := Some now\<rparr>])
     else rotation_loop tenant now keys version retiring)"

fun update_all :: "string \<Rightarrow> SigningKey list \<Rightarrow> integrity_store \<Rightarrow> integrity_store result" where
  "update_all expected [] s = Inr s"
| "update_all expected (key # keys) s =
    bind_result (UpdateSigningKey \<lparr>ssk_Key = key, ssk_Private = []\<rparr> expected s) (update_all expected keys)"

definition RotateSigningKey ::
  "key_command \<Rightarrow> Actor \<Rightarrow> string \<Rightarrow> integrity_store \<Rightarrow> (SigningKey \<times> integrity_store) result" where
  "RotateSigningKey c actor reason s =
    check_then (kc_ctx c) (check_then (validateSigningKeyActor actor) (check_then (kc_authorize c)
    (bind_result (NormalizeSigningKeyReason reason) (\<lambda>_.
    check_then (kc_txAuthorize c)
    (bind_result (ListLocalSigningKeysForUpdate s (actor_TenantID actor)) (\<lambda>keys.
    if length keys > MaxSigningRotationKeys then Inl ErrConflict
    else bind_result (rotation_loop (actor_TenantID actor) (kc_now c) keys 1 []) (\<lambda>(version, retiring).
    bind_result (kc_generate c version) (\<lambda>prepared.
    if \<not> validPreparedSigningKey prepared (actor_TenantID actor) SigningKeyDefaultProvider version (kc_now c) then Inl ErrValidation
    else bind_result (update_all SigningKeyStatusActive retiring s) (\<lambda>s.
    bind_result (InsertSigningKey prepared s) (\<lambda>s.
    bind_result (appendAuditEvent (kc_hasher c) (key_event c actor ''signing_key.rotated'' (sk_ID (ssk_Key prepared))) s) (\<lambda>s.
    Inr (ssk_Key prepared, s))))))))))))"

record SigningKeyRevocationInput =
  ski_Reason :: string
  ski_Semantics :: string
  ski_HistoricalValidityPolicy :: string

definition NormalizeSigningKeyRevocationInput :: "SigningKeyRevocationInput \<Rightarrow> SigningKeyRevocationInput result" where
  "NormalizeSigningKeyRevocationInput input =
    (case NormalizeSigningKeyReason (ski_Reason input) of
       Inl e \<Rightarrow> Inl ErrValidation
     | Inr reason \<Rightarrow>
        (if length (ski_Semantics input) > 64 \<or> length (ski_HistoricalValidityPolicy input) > 64 then Inl ErrValidation
         else let semantics = TrimSpace (ski_Semantics input); policy = TrimSpace (ski_HistoricalValidityPolicy input) in
         if \<not> validSigningKeyText reason then Inl ErrValidation
         else let semantics = (if semantics = [] then SigningKeyRevocationOrdinary else semantics);
                  policy = (if policy = [] then SigningKeyHistoricalValidityPreserve else policy) in
         if semantics \<notin> {SigningKeyRevocationOrdinary, SigningKeyRevocationCompromised} \<or>
            policy \<notin> {SigningKeyHistoricalValidityPreserve, SigningKeyHistoricalValidityInvalidateFromCompromise,
              SigningKeyHistoricalValidityInvalidateAll} \<or>
            semantics = SigningKeyRevocationOrdinary \<and> policy \<noteq> SigningKeyHistoricalValidityPreserve
         then Inl ErrValidation
         else Inr \<lparr>ski_Reason = reason, ski_Semantics = semantics, ski_HistoricalValidityPolicy = policy\<rparr>))"

definition revoked_key :: "SigningKeyRevocationInput \<Rightarrow> time \<Rightarrow> SigningKey \<Rightarrow> SigningKey" where
  "revoked_key input now key =
    key\<lparr>sk_Status := SigningKeyStatusRevoked, sk_RevokedAt := Some now, sk_ValidUntil := Some now,
      sk_RevocationReason := ski_Reason input, sk_RevocationSemantics := ski_Semantics input,
      sk_HistoricalValidityPolicy := ski_HistoricalValidityPolicy input,
      sk_CompromisedAt := (if ski_Semantics input = SigningKeyRevocationCompromised then Some now else sk_CompromisedAt key)\<rparr>"

definition RevokeSigningKey ::
  "key_command \<Rightarrow> Actor \<Rightarrow> string \<Rightarrow> SigningKeyRevocationInput \<Rightarrow> integrity_store \<Rightarrow> (SigningKey \<times> integrity_store) result" where
  "RevokeSigningKey c actor keyID input s =
    check_then (kc_ctx c) (check_then (validateSigningKeyActor actor) (check_then (kc_authorize c)
    (bind_result (NormalizeSigningKeyID keyID) (\<lambda>keyID.
    case NormalizeSigningKeyRevocationInput input of
      Inl e \<Rightarrow> Inl ErrValidation
    | Inr input \<Rightarrow>
    check_then (kc_txAuthorize c)
    (bind_result (GetSigningKeyForUpdate s (actor_TenantID actor) keyID) (\<lambda>key.
    if sk_ID key \<noteq> keyID \<or> sk_TenantID key \<noteq> actor_TenantID actor then Inl ErrNotFound
    else if sk_Status key = SigningKeyStatusRevoked then Inl ErrConflict
    else let revoked = revoked_key input (kc_now c) key in
    bind_result (UpdateSigningKey \<lparr>ssk_Key = revoked, ssk_Private = []\<rparr> (sk_Status key) s) (\<lambda>s.
    bind_result (appendAuditEvent (kc_hasher c) (key_event c actor
        (if ski_Semantics input = SigningKeyRevocationCompromised then ''signing_key.compromised'' else ''signing_key.revoked'')
        (sk_ID key)) s) (\<lambda>s.
    Inr (revoked, s)))))))))"

end
