(* ===== verification/Merkle.thy ===== *)
theory Merkle
  imports Signing_Keys
begin

text \<open>
  Signed Merkle batches over an audit chain: the root of a list of entry hashes and the creation of a
  batch (\<^verbatim>\<open>verification/app/integrity.go\<close>, \<^verbatim>\<open>merkle_creation.go\<close>) over the in-memory readers
  (\<^verbatim>\<open>app/memory_merkle_creation.go\<close>), and the inspections of a batch and of the chain it covers
  (\<^verbatim>\<open>merkle_verification.go\<close>, \<^verbatim>\<open>merkle_checkpoint_verification.go\<close>). The signer, the clock, the generated
  identifiers and the authorization decisions are arguments of a command.
\<close>

section \<open>The root\<close>

text \<open>One pass of the loop: neighbours are hashed together, a last node without neighbour with itself.\<close>

fun merkle_level :: "string list \<Rightarrow> string list" where
  "merkle_level [] = []"
| "merkle_level [a] = [hashBytes (link_text a a)]"
| "merkle_level (a # b # rest) = hashBytes (link_text a b) # merkle_level rest"

lemma length_merkle_level [simp]: "length (merkle_level xs) = (length xs + 1) div 2"
  by (induction xs rule: merkle_level.induct) auto

function merkle_loop :: "string list \<Rightarrow> string" where
  "merkle_loop level = (if length level > 1 then merkle_loop (merkle_level level) else hd level)"
  by pat_completeness auto
termination by (relation "measure length") auto

declare merkle_loop.simps [simp del]

definition merkleRoot :: "string list \<Rightarrow> string" where
  "merkleRoot leaves = (if leaves = [] then [] else merkle_loop leaves)"

section \<open>Data\<close>

record AuditChainLeaf =
  acl_Sequence :: int
  acl_EntryHash :: string

record SigningRequest =
  sr_TenantID :: string
  sr_SubjectType :: string
  sr_SubjectID :: string
  sr_Payload :: string
  sr_CreatedAt :: time

record SigningResult =
  sres_Signature :: Signature
  sres_NewKey :: "StoredSigningKey option"

record CreateMerkleBatchInput =
  cmb_FromSequence :: int
  cmb_ToSequence :: int

record MerkleBatch =
  mb_ID :: string
  mb_TenantID :: string
  mb_FromSequence :: int
  mb_ToSequence :: int
  mb_EntryCount :: int
  mb_LeafHashes :: "string list"
  mb_RootHash :: string
  mb_SignatureRefs :: "string list"
  mb_SchemaVersion :: string
  mb_CreatedAt :: time

definition MerkleBatchSchemaVersion :: string where "MerkleBatchSchemaVersion = ''merkle-batch.v1.0.0''"

definition MaxMerkleVerificationLeaves :: int where "MaxMerkleVerificationLeaves = 4096"
definition MaxBundleVerificationSignatures :: int where "MaxBundleVerificationSignatures = 4096"
definition MaxBundleVerificationBytes :: int where "MaxBundleVerificationBytes = 8 * 1024 * 1024"

definition validSignature :: "Signature \<Rightarrow> string \<Rightarrow> string \<Rightarrow> string \<Rightarrow> time \<Rightarrow> bool" where
  "validSignature s tenantID subjectType subjectID now \<longleftrightarrow>
     sig_ID s \<noteq> [] \<and> sig_TenantID s = tenantID \<and> sig_SubjectType s = subjectType \<and> sig_SubjectID s = subjectID \<and>
     sig_KeyID s \<noteq> [] \<and> sig_Algorithm s \<noteq> [] \<and> sig_Value s \<noteq> [] \<and> \<not> is_zero_time (sig_CreatedAt s) \<and> \<not> sig_CreatedAt s > now"

definition validNewSigningKey :: "StoredSigningKey \<Rightarrow> string \<Rightarrow> time \<Rightarrow> bool" where
  "validNewSigningKey prepared tenantID now \<longleftrightarrow>
    (let key = ssk_Key prepared in
     sk_ID key \<noteq> [] \<and> sk_TenantID key = tenantID \<and> sk_KID key \<noteq> [] \<and> sk_Version key > 0 \<and>
     sk_Provider key = SigningKeyDefaultProvider \<and> sk_Algorithm key = ''Ed25519'' \<and> sk_Status key = SigningKeyStatusActive \<and>
     sk_PublicKey key \<noteq> [] \<and> sk_PublicKeyFingerprint key \<noteq> [] \<and> \<not> sk_ValidFrom key > now \<and> \<not> sk_CreatedAt key > now \<and>
     ssk_Private prepared \<noteq> [])"

section \<open>The repository\<close>

record merkle_store =
  ms_integrity :: integrity_store
  ms_batches :: "(string, MerkleBatch) table"

definition InsertMerkleBatch :: "MerkleBatch \<Rightarrow> merkle_store \<Rightarrow> merkle_store result" where
  "InsertMerkleBatch v s =
    check_then (require_tenant (ms_integrity s) (mb_TenantID v))
    (if mb_ID v = [] \<or> mb_FromSequence v < 1 \<or> mb_ToSequence v < mb_FromSequence v \<or>
        mb_EntryCount v \<noteq> int (length (mb_LeafHashes v)) \<or> mb_EntryCount v < 1 \<or> mb_RootHash v = [] \<or>
        mb_SchemaVersion v = [] \<or> is_zero_time (mb_CreatedAt v)
     then Inl ErrValidation
     else if tbl_get (ms_batches s) (mb_ID v) \<noteq> None then Inl ErrConflict
     else Inr (s\<lparr>ms_batches := tbl_put (ms_batches s) (mb_ID v) v\<rparr>))"

record MerkleCreationView =
  mcv_TenantID :: string
  mcv_EntryCount :: int
  mcv_FirstSequence :: int
  mcv_LastSequence :: int
  mcv_HasEmptyHash :: bool

definition view_step :: "string \<Rightarrow> MerkleCreationView \<Rightarrow> AuditChainEntry \<Rightarrow> MerkleCreationView" where
  "view_step tenant v e =
    (if ace_TenantID e \<noteq> tenant then v
     else v\<lparr>mcv_FirstSequence := (if mcv_EntryCount v = 0 \<or> ace_Sequence e < mcv_FirstSequence v then ace_Sequence e
              else mcv_FirstSequence v),
            mcv_LastSequence := (if mcv_EntryCount v = 0 \<or> ace_Sequence e > mcv_LastSequence v then ace_Sequence e
              else mcv_LastSequence v),
            mcv_EntryCount := mcv_EntryCount v + 1,
            mcv_HasEmptyHash := mcv_HasEmptyHash v \<or> TrimSpace (ace_EntryHash e) = []\<rparr>)"

definition zero_view :: "string \<Rightarrow> MerkleCreationView" where
  "zero_view tenant = \<lparr>mcv_TenantID = tenant, mcv_EntryCount = 0, mcv_FirstSequence = 0, mcv_LastSequence = 0, mcv_HasEmptyHash = False\<rparr>"

definition tenantRead :: "string \<Rightarrow> integrity_store \<Rightarrow> 'a result \<Rightarrow> 'a result" where
  "tenantRead tenant s r = (if \<not> memoryMembershipQueryText tenant 1024 then Inl ErrValidation else check_then (require_tenant s tenant) r)"

definition LockMerkleCreationView :: "merkle_store \<Rightarrow> string \<Rightarrow> MerkleCreationView result" where
  "LockMerkleCreationView s tenant =
    tenantRead tenant (ms_integrity s)
      (Inr (foldl (view_step tenant) (zero_view tenant) (chain_of (is_audit (ms_integrity s)) tenant)))"

definition leaf_size :: "AuditChainLeaf \<Rightarrow> int" where
  "leaf_size v = int (length (encode_json (JObject
     [(''Sequence'', JNumber (decimal_int (acl_Sequence v))), (''EntryHash'', JString (acl_EntryHash v))])))"

fun leaf_loop ::
  "string \<Rightarrow> int \<Rightarrow> int \<Rightarrow> AuditChainEntry list \<Rightarrow> int \<Rightarrow> AuditChainLeaf list \<Rightarrow> AuditChainLeaf list result" where
  "leaf_loop tenant from to [] budget leaves = Inr leaves"
| "leaf_loop tenant from to (e # es) budget leaves =
    (if ace_TenantID e \<noteq> tenant \<or> ace_Sequence e < from \<or> ace_Sequence e > to then leaf_loop tenant from to es budget leaves
     else if int (length leaves) = MaxMerkleVerificationLeaves \<or> \<not> memoryGovernanceText (ace_EntryHash e) 1024 then Inl ErrConflict
     else let v = \<lparr>acl_Sequence = ace_Sequence e, acl_EntryHash = ace_EntryHash e\<rparr> in
     if leaf_size v + 1 > budget then Inl ErrConflict
     else leaf_loop tenant from to es (budget - (leaf_size v + 1)) (leaves @ [v]))"

text \<open>\<^verbatim>\<open>sort.Slice\<close> leaves the order of equal sequence numbers open; they keep their order here.\<close>

definition memoryMerkleLeaves :: "merkle_store \<Rightarrow> string \<Rightarrow> int \<Rightarrow> int \<Rightarrow> AuditChainLeaf list result" where
  "memoryMerkleLeaves s tenant from to =
    (if from < 1 \<or> to < from \<or> to - from \<ge> MaxMerkleVerificationLeaves then Inl ErrValidation
     else bind_result (leaf_loop tenant from to (chain_of (is_audit (ms_integrity s)) tenant) (MaxBundleVerificationBytes - 2) [])
       (\<lambda>leaves. Inr (sort_key acl_Sequence leaves)))"

definition ReadMerkleCreationLeaves :: "merkle_store \<Rightarrow> string \<Rightarrow> int \<Rightarrow> int \<Rightarrow> AuditChainLeaf list result" where
  "ReadMerkleCreationLeaves s tenant from to =
    (if from < 1 \<or> to < from \<or> to - from \<ge> MaxMerkleVerificationLeaves then Inl ErrValidation
     else tenantRead tenant (ms_integrity s) (memoryMerkleLeaves s tenant from to))"

section \<open>Creating a batch\<close>

definition ValidateMerkleCreationInput :: "CreateMerkleBatchInput \<Rightarrow> error option" where
  "ValidateMerkleCreationInput i =
    (if cmb_FromSequence i < 0 \<or> cmb_ToSequence i < 0 \<or> cmb_ToSequence i \<noteq> 0 \<and> cmb_FromSequence i > cmb_ToSequence i
     then Some ErrValidation else None)"

record merkle_command =
  mc_ctx :: "error option"
  mc_authorize :: "error option"
  mc_txAuthorize :: "error option"
  mc_now :: time
  mc_batchID :: string
  mc_auditID :: string
  mc_sign :: "SigningRequest \<Rightarrow> SigningResult result"
  mc_hasher :: canonical_hasher

text \<open>The loop over the leaves read, with the index of the next one.\<close>

fun hashes_loop :: "int \<Rightarrow> AuditChainLeaf list \<Rightarrow> string list result" where
  "hashes_loop sequence [] = Inr []"
| "hashes_loop sequence (leaf # leaves) =
    (if acl_Sequence leaf \<noteq> sequence \<or> \<not> validSigningKeyText (acl_EntryHash leaf) then Inl ErrValidation
     else if length (acl_EntryHash leaf) > 1024 then Inl ErrConflict
     else bind_result (hashes_loop (sequence + 1) leaves) (\<lambda>hashes. Inr (acl_EntryHash leaf # hashes)))"

definition leaves_size :: "AuditChainLeaf list \<Rightarrow> int" where
  "leaves_size leaves = int (length (encode_json (JArray (map (\<lambda>v. JObject
     [(''Sequence'', JNumber (decimal_int (acl_Sequence v))), (''EntryHash'', JString (acl_EntryHash v))]) leaves))))"

definition on_integrity :: "(integrity_store \<Rightarrow> integrity_store result) \<Rightarrow> merkle_store \<Rightarrow> merkle_store result" where
  "on_integrity f s = bind_result (f (ms_integrity s)) (\<lambda>i. Inr (s\<lparr>ms_integrity := i\<rparr>))"

definition batch_event :: "merkle_command \<Rightarrow> Actor \<Rightarrow> MerkleBatch \<Rightarrow> string \<Rightarrow> AuditEvent" where
  "batch_event c a batch signature =
    \<lparr>aev_ID = mc_auditID c, aev_TenantID = actor_TenantID a, aev_EntryType = ''merkle_batch.created'',
     aev_SubjectType = ''merkle_batch'', aev_SubjectID = mb_ID batch, aev_ActorType = auditActorType a, aev_ActorID = auditActorID a,
     aev_OccurredAt = mc_now c, aev_PayloadHash = mb_RootHash batch, aev_SignatureRef = signature\<rparr>"

definition store_batch ::
  "merkle_command \<Rightarrow> Actor \<Rightarrow> int \<Rightarrow> int \<Rightarrow> string list \<Rightarrow> SigningResult \<Rightarrow> merkle_store \<Rightarrow> (MerkleBatch \<times> merkle_store) result" where
  "store_batch c a from to hashes signing s =
    (let sig = sres_Signature signing in
     if \<not> validSignature sig (actor_TenantID a) ''merkle_batch'' (mc_batchID c) (mc_now c) then Inl ErrValidation
     else bind_result
       (case sres_NewKey signing of
          None \<Rightarrow> Inr s
        | Some key \<Rightarrow>
           (if \<not> validNewSigningKey key (actor_TenantID a) (mc_now c) \<or> sk_ID (ssk_Key key) \<noteq> sig_KeyID sig then Inl ErrValidation
            else on_integrity (InsertSigningKey key) s))
       (\<lambda>s. let batch = \<lparr>mb_ID = mc_batchID c, mb_TenantID = actor_TenantID a, mb_FromSequence = from, mb_ToSequence = to,
              mb_EntryCount = int (length hashes), mb_LeafHashes = hashes, mb_RootHash = merkleRoot hashes,
              mb_SignatureRefs = [sig_ID sig], mb_SchemaVersion = MerkleBatchSchemaVersion, mb_CreatedAt = mc_now c\<rparr> in
        bind_result (on_integrity (InsertSignature sig) s) (\<lambda>s.
        bind_result (InsertMerkleBatch batch s) (\<lambda>s.
        bind_result (on_integrity (appendAuditEvent (mc_hasher c) (batch_event c a batch (sig_ID sig))) s) (\<lambda>s.
        Inr (batch, s))))))"

definition createMerkleBatch ::
  "merkle_command \<Rightarrow> Actor \<Rightarrow> CreateMerkleBatchInput \<Rightarrow> merkle_store \<Rightarrow> (MerkleBatch \<times> merkle_store) result" where
  "createMerkleBatch c a input s =
    check_then (mc_ctx c) (check_then (validateSigningKeyActor a) (check_then (mc_authorize c)
    (check_then (ValidateMerkleCreationInput input) (check_then (mc_txAuthorize c)
    (bind_result (LockMerkleCreationView s (actor_TenantID a)) (\<lambda>view.
    if mcv_TenantID view \<noteq> actor_TenantID a then Inl ErrNotFound
    else if mcv_EntryCount view < 1 \<or> mcv_FirstSequence view \<noteq> 1 \<or> mcv_LastSequence view \<noteq> mcv_EntryCount view \<or>
       mcv_HasEmptyHash view then Inl ErrValidation
    else let from = (if cmb_FromSequence input = 0 then 1 else cmb_FromSequence input);
             to = (if cmb_ToSequence input = 0 then mcv_LastSequence view else cmb_ToSequence input) in
    if from < 1 \<or> to < from \<or> to > mcv_LastSequence view then Inl ErrValidation
    else if to - from \<ge> MaxMerkleVerificationLeaves then Inl ErrConflict
    else bind_result (ReadMerkleCreationLeaves s (actor_TenantID a) from to) (\<lambda>leaves.
    if int (length leaves) \<noteq> to - from + 1 then Inl ErrValidation
    else bind_result (hashes_loop from leaves) (\<lambda>hashes.
    if leaves_size leaves > MaxBundleVerificationBytes then Inl ErrConflict
    else bind_result (mc_sign c \<lparr>sr_TenantID = actor_TenantID a, sr_SubjectType = ''merkle_batch'', sr_SubjectID = mc_batchID c,
        sr_Payload = merkleRoot hashes, sr_CreatedAt = mc_now c\<rparr>) (\<lambda>signing.
    store_batch c a from to hashes signing s)))))))))"

section \<open>Inspecting a batch\<close>

record MerkleVerificationSnapshot =
  mvs_Subject :: SubjectReference
  mvs_Batch :: MerkleBatch
  mvs_Leaves :: "AuditChainLeaf list"
  mvs_Signatures :: "Signature list"
  mvs_Keys :: "SigningKey list"

text \<open>The closure \<^verbatim>\<open>consume\<close> with its running total, over the texts in the order they are consumed.\<close>

fun consume_all :: "(string \<times> nat) list \<Rightarrow> int \<Rightarrow> bool" where
  "consume_all [] bytes = True"
| "consume_all ((text, limit) # rest) bytes =
    (if length text > limit \<or> \<not> utf8_valid text \<or> contains_nul text then False
     else bytes + int (length text) \<le> MaxBundleVerificationBytes \<and> consume_all rest (bytes + int (length text)))"

definition public_material_texts :: "Signature list \<Rightarrow> SigningKey list \<Rightarrow> (string \<times> nat) list" where
  "public_material_texts signatures keys =
     concat (map (\<lambda>s. [(sig_ID s, 1024), (sig_TenantID s, 1024), (sig_SubjectID s, 1024), (sig_KeyID s, 1024),
       (sig_SubjectType s, 64), (sig_Algorithm s, 64), (sig_Value s, 16384)]) signatures) @
     concat (map (\<lambda>k. [(sk_ID k, 1024), (sk_TenantID k, 1024), (sk_Algorithm k, 64), (sk_PublicKey k, 16384), (sk_Status k, 64),
       (sk_RevocationSemantics k, 64), (sk_HistoricalValidityPolicy k, 64)]) keys)"

definition merkleVerificationWithinBudget :: "MerkleVerificationSnapshot \<Rightarrow> bool" where
  "merkleVerificationWithinBudget s =
    (let b = mvs_Batch s in
     consume_all (map (\<lambda>t. (t, 1024)) ([mb_ID b, mb_TenantID b, mb_RootHash b] @ mb_LeafHashes b @ mb_SignatureRefs b @
         map acl_EntryHash (mvs_Leaves s)) @ public_material_texts (mvs_Signatures s) (mvs_Keys s)) 0)"

definition covers :: "MerkleVerificationSnapshot \<Rightarrow> bool" where
  "covers s \<longleftrightarrow>
    (let b = mvs_Batch s in
     mb_FromSequence b > 0 \<and> mb_ToSequence b \<ge> mb_FromSequence b \<and>
     int (length (mvs_Leaves s)) = mb_ToSequence b - mb_FromSequence b + 1 \<and> mb_EntryCount b = int (length (mvs_Leaves s)) \<and>
     length (mb_LeafHashes b) = length (mvs_Leaves s) \<and>
     list_all (\<lambda>(i, leaf, h). acl_Sequence leaf = mb_FromSequence b + int i \<and> acl_EntryHash leaf = h)
       (zip [0..<length (mvs_Leaves s)] (zip (mvs_Leaves s) (mb_LeafHashes b))))"

definition VerificationProfileMerkleCheckpoint :: string where
  "VerificationProfileMerkleCheckpoint = ''merkle-checkpoint.v1''"

definition result_text :: "bool \<Rightarrow> string" where
  "result_text ok = (if ok then ''passed'' else ''failed'')"

definition merkle_check :: "string \<Rightarrow> bool \<Rightarrow> VerifyCheck" where
  "merkle_check name ok = \<lparr>vc_Name = name, vc_Result = result_text ok, vc_Detail = []\<rparr>"

definition InspectMerkleBatch :: "MerkleVerificationSnapshot \<Rightarrow> time \<Rightarrow> payload_verifier \<Rightarrow> SubjectInspection result" where
  "InspectMerkleBatch s now verifier =
    (let b = mvs_Batch s in
     if is_zero_time now \<or> \<not> validSubjectReference (mvs_Subject s) (mb_TenantID b) ''merkle_batch'' (mb_ID b) \<or> mb_ID b = [] \<or>
        mb_TenantID b = [] \<or> int (length (mvs_Leaves s)) > MaxMerkleVerificationLeaves \<or>
        int (length (mb_LeafHashes b)) > MaxMerkleVerificationLeaves \<or>
        int (length (mb_SignatureRefs b)) > MaxBundleVerificationSignatures \<or>
        int (length (mvs_Signatures s)) > MaxBundleVerificationSignatures \<or>
        int (length (mvs_Keys s)) > MaxBundleVerificationSignatures \<or>
        mb_FromSequence b > 0 \<and> mb_ToSequence b \<ge> mb_FromSequence b \<and>
        mb_ToSequence b - mb_FromSequence b \<ge> MaxMerkleVerificationLeaves
     then Inl ErrConflict
     else if \<not> merkleVerificationWithinBudget s then Inl ErrConflict
     else Inr \<lparr>ins_Profile = NormalizeVerificationProfile
        \<lparr>vp_ID = VerificationProfileMerkleCheckpoint, vp_Version = VerificationProfileSchemaVersion,
         vp_RequiredChecks = [''checkpoint_coverage'', ''merkle_root'', ''checkpoint_signature''],
         vp_TrustMaterial = [''tenant signing keys''], vp_IdentityPolicy = ''tenant-scoped verification authorization'',
         vp_TransparencyProof = ''not_evaluated'', vp_PayloadScope = ''Merkle batch leaf hashes and signed root'',
         vp_PayloadDigest = mb_RootHash b,
         vp_Limitations = [''Merkle checkpoint verification does not establish external transparency-log inclusion.'']\<rparr>,
       ins_Checks =
        [merkle_check ''checkpoint_coverage'' (covers s),
         merkle_check ''merkle_root'' (merkleRoot (mb_LeafHashes b) = mb_RootHash b),
         merkle_check ''checkpoint_signature'' (validReferencedPayloadSignature (mvs_Subject s) (mb_SignatureRefs b)
           (mvs_Signatures s) (mvs_Keys s) (mb_RootHash b) now verifier)],
       ins_StateOverride = []\<rparr>)"

section \<open>Inspecting the chain a batch covers\<close>

definition VerificationProfileAuditChainMerkleCheckpoint :: string where
  "VerificationProfileAuditChainMerkleCheckpoint = ''audit-chain-merkle-checkpoint.v1''"

text \<open>The callback that collects the leaves of the covered range from the entries that were inspected.\<close>

definition derived_leaves :: "MerkleBatch \<Rightarrow> AuditChainEntry list \<Rightarrow> AuditChainLeaf list" where
  "derived_leaves b es =
    map (\<lambda>e. \<lparr>acl_Sequence = ace_Sequence e, acl_EntryHash = ace_EntryHash e\<rparr>)
      (filter (\<lambda>e. mb_FromSequence b \<ge> 1 \<and> mb_ToSequence b \<ge> mb_FromSequence b \<and> ace_Sequence e \<ge> mb_FromSequence b \<and>
         ace_Sequence e \<le> mb_ToSequence b) es)"

text \<open>\<^verbatim>\<open>merkle.Checks[i]\<close> is the result of \<^verbatim>\<open>InspectMerkleBatch\<close>, which has three checks.\<close>

definition inspectMerkleAuditChainCheckpoint ::
  "SubjectInspection \<Rightarrow> int \<Rightarrow> MerkleVerificationSnapshot \<Rightarrow> AuditChainLeaf list \<Rightarrow> SubjectInspection \<Rightarrow> SubjectInspection" where
  "inspectMerkleAuditChainCheckpoint chain count snapshot derived merkle =
    (let b = mvs_Batch snapshot;
         bound = (derived = mvs_Leaves snapshot);
         coverage = (mb_FromSequence b \<ge> 1 \<and> mb_ToSequence b \<ge> mb_FromSequence b \<and> mb_ToSequence b \<le> count);
         checks = ins_Checks chain @
           (if \<not> coverage then [merkle_check ''checkpoint_coverage'' False]
            else [merkle_check ''checkpoint_coverage'' True,
              merkle_check ''checkpoint_root'' (bound \<and> vc_Result (ins_Checks merkle ! 0) = ''passed'' \<and>
                vc_Result (ins_Checks merkle ! 1) = ''passed''),
              ins_Checks merkle ! 2]);
         required = vp_RequiredChecks (ins_Profile chain) @ [''checkpoint_coverage''] @
           (if coverage then [''checkpoint_root'', ''checkpoint_signature''] else [])
     in \<lparr>ins_Profile = NormalizeVerificationProfile
          \<lparr>vp_ID = VerificationProfileAuditChainMerkleCheckpoint, vp_Version = VerificationProfileSchemaVersion,
           vp_RequiredChecks = required, vp_TrustMaterial = [''Evydence audit-chain hashes'', ''tenant signing keys''],
           vp_IdentityPolicy = ''tenant-scoped verification authorization'', vp_TransparencyProof = ''not_evaluated'',
           vp_PayloadScope = ''tenant audit-chain range and signed Merkle root'', vp_PayloadDigest = [],
           vp_Limitations = [''This signed checkpoint detects truncation or rewrites within its covered sequence range, but does not prove external publication or third-party log inclusion.'']\<rparr>,
         ins_Checks = checks, ins_StateOverride = []\<rparr>)"

text \<open>The part of \<^verbatim>\<open>verifyMerkleCheckpoint\<close> between the reads and the receipt, with the entries it inspected.\<close>

definition verifyMerkleCheckpoint ::
  "audit_tools \<Rightarrow> page_reader \<Rightarrow> (AuditChainVerificationPage \<Rightarrow> int option) \<Rightarrow> (nat \<Rightarrow> error option) \<Rightarrow>
     AuditChainVerificationView \<Rightarrow> MerkleVerificationSnapshot \<Rightarrow> string \<Rightarrow> time \<Rightarrow> (SubjectInspection \<times> AuditChainEntry list) result" where
  "verifyMerkleCheckpoint tools read page_size ctxErr view snapshot tenant now =
    bind_result (InspectMerkleBatch snapshot now (at_verifier tools)) (\<lambda>merkle.
    bind_result (inspectAuditChainView tools read page_size ctxErr view tenant now) (\<lambda>(chain, es).
    Inr (inspectMerkleAuditChainCheckpoint chain (acv_EntryCount view) snapshot (derived_leaves (mvs_Batch snapshot) es) merkle, es)))"

end
