(* ===== verification/Audit_Properties.thy ===== *)
theory Audit_Properties
  imports Audit_Chain
begin

text \<open>
  What the audit chain promises: an inspection that passes describes an intact chain ending in
  the inspected view, appended chains pass, and two intact chains with the same head agree on
  everything that is hashed unless they yield an explicit hash collision.
\<close>

section \<open>Intact chains\<close>

fun chain_intact :: "canonical_hasher \<Rightarrow> string \<Rightarrow> string \<Rightarrow> int \<Rightarrow> AuditChainEntry list \<Rightarrow> bool" where
  "chain_intact hasher tenant prev n [] \<longleftrightarrow> True"
| "chain_intact hasher tenant prev n (e # es) \<longleftrightarrow>
     ace_TenantID e = tenant \<and>
     ace_SchemaVersion e \<in> {AuditChainEntryLegacySchemaVersion, AuditChainEntrySchemaVersion} \<and>
     ace_Sequence e = i64 (n + 1) \<and> ace_PreviousEntryHash e = prev \<and>
     VerifiedAuditChainCanonicalHash hasher e = Inr (ace_CanonicalEntryHash e, True) \<and>
     ace_EntryHash e = auditChainLinkHash prev (ace_CanonicalEntryHash e) \<and>
     chain_intact hasher tenant (ace_EntryHash e) (n + 1) es"

definition head_hash :: "string \<Rightarrow> AuditChainEntry list \<Rightarrow> string" where
  "head_hash prev es = (if es = [] then prev else ace_EntryHash (last es))"

lemma head_hash_simps [simp]:
  "head_hash prev [] = prev" "head_hash prev (es @ [e]) = ace_EntryHash e"
  "head_hash prev (e # es) = head_hash (ace_EntryHash e) es"
  by (simp_all add: head_hash_def)

lemma i64_succ [simp]: "i64 (i64 x + y) = i64 (x + y)"
proof -
  have "((x + 2 ^ 63) mod 2 ^ 64 + y) mod 2 ^ 64 = (x + 2 ^ 63 + y) mod (2 ^ 64 :: int)"
    by (rule mod_add_left_eq)
  then show ?thesis by (simp add: i64_def algebra_simps)
qed

lemma i64_length: "i64 (1 + int n) = i64 (int n + 1)"
  by (simp add: add.commute)

lemma chain_intact_append:
  "chain_intact h t prev n (xs @ ys) \<longleftrightarrow>
     chain_intact h t prev n xs \<and> chain_intact h t (head_hash prev xs) (n + int (length xs)) ys"
  by (induction xs arbitrary: prev n) (simp_all add: add.assoc)

lemma nanos_loop_True:
  "nanos_loop h e base c ns = Inr (c', True) \<Longrightarrow>
     c' = ace_CanonicalEntryHash e \<and> (\<exists>n\<in>set ns. CanonicalAuditChainEntryHash h (e\<lparr>ace_OccurredAt := base + n\<rparr>) = Inr c')"
  by (induction ns arbitrary: c) (auto split: if_splits)

lemma Verified_True:
  assumes "VerifiedAuditChainCanonicalHash h e = Inr (c, True)"
  shows "c = ace_CanonicalEntryHash e"
    and "\<exists>t. CanonicalAuditChainEntryHash h (e\<lparr>ace_OccurredAt := t\<rparr>) = Inr c \<and>
      (t = ace_OccurredAt e \<or> ace_SchemaVersion e = AuditChainEntryLegacySchemaVersion \<and>
        truncate_microsecond t = truncate_microsecond (ace_OccurredAt e))"
proof -
  obtain c0 where c0: "CanonicalAuditChainEntryHash h e = Inr c0"
    using assms by (auto simp: VerifiedAuditChainCanonicalHash_def)
  have "c = ace_CanonicalEntryHash e \<and> (\<exists>t. CanonicalAuditChainEntryHash h (e\<lparr>ace_OccurredAt := t\<rparr>) = Inr c \<and>
      (t = ace_OccurredAt e \<or> ace_SchemaVersion e = AuditChainEntryLegacySchemaVersion \<and>
        truncate_microsecond t = truncate_microsecond (ace_OccurredAt e)))"
  proof (cases "c0 = ace_CanonicalEntryHash e \<or> ace_SchemaVersion e \<noteq> AuditChainEntryLegacySchemaVersion")
    case True
    then show ?thesis
      using assms c0 by (intro conjI exI [of _ "ace_OccurredAt e"]) (auto simp: VerifiedAuditChainCanonicalHash_def)
  next
    case False
    let ?b = "truncate_microsecond (ace_OccurredAt e)"
    have "nanos_loop h e ?b c0 [1..999] = Inr (c, True)"
      using assms c0 False by (simp add: VerifiedAuditChainCanonicalHash_def)
    then obtain n where n: "c = ace_CanonicalEntryHash e" "n \<in> {1..999}"
        "CanonicalAuditChainEntryHash h (e\<lparr>ace_OccurredAt := ?b + n\<rparr>) = Inr c"
      by (auto dest!: nanos_loop_True)
    have "truncate_microsecond (?b + n) = ?b"
      using n(2) by (simp add: truncate_microsecond_def)
    with n False show ?thesis by blast
  qed
  then show "c = ace_CanonicalEntryHash e" "\<exists>t. CanonicalAuditChainEntryHash h (e\<lparr>ace_OccurredAt := t\<rparr>) = Inr c \<and>
      (t = ace_OccurredAt e \<or> ace_SchemaVersion e = AuditChainEntryLegacySchemaVersion \<and>
        truncate_microsecond t = truncate_microsecond (ace_OccurredAt e))"
    by auto
qed

section \<open>A passing inspection is sound\<close>

text \<open>The state of the inspector after the entries \<open>es\<close>.\<close>

definition inspected :: "audit_tools \<Rightarrow> string \<Rightarrow> AuditChainEntry list \<Rightarrow> AuditChainInspector \<Rightarrow> bool" where
  "inspected tools tenant es s \<longleftrightarrow>
    aci_tenant s = tenant \<and> aci_count s = i64 (int (length es)) \<and> aci_previous s = head_hash [] es \<and>
    (aci_passed s \<longrightarrow> chain_intact (at_hasher tools) tenant [] 0 es)"

lemma inspected_new: "inspected tools tenant [] (NewAuditChainInspector tenant now)"
  by (simp add: inspected_def NewAuditChainInspector_def i64_def)

lemma entry_facts_all:
  "list_all snd (entry_facts tools s e binding sigs keys) \<longleftrightarrow>
     ace_TenantID e = aci_tenant s \<and>
     ace_SchemaVersion e \<in> {AuditChainEntryLegacySchemaVersion, AuditChainEntrySchemaVersion} \<and>
     ace_Sequence e = i64 (aci_count s + 1) \<and> ace_PreviousEntryHash e = aci_previous s \<and>
     VerifiedAuditChainCanonicalHash (at_hasher tools) e = Inr (ace_CanonicalEntryHash e, True) \<and>
     ace_EntryHash e = auditChainLinkHash (aci_previous s) (ace_CanonicalEntryHash e) \<and>
     (ace_SignatureRef e = [] \<or> auditSignatureBindingMatches e binding \<and>
       validReferencedPayloadSignature (asb_Subject binding) [ace_SignatureRef e] sigs keys (asb_Payload binding)
         (aci_now s) (at_verifier tools))"
proof (cases "VerifiedAuditChainCanonicalHash (at_hasher tools) e")
  case (Inr r)
  obtain c b where r: "r = (c, b)" by (cases r)
  have "b \<Longrightarrow> c = ace_CanonicalEntryHash e"
    using Verified_True(1) Inr r by simp
  then show ?thesis using Inr r by (auto simp: entry_facts_def)
qed (simp add: entry_facts_def)

lemma inspected_Append:
  assumes "inspected tools tenant es s" and "Inspector_Append tools s e binding sigs keys = Inr s'"
  shows "inspected tools tenant (es @ [e]) s'"
proof -
  have s': "aci_tenant s' = aci_tenant s" "aci_count s' = i64 (aci_count s + 1)" "aci_previous s' = ace_EntryHash e"
      "aci_passed s' \<longleftrightarrow> aci_passed s \<and> list_all snd (entry_facts tools s e binding sigs keys)"
    using assms(2) by (auto simp: Inspector_Append_def Let_def split: if_splits option.splits)
  show ?thesis
    using assms(1) s' by (auto simp: inspected_def chain_intact_append entry_facts_all i64_length)
qed

lemma inspected_page:
  "page_loop tools view page es after s = Inr (after', s') \<Longrightarrow> inspected tools tenant done s \<Longrightarrow>
     inspected tools tenant (done @ es) s' \<and>
     after' = (if es = [] then after else Some (ace_Sequence (last es)))"
proof (induction es arbitrary: after s "done")
  case (Cons e es)
  then obtain s1 binding where s1: "Inspector_Append tools s e binding (acp_Signatures page) (acp_Keys page) = Inr s1"
      "page_loop tools view page es (Some (ace_Sequence e)) s1 = Inr (after', s')"
    by (auto simp: Let_def split: if_splits)
  have "inspected tools tenant (done @ [e]) s1"
    using Cons.prems(2) s1(1) by (rule inspected_Append)
  from Cons.IH [OF s1(2) this] show ?case by auto
qed auto

lemma inspected_view:
  "view_loop tools read psize ctxErr view n budget after s done = Inr (after', s', es) \<Longrightarrow> inspected tools tenant done s \<Longrightarrow>
     after = (if done = [] then None else Some (ace_Sequence (last done))) \<Longrightarrow>
     inspected tools tenant es s' \<and> after' = (if es = [] then None else Some (ace_Sequence (last es)))"
proof (induction tools read psize ctxErr view n budget after s "done" rule: view_loop.induct)
  case (1 tools read psize ctxErr view n budget after s "done")
  from "1.prems"(1) obtain page bytes where page: "read view after budget = Inr page" "page_bytes psize budget page = Inr bytes"
      "ctxErr n = None"
    by (subst (asm) view_loop.simps) (auto split: sum.splits)
  show ?case
  proof (cases "acp_Entries page = []")
    case True
    then show ?thesis using "1.prems" page by (subst (asm) view_loop.simps) auto
  next
    case False
    then obtain after1 s1 where step: "page_loop tools view page (acp_Entries page) after s = Inr (after1, s1)"
        "view_loop tools read psize ctxErr view (Suc n) (budget - bytes) after1 s1 (done @ acp_Entries page) = Inr (after', s', es)"
      using "1.prems"(1) page by (subst (asm) view_loop.simps) (auto split: sum.splits)
    have inv: "inspected tools tenant (done @ acp_Entries page) s1"
        "after1 = (if done @ acp_Entries page = [] then None else Some (ace_Sequence (last (done @ acp_Entries page))))"
      using inspected_page [OF step(1) "1.prems"(2)] False by auto
    show ?thesis
      using "1.IH" [OF page(1,2) False step(1) refl step(2) inv] by simp
  qed
qed

lemma passed_result: "VerificationStatePassed = ''passed''"
  by (rule VerificationStatePassed_def)

lemma check_name_required:
  assumes "receipt_state ins = Inr VerificationStatePassed" and "c \<in> set (ins_Checks ins)"
    and "vc_Name c \<in> set (vp_RequiredChecks (ins_Profile ins))" and "TrimSpace (vc_Name c) = vc_Name c" and "vc_Name c \<noteq> []"
  shows "TrimSpace (vc_Result c) = ''passed''"
proof -
  have "vc_Name c \<in> set (normalizedStrings (vp_RequiredChecks (ins_Profile ins)))"
    using assms(3-5) by (force simp: normalizedStrings_def set_trimmed_set)
  then have "set (check_results (ins_Checks ins) (vc_Name c)) \<subseteq> {''passed''}"
    using assms(1) receipt_passed_iff [of ins] by (simp add: passed_result)
  moreover have "TrimSpace (vc_Result c) \<in> set (check_results (ins_Checks ins) (vc_Name c))"
    using assms(2,4,5) by (auto simp: check_results_def)
  ultimately show ?thesis by blast
qed

lemma Inspection_passed:
  assumes "receipt_state (Inspection s) = Inr VerificationStatePassed"
  shows "aci_passed s"
proof -
  let ?c = "\<lparr>vc_Name = ''audit_chain'', vc_Result = (if aci_passed s then ''passed'' else ''failed''), vc_Detail = []\<rparr>"
  have trim: "TrimSpace ''audit_chain'' = ''audit_chain''" "TrimSpace ''failed'' = ''failed''"
    by (simp_all add: edge_safe_def graphic_def byte_def)
  have "''audit_chain'' \<in> set (vp_RequiredChecks (ins_Profile (Inspection s)))"
    using trim by (force simp: Inspection_def Let_def NormalizeVerificationProfile_def normalizedStrings_def set_trimmed_set)
  then have "TrimSpace (vc_Result ?c) = ''passed''"
    using assms trim by (intro check_name_required [where ins = "Inspection s"]) (simp_all add: Inspection_def Let_def)
  then show ?thesis using trim by (cases "aci_passed s") simp_all
qed

lemma view_inspected:
  assumes "inspectAuditChainView tools read psize ctxErr view tenant now = Inr (ins, es)"
  obtains s where "ins = Inspection s"
    "aci_passed s \<Longrightarrow> chain_intact (at_hasher tools) tenant [] 0 es \<and> acv_TenantID view = tenant \<and>
      acv_EntryCount view = i64 (int (length es)) \<and> acv_HeadHash view = head_hash [] es \<and>
      (es = [] \<or> acv_HeadSequence view = ace_Sequence (last es))"
proof -
  obtain after s where loop: "view_loop tools read psize ctxErr view 0 MaxAuditChainVerificationBytes None
        (NewAuditChainInspector tenant now) [] = Inr (after, s, es)"
      and ins: "ins = Inspection s" and view: "acv_TenantID view = tenant" "aci_count s = acv_EntryCount view"
        "aci_previous s = acv_HeadHash view" "case after of Some a \<Rightarrow> a = acv_HeadSequence view | None \<Rightarrow> True"
    using assms(1) by (auto simp: inspectAuditChainView_def split: if_splits option.splits)
  have "inspected tools tenant es s" "after = (if es = [] then None else Some (ace_Sequence (last es)))"
    using inspected_view [OF loop inspected_new] by auto
  then show thesis
    using view ins by (intro that [of s]) (auto simp: inspected_def split: if_splits)
qed

text \<open>
  C20: Soundness of the audit-chain inspection, whatever the page reader returns: when the
  receipt of an inspection says passed, the entries it read form an intact chain of the tenant
  (consecutive sequence numbers, each entry linked to its predecessor, every canonical hash
  recomputed), and the view it was asked about has exactly this length and head.
\<close>

theorem audit_inspection_sound:
  assumes "inspectAuditChainView tools read psize ctxErr view tenant now = Inr (ins, es)"
    and "receipt_state ins = Inr VerificationStatePassed"
  shows "chain_intact (at_hasher tools) tenant [] 0 es \<and> acv_TenantID view = tenant \<and>
    acv_EntryCount view = i64 (int (length es)) \<and> acv_HeadHash view = head_hash [] es \<and>
    (es = [] \<or> acv_HeadSequence view = ace_Sequence (last es))"
  using assms(1) by (rule view_inspected) (use assms(2) Inspection_passed in blast)

section \<open>Tamper evidence\<close>

text \<open>
  The canonical fields that the stored canonical hash of an entry belongs to: for a legacy entry
  those of the first matching time within its microsecond.
\<close>

fun first_match :: "canonical_hasher \<Rightarrow> AuditChainEntry \<Rightarrow> int list \<Rightarrow> AuditChainEntry" where
  "first_match hasher e [] = e"
| "first_match hasher e (t # ts) =
    (if CanonicalAuditChainEntryHash hasher (e\<lparr>ace_OccurredAt := t\<rparr>) = Inr (ace_CanonicalEntryHash e)
     then e\<lparr>ace_OccurredAt := t\<rparr> else first_match hasher e ts)"

definition hashed_fields :: "canonical_hasher \<Rightarrow> AuditChainEntry \<Rightarrow> json result" where
  "hashed_fields hasher e =
    canonical_fields (first_match hasher e
      (ace_OccurredAt e # map (\<lambda>n. truncate_microsecond (ace_OccurredAt e) + n) [1..999]))"

lemma first_match_finds:
  "t \<in> set ts \<Longrightarrow> CanonicalAuditChainEntryHash h (e\<lparr>ace_OccurredAt := t\<rparr>) = Inr (ace_CanonicalEntryHash e) \<Longrightarrow>
     CanonicalAuditChainEntryHash h (first_match h e ts) = Inr (ace_CanonicalEntryHash e)"
  by (induction ts) auto

lemma hashed_fields_hash:
  assumes "VerifiedAuditChainCanonicalHash h e = Inr (ace_CanonicalEntryHash e, True)"
  shows "bind_result (hashed_fields h e) h = Inr (ace_CanonicalEntryHash e)"
proof -
  let ?ts = "ace_OccurredAt e # map (\<lambda>n. truncate_microsecond (ace_OccurredAt e) + n) [1..999]"
  obtain c0 where c0: "CanonicalAuditChainEntryHash h e = Inr c0"
    using assms by (auto simp: VerifiedAuditChainCanonicalHash_def)
  have "\<exists>t\<in>set ?ts. CanonicalAuditChainEntryHash h (e\<lparr>ace_OccurredAt := t\<rparr>) = Inr (ace_CanonicalEntryHash e)"
  proof (cases "c0 = ace_CanonicalEntryHash e \<or> ace_SchemaVersion e \<noteq> AuditChainEntryLegacySchemaVersion")
    case True
    then show ?thesis using assms c0 by (auto simp: VerifiedAuditChainCanonicalHash_def)
  next
    case False
    then have "nanos_loop h e (truncate_microsecond (ace_OccurredAt e)) c0 [1..999] = Inr (ace_CanonicalEntryHash e, True)"
      using assms c0 by (simp add: VerifiedAuditChainCanonicalHash_def)
    from nanos_loop_True [OF this] show ?thesis by auto
  qed
  then obtain t where "t \<in> set ?ts" "CanonicalAuditChainEntryHash h (e\<lparr>ace_OccurredAt := t\<rparr>) = Inr (ace_CanonicalEntryHash e)"
    by blast
  from first_match_finds [OF this] show ?thesis
    by (simp add: hashed_fields_def CanonicalAuditChainEntryHash_def)
qed

datatype collision = LinkCollision string string | FieldsCollision "json result" "json result" | NoCollision

text \<open>Walk two chains back from their heads until they differ (the lists are reversed).\<close>

fun find_collision :: "canonical_hasher \<Rightarrow> AuditChainEntry list \<Rightarrow> AuditChainEntry list \<Rightarrow> collision" where
  "find_collision hasher (x # xs) (y # ys) =
    (let lx = link_text (ace_PreviousEntryHash x) (ace_CanonicalEntryHash x);
         ly = link_text (ace_PreviousEntryHash y) (ace_CanonicalEntryHash y) in
     if lx \<noteq> ly then LinkCollision lx ly
     else if hashed_fields hasher x \<noteq> hashed_fields hasher y
     then FieldsCollision (hashed_fields hasher x) (hashed_fields hasher y)
     else find_collision hasher xs ys)"
| "find_collision hasher xs ys = NoCollision"

definition real_collision :: "canonical_hasher \<Rightarrow> collision \<Rightarrow> bool" where
  "real_collision hasher c =
    (case c of
       LinkCollision x y \<Rightarrow> x \<noteq> y \<and> hashBytes x = hashBytes y
     | FieldsCollision i j \<Rightarrow> i \<noteq> j \<and> bind_result i hasher = bind_result j hasher \<and> \<not> isl (bind_result i hasher)
     | NoCollision \<Rightarrow> False)"

lemma head_hash_newline_free:
  assumes "chain_intact h t [] n es"
  shows "CHR 0x0A \<notin> set (head_hash [] es)" and "es \<noteq> [] \<Longrightarrow> head_hash [] es \<noteq> []"
proof -
  have "es = [] \<or> (\<exists>x. head_hash [] es = hashBytes x)"
    using assms by (cases es rule: rev_cases) (auto simp: chain_intact_append auditChainLinkHash_def)
  then show "CHR 0x0A \<notin> set (head_hash [] es)" "es \<noteq> [] \<Longrightarrow> head_hash [] es \<noteq> []"
    using hashBytes_no_newline by auto
qed

lemma link_text_inj:
  "link_text p c = link_text q d \<Longrightarrow> CHR 0x0A \<notin> set p \<Longrightarrow> CHR 0x0A \<notin> set q \<Longrightarrow> p = q \<and> c = d"
proof (induction p arbitrary: q)
  case Nil
  then show ?case by (cases q) (auto simp: link_text_def)
next
  case (Cons a p)
  then show ?case by (cases q) (auto simp: link_text_def)
qed

lemma tamper_evident:
  "chain_intact h t [] 0 es \<Longrightarrow> chain_intact h u [] 0 fs \<Longrightarrow> head_hash [] es = head_hash [] fs \<Longrightarrow>
     map (hashed_fields h) es = map (hashed_fields h) fs \<or> real_collision h (find_collision h (rev es) (rev fs))"
proof (induction es arbitrary: fs rule: rev_induct)
  case Nil
  then show ?case using head_hash_newline_free(2) [of h u 0 fs] by auto
next
  case (snoc x xs)
  have "fs \<noteq> []" using snoc.prems head_hash_newline_free(2) [of h t 0 "xs @ [x]"] by auto
  then obtain ys y where fs: "fs = ys @ [y]" by (cases fs rule: rev_cases) auto
  have x: "chain_intact h t [] 0 xs" "ace_PreviousEntryHash x = head_hash [] xs"
      "ace_EntryHash x = hashBytes (link_text (head_hash [] xs) (ace_CanonicalEntryHash x))"
      "bind_result (hashed_fields h x) h = Inr (ace_CanonicalEntryHash x)"
    using snoc.prems(1) hashed_fields_hash [of h x] by (auto simp: chain_intact_append auditChainLinkHash_def)
  have y: "chain_intact h u [] 0 ys" "ace_PreviousEntryHash y = head_hash [] ys"
      "ace_EntryHash y = hashBytes (link_text (head_hash [] ys) (ace_CanonicalEntryHash y))"
      "bind_result (hashed_fields h y) h = Inr (ace_CanonicalEntryHash y)"
    using snoc.prems(2) hashed_fields_hash [of h y] by (auto simp: fs chain_intact_append auditChainLinkHash_def)
  show ?case
  proof (cases "link_text (head_hash [] xs) (ace_CanonicalEntryHash x) = link_text (head_hash [] ys) (ace_CanonicalEntryHash y)")
    case True
    then have eq: "head_hash [] xs = head_hash [] ys" "ace_CanonicalEntryHash x = ace_CanonicalEntryHash y"
      using link_text_inj head_hash_newline_free(1) [OF x(1)] head_hash_newline_free(1) [OF y(1)] by blast+
    show ?thesis
      using snoc.IH [OF x(1) y(1) eq(1)] x y eq by (auto simp: fs real_collision_def Let_def)
  next
    case False
    then show ?thesis using x y snoc.prems(3) by (simp add: fs real_collision_def)
  qed
qed


section \<open>Appended chains pass\<close>

text \<open>Entries that a JSON round trip does not change.\<close>

definition clean_entry :: "AuditChainEntry \<Rightarrow> bool" where
  "clean_entry e \<longleftrightarrow>
    list_all (\<lambda>s. coerce_utf8 s = s)
      [ace_ID e, ace_TenantID e, ace_EntryType e, ace_SubjectType e, ace_SubjectID e, ace_ActorType e, ace_ActorID e,
       ace_RequestID e, ace_IdempotencyKey e, ace_PayloadHash e, ace_SignatureRef e] \<and>
    ace_Metadata e \<noteq> JObject [] \<and> json_roundtrip (ace_Metadata e) = ace_Metadata e"

lemma coerce_utf8_versions [simp]:
  "coerce_utf8 AuditChainEntrySchemaVersion = AuditChainEntrySchemaVersion"
  "coerce_utf8 AuditChainEntryLegacySchemaVersion = AuditChainEntryLegacySchemaVersion"
  by (simp_all add: coerce_utf8_ascii AuditChainEntrySchemaVersion_def AuditChainEntryLegacySchemaVersion_def byte_def)

lemma coerce_utf8_Nil [simp]: "coerce_utf8 [] = []"
  by (simp add: coerce_utf8.simps)

lemma canonical_fields_versions:
  "canonical_fields e = Inr j \<Longrightarrow> ace_SchemaVersion e \<in> {AuditChainEntryLegacySchemaVersion, AuditChainEntrySchemaVersion}"
  by (auto simp: canonical_fields_def split: if_splits)

lemma canonical_fields_hashes [simp]:
  "canonical_fields (e\<lparr>ace_CanonicalEntryHash := c, ace_EntryHash := d\<rparr>) = canonical_fields e"
  by (simp add: canonical_fields_def)

lemma coerce_utf8_head_hash: "chain_intact h t [] n es \<Longrightarrow> coerce_utf8 (head_hash [] es) = head_hash [] es"
  by (cases es rule: rev_cases) (auto simp: chain_intact_append auditChainLinkHash_def)

text \<open>The contract of a canonical hasher: its digests are stable text.\<close>

locale canonical_hashing =
  fixes hasher :: canonical_hasher
  assumes digest_text: "hasher j = Inr c \<Longrightarrow> coerce_utf8 c = c"
begin

lemma rehash_clone:
  assumes "RehashAuditChainEntry hasher e = Inr e1" and "clean_entry e" and "cloneMemoryAuditEntry e1 = Inr e2"
    and "coerce_utf8 (ace_PreviousEntryHash e) = ace_PreviousEntryHash e"
  shows "e2 = e1" and "VerifiedAuditChainCanonicalHash hasher e1 = Inr (ace_CanonicalEntryHash e1, True)"
    and "ace_EntryHash e1 = auditChainLinkHash (ace_PreviousEntryHash e) (ace_CanonicalEntryHash e1)"
    and "ace_SchemaVersion e \<in> {AuditChainEntryLegacySchemaVersion, AuditChainEntrySchemaVersion}"
proof -
  obtain c where c: "CanonicalAuditChainEntryHash hasher e = Inr c"
      "e1 = e\<lparr>ace_CanonicalEntryHash := c, ace_EntryHash := auditChainLinkHash (ace_PreviousEntryHash e) c\<rparr>"
    using assms(1) by (auto simp: RehashAuditChainEntry_def)
  obtain j where j: "canonical_fields e = Inr j" "hasher j = Inr c"
    using c(1) by (auto simp: CanonicalAuditChainEntryHash_def)
  have version: "ace_SchemaVersion e \<in> {AuditChainEntryLegacySchemaVersion, AuditChainEntrySchemaVersion}"
    using j(1) by (rule canonical_fields_versions)
  then show "ace_SchemaVersion e \<in> {AuditChainEntryLegacySchemaVersion, AuditChainEntrySchemaVersion}" .
  have "coerce_utf8 (ace_SchemaVersion e) = ace_SchemaVersion e" using version by auto
  then show "e2 = e1"
    using assms(2-4) c(2) digest_text [OF j(2)]
    by (auto simp: cloneMemoryAuditEntry_def clean_entry_def auditChainLinkHash_def split: if_splits)
  show "ace_EntryHash e1 = auditChainLinkHash (ace_PreviousEntryHash e) (ace_CanonicalEntryHash e1)"
    using c(2) by simp
  show "VerifiedAuditChainCanonicalHash hasher e1 = Inr (ace_CanonicalEntryHash e1, True)"
    using c j by (simp add: VerifiedAuditChainCanonicalHash_def CanonicalAuditChainEntryHash_def)
qed

lemma append_intact:
  assumes "appendAudit hasher e s = Inr (stored, s')" and "clean_entry e"
    and "\<And>t. chain_intact hasher t [] 0 (chain_of s t)"
  shows "chain_of s' t = (if t = ace_TenantID e then chain_of s t @ [stored] else chain_of s t)"
    and "ace_ID stored = ace_ID e" and "ace_SignatureRef stored = ace_SignatureRef e"
    and "chain_intact hasher t [] 0 (chain_of s' t)"
proof -
  let ?es = "chain_of s (ace_TenantID e)"
  let ?e = "e\<lparr>ace_Sequence := i64 (int (length ?es) + 1), ace_PreviousEntryHash := head_hash [] ?es,
    ace_SchemaVersion := (if ace_SchemaVersion e = [] then AuditChainEntrySchemaVersion else ace_SchemaVersion e)\<rparr>"
  obtain e1 where e1: "RehashAuditChainEntry hasher ?e = Inr e1" "cloneMemoryAuditEntry e1 = Inr stored"
      "s' = s\<lparr>as_entries := tbl_put (as_entries s) (ace_TenantID e1) (?es @ [stored])\<rparr>"
    using assms(1) by (auto simp: appendAudit_def Let_def head_hash_def split: if_splits)
  have clean: "clean_entry ?e" using assms(2) by (simp add: clean_entry_def)
  have prev: "coerce_utf8 (ace_PreviousEntryHash ?e) = ace_PreviousEntryHash ?e"
    using coerce_utf8_head_hash [OF assms(3)] by simp
  note facts = rehash_clone [OF e1(1) clean e1(2) prev]
  have keep: "ace_TenantID e1 = ace_TenantID e" "ace_Sequence e1 = i64 (int (length ?es) + 1)"
      "ace_PreviousEntryHash e1 = head_hash [] ?es" "ace_ID e1 = ace_ID e" "ace_SignatureRef e1 = ace_SignatureRef e"
      "ace_SchemaVersion e1 = ace_SchemaVersion ?e"
    using e1(1) by (auto simp: RehashAuditChainEntry_def)
  show ch: "chain_of s' t = (if t = ace_TenantID e then chain_of s t @ [stored] else chain_of s t)"
    using e1(3) keep by (simp add: chain_of_def)
  show "ace_ID stored = ace_ID e" "ace_SignatureRef stored = ace_SignatureRef e"
    using facts(1) keep by simp_all
  show "chain_intact hasher t [] 0 (chain_of s' t)"
    using assms(3) facts keep by (auto simp: ch chain_intact_append)
qed

end

interpretation normalized: canonical_hashing "NormalizedJSONHash number" for number
  by unfold_locales (auto simp: NormalizedJSONHash_def Let_def split: if_splits)

fun append_all :: "canonical_hasher \<Rightarrow> AuditChainEntry list \<Rightarrow> audit_store \<Rightarrow> audit_store result" where
  "append_all hasher [] s = Inr s"
| "append_all hasher (e # es) s = bind_result (appendAudit hasher e s) (\<lambda>(stored, s'). append_all hasher es s')"

lemma append_all_intact:
  assumes "append_all (NormalizedJSONHash number) es s = Inr s'" and "list_all clean_entry es"
    and "\<And>t. chain_intact (NormalizedJSONHash number) t [] 0 (chain_of s t)"
  shows "chain_intact (NormalizedJSONHash number) t [] 0 (chain_of s' t) \<and>
    map ace_ID (chain_of s' t) = map ace_ID (chain_of s t @ filter (\<lambda>e. ace_TenantID e = t) es) \<and>
    map ace_SignatureRef (chain_of s' t) = map ace_SignatureRef (chain_of s t @ filter (\<lambda>e. ace_TenantID e = t) es)"
  using assms
proof (induction es arbitrary: s)
  case (Cons e es)
  then obtain stored s1 where s1: "appendAudit (NormalizedJSONHash number) e s = Inr (stored, s1)"
      "append_all (NormalizedJSONHash number) es s1 = Inr s'"
    by auto
  have "clean_entry e" using Cons.prems(2) by simp
  note step = normalized.append_intact [OF s1(1) this Cons.prems(3)]
  have "chain_intact (NormalizedJSONHash number) t [] 0 (chain_of s' t) \<and>
      map ace_ID (chain_of s' t) = map ace_ID (chain_of s1 t @ filter (\<lambda>e. ace_TenantID e = t) es) \<and>
      map ace_SignatureRef (chain_of s' t) = map ace_SignatureRef (chain_of s1 t @ filter (\<lambda>e. ace_TenantID e = t) es)"
    using Cons.IH [OF s1(2) _ step(4)] Cons.prems(2) by simp
  then show ?case using step(1-3) by auto
qed simp

text \<open>The inspector over a list of entries that reference no signature.\<close>

fun inspect_entries :: "audit_tools \<Rightarrow> AuditChainEntry list \<Rightarrow> AuditChainInspector \<Rightarrow> AuditChainInspector result" where
  "inspect_entries tools [] s = Inr s"
| "inspect_entries tools (e # es) s = bind_result (Inspector_Append tools s e zero_binding [] []) (inspect_entries tools es)"

definition good_check :: "VerifyCheck \<Rightarrow> bool" where
  "good_check c \<longleftrightarrow> vc_Result c = ''passed'' \<and> edge_safe (vc_Name c)"

lemma edge_safe_names:
  "list_all edge_safe [''tenant_id'', ''schema_version'', ''sequence'', ''previous_hash'', ''canonical_entry_hash'', ''entry_hash'',
     ''referenced_signature'', ''audit_chain'', ''passed'']"
  by (simp add: edge_safe_def graphic_def byte_def)

lemma inspect_entries_good:
  assumes "inspect_entries tools es s = Inr s'" and "chain_intact (at_hasher tools) (aci_tenant s) (aci_previous s) n es"
    and "aci_count s = i64 n" and "list_all (\<lambda>e. ace_SignatureRef e = []) es" and "aci_passed s" and "list_all good_check (aci_checks s)"
  shows "aci_passed s' \<and> list_all good_check (aci_checks s')"
  using assms
proof (induction es arbitrary: s n)
  case (Cons e es)
  then obtain s1 where s1: "Inspector_Append tools s e zero_binding [] [] = Inr s1" "inspect_entries tools es s1 = Inr s'"
    by auto
  let ?facts = "entry_facts tools s e zero_binding [] []"
  have all: "list_all snd ?facts"
    using Cons.prems(2-4) by (auto simp: entry_facts_all)
  have names: "list_all (\<lambda>(name, valid). edge_safe name) ?facts"
    using edge_safe_names by (simp add: entry_facts_def Let_def)
  have upd: "aci_tenant s1 = aci_tenant s" "aci_previous s1 = ace_EntryHash e" "aci_count s1 = i64 (n + 1)" "aci_passed s1"
      "aci_checks s1 = aci_checks s @ map (\<lambda>(name, valid). \<lparr>vc_Name = name,
         vc_Result = (if valid then ''passed'' else ''failed''), vc_Detail = ace_ID e\<rparr>) ?facts"
    using s1(1) all Cons.prems(3,5) by (auto simp: Inspector_Append_def Let_def split: if_splits option.splits)
  have "list_all good_check (aci_checks s1)"
    unfolding upd(5) list_all_append using Cons.prems(6) all names by (auto simp: good_check_def list_all_iff)
  moreover have "chain_intact (at_hasher tools) (aci_tenant s1) (aci_previous s1) (n + 1) es"
    using Cons.prems(2) unfolding upd(1,2) by auto
  ultimately show ?case
    using Cons.IH [OF s1(2) _ upd(3) _ upd(4)] Cons.prems(4) by simp
qed simp

lemma good_inspection_receipt:
  assumes good: "\<forall>c\<in>set (ins_Checks ins). good_check c"
    and ne: "ins_Checks ins \<noteq> []" "ins_StateOverride ins = []" "TrimSpace (vp_ID (ins_Profile ins)) \<noteq> []"
    and required: "set (vp_RequiredChecks (ins_Profile ins)) = TrimSpace ` vc_Name ` set (ins_Checks ins) - {[]}"
  shows "receipt_state ins = Inr VerificationStatePassed"
proof -
  have edge: "TrimSpace (vc_Name c) = vc_Name c \<and> vc_Name c \<noteq> [] \<and> TrimSpace (vc_Result c) = ''passed''"
    if "c \<in> set (ins_Checks ins)" for c
    using good that edge_safe_names by (auto simp: good_check_def edge_safe_nonempty)
  have req: "set (normalizedStrings (vp_RequiredChecks (ins_Profile ins))) = vc_Name ` set (ins_Checks ins)"
  proof -
    have "TrimSpace ` vc_Name ` set (ins_Checks ins) - {[]} = vc_Name ` set (ins_Checks ins)"
      using edge by (force simp: image_iff)
    then show ?thesis
      using edge required by (force simp: normalizedStrings_def set_trimmed_set image_iff)
  qed
  have "required_results (ins_Profile ins) (ins_Checks ins) \<noteq> []"
    using req ne(1) by (auto simp: required_results_def)
  then have "validInspection (ins\<lparr>ins_Profile := NormalizeVerificationProfile (ins_Profile ins)\<rparr>)"
    using ne edge by (auto simp: validInspection_normalized)
  moreover have "\<forall>r\<in>vc_Name ` set (ins_Checks ins). check_results (ins_Checks ins) r \<noteq> [] \<and>
      set (check_results (ins_Checks ins) r) \<subseteq> {VerificationStatePassed}"
    using edge by (auto simp: check_results_def passed_result filter_empty_conv)
  ultimately show ?thesis
    using ne req by (simp add: receipt_passed_iff)
qed

lemma good_checks_receipt:
  assumes "aci_passed s" and "list_all good_check (aci_checks s)"
  shows "receipt_state (Inspection s) = Inr VerificationStatePassed"
proof (rule good_inspection_receipt)
  show "\<forall>c\<in>set (ins_Checks (Inspection s)). good_check c"
    using assms edge_safe_names by (auto simp: Inspection_def Let_def good_check_def list_all_iff)
  show "set (vp_RequiredChecks (ins_Profile (Inspection s))) = TrimSpace ` vc_Name ` set (ins_Checks (Inspection s)) - {[]}"
    by (simp only: Inspection_def Let_def NormalizeVerificationProfile_def normalizedStrings_def VerificationProfile.simps
        SubjectInspection.simps set_trimmed_set set_rev set_remdups set_map)
qed (simp_all add: Inspection_def Let_def NormalizeVerificationProfile_def VerificationProfileAuditChainIntegrity_def
    edge_safe_def graphic_def byte_def)

text \<open>
  C22: Completeness. From an empty store, whatever clean entries are appended for whatever
  tenants, the chain of each tenant holds its entries in the order of the calls and is intact,
  and when they reference no signature an inspection that stays within its byte budget passes.
\<close>

theorem audit_append_verifies:
  assumes "append_all (NormalizedJSONHash number) es \<lparr>as_tenants = tenants, as_entries = []\<rparr> = Inr s" and "list_all clean_entry es"
    and "at_hasher tools = NormalizedJSONHash number"
  shows "chain_intact (NormalizedJSONHash number) t [] 0 (chain_of s t) \<and>
    map ace_ID (chain_of s t) = map ace_ID (filter (\<lambda>e. ace_TenantID e = t) es) \<and>
    (list_all (\<lambda>e. ace_SignatureRef e = []) es \<longrightarrow>
      inspect_entries tools (chain_of s t) (NewAuditChainInspector t now) = Inr inspector \<longrightarrow>
      receipt_state (Inspection inspector) = Inr VerificationStatePassed)"
proof -
  have "chain_intact (NormalizedJSONHash number) t [] 0 (chain_of \<lparr>as_tenants = tenants, as_entries = []\<rparr> t)" for t
    by (simp add: chain_of_def tbl_get_def)
  note all = append_all_intact [OF assms(1,2) this, of t]
  have chain: "chain_of \<lparr>as_tenants = tenants, as_entries = []\<rparr> t = []" by (simp add: chain_of_def tbl_get_def)
  have "receipt_state (Inspection inspector) = Inr VerificationStatePassed"
    if unsigned: "list_all (\<lambda>e. ace_SignatureRef e = []) es"
      and run: "inspect_entries tools (chain_of s t) (NewAuditChainInspector t now) = Inr inspector"
  proof -
    have "map ace_SignatureRef (chain_of s t) = map ace_SignatureRef (filter (\<lambda>e. ace_TenantID e = t) es)"
      using all chain by simp
    then have "list_all (\<lambda>r. r = []) (map ace_SignatureRef (chain_of s t))"
      using unsigned by (auto simp: list_all_iff)
    then have "list_all (\<lambda>e. ace_SignatureRef e = []) (chain_of s t)" by (simp add: list.pred_map o_def)
    then have "aci_passed inspector \<and> list_all good_check (aci_checks inspector)"
      using inspect_entries_good [OF run, of 0] all assms(3) by (simp add: NewAuditChainInspector_def i64_def)
    then show ?thesis by (simp add: good_checks_receipt)
  qed
  then show ?thesis using all chain by simp
qed

section \<open>A concrete chain\<close>

definition sample_raw :: "string \<Rightarrow> AuditChainEntry" where
  "sample_raw i =
    \<lparr>ace_ID = i, ace_TenantID = ''t1'', ace_Sequence = 0, ace_EntryType = ''product.created'', ace_SubjectType = ''product'',
     ace_SubjectID = ''p1'', ace_ActorType = ''api_key'', ace_ActorID = ''k1'', ace_OccurredAt = 1, ace_RequestID = [],
     ace_IdempotencyKey = [], ace_PayloadHash = [], ace_CanonicalEntryHash = [], ace_PreviousEntryHash = [],
     ace_EntryHash = [], ace_SignatureRef = [], ace_Metadata = JNull, ace_SchemaVersion = []\<rparr>"

definition sample_digest :: "json \<Rightarrow> string" where
  "sample_digest j = hashBytes (encode_json (map_numbers (\<lambda>l. l) (json_roundtrip j)))"

lemma sample_hash: "NormalizedJSONHash Some j = Inr (sample_digest j)"
  by (simp add: NormalizedJSONHash_def sample_digest_def Let_def list_ex_iff)

definition sample_entry :: AuditChainEntry where
  "sample_entry =
    (let e = (sample_raw ''a1'')\<lparr>ace_Sequence := 1, ace_SchemaVersion := AuditChainEntrySchemaVersion\<rparr>;
         c = (case canonical_fields e of Inl err \<Rightarrow> [] | Inr j \<Rightarrow> sample_digest j)
     in e\<lparr>ace_CanonicalEntryHash := c, ace_EntryHash := auditChainLinkHash [] c\<rparr>)"

definition sample_chain :: audit_store where
  "sample_chain = \<lparr>as_tenants = [''t1''], as_entries = [(''t1'', [sample_entry])]\<rparr>"

lemma versions_distinct [simp]:
  "AuditChainEntrySchemaVersion \<noteq> AuditChainEntryLegacySchemaVersion"
  by (simp add: AuditChainEntrySchemaVersion_def AuditChainEntryLegacySchemaVersion_def)

lemma sample_clean: "clean_entry (sample_raw ''a1'')"
  by (simp add: clean_entry_def sample_raw_def coerce_utf8_ascii byte_def)

lemma sample_append:
  "append_all (NormalizedJSONHash Some) [sample_raw ''a1''] \<lparr>as_tenants = [''t1''], as_entries = []\<rparr> = Inr sample_chain"
proof -
  have year: "year_of 1 = 1" by code_simp
  have "coerce_utf8 (sample_digest j) = sample_digest j" for j by (simp add: sample_digest_def)
  then show ?thesis
    by (simp add: appendAudit_def sample_raw_def require_audit_tenant_def RehashAuditChainEntry_def Let_def chain_of_def
        tbl_get_def tbl_put_def CanonicalAuditChainEntryHash_def canonical_fields_def cloneMemoryAuditEntry_def sample_hash
        sample_chain_def sample_entry_def year coerce_utf8_ascii byte_def auditChainLinkHash_def i64_def)
qed

definition sample_tools :: audit_tools where
  "sample_tools = \<lparr>at_hasher = NormalizedJSONHash Some, at_verifier = \<lambda>_ value _. value = ''good'', at_checks_size = \<lambda>_. Some 1\<rparr>"

theorem audit_append_verifies_witness:
  "chain_of sample_chain ''t1'' = [sample_entry] \<and>
   chain_intact (NormalizedJSONHash Some) ''t1'' [] 0 (chain_of sample_chain ''t1'')"
  using audit_append_verifies [OF sample_append, where tools = sample_tools and t = "''t1''"] sample_clean
  by (simp add: chain_of_def sample_chain_def tbl_get_def sample_tools_def)

lemma sample_chain_intact: "chain_intact (NormalizedJSONHash Some) ''t1'' [] 0 [sample_entry]"
  by (simp add: sample_entry_def sample_raw_def Let_def canonical_fields_def VerifiedAuditChainCanonicalHash_def
      CanonicalAuditChainEntryHash_def sample_hash i64_def)


text \<open>A reader of two pages: the entry, then nothing.\<close>

definition sample_page :: "AuditChainEntry list \<Rightarrow> AuditChainVerificationPage" where
  "sample_page es = \<lparr>acp_Entries = es, acp_Bindings = [], acp_Signatures = [], acp_Keys = [], acp_BytesRead = int (length es)\<rparr>"

definition sample_reader :: page_reader where
  "sample_reader view after budget = Inr (sample_page (if after = None then [sample_entry] else []))"

definition sample_view :: AuditChainVerificationView where
  "sample_view = \<lparr>acv_TenantID = ''t1'', acv_HeadSequence = 1, acv_HeadHash = ace_EntryHash sample_entry, acv_EntryCount = 1\<rparr>"

definition sample_inspector :: AuditChainInspector where
  "sample_inspector = (case inspect_entries sample_tools [sample_entry] (NewAuditChainInspector ''t1'' 5) of
     Inr s \<Rightarrow> s | Inl e \<Rightarrow> NewAuditChainInspector ''t1'' 5)"

lemma sample_inspect:
  "Inspector_Append sample_tools (NewAuditChainInspector ''t1'' 5) sample_entry zero_binding [] [] = Inr sample_inspector"
  by (simp add: sample_inspector_def Inspector_Append_def sample_tools_def sample_entry_def sample_raw_def Let_def
      NewAuditChainInspector_def MaxAuditChainVerificationBytes_def)

lemma sample_inspection_runs:
  "inspectAuditChainView sample_tools sample_reader (\<lambda>_. Some 1) (\<lambda>_. None) sample_view ''t1'' 5 =
     Inr (Inspection sample_inspector, [sample_entry])"
proof -
  have seq: "ace_Sequence sample_entry = 1" "length (ace_EntryHash sample_entry) = 71"
    by (simp_all add: sample_entry_def sample_raw_def Let_def auditChainLinkHash_def)
  have "inspected sample_tools ''t1'' ([] @ [sample_entry]) sample_inspector"
    by (rule inspected_Append [OF inspected_new sample_inspect])
  then have s: "aci_count sample_inspector = 1" "aci_previous sample_inspector = ace_EntryHash sample_entry"
    by (simp_all add: inspected_def i64_def)
  show ?thesis
    by (simp add: inspectAuditChainView_def sample_view_def view_loop.simps sample_reader_def sample_page_def page_bytes_def
        MaxAuditChainVerificationBytes_def MaxAuditChainVerificationPageEntries_def tbl_get_def sample_inspect seq s)
qed

lemma sample_inspector_good: "aci_passed sample_inspector \<and> list_all good_check (aci_checks sample_inspector)"
  by (rule inspect_entries_good [where tools = sample_tools and es = "[sample_entry]" and n = 0 and
        s = "NewAuditChainInspector ''t1'' 5"])
    (use sample_chain_intact sample_inspect in \<open>simp_all add: sample_tools_def NewAuditChainInspector_def i64_def
      sample_entry_def sample_raw_def Let_def\<close>)

theorem audit_inspection_sound_witness:
  "chain_intact (NormalizedJSONHash Some) ''t1'' [] 0 [sample_entry] \<and> acv_HeadHash sample_view = head_hash [] [sample_entry]"
proof -
  have "receipt_state (Inspection sample_inspector) = Inr VerificationStatePassed"
    using sample_inspector_good by (simp add: good_checks_receipt)
  from audit_inspection_sound [OF sample_inspection_runs this] show ?thesis
    by (simp add: sample_tools_def)
qed

section \<open>Empty metadata\<close>

text \<open>
  The in-memory append hashes the metadata it was given and stores the result of a JSON round
  trip that drops an empty metadata object. The stored entry of such a call verifies only if
  the hasher does not distinguish an empty object from null.
\<close>

lemma empty_metadata_unverifiable:
  assumes "RehashAuditChainEntry hasher e = Inr e1" and "cloneMemoryAuditEntry e1 = Inr stored"
    and "ace_SchemaVersion e = AuditChainEntrySchemaVersion" and "ace_Metadata e = JObject []"
    and "list_all (\<lambda>s. coerce_utf8 s = s)
      [ace_ID e, ace_TenantID e, ace_EntryType e, ace_SubjectType e, ace_SubjectID e, ace_ActorType e, ace_ActorID e,
       ace_RequestID e, ace_IdempotencyKey e, ace_PayloadHash e, ace_SignatureRef e, ace_PreviousEntryHash e, ace_CanonicalEntryHash e1]"
    and "VerifyAuditChainEntryHash hasher stored"
  shows "bind_result (canonical_fields (e\<lparr>ace_Metadata := JNull\<rparr>)) hasher = bind_result (canonical_fields e) hasher"
proof -
  obtain c where c: "CanonicalAuditChainEntryHash hasher e = Inr c"
      "e1 = e\<lparr>ace_CanonicalEntryHash := c, ace_EntryHash := auditChainLinkHash (ace_PreviousEntryHash e) c\<rparr>"
    using assms(1) by (auto simp: RehashAuditChainEntry_def)
  have stored: "stored = e1\<lparr>ace_Metadata := JNull\<rparr>"
    using assms(2-5) c(2) by (auto simp: cloneMemoryAuditEntry_def auditChainLinkHash_def split: if_splits)
  have "CanonicalAuditChainEntryHash hasher stored = Inr c"
    using assms(3,6) stored c(2)
    by (auto simp: VerifyAuditChainEntryHash_def VerifiedAuditChainCanonicalHash_def split: sum.splits)
  moreover have "canonical_fields stored = canonical_fields (e\<lparr>ace_Metadata := JNull\<rparr>)"
    unfolding stored c(2) by (simp add: canonical_fields_def)
  ultimately show ?thesis using c(1) by (auto simp: CanonicalAuditChainEntryHash_def)
qed

end
