(* ===== verification/Signing_Properties.thy ===== *)
theory Signing_Properties
  imports Signing_Keys
begin

text \<open>
  What the key repository and the key commands promise: one active key per tenant and provider,
  rotation that keeps the past verifiable, and revocation that ends a key.
\<close>

section \<open>One active key\<close>

definition keys_coherent :: "integrity_store \<Rightarrow> bool" where
  "keys_coherent s \<longleftrightarrow> (\<forall>i v. tbl_get (is_keys s) i = Some v \<longrightarrow> sk_ID (ssk_Key v) = i)"

definition one_active :: "integrity_store \<Rightarrow> bool" where
  "one_active s \<longleftrightarrow> (\<forall>i j v w. tbl_get (is_keys s) i = Some v \<longrightarrow> tbl_get (is_keys s) j = Some w \<longrightarrow>
     sk_Status (ssk_Key v) = SigningKeyStatusActive \<longrightarrow> rival (ssk_Key v) (ssk_Key w) \<longrightarrow> i = j)"

definition keyring_ok :: "integrity_store \<Rightarrow> bool" where
  "keyring_ok s \<longleftrightarrow> keys_coherent s \<and> one_active s"

lemma keys_coherentD: "keyring_ok s \<Longrightarrow> tbl_get (is_keys s) i = Some v \<Longrightarrow> sk_ID (ssk_Key v) = i"
  by (simp add: keyring_ok_def keys_coherent_def)

lemma rival_sym: "rival a b \<Longrightarrow> sk_Status a = SigningKeyStatusActive \<Longrightarrow> rival b a"
  by (simp add: rival_def)

text \<open>Storing a key under its own identifier, with no rival among the others.\<close>

lemma keyring_ok_put:
  assumes "keyring_ok s" and "sk_ID (ssk_Key v) = i"
    and "sk_Status (ssk_Key v) = SigningKeyStatusActive \<Longrightarrow>
      (\<And>j w. j \<noteq> i \<Longrightarrow> tbl_get (is_keys s) j = Some w \<Longrightarrow> \<not> rival (ssk_Key v) (ssk_Key w))"
  shows "keyring_ok (s\<lparr>is_keys := tbl_put (is_keys s) i v\<rparr>)"
proof -
  have "one_active (s\<lparr>is_keys := tbl_put (is_keys s) i v\<rparr>)"
    unfolding one_active_def
  proof (intro allI impI)
    fix j k x y
    assume get: "tbl_get (is_keys (s\<lparr>is_keys := tbl_put (is_keys s) i v\<rparr>)) j = Some x"
        "tbl_get (is_keys (s\<lparr>is_keys := tbl_put (is_keys s) i v\<rparr>)) k = Some y"
      and active: "sk_Status (ssk_Key x) = SigningKeyStatusActive" and riv: "rival (ssk_Key x) (ssk_Key y)"
    show "j = k"
    proof (rule ccontr)
      assume "j \<noteq> k"
      then consider "j = i" "k \<noteq> i" | "j \<noteq> i" "k = i" | "j \<noteq> i" "k \<noteq> i" by blast
      then show False
      proof cases
        case 1
        then show ?thesis using get active riv assms(3) [of k y] by simp
      next
        case 2
        then have "y = v" "tbl_get (is_keys s) j = Some x" using get by simp_all
        then show ?thesis
          using 2 riv active rival_sym [OF riv active] assms(3) [of j x] by (simp add: rival_def)
      next
        case 3
        then have "tbl_get (is_keys s) j = Some x" "tbl_get (is_keys s) k = Some y" using get by simp_all
        then show ?thesis using assms(1) active riv \<open>j \<noteq> k\<close> unfolding keyring_ok_def one_active_def by blast
      qed
    qed
  qed
  then show ?thesis
    using assms(1,2) by (auto simp: keyring_ok_def keys_coherent_def)
qed

lemma InsertSigningKey_Inr:
  assumes "InsertSigningKey v s = Inr s'"
  obtains "s' = s\<lparr>is_keys := tbl_put (is_keys s) (sk_ID (ssk_Key v)) v\<rparr>" "tbl_get (is_keys s) (sk_ID (ssk_Key v)) = None"
    "sk_Status (ssk_Key v) = SigningKeyStatusActive \<longrightarrow> \<not> tbl_any (\<lambda>e. rival (ssk_Key v) (ssk_Key e)) (is_keys s)"
  using assms by (auto simp: InsertSigningKey_def Let_def split: if_splits)

lemma UpdateSigningKey_Inr:
  assumes "UpdateSigningKey v expected s = Inr s'" and "keyring_ok s"
  obtains existing where "tbl_get (is_keys s) (sk_ID (ssk_Key v)) = Some existing" "sk_Status (ssk_Key existing) = expected"
    "sk_TenantID (ssk_Key existing) = sk_TenantID (ssk_Key v)"
    "s' = s\<lparr>is_keys := tbl_put (is_keys s) (sk_ID (ssk_Key v))
       (if ssk_Private v = [] then v\<lparr>ssk_Private := ssk_Private existing\<rparr> else v)\<rparr>"
    "sk_Status (ssk_Key v) = SigningKeyStatusActive \<longrightarrow>
       \<not> tbl_any (\<lambda>e. rival (ssk_Key v) (ssk_Key e)) (tbl_del (is_keys s) (sk_ID (ssk_Key v)))"
proof -
  obtain existing where ex: "tbl_get (is_keys s) (sk_ID (ssk_Key v)) = Some existing"
    using assms(1) by (auto simp: UpdateSigningKey_def Let_def split: if_splits option.splits)
  moreover have "sk_ID (ssk_Key existing) = sk_ID (ssk_Key v)"
    using assms(2) ex by (rule keys_coherentD)
  ultimately show ?thesis
    using assms(1) by (intro that [of existing]) (auto simp: UpdateSigningKey_def Let_def split: if_splits)
qed

lemma InsertSigningKey_ok: "keyring_ok s \<Longrightarrow> InsertSigningKey v s = Inr s' \<Longrightarrow> keyring_ok s'"
  by (erule InsertSigningKey_Inr) (auto intro!: keyring_ok_put simp: tbl.any_iff)

lemma UpdateSigningKey_ok:
  assumes "keyring_ok s" and "UpdateSigningKey v expected s = Inr s'"
  shows "keyring_ok s'"
  using UpdateSigningKey_Inr [OF assms(2,1)]
proof cases
  case (1 existing)
  define w where "w = (if ssk_Private v = [] then v\<lparr>ssk_Private := ssk_Private existing\<rparr> else v)"
  have w: "ssk_Key w = ssk_Key v" by (simp add: w_def)
  have "\<not> rival (ssk_Key v) (ssk_Key u)"
    if "sk_Status (ssk_Key v) = SigningKeyStatusActive" "j \<noteq> sk_ID (ssk_Key v)" "tbl_get (is_keys s) j = Some u" for j u
  proof -
    have "tbl_get (tbl_del (is_keys s) (sk_ID (ssk_Key v))) j = Some u" using that by simp
    then show ?thesis using 1(5) that(1) unfolding tbl.any_iff by blast
  qed
  then have "keyring_ok (s\<lparr>is_keys := tbl_put (is_keys s) (sk_ID (ssk_Key v)) w\<rparr>)"
    using assms(1) by (intro keyring_ok_put) (simp_all add: w)
  then show ?thesis using 1(4) by (simp add: w_def)
qed

lemma keyring_ok_audit [simp]: "keyring_ok (s\<lparr>is_audit := a\<rparr>) = keyring_ok s"
  by (simp add: keyring_ok_def keys_coherent_def one_active_def)

lemma keyring_ok_signatures [simp]: "keyring_ok (s\<lparr>is_signatures := a\<rparr>) = keyring_ok s"
  by (simp add: keyring_ok_def keys_coherent_def one_active_def)

lemma update_all_ok: "keyring_ok s \<Longrightarrow> update_all expected keys s = Inr s' \<Longrightarrow> keyring_ok s'"
  by (induction keys arbitrary: s) (auto dest: UpdateSigningKey_ok)

lemma appendAuditEvent_Inr:
  assumes "appendAuditEvent h v s = Inr s'"
  obtains a where "s' = s\<lparr>is_audit := a\<rparr>"
  using assms by (auto simp: appendAuditEvent_def)

lemma RotateSigningKey_Inr:
  assumes "RotateSigningKey c actor reason s = Inr (k, s')"
  obtains keys version retiring prepared s1 s2 where
    "ListLocalSigningKeysForUpdate s (actor_TenantID actor) = Inr keys"
    "rotation_loop (actor_TenantID actor) (kc_now c) keys 1 [] = Inr (version, retiring)"
    "validPreparedSigningKey prepared (actor_TenantID actor) SigningKeyDefaultProvider version (kc_now c)"
    "update_all SigningKeyStatusActive retiring s = Inr s1" "InsertSigningKey prepared s1 = Inr s2"
    "is_keys s' = is_keys s2" "keyring_ok s' = keyring_ok s2" "k = ssk_Key prepared"
  using assms by (auto simp: RotateSigningKey_def split: if_splits elim!: appendAuditEvent_Inr)

lemma RevokeSigningKey_Inr:
  assumes "RevokeSigningKey c actor keyID input s = Inr (k, s')"
  obtains i inp key s1 where "NormalizeSigningKeyID keyID = Inr i" "NormalizeSigningKeyRevocationInput input = Inr inp"
    "GetSigningKeyForUpdate s (actor_TenantID actor) i = Inr key" "sk_ID key = i" "k = revoked_key inp (kc_now c) key"
    "UpdateSigningKey \<lparr>ssk_Key = k, ssk_Private = []\<rparr> (sk_Status key) s = Inr s1"
    "is_keys s' = is_keys s1" "keyring_ok s' = keyring_ok s1" "sk_Status key \<noteq> SigningKeyStatusRevoked"
proof (cases "NormalizeSigningKeyRevocationInput input")
  case (Inl e)
  then show ?thesis using assms by (auto simp: RevokeSigningKey_def)
next
  case (Inr inp)
  then obtain i key s1 ev where 1: "NormalizeSigningKeyID keyID = Inr i"
      "GetSigningKeyForUpdate s (actor_TenantID actor) i = Inr key" "sk_ID key = i" "k = revoked_key inp (kc_now c) key"
      "UpdateSigningKey \<lparr>ssk_Key = k, ssk_Private = []\<rparr> (sk_Status key) s = Inr s1"
      "appendAuditEvent (kc_hasher c) ev s1 = Inr s'" "sk_Status key \<noteq> SigningKeyStatusRevoked"
    using assms by (auto simp: RevokeSigningKey_def Let_def split: if_splits)
  obtain a where "s' = s1\<lparr>is_audit := a\<rparr>" using 1(6) by (rule appendAuditEvent_Inr)
  then show ?thesis using 1 Inr that by simp
qed

lemma RotateSigningKey_ok: "keyring_ok s \<Longrightarrow> RotateSigningKey c actor reason s = Inr (k, s') \<Longrightarrow> keyring_ok s'"
  by (erule RotateSigningKey_Inr) (auto dest: update_all_ok InsertSigningKey_ok)

lemma RevokeSigningKey_ok: "keyring_ok s \<Longrightarrow> RevokeSigningKey c actor i input s = Inr (k, s') \<Longrightarrow> keyring_ok s'"
  by (erule RevokeSigningKey_Inr) (auto dest: UpdateSigningKey_ok)

inductive key_step :: "integrity_store \<Rightarrow> integrity_store \<Rightarrow> bool" where
  insert_key: "InsertSigningKey v s = Inr s' \<Longrightarrow> key_step s s'"
| update_key: "UpdateSigningKey v expected s = Inr s' \<Longrightarrow> key_step s s'"
| insert_signature: "InsertSignature v s = Inr s' \<Longrightarrow> key_step s s'"
| rotate: "RotateSigningKey c actor reason s = Inr (k, s') \<Longrightarrow> key_step s s'"
| revoke: "RevokeSigningKey c actor i input s = Inr (k, s') \<Longrightarrow> key_step s s'"

lemma key_step_ok: "key_step s s' \<Longrightarrow> keyring_ok s \<Longrightarrow> keyring_ok s'"
proof (induction rule: key_step.induct)
  case (insert_signature v s s')
  then show ?case by (auto simp: InsertSignature_def split: if_splits option.splits)
qed (auto dest: InsertSigningKey_ok UpdateSigningKey_ok RotateSigningKey_ok RevokeSigningKey_ok)

definition empty_integrity :: "string list \<Rightarrow> integrity_store" where
  "empty_integrity tenants = \<lparr>is_audit = \<lparr>as_tenants = tenants, as_entries = []\<rparr>, is_keys = [], is_signatures = []\<rparr>"

lemma empty_integrity_ok: "keyring_ok (empty_integrity tenants)"
  by (simp add: keyring_ok_def keys_coherent_def one_active_def empty_integrity_def)

lemma reachable_keyring_ok: "key_step\<^sup>*\<^sup>* (empty_integrity tenants) s \<Longrightarrow> keyring_ok s"
  by (induction rule: rtranclp_induct) (auto simp: empty_integrity_ok intro: key_step_ok)

text \<open>
  C23: Whatever sequence of inserts, updates, rotations and revocations succeeds, a tenant has at
  most one active signing key per provider, an empty provider counting as the local one.
\<close>

theorem one_active_signing_key:
  assumes "key_step\<^sup>*\<^sup>* (empty_integrity tenants) s"
    and "tbl_get (is_keys s) i = Some v" and "tbl_get (is_keys s) j = Some w"
    and "sk_Status (ssk_Key v) = SigningKeyStatusActive" and "sk_Status (ssk_Key w) = SigningKeyStatusActive"
    and "sk_TenantID (ssk_Key v) = sk_TenantID (ssk_Key w)"
    and "signingKeyProvider (ssk_Key v) = signingKeyProvider (ssk_Key w)"
  shows "i = j"
  using reachable_keyring_ok [OF assms(1)] assms(2-)
  by (auto simp: keyring_ok_def one_active_def rival_def)

section \<open>Rotation\<close>

definition local_active :: "string \<Rightarrow> StoredSigningKey \<Rightarrow> bool" where
  "local_active tenant v \<longleftrightarrow> sk_TenantID (ssk_Key v) = tenant \<and> signingKeyProvider (ssk_Key v) = SigningKeyDefaultProvider \<and>
     sk_Status (ssk_Key v) = SigningKeyStatusActive"

definition retire :: "time \<Rightarrow> SigningKey \<Rightarrow> SigningKey" where
  "retire now key = key\<lparr>sk_Status := SigningKeyStatusRetiring, sk_ValidUntil := Some now\<rparr>"

lemma retire_select [simp]:
  "sk_ID (retire now key) = sk_ID key" "sk_TenantID (retire now key) = sk_TenantID key"
  "sk_Status (retire now key) = SigningKeyStatusRetiring" "sk_Version (retire now key) = sk_Version key"
  by (simp_all add: retire_def)

lemma memorySigningAdminKey_Inr:
  assumes "memorySigningAdminKey key = Inr (k, n)"
  obtains "k = key\<lparr>sk_Status := TrimSpace (sk_Status key)\<rparr>"
  using assms by (auto simp: memorySigningAdminKey_def ParseSigningKeyStatus_def Let_def split: sum.splits if_splits)

lemma set_rows: "(i, v) \<in> set (rows t) \<longleftrightarrow> tbl_get t i = Some v"
  using map_of_eq_Some_iff [OF distinct_clearjunk, of t i v] by (simp add: rows_def tbl_get_def map_of_clearjunk)

text \<open>The listing holds exactly the local keys of the tenant, with trimmed statuses and distinct identifiers.\<close>

definition local_key :: "string \<Rightarrow> SigningKey \<Rightarrow> bool" where
  "local_key tenant key \<longleftrightarrow> sk_TenantID key = tenant \<and> signingKeyProvider key = SigningKeyDefaultProvider"

lemma distinct_map_sort: "distinct (map f (sort_key g xs)) = distinct (map f xs)"
  by (simp add: distinct_map)

lemma local_provider:
  "(sk_Provider key = [] \<or> sk_Provider key = SigningKeyDefaultProvider) \<longleftrightarrow> signingKeyProvider key = SigningKeyDefaultProvider"
  by (auto simp: signingKeyProvider_def)

lemma list_keys:
  assumes "ListLocalSigningKeysForUpdate s tenant = Inr keys" and "keyring_ok s"
  shows "set keys = {(ssk_Key v)\<lparr>sk_Status := TrimSpace (sk_Status (ssk_Key v))\<rparr> | i v.
      tbl_get (is_keys s) i = Some v \<and> local_key tenant (ssk_Key v)}" (is "_ = ?K")
    and "distinct (map sk_ID keys)"
proof -
  define own where "own = filter (\<lambda>(i, v). local_key tenant (ssk_Key v)) (rows (is_keys s))"
  define views where "views = map (\<lambda>(i, v). memorySigningAdminKey (ssk_Key v)) own"
  have keys: "keys = sort_key sk_ID (map (\<lambda>r. fst (projr r)) views)" and good: "\<not> list_ex isl views"
    using assms(1)
    by (auto simp: ListLocalSigningKeysForUpdate_def Let_def local_provider views_def own_def local_key_def split: if_splits)
  have view: "fst (projr (memorySigningAdminKey (ssk_Key v))) = (ssk_Key v)\<lparr>sk_Status := TrimSpace (sk_Status (ssk_Key v))\<rparr>"
    if "(i, v) \<in> set own" for i v
  proof -
    have "\<not> isl (memorySigningAdminKey (ssk_Key v))" using good that by (force simp: list_ex_iff views_def)
    then obtain k n where "memorySigningAdminKey (ssk_Key v) = Inr (k, n)"
      by (cases "memorySigningAdminKey (ssk_Key v)") auto
    then show ?thesis by (auto elim: memorySigningAdminKey_Inr)
  qed
  have names: "map (\<lambda>r. fst (projr r)) views = map (\<lambda>(i, v). (ssk_Key v)\<lparr>sk_Status := TrimSpace (sk_Status (ssk_Key v))\<rparr>) own"
    using view by (auto simp: views_def)
  have own: "(i, v) \<in> set own \<longleftrightarrow> tbl_get (is_keys s) i = Some v \<and> local_key tenant (ssk_Key v)" for i v
    by (auto simp: own_def set_rows)
  show "set keys = ?K" unfolding keys names using own by (auto simp: image_iff)
  have "map sk_ID (map (\<lambda>r. fst (projr r)) views) = map fst own"
    unfolding names using keys_coherentD [OF assms(2)] own by (auto simp: comp_def split_beta)
  moreover have "distinct (map fst own)"
    unfolding own_def rows_def using distinct_clearjunk by (rule distinct_map_filter)
  ultimately have "distinct (map sk_ID (map (\<lambda>r. fst (projr r)) views))" by simp
  then show "distinct (map sk_ID keys)" unfolding keys by (simp only: distinct_map_sort)
qed

lemma trim_constants [simp]:
  "TrimSpace SigningKeyDefaultProvider = SigningKeyDefaultProvider" "TrimSpace SigningKeyStatusActive = SigningKeyStatusActive"
  by code_simp+

lemma stored_key_update: "\<lparr>ssk_Key = k, ssk_Private = ssk_Private e\<rparr> = e\<lparr>ssk_Key := k\<rparr>" for e :: StoredSigningKey
  by (cases e) simp

text \<open>The loop retires the active keys and picks a version above all of them.\<close>

lemma rotation_loop_Inr:
  assumes "rotation_loop tenant now keys version acc = Inr (version', retiring)"
    and "\<And>k. k \<in> set keys \<Longrightarrow> local_key tenant k" and "1 \<le> version"
  shows "retiring = acc @ map (retire now) (filter (\<lambda>k. sk_Status k = SigningKeyStatusActive) keys) \<and>
    version \<le> version' \<and> (\<forall>k\<in>set keys. sk_Version k < version')"
  using assms
proof (induction tenant now keys version acc rule: rotation_loop.induct)
  case (2 tenant now key keys version acc)
  define v where "v = (if sk_Version key < 1 \<and> version < 2 then 2 else if sk_Version key \<ge> version then sk_Version key + 1 else version)"
  define p where "p = TrimSpace (sk_Provider key)"
  have key: "local_key tenant key" and v: "1 \<le> v" "version \<le> v" "sk_Version key < v" using 2(4-) by (auto simp: v_def)
  have "p = [] \<or> p = SigningKeyDefaultProvider"
    using key by (auto simp: p_def local_key_def signingKeyProvider_def split: if_splits)
  then have p: "(if p = [] then SigningKeyDefaultProvider else p) = SigningKeyDefaultProvider" by auto
  have t: "sk_TenantID key = tenant" using key by (simp add: local_key_def)
  have small: "\<not> sk_Version key \<ge> 2147483647"
    using 2(4) t p by (auto simp: Let_def p_def split: if_splits)
  let ?acc = "if sk_Status key = SigningKeyStatusActive then acc @ [retire now key] else acc"
  have step: "rotation_loop tenant now (key # keys) version acc = rotation_loop tenant now keys v ?acc"
    using t p small by (simp add: Let_def p_def [symmetric] v_def retire_def)
  have "retiring = ?acc @ map (retire now) (filter (\<lambda>k. sk_Status k = SigningKeyStatusActive) keys) \<and>
    v \<le> version' \<and> (\<forall>k\<in>set keys. sk_Version k < version')"
  proof (cases "sk_Status key = SigningKeyStatusActive")
    case True
    show ?thesis
      using 2(2) [OF _ refl refl _ small refl True] t p v 2(4,5) True step unfolding v_def p_def retire_def by auto
  next
    case False
    show ?thesis
      using 2(3) [OF _ refl refl _ small refl False] t p v 2(4,5) False step unfolding v_def p_def by auto
  qed
  then show ?case using v by auto
qed simp

text \<open>Updating keys with distinct identifiers replaces each of them, and requires each to have the expected status.\<close>

lemma update_all_get:
  assumes "update_all expected keys s = Inr s'" and "keyring_ok s" and "distinct (map sk_ID keys)"
  shows "tbl_get (is_keys s') i =
      (case find (\<lambda>k. sk_ID k = i) keys of Some k \<Rightarrow> map_option (\<lambda>v. v\<lparr>ssk_Key := k\<rparr>) (tbl_get (is_keys s) i)
       | None \<Rightarrow> tbl_get (is_keys s) i) \<and>
    (\<forall>k\<in>set keys. \<exists>v. tbl_get (is_keys s) (sk_ID k) = Some v \<and> sk_Status (ssk_Key v) = expected)"
  using assms
proof (induction keys arbitrary: s)
  case (Cons key keys)
  obtain s1 where s1: "UpdateSigningKey \<lparr>ssk_Key = key, ssk_Private = []\<rparr> expected s = Inr s1"
      "update_all expected keys s1 = Inr s'"
    using Cons.prems(1) by auto
  obtain e where e: "tbl_get (is_keys s) (sk_ID key) = Some e" "sk_Status (ssk_Key e) = expected"
      "is_keys s1 = tbl_put (is_keys s) (sk_ID key) (e\<lparr>ssk_Key := key\<rparr>)"
    by (rule UpdateSigningKey_Inr [OF s1(1) Cons.prems(2)]) (auto simp: stored_key_update)
  have fresh: "sk_ID key \<notin> sk_ID ` set keys" and dist: "distinct (map sk_ID keys)" using Cons.prems(3) by auto
  have none: "find (\<lambda>k. sk_ID k = sk_ID key) keys = None" using fresh by (auto simp: find_None_iff image_iff)
  note ih = Cons.IH [OF s1(2) UpdateSigningKey_ok [OF Cons.prems(2) s1(1)] dist]
  have "\<exists>v. tbl_get (is_keys s) (sk_ID k) = Some v \<and> sk_Status (ssk_Key v) = expected" if "k \<in> set keys" for k
  proof -
    have "sk_ID k \<noteq> sk_ID key" using that fresh by (metis imageI)
    then show ?thesis using bspec [OF conjunct2 [OF ih] that] by (simp add: e(3))
  qed
  then show ?case
    using ih e none by (auto simp: e(3) split: option.splits)
qed simp

lemma find_unique:
  "distinct (map f xs) \<Longrightarrow> x \<in> set xs \<Longrightarrow> P x \<Longrightarrow> find (\<lambda>y. f y = f x \<and> P y) xs = Some x"
  by (induction xs) (auto simp: rev_image_eqI)

lemma find_retired:
  assumes "distinct (map sk_ID keys)"
  shows "find (\<lambda>k. sk_ID k = i) (map (retire now) (filter P keys)) =
    map_option (retire now) (find (\<lambda>k. sk_ID k = i \<and> P k) keys)"
  using assms by (induction keys) auto

text \<open>The keys of the store after a rotation.\<close>

lemma rotation_keys:
  assumes "RotateSigningKey c actor reason s = Inr (k, s')" and ok: "keyring_ok s"
  defines "t \<equiv> actor_TenantID actor"
  obtains material where
    "\<And>i. tbl_get (is_keys s') i = (if i = sk_ID k then Some \<lparr>ssk_Key = k, ssk_Private = material\<rparr>
       else map_option (\<lambda>v. if local_active t v then v\<lparr>ssk_Key := retire (kc_now c) (ssk_Key v)\<rparr> else v) (tbl_get (is_keys s) i))"
    "tbl_get (is_keys s) (sk_ID k) = None" "sk_TenantID k = t" "signingKeyProvider k = SigningKeyDefaultProvider"
    "sk_Status k = SigningKeyStatusActive"
    "\<And>i v. tbl_get (is_keys s) i = Some v \<Longrightarrow> local_key t (ssk_Key v) \<Longrightarrow> sk_Version (ssk_Key v) < sk_Version k"
  using assms(1)
proof (rule RotateSigningKey_Inr)
  fix keys version retiring prepared s1 s2
  assume list: "ListLocalSigningKeysForUpdate s (actor_TenantID actor) = Inr keys"
    and loop: "rotation_loop (actor_TenantID actor) (kc_now c) keys 1 [] = Inr (version, retiring)"
    and new: "validPreparedSigningKey prepared (actor_TenantID actor) SigningKeyDefaultProvider version (kc_now c)"
    and upd: "update_all SigningKeyStatusActive retiring s = Inr s1" and ins: "InsertSigningKey prepared s1 = Inr s2"
    and s': "is_keys s' = is_keys s2" "k = ssk_Key prepared"
  note keys = list_keys [OF list ok, folded t_def]
  have local: "local_key t key" if "key \<in> set keys" for key
    using that unfolding keys(1) by (auto simp: local_key_def signingKeyProvider_def)
  have ret: "retiring = map (retire (kc_now c)) (filter (\<lambda>k. sk_Status k = SigningKeyStatusActive) keys)"
    and vers: "\<forall>key\<in>set keys. sk_Version key < version"
    using rotation_loop_Inr [OF loop [folded t_def] local] by auto
  have dist: "distinct (map sk_ID retiring)"
    using keys(2) by (simp add: ret comp_def distinct_map_filter)
  note all = update_all_get [OF upd ok dist]
  have mid: "tbl_get (is_keys s1) i =
      map_option (\<lambda>v. if local_active t v then v\<lparr>ssk_Key := retire (kc_now c) (ssk_Key v)\<rparr> else v) (tbl_get (is_keys s) i)" for i
  proof (cases "tbl_get (is_keys s) i")
    case None
    then show ?thesis using all [of i] by (auto split: option.splits)
  next
    case (Some v)
    let ?find = "find (\<lambda>k. sk_ID k = i \<and> sk_Status k = SigningKeyStatusActive) keys"
    have find: "?find = (if local_active t v then Some (ssk_Key v) else None)"
    proof (cases "local_active t v")
      case True
      then have "ssk_Key v \<in> set keys" unfolding keys(1) using Some
        by (force simp: local_active_def local_key_def)
      moreover have "sk_ID (ssk_Key v) = i" using ok Some by (rule keys_coherentD)
      ultimately show ?thesis using find_unique [OF keys(2), of "ssk_Key v"] True by (simp add: local_active_def)
    next
      case False
      have "\<not> (sk_ID key = i \<and> sk_Status key = SigningKeyStatusActive)" if key: "key \<in> set keys" for key
      proof
        assume a: "sk_ID key = i \<and> sk_Status key = SigningKeyStatusActive"
        obtain j w where w: "tbl_get (is_keys s) j = Some w" "local_key t (ssk_Key w)" "sk_ID key = sk_ID (ssk_Key w)"
          using key unfolding keys(1) by auto
        then have "w = v" using a Some keys_coherentD [OF ok w(1)] by simp
        moreover have "sk_Status (ssk_Key v) = SigningKeyStatusActive"
          using all key a Some by (force simp: ret)
        ultimately show False using False w(2) by (simp add: local_active_def local_key_def)
      qed
      then show ?thesis using False by (simp add: find_None_iff)
    qed
    then show ?thesis using all [of i] Some by (auto simp: ret find_retired [OF keys(2)])
  qed
  have put: "is_keys s' = tbl_put (is_keys s1) (sk_ID k) prepared" and free: "tbl_get (is_keys s1) (sk_ID k) = None"
    by (rule InsertSigningKey_Inr [OF ins], simp add: s')+
  show thesis
  proof (rule that [of "ssk_Private prepared"])
    show "tbl_get (is_keys s') i = (if i = sk_ID k then Some \<lparr>ssk_Key = k, ssk_Private = ssk_Private prepared\<rparr>
       else map_option (\<lambda>v. if local_active t v then v\<lparr>ssk_Key := retire (kc_now c) (ssk_Key v)\<rparr> else v) (tbl_get (is_keys s) i))" for i
      by (simp add: put mid s'(2))
    show "tbl_get (is_keys s) (sk_ID k) = None" using free by (simp add: mid)
    show "sk_TenantID k = t" "signingKeyProvider k = SigningKeyDefaultProvider" "sk_Status k = SigningKeyStatusActive"
      using new s'(2) by (auto simp: validPreparedSigningKey_def Let_def t_def signingKeyProvider_def)
    show "sk_Version (ssk_Key v) < sk_Version k" if "tbl_get (is_keys s) i = Some v" "local_key t (ssk_Key v)" for i v
    proof -
      have "(ssk_Key v)\<lparr>sk_Status := TrimSpace (sk_Status (ssk_Key v))\<rparr> \<in> set keys"
        unfolding keys(1) using that by blast
      from bspec [OF vers this] have "sk_Version (ssk_Key v) < version" by simp
      then show ?thesis using new s'(2) by (simp add: validPreparedSigningKey_def Let_def)
    qed
  qed
qed

text \<open>Ending the window of a key at the present keeps what it signed so far, and nothing later.\<close>

abbreviation valid_at :: "SigningKey \<Rightarrow> time \<Rightarrow> time \<Rightarrow> bool" where
  "valid_at key signedAt now \<equiv> HistoricalValidityAt key signedAt now = SigningKeyHistoricalValidityValid"

lemma validity_results [simp]:
  "SigningKeyHistoricalValidityOutsideWindow \<noteq> SigningKeyHistoricalValidityValid"
  "SigningKeyHistoricalValidityCompromised \<noteq> SigningKeyHistoricalValidityValid"
  by (simp_all add: signing_key_constants)

lemma valid_at_iff:
  "valid_at key signedAt now \<longleftrightarrow> signedAt \<noteq> 0 \<and> now \<noteq> 0 \<and> signedAt \<le> now \<and>
     (let from = (if sk_ValidFrom key = 0 then sk_CreatedAt key else sk_ValidFrom key) in from \<noteq> 0 \<and> from \<le> signedAt) \<and>
     (case (if sk_ValidUntil key = None \<and> sk_Status key = SigningKeyStatusRevoked \<and>
            sk_RevocationSemantics key \<noteq> SigningKeyRevocationCompromised then sk_RevokedAt key else sk_ValidUntil key) of
        None \<Rightarrow> True | Some u \<Rightarrow> signedAt \<le> u) \<and>
     \<not> (sk_RevocationSemantics key = SigningKeyRevocationCompromised \<and>
        (sk_HistoricalValidityPolicy key = SigningKeyHistoricalValidityInvalidateAll \<or>
         sk_HistoricalValidityPolicy key = SigningKeyHistoricalValidityInvalidateFromCompromise \<and>
         (case (if sk_CompromisedAt key = None then sk_RevokedAt key else sk_CompromisedAt key) of
            None \<Rightarrow> False | Some c \<Rightarrow> c \<le> signedAt)))"
  by (simp add: HistoricalValidityAt_def Let_def not_less split: option.splits)

lemma retire_valid_at:
  "valid_at key signedAt now \<Longrightarrow> signedAt \<le> u \<Longrightarrow> valid_at (retire u key) signedAt now"
  "valid_at (retire u key) signedAt now \<Longrightarrow> signedAt \<le> u"
  by (auto simp: valid_at_iff retire_def Let_def split: if_splits)

text \<open>
  C24: A rotation leaves exactly one active local key, the new one, whose identifier was free and
  whose version exceeds those of all local keys of the tenant. Every stored key keeps its public
  key, its private material and the validity of all it signed up to the rotation; what the
  retired keys sign later is not valid.
\<close>

theorem rotation_preserves_history:
  assumes "RotateSigningKey c actor reason s = Inr (k, s')" and "key_step\<^sup>*\<^sup>* (empty_integrity tenants) s"
  shows "tbl_get (is_keys s) (sk_ID k) = None \<and>
    (\<exists>w. tbl_get (is_keys s') (sk_ID k) = Some w \<and> ssk_Key w = k \<and> local_active (actor_TenantID actor) w) \<and>
    (\<forall>i w. tbl_get (is_keys s') i = Some w \<longrightarrow> local_active (actor_TenantID actor) w \<longrightarrow> i = sk_ID k) \<and>
    (\<forall>i v. tbl_get (is_keys s) i = Some v \<longrightarrow> (\<exists>w. tbl_get (is_keys s') i = Some w \<and>
       sk_PublicKey (ssk_Key w) = sk_PublicKey (ssk_Key v) \<and> ssk_Private w = ssk_Private v \<and>
       (local_key (actor_TenantID actor) (ssk_Key v) \<longrightarrow> sk_Version (ssk_Key v) < sk_Version k) \<and>
       (\<forall>signedAt now. signedAt \<le> kc_now c \<longrightarrow> valid_at (ssk_Key v) signedAt now \<longrightarrow> valid_at (ssk_Key w) signedAt now) \<and>
       (local_active (actor_TenantID actor) v \<longrightarrow> (\<forall>signedAt now. kc_now c < signedAt \<longrightarrow> \<not> valid_at (ssk_Key w) signedAt now))))"
  using assms(1) reachable_keyring_ok [OF assms(2)]
proof (rule rotation_keys)
  fix material
  let ?t = "actor_TenantID actor"
  assume get: "\<And>i. tbl_get (is_keys s') i = (if i = sk_ID k then Some \<lparr>ssk_Key = k, ssk_Private = material\<rparr>
       else map_option (\<lambda>v. if local_active ?t v then v\<lparr>ssk_Key := retire (kc_now c) (ssk_Key v)\<rparr> else v) (tbl_get (is_keys s) i))"
    and k: "tbl_get (is_keys s) (sk_ID k) = None" "sk_TenantID k = ?t" "signingKeyProvider k = SigningKeyDefaultProvider"
      "sk_Status k = SigningKeyStatusActive"
    and vers: "\<And>i v. tbl_get (is_keys s) i = Some v \<Longrightarrow> local_key ?t (ssk_Key v) \<Longrightarrow> sk_Version (ssk_Key v) < sk_Version k"
  have new: "\<exists>w. tbl_get (is_keys s') (sk_ID k) = Some w \<and> ssk_Key w = k \<and> local_active ?t w"
    using k by (simp add: get local_active_def)
  have sole: "i = sk_ID k" if w: "tbl_get (is_keys s') i = Some w" "local_active ?t w" for i w
  proof (rule ccontr)
    assume "i \<noteq> sk_ID k"
    then obtain v where "w = (if local_active ?t v then v\<lparr>ssk_Key := retire (kc_now c) (ssk_Key v)\<rparr> else v)"
      using w(1) by (auto simp: get)
    then show False using w(2) by (simp add: local_active_def signing_key_constants split: if_splits)
  qed
  have old: "\<exists>w. tbl_get (is_keys s') i = Some w \<and>
       sk_PublicKey (ssk_Key w) = sk_PublicKey (ssk_Key v) \<and> ssk_Private w = ssk_Private v \<and>
       (local_key ?t (ssk_Key v) \<longrightarrow> sk_Version (ssk_Key v) < sk_Version k) \<and>
       (\<forall>signedAt now. signedAt \<le> kc_now c \<longrightarrow> valid_at (ssk_Key v) signedAt now \<longrightarrow> valid_at (ssk_Key w) signedAt now) \<and>
       (local_active ?t v \<longrightarrow> (\<forall>signedAt now. kc_now c < signedAt \<longrightarrow> \<not> valid_at (ssk_Key w) signedAt now))"
    if v: "tbl_get (is_keys s) i = Some v" for i v
  proof -
    have "i \<noteq> sk_ID k" using v k(1) by auto
    then have w: "tbl_get (is_keys s') i = Some (if local_active ?t v then v\<lparr>ssk_Key := retire (kc_now c) (ssk_Key v)\<rparr> else v)"
      by (simp add: get v)
    show ?thesis
      unfolding w using vers [OF v] retire_valid_at [where u = "kc_now c" and key = "ssk_Key v"]
      by (cases "local_active ?t v") (auto simp: retire_def not_le [symmetric])
  qed
  show ?thesis using k(1) new sole old by blast
qed

section \<open>Revocation\<close>

lemma revoked_valid_at:
  assumes "valid_at (revoked_key inp u key) signedAt now"
  shows "signedAt \<le> u \<and>
    (ski_Semantics inp = SigningKeyRevocationCompromised \<longrightarrow>
       ski_HistoricalValidityPolicy inp \<noteq> SigningKeyHistoricalValidityInvalidateAll \<and>
       (ski_HistoricalValidityPolicy inp = SigningKeyHistoricalValidityInvalidateFromCompromise \<longrightarrow> signedAt < u))"
  using assms by (auto simp: valid_at_iff revoked_key_def Let_def split: if_splits)

lemma revoked_keeps_valid:
  assumes "valid_at key signedAt now" and "signedAt \<le> u"
    and "ski_Semantics inp = SigningKeyRevocationCompromised \<Longrightarrow>
      ski_HistoricalValidityPolicy inp \<noteq> SigningKeyHistoricalValidityInvalidateAll \<and>
      (ski_HistoricalValidityPolicy inp = SigningKeyHistoricalValidityInvalidateFromCompromise \<longrightarrow> signedAt < u)"
  shows "valid_at (revoked_key inp u key) signedAt now"
  using assms by (auto simp: valid_at_iff revoked_key_def Let_def)

lemma GetSigningKeyForUpdate_Inr:
  assumes "GetSigningKeyForUpdate s tenant i = Inr key"
  obtains v where "tbl_get (is_keys s) (TrimSpace i) = Some v" "key = (ssk_Key v)\<lparr>sk_Status := TrimSpace (sk_Status (ssk_Key v))\<rparr>"
  using assms by (auto simp: GetSigningKeyForUpdate_def NormalizeSigningKeyID_def elim!: memorySigningAdminKey_Inr
      split: if_splits option.splits)

lemma revocation_keys:
  assumes "RevokeSigningKey c actor keyID input s = Inr (k, s')" and ok: "keyring_ok s"
    and "NormalizeSigningKeyRevocationInput input = Inr inp"
  obtains v where "tbl_get (is_keys s) (TrimSpace keyID) = Some v" "k = revoked_key inp (kc_now c) (ssk_Key v)"
    "sk_ID k = TrimSpace keyID" "sk_Status (ssk_Key v) \<noteq> SigningKeyStatusRevoked"
    "\<And>i. tbl_get (is_keys s') i = (if i = TrimSpace keyID then Some (v\<lparr>ssk_Key := k\<rparr>) else tbl_get (is_keys s) i)"
  using assms(1)
proof (rule RevokeSigningKey_Inr)
  fix i inp' key s1
  assume 1: "NormalizeSigningKeyID keyID = Inr i" "NormalizeSigningKeyRevocationInput input = Inr inp'"
    "GetSigningKeyForUpdate s (actor_TenantID actor) i = Inr key" "sk_ID key = i" "k = revoked_key inp' (kc_now c) key"
    and upd: "UpdateSigningKey \<lparr>ssk_Key = k, ssk_Private = []\<rparr> (sk_Status key) s = Inr s1" and s': "is_keys s' = is_keys s1"
    and live: "sk_Status key \<noteq> SigningKeyStatusRevoked"
  have i: "i = TrimSpace keyID" and inp: "inp' = inp" using 1(1,2) assms(3) by (auto simp: NormalizeSigningKeyID_def split: if_splits)
  obtain v where v: "tbl_get (is_keys s) i = Some v" "key = (ssk_Key v)\<lparr>sk_Status := TrimSpace (sk_Status (ssk_Key v))\<rparr>"
    using 1(3) by (rule GetSigningKeyForUpdate_Inr) (simp add: i)
  have k: "sk_ID k = i" using 1(4,5) by (simp add: revoked_key_def)
  show thesis using upd ok
  proof (rule UpdateSigningKey_Inr)
    fix e
    assume e: "tbl_get (is_keys s) (sk_ID (ssk_Key \<lparr>ssk_Key = k, ssk_Private = []\<rparr>)) = Some e" "sk_Status (ssk_Key e) = sk_Status key"
      "s1 = s\<lparr>is_keys := tbl_put (is_keys s) (sk_ID (ssk_Key \<lparr>ssk_Key = k, ssk_Private = []\<rparr>))
         (if ssk_Private \<lparr>ssk_Key = k, ssk_Private = []\<rparr> = [] then \<lparr>ssk_Key = k, ssk_Private = []\<rparr>\<lparr>ssk_Private := ssk_Private e\<rparr>
          else \<lparr>ssk_Key = k, ssk_Private = []\<rparr>)\<rparr>"
    have "e = v" using e(1) v(1) k by simp
    moreover have "key = ssk_Key v" using e(2) v(2) \<open>e = v\<close> by simp
    ultimately show thesis
      using v(1) e(3) k i inp 1(5) s' live by (intro that [of v]) (simp_all add: stored_key_update)
  qed
qed

text \<open>What the commands and the insertions do to the row of a key that is already revoked: nothing.\<close>

inductive command_step :: "integrity_store \<Rightarrow> integrity_store \<Rightarrow> bool" where
  command_insert: "InsertSigningKey v s = Inr s' \<Longrightarrow> command_step s s'"
| command_sign: "InsertSignature v s = Inr s' \<Longrightarrow> command_step s s'"
| command_rotate: "RotateSigningKey c actor reason s = Inr (k, s') \<Longrightarrow> command_step s s'"
| command_revoke: "RevokeSigningKey c actor i input s = Inr (k, s') \<Longrightarrow> command_step s s'"

lemma command_key_step: "command_step s s' \<Longrightarrow> key_step s s'"
  by (induction rule: command_step.induct) (auto intro: key_step.intros)

lemma revoked_row_kept:
  assumes "command_step s s'" and ok: "keyring_ok s" and v: "tbl_get (is_keys s) i = Some v"
    and rev: "sk_Status (ssk_Key v) = SigningKeyStatusRevoked"
  shows "tbl_get (is_keys s') i = Some v"
  using assms
proof (induction rule: command_step.induct)
  case (command_insert w s s')
  then show ?case by (auto elim!: InsertSigningKey_Inr)
next
  case (command_sign w s s')
  then show ?case by (auto simp: InsertSignature_def split: if_splits option.splits)
next
  case (command_rotate c actor reason s k s')
  show ?case
    by (rule rotation_keys [OF command_rotate.hyps command_rotate.prems(1)])
      (use command_rotate.prems in \<open>auto simp: local_active_def signing_key_constants\<close>)
next
  case (command_revoke c actor j input s k s')
  obtain inp where inp: "NormalizeSigningKeyRevocationInput input = Inr inp"
    using command_revoke.hyps by (auto elim: RevokeSigningKey_Inr)
  show ?case
    by (rule revocation_keys [OF command_revoke.hyps command_revoke.prems(1) inp]) (use command_revoke.prems in auto)
qed

lemma revoked_row_kept_always:
  "command_step\<^sup>*\<^sup>* s s' \<Longrightarrow> keyring_ok s \<Longrightarrow> tbl_get (is_keys s) i = Some v \<Longrightarrow>
     sk_Status (ssk_Key v) = SigningKeyStatusRevoked \<Longrightarrow> keyring_ok s' \<and> tbl_get (is_keys s') i = Some v"
  by (induction rule: rtranclp_induct) (auto intro: revoked_row_kept key_step_ok command_key_step)

text \<open>
  C25: A revocation changes only the row of its key and lasts: no later rotation, revocation or
  insertion changes the row again. Nothing signed after it is valid. A compromised key loses all
  it signed, or what it signed from the compromise on, as its policy says; otherwise what was
  valid before and signed until the revocation stays valid.
\<close>

theorem revocation_final:
  assumes "RevokeSigningKey c actor keyID input s = Inr (k, s')" and "key_step\<^sup>*\<^sup>* (empty_integrity tenants) s"
    and "NormalizeSigningKeyRevocationInput input = Inr inp" and "command_step\<^sup>*\<^sup>* s' s''"
  shows "\<exists>v. tbl_get (is_keys s) (sk_ID k) = Some v \<and> tbl_get (is_keys s'') (sk_ID k) = Some (v\<lparr>ssk_Key := k\<rparr>) \<and>
    (\<forall>i. i \<noteq> sk_ID k \<longrightarrow> tbl_get (is_keys s') i = tbl_get (is_keys s) i) \<and>
    (\<forall>signedAt now. valid_at k signedAt now \<longrightarrow> signedAt \<le> kc_now c \<and>
       (ski_Semantics inp = SigningKeyRevocationCompromised \<longrightarrow>
          ski_HistoricalValidityPolicy inp \<noteq> SigningKeyHistoricalValidityInvalidateAll \<and>
          (ski_HistoricalValidityPolicy inp = SigningKeyHistoricalValidityInvalidateFromCompromise \<longrightarrow> signedAt < kc_now c))) \<and>
    (\<forall>signedAt now. valid_at (ssk_Key v) signedAt now \<longrightarrow> signedAt \<le> kc_now c \<longrightarrow>
       ski_Semantics inp \<noteq> SigningKeyRevocationCompromised \<or>
       ski_HistoricalValidityPolicy inp = SigningKeyHistoricalValidityPreserve \<longrightarrow> valid_at k signedAt now)"
proof (rule revocation_keys [OF assms(1) reachable_keyring_ok [OF assms(2)] assms(3)])
  fix v
  assume v: "tbl_get (is_keys s) (TrimSpace keyID) = Some v" "k = revoked_key inp (kc_now c) (ssk_Key v)" "sk_ID k = TrimSpace keyID"
    "\<And>i. tbl_get (is_keys s') i = (if i = TrimSpace keyID then Some (v\<lparr>ssk_Key := k\<rparr>) else tbl_get (is_keys s) i)"
  have ok: "keyring_ok s'" using reachable_keyring_ok [OF assms(2)] assms(1) by (rule RevokeSigningKey_ok)
  have row: "tbl_get (is_keys s') (sk_ID k) = Some (v\<lparr>ssk_Key := k\<rparr>)" using v(3,4) by simp
  have "tbl_get (is_keys s'') (sk_ID k) = Some (v\<lparr>ssk_Key := k\<rparr>)"
    using revoked_row_kept_always [OF assms(4) ok row] v(2) by (simp add: revoked_key_def)
  moreover have "\<forall>i. i \<noteq> sk_ID k \<longrightarrow> tbl_get (is_keys s') i = tbl_get (is_keys s) i" using v(3,4) by simp
  moreover have "valid_at k signedAt now" if "valid_at (ssk_Key v) signedAt now" "signedAt \<le> kc_now c"
      "ski_Semantics inp \<noteq> SigningKeyRevocationCompromised \<or> ski_HistoricalValidityPolicy inp = SigningKeyHistoricalValidityPreserve"
      for signedAt now
    unfolding v(2) using that(1,2) by (rule revoked_keeps_valid) (use that(3) in \<open>auto simp: signing_key_constants\<close>)
  ultimately show ?thesis using v(1,3) revoked_valid_at [of inp "kc_now c" "ssk_Key v"] unfolding v(2)
    by (intro exI [of _ v]) auto
qed

text \<open>
  Revoking a key that was retired moves the end of its window to the time of the revocation: a
  signature made after the key was retired, not valid before, is valid once the key is revoked.
\<close>

lemma revocation_widens_window:
  fixes key :: SigningKey
  assumes "sk_ValidFrom key = 1" and "sk_ValidUntil key = Some 10" and "sk_RevocationSemantics key = []"
    and "ski_Semantics inp = SigningKeyRevocationOrdinary"
  shows "\<not> valid_at key 15 30 \<and> valid_at (revoked_key inp 20 key) 15 30"
  using assms by (simp add: valid_at_iff revoked_key_def) (simp add: signing_key_constants)

section \<open>Examples\<close>

definition sample_key :: "string \<Rightarrow> int \<Rightarrow> StoredSigningKey" where
  "sample_key i version =
    \<lparr>ssk_Key = \<lparr>sk_ID = i, sk_TenantID = ''t1'', sk_KID = i, sk_Version = version, sk_Provider = SigningKeyDefaultProvider,
       sk_Algorithm = ''ed25519'', sk_Status = SigningKeyStatusActive, sk_PublicKey = ''p'', sk_PublicKeyFingerprint = ''f'',
       sk_ValidFrom = 1, sk_ValidUntil = None, sk_CreatedAt = 1, sk_RevokedAt = None, sk_RevocationReason = [],
       sk_RevocationSemantics = [], sk_HistoricalValidityPolicy = [], sk_CompromisedAt = None\<rparr>, ssk_Private = ''x''\<rparr>"

definition sample_ring :: integrity_store where
  "sample_ring = (empty_integrity [''t1''])\<lparr>is_keys := [(''k1'', sample_key ''k1'' 1)]\<rparr>"

definition key_admin :: Actor where
  "key_admin = \<lparr>actor_TenantID = ''t1'', actor_KeyID = ''key'', actor_UserID = [], actor_SessionID = [], actor_Name = [],
     actor_Scopes = [], actor_CollectorID = [], actor_ResourceGrants = []\<rparr>"

definition sample_command :: key_command where
  "sample_command = \<lparr>kc_ctx = None, kc_authorize = None, kc_txAuthorize = None, kc_now = 20, kc_auditID = ''a1'',
     kc_generate = (\<lambda>v. Inr (sample_key ''k2'' v)), kc_hasher = (\<lambda>_. Inr ''c'')\<rparr>"

definition sample_revocation :: SigningKeyRevocationInput where
  "sample_revocation = \<lparr>ski_Reason = ''lost'', ski_Semantics = ''compromised'', ski_HistoricalValidityPolicy = ''invalidate_all''\<rparr>"

lemma sample_ring_reachable: "key_step\<^sup>*\<^sup>* (empty_integrity [''t1'']) sample_ring"
proof -
  have "InsertSigningKey (sample_key ''k1'' 1) (empty_integrity [''t1'']) = Inr sample_ring" by code_simp
  then show ?thesis by (auto intro: key_step.insert_key)
qed

lemma sample_audit:
  assumes "is_audit s = is_audit sample_ring" and "kind \<noteq> []" and "i \<noteq> []"
  shows "\<exists>a. appendAuditEvent (kc_hasher sample_command) (key_event sample_command key_admin kind i) s = Inr (s\<lparr>is_audit := a\<rparr>)"
proof -
  have year: "year_of 20 = 1" by code_simp
  have actor: "auditActorType key_admin = ''api_key''" "auditActorID key_admin = ''key''" "actor_TenantID key_admin = ''t1''"
    by code_simp+
  have "\<exists>r. appendAudit (kc_hasher sample_command) (event_entry (key_event sample_command key_admin kind i)) (is_audit s) = Inr r"
    using assms by (simp add: appendAudit_def event_entry_def key_event_def sample_command_def actor
        sample_ring_def empty_integrity_def require_audit_tenant_def RehashAuditChainEntry_def Let_def chain_of_def
        CanonicalAuditChainEntryHash_def canonical_fields_def cloneMemoryAuditEntry_def year AuditChainEntrySchemaVersion_def
        AuditChainEntryLegacySchemaVersion_def)
  then show ?thesis by (auto simp: appendAuditEvent_def)
qed

lemma sample_command_simps:
  "kc_ctx sample_command = None" "kc_authorize sample_command = None" "kc_txAuthorize sample_command = None"
  "kc_now sample_command = 20" "kc_generate sample_command v = Inr (sample_key ''k2'' v)"
  by (simp_all add: sample_command_def)

lemma sample_checks:
  "validateSigningKeyActor key_admin = None" "NormalizeSigningKeyReason ''new'' = Inr ''new''"
  "NormalizeSigningKeyID ''k1'' = Inr ''k1''" "NormalizeSigningKeyRevocationInput sample_revocation = Inr sample_revocation"
  by (simp_all add: validateSigningKeyActor_def validateActor_def auditActorID_def key_admin_def validSigningKeyText_def
      NormalizeSigningKeyReason_def NormalizeSigningKeyID_def NormalizeSigningKeyRevocationInput_def sample_revocation_def
      edge_safe_def graphic_def byte_def contains_nul_def signing_key_constants)

lemma sample_view:
  "memorySigningAdminKey (ssk_Key (sample_key ''k1'' 1)) = Inr (ssk_Key (sample_key ''k1'' 1), 34)"
  by (simp add: memorySigningAdminKey_def ParseSigningKeyStatus_def sample_key_def admin_fields_def memoryGovernanceText_def
      edge_safe_def graphic_def byte_def contains_nul_def signing_key_constants)

lemma sample_reads:
  "ListLocalSigningKeysForUpdate sample_ring ''t1'' = Inr [ssk_Key (sample_key ''k1'' 1)]"
  "GetSigningKeyForUpdate sample_ring ''t1'' ''k1'' = Inr (ssk_Key (sample_key ''k1'' 1))"
proof -
  have t: "memoryMembershipQueryText ''t1'' 1024" "require_tenant sample_ring ''t1'' = None"
    by (simp_all add: memoryMembershipQueryText_def memoryMembershipText_def edge_safe_def graphic_def byte_def contains_nul_def
        require_tenant_def require_audit_tenant_def sample_ring_def empty_integrity_def)
  have k: "sk_ID (ssk_Key (sample_key ''k1'' 1)) = ''k1''" "sk_TenantID (ssk_Key (sample_key ''k1'' 1)) = ''t1''"
    "sk_Provider (ssk_Key (sample_key ''k1'' 1)) = SigningKeyDefaultProvider" by (simp_all add: sample_key_def)
  have r: "rows (is_keys sample_ring) = [(''k1'', sample_key ''k1'' 1)]" "tbl_get (is_keys sample_ring) ''k1'' = Some (sample_key ''k1'' 1)"
    by (simp_all add: sample_ring_def rows_def tbl_get_def)
  show "ListLocalSigningKeysForUpdate sample_ring ''t1'' = Inr [ssk_Key (sample_key ''k1'' 1)]"
    by (simp add: ListLocalSigningKeysForUpdate_def t r k sample_view MaxSigningRotationKeys_def)
  show "GetSigningKeyForUpdate sample_ring ''t1'' ''k1'' = Inr (ssk_Key (sample_key ''k1'' 1))"
    by (simp add: GetSigningKeyForUpdate_def sample_checks t r k sample_view)
qed

lemma sample_rotates: "\<exists>s'. RotateSigningKey sample_command key_admin ''new'' sample_ring = Inr (ssk_Key (sample_key ''k2'' 2), s')"
proof -
  define s2 where "s2 = (case update_all SigningKeyStatusActive [retire 20 (ssk_Key (sample_key ''k1'' 1))] sample_ring of Inr s \<Rightarrow> s)"
  define s3 where "s3 = (case InsertSigningKey (sample_key ''k2'' 2) s2 of Inr s \<Rightarrow> s)"
  note sample_checks sample_reads(1)
  moreover have "rotation_loop ''t1'' 20 [ssk_Key (sample_key ''k1'' 1)] 1 [] = Inr (2, [retire 20 (ssk_Key (sample_key ''k1'' 1))])"
    "validPreparedSigningKey (sample_key ''k2'' 2) ''t1'' SigningKeyDefaultProvider 2 20"
    "update_all SigningKeyStatusActive [retire 20 (ssk_Key (sample_key ''k1'' 1))] sample_ring = Inr s2"
    "InsertSigningKey (sample_key ''k2'' 2) s2 = Inr s3" "is_audit s3 = is_audit sample_ring"
    unfolding s3_def s2_def by code_simp+
  moreover have "sk_ID (ssk_Key (sample_key ''k2'' 2)) = ''k2''" "actor_TenantID key_admin = ''t1''"
    by (simp_all add: sample_key_def key_admin_def)
  moreover obtain a where "appendAuditEvent (kc_hasher sample_command) (key_event sample_command key_admin ''signing_key.rotated'' ''k2'') s3 =
      Inr (s3\<lparr>is_audit := a\<rparr>)"
    using sample_audit [OF \<open>is_audit s3 = is_audit sample_ring\<close>, of "''signing_key.rotated''" "''k2''"] by auto
  ultimately show ?thesis
    by (simp add: RotateSigningKey_def MaxSigningRotationKeys_def sample_command_simps del: rotation_loop.simps update_all.simps)
qed

lemma sample_revokes:
  "\<exists>s'. RevokeSigningKey sample_command key_admin ''k1'' sample_revocation sample_ring =
     Inr (revoked_key sample_revocation 20 (ssk_Key (sample_key ''k1'' 1)), s')"
proof -
  let ?k = "revoked_key sample_revocation 20 (ssk_Key (sample_key ''k1'' 1))"
  define s2 where "s2 = (case UpdateSigningKey \<lparr>ssk_Key = ?k, ssk_Private = []\<rparr> SigningKeyStatusActive sample_ring of Inr s \<Rightarrow> s)"
  note sample_checks sample_reads(2)
  moreover have "UpdateSigningKey \<lparr>ssk_Key = ?k, ssk_Private = []\<rparr> SigningKeyStatusActive sample_ring = Inr s2"
    "is_audit s2 = is_audit sample_ring" "ski_Semantics sample_revocation = SigningKeyRevocationCompromised"
    unfolding s2_def by code_simp+
  moreover have "sk_ID (ssk_Key (sample_key ''k1'' 1)) = ''k1''" "sk_TenantID (ssk_Key (sample_key ''k1'' 1)) = ''t1''"
    "sk_Status (ssk_Key (sample_key ''k1'' 1)) = SigningKeyStatusActive" "actor_TenantID key_admin = ''t1''"
    "SigningKeyStatusActive \<noteq> SigningKeyStatusRevoked"
    by (simp_all add: sample_key_def key_admin_def) (simp add: signing_key_constants)
  moreover obtain a where "appendAuditEvent (kc_hasher sample_command) (key_event sample_command key_admin ''signing_key.compromised'' ''k1'') s2 =
      Inr (s2\<lparr>is_audit := a\<rparr>)"
    using sample_audit [OF \<open>is_audit s2 = is_audit sample_ring\<close>, of "''signing_key.compromised''" "''k1''"] by auto
  ultimately show ?thesis by (simp add: RevokeSigningKey_def sample_command_simps)
qed

theorem one_active_signing_key_witness:
  "tbl_get (is_keys sample_ring) ''k1'' = Some (sample_key ''k1'' 1) \<and> ''k1'' = ''k1''"
  using one_active_signing_key [OF sample_ring_reachable, of "''k1''" "sample_key ''k1'' 1" "''k1''" "sample_key ''k1'' 1"]
  by (simp add: sample_ring_def sample_key_def tbl_get_def)

theorem rotation_preserves_history_witness:
  "\<exists>s'. RotateSigningKey sample_command key_admin ''new'' sample_ring = Inr (ssk_Key (sample_key ''k2'' 2), s') \<and>
     (\<exists>w. tbl_get (is_keys s') ''k1'' = Some w \<and> valid_at (ssk_Key w) 15 30 \<and> \<not> valid_at (ssk_Key w) 25 30)"
proof -
  obtain s' where s': "RotateSigningKey sample_command key_admin ''new'' sample_ring = Inr (ssk_Key (sample_key ''k2'' 2), s')"
    using sample_rotates by blast
  have k: "tbl_get (is_keys sample_ring) ''k1'' = Some (sample_key ''k1'' 1)" "valid_at (ssk_Key (sample_key ''k1'' 1)) 15 30"
    "local_active (actor_TenantID key_admin) (sample_key ''k1'' 1)" "kc_now sample_command = 20"
    by code_simp+
  have "\<forall>i v. tbl_get (is_keys sample_ring) i = Some v \<longrightarrow> (\<exists>w. tbl_get (is_keys s') i = Some w \<and>
      (\<forall>signedAt now. signedAt \<le> 20 \<longrightarrow> valid_at (ssk_Key v) signedAt now \<longrightarrow> valid_at (ssk_Key w) signedAt now) \<and>
      (local_active (actor_TenantID key_admin) v \<longrightarrow> (\<forall>signedAt now. 20 < signedAt \<longrightarrow> \<not> valid_at (ssk_Key w) signedAt now)))"
    using rotation_preserves_history [OF s' sample_ring_reachable] unfolding k(4) by blast
  then obtain w where w: "tbl_get (is_keys s') ''k1'' = Some w"
      "\<forall>signedAt now. signedAt \<le> 20 \<longrightarrow> valid_at (ssk_Key (sample_key ''k1'' 1)) signedAt now \<longrightarrow> valid_at (ssk_Key w) signedAt now"
      "\<forall>signedAt now. 20 < signedAt \<longrightarrow> \<not> valid_at (ssk_Key w) signedAt now"
    using k(1,3) by blast
  have "valid_at (ssk_Key w) 15 30" "\<not> valid_at (ssk_Key w) 25 30" using w(2,3) k(2) by simp_all
  then show ?thesis using s' w(1) by blast
qed

theorem revocation_final_witness:
  "\<exists>s'. RevokeSigningKey sample_command key_admin ''k1'' sample_revocation sample_ring =
     Inr (revoked_key sample_revocation 20 (ssk_Key (sample_key ''k1'' 1)), s') \<and>
     (\<exists>w. tbl_get (is_keys s') ''k1'' = Some w \<and> \<not> valid_at (ssk_Key w) 15 30)"
proof -
  let ?k = "revoked_key sample_revocation 20 (ssk_Key (sample_key ''k1'' 1))"
  obtain s' where s': "RevokeSigningKey sample_command key_admin ''k1'' sample_revocation sample_ring = Inr (?k, s')"
    using sample_revokes by blast
  note inp = sample_checks(4)
  have k: "sk_ID ?k = ''k1''" "ski_Semantics sample_revocation = SigningKeyRevocationCompromised"
      "ski_HistoricalValidityPolicy sample_revocation = SigningKeyHistoricalValidityInvalidateAll"
    by code_simp+
  show ?thesis using s' revocation_final [OF s' sample_ring_reachable inp rtranclp.rtrancl_refl] k by auto
qed

end
