(* ===== verification/Merkle_Properties.thy ===== *)
theory Merkle_Properties
  imports Merkle Audit_Properties Signing_Properties
begin

text \<open>
  What a signed Merkle batch proves: the root commits to the leaves of a range, a batch that was
  created verifies later, and a verified checkpoint detects every rewrite of the range it covers.
\<close>

section \<open>The root commits to the leaves\<close>

text \<open>The texts that are hashed on the way to a root.\<close>

fun level_texts :: "string list \<Rightarrow> string list" where
  "level_texts [] = []"
| "level_texts [a] = [link_text a a]"
| "level_texts (a # b # rest) = link_text a b # level_texts rest"

lemma merkle_level_texts: "merkle_level xs = map hashBytes (level_texts xs)"
  by (induction xs rule: level_texts.induct) simp_all

lemma length_level_texts [simp]: "length (level_texts xs) = (length xs + 1) div 2"
  by (metis length_map length_merkle_level merkle_level_texts)

function merkle_texts :: "string list \<Rightarrow> string list" where
  "merkle_texts level = (if length level > 1 then level_texts level @ merkle_texts (merkle_level level) else [])"
  by pat_completeness auto
termination by (relation "measure length") auto

declare merkle_texts.simps [simp del]

definition merkle_collision :: "string list \<Rightarrow> string list \<Rightarrow> (string \<times> string) option" where
  "merkle_collision xs ys = find (\<lambda>(x, y). x \<noteq> y \<and> hashBytes x = hashBytes y) (zip (merkle_texts xs) (merkle_texts ys))"

definition newline_free :: "string list \<Rightarrow> bool" where
  "newline_free xs \<longleftrightarrow> list_all (\<lambda>x. CHR 0x0A \<notin> set x) xs"

lemma newline_free_level [simp]: "newline_free (merkle_level xs)"
  using hashBytes_no_newline by (simp add: merkle_level_texts newline_free_def list_all_iff)

lemma level_texts_inj:
  "level_texts xs = level_texts ys \<Longrightarrow> length xs = length ys \<Longrightarrow> newline_free xs \<Longrightarrow> newline_free ys \<Longrightarrow> xs = ys"
proof (induction xs arbitrary: ys rule: level_texts.induct)
  case (2 a)
  then obtain b where "ys = [b]" by (cases ys) auto
  then show ?case using 2 link_text_inj [of a a b b] by (simp add: newline_free_def)
next
  case (3 a b rest)
  then obtain c d rest' where ys: "ys = c # d # rest'" by (cases ys rule: level_texts.cases) auto
  then show ?case using 3 link_text_inj [of a b c d] by (simp add: newline_free_def)
qed simp

lemma map_hash_eq:
  "map hashBytes xs = map hashBytes ys \<Longrightarrow> xs = ys \<or> (\<exists>(x, y)\<in>set (zip xs ys). x \<noteq> y \<and> hashBytes x = hashBytes y)"
proof (induction xs arbitrary: ys)
  case (Cons x xs)
  then show ?case by (cases ys) auto
qed simp

lemma merkle_loop_binding:
  assumes "length xs = length ys" and "newline_free xs" and "newline_free ys" and "xs \<noteq> []" and "merkle_loop xs = merkle_loop ys"
  shows "xs = ys \<or> (\<exists>(x, y)\<in>set (zip (merkle_texts xs) (merkle_texts ys)). x \<noteq> y \<and> hashBytes x = hashBytes y)"
  using assms
proof (induction xs arbitrary: ys rule: merkle_loop.induct)
  case (1 xs ys)
  show ?case
  proof (cases "length xs > 1")
    case True
    have texts: "merkle_texts xs = level_texts xs @ merkle_texts (merkle_level xs)"
      "merkle_texts ys = level_texts ys @ merkle_texts (merkle_level ys)"
      using True 1(2) merkle_texts.simps [of xs] merkle_texts.simps [of ys] by simp_all
    have zip: "zip (merkle_texts xs) (merkle_texts ys) =
        zip (level_texts xs) (level_texts ys) @ zip (merkle_texts (merkle_level xs)) (merkle_texts (merkle_level ys))"
      using 1(2) by (simp add: texts)
    have loop: "merkle_loop (merkle_level xs) = merkle_loop (merkle_level ys)"
      using 1(2,6) True merkle_loop.simps [of xs] merkle_loop.simps [of ys] by simp
    have "merkle_level xs \<noteq> []" using True by (cases xs rule: merkle_level.cases) auto
    then have "merkle_level xs = merkle_level ys \<or> (\<exists>(x, y)\<in>set (zip (merkle_texts (merkle_level xs)) (merkle_texts (merkle_level ys))).
        x \<noteq> y \<and> hashBytes x = hashBytes y)"
      using 1(1) [OF True, of "merkle_level ys"] 1(2) loop by simp
    moreover have "level_texts xs = level_texts ys \<or> (\<exists>(x, y)\<in>set (zip (level_texts xs) (level_texts ys)). x \<noteq> y \<and> hashBytes x = hashBytes y)"
      if "merkle_level xs = merkle_level ys"
      using map_hash_eq that unfolding merkle_level_texts by blast
    ultimately show ?thesis
      unfolding zip set_append using level_texts_inj [of xs ys] 1(2-4) by blast
  next
    case False
    then obtain a b where "xs = [a]" "ys = [b]" using 1(2,5) by (cases xs; cases ys) auto
    then show ?thesis using 1(6) by (simp add: merkle_loop.simps)
  qed
qed

lemma merkle_binding:
  assumes "length xs = length ys" and "newline_free xs" and "newline_free ys" and "merkleRoot xs = merkleRoot ys"
  shows "xs = ys \<or> (\<exists>x y. merkle_collision xs ys = Some (x, y) \<and> x \<noteq> y \<and> hashBytes x = hashBytes y)"
proof (cases "xs = []")
  case False
  then have "xs = ys \<or> (\<exists>(x, y)\<in>set (zip (merkle_texts xs) (merkle_texts ys)). x \<noteq> y \<and> hashBytes x = hashBytes y)"
    using assms by (intro merkle_loop_binding) (auto simp: merkleRoot_def split: if_splits)
  then show ?thesis
  proof
    assume "\<exists>(x, y)\<in>set (zip (merkle_texts xs) (merkle_texts ys)). x \<noteq> y \<and> hashBytes x = hashBytes y"
    then have "merkle_collision xs ys \<noteq> None" by (auto simp: merkle_collision_def find_None_iff)
    then obtain x y where c: "merkle_collision xs ys = Some (x, y)" by auto
    then have "x \<noteq> y \<and> hashBytes x = hashBytes y" by (auto simp: merkle_collision_def find_Some_iff)
    with c show ?thesis by blast
  qed simp
qed (use assms(1) in simp)

text \<open>
  The root does not commit to the number of leaves: a last leaf that has no neighbour is paired
  with itself, and inner nodes are not distinguished from leaves.
\<close>

lemma merkleRoot_repeated_leaf: "merkleRoot [a, b, c] = merkleRoot [a, b, c, c]"
  by (simp add: merkleRoot_def merkle_loop.simps)

lemma merkleRoot_inner_nodes: "merkleRoot [a, b, c, d] = merkleRoot [hashBytes (link_text a b), hashBytes (link_text c d)]"
  by (simp add: merkleRoot_def merkle_loop.simps)

text \<open>
  C26: The Merkle root commits to the leaves of a range of known length: two lists of the same
  length of leaves without newline that have the same root are equal, or the hashed texts of the
  two trees contain an explicit SHA-256 collision.
\<close>

theorem merkle_root_binding:
  assumes "length xs = length ys" and "newline_free xs" and "newline_free ys" and "merkleRoot xs = merkleRoot ys"
  shows "xs = ys \<or> (\<exists>x y. merkle_collision xs ys = Some (x, y) \<and> x \<noteq> y \<and> hashBytes x = hashBytes y)"
  using assms by (rule merkle_binding)

theorem merkle_root_binding_witness:
  "[''a'', ''b'', ''c''] = [''a'', ''b'', ''c''] \<or> (\<exists>x y. merkle_collision [''a'', ''b'', ''c''] [''a'', ''b'', ''c''] = Some (x, y) \<and>
     x \<noteq> y \<and> hashBytes x = hashBytes y)"
  by (rule merkle_root_binding) (simp_all add: newline_free_def)

section \<open>A created batch verifies\<close>

lemma i64_small: "0 \<le> n \<Longrightarrow> n < 2 ^ 63 \<Longrightarrow> i64 n = n"
  by (simp add: i64_def)

lemma appendAudit_grows:
  assumes "appendAudit h e s = Inr (r, s')"
  obtains more where "chain_of s' t = chain_of s t @ more" "length more \<le> 1"
    "\<forall>x\<in>set more. ace_Sequence x = i64 (int (length (chain_of s t)) + 1)"
proof (cases "t = ace_TenantID e")
  case True
  have "\<exists>x. chain_of s' t = chain_of s t @ [x] \<and> ace_Sequence x = i64 (int (length (chain_of s t)) + 1)"
    using assms True
    by (auto simp: appendAudit_def Let_def RehashAuditChainEntry_def cloneMemoryAuditEntry_def chain_of_def split: if_splits)
  then show ?thesis using that by force
next
  case False
  have "chain_of s' t = chain_of s t"
    using assms False
    by (auto simp: appendAudit_def Let_def RehashAuditChainEntry_def cloneMemoryAuditEntry_def chain_of_def split: if_splits)
  then show ?thesis using that [of "[]"] by simp
qed

text \<open>The chain of a tenant only grows, and what is added has larger sequence numbers.\<close>

definition grows_after :: "int \<Rightarrow> AuditChainEntry list \<Rightarrow> AuditChainEntry list \<Rightarrow> bool" where
  "grows_after n es fs \<longleftrightarrow> (\<exists>more. fs = es @ more \<and> (\<forall>x\<in>set more. ace_Sequence x > n))"

lemma grows_refl [simp]: "grows_after n es es"
  by (simp add: grows_after_def)

lemma grows_trans: "grows_after n es fs \<Longrightarrow> grows_after n fs gs \<Longrightarrow> grows_after n es gs"
  by (fastforce simp: grows_after_def)

lemma grows_length: "grows_after n es fs \<Longrightarrow> length es \<le> length fs"
  by (auto simp: grows_after_def)

lemma appendAudit_grows_after:
  assumes "appendAudit h e s = Inr (r, s')" and "n \<le> int (length (chain_of s t))" and "int (length (chain_of s' t)) < 2 ^ 63"
  shows "grows_after n (chain_of s t) (chain_of s' t)"
  using assms(1)
proof (rule appendAudit_grows [where t = t])
  fix more
  assume more: "chain_of s' t = chain_of s t @ more" "length more \<le> 1"
    "\<forall>x\<in>set more. ace_Sequence x = i64 (int (length (chain_of s t)) + 1)"
  then have "more = [] \<or> i64 (int (length (chain_of s t)) + 1) = int (length (chain_of s t)) + 1"
    using assms(3) by (cases more) (auto intro!: i64_small)
  then show ?thesis using more assms(2) by (auto simp: grows_after_def)
qed

lemma append_all_grows_after:
  assumes "append_all h es s = Inr s'" and "n \<le> int (length (chain_of s t))" and "int (length (chain_of s' t)) < 2 ^ 63"
  shows "grows_after n (chain_of s t) (chain_of s' t)"
  using assms
proof (induction es arbitrary: s)
  case (Cons e es)
  then obtain r s1 where s1: "appendAudit h e s = Inr (r, s1)" "append_all h es s1 = Inr s'" by auto
  have le: "length (chain_of s t) \<le> length (chain_of s1 t)"
    using s1(1) by (rule appendAudit_grows [where t = t]) simp
  have later: "grows_after n (chain_of s1 t) (chain_of s' t)" using Cons.IH [OF s1(2)] Cons.prems(2,3) le by simp
  then have "grows_after n (chain_of s t) (chain_of s1 t)"
    using appendAudit_grows_after [OF s1(1) Cons.prems(2)] grows_length [OF later] Cons.prems(3) by simp
  then show ?case using later by (rule grows_trans)
qed simp

lemma leaf_loop_skip: "\<forall>x\<in>set es. ace_Sequence x > to \<Longrightarrow> leaf_loop t from to es budget leaves = Inr leaves"
  by (induction es arbitrary: budget leaves) auto

lemma leaf_loop_grows:
  assumes "grows_after to es fs"
  shows "leaf_loop t from to fs budget leaves = leaf_loop t from to es budget leaves"
proof -
  obtain more where fs: "fs = es @ more" "\<forall>x\<in>set more. ace_Sequence x > to" using assms by (auto simp: grows_after_def)
  show ?thesis unfolding fs(1) using fs(2) by (induction es arbitrary: budget leaves) (auto simp: leaf_loop_skip Let_def)
qed

lemma memoryMerkleLeaves_grows:
  "grows_after to (chain_of (is_audit (ms_integrity s)) t) (chain_of (is_audit (ms_integrity s')) t) \<Longrightarrow>
     memoryMerkleLeaves s' t from to = memoryMerkleLeaves s t from to"
  by (simp add: memoryMerkleLeaves_def leaf_loop_grows)

lemma view_count: "mcv_EntryCount (foldl (view_step t) v es) \<le> mcv_EntryCount v + int (length es)"
proof (induction es arbitrary: v)
  case (Cons e es)
  show ?case using Cons.IH [of "view_step t v e"] by (auto simp: view_step_def split: if_splits)
qed simp

lemma hashes_loop_Inr:
  "hashes_loop n leaves = Inr hashes \<Longrightarrow>
     hashes = map acl_EntryHash leaves \<and> map acl_Sequence leaves = map (\<lambda>i. n + int i) [0..<length leaves]"
proof (induction n leaves arbitrary: hashes rule: hashes_loop.induct)
  case (2 n leaf leaves)
  then obtain hs where hs: "hashes_loop (n + 1) leaves = Inr hs" "hashes = acl_EntryHash leaf # hs" "acl_Sequence leaf = n"
    by (auto split: if_splits)
  have "map acl_Sequence leaves = map (\<lambda>i. n + 1 + int i) [0..<length leaves]" "hs = map acl_EntryHash leaves"
    using 2(1) hs 2(2) by (auto split: if_splits)
  then show ?case using hs(2,3) by (simp add: upt_conv_Cons map_Suc_upt [symmetric] comp_def add.assoc del: upt_Suc)
qed simp

lemma on_integrity_Inr:
  assumes "on_integrity f s = Inr s'"
  obtains i where "f (ms_integrity s) = Inr i" "s' = s\<lparr>ms_integrity := i\<rparr>"
  using assms by (auto simp: on_integrity_def)

lemma InsertSigningKey_audit: "InsertSigningKey v s = Inr s' \<Longrightarrow> is_audit s' = is_audit s"
  by (auto simp: InsertSigningKey_def Let_def split: if_splits)

lemma InsertSignature_audit: "InsertSignature v s = Inr s' \<Longrightarrow> is_audit s' = is_audit s"
  by (auto simp: InsertSignature_def split: if_splits option.splits)

lemma store_batch_Inr:
  assumes "store_batch c a from to hashes signing s = Inr (b, s')"
  obtains entry where "mb_ID b = mc_batchID c" "mb_TenantID b = actor_TenantID a" "mb_FromSequence b = from" "mb_ToSequence b = to"
    "mb_EntryCount b = int (length hashes)" "mb_LeafHashes b = hashes" "mb_RootHash b = merkleRoot hashes"
    "mb_SignatureRefs b = [sig_ID (sres_Signature signing)]" "tbl_get (ms_batches s') (mb_ID b) = Some b"
    "tbl_get (ms_batches s) (mb_ID b) = None" "mb_ID b \<noteq> []"
    "appendAudit (mc_hasher c) (event_entry (batch_event c a b (sig_ID (sres_Signature signing)))) (is_audit (ms_integrity s)) =
       Inr (entry, is_audit (ms_integrity s'))"
proof -
  define sig where "sig = sres_Signature signing"
  obtain s1 where s1: "(case sres_NewKey signing of None \<Rightarrow> Inr s | Some key \<Rightarrow>
           (if \<not> validNewSigningKey key (actor_TenantID a) (mc_now c) \<or> sk_ID (ssk_Key key) \<noteq> sig_KeyID sig then Inl ErrValidation
            else on_integrity (InsertSigningKey key) s)) = Inr s1"
      and rest: "bind_result (on_integrity (InsertSignature sig) s1) (\<lambda>s. bind_result (InsertMerkleBatch b s) (\<lambda>s.
        bind_result (on_integrity (appendAuditEvent (mc_hasher c) (batch_event c a b (sig_ID sig))) s) (\<lambda>s. Inr s))) = Inr s'"
      and b: "b = \<lparr>mb_ID = mc_batchID c, mb_TenantID = actor_TenantID a, mb_FromSequence = from, mb_ToSequence = to,
              mb_EntryCount = int (length hashes), mb_LeafHashes = hashes, mb_RootHash = merkleRoot hashes,
              mb_SignatureRefs = [sig_ID sig], mb_SchemaVersion = MerkleBatchSchemaVersion, mb_CreatedAt = mc_now c\<rparr>"
    using assms unfolding store_batch_def Let_def sig_def [symmetric] by (auto split: if_splits)
  have 1: "ms_batches s1 = ms_batches s" "is_audit (ms_integrity s1) = is_audit (ms_integrity s)"
    using s1 InsertSigningKey_audit by (auto split: option.splits if_splits elim!: on_integrity_Inr)
  obtain s2 s3 where s2: "on_integrity (InsertSignature sig) s1 = Inr s2" "InsertMerkleBatch b s2 = Inr s3"
      "on_integrity (appendAuditEvent (mc_hasher c) (batch_event c a b (sig_ID sig))) s3 = Inr s'"
    using rest by auto
  have 2: "ms_batches s2 = ms_batches s" "is_audit (ms_integrity s2) = is_audit (ms_integrity s)"
    using s2(1) 1 InsertSignature_audit by (auto elim!: on_integrity_Inr)
  have 3: "s3 = s2\<lparr>ms_batches := tbl_put (ms_batches s2) (mb_ID b) b\<rparr>" "tbl_get (ms_batches s2) (mb_ID b) = None" "mb_ID b \<noteq> []"
    using s2(2) by (auto simp: InsertMerkleBatch_def split: if_splits)
  obtain entry a' where "appendAudit (mc_hasher c) (event_entry (batch_event c a b (sig_ID sig))) (is_audit (ms_integrity s3)) = Inr (entry, a')"
      "s' = s3\<lparr>ms_integrity := (ms_integrity s3)\<lparr>is_audit := a'\<rparr>\<rparr>"
    using s2(3) by (auto simp: appendAuditEvent_def elim!: on_integrity_Inr)
  then show thesis using that [of entry] b 2 3 by (simp add: sig_def)
qed

lemma createMerkleBatch_Inr:
  assumes "createMerkleBatch c a input s = Inr (b, s')"
  obtains view leaves hashes signing where "LockMerkleCreationView s (actor_TenantID a) = Inr view"
    "mb_FromSequence b \<ge> 1" "mb_ToSequence b \<ge> mb_FromSequence b" "mb_ToSequence b \<le> mcv_LastSequence view"
    "mcv_LastSequence view = mcv_EntryCount view" "mb_ToSequence b - mb_FromSequence b < MaxMerkleVerificationLeaves"
    "memoryMerkleLeaves s (actor_TenantID a) (mb_FromSequence b) (mb_ToSequence b) = Inr leaves"
    "int (length leaves) = mb_ToSequence b - mb_FromSequence b + 1" "hashes_loop (mb_FromSequence b) leaves = Inr hashes"
    "mc_sign c \<lparr>sr_TenantID = actor_TenantID a, sr_SubjectType = ''merkle_batch'', sr_SubjectID = mc_batchID c,
        sr_Payload = merkleRoot hashes, sr_CreatedAt = mc_now c\<rparr> = Inr signing"
    "store_batch c a (mb_FromSequence b) (mb_ToSequence b) hashes signing s = Inr (b, s')"
proof -
  obtain view where view: "LockMerkleCreationView s (actor_TenantID a) = Inr view" "mcv_LastSequence view = mcv_EntryCount view"
    using assms by (auto simp: createMerkleBatch_def split: if_splits)
  define lo where "lo = (if cmb_FromSequence input = 0 then 1 else cmb_FromSequence input)"
  define hi where "hi = (if cmb_ToSequence input = 0 then mcv_LastSequence view else cmb_ToSequence input)"
  obtain leaves hashes signing where 1: "lo \<ge> 1" "hi \<ge> lo" "hi \<le> mcv_LastSequence view" "hi - lo < MaxMerkleVerificationLeaves"
      "ReadMerkleCreationLeaves s (actor_TenantID a) lo hi = Inr leaves" "int (length leaves) = hi - lo + 1"
      "hashes_loop lo leaves = Inr hashes"
      "mc_sign c \<lparr>sr_TenantID = actor_TenantID a, sr_SubjectType = ''merkle_batch'', sr_SubjectID = mc_batchID c,
        sr_Payload = merkleRoot hashes, sr_CreatedAt = mc_now c\<rparr> = Inr signing"
      "store_batch c a lo hi hashes signing s = Inr (b, s')"
    using assms view(1) by (auto simp: createMerkleBatch_def Let_def lo_def hi_def not_less not_le split: if_splits)
  have "mb_FromSequence b = lo" "mb_ToSequence b = hi" by (rule store_batch_Inr [OF 1(9)], assumption)+
  moreover have "memoryMerkleLeaves s (actor_TenantID a) lo hi = Inr leaves"
    using 1(5) by (auto simp: ReadMerkleCreationLeaves_def tenantRead_def split: if_splits)
  ultimately show thesis using that view 1 by simp
qed

lemma created_leaves:
  assumes "createMerkleBatch c a input s = Inr (b, s')"
  obtains leaves where "memoryMerkleLeaves s (actor_TenantID a) (mb_FromSequence b) (mb_ToSequence b) = Inr leaves"
    "mb_LeafHashes b = map acl_EntryHash leaves" "map acl_Sequence leaves = map (\<lambda>i. mb_FromSequence b + int i) [0..<length leaves]"
    "int (length leaves) = mb_ToSequence b - mb_FromSequence b + 1" "mb_EntryCount b = int (length leaves)"
    "mb_RootHash b = merkleRoot (mb_LeafHashes b)" "length (mb_SignatureRefs b) = 1" "mb_ID b \<noteq> []" "mb_TenantID b = actor_TenantID a"
    "mb_FromSequence b \<ge> 1" "mb_ToSequence b - mb_FromSequence b < MaxMerkleVerificationLeaves" "tbl_get (ms_batches s') (mb_ID b) = Some b"
    "mb_ToSequence b \<le> int (length (chain_of (is_audit (ms_integrity s)) (actor_TenantID a)))"
    "\<exists>h e r. appendAudit h e (is_audit (ms_integrity s)) = Inr (r, is_audit (ms_integrity s'))"
  using assms
proof (rule createMerkleBatch_Inr)
  fix view leaves hashes signing
  assume view: "LockMerkleCreationView s (actor_TenantID a) = Inr view" "mb_ToSequence b \<le> mcv_LastSequence view"
      "mcv_LastSequence view = mcv_EntryCount view"
    and leaves: "memoryMerkleLeaves s (actor_TenantID a) (mb_FromSequence b) (mb_ToSequence b) = Inr leaves"
      "hashes_loop (mb_FromSequence b) leaves = Inr hashes" "int (length leaves) = mb_ToSequence b - mb_FromSequence b + 1"
    and range: "mb_FromSequence b \<ge> 1" "mb_ToSequence b - mb_FromSequence b < MaxMerkleVerificationLeaves"
    and store: "store_batch c a (mb_FromSequence b) (mb_ToSequence b) hashes signing s = Inr (b, s')"
  have len: "mb_ToSequence b \<le> int (length (chain_of (is_audit (ms_integrity s)) (actor_TenantID a)))"
    using view view_count [of "actor_TenantID a" "zero_view (actor_TenantID a)" "chain_of (is_audit (ms_integrity s)) (actor_TenantID a)"]
    by (auto simp: LockMerkleCreationView_def tenantRead_def zero_view_def split: if_splits)
  note hashes = hashes_loop_Inr [OF leaves(2)]
  show thesis
    by (rule store_batch_Inr [OF store], rule that [OF leaves(1)])
      (use hashes leaves(3) range len in auto)
qed

lemma covers_leaves:
  assumes "mb_LeafHashes (mvs_Batch snap) = map acl_EntryHash (mvs_Leaves snap)"
    and "map acl_Sequence (mvs_Leaves snap) = map (\<lambda>i. mb_FromSequence (mvs_Batch snap) + int i) [0..<length (mvs_Leaves snap)]"
    and "int (length (mvs_Leaves snap)) = mb_ToSequence (mvs_Batch snap) - mb_FromSequence (mvs_Batch snap) + 1"
    and "mb_EntryCount (mvs_Batch snap) = int (length (mvs_Leaves snap))" and "mb_FromSequence (mvs_Batch snap) \<ge> 1"
    and "mvs_Leaves snap \<noteq> []"
  shows "covers snap"
proof -
  have "acl_Sequence (mvs_Leaves snap ! i) = mb_FromSequence (mvs_Batch snap) + int i" if "i < length (mvs_Leaves snap)" for i
    using arg_cong [OF assms(2), of "\<lambda>xs. xs ! i"] that by simp
  moreover have "mb_FromSequence (mvs_Batch snap) \<le> mb_ToSequence (mvs_Batch snap)"
    using assms(3,6) by (cases "mvs_Leaves snap") auto
  ultimately show ?thesis
    using assms by (auto simp: covers_def Let_def list_all_length)
qed

lemma merkle_names: "list_all edge_safe [''checkpoint_coverage'', ''merkle_root'', ''checkpoint_signature'', ''checkpoint_root'']"
  by (simp add: edge_safe_def graphic_def byte_def)

lemma passed_batch_receipt:
  assumes "InspectMerkleBatch snap now verifier = Inr ins" and "covers snap"
    and "merkleRoot (mb_LeafHashes (mvs_Batch snap)) = mb_RootHash (mvs_Batch snap)"
    and "validReferencedPayloadSignature (mvs_Subject snap) (mb_SignatureRefs (mvs_Batch snap)) (mvs_Signatures snap) (mvs_Keys snap)
      (mb_RootHash (mvs_Batch snap)) now verifier"
  shows "receipt_state ins = Inr VerificationStatePassed"
proof (rule good_inspection_receipt)
  have checks: "ins_Checks ins = [merkle_check ''checkpoint_coverage'' True, merkle_check ''merkle_root'' True,
      merkle_check ''checkpoint_signature'' True]"
    and profile: "ins_StateOverride ins = []" "vp_ID (ins_Profile ins) = TrimSpace VerificationProfileMerkleCheckpoint"
      "vp_RequiredChecks (ins_Profile ins) = trimmed_set [''checkpoint_coverage'', ''merkle_root'', ''checkpoint_signature'']"
    using assms by (auto simp: InspectMerkleBatch_def Let_def NormalizeVerificationProfile_def normalizedStrings_def split: if_splits)
  show "\<forall>c\<in>set (ins_Checks ins). good_check c" using merkle_names
    by (simp add: checks good_check_def merkle_check_def result_text_def)
  show "ins_Checks ins \<noteq> []" "ins_StateOverride ins = []" by (simp_all add: checks profile)
  show "TrimSpace (vp_ID (ins_Profile ins)) \<noteq> []"
    by (simp add: profile VerificationProfileMerkleCheckpoint_def edge_safe_def graphic_def byte_def)
  show "set (vp_RequiredChecks (ins_Profile ins)) = TrimSpace ` vc_Name ` set (ins_Checks ins) - {[]}"
    by (simp add: profile checks set_trimmed_set merkle_check_def)
qed

text \<open>
  C27: A batch that was created is stored and verifies from then on: whatever entries are appended
  to the chains later, the leaves of its range are those it was created from, and an inspection
  that stays within its limits passes whenever the signature over its root verifies.
\<close>

theorem merkle_batch_verifies:
  assumes "createMerkleBatch c a input s = Inr (b, s')"
    and "append_all h later_entries (is_audit (ms_integrity s')) = Inr (is_audit (ms_integrity s''))"
    and "int (length (chain_of (is_audit (ms_integrity s'')) (actor_TenantID a))) < 2 ^ 63"
    and "TrimSpace (mb_ID b) = mb_ID b" and "actor_TenantID a \<noteq> []" and "now \<noteq> 0"
  shows "tbl_get (ms_batches s') (mb_ID b) = Some b \<and>
    (\<exists>leaves. memoryMerkleLeaves s'' (actor_TenantID a) (mb_FromSequence b) (mb_ToSequence b) = Inr leaves \<and>
      (\<forall>snap verifier.
        mvs_Subject snap = \<lparr>sub_TenantID = actor_TenantID a, sub_Type = ''merkle_batch'', sub_ID = mb_ID b, sub_Resources = no_refs\<rparr> \<longrightarrow>
        mvs_Batch snap = b \<longrightarrow> mvs_Leaves snap = leaves \<longrightarrow> merkleVerificationWithinBudget snap \<longrightarrow>
        int (length (mvs_Signatures snap)) \<le> MaxBundleVerificationSignatures \<longrightarrow>
        int (length (mvs_Keys snap)) \<le> MaxBundleVerificationSignatures \<longrightarrow>
        validReferencedPayloadSignature (mvs_Subject snap) (mb_SignatureRefs b) (mvs_Signatures snap) (mvs_Keys snap) (mb_RootHash b)
          now verifier \<longrightarrow>
        (\<exists>ins. InspectMerkleBatch snap now verifier = Inr ins \<and> receipt_state ins = Inr VerificationStatePassed)))"
  using assms(1)
proof (rule created_leaves)
  fix leaves
  let ?t = "actor_TenantID a"
  assume leaves: "memoryMerkleLeaves s ?t (mb_FromSequence b) (mb_ToSequence b) = Inr leaves"
    and hashes: "mb_LeafHashes b = map acl_EntryHash leaves" "map acl_Sequence leaves = map (\<lambda>i. mb_FromSequence b + int i) [0..<length leaves]"
      "int (length leaves) = mb_ToSequence b - mb_FromSequence b + 1" "mb_EntryCount b = int (length leaves)"
      "mb_RootHash b = merkleRoot (mb_LeafHashes b)"
    and b: "length (mb_SignatureRefs b) = 1" "mb_ID b \<noteq> []" "mb_TenantID b = ?t" "mb_FromSequence b \<ge> 1"
      "mb_ToSequence b - mb_FromSequence b < MaxMerkleVerificationLeaves" "tbl_get (ms_batches s') (mb_ID b) = Some b"
      "mb_ToSequence b \<le> int (length (chain_of (is_audit (ms_integrity s)) ?t))"
    and event: "\<exists>h e r. appendAudit h e (is_audit (ms_integrity s)) = Inr (r, is_audit (ms_integrity s'))"
  obtain h' e r where ev: "appendAudit h' e (is_audit (ms_integrity s)) = Inr (r, is_audit (ms_integrity s'))" using event by blast
  then have "append_all h' [e] (is_audit (ms_integrity s)) = Inr (is_audit (ms_integrity s'))" by simp
  have le: "length (chain_of (is_audit (ms_integrity s)) ?t) \<le> length (chain_of (is_audit (ms_integrity s')) ?t)"
    using ev by (rule appendAudit_grows [where t = ?t]) simp
  have later: "grows_after (mb_ToSequence b) (chain_of (is_audit (ms_integrity s')) ?t) (chain_of (is_audit (ms_integrity s'')) ?t)"
    using assms(2) by (rule append_all_grows_after) (use b(7) le assms(3) in auto)
  have "grows_after (mb_ToSequence b) (chain_of (is_audit (ms_integrity s)) ?t) (chain_of (is_audit (ms_integrity s')) ?t)"
    using ev b(7) by (rule appendAudit_grows_after) (use grows_length [OF later] assms(3) in auto)
  then have read: "memoryMerkleLeaves s'' ?t (mb_FromSequence b) (mb_ToSequence b) = Inr leaves"
    using memoryMerkleLeaves_grows [OF grows_trans [OF _ later], where s = s] leaves by simp
  have "\<exists>ins. InspectMerkleBatch snap now verifier = Inr ins \<and> receipt_state ins = Inr VerificationStatePassed"
    if snap: "mvs_Subject snap = \<lparr>sub_TenantID = ?t, sub_Type = ''merkle_batch'', sub_ID = mb_ID b, sub_Resources = no_refs\<rparr>"
      "mvs_Batch snap = b" "mvs_Leaves snap = leaves" "merkleVerificationWithinBudget snap"
      "int (length (mvs_Signatures snap)) \<le> MaxBundleVerificationSignatures" "int (length (mvs_Keys snap)) \<le> MaxBundleVerificationSignatures"
      "validReferencedPayloadSignature (mvs_Subject snap) (mb_SignatureRefs b) (mvs_Signatures snap) (mvs_Keys snap) (mb_RootHash b)
        now verifier" for snap verifier
  proof -
    have trim: "TrimSpace ''merkle_batch'' = ''merkle_batch''" by (simp add: edge_safe_def graphic_def byte_def)
    have lim: "int (length leaves) \<le> MaxMerkleVerificationLeaves" "1 \<le> MaxBundleVerificationSignatures"
      using b(5) hashes(3) by (simp_all add: MaxBundleVerificationSignatures_def)
    have ne: "leaves \<noteq> []"
      using hashes(3) leaves by (auto simp: memoryMerkleLeaves_def split: if_splits)
    obtain ins where ins: "InspectMerkleBatch snap now verifier = Inr ins"
      using snap b assms(4-6) trim lim hashes(1) by (simp add: InspectMerkleBatch_def Let_def validSubjectReference_def)
    have "covers snap" using hashes b(4) snap(2,3) ne by (intro covers_leaves) simp_all
    then have "receipt_state ins = Inr VerificationStatePassed"
      using passed_batch_receipt [OF ins, unfolded snap(2)] snap(7) hashes(5) by simp
    then show ?thesis using ins by blast
  qed
  then show ?thesis using b(6) read by blast
qed

section \<open>A verified checkpoint commits to the chain\<close>

lemma chain_intact_take: "chain_intact h t prev n es \<Longrightarrow> chain_intact h t prev n (take k es)"
  using chain_intact_append [of h t prev n "take k es" "drop k es"] by simp

lemma intact_range:
  assumes "chain_intact h t prev n es" and "0 \<le> n" and "n + int (length es) < 2 ^ 63"
  shows "filter (\<lambda>e. lo \<le> ace_Sequence e \<and> ace_Sequence e \<le> hi) es = drop (nat (lo - 1 - n)) (take (nat (hi - n)) es)"
  using assms
proof (induction es arbitrary: prev n)
  case (Cons e es)
  have seq: "ace_Sequence e = n + 1" using Cons.prems by (simp add: i64_small)
  have ih: "filter (\<lambda>e. lo \<le> ace_Sequence e \<and> ace_Sequence e \<le> hi) es = drop (nat (lo - 1 - (n + 1))) (take (nat (hi - (n + 1))) es)"
    using Cons.prems by (intro Cons.IH [of "ace_EntryHash e" "n + 1"]) auto
  have nat: "nat (lo - 1 - n) = Suc (nat (lo - 1 - (n + 1)))" if "n + 1 < lo" using that by simp
  have nat': "nat (hi - n) = Suc (nat (hi - (n + 1)))" if "n + 1 \<le> hi" using that by simp
  consider "hi < n + 1" | "n + 1 \<le> hi" "n + 1 < lo" | "n + 1 \<le> hi" "lo \<le> n + 1" by linarith
  then show ?case
  proof cases
    case 1
    then show ?thesis using ih seq by simp
  next
    case 2
    then show ?thesis using ih seq nat nat' by simp
  next
    case 3
    then show ?thesis using ih seq nat' by simp
  qed
qed simp

lemma intact_newline_free: "chain_intact h t prev n es \<Longrightarrow> newline_free (map ace_EntryHash es)"
  using hashBytes_no_newline by (induction es arbitrary: prev n) (auto simp: newline_free_def auditChainLinkHash_def)

lemma newline_free_sub: "newline_free xs \<Longrightarrow> set ys \<subseteq> set xs \<Longrightarrow> newline_free ys"
  by (auto simp: newline_free_def list_all_iff)

text \<open>The entries whose hashes are the leaves of a batch.\<close>

definition covered :: "MerkleBatch \<Rightarrow> AuditChainEntry list \<Rightarrow> AuditChainEntry list" where
  "covered b es = drop (nat (mb_FromSequence b - 1)) (take (nat (mb_ToSequence b)) es)"

lemma required_check_passed:
  assumes "receipt_state ins = Inr VerificationStatePassed" and "merkle_check name ok \<in> set (ins_Checks ins)"
    and "name \<in> set (vp_RequiredChecks (ins_Profile ins))" and "edge_safe name"
  shows ok
proof -
  have "TrimSpace ''failed'' = ''failed''" by (simp add: edge_safe_def graphic_def byte_def)
  moreover have "TrimSpace (vc_Result (merkle_check name ok)) = ''passed''"
    using assms edge_safe_nonempty by (intro check_name_required [OF assms(1,2)]) (auto simp: merkle_check_def)
  ultimately show ok by (cases ok) (simp_all add: merkle_check_def result_text_def)
qed

lemma covers_hashes: "covers snap \<Longrightarrow> mb_LeafHashes (mvs_Batch snap) = map acl_EntryHash (mvs_Leaves snap)"
  by (rule nth_equalityI) (auto simp: covers_def Let_def list_all_length)

lemma Inspection_required:
  "set (vp_RequiredChecks (ins_Profile (Inspection s))) = TrimSpace ` vc_Name ` set (ins_Checks (Inspection s)) - {[]}"
  by (simp only: Inspection_def Let_def NormalizeVerificationProfile_def normalizedStrings_def VerificationProfile.simps
      SubjectInspection.simps set_trimmed_set set_rev set_remdups set_map)

lemma checkpoint_checks:
  assumes "receipt_state (inspectMerkleAuditChainCheckpoint (Inspection s) count snap derived merkle) = Inr VerificationStatePassed"
    and "InspectMerkleBatch snap now verifier = Inr merkle"
  shows "aci_passed s \<and> 1 \<le> mb_FromSequence (mvs_Batch snap) \<and> mb_FromSequence (mvs_Batch snap) \<le> mb_ToSequence (mvs_Batch snap) \<and>
    mb_ToSequence (mvs_Batch snap) \<le> count \<and> derived = mvs_Leaves snap \<and> covers snap \<and>
    merkleRoot (mb_LeafHashes (mvs_Batch snap)) = mb_RootHash (mvs_Batch snap) \<and>
    validReferencedPayloadSignature (mvs_Subject snap) (mb_SignatureRefs (mvs_Batch snap)) (mvs_Signatures snap) (mvs_Keys snap)
      (mb_RootHash (mvs_Batch snap)) now verifier"
proof -
  define ins where "ins = inspectMerkleAuditChainCheckpoint (Inspection s) count snap derived merkle"
  define b where "b = mvs_Batch snap"
  define signed where "signed = validReferencedPayloadSignature (mvs_Subject snap) (mb_SignatureRefs b) (mvs_Signatures snap)
    (mvs_Keys snap) (mb_RootHash b) now verifier"
  define inside where "inside \<longleftrightarrow> mb_FromSequence b \<ge> 1 \<and> mb_ToSequence b \<ge> mb_FromSequence b \<and> mb_ToSequence b \<le> count"
  note passed = assms(1) [folded ins_def]
  have merkle: "ins_Checks merkle = [merkle_check ''checkpoint_coverage'' (covers snap),
      merkle_check ''merkle_root'' (merkleRoot (mb_LeafHashes b) = mb_RootHash b), merkle_check ''checkpoint_signature'' signed]"
    using assms(2) by (auto simp: InspectMerkleBatch_def Let_def b_def signed_def split: if_splits)
  have edge: "edge_safe ''audit_chain''" "edge_safe ''checkpoint_coverage''" "edge_safe ''checkpoint_signature''" "edge_safe ''checkpoint_root''"
    using edge_safe_names merkle_names by simp_all
  have checks: "ins_Checks ins = ins_Checks (Inspection s) @ (if \<not> inside then [merkle_check ''checkpoint_coverage'' False]
      else [merkle_check ''checkpoint_coverage'' True, merkle_check ''checkpoint_root'' (derived = mvs_Leaves snap \<and> covers snap \<and>
        merkleRoot (mb_LeafHashes b) = mb_RootHash b), merkle_check ''checkpoint_signature'' signed])"
    by (simp add: ins_def inspectMerkleAuditChainCheckpoint_def Let_def merkle inside_def b_def [symmetric] merkle_check_def result_text_def)
  have required: "set (vp_RequiredChecks (ins_Profile ins)) = TrimSpace ` set (vp_RequiredChecks (ins_Profile (Inspection s)) @
      [''checkpoint_coverage''] @ (if inside then [''checkpoint_root'', ''checkpoint_signature''] else [])) - {[]}"
    by (simp only: ins_def inspectMerkleAuditChainCheckpoint_def Let_def NormalizeVerificationProfile_def VerificationProfile.simps
        SubjectInspection.simps normalizedStrings_def set_trimmed_set inside_def b_def)
  have chain: "merkle_check ''audit_chain'' (aci_passed s) \<in> set (ins_Checks ins)"
    by (simp add: checks Inspection_def Let_def merkle_check_def result_text_def)
  have "''audit_chain'' \<in> set (vp_RequiredChecks (ins_Profile (Inspection s)))"
    using edge(1) by (force simp: Inspection_def Let_def NormalizeVerificationProfile_def normalizedStrings_def set_trimmed_set)
  then have names: "''audit_chain'' \<in> set (vp_RequiredChecks (ins_Profile ins))" "''checkpoint_coverage'' \<in> set (vp_RequiredChecks (ins_Profile ins))"
      "inside \<Longrightarrow> ''checkpoint_root'' \<in> set (vp_RequiredChecks (ins_Profile ins))"
      "inside \<Longrightarrow> ''checkpoint_signature'' \<in> set (vp_RequiredChecks (ins_Profile ins))"
    unfolding required using edge edge_safe_nonempty by (force simp: image_iff)+
  have "aci_passed s" using passed chain names(1) edge(1) by (rule required_check_passed)
  moreover have inside: inside
    by (rule required_check_passed [OF passed _ names(2) edge(2)]) (cases inside; simp add: checks)
  moreover have "derived = mvs_Leaves snap \<and> covers snap \<and> merkleRoot (mb_LeafHashes b) = mb_RootHash b"
    by (rule required_check_passed [OF passed _ names(3) [OF inside] edge(4)]) (simp add: checks inside)
  moreover have signed
    by (rule required_check_passed [OF passed _ names(4) [OF inside] edge(3)]) (simp add: checks inside)
  ultimately show ?thesis by (simp add: inside_def signed_def b_def)
qed

lemma checkpoint_sound:
  assumes "verifyMerkleCheckpoint tools read psize ctxErr view snap tenant now = Inr (ins, es)"
    and "receipt_state ins = Inr VerificationStatePassed" and "int (length es) < 2 ^ 63"
  shows "chain_intact (at_hasher tools) tenant [] 0 es \<and> 1 \<le> mb_FromSequence (mvs_Batch snap) \<and>
    mb_FromSequence (mvs_Batch snap) \<le> mb_ToSequence (mvs_Batch snap) \<and> mb_ToSequence (mvs_Batch snap) \<le> int (length es) \<and>
    acv_HeadHash view = head_hash [] es \<and>
    mb_RootHash (mvs_Batch snap) = merkleRoot (map ace_EntryHash (covered (mvs_Batch snap) es)) \<and>
    validReferencedPayloadSignature (mvs_Subject snap) (mb_SignatureRefs (mvs_Batch snap)) (mvs_Signatures snap) (mvs_Keys snap)
      (mb_RootHash (mvs_Batch snap)) now (at_verifier tools)"
proof -
  let ?b = "mvs_Batch snap"
  obtain merkle chain where m: "InspectMerkleBatch snap now (at_verifier tools) = Inr merkle"
      and c: "inspectAuditChainView tools read psize ctxErr view tenant now = Inr (chain, es)"
      and ins: "ins = inspectMerkleAuditChainCheckpoint chain (acv_EntryCount view) snap (derived_leaves ?b es) merkle"
    using assms(1) by (auto simp: verifyMerkleCheckpoint_def)
  obtain s where s: "chain = Inspection s" "aci_passed s \<Longrightarrow> chain_intact (at_hasher tools) tenant [] 0 es \<and> acv_TenantID view = tenant \<and>
      acv_EntryCount view = i64 (int (length es)) \<and> acv_HeadHash view = head_hash [] es \<and>
      (es = [] \<or> acv_HeadSequence view = ace_Sequence (last es))"
    using view_inspected [OF c] by blast
  note checks = checkpoint_checks [OF assms(2) [unfolded ins s(1)] m]
  then have chain: "chain_intact (at_hasher tools) tenant [] 0 es" "acv_EntryCount view = int (length es)" "acv_HeadHash view = head_hash [] es"
    using s(2) assms(3) by (auto simp: i64_small)
  have "filter (\<lambda>e. mb_FromSequence ?b \<le> ace_Sequence e \<and> ace_Sequence e \<le> mb_ToSequence ?b) es = covered ?b es"
    using intact_range [OF chain(1), of "mb_FromSequence ?b" "mb_ToSequence ?b"] assms(3) by (simp add: covered_def)
  then have "map acl_EntryHash (derived_leaves ?b es) = map ace_EntryHash (covered ?b es)"
    using checks by (simp add: derived_leaves_def comp_def)
  then have "mb_LeafHashes ?b = map ace_EntryHash (covered ?b es)" using checks covers_hashes by simp
  then show ?thesis using checks chain by simp
qed

lemma covered_take:
  assumes "1 \<le> mb_FromSequence b" and "mb_FromSequence b \<le> mb_ToSequence b" and "mb_ToSequence b \<le> int (length es)"
  shows "int (length (covered b es)) = mb_ToSequence b - mb_FromSequence b + 1" and "set (covered b es) \<subseteq> set es"
    and "head_hash [] (take (nat (mb_ToSequence b)) es) = last (map ace_EntryHash (covered b es))"
proof -
  show len: "int (length (covered b es)) = mb_ToSequence b - mb_FromSequence b + 1" using assms by (simp add: covered_def)
  show "set (covered b es) \<subseteq> set es" by (auto simp: covered_def dest!: in_set_dropD in_set_takeD)
  have "covered b es \<noteq> []" using len assms(2) by auto
  moreover have "last (covered b es) = last (take (nat (mb_ToSequence b)) es)" using assms by (simp add: covered_def last_drop)
  moreover have "take (nat (mb_ToSequence b)) es \<noteq> []" using assms by auto
  ultimately show "head_hash [] (take (nat (mb_ToSequence b)) es) = last (map ace_EntryHash (covered b es))"
    by (simp add: head_hash_def last_map)
qed

text \<open>
  C28: A verified checkpoint detects every rewrite of the range it covers, and of everything before
  it. When the receipts of two checkpoint verifications say passed, both chains are intact, the
  signed root is the Merkle root of the entry hashes of the range, and its signature verifies;
  if the two batches have the same range and root, the chains agree on the canonical fields of
  all entries up to the end of the range, or one of two explicit collisions is found.
\<close>

theorem checkpoint_detects_rewrites:
  assumes "verifyMerkleCheckpoint tools read1 psize1 ctxErr1 view1 snap1 tenant1 now1 = Inr (ins1, es1)"
    and "verifyMerkleCheckpoint tools read2 psize2 ctxErr2 view2 snap2 tenant2 now2 = Inr (ins2, es2)"
    and "receipt_state ins1 = Inr VerificationStatePassed" and "receipt_state ins2 = Inr VerificationStatePassed"
    and "int (length es1) < 2 ^ 63" and "int (length es2) < 2 ^ 63"
    and "mb_FromSequence (mvs_Batch snap1) = mb_FromSequence (mvs_Batch snap2)"
    and "mb_ToSequence (mvs_Batch snap1) = mb_ToSequence (mvs_Batch snap2)"
    and "mb_RootHash (mvs_Batch snap1) = mb_RootHash (mvs_Batch snap2)"
  defines "n \<equiv> nat (mb_ToSequence (mvs_Batch snap1))"
    and "leaves1 \<equiv> map ace_EntryHash (covered (mvs_Batch snap1) es1)" and "leaves2 \<equiv> map ace_EntryHash (covered (mvs_Batch snap2) es2)"
  shows "n \<le> length es1 \<and> n \<le> length es2 \<and> mb_RootHash (mvs_Batch snap1) = merkleRoot leaves1 \<and>
    validReferencedPayloadSignature (mvs_Subject snap1) (mb_SignatureRefs (mvs_Batch snap1)) (mvs_Signatures snap1) (mvs_Keys snap1)
      (merkleRoot leaves1) now1 (at_verifier tools) \<and>
    (map (hashed_fields (at_hasher tools)) (take n es1) = map (hashed_fields (at_hasher tools)) (take n es2) \<or>
     (\<exists>x y. merkle_collision leaves1 leaves2 = Some (x, y) \<and> x \<noteq> y \<and> hashBytes x = hashBytes y) \<or>
     real_collision (at_hasher tools) (find_collision (at_hasher tools) (rev (take n es1)) (rev (take n es2))))"
proof -
  note c1 = checkpoint_sound [OF assms(1,3,5)] and c2 = checkpoint_sound [OF assms(2,4,6)]
  have r1: "1 \<le> mb_FromSequence (mvs_Batch snap1)" "mb_FromSequence (mvs_Batch snap1) \<le> mb_ToSequence (mvs_Batch snap1)"
      "mb_ToSequence (mvs_Batch snap1) \<le> int (length es1)" using c1 by simp_all
  have r2: "1 \<le> mb_FromSequence (mvs_Batch snap2)" "mb_FromSequence (mvs_Batch snap2) \<le> mb_ToSequence (mvs_Batch snap2)"
      "mb_ToSequence (mvs_Batch snap2) \<le> int (length es2)" using c2 by simp_all
  note t1 = covered_take [OF r1] and t2 = covered_take [OF r2]
  have len: "length leaves1 = length leaves2" using t1(1) t2(1) assms(7,8) by (simp add: leaves1_def leaves2_def)
  have free: "newline_free leaves1" "newline_free leaves2"
    using newline_free_sub [OF intact_newline_free] c1 c2 t1(2) t2(2) unfolding leaves1_def leaves2_def by (metis image_mono set_map)+
  have root: "merkleRoot leaves1 = merkleRoot leaves2" using c1 c2 assms(9) by (simp add: leaves1_def leaves2_def)
  have heads: "head_hash [] (take n es1) = last leaves1" "head_hash [] (take n es2) = last leaves2"
    using t1(3) t2(3) assms(8) by (simp_all add: n_def leaves1_def leaves2_def)
  have "chain_intact (at_hasher tools) tenant1 [] 0 (take n es1)" "chain_intact (at_hasher tools) tenant2 [] 0 (take n es2)"
    using c1 c2 by (simp_all add: chain_intact_take)
  then have "leaves1 = leaves2 \<Longrightarrow> map (hashed_fields (at_hasher tools)) (take n es1) = map (hashed_fields (at_hasher tools)) (take n es2) \<or>
      real_collision (at_hasher tools) (find_collision (at_hasher tools) (rev (take n es1)) (rev (take n es2)))"
    using heads by (intro tamper_evident) simp_all
  then show ?thesis
    using merkle_binding [OF len free root] c1 r1(3) r2(3) assms(8) unfolding n_def leaves1_def by auto
qed

section \<open>Examples\<close>

lemma utf8_valid_ascii: "list_all (\<lambda>c. byte c < 0x80) s \<Longrightarrow> utf8_valid s"
  by (induction s) (simp_all add: Let_def)

lemma hashBytes_text: "utf8_valid (hashBytes x)" "CHR 0x00 \<notin> set (hashBytes x)"
  using hashBytes_chars [of _ x] by (force intro: utf8_valid_ascii simp: list_all_iff graphic_def contains_nul_def byte_def)+

lemma trim_image: "TrimSpace ` (TrimSpace ` A - {[]}) - {[]} = TrimSpace ` A - {[]}"
proof -
  have "TrimSpace ` (TrimSpace ` A - {[]}) = TrimSpace ` A - {[]}"
  proof (intro set_eqI iffI)
    fix y
    assume "y \<in> TrimSpace ` (TrimSpace ` A - {[]})"
    then show "y \<in> TrimSpace ` A - {[]}" by auto
  next
    fix y
    assume "y \<in> TrimSpace ` A - {[]}"
    then have "y \<in> TrimSpace ` A - {[]}" "TrimSpace y = y" by auto
    then show "y \<in> TrimSpace ` (TrimSpace ` A - {[]})" by (metis imageI)
  qed
  then show ?thesis by simp
qed

text \<open>When every fact holds, the checkpoint passes.\<close>

lemma checkpoint_passes:
  assumes "aci_passed s" and "list_all good_check (aci_checks s)" and "InspectMerkleBatch snap now verifier = Inr merkle"
    and "1 \<le> mb_FromSequence (mvs_Batch snap)" and "mb_FromSequence (mvs_Batch snap) \<le> mb_ToSequence (mvs_Batch snap)"
    and "mb_ToSequence (mvs_Batch snap) \<le> count" and "derived = mvs_Leaves snap" and "covers snap"
    and "merkleRoot (mb_LeafHashes (mvs_Batch snap)) = mb_RootHash (mvs_Batch snap)"
    and "validReferencedPayloadSignature (mvs_Subject snap) (mb_SignatureRefs (mvs_Batch snap)) (mvs_Signatures snap) (mvs_Keys snap)
      (mb_RootHash (mvs_Batch snap)) now verifier"
  shows "receipt_state (inspectMerkleAuditChainCheckpoint (Inspection s) count snap derived merkle) = Inr VerificationStatePassed"
    (is "receipt_state ?ins = _")
proof (rule good_inspection_receipt)
  have merkle: "ins_Checks merkle = [merkle_check ''checkpoint_coverage'' True, merkle_check ''merkle_root'' True,
      merkle_check ''checkpoint_signature'' True]"
    using assms(3,8-10) by (auto simp: InspectMerkleBatch_def Let_def split: if_splits)
  have checks: "ins_Checks ?ins = ins_Checks (Inspection s) @ [merkle_check ''checkpoint_coverage'' True,
      merkle_check ''checkpoint_root'' True, merkle_check ''checkpoint_signature'' True]"
    using assms(4-7) by (simp add: inspectMerkleAuditChainCheckpoint_def Let_def merkle) (simp add: merkle_check_def result_text_def)
  have required: "set (vp_RequiredChecks (ins_Profile ?ins)) = TrimSpace ` (TrimSpace ` vc_Name ` set (ins_Checks (Inspection s)) - {[]} \<union>
      {''checkpoint_coverage'', ''checkpoint_root'', ''checkpoint_signature''}) - {[]}"
    using assms(4-6) by (simp add: inspectMerkleAuditChainCheckpoint_def Let_def NormalizeVerificationProfile_def normalizedStrings_def
        set_trimmed_set Inspection_required)
  show "\<forall>c\<in>set (ins_Checks ?ins). good_check c"
    using assms(1,2) edge_safe_names merkle_names unfolding checks
    by (auto simp: Inspection_def Let_def good_check_def list_all_iff merkle_check_def result_text_def)
  show "set (vp_RequiredChecks (ins_Profile ?ins)) = TrimSpace ` vc_Name ` set (ins_Checks ?ins) - {[]}"
    unfolding required checks image_Un Un_Diff trim_image by (auto simp: merkle_check_def)
qed (simp_all add: inspectMerkleAuditChainCheckpoint_def Let_def NormalizeVerificationProfile_def Inspection_def
    VerificationProfileAuditChainMerkleCheckpoint_def edge_safe_def graphic_def byte_def)

definition sample_batch :: MerkleBatch where
  "sample_batch = \<lparr>mb_ID = ''b1'', mb_TenantID = ''t1'', mb_FromSequence = 1, mb_ToSequence = 1, mb_EntryCount = 1,
     mb_LeafHashes = [ace_EntryHash sample_entry], mb_RootHash = ace_EntryHash sample_entry, mb_SignatureRefs = [''s1''],
     mb_SchemaVersion = MerkleBatchSchemaVersion, mb_CreatedAt = 2\<rparr>"

definition sample_signature :: Signature where
  "sample_signature = \<lparr>sig_ID = ''s1'', sig_TenantID = ''t1'', sig_SubjectType = ''merkle_batch'', sig_SubjectID = ''b1'',
     sig_KeyID = ''k1'', sig_Algorithm = ''Ed25519'', sig_Value = ''good'', sig_CreatedAt = 2\<rparr>"

definition sample_snapshot :: MerkleVerificationSnapshot where
  "sample_snapshot = \<lparr>mvs_Subject = \<lparr>sub_TenantID = ''t1'', sub_Type = ''merkle_batch'', sub_ID = ''b1'', sub_Resources = no_refs\<rparr>,
     mvs_Batch = sample_batch, mvs_Leaves = [\<lparr>acl_Sequence = 1, acl_EntryHash = ace_EntryHash sample_entry\<rparr>],
     mvs_Signatures = [sample_signature], mvs_Keys = [ssk_Key (sample_key ''k1'' 1)]\<rparr>"

lemma sample_entry_hash: "\<exists>x. ace_EntryHash sample_entry = hashBytes x"
  by (simp add: sample_entry_def Let_def auditChainLinkHash_def) blast

lemma sample_facts:
  "covers sample_snapshot" "merkleRoot (mb_LeafHashes sample_batch) = mb_RootHash sample_batch"
  "validReferencedPayloadSignature (mvs_Subject sample_snapshot) [''s1''] (mvs_Signatures sample_snapshot) (mvs_Keys sample_snapshot)
     (mb_RootHash sample_batch) 5 (at_verifier sample_tools)"
  by (simp_all add: covers_def sample_snapshot_def sample_batch_def merkleRoot_def merkle_loop.simps validReferencedPayloadSignature_def
      sample_signature_def sample_key_def key_lookup_def HistoricalValidityAt_def sample_tools_def signing_key_constants)

lemma sample_batch_inspected: "\<exists>ins. InspectMerkleBatch sample_snapshot 5 (at_verifier sample_tools) = Inr ins"
proof -
  obtain x where x: "ace_EntryHash sample_entry = hashBytes x" using sample_entry_hash by blast
  have "merkleVerificationWithinBudget sample_snapshot"
    by (simp add: merkleVerificationWithinBudget_def public_material_texts_def sample_snapshot_def sample_batch_def sample_signature_def
        sample_key_def x hashBytes_text MaxBundleVerificationBytes_def contains_nul_def byte_def signing_key_constants)
  then show ?thesis
    by (simp add: InspectMerkleBatch_def validSubjectReference_def MaxMerkleVerificationLeaves_def MaxBundleVerificationSignatures_def)
      (simp add: sample_snapshot_def sample_batch_def edge_safe_def graphic_def byte_def)
qed

theorem checkpoint_detects_rewrites_witness:
  "\<exists>ins. verifyMerkleCheckpoint sample_tools sample_reader (\<lambda>_. Some 1) (\<lambda>_. None) sample_view sample_snapshot ''t1'' 5 =
      Inr (ins, [sample_entry]) \<and> receipt_state ins = Inr VerificationStatePassed \<and>
    mb_RootHash sample_batch = merkleRoot (map ace_EntryHash (covered sample_batch [sample_entry]))"
proof -
  obtain m where m: "InspectMerkleBatch sample_snapshot 5 (at_verifier sample_tools) = Inr m" using sample_batch_inspected by blast
  define ins where "ins = inspectMerkleAuditChainCheckpoint (Inspection sample_inspector) 1 sample_snapshot
    (derived_leaves sample_batch [sample_entry]) m"
  have b: "mvs_Batch sample_snapshot = sample_batch" "acv_EntryCount sample_view = 1" "mb_FromSequence sample_batch = 1"
      "mb_ToSequence sample_batch = 1" "mb_SignatureRefs sample_batch = [''s1'']"
    by (simp_all add: sample_snapshot_def sample_view_def sample_batch_def)
  have run: "verifyMerkleCheckpoint sample_tools sample_reader (\<lambda>_. Some 1) (\<lambda>_. None) sample_view sample_snapshot ''t1'' 5 =
      Inr (ins, [sample_entry])"
    by (simp add: verifyMerkleCheckpoint_def m sample_inspection_runs ins_def b)
  have "derived_leaves sample_batch [sample_entry] = mvs_Leaves sample_snapshot"
    by (simp add: derived_leaves_def sample_snapshot_def sample_batch_def sample_entry_def sample_raw_def Let_def)
  then have passed: "receipt_state ins = Inr VerificationStatePassed"
    unfolding ins_def using sample_inspector_good m sample_facts b by (intro checkpoint_passes) simp_all
  show ?thesis
    using checkpoint_detects_rewrites [OF run run passed passed] run passed b by auto
qed

text \<open>A store with one entry and one key, and a command that signs its chain.\<close>

definition sample_old :: AuditChainEntry where
  "sample_old = (sample_raw ''a0'')\<lparr>ace_Sequence := 1, ace_EntryHash := ''h1''\<rparr>"

definition sample_merkle :: merkle_store where
  "sample_merkle = \<lparr>ms_integrity = sample_ring\<lparr>is_audit := \<lparr>as_tenants = [''t1''], as_entries = [(''t1'', [sample_old])]\<rparr>\<rparr>, ms_batches = []\<rparr>"

definition sample_merkle_command :: merkle_command where
  "sample_merkle_command = \<lparr>mc_ctx = None, mc_authorize = None, mc_txAuthorize = None, mc_now = 20, mc_batchID = ''b1'', mc_auditID = ''a1'',
     mc_sign = (\<lambda>_. Inr \<lparr>sres_Signature = sample_signature, sres_NewKey = None\<rparr>), mc_hasher = (\<lambda>_. Inr ''c'')\<rparr>"

definition sample_created :: MerkleBatch where
  "sample_created = \<lparr>mb_ID = ''b1'', mb_TenantID = ''t1'', mb_FromSequence = 1, mb_ToSequence = 1, mb_EntryCount = 1, mb_LeafHashes = [''h1''],
     mb_RootHash = ''h1'', mb_SignatureRefs = [''s1''], mb_SchemaVersion = MerkleBatchSchemaVersion, mb_CreatedAt = 20\<rparr>"

lemma sample_merkle_chain: "chain_of (is_audit (ms_integrity sample_merkle)) ''t1'' = [sample_old]"
  by (simp add: sample_merkle_def chain_of_def tbl_get_def)

lemma sample_tenant: "memoryMembershipQueryText ''t1'' 1024" "require_tenant (ms_integrity sample_merkle) ''t1'' = None"
  by (simp_all add: memoryMembershipQueryText_def memoryMembershipText_def edge_safe_def graphic_def byte_def contains_nul_def
      require_tenant_def require_audit_tenant_def sample_merkle_def)

lemma sample_merkle_reads:
  "LockMerkleCreationView sample_merkle ''t1'' = Inr \<lparr>mcv_TenantID = ''t1'', mcv_EntryCount = 1, mcv_FirstSequence = 1, mcv_LastSequence = 1,
     mcv_HasEmptyHash = False\<rparr>"
  "ReadMerkleCreationLeaves sample_merkle ''t1'' 1 1 = Inr [\<lparr>acl_Sequence = 1, acl_EntryHash = ''h1''\<rparr>]"
proof -
  have "leaf_size \<lparr>acl_Sequence = 1, acl_EntryHash = ''h1''\<rparr> = 31" by code_simp
  moreover have "memoryGovernanceText ''h1'' 1024" by (simp add: memoryGovernanceText_def byte_def contains_nul_def)
  ultimately show "ReadMerkleCreationLeaves sample_merkle ''t1'' 1 1 = Inr [\<lparr>acl_Sequence = 1, acl_EntryHash = ''h1''\<rparr>]"
    by (simp add: ReadMerkleCreationLeaves_def tenantRead_def sample_tenant memoryMerkleLeaves_def sample_merkle_chain sample_old_def
        sample_raw_def MaxMerkleVerificationLeaves_def MaxBundleVerificationBytes_def)
  show "LockMerkleCreationView sample_merkle ''t1'' = Inr \<lparr>mcv_TenantID = ''t1'', mcv_EntryCount = 1, mcv_FirstSequence = 1,
      mcv_LastSequence = 1, mcv_HasEmptyHash = False\<rparr>"
    by (simp add: LockMerkleCreationView_def tenantRead_def sample_tenant sample_merkle_chain zero_view_def view_step_def sample_old_def
        sample_raw_def edge_safe_def graphic_def byte_def)
qed

lemma sample_merkle_audit:
  assumes "is_audit i = is_audit (ms_integrity sample_merkle)"
  shows "\<exists>a. appendAuditEvent (mc_hasher sample_merkle_command) (batch_event sample_merkle_command key_admin sample_created ''s1'') i =
    Inr (i\<lparr>is_audit := a\<rparr>)"
proof -
  have year: "year_of 20 = 1" by code_simp
  have actor: "auditActorType key_admin = ''api_key''" "auditActorID key_admin = ''key''" "actor_TenantID key_admin = ''t1''"
    by code_simp+
  have "\<exists>r. appendAudit (mc_hasher sample_merkle_command) (event_entry (batch_event sample_merkle_command key_admin sample_created ''s1''))
      (is_audit i) = Inr r"
    using sample_merkle_chain unfolding assms
    by (simp add: appendAudit_def event_entry_def batch_event_def sample_merkle_command_def actor require_audit_tenant_def sample_merkle_def
        RehashAuditChainEntry_def Let_def CanonicalAuditChainEntryHash_def canonical_fields_def cloneMemoryAuditEntry_def year
        AuditChainEntrySchemaVersion_def AuditChainEntryLegacySchemaVersion_def sample_created_def sample_old_def sample_raw_def)
  then show ?thesis by (auto simp: appendAuditEvent_def)
qed

lemma sample_creates:
  "\<exists>s'. createMerkleBatch sample_merkle_command key_admin \<lparr>cmb_FromSequence = 0, cmb_ToSequence = 0\<rparr> sample_merkle = Inr (sample_created, s')"
proof -
  define i where "i = (case InsertSignature sample_signature (ms_integrity sample_merkle) of Inr i \<Rightarrow> i)"
  have sig: "InsertSignature sample_signature (ms_integrity sample_merkle) = Inr i" "is_audit i = is_audit (ms_integrity sample_merkle)"
    unfolding i_def by code_simp+
  obtain a where a: "appendAuditEvent (mc_hasher sample_merkle_command) (batch_event sample_merkle_command key_admin sample_created ''s1'') i =
      Inr (i\<lparr>is_audit := a\<rparr>)" using sample_merkle_audit [OF sig(2)] by blast
  have insert: "InsertMerkleBatch sample_created (sample_merkle\<lparr>ms_integrity := i\<rparr>) =
      Inr (sample_merkle\<lparr>ms_integrity := i, ms_batches := tbl_put [] ''b1'' sample_created\<rparr>)"
    by (simp add: InsertMerkleBatch_def require_tenant_def sig(2) sample_created_def MerkleBatchSchemaVersion_def)
      (simp add: sample_merkle_def require_audit_tenant_def)
  have loop: "hashes_loop 1 [\<lparr>acl_Sequence = 1, acl_EntryHash = ''h1''\<rparr>] = Inr [''h1'']"
    by (simp add: validSigningKeyText_def edge_safe_def graphic_def byte_def contains_nul_def)
  have facts: "leaves_size [\<lparr>acl_Sequence = 1, acl_EntryHash = ''h1''\<rparr>] = 33" "merkleRoot [''h1''] = ''h1''"
      "validSignature sample_signature ''t1'' ''merkle_batch'' ''b1'' 20" "sig_ID sample_signature = ''s1''" "actor_TenantID key_admin = ''t1''"
    by code_simp+
  have store: "store_batch sample_merkle_command key_admin 1 1 [''h1''] \<lparr>sres_Signature = sample_signature, sres_NewKey = None\<rparr> sample_merkle =
      Inr (sample_created, sample_merkle\<lparr>ms_integrity := i\<lparr>is_audit := a\<rparr>, ms_batches := tbl_put [] ''b1'' sample_created\<rparr>)"
    using insert a sig(1) by (simp add: store_batch_def Let_def facts on_integrity_def sample_created_def sample_merkle_command_def)
  show ?thesis
    by (simp add: createMerkleBatch_def sample_checks facts sample_merkle_reads loop ValidateMerkleCreationInput_def
        MaxMerkleVerificationLeaves_def MaxBundleVerificationBytes_def store del: hashes_loop.simps)
      (simp add: sample_merkle_command_def store [unfolded sample_merkle_command_def])
qed

theorem merkle_batch_verifies_witness:
  "\<exists>s'. createMerkleBatch sample_merkle_command key_admin \<lparr>cmb_FromSequence = 0, cmb_ToSequence = 0\<rparr> sample_merkle = Inr (sample_created, s') \<and>
     tbl_get (ms_batches s') ''b1'' = Some sample_created"
proof -
  obtain s' where s': "createMerkleBatch sample_merkle_command key_admin \<lparr>cmb_FromSequence = 0, cmb_ToSequence = 0\<rparr> sample_merkle =
      Inr (sample_created, s')" using sample_creates by blast
  have b: "mb_ID sample_created = ''b1''" "TrimSpace ''b1'' = ''b1''" "actor_TenantID key_admin = ''t1''" by code_simp+
  have none: "append_all h [] (is_audit (ms_integrity s')) = Inr (is_audit (ms_integrity s'))" for h by simp
  obtain h e r where ev: "appendAudit h e (is_audit (ms_integrity sample_merkle)) = Inr (r, is_audit (ms_integrity s'))"
    using s' by (rule created_leaves) blast
  have "length (chain_of (is_audit (ms_integrity s')) ''t1'') \<le> 2"
    by (rule appendAudit_grows [OF ev, where t = "''t1''"]) (simp add: sample_merkle_chain)
  then have "int (length (chain_of (is_audit (ms_integrity s')) (actor_TenantID key_admin))) < 2 ^ 63" by (simp add: b)
  from merkle_batch_verifies [OF s' none this, of 30] show ?thesis using s' b by simp
qed

end
