(* ===== verification/Pagination.thy ===== *)
theory Pagination
  imports Json_Text "HOL-Library.Multiset"
begin

text \<open>
  Bounded pages over ordered records (\<^verbatim>\<open>internal/app/query/pagination.go\<close>): the sort keys and their
  order, the validation of a request, and \<^verbatim>\<open>Page\<close>, which every in-memory listing uses. The
  authenticated cursor token is not modelled; a cursor is its sort key.
\<close>

section \<open>Keys and requests\<close>

definition DefaultPageSize :: int where "DefaultPageSize = 50"
definition MaxPageSize :: int where "MaxPageSize = 500"

definition ErrInvalidCursor :: error where "ErrInvalidCursor = ErrOther ''invalid cursor''"
definition ErrInvalidPage :: error where "ErrInvalidPage = ErrOther ''invalid page request''"

definition SortCreatedAt :: string where "SortCreatedAt = ''created_at''"
definition SortID :: string where "SortID = ''id''"
definition Ascending :: string where "Ascending = ''asc''"
definition Descending :: string where "Descending = ''desc''"

record SortKey =
  key_Value :: string
  key_ID :: string

record PageRequest =
  pr_PageSize :: int
  pr_Sort :: string
  pr_Direction :: string

record 'a PageResult =
  pg_Items :: "'a list"
  pg_Next :: "SortKey option"

definition compare :: "SortKey \<Rightarrow> SortKey \<Rightarrow> int" where
  "compare left right =
    (if key_Value left < key_Value right then - 1
     else if key_Value left > key_Value right then 1
     else if key_ID left < key_ID right then - 1
     else if key_ID left > key_ID right then 1
     else 0)"

definition validBoundedString :: "string \<Rightarrow> bool" where
  "validBoundedString v \<longleftrightarrow> v \<noteq> [] \<and> length v \<le> 1024"

definition validSort :: "string \<Rightarrow> bool" where
  "validSort s \<longleftrightarrow> s = SortCreatedAt \<or> s = SortID"

definition validDirection :: "string \<Rightarrow> bool" where
  "validDirection d \<longleftrightarrow> d = Ascending \<or> d = Descending"

definition Validate :: "PageRequest \<Rightarrow> SortKey option \<Rightarrow> error option" where
  "Validate request after =
    (if pr_PageSize request < 1 \<or> pr_PageSize request > MaxPageSize \<or> \<not> validSort (pr_Sort request) \<or>
        \<not> validDirection (pr_Direction request) then Some ErrInvalidPage
     else case after of
       None \<Rightarrow> None
     | Some k \<Rightarrow> (if \<not> validBoundedString (key_Value k) \<or> \<not> validBoundedString (key_ID k) then Some ErrInvalidCursor else None))"

definition RecordSortKey :: "string \<Rightarrow> time \<Rightarrow> string \<Rightarrow> SortKey" where
  "RecordSortKey i createdAt field =
    (if field = SortCreatedAt then \<lparr>key_Value = Format_RFC3339Nano createdAt, key_ID = i\<rparr>
     else if field = SortID then \<lparr>key_Value = i, key_ID = i\<rparr>
     else \<lparr>key_Value = [], key_ID = []\<rparr>)"

section \<open>Pages\<close>

text \<open>The comparison handed to \<^verbatim>\<open>sort.SliceStable\<close>, and a stable sort by it.\<close>

definition before :: "string \<Rightarrow> SortKey \<Rightarrow> SortKey \<Rightarrow> bool" where
  "before direction left right \<longleftrightarrow> (if direction = Descending then compare left right > 0 else compare left right < 0)"

fun insert_stable :: "('a \<Rightarrow> 'a \<Rightarrow> bool) \<Rightarrow> 'a \<Rightarrow> 'a list \<Rightarrow> 'a list" where
  "insert_stable lt x [] = [x]"
| "insert_stable lt x (y # ys) = (if lt y x then y # insert_stable lt x ys else x # y # ys)"

definition SliceStable :: "('a \<Rightarrow> 'a \<Rightarrow> bool) \<Rightarrow> 'a list \<Rightarrow> 'a list" where
  "SliceStable lt xs = foldr (insert_stable lt) xs []"

text \<open>The loop that moves \<^verbatim>\<open>start\<close> past the cursor: whether its key was met, and the items from \<^verbatim>\<open>start\<close> on.\<close>

fun start_loop :: "('a \<Rightarrow> SortKey) \<Rightarrow> string \<Rightarrow> SortKey \<Rightarrow> 'a list \<Rightarrow> bool \<Rightarrow> bool \<times> 'a list" where
  "start_loop key direction after [] found = (found, [])"
| "start_loop key direction after (x # xs) found =
    (let comparison = compare (key x) after;
         found = (found \<or> comparison = 0) in
     if direction = Ascending \<and> comparison > 0 \<or> direction = Descending \<and> comparison < 0 then (found, x # xs)
     else start_loop key direction after xs found)"

definition Page :: "'a list \<Rightarrow> PageRequest \<Rightarrow> SortKey option \<Rightarrow> ('a \<Rightarrow> string \<Rightarrow> SortKey) \<Rightarrow> 'a PageResult result" where
  "Page items request after keyOf =
    check_then (Validate request after)
    (let key = (\<lambda>item. keyOf item (pr_Sort request)) in
     if list_ex (\<lambda>item. \<not> validBoundedString (key_Value (key item)) \<or> \<not> validBoundedString (key_ID (key item))) items
     then Inl ErrInvalidPage
     else let ordered = SliceStable (\<lambda>x y. before (pr_Direction request) (key x) (key y)) items;
              (found, rest) = (case after of None \<Rightarrow> (True, ordered) | Some k \<Rightarrow> start_loop key (pr_Direction request) k ordered False);
              size = nat (pr_PageSize request) in
     if \<not> found then Inl ErrInvalidCursor
     else Inr \<lparr>pg_Items = take size rest,
       pg_Next = (if size < length rest then Some (key (last (take size rest))) else None)\<rparr>)"

section \<open>The order of keys\<close>

lemma compare_zero: "compare a b = 0 \<longleftrightarrow> a = b"
  by (cases a; cases b) (auto simp: compare_def)

lemma before_irrefl [simp]: "\<not> before d a a"
  by (simp add: before_def compare_def)

lemma before_trans: "before d a b \<Longrightarrow> before d b c \<Longrightarrow> before d a c"
  by (auto simp: before_def compare_def split: if_splits)

lemma before_total: "a \<noteq> b \<Longrightarrow> before d a b \<or> before d b a"
  by (cases a; cases b) (auto simp: before_def compare_def)

lemma before_asym: "before d a b \<Longrightarrow> \<not> before d b a"
  using before_trans before_irrefl by blast

section \<open>Sorting\<close>

lemma mset_insert_stable: "mset (insert_stable lt x xs) = add_mset x (mset xs)"
  by (induction xs) auto

lemma mset_SliceStable [simp]: "mset (SliceStable lt xs) = mset xs"
  by (induction xs) (simp_all add: SliceStable_def mset_insert_stable)

lemma set_SliceStable [simp]: "set (SliceStable lt xs) = set xs"
  by (metis mset_SliceStable set_mset_mset)

lemma length_SliceStable [simp]: "length (SliceStable lt xs) = length xs"
  by (metis mset_SliceStable size_mset)

lemma set_insert_stable [simp]: "set (insert_stable lt x xs) = insert x (set xs)"
  by (induction xs) auto

lemma sorted_insert_stable:
  assumes "sorted_wrt (\<lambda>x y. before d (key x) (key y)) xs" and "\<forall>y\<in>set xs. key x \<noteq> key y"
  shows "sorted_wrt (\<lambda>x y. before d (key x) (key y)) (insert_stable (\<lambda>x y. before d (key x) (key y)) x xs)"
  using assms
proof (induction xs)
  case (Cons y ys)
  then show ?case using before_total [of "key x" "key y" d] by (auto intro: before_trans)
qed simp

lemma sorted_SliceStable:
  "distinct (map key xs) \<Longrightarrow> sorted_wrt (\<lambda>x y. before d (key x) (key y)) (SliceStable (\<lambda>x y. before d (key x) (key y)) xs)"
proof (induction xs)
  case (Cons x xs)
  have set: "set (foldr (insert_stable (\<lambda>x y. before d (key x) (key y))) xs []) = set xs"
    using set_SliceStable [of "\<lambda>x y. before d (key x) (key y)" xs] by (simp add: SliceStable_def)
  show ?case
    using Cons sorted_insert_stable [where x = x and key = key and d = d and
        xs = "foldr (insert_stable (\<lambda>x y. before d (key x) (key y))) xs []"] set
    by (auto simp: SliceStable_def image_iff)
qed (simp add: SliceStable_def)

text \<open>On a sorted list the loop keeps the items after the cursor and meets the cursor when it is a key.\<close>

lemma start_loop_sorted:
  assumes "sorted_wrt (\<lambda>x y. before d (key x) (key y)) xs" and "validDirection d"
  shows "snd (start_loop key d k xs found) = filter (\<lambda>x. before d k (key x)) xs \<and>
    (fst (start_loop key d k xs found) \<longleftrightarrow> found \<or> k \<in> key ` set xs)"
  using assms
proof (induction xs arbitrary: found)
  case (Cons x xs)
  have stop: "(d = Ascending \<and> compare (key x) k > 0 \<or> d = Descending \<and> compare (key x) k < 0) \<longleftrightarrow> before d k (key x)"
    using Cons.prems(2) by (auto simp: before_def compare_def validDirection_def Ascending_def Descending_def)
  show ?case
  proof (cases "before d k (key x)")
    case True
    then have "filter (\<lambda>x. before d k (key x)) xs = xs" "k \<notin> key ` set xs"
      using Cons.prems(1) before_trans [of d k "key x"] before_irrefl by (force intro!: filter_True)+
    then show ?thesis using True stop by (auto simp: Let_def compare_zero)
  next
    case False
    then show ?thesis using Cons stop by (auto simp: Let_def compare_zero)
  qed
qed simp

section \<open>What a page holds\<close>

abbreviation key_in :: "PageRequest \<Rightarrow> ('a \<Rightarrow> string \<Rightarrow> SortKey) \<Rightarrow> 'a \<Rightarrow> SortKey" where
  "key_in request keyOf item \<equiv> keyOf item (pr_Sort request)"

definition ordered_items :: "'a list \<Rightarrow> PageRequest \<Rightarrow> ('a \<Rightarrow> string \<Rightarrow> SortKey) \<Rightarrow> 'a list" where
  "ordered_items items request keyOf =
    SliceStable (\<lambda>x y. before (pr_Direction request) (key_in request keyOf x) (key_in request keyOf y)) items"

definition valid_keys :: "'a list \<Rightarrow> PageRequest \<Rightarrow> ('a \<Rightarrow> string \<Rightarrow> SortKey) \<Rightarrow> bool" where
  "valid_keys items request keyOf \<longleftrightarrow> distinct (map (key_in request keyOf) items) \<and>
    list_all (\<lambda>item. validBoundedString (key_Value (key_in request keyOf item)) \<and> validBoundedString (key_ID (key_in request keyOf item))) items"

text \<open>The items after a cursor, all of them when there is none.\<close>

definition items_after :: "'a list \<Rightarrow> PageRequest \<Rightarrow> SortKey option \<Rightarrow> ('a \<Rightarrow> string \<Rightarrow> SortKey) \<Rightarrow> 'a list" where
  "items_after items request after keyOf =
    filter (\<lambda>x. case after of None \<Rightarrow> True | Some k \<Rightarrow> before (pr_Direction request) k (key_in request keyOf x))
      (ordered_items items request keyOf)"

lemma Validate_direction: "Validate request after = None \<Longrightarrow> validDirection (pr_Direction request) \<and> 1 \<le> pr_PageSize request"
  by (auto simp: Validate_def split: if_splits)

lemma Page_eq:
  assumes "Validate request after = None" and "valid_keys items request keyOf"
  shows "Page items request after keyOf =
    (if \<exists>k. after = Some k \<and> k \<notin> key_in request keyOf ` set items then Inl ErrInvalidCursor
     else let rest = items_after items request after keyOf; size = nat (pr_PageSize request) in
       Inr \<lparr>pg_Items = take size rest,
         pg_Next = (if size < length rest then Some (key_in request keyOf (last (take size rest))) else None)\<rparr>)"
proof -
  have ok: "\<not> list_ex (\<lambda>item. \<not> validBoundedString (key_Value (key_in request keyOf item)) \<or>
      \<not> validBoundedString (key_ID (key_in request keyOf item))) items"
    using assms(2) by (auto simp: valid_keys_def list_all_iff list_ex_iff)
  have sorted: "sorted_wrt (\<lambda>x y. before (pr_Direction request) (key_in request keyOf x) (key_in request keyOf y))
      (ordered_items items request keyOf)"
    using assms(2) by (simp add: valid_keys_def ordered_items_def sorted_SliceStable)
  have set: "set (ordered_items items request keyOf) = set items" by (simp add: ordered_items_def)
  show ?thesis
  proof (cases after)
    case None
    then show ?thesis using assms(1) ok by (simp add: Page_def items_after_def ordered_items_def Let_def)
  next
    case (Some k)
    note loop = start_loop_sorted [OF sorted, of k False] Validate_direction [OF assms(1)]
    obtain found rest where fr: "start_loop (key_in request keyOf) (pr_Direction request) k (ordered_items items request keyOf) False = (found, rest)"
      by (metis surj_pair)
    then have "rest = items_after items request after keyOf" "found \<longleftrightarrow> k \<in> key_in request keyOf ` set items"
      using loop Some set by (auto simp: items_after_def)
    then show ?thesis
      using assms(1) ok fr Some by (simp add: Page_def ordered_items_def [symmetric] Let_def)
  qed
qed

text \<open>
  C29: A page is exactly the next items. For records with distinct, bounded keys, the order of a
  listing is a strictly sorted permutation of them; a page after a cursor that is the key of a
  record holds the first items after it, at most as many as requested, and names the key of its
  last item as the next cursor exactly when more follow; a cursor that is no key is refused.
\<close>

theorem page_exact:
  assumes "Validate request after = None" and "valid_keys items request keyOf"
  shows "Page items request after keyOf =
    (if \<exists>k. after = Some k \<and> k \<notin> key_in request keyOf ` set items then Inl ErrInvalidCursor
     else let rest = items_after items request after keyOf; size = nat (pr_PageSize request) in
       Inr \<lparr>pg_Items = take size rest,
         pg_Next = (if size < length rest then Some (key_in request keyOf (last (take size rest))) else None)\<rparr>) \<and>
    mset (ordered_items items request keyOf) = mset items \<and>
    sorted_wrt (\<lambda>x y. before (pr_Direction request) (key_in request keyOf x) (key_in request keyOf y)) (ordered_items items request keyOf)"
  using Page_eq [OF assms] assms(2) by (simp add: valid_keys_def ordered_items_def sorted_SliceStable)

section \<open>Reading all pages\<close>

text \<open>A client that asks for the next page until there is none; no result when the fuel is spent.\<close>

fun read_all :: "nat \<Rightarrow> 'a list \<Rightarrow> PageRequest \<Rightarrow> SortKey option \<Rightarrow> ('a \<Rightarrow> string \<Rightarrow> SortKey) \<Rightarrow> 'a list result option" where
  "read_all 0 items request after keyOf = None"
| "read_all (Suc fuel) items request after keyOf =
    (case Page items request after keyOf of
       Inl e \<Rightarrow> Some (Inl e)
     | Inr page \<Rightarrow>
        (case pg_Next page of
           None \<Rightarrow> Some (Inr (pg_Items page))
         | Some k \<Rightarrow> map_option (\<lambda>r. bind_result r (\<lambda>rest. Inr (pg_Items page @ rest))) (read_all fuel items request (Some k) keyOf)))"

lemma filter_after_nth:
  assumes "sorted_wrt (\<lambda>x y. before d (key x) (key y)) xs" and "n < length xs"
  shows "filter (\<lambda>x. before d (key (xs ! n)) (key x)) xs = drop (Suc n) xs"
proof -
  have "xs = take (Suc n) xs @ drop (Suc n) xs" by simp
  moreover have "filter (\<lambda>x. before d (key (xs ! n)) (key x)) (take (Suc n) xs) = []"
  proof (rule filter_False, intro ballI)
    fix x
    assume "x \<in> set (take (Suc n) xs)"
    then obtain i where "i \<le> n" "x = xs ! i" by (auto simp: in_set_conv_nth less_Suc_eq_le)
    then show "\<not> before d (key (xs ! n)) (key x)"
      using assms sorted_wrt_nth_less [OF assms(1), of i n] before_asym [of d] by (cases "i = n") auto
  qed
  moreover have "filter (\<lambda>x. before d (key (xs ! n)) (key x)) (drop (Suc n) xs) = drop (Suc n) xs"
  proof (rule filter_True, intro ballI)
    fix x
    assume "x \<in> set (drop (Suc n) xs)"
    then obtain i where "i < length xs - Suc n" "x = xs ! (Suc n + i)" by (auto simp: in_set_conv_nth)
    then show "before d (key (xs ! n)) (key x)" using sorted_wrt_nth_less [OF assms(1), of n "Suc n + i"] by simp
  qed
  ultimately show ?thesis by (metis append_Nil filter_append)
qed

text \<open>The page after the first \<open>m\<close> items.\<close>

definition cursor_at :: "'a list \<Rightarrow> PageRequest \<Rightarrow> ('a \<Rightarrow> string \<Rightarrow> SortKey) \<Rightarrow> nat \<Rightarrow> SortKey option" where
  "cursor_at items request keyOf m =
    (if m = 0 then None else Some (key_in request keyOf (ordered_items items request keyOf ! (m - 1))))"

lemma page_at:
  assumes "Validate request None = None" and "valid_keys items request keyOf" and "m \<le> length items"
  defines "xs \<equiv> ordered_items items request keyOf" and "n \<equiv> nat (pr_PageSize request)"
  shows "Page items request (cursor_at items request keyOf m) keyOf =
    Inr \<lparr>pg_Items = take n (drop m xs), pg_Next = (if n < length items - m then cursor_at items request keyOf (m + n) else None)\<rparr>"
proof -
  have xs: "set xs = set items" "length xs = length items" by (simp_all add: xs_def ordered_items_def)
  have n: "1 \<le> n" using Validate_direction [OF assms(1)] by (simp add: n_def Suc_le_eq)
  have sorted: "sorted_wrt (\<lambda>x y. before (pr_Direction request) (key_in request keyOf x) (key_in request keyOf y)) xs"
    using assms(2) by (simp add: valid_keys_def xs_def ordered_items_def sorted_SliceStable)
  have mem: "xs ! (m - 1) \<in> set items" if "m \<noteq> 0"
  proof -
    have "m - 1 < length xs" using that assms(3) xs(2) by linarith
    then show ?thesis using xs(1) nth_mem by blast
  qed
  have valid: "Validate request (cursor_at items request keyOf m) = None"
    and known: "\<nexists>k. cursor_at items request keyOf m = Some k \<and> k \<notin> key_in request keyOf ` set items"
    and rest: "items_after items request (cursor_at items request keyOf m) keyOf = drop m xs"
  proof -
    show "Validate request (cursor_at items request keyOf m) = None"
    proof (cases "m = 0")
      case False
      then show ?thesis using assms(1,2) mem
        by (auto simp: Validate_def cursor_at_def valid_keys_def list_all_iff xs_def split: if_splits)
    qed (use assms(1) in \<open>simp add: cursor_at_def\<close>)
    show "\<nexists>k. cursor_at items request keyOf m = Some k \<and> k \<notin> key_in request keyOf ` set items"
      using mem by (auto simp: cursor_at_def xs_def [symmetric])
    show "items_after items request (cursor_at items request keyOf m) keyOf = drop m xs"
      using filter_after_nth [OF sorted, of "m - 1"] assms(3) xs by (auto simp: items_after_def cursor_at_def xs_def [symmetric])
  qed
  have last: "last (take n (drop m xs)) = xs ! (m + n - 1)" if "n < length items - m"
    using that n xs(2) by (simp add: last_conv_nth)
  show ?thesis
    unfolding Page_eq [OF valid assms(2)] rest n_def [symmetric] using known last n xs(2)
    by (simp add: Let_def cursor_at_def xs_def [symmetric])
qed

lemma read_all_from:
  assumes "Validate request None = None" and "valid_keys items request keyOf" and "m \<le> length items"
    and "length items - m \<le> fuel * nat (pr_PageSize request)"
  shows "read_all (Suc fuel) items request (cursor_at items request keyOf m) keyOf = Some (Inr (drop m (ordered_items items request keyOf)))"
  using assms(3,4)
proof (induction fuel arbitrary: m)
  case 0
  then show ?case using page_at [OF assms(1,2) 0(1)] by (simp add: ordered_items_def)
next
  case (Suc fuel)
  let ?n = "nat (pr_PageSize request)" and ?xs = "ordered_items items request keyOf"
  note page = page_at [OF assms(1,2) Suc.prems(1)]
  show ?case
  proof (cases "?n < length items - m")
    case True
    then have ih: "read_all (Suc fuel) items request (cursor_at items request keyOf (m + ?n)) keyOf = Some (Inr (drop (m + ?n) ?xs))"
      using Suc.prems by (intro Suc.IH) auto
    have "?n \<noteq> 0" using Validate_direction [OF assms(1)] by simp
    then obtain k where k: "cursor_at items request keyOf (m + ?n) = Some k" by (simp add: cursor_at_def)
    have "take ?n (drop m ?xs) @ drop (m + ?n) ?xs = drop m ?xs"
      using append_take_drop_id [of ?n "drop m ?xs"] by (simp add: add.commute)
    then show ?thesis using page True ih k read_all.simps(2) [of "Suc fuel"] by simp
  next
    case False
    then have "take ?n (drop m ?xs) = drop m ?xs" by (simp add: ordered_items_def)
    then show ?thesis using page False by simp
  qed
qed

text \<open>
  C30: Reading page after page ends and misses nothing: for records with distinct, bounded keys a
  client that follows the cursors from the start gets every record exactly once, in the order of
  the listing, after at most one page more than the number of records divided by the page size.
\<close>

theorem pages_complete:
  assumes "Validate request None = None" and "valid_keys items request keyOf"
    and "length items div nat (pr_PageSize request) + 1 \<le> fuel"
  shows "read_all (Suc fuel) items request None keyOf = Some (Inr (ordered_items items request keyOf)) \<and>
    mset (ordered_items items request keyOf) = mset items"
proof -
  have n: "1 \<le> nat (pr_PageSize request)" using Validate_direction [OF assms(1)] by (simp add: Suc_le_eq)
  have "length items \<le> (length items div nat (pr_PageSize request) + 1) * nat (pr_PageSize request)"
    using n by (metis add_mult_distrib div_mult_mod_eq less_imp_le_nat mod_less_divisor mult_1 nat_add_left_cancel_le
        less_le_trans zero_less_one)
  also have "\<dots> \<le> fuel * nat (pr_PageSize request)" using assms(3) by (rule mult_le_mono1)
  finally show ?thesis
    using read_all_from [OF assms(1,2), of 0 fuel] by (simp add: cursor_at_def ordered_items_def)
qed

section \<open>Examples\<close>

definition sample_request :: PageRequest where
  "sample_request = \<lparr>pr_PageSize = 2, pr_Sort = SortID, pr_Direction = Descending\<rparr>"

definition sample_keyOf :: "string \<Rightarrow> string \<Rightarrow> SortKey" where
  "sample_keyOf i field = RecordSortKey i 1 field"

lemma sample_page:
  "Validate sample_request None = None" "Validate sample_request (Some \<lparr>key_Value = ''b'', key_ID = ''b''\<rparr>) = None"
  "valid_keys [''b'', ''c'', ''a''] sample_request sample_keyOf"
  by (simp_all add: Validate_def sample_request_def MaxPageSize_def validSort_def validDirection_def valid_keys_def sample_keyOf_def
      RecordSortKey_def SortID_def SortCreatedAt_def validBoundedString_def)

theorem page_exact_witness:
  "Page [''b'', ''c'', ''a''] sample_request (Some \<lparr>key_Value = ''b'', key_ID = ''b''\<rparr>) sample_keyOf = Inr \<lparr>pg_Items = [''a''], pg_Next = None\<rparr>"
proof -
  have "items_after [''b'', ''c'', ''a''] sample_request (Some \<lparr>key_Value = ''b'', key_ID = ''b''\<rparr>) sample_keyOf = [''a'']" by code_simp
  moreover have "\<lparr>key_Value = ''b'', key_ID = ''b''\<rparr> \<in> key_in sample_request sample_keyOf ` set [''b'', ''c'', ''a'']" by code_simp
  ultimately show ?thesis using page_exact [OF sample_page(2,3)] by (auto simp: sample_request_def)
qed

theorem pages_complete_witness:
  "read_all 3 [''b'', ''c'', ''a''] sample_request None sample_keyOf = Some (Inr [''c'', ''b'', ''a''])"
proof -
  have "ordered_items [''b'', ''c'', ''a''] sample_request sample_keyOf = [''c'', ''b'', ''a'']" by code_simp
  moreover have "read_all (Suc 2) [''b'', ''c'', ''a''] sample_request None sample_keyOf =
      Some (Inr (ordered_items [''b'', ''c'', ''a''] sample_request sample_keyOf))"
    using pages_complete [OF sample_page(1,3), of 2] by (simp add: sample_request_def)
  ultimately show ?thesis by (simp add: numeral_3_eq_3)
qed

text \<open>
  The order by creation time is the order of texts, and the text of a time drops trailing zeros
  of its fraction: a record created a nanosecond after another sorts before it.
\<close>

lemma created_at_not_chronological:
  "Second < Second + 1 \<and>
   before Ascending (RecordSortKey ''late'' (Second + 1) SortCreatedAt) (RecordSortKey ''early'' Second SortCreatedAt)"
  by code_simp

end
