(* ===== verification/Transactions.thy ===== *)
theory Transactions
  imports Prelude
begin

text \<open>
  The transaction a command runs in: a program over the unit's private copy of the store that observes the
  context before each repository call and stops at the first error (\<^verbatim>\<open>internal/app/uow.go\<close>,
  \<^verbatim>\<open>memory_uow.go\<close>). The store is a parameter, so that each context of the server uses the tables its
  commands touch. The lemmas characterise the successful runs.
\<close>

section \<open>Transactions\<close>

text \<open>
  A command in a unit of work reads and writes the unit's private copy of the store, observes the context
  before each repository call and stops at the first error. The state is the number of the next context
  observation and the copy; an error discards the copy.
\<close>

type_synonym ('s, 'a) stx = "nat \<times> 's \<Rightarrow> ('a \<times> nat \<times> 's) result"

definition tx_return :: "'a \<Rightarrow> ('s, 'a) stx" where
  "tx_return x = (\<lambda>st. Inr (x, st))"

definition tx_bind :: "('s, 'a) stx \<Rightarrow> ('a \<Rightarrow> ('s, 'b) stx) \<Rightarrow> ('s, 'b) stx" where
  "tx_bind m f = (\<lambda>st. case m st of Inl e \<Rightarrow> Inl e | Inr (x, st') \<Rightarrow> f x st')"

definition tx_result :: "'a result \<Rightarrow> ('s, 'a) stx" where
  "tx_result r = (\<lambda>st. case r of Inl e \<Rightarrow> Inl e | Inr x \<Rightarrow> Inr (x, st))"

definition tx_fail_if :: "bool \<Rightarrow> error \<Rightarrow> ('s, unit) stx" where
  "tx_fail_if b e = tx_result (if b then Inl e else Inr ())"

definition tx_observe :: "go_context \<Rightarrow> ('s, unit) stx" where
  "tx_observe ctx = (\<lambda>(n, s). case ctx_err ctx n of Some e \<Rightarrow> Inl e | None \<Rightarrow> Inr ((), n + 1, s))"

text \<open>
  \<^verbatim>\<open>mutate\<close> of an open unit, for a function that writes and for one that only reads; and a call of an
  authorizer that observes the context \<open>k\<close> times when it permits.
\<close>

definition tx_mutate :: "go_context \<Rightarrow> ('s \<Rightarrow> 's result) \<Rightarrow> ('s, unit) stx" where
  "tx_mutate ctx f =
    tx_bind (tx_observe ctx) (\<lambda>_ (n, s). case f s of Inl e \<Rightarrow> Inl e | Inr s' \<Rightarrow> Inr ((), n, s'))"

definition tx_gets :: "('s \<Rightarrow> 'a result) \<Rightarrow> ('s, 'a) stx" where
  "tx_gets f = (\<lambda>(n, s). tx_result (f s) (n, s))"

definition tx_read :: "go_context \<Rightarrow> ('s \<Rightarrow> 'a result) \<Rightarrow> ('s, 'a) stx" where
  "tx_read ctx f = tx_bind (tx_observe ctx) (\<lambda>_. tx_gets f)"

definition tx_authorize :: "(go_context \<Rightarrow> error option) \<Rightarrow> nat \<Rightarrow> go_context \<Rightarrow> ('s, unit) stx" where
  "tx_authorize decide k ctx =
    (\<lambda>(n, s). case decide (ctx_drop n ctx) of Some e \<Rightarrow> Inl e | None \<Rightarrow> Inr ((), n + k, s))"

definition tx_map_error :: "(error \<Rightarrow> error) \<Rightarrow> ('s, 'a) stx \<Rightarrow> ('s, 'a) stx" where
  "tx_map_error f m = (\<lambda>st. case m st of Inl e \<Rightarrow> Inl (f e) | Inr x \<Rightarrow> Inr x)"

text \<open>
  \<^verbatim>\<open>ExecuteUnitOfWork\<close> outside an active unit: two observations to begin on a copy of the committed store
  \<open>s\<close>, the command, and the commit, which observes once and fails when another unit has committed since.
\<close>

definition ExecuteUnit :: "go_context \<Rightarrow> bool \<Rightarrow> 's \<Rightarrow> ('s, 'a) stx \<Rightarrow> ('s, 'a) stx" where
  "ExecuteUnit ctx raced s m =
    tx_bind (tx_observe ctx) (\<lambda>_.
    tx_bind (tx_observe ctx) (\<lambda>_ (n, _).
    tx_bind m (\<lambda>x.
    tx_bind (tx_observe ctx) (\<lambda>_.
    tx_bind (tx_fail_if raced ErrConflict) (\<lambda>_. tx_return x))) (n, s)))"

section \<open>Successful transactions\<close>

named_theorems tx_success

lemma tx_bind_Inr [tx_success]:
  "tx_bind m f st = Inr r \<longleftrightarrow> (\<exists>x st'. m st = Inr (x, st') \<and> f x st' = Inr r)"
  by (auto simp: tx_bind_def split: sum.splits)

lemma tx_return_Inr [tx_success]: "tx_return x st = Inr r \<longleftrightarrow> r = (x, st)"
  by (auto simp: tx_return_def)

lemma tx_result_Inr [tx_success]: "tx_result r st = Inr (x, st') \<longleftrightarrow> r = Inr x \<and> st' = st"
  by (auto simp: tx_result_def split: sum.splits)

lemma tx_fail_if_Inr [tx_success]: "tx_fail_if b e st = Inr (u, st') \<longleftrightarrow> \<not> b \<and> st' = st"
  by (auto simp: tx_fail_if_def tx_success)

lemma tx_observe_Inr [tx_success]:
  "tx_observe ctx st = Inr (u, st') \<longleftrightarrow> ctx_err ctx (fst st) = None \<and> st' = (fst st + 1, snd st)"
  by (auto simp: tx_observe_def split: prod.splits option.splits)

lemma tx_gets_Inr [tx_success]: "tx_gets f st = Inr (x, st') \<longleftrightarrow> f (snd st) = Inr x \<and> st' = st"
  by (cases st) (auto simp: tx_gets_def tx_success)

lemma tx_read_Inr [tx_success]:
  "tx_read ctx f st = Inr (x, st') \<longleftrightarrow>
    ctx_err ctx (fst st) = None \<and> f (snd st) = Inr x \<and> st' = (fst st + 1, snd st)"
  by (auto simp: tx_read_def tx_success)

lemma tx_mutate_Inr [tx_success]:
  "tx_mutate ctx f st = Inr (u, st') \<longleftrightarrow>
    ctx_err ctx (fst st) = None \<and> (\<exists>s'. f (snd st) = Inr s' \<and> st' = (fst st + 1, s'))"
  by (auto simp: tx_mutate_def tx_success split: prod.splits sum.splits)

lemma tx_authorize_Inr [tx_success]:
  "tx_authorize decide k ctx st = Inr (u, st') \<longleftrightarrow>
    decide (ctx_drop (fst st) ctx) = None \<and> st' = (fst st + k, snd st)"
  by (auto simp: tx_authorize_def split: prod.splits option.splits)

lemma tx_map_error_Inr [tx_success]: "tx_map_error f m st = Inr r \<longleftrightarrow> m st = Inr r"
  by (auto simp: tx_map_error_def split: sum.splits)

lemma ExecuteUnit_Inr [tx_success]:
  "ExecuteUnit ctx raced s m st = Inr (x, st') \<longleftrightarrow>
    ctx_err ctx (fst st) = None \<and> ctx_err ctx (fst st + 1) = None \<and> \<not> raced \<and>
    (\<exists>n s'. m (fst st + 2, s) = Inr (x, n, s') \<and> ctx_err ctx n = None \<and> st' = (n + 1, s'))"
  by (auto simp: ExecuteUnit_def tx_success split: prod.splits)

text \<open>A read leaves the unit's copy as it is.\<close>

definition keeps_store :: "('s, 'a) stx \<Rightarrow> bool" where
  "keeps_store m \<longleftrightarrow> (\<forall>st x st'. m st = Inr (x, st') \<longrightarrow> snd st' = snd st)"

lemma keeps_storeD: "keeps_store m \<Longrightarrow> m st = Inr (x, st') \<Longrightarrow> snd st' = snd st"
  unfolding keeps_store_def by blast

lemma keeps_store_prims [intro!]:
  "keeps_store (tx_return x)" "keeps_store (tx_result r)" "keeps_store (tx_fail_if b e)" "keeps_store (tx_observe ctx)"
  "keeps_store (tx_gets f)" "keeps_store (tx_read ctx f')" "keeps_store (tx_authorize decide k ctx)"
  by (auto simp: keeps_store_def tx_success)

lemma keeps_store_bind [intro!]: "keeps_store m \<Longrightarrow> (\<And>x. keeps_store (f x)) \<Longrightarrow> keeps_store (tx_bind m f)"
  by (simp add: keeps_store_def tx_success) metis

lemma keeps_store_map_error [intro!]: "keeps_store m \<Longrightarrow> keeps_store (tx_map_error f m)"
  by (auto simp: keeps_store_def tx_success)

end
