(* ===== verification/Release_Catalog.thy ===== *)
theory Release_Catalog
  imports Signing_Keys Store_Catalog Authorization Transactions
begin

text \<open>
  The release context below its commands: the lifecycle values of \<^verbatim>\<open>release/domain/status.go\<close>, the
  context's authorizer (\<^verbatim>\<open>release/query/catalog_authorizer.go\<close>, \<^verbatim>\<open>candidate_authorizer.go\<close>), the input
  guards of \<^verbatim>\<open>release/app\<close>, the bounded coordinate readers of the in-memory catalog
  (\<^verbatim>\<open>app/memory_release_state.go\<close>, \<^verbatim>\<open>memory_release_command_reads.go\<close>, \<^verbatim>\<open>memory_catalog_creation_guard.go\<close>,
  \<^verbatim>\<open>memory_candidate_references.go\<close>) and the transaction each command runs in. The domain's \<^verbatim>\<open>Release\<close> and
  \<^verbatim>\<open>ReleaseCandidate\<close> are the rows of \<^verbatim>\<open>domain.go\<close> with \<^verbatim>\<open>State.String()\<close> for the parsed state, whose field
  \<^verbatim>\<open>value\<close> only the parsers set.
\<close>

section \<open>Lifecycle values\<close>

definition ReleaseStateDraftValue :: string where "ReleaseStateDraftValue = ''draft''"
definition ReleaseStateFrozenValue :: string where "ReleaseStateFrozenValue = ''frozen''"
definition ReleaseStateApprovedValue :: string where "ReleaseStateApprovedValue = ''approved''"
definition ReleaseCandidateStateOpenValue :: string where "ReleaseCandidateStateOpenValue = ''open''"
definition ReleaseCandidateStatePromotedValue :: string where "ReleaseCandidateStatePromotedValue = ''promoted''"
definition ReleaseCandidateStateRejectedValue :: string where "ReleaseCandidateStateRejectedValue = ''rejected''"

lemmas release_state_values = ReleaseStateDraftValue_def ReleaseStateFrozenValue_def ReleaseStateApprovedValue_def
lemmas candidate_state_values =
  ReleaseCandidateStateOpenValue_def ReleaseCandidateStatePromotedValue_def ReleaseCandidateStateRejectedValue_def

definition ParseReleaseState :: "string \<Rightarrow> string result" where
  "ParseReleaseState value =
    (let value = TrimSpace value in
     if value \<in> {ReleaseStateDraftValue, ReleaseStateFrozenValue, ReleaseStateApprovedValue} then Inr value
     else Inl ErrInvalidState)"

definition ParseReleaseCandidateState :: "string \<Rightarrow> string result" where
  "ParseReleaseCandidateState value =
    (let value = TrimSpace value in
     if value \<in> {ReleaseCandidateStateOpenValue, ReleaseCandidateStatePromotedValue, ReleaseCandidateStateRejectedValue}
     then Inr value else Inl ErrInvalidState)"

text \<open>\<^verbatim>\<open>state, _ := Parse...(value)\<close>: the zero state when the value does not parse.\<close>

definition parsed_or_zero :: "string result \<Rightarrow> string" where
  "parsed_or_zero r = (case r of Inl _ \<Rightarrow> [] | Inr v \<Rightarrow> v)"

definition NewRelease :: "string \<Rightarrow> string \<Rightarrow> string \<Rightarrow> string \<Rightarrow> time \<Rightarrow> Release result" where
  "NewRelease i tenantID productID version createdAt =
    (let i = TrimSpace i; tenantID = TrimSpace tenantID; productID = TrimSpace productID; version = TrimSpace version in
     if i = [] \<or> tenantID = [] \<or> productID = [] \<or> version = [] \<or> is_zero_time createdAt then Inl ErrInvalidState
     else Inr \<lparr>rel_ID = i, rel_TenantID = tenantID, rel_ProductID = productID, rel_Version = version, rel_Revision = 1,
       rel_State = parsed_or_zero (ParseReleaseState ReleaseStateDraftValue), rel_CreatedAt = createdAt,
       rel_FrozenAt = None, rel_ApprovedAt = None\<rparr>)"

definition Freeze :: "Release \<Rightarrow> time \<Rightarrow> Release result" where
  "Freeze release at =
    (if rel_State release \<noteq> ReleaseStateDraftValue \<or> is_zero_time at then Inl ErrInvalidState
     else Inr (release\<lparr>rel_State := parsed_or_zero (ParseReleaseState ReleaseStateFrozenValue),
       rel_Revision := i64 (rel_Revision release + 1), rel_FrozenAt := Some at\<rparr>))"

definition Approve :: "Release \<Rightarrow> time \<Rightarrow> Release result" where
  "Approve release at =
    (if rel_State release \<noteq> ReleaseStateFrozenValue \<or> is_zero_time at then Inl ErrInvalidState
     else Inr (release\<lparr>rel_State := parsed_or_zero (ParseReleaseState ReleaseStateApprovedValue),
       rel_Revision := i64 (rel_Revision release + 1), rel_ApprovedAt := Some at\<rparr>))"

section \<open>Authorizers\<close>

record AuthorizationRequest =
  areq_Action :: Action
  areq_Scope :: string
  areq_Resources :: ResourceReferences
  areq_ScopeOnly :: bool
  areq_TenantWide :: bool

abbreviation scope_request :: "Action \<Rightarrow> AuthorizationRequest" where
  "scope_request action \<equiv>
    \<lparr>areq_Action = action, areq_Scope = [], areq_Resources = no_refs, areq_ScopeOnly = True, areq_TenantWide = False\<rparr>"

abbreviation resource_request :: "Action \<Rightarrow> ResourceReferences \<Rightarrow> AuthorizationRequest" where
  "resource_request action refs \<equiv>
    \<lparr>areq_Action = action, areq_Scope = [], areq_Resources = refs, areq_ScopeOnly = False, areq_TenantWide = False\<rparr>"

abbreviation tenant_request :: "Action \<Rightarrow> AuthorizationRequest" where
  "tenant_request action \<equiv>
    \<lparr>areq_Action = action, areq_Scope = [], areq_Resources = no_refs, areq_ScopeOnly = False, areq_TenantWide = True\<rparr>"

definition isCatalogAction :: "Action \<Rightarrow> bool" where
  "isCatalogAction action \<longleftrightarrow>
    action \<in> {ActionProductsRead, ActionProductsCreate, ActionProjectsRead, ActionProjectsCreate, ActionReleasesRead,
      ActionReleasesManage, ActionBuildsRead, ActionBuildsCreate, ActionBuildAttestationsCreate,
      ActionReleaseCandidatesCreate, ActionReleaseCandidatesRead}"

fun nil_context :: "go_context \<Rightarrow> bool" where
  "nil_context NilContext = True"
| "nil_context (Context _) = False"

definition catalogAuthorizer :: "go_context \<Rightarrow> Actor \<Rightarrow> AuthorizationRequest \<Rightarrow> error option" where
  "catalogAuthorizer ctx actor request =
    (if nil_context ctx then Some ErrValidation
     else on_ok (ctx_err ctx 0)
      (if actor_TenantID actor = [] \<or> (actor_KeyID actor = [] \<and> actor_UserID actor = [] \<and> actor_CollectorID actor = [])
       then Some ErrUnauthorized
       else if areq_Scope request \<noteq> [] \<or> \<not> isCatalogAction (areq_Action request) then Some ErrForbidden
       else if areq_Action request = ActionProductsCreate \<and> (\<not> areq_TenantWide request \<or> areq_ScopeOnly request)
       then Some ErrForbidden
       else Authorize (ctx_drop 1 ctx) actor \<lparr>req_Action = areq_Action request, req_Resources = areq_Resources request,
         req_Evaluation = (if areq_TenantWide request then TenantEvaluation
           else if areq_ScopeOnly request then ScopeEvaluation else ResolvedEvaluation)\<rparr>))"

text \<open>
  The artifact reader of \<^verbatim>\<open>candidateAuthorizer\<close> answers whether the artifact is visible under the grants.
  The catalog's scope check observes the context twice before the grant is decided.
\<close>

definition candidateAuthorizer ::
  "ArtifactVisibilityReader \<Rightarrow> go_context \<Rightarrow> Actor \<Rightarrow> AuthorizationRequest \<Rightarrow> error option" where
  "candidateAuthorizer artifacts ctx actor request =
    (if areq_Scope request \<noteq> [] \<or> areq_Action request \<noteq> ActionReleaseCandidatesCreate then Some ErrForbidden
     else let refs = areq_Resources request in
      if areq_ScopeOnly request \<or> areq_TenantWide request \<or> ref_ArtifactID refs = [] \<or>
         refs \<noteq> no_refs\<lparr>ref_ArtifactID := ref_ArtifactID refs\<rparr> then catalogAuthorizer ctx actor request
      else on_ok (catalogAuthorizer ctx actor (scope_request (areq_Action request)))
        (AuthorizeWithArtifactVisibility (ctx_drop 2 ctx) actor
          \<lparr>req_Action = areq_Action request, req_Resources = no_refs\<lparr>ref_ArtifactID := ref_ArtifactID refs\<rparr>,
           req_Evaluation = ResolvedEvaluation\<rparr> artifacts))"

section \<open>Input guards\<close>

definition validBuildText :: "string \<Rightarrow> bool" where
  "validBuildText text \<longleftrightarrow> utf8_valid text \<and> \<not> contains_nul text"

definition validCandidateText :: "string \<Rightarrow> nat \<Rightarrow> bool" where
  "validCandidateText v limit \<longleftrightarrow> v \<noteq> [] \<and> length v \<le> limit \<and> utf8_valid v \<and> \<not> contains_nul v"

definition NormalizeTransitionID :: "string \<Rightarrow> string result" where
  "NormalizeTransitionID i =
    (if length i > 1024 \<or> \<not> validBuildText i then Inl ErrValidation
     else let i = TrimSpace i in if i = [] then Inl ErrNotFound else Inr i)"

record CandidateTransitionInput =
  cti_ID :: string
  cti_State :: string
  cti_Reason :: string
  cti_ExpectedRevision :: int

definition NormalizeCandidateTransitionInput :: "CandidateTransitionInput \<Rightarrow> CandidateTransitionInput result" where
  "NormalizeCandidateTransitionInput v =
    (if cti_ExpectedRevision v < 1 \<or> length (cti_State v) > 32 \<or> \<not> validBuildText (cti_State v) \<or>
        length (cti_Reason v) > 65536 \<or> \<not> validBuildText (cti_Reason v)
     then Inl ErrValidation
     else bind_result (NormalizeTransitionID (cti_ID v)) (\<lambda>i.
       let v = v\<lparr>cti_ID := i, cti_State := TrimSpace (cti_State v), cti_Reason := TrimSpace (cti_Reason v)\<rparr> in
       if cti_Reason v = [] \<or> (cti_State v \<noteq> ''promoted'' \<and> cti_State v \<noteq> ''rejected'') then Inl ErrValidation
       else Inr v))"

definition normalizeCatalogCreationText :: "string \<Rightarrow> nat \<Rightarrow> string result" where
  "normalizeCatalogCreationText raw limit =
    (if length raw > limit \<or> \<not> validBuildText raw then Inl ErrValidation
     else let v = TrimSpace raw in if v = [] then Inl ErrValidation else Inr v)"

record CreateProductInput =
  cpi_Name :: string
  cpi_Slug :: string

record CreateProjectInput =
  cji_ProductID :: string
  cji_Name :: string

record CreateReleaseInput =
  cri_ProductID :: string
  cri_Version :: string

definition NormalizeProductCreationInput :: "CreateProductInput \<Rightarrow> CreateProductInput result" where
  "NormalizeProductCreationInput v =
    bind_result (normalizeCatalogCreationText (cpi_Name v) 65536) (\<lambda>name.
    bind_result (normalizeCatalogCreationText (cpi_Slug v) 65536) (\<lambda>slug.
      if length slug > 1024 then Inl ErrValidation else Inr \<lparr>cpi_Name = name, cpi_Slug = slug\<rparr>))"

definition NormalizeProjectCreationInput :: "CreateProjectInput \<Rightarrow> CreateProjectInput result" where
  "NormalizeProjectCreationInput v =
    bind_result (normalizeCatalogCreationText (cji_ProductID v) 1024) (\<lambda>product.
    bind_result (normalizeCatalogCreationText (cji_Name v) 65536) (\<lambda>name.
      Inr \<lparr>cji_ProductID = product, cji_Name = name\<rparr>))"

definition NormalizeReleaseCreationInput :: "CreateReleaseInput \<Rightarrow> CreateReleaseInput result" where
  "NormalizeReleaseCreationInput v =
    bind_result (normalizeCatalogCreationText (cri_ProductID v) 1024) (\<lambda>product.
    bind_result (normalizeCatalogCreationText (cri_Version v) 65536) (\<lambda>version.
      Inr \<lparr>cri_ProductID = product, cri_Version = version\<rparr>))"

text \<open>\<^verbatim>\<open>validateCatalogCreationActor\<close> after its context check.\<close>

definition validateCatalogCreationActor :: "Actor \<Rightarrow> error option" where
  "validateCatalogCreationActor a =
    (if actor_TenantID a = [] \<or> length (actor_TenantID a) > 1024 \<or> \<not> validBuildText (actor_TenantID a) \<or>
        TrimSpace (actor_TenantID a) \<noteq> actor_TenantID a
     then Some ErrValidation else None)"

record ReleaseCandidateReferences =
  rcr_BuildIDs :: "string list"
  rcr_ArtifactIDs :: "string list"
  rcr_SBOMIDs :: "string list"
  rcr_ScanIDs :: "string list"
  rcr_VEXIDs :: "string list"
  rcr_ContractIDs :: "string list"
  rcr_BundleIDs :: "string list"

record CreateReleaseCandidateInput =
  cci_ReleaseID :: string
  cci_Name :: string
  cci_References :: ReleaseCandidateReferences

definition reference_groups :: "ReleaseCandidateReferences \<Rightarrow> string list list" where
  "reference_groups r =
    [rcr_BuildIDs r, rcr_ArtifactIDs r, rcr_SBOMIDs r, rcr_ScanIDs r, rcr_VEXIDs r, rcr_ContractIDs r, rcr_BundleIDs r]"

text \<open>
  The bounded walk over the groups that both \<^verbatim>\<open>ValidCandidateReferences\<close> and the creation guard make: at most
  4096 identifiers and 65536 bytes in all, each identifier acceptable to \<open>ok\<close>. \<open>None\<close> is the early exit.
\<close>

fun id_loop :: "(string \<Rightarrow> bool) \<Rightarrow> string list \<Rightarrow> int \<Rightarrow> int option" where
  "id_loop ok [] bytes = Some bytes"
| "id_loop ok (i # ids) bytes =
    (if \<not> ok i then None
     else if bytes + int (length i) > 65536 then None else id_loop ok ids (bytes + int (length i)))"

fun group_loop :: "(string \<Rightarrow> bool) \<Rightarrow> string list list \<Rightarrow> int \<Rightarrow> int \<Rightarrow> bool" where
  "group_loop ok [] count bytes = True"
| "group_loop ok (ids # groups) count bytes =
    (if int (length ids) > 4096 - count then False
     else case id_loop ok ids bytes of None \<Rightarrow> False
     | Some bytes \<Rightarrow> group_loop ok groups (count + int (length ids)) bytes)"

definition ValidCandidateReferences :: "ReleaseCandidateReferences \<Rightarrow> bool" where
  "ValidCandidateReferences r \<longleftrightarrow> group_loop (\<lambda>i. validCandidateText i 1024) (reference_groups r) 0 0"

definition sortedTrimmedStrings :: "string list \<Rightarrow> string list" where
  "sortedTrimmedStrings values = sort (map TrimSpace values)"

definition normalizeReleaseCandidateReferences :: "ReleaseCandidateReferences \<Rightarrow> ReleaseCandidateReferences" where
  "normalizeReleaseCandidateReferences r =
    \<lparr>rcr_BuildIDs = sortedTrimmedStrings (rcr_BuildIDs r), rcr_ArtifactIDs = sortedTrimmedStrings (rcr_ArtifactIDs r),
     rcr_SBOMIDs = sortedTrimmedStrings (rcr_SBOMIDs r), rcr_ScanIDs = sortedTrimmedStrings (rcr_ScanIDs r),
     rcr_VEXIDs = sortedTrimmedStrings (rcr_VEXIDs r), rcr_ContractIDs = sortedTrimmedStrings (rcr_ContractIDs r),
     rcr_BundleIDs = sortedTrimmedStrings (rcr_BundleIDs r)\<rparr>"

definition NormalizeCandidateCreationInput :: "CreateReleaseCandidateInput \<Rightarrow> CreateReleaseCandidateInput result" where
  "NormalizeCandidateCreationInput v =
    bind_result (normalizeCatalogCreationText (cci_ReleaseID v) 1024) (\<lambda>release.
    bind_result (normalizeCatalogCreationText (cci_Name v) 65536) (\<lambda>name.
      if \<not> group_loop (\<lambda>i. length i \<le> 1024 \<and> validBuildText i) (reference_groups (cci_References v)) 0 0
      then Inl ErrValidation
      else let refs = normalizeReleaseCandidateReferences (cci_References v) in
       if \<not> ValidCandidateReferences refs then Inl ErrValidation
       else Inr \<lparr>cci_ReleaseID = release, cci_Name = name, cci_References = refs\<rparr>))"

section \<open>The store of the release context\<close>

text \<open>
  The tables of the snapshot that the catalog and its commands use: the modelled repositories, the audit
  entries, the release bundles, and of the three kinds of release evidence the coordinates that reference
  validation reads. Contexts that use further tables extend the record.
\<close>

record source_row =
  src_ID :: string
  src_TenantID :: string
  src_ProductID :: string
  src_ReleaseID :: string
  src_EvidenceID :: string

record ReleaseBundle =
  bun_ID :: string
  bun_TenantID :: string
  bun_ReleaseID :: string
  bun_State :: string
  bun_Manifest :: json_object
  bun_ManifestHash :: string
  bun_SignatureRefs :: "string list"
  bun_CreatedAt :: time
  bun_PublishedAt :: "time option"
  bun_RevokedAt :: "time option"

record catalog_store =
  cs_rows :: MemoryUnitOfWorkSnapshot
  cs_AuditEntries :: "(string, AuditChainEntry list) table"
  cs_SBOMs :: "(string, source_row) table"
  cs_VEXDocuments :: "(string, source_row) table"
  cs_OpenAPIContracts :: "(string, source_row) table"
  cs_ReleaseBundles :: "(string, ReleaseBundle) table"

text \<open>The part of the snapshot that \<open>appendAudit\<close> works on.\<close>

definition cs_audit :: "'z catalog_store_scheme \<Rightarrow> audit_store" where
  "cs_audit s = \<lparr>as_tenants = map fst (Tenants (cs_rows s)), as_entries = cs_AuditEntries s\<rparr>"

type_synonym 'a tx = "(catalog_store, 'a) stx"

text \<open>Errors crossing from the repositories into the release context.\<close>

definition mapProductWriteError :: "error \<Rightarrow> error" where
  "mapProductWriteError e = (case e of ErrVersionConflict _ \<Rightarrow> ErrConflict | _ \<Rightarrow> e)"

definition mapReleaseStateWriteError :: "error \<Rightarrow> error" where
  "mapReleaseStateWriteError e =
    (case e of ErrVersionConflict revision \<Rightarrow> (if revision < 1 then ErrConflict else NewVersionConflict revision)
     | _ \<Rightarrow> mapProductWriteError e)"

subsection \<open>Readers\<close>

record ProductCoordinates =
  pc_ID :: string
  pc_TenantID :: string
  pc_Slug :: string

definition bounded_text :: "nat \<Rightarrow> string \<Rightarrow> bool" where
  "bounded_text limit v \<longleftrightarrow> v \<noteq> [] \<and> length v \<le> limit \<and> utf8_valid v \<and> \<not> contains_nul v"

definition ReadProductCoordinates :: "go_context \<Rightarrow> string \<Rightarrow> string \<Rightarrow> ProductCoordinates tx" where
  "ReadProductCoordinates ctx tenant i =
    (let tenant = TrimSpace tenant; i = TrimSpace i in
     tx_bind (tx_fail_if (\<not> list_all (bounded_text 1024) [tenant, i]) ErrValidation) (\<lambda>_.
     tx_read ctx (\<lambda>s. case tbl_get (Products (cs_rows s)) i of
       None \<Rightarrow> Inl ErrNotFound
     | Some p \<Rightarrow>
        (if prod_TenantID p \<noteq> tenant then Inl ErrNotFound
         else if length (prod_ID p) > 1024 \<or> length (prod_TenantID p) > 1024 \<or> length (prod_Slug p) > 65536 then Inl ErrConflict
         else Inr \<lparr>pc_ID = prod_ID p, pc_TenantID = prod_TenantID p, pc_Slug = prod_Slug p\<rparr>))))"

definition ReadReleaseState :: "go_context \<Rightarrow> string \<Rightarrow> string \<Rightarrow> Release tx" where
  "ReadReleaseState ctx tenant i =
    (let tenant = TrimSpace tenant; i = TrimSpace i in
     tx_bind (tx_fail_if (\<not> list_all (bounded_text 1024) [tenant, i]) ErrValidation) (\<lambda>_.
     tx_read ctx (\<lambda>s. bind_result (GetRelease tenant i (cs_rows s)) (\<lambda>v.
       if length (rel_ID v) > 1024 \<or> length (rel_TenantID v) > 1024 \<or> length (rel_ProductID v) > 1024 \<or>
          length (rel_Version v) > 65536 \<or> length (rel_State v) > 32 then Inl ErrConflict
       else case ParseReleaseState (rel_State v) of
          Inl _ \<Rightarrow> Inl ErrConflict
        | Inr state \<Rightarrow>
           (if rel_Revision v < 1 \<or> is_zero_time (rel_CreatedAt v) then Inl ErrConflict
            else Inr (v\<lparr>rel_State := state\<rparr>))))))"

definition ProductSlugExists :: "go_context \<Rightarrow> string \<Rightarrow> string \<Rightarrow> bool tx" where
  "ProductSlugExists ctx tenant slug =
    (let tenant = TrimSpace tenant; slug = TrimSpace slug in
     tx_bind (tx_fail_if (\<not> list_all (bounded_text 1024) [tenant, slug]) ErrValidation) (\<lambda>_.
     tx_read ctx (\<lambda>s. check_then (requireMemoryTenant (cs_rows s) tenant)
       (Inr (tbl_any (\<lambda>p. prod_TenantID p = tenant \<and> prod_Slug p = slug) (Products (cs_rows s)))))))"

definition ReleaseVersionExists :: "go_context \<Rightarrow> string \<Rightarrow> string \<Rightarrow> string \<Rightarrow> bool tx" where
  "ReleaseVersionExists ctx tenant product version =
    tx_bind (ReadProductCoordinates ctx tenant product) (\<lambda>_.
    let version = TrimSpace version in
    tx_bind (tx_fail_if (\<not> bounded_text 65536 version) ErrValidation) (\<lambda>_.
    tx_read ctx (\<lambda>s. Inr (tbl_any (\<lambda>v. rel_TenantID v = TrimSpace tenant \<and> rel_ProductID v = TrimSpace product \<and>
      rel_Version v = version) (Releases (cs_rows s))))))"

definition creation_text :: "string \<Rightarrow> bool" where
  "creation_text v \<longleftrightarrow> bounded_text 1024 v \<and> TrimSpace v = v"

definition LockCatalogCreationTenant :: "go_context \<Rightarrow> string \<Rightarrow> unit tx" where
  "LockCatalogCreationTenant ctx tenant =
    tx_bind (tx_fail_if (\<not> creation_text tenant) ErrValidation) (\<lambda>_.
    tx_read ctx (\<lambda>s. check_then (requireMemoryTenant (cs_rows s) tenant) (Inr ())))"

record CatalogCreationProduct =
  ccp_ID :: string
  ccp_TenantID :: string

definition ReadCatalogCreationProduct :: "go_context \<Rightarrow> string \<Rightarrow> string \<Rightarrow> CatalogCreationProduct tx" where
  "ReadCatalogCreationProduct ctx tenant i =
    tx_bind (LockCatalogCreationTenant ctx tenant) (\<lambda>_.
    tx_bind (tx_fail_if (\<not> creation_text i) ErrValidation) (\<lambda>_.
    tx_read ctx (\<lambda>s. case tbl_get (Products (cs_rows s)) i of
       None \<Rightarrow> Inl ErrNotFound
     | Some p \<Rightarrow> if prod_TenantID p \<noteq> tenant then Inl ErrNotFound
         else Inr \<lparr>ccp_ID = prod_ID p, ccp_TenantID = prod_TenantID p\<rparr>)))"

definition memoryGovernanceProductRelease :: "MemoryUnitOfWorkSnapshot \<Rightarrow> string \<Rightarrow> string \<Rightarrow> string \<Rightarrow> error option" where
  "memoryGovernanceProductRelease s tenant product release =
    (if product = [] \<or> \<not> memoryGovernanceText product 1024 \<or> \<not> memoryGovernanceText release 1024 then Some ErrValidation
     else case tbl_get (Products s) product of
       None \<Rightarrow> Some ErrNotFound
     | Some p \<Rightarrow>
        (if prod_ID p \<noteq> product \<or> prod_TenantID p \<noteq> tenant then Some ErrNotFound
         else if release = [] then None
         else case tbl_get (Releases s) release of
            None \<Rightarrow> Some ErrNotFound
          | Some r \<Rightarrow> if rel_ID r \<noteq> release \<or> rel_TenantID r \<noteq> tenant \<or> rel_ProductID r \<noteq> product
              then Some ErrNotFound else None))"

text \<open>
  \<^verbatim>\<open>memoryOperationsCoordinates\<close>: each reference that is present is resolved to its parents, and parents that
  are given twice must agree.
\<close>

definition merge_ref :: "string \<Rightarrow> string \<Rightarrow> string result" where
  "merge_ref target value =
    (if value = [] \<or> \<not> memoryGovernanceText value 1024 \<or> TrimSpace value \<noteq> value then Inl ErrNotFound
     else if target \<noteq> [] \<and> target \<noteq> value then Inl ErrNotFound else Inr value)"

definition resolve_build :: "MemoryUnitOfWorkSnapshot \<Rightarrow> string \<Rightarrow> ResourceReferences \<Rightarrow> ResourceReferences result" where
  "resolve_build s tenant refs =
    (if ref_BuildID refs = [] then Inr refs
     else case tbl_get (BuildRuns s) (ref_BuildID refs) of
       None \<Rightarrow> Inl ErrNotFound
     | Some v \<Rightarrow>
        (if build_ID v \<noteq> ref_BuildID refs \<or> build_TenantID v \<noteq> tenant then Inl ErrNotFound
         else bind_result (merge_ref (ref_ProjectID refs) (build_ProjectID v)) (\<lambda>project.
           bind_result (merge_ref (ref_ReleaseID refs) (build_ReleaseID v)) (\<lambda>release.
             Inr (refs\<lparr>ref_ProjectID := project, ref_ReleaseID := release\<rparr>)))))"

definition resolve_deployment :: "MemoryUnitOfWorkSnapshot \<Rightarrow> string \<Rightarrow> ResourceReferences \<Rightarrow> ResourceReferences result" where
  "resolve_deployment s tenant refs =
    (if ref_DeploymentID refs = [] then Inr refs
     else case tbl_get (DeploymentEvents s) (ref_DeploymentID refs) of
       None \<Rightarrow> Inl ErrNotFound
     | Some v \<Rightarrow>
        (if dep_ID v \<noteq> ref_DeploymentID refs \<or> dep_TenantID v \<noteq> tenant then Inl ErrNotFound
         else case tbl_get (DeploymentEnvironments s) (dep_EnvironmentID v) of
            None \<Rightarrow> Inl ErrNotFound
          | Some env \<Rightarrow>
             (if env_ID env \<noteq> dep_EnvironmentID v \<or> env_TenantID env \<noteq> tenant then Inl ErrNotFound
              else bind_result (merge_ref (ref_ProductID refs) (env_ProductID env)) (\<lambda>product.
                bind_result (merge_ref (ref_ReleaseID refs) (dep_ReleaseID v)) (\<lambda>release.
                  Inr (refs\<lparr>ref_ProductID := product, ref_ReleaseID := release\<rparr>))))))"

definition resolve_project :: "MemoryUnitOfWorkSnapshot \<Rightarrow> string \<Rightarrow> ResourceReferences \<Rightarrow> ResourceReferences result" where
  "resolve_project s tenant refs =
    (if ref_ProjectID refs = [] then Inr refs
     else case tbl_get (Projects s) (ref_ProjectID refs) of
       None \<Rightarrow> Inl ErrNotFound
     | Some v \<Rightarrow>
        (if proj_ID v \<noteq> ref_ProjectID refs \<or> proj_TenantID v \<noteq> tenant then Inl ErrNotFound
         else bind_result (merge_ref (ref_ProductID refs) (proj_ProductID v)) (\<lambda>product.
           Inr (refs\<lparr>ref_ProductID := product\<rparr>))))"

definition resolve_release :: "MemoryUnitOfWorkSnapshot \<Rightarrow> string \<Rightarrow> ResourceReferences \<Rightarrow> ResourceReferences result" where
  "resolve_release s tenant refs =
    (if ref_ReleaseID refs = [] then Inr refs
     else case tbl_get (Releases s) (ref_ReleaseID refs) of
       None \<Rightarrow> Inl ErrNotFound
     | Some v \<Rightarrow>
        (if rel_ID v \<noteq> ref_ReleaseID refs \<or> rel_TenantID v \<noteq> tenant then Inl ErrNotFound
         else bind_result (merge_ref (ref_ProductID refs) (rel_ProductID v)) (\<lambda>product.
           Inr (refs\<lparr>ref_ProductID := product\<rparr>))))"

definition memoryOperationsCoordinates ::
  "MemoryUnitOfWorkSnapshot \<Rightarrow> string \<Rightarrow> ResourceReferences \<Rightarrow> ResourceReferences result" where
  "memoryOperationsCoordinates s tenant refs =
    (if \<not> list_all (\<lambda>i. memoryGovernanceText i 1024 \<and> TrimSpace i = i)
        [ref_ProductID refs, ref_ProjectID refs, ref_ReleaseID refs, ref_BuildID refs, ref_DeploymentID refs]
     then Inl ErrValidation
     else bind_result (resolve_build s tenant refs) (\<lambda>refs.
       bind_result (resolve_deployment s tenant refs) (\<lambda>refs.
       bind_result (resolve_project s tenant refs) (\<lambda>refs.
       bind_result (resolve_release s tenant refs) (\<lambda>refs.
         check_then (if ref_ProductID refs = [] then None
           else memoryGovernanceProductRelease s tenant (ref_ProductID refs) (ref_ReleaseID refs)) (Inr refs))))))"

definition governance_text :: "string \<Rightarrow> bool" where
  "governance_text v \<longleftrightarrow> v \<noteq> [] \<and> TrimSpace v = v \<and> memoryGovernanceText v 1024"

definition memoryGovernanceRead ::
  "go_context \<Rightarrow> string \<Rightarrow> string \<Rightarrow> ('z catalog_store_scheme \<Rightarrow> 'a result) \<Rightarrow> ('z catalog_store_scheme, 'a) stx" where
  "memoryGovernanceRead ctx tenant i read =
    tx_bind (tx_observe ctx) (\<lambda>_.
    tx_bind (tx_fail_if (\<not> list_all governance_text [tenant, i]) ErrValidation) (\<lambda>_.
    tx_read ctx (\<lambda>s. check_then (requireMemoryTenant (cs_rows s) tenant) (read s))))"

record CandidateReleaseCoordinates =
  crc_ID :: string
  crc_TenantID :: string
  crc_ProductID :: string

definition ReadCandidateRelease :: "go_context \<Rightarrow> string \<Rightarrow> string \<Rightarrow> CandidateReleaseCoordinates tx" where
  "ReadCandidateRelease ctx tenant i =
    memoryGovernanceRead ctx tenant i (\<lambda>s.
      bind_result (memoryOperationsCoordinates (cs_rows s) tenant (no_refs\<lparr>ref_ReleaseID := i\<rparr>)) (\<lambda>refs.
        Inr \<lparr>crc_ID = i, crc_TenantID = tenant, crc_ProductID = ref_ProductID refs\<rparr>))"

definition candidate_row :: "string \<Rightarrow> string \<Rightarrow> catalog_store \<Rightarrow> (ReleaseCandidate \<times> string) result" where
  "candidate_row tenant i s =
    (case tbl_get (ReleaseCandidates (cs_rows s)) i of
       None \<Rightarrow> Inl ErrNotFound
     | Some v \<Rightarrow>
        (if cand_ID v \<noteq> i \<or> cand_TenantID v \<noteq> tenant then Inl ErrNotFound
         else bind_result (memoryOperationsCoordinates (cs_rows s) tenant (no_refs\<lparr>ref_ReleaseID := cand_ReleaseID v\<rparr>)) (\<lambda>refs.
           Inr (v, ref_ProductID refs))))"

record CandidateTransitionScope =
  cts_ID :: string
  cts_TenantID :: string
  cts_ReleaseID :: string
  cts_ProductID :: string

definition ReadCandidateTransitionScope :: "go_context \<Rightarrow> string \<Rightarrow> string \<Rightarrow> CandidateTransitionScope tx" where
  "ReadCandidateTransitionScope ctx tenant i =
    memoryGovernanceRead ctx tenant i (\<lambda>s.
      bind_result (candidate_row tenant i s) (\<lambda>(v, product).
        Inr \<lparr>cts_ID = i, cts_TenantID = tenant, cts_ReleaseID = cand_ReleaseID v, cts_ProductID = product\<rparr>))"

definition candidate_references :: "ReleaseCandidate \<Rightarrow> ReleaseCandidateReferences" where
  "candidate_references v =
    \<lparr>rcr_BuildIDs = cand_BuildIDs v, rcr_ArtifactIDs = cand_ArtifactIDs v, rcr_SBOMIDs = cand_SBOMIDs v,
     rcr_ScanIDs = cand_ScanIDs v, rcr_VEXIDs = cand_VEXIDs v, rcr_ContractIDs = cand_ContractIDs v,
     rcr_BundleIDs = cand_BundleIDs v\<rparr>"

definition memoryCandidateMetadata :: "ReleaseCandidate \<Rightarrow> ReleaseCandidate result" where
  "memoryCandidateMetadata v =
    (if \<not> memoryMembershipQueryText (cand_ID v) 1024 \<or> is_zero_time (cand_CreatedAt v) \<or> cand_Revision v < 1 \<or>
        \<not> memoryMembershipText (cand_Name v) 65536 \<or> \<not> memoryMembershipText (cand_SnapshotHash v) 65536 \<or>
        \<not> memoryMembershipText (cand_SchemaVersion v) 65536 \<or> \<not> ValidCandidateReferences (candidate_references v)
     then Inl (ErrOther ''invalid projection'')
     else case ParseReleaseCandidateState (cand_State v) of
        Inl _ \<Rightarrow> Inl (ErrOther ''invalid projection'')
      | Inr state \<Rightarrow> Inr (v\<lparr>cand_State := state\<rparr>))"

definition ReadCandidateState :: "go_context \<Rightarrow> string \<Rightarrow> string \<Rightarrow> (ReleaseCandidate \<times> string) tx" where
  "ReadCandidateState ctx tenant i =
    memoryGovernanceRead ctx tenant i (\<lambda>s.
      bind_result (candidate_row tenant i s) (\<lambda>(v, product).
        case memoryCandidateMetadata v of Inl _ \<Rightarrow> Inl ErrConflict | Inr candidate \<Rightarrow> Inr (candidate, product)))"

subsection \<open>References of a candidate\<close>

definition owned_row :: "string \<Rightarrow> string \<Rightarrow> string \<Rightarrow> (string, EvidenceItem) table \<Rightarrow> string \<Rightarrow> string \<Rightarrow> string \<Rightarrow> bool" where
  "owned_row tenant release kind evidences owner sourceRelease evidence \<longleftrightarrow>
    owner = tenant \<and> sourceRelease = release \<and>
    (case tbl_get evidences evidence of None \<Rightarrow> False
     | Some e \<Rightarrow> ev_ID e = evidence \<and> ev_TenantID e = tenant \<and> ev_ReleaseID e = release \<and> ev_Type e = kind)"

definition memoryCandidateReferenceOwned ::
  "catalog_store \<Rightarrow> string \<Rightarrow> string \<Rightarrow> string \<Rightarrow> string \<Rightarrow> string \<Rightarrow> bool" where
  "memoryCandidateReferenceOwned s tenant release product kind i \<longleftrightarrow>
    (let owned = owned_row tenant release kind (Evidence (cs_rows s)) in
     if kind = ''sbom'' then
       (case tbl_get (cs_SBOMs s) i of None \<Rightarrow> False
        | Some v \<Rightarrow> src_ID v = i \<and> owned (src_TenantID v) (src_ReleaseID v) (src_EvidenceID v))
     else if kind = ''vulnerability_scan'' then
       (case tbl_get (VulnerabilityScans (cs_rows s)) i of None \<Rightarrow> False
        | Some v \<Rightarrow> scan_ID v = i \<and> owned (scan_TenantID v) (scan_ReleaseID v) (scan_EvidenceID v))
     else if kind = ''vex'' then
       (case tbl_get (cs_VEXDocuments s) i of None \<Rightarrow> False
        | Some v \<Rightarrow> src_ID v = i \<and> owned (src_TenantID v) (src_ReleaseID v) (src_EvidenceID v))
     else if kind = ''openapi_contract'' then
       (case tbl_get (cs_OpenAPIContracts s) i of None \<Rightarrow> False
        | Some v \<Rightarrow> src_ID v = i \<and> src_ProductID v = product \<and>
            owned (src_TenantID v) (src_ReleaseID v) (src_EvidenceID v))
     else if kind = ''release_bundle'' then
       (case tbl_get (cs_ReleaseBundles s) i of None \<Rightarrow> False
        | Some v \<Rightarrow> bun_ID v = i \<and> bun_TenantID v = tenant \<and> bun_ReleaseID v = release)
     else False)"

fun owned_loop :: "go_context \<Rightarrow> string \<Rightarrow> string \<Rightarrow> string \<Rightarrow> (string \<times> string) list \<Rightarrow> unit tx" where
  "owned_loop ctx tenant release product [] = tx_return ()"
| "owned_loop ctx tenant release product ((kind, i) # refs) =
    tx_bind (tx_observe ctx) (\<lambda>_.
    tx_bind (tx_gets (\<lambda>s. if memoryCandidateReferenceOwned s tenant release product kind i then Inr () else Inl ErrNotFound))
      (\<lambda>_. owned_loop ctx tenant release product refs))"

definition typed_references :: "ReleaseCandidateReferences \<Rightarrow> (string \<times> string) list" where
  "typed_references r =
    map (Pair ''sbom'') (rcr_SBOMIDs r) @ map (Pair ''vulnerability_scan'') (rcr_ScanIDs r) @
    map (Pair ''vex'') (rcr_VEXIDs r) @ map (Pair ''openapi_contract'') (rcr_ContractIDs r) @
    map (Pair ''release_bundle'') (rcr_BundleIDs r)"

definition build_in_release :: "catalog_store \<Rightarrow> string \<Rightarrow> string \<Rightarrow> string \<Rightarrow> bool" where
  "build_in_release s tenant release i =
    (case memoryOperationsCoordinates (cs_rows s) tenant (no_refs\<lparr>ref_BuildID := i\<rparr>) of
       Inl _ \<Rightarrow> False | Inr current \<Rightarrow> ref_ReleaseID current = release)"

definition artifact_owned :: "catalog_store \<Rightarrow> string \<Rightarrow> string \<Rightarrow> bool" where
  "artifact_owned s tenant i =
    (case tbl_get (Artifacts (cs_rows s)) i of None \<Rightarrow> False | Some v \<Rightarrow> art_ID v = i \<and> art_TenantID v = tenant)"

definition ValidateReleaseCandidateReferences ::
  "go_context \<Rightarrow> string \<Rightarrow> string \<Rightarrow> ReleaseCandidateReferences \<Rightarrow> unit tx" where
  "ValidateReleaseCandidateReferences ctx tenant release refs =
    tx_bind (tx_fail_if (\<not> ValidCandidateReferences refs) ErrValidation) (\<lambda>_.
    tx_bind (memoryGovernanceRead ctx tenant release (\<lambda>s.
      bind_result (memoryOperationsCoordinates (cs_rows s) tenant (no_refs\<lparr>ref_ReleaseID := release\<rparr>)) (\<lambda>parent.
        if \<not> list_all (build_in_release s tenant release) (rcr_BuildIDs refs) then Inl ErrNotFound
        else if \<not> list_all (artifact_owned s tenant) (rcr_ArtifactIDs refs) then Inl ErrNotFound
        else Inr (ref_ProductID parent)))) (\<lambda>product.
    owned_loop ctx tenant release product (typed_references refs)))"

section \<open>Audit events\<close>

definition auditActor :: "Actor \<Rightarrow> string \<times> string" where
  "auditActor actor =
    (if actor_CollectorID actor \<noteq> [] then (''collector'', actor_CollectorID actor)
     else if actor_UserID actor \<noteq> [] then (''human_user'', actor_UserID actor)
     else (''api_key'', actor_KeyID actor))"

definition auditEventFor :: "string \<Rightarrow> Actor \<Rightarrow> time \<Rightarrow> string \<Rightarrow> string \<Rightarrow> string \<Rightarrow> string \<Rightarrow> AuditEvent" where
  "auditEventFor eventID actor occurredAt entryType subjectType subjectID payloadHash =
    \<lparr>aev_ID = eventID, aev_TenantID = actor_TenantID actor, aev_EntryType = entryType, aev_SubjectType = subjectType,
     aev_SubjectID = subjectID, aev_ActorType = fst (auditActor actor), aev_ActorID = snd (auditActor actor),
     aev_OccurredAt = occurredAt, aev_PayloadHash = payloadHash, aev_SignatureRef = []\<rparr>"

definition catalog_append ::
  "canonical_hasher \<Rightarrow> AuditEvent \<Rightarrow> 'z catalog_store_scheme \<Rightarrow> 'z catalog_store_scheme result" where
  "catalog_append hasher v s =
    bind_result (appendAudit hasher (event_entry v) (cs_audit s)) (\<lambda>(_, a).
      Inr (s\<lparr>cs_AuditEntries := as_entries a\<rparr>))"

definition AppendAudit :: "go_context \<Rightarrow> canonical_hasher \<Rightarrow> AuditEvent \<Rightarrow> unit tx" where
  "AppendAudit ctx hasher v = tx_map_error mapProductWriteError (tx_mutate ctx (catalog_append hasher v))"

end
