(* ===== verification/Release_Commands.thy ===== *)
theory Release_Commands
  imports Release_Catalog
begin

text \<open>
  The commands of the release context (\<^verbatim>\<open>release/app/product_commands.go\<close>, \<^verbatim>\<open>project_commands.go\<close>,
  \<^verbatim>\<open>release_commands.go\<close>, \<^verbatim>\<open>release_state_commands.go\<close>, \<^verbatim>\<open>candidate_commands.go\<close>, \<^verbatim>\<open>candidate_state_commands.go\<close> and
  their guards) on the units of work that \<^verbatim>\<open>platform/wiring\<close> composes for them. A command that reads before
  its transaction runs several units; \<open>rc_env k\<close> is the committed store its k-th unit begins on, which other
  commands may have changed since the unit before, and \<open>rc_raced k\<close> tells whether another unit commits while
  it runs. The clock, the identifier generator, the hasher and the artifact-visibility reader are arguments.
\<close>

record release_command =
  rc_ctx :: go_context
  rc_env :: "nat \<Rightarrow> catalog_store"
  rc_raced :: "nat \<Rightarrow> bool"
  rc_now :: time
  rc_newID :: "string \<Rightarrow> string"
  rc_hasher :: canonical_hasher
  rc_artifacts :: "catalog_store \<Rightarrow> ArtifactVisibilityReader"

definition contextError :: "go_context \<Rightarrow> unit tx" where
  "contextError ctx = (if nil_context ctx then tx_result (Inl ErrValidation) else tx_observe ctx)"

definition catalog_authorize :: "go_context \<Rightarrow> Actor \<Rightarrow> AuthorizationRequest \<Rightarrow> unit tx" where
  "catalog_authorize ctx actor request = tx_authorize (\<lambda>c. catalogAuthorizer c actor request) 2 ctx"

definition run_unit :: "release_command \<Rightarrow> nat \<Rightarrow> (error \<Rightarrow> error) \<Rightarrow> 'a tx \<Rightarrow> 'a tx" where
  "run_unit c k f m = tx_map_error f (ExecuteUnit (rc_ctx c) (rc_raced c k) (rc_env c k) m)"

text \<open>What a command returns to its caller: its value and the store its last unit committed.\<close>

definition run_command :: "release_command \<Rightarrow> 'a tx \<Rightarrow> ('a \<times> catalog_store) result" where
  "run_command c m = (case m (0, rc_env c 0) of Inl e \<Rightarrow> Inl e | Inr (x, _, s) \<Rightarrow> Inr (x, s))"

section \<open>Creating products, projects and releases\<close>

definition authorizeCatalogCreationScope :: "go_context \<Rightarrow> Actor \<Rightarrow> Action \<Rightarrow> string \<Rightarrow> unit tx" where
  "authorizeCatalogCreationScope ctx a action productID =
    tx_bind (catalog_authorize ctx a (if productID \<noteq> [] then scope_request action else tenant_request action)) (\<lambda>_.
    tx_bind (tx_map_error mapProductWriteError (LockCatalogCreationTenant ctx (actor_TenantID a))) (\<lambda>_.
    if productID = [] then tx_return ()
    else tx_bind (tx_map_error mapProductWriteError (ReadCatalogCreationProduct ctx (actor_TenantID a) productID)) (\<lambda>p.
      tx_bind (tx_fail_if (ccp_TenantID p \<noteq> actor_TenantID a \<or> ccp_ID p \<noteq> productID) ErrNotFound) (\<lambda>_.
      catalog_authorize ctx a (resource_request action (no_refs\<lparr>ref_ProductID := ccp_ID p\<rparr>))))))"

text \<open>The three creation guards; \<open>productID\<close> is empty for a product.\<close>

definition AuthorizeProductCreation :: "release_command \<Rightarrow> Actor \<Rightarrow> CreateProductInput \<Rightarrow> unit tx" where
  "AuthorizeProductCreation c a input =
    tx_bind (contextError (rc_ctx c)) (\<lambda>_.
    tx_bind (tx_result (check_then (validateCatalogCreationActor a) (Inr ()))) (\<lambda>_.
    tx_bind (catalog_authorize (rc_ctx c) a (tenant_request ActionProductsCreate)) (\<lambda>_.
    tx_bind (tx_result (NormalizeProductCreationInput input)) (\<lambda>_.
    run_unit c 0 mapProductWriteError (authorizeCatalogCreationScope (rc_ctx c) a ActionProductsCreate [])))))"

definition AuthorizeProjectCreation :: "release_command \<Rightarrow> Actor \<Rightarrow> CreateProjectInput \<Rightarrow> unit tx" where
  "AuthorizeProjectCreation c a input =
    tx_bind (contextError (rc_ctx c)) (\<lambda>_.
    tx_bind (tx_result (check_then (validateCatalogCreationActor a) (Inr ()))) (\<lambda>_.
    tx_bind (catalog_authorize (rc_ctx c) a (scope_request ActionProjectsCreate)) (\<lambda>_.
    tx_bind (tx_result (NormalizeProjectCreationInput input)) (\<lambda>input.
    run_unit c 0 mapProductWriteError (authorizeCatalogCreationScope (rc_ctx c) a ActionProjectsCreate (cji_ProductID input))))))"

definition AuthorizeReleaseCreation :: "release_command \<Rightarrow> Actor \<Rightarrow> CreateReleaseInput \<Rightarrow> unit tx" where
  "AuthorizeReleaseCreation c a input =
    tx_bind (contextError (rc_ctx c)) (\<lambda>_.
    tx_bind (tx_result (check_then (validateCatalogCreationActor a) (Inr ()))) (\<lambda>_.
    tx_bind (catalog_authorize (rc_ctx c) a (scope_request ActionReleasesManage)) (\<lambda>_.
    tx_bind (tx_result (NormalizeReleaseCreationInput input)) (\<lambda>input.
    run_unit c 0 mapProductWriteError (authorizeCatalogCreationScope (rc_ctx c) a ActionReleasesManage (cri_ProductID input))))))"

text \<open>The writes of the transactions in \<^verbatim>\<open>platform/wiring\<close>: bounds on the fields, then the repository.\<close>

definition on_rows :: "repository_op \<Rightarrow> catalog_store \<Rightarrow> catalog_store result" where
  "on_rows f s = bind_result (f (cs_rows s)) (\<lambda>r. Inr (s\<lparr>cs_rows := r\<rparr>))"

definition write_product :: "go_context \<Rightarrow> Product \<Rightarrow> unit tx" where
  "write_product ctx v =
    tx_bind (tx_fail_if (\<not> bounded_text 1024 (prod_ID v) \<or> \<not> bounded_text 1024 (prod_TenantID v) \<or>
      \<not> bounded_text 65536 (prod_Name v) \<or> \<not> bounded_text 1024 (prod_Slug v)) ErrValidation) (\<lambda>_.
    tx_map_error mapProductWriteError (tx_mutate ctx (on_rows (InsertProduct v))))"

definition write_project :: "go_context \<Rightarrow> Project \<Rightarrow> unit tx" where
  "write_project ctx v =
    tx_bind (tx_fail_if (\<not> memoryGovernanceText (proj_ID v) 1024 \<or> \<not> memoryGovernanceText (proj_TenantID v) 1024 \<or>
      \<not> memoryGovernanceText (proj_ProductID v) 1024 \<or> \<not> memoryGovernanceText (proj_Name v) 65536) ErrValidation) (\<lambda>_.
    tx_map_error mapProductWriteError (tx_mutate ctx (on_rows (InsertProject v))))"

definition write_release :: "go_context \<Rightarrow> Release \<Rightarrow> unit tx" where
  "write_release ctx v =
    tx_bind (tx_fail_if (\<not> list_all (bounded_text 1024) [rel_ID v, rel_TenantID v, rel_ProductID v]) ErrValidation) (\<lambda>_.
    tx_map_error mapProductWriteError (tx_mutate ctx (on_rows (InsertRelease v))))"

definition version_exists :: "go_context \<Rightarrow> string \<Rightarrow> string \<Rightarrow> string \<Rightarrow> bool tx" where
  "version_exists ctx tenant product version =
    tx_bind (tx_fail_if (\<not> bounded_text 65536 version) ErrValidation) (\<lambda>_.
    tx_map_error mapProductWriteError (ReleaseVersionExists ctx tenant product version))"

text \<open>Each command below is preceded by the closure it passes to its transaction.\<close>

definition create_product_tx :: "release_command \<Rightarrow> Actor \<Rightarrow> CreateProductInput \<Rightarrow> Product \<Rightarrow> Product tx" where
  "create_product_tx c actor input product =
    (let ctx = rc_ctx c; tenant = actor_TenantID actor in
    tx_bind (authorizeCatalogCreationScope ctx actor ActionProductsCreate []) (\<lambda>_.
    tx_bind (catalog_authorize ctx actor (tenant_request ActionProductsCreate)) (\<lambda>_.
    tx_bind (tx_map_error mapProductWriteError (ProductSlugExists ctx tenant (cpi_Slug input))) (\<lambda>exists.
    tx_bind (tx_fail_if exists ErrConflict) (\<lambda>_.
    tx_bind (write_product ctx product) (\<lambda>_.
    tx_bind (AppendAudit ctx (rc_hasher c) (auditEventFor (rc_newID c ''ace'') actor (prod_CreatedAt product)
      ''product.created'' ''product'' (prod_ID product) [])) (\<lambda>_.
    tx_return product)))))))"

definition CreateProduct :: "release_command \<Rightarrow> Actor \<Rightarrow> CreateProductInput \<Rightarrow> Product tx" where
  "CreateProduct c actor input =
    (let ctx = rc_ctx c; tenant = actor_TenantID actor in
    tx_bind (contextError ctx) (\<lambda>_.
    tx_bind (catalog_authorize ctx actor (tenant_request ActionProductsCreate)) (\<lambda>_.
    tx_bind (tx_result (NormalizeProductCreationInput input)) (\<lambda>input.
    let product = \<lparr>prod_ID = rc_newID c ''prod'', prod_TenantID = tenant, prod_Name = cpi_Name input,
      prod_Slug = cpi_Slug input, prod_CreatedAt = rc_now c\<rparr> in
    run_unit c 0 mapProductWriteError (create_product_tx c actor input product)))))"

text \<open>The product that a project or release is created under, re-read inside the transaction.\<close>

definition read_parent :: "release_command \<Rightarrow> Actor \<Rightarrow> string \<Rightarrow> ProductCoordinates tx" where
  "read_parent c actor productID =
    tx_bind (run_unit c 0 mapProductWriteError (ReadProductCoordinates (rc_ctx c) (actor_TenantID actor) productID)) (\<lambda>product.
    tx_bind (tx_fail_if (pc_TenantID product \<noteq> actor_TenantID actor \<or> pc_ID product \<noteq> productID) ErrNotFound) (\<lambda>_.
    tx_return product))"

definition recheck_parent :: "go_context \<Rightarrow> Actor \<Rightarrow> ProductCoordinates \<Rightarrow> unit tx" where
  "recheck_parent ctx actor product =
    tx_bind (tx_map_error mapProductWriteError (ReadProductCoordinates ctx (actor_TenantID actor) (pc_ID product))) (\<lambda>current.
    tx_bind (tx_fail_if (pc_TenantID current \<noteq> actor_TenantID actor \<or> pc_ID current \<noteq> pc_ID product) ErrNotFound) (\<lambda>_.
    tx_fail_if (current \<noteq> product) ErrConflict))"

definition create_project_tx ::
  "release_command \<Rightarrow> Actor \<Rightarrow> CreateProjectInput \<Rightarrow> ProductCoordinates \<Rightarrow> Project \<Rightarrow> Project tx" where
  "create_project_tx c actor input product project =
    (let ctx = rc_ctx c in
    tx_bind (authorizeCatalogCreationScope ctx actor ActionProjectsCreate (cji_ProductID input)) (\<lambda>_.
    tx_bind (recheck_parent ctx actor product) (\<lambda>_.
    tx_bind (write_project ctx project) (\<lambda>_.
    tx_bind (AppendAudit ctx (rc_hasher c) (auditEventFor (rc_newID c ''ace'') actor (proj_CreatedAt project)
      ''project.created'' ''project'' (proj_ID project) [])) (\<lambda>_.
    tx_return project)))))"

definition CreateProject :: "release_command \<Rightarrow> Actor \<Rightarrow> CreateProjectInput \<Rightarrow> Project tx" where
  "CreateProject c actor input =
    (let ctx = rc_ctx c; tenant = actor_TenantID actor in
    tx_bind (contextError ctx) (\<lambda>_.
    tx_bind (catalog_authorize ctx actor (scope_request ActionProjectsCreate)) (\<lambda>_.
    tx_bind (tx_result (NormalizeProjectCreationInput input)) (\<lambda>input.
    tx_bind (read_parent c actor (cji_ProductID input)) (\<lambda>product.
    tx_bind (catalog_authorize ctx actor (resource_request ActionProjectsCreate (no_refs\<lparr>ref_ProductID := pc_ID product\<rparr>))) (\<lambda>_.
    let project = \<lparr>proj_ID = rc_newID c ''proj'', proj_TenantID = tenant, proj_ProductID = pc_ID product,
      proj_Name = cji_Name input, proj_CreatedAt = rc_now c\<rparr> in
    run_unit c 1 mapProductWriteError (create_project_tx c actor input product project)))))))"

definition create_release_tx ::
  "release_command \<Rightarrow> Actor \<Rightarrow> CreateReleaseInput \<Rightarrow> ProductCoordinates \<Rightarrow> Release \<Rightarrow> Release tx" where
  "create_release_tx c actor input product release =
    (let ctx = rc_ctx c in
    tx_bind (authorizeCatalogCreationScope ctx actor ActionReleasesManage (cri_ProductID input)) (\<lambda>_.
    tx_bind (recheck_parent ctx actor product) (\<lambda>_.
    tx_bind (version_exists ctx (actor_TenantID actor) (pc_ID product) (cri_Version input)) (\<lambda>exists.
    tx_bind (tx_fail_if exists ErrConflict) (\<lambda>_.
    tx_bind (write_release ctx release) (\<lambda>_.
    tx_bind (AppendAudit ctx (rc_hasher c) (auditEventFor (rc_newID c ''ace'') actor (rel_CreatedAt release)
      ''release.created'' ''release'' (rel_ID release) [])) (\<lambda>_.
    tx_return release)))))))"

definition CreateRelease :: "release_command \<Rightarrow> Actor \<Rightarrow> CreateReleaseInput \<Rightarrow> Release tx" where
  "CreateRelease c actor input =
    (let ctx = rc_ctx c; tenant = actor_TenantID actor in
    tx_bind (contextError ctx) (\<lambda>_.
    tx_bind (catalog_authorize ctx actor (scope_request ActionReleasesManage)) (\<lambda>_.
    tx_bind (tx_result (NormalizeReleaseCreationInput input)) (\<lambda>input.
    tx_bind (read_parent c actor (cri_ProductID input)) (\<lambda>product.
    tx_bind (catalog_authorize ctx actor (resource_request ActionReleasesManage (no_refs\<lparr>ref_ProductID := pc_ID product\<rparr>))) (\<lambda>_.
    tx_bind (tx_map_error (\<lambda>_. ErrValidation)
      (tx_result (NewRelease (rc_newID c ''rel'') tenant (pc_ID product) (cri_Version input) (rc_now c)))) (\<lambda>release.
    run_unit c 1 mapProductWriteError (create_release_tx c actor input product release))))))))"

section \<open>Release transitions\<close>

definition releaseBelongsToTenant :: "Release \<Rightarrow> string \<Rightarrow> string \<Rightarrow> bool" where
  "releaseBelongsToTenant release tenantID i \<longleftrightarrow> rel_TenantID release = tenantID \<and> rel_ID release = i"

definition sameReleaseCoordinates :: "Release \<Rightarrow> Release \<Rightarrow> bool" where
  "sameReleaseCoordinates l r \<longleftrightarrow>
    rel_ID l = rel_ID r \<and> rel_TenantID l = rel_TenantID r \<and> rel_ProductID l = rel_ProductID r \<and> rel_Version l = rel_Version r"

definition release_refs :: "Release \<Rightarrow> ResourceReferences" where
  "release_refs r = no_refs\<lparr>ref_ProductID := rel_ProductID r, ref_ReleaseID := rel_ID r\<rparr>"

definition UpdateRelease :: "go_context \<Rightarrow> Release \<Rightarrow> int \<Rightarrow> string \<Rightarrow> unit tx" where
  "UpdateRelease ctx release expectedRevision expectedState =
    tx_bind (tx_fail_if (rel_Revision release \<noteq> i64 (expectedRevision + 1)) ErrConflict) (\<lambda>_.
    tx_map_error mapReleaseStateWriteError (tx_mutate ctx (on_rows (UpdateReleaseState release expectedState))))"

text \<open>The checks on a release and its product that the command makes before and inside its transaction.\<close>

definition release_at :: "release_command \<Rightarrow> Actor \<Rightarrow> string \<Rightarrow> Release tx" where
  "release_at c actor i =
    tx_bind (run_unit c 0 mapReleaseStateWriteError (ReadReleaseState (rc_ctx c) (actor_TenantID actor) i)) (\<lambda>release.
    tx_bind (tx_fail_if (\<not> releaseBelongsToTenant release (actor_TenantID actor) i \<or> TrimSpace (rel_ProductID release) = [])
      ErrNotFound) (\<lambda>_.
    tx_return release))"

definition product_of :: "release_command \<Rightarrow> Actor \<Rightarrow> Release \<Rightarrow> ProductCoordinates tx" where
  "product_of c actor release =
    tx_bind (run_unit c 1 mapProductWriteError
      (ReadProductCoordinates (rc_ctx c) (actor_TenantID actor) (rel_ProductID release))) (\<lambda>product.
    tx_bind (tx_fail_if (pc_ID product \<noteq> rel_ProductID release \<or> pc_TenantID product \<noteq> actor_TenantID actor) ErrNotFound) (\<lambda>_.
    tx_return product))"

definition check_revision :: "int \<Rightarrow> int \<Rightarrow> string \<Rightarrow> string \<Rightarrow> unit tx" where
  "check_revision revision expectedRevision state expectedState =
    tx_bind (tx_fail_if (revision \<noteq> expectedRevision) (NewVersionConflict revision)) (\<lambda>_.
    tx_fail_if (state \<noteq> expectedState) ErrConflict)"

definition current_release :: "go_context \<Rightarrow> Actor \<Rightarrow> Release \<Rightarrow> ProductCoordinates \<Rightarrow> Release tx" where
  "current_release ctx actor release product =
    tx_bind (tx_map_error mapReleaseStateWriteError (ReadReleaseState ctx (actor_TenantID actor) (rel_ID release))) (\<lambda>current.
    tx_bind (tx_fail_if (\<not> releaseBelongsToTenant current (actor_TenantID actor) (rel_ID release)) ErrNotFound) (\<lambda>_.
    tx_bind (tx_fail_if (\<not> sameReleaseCoordinates current release) ErrConflict) (\<lambda>_.
    tx_bind (tx_map_error mapReleaseStateWriteError
      (ReadProductCoordinates ctx (actor_TenantID actor) (rel_ProductID current))) (\<lambda>currentProduct.
    tx_bind (tx_fail_if (pc_ID currentProduct \<noteq> rel_ProductID current \<or> pc_TenantID currentProduct \<noteq> actor_TenantID actor)
      ErrNotFound) (\<lambda>_.
    tx_bind (tx_fail_if (currentProduct \<noteq> product) ErrConflict) (\<lambda>_.
    tx_return current))))))"

definition transition_tx ::
  "release_command \<Rightarrow> Actor \<Rightarrow> Release \<Rightarrow> ProductCoordinates \<Rightarrow> int \<Rightarrow> string \<Rightarrow> string \<Rightarrow>
     (Release \<Rightarrow> time \<Rightarrow> Release result) \<Rightarrow> Release tx" where
  "transition_tx c actor release product expectedRevision expectedState eventType transition =
    (let ctx = rc_ctx c; transitionedAt = rc_now c in
    tx_bind (current_release ctx actor release product) (\<lambda>current.
    tx_bind (catalog_authorize ctx actor (resource_request ActionReleasesManage (release_refs current))) (\<lambda>_.
    tx_bind (check_revision (rel_Revision current) expectedRevision (rel_State current) expectedState) (\<lambda>_.
    tx_bind (tx_map_error (\<lambda>_. ErrConflict) (tx_result (transition current transitionedAt))) (\<lambda>updated.
    tx_bind (UpdateRelease ctx updated expectedRevision expectedState) (\<lambda>_.
    tx_bind (AppendAudit ctx (rc_hasher c) (auditEventFor (rc_newID c ''ace'') actor transitionedAt eventType ''release''
      (rel_ID updated) [])) (\<lambda>_.
    tx_return updated)))))))"

definition transitionRelease ::
  "release_command \<Rightarrow> Actor \<Rightarrow> string \<Rightarrow> int \<Rightarrow> string \<Rightarrow> string \<Rightarrow> (Release \<Rightarrow> time \<Rightarrow> Release result) \<Rightarrow> Release tx" where
  "transitionRelease c actor i expectedRevision expectedState eventType transition =
    (let ctx = rc_ctx c in
    tx_bind (contextError ctx) (\<lambda>_.
    tx_bind (catalog_authorize ctx actor (scope_request ActionReleasesManage)) (\<lambda>_.
    tx_bind (tx_fail_if (expectedRevision < 1) ErrValidation) (\<lambda>_.
    tx_bind (tx_result (NormalizeTransitionID i)) (\<lambda>i.
    tx_bind (release_at c actor i) (\<lambda>release.
    tx_bind (product_of c actor release) (\<lambda>product.
    tx_bind (catalog_authorize ctx actor (resource_request ActionReleasesManage (release_refs release))) (\<lambda>_.
    tx_bind (check_revision (rel_Revision release) expectedRevision (rel_State release) expectedState) (\<lambda>_.
    run_unit c 2 mapReleaseStateWriteError
      (transition_tx c actor release product expectedRevision expectedState eventType transition))))))))))"

definition FreezeRelease :: "release_command \<Rightarrow> Actor \<Rightarrow> string \<Rightarrow> int \<Rightarrow> Release tx" where
  "FreezeRelease c actor i expectedRevision =
    transitionRelease c actor i expectedRevision ReleaseStateDraftValue ''release.frozen'' Freeze"

definition ApproveRelease :: "release_command \<Rightarrow> Actor \<Rightarrow> string \<Rightarrow> int \<Rightarrow> Release tx" where
  "ApproveRelease c actor i expectedRevision =
    transitionRelease c actor i expectedRevision ReleaseStateFrozenValue ''release.approved'' Approve"

definition AuthorizeReleaseTransition :: "release_command \<Rightarrow> Actor \<Rightarrow> string \<Rightarrow> unit tx" where
  "AuthorizeReleaseTransition c a i =
    (let ctx = rc_ctx c in
    tx_bind (contextError ctx) (\<lambda>_.
    tx_bind (tx_result (check_then (validateCatalogCreationActor a) (Inr ()))) (\<lambda>_.
    tx_bind (catalog_authorize ctx a (scope_request ActionReleasesManage)) (\<lambda>_.
    tx_bind (tx_result (NormalizeTransitionID i)) (\<lambda>i.
    run_unit c 0 mapReleaseStateWriteError
     (tx_bind (tx_map_error mapReleaseStateWriteError (ReadCandidateRelease ctx (actor_TenantID a) i)) (\<lambda>v.
      tx_bind (tx_fail_if (crc_ID v \<noteq> i \<or> crc_TenantID v \<noteq> actor_TenantID a \<or> crc_ProductID v = []) ErrNotFound) (\<lambda>_.
      tx_bind (tx_fail_if (\<not> validCandidateText (crc_ProductID v) 1024) ErrConflict) (\<lambda>_.
      catalog_authorize ctx a (resource_request ActionReleasesManage
        (no_refs\<lparr>ref_ProductID := crc_ProductID v, ref_ReleaseID := i\<rparr>)))))))))))"

section \<open>Release candidates\<close>

definition validReleaseDigest :: "string \<Rightarrow> bool" where
  "validReleaseDigest value \<longleftrightarrow> prefix ''sha256:'' value \<and> length value = length ''sha256:'' + 64 \<and>
    list_all (\<lambda>d. d \<in> set ''0123456789abcdefABCDEF'') (drop (length ''sha256:'') value)"

definition ReleaseCandidateSchemaVersion :: string where
  "ReleaseCandidateSchemaVersion = ''release-candidate.v1.0.0''"

text \<open>
  The JSON of a candidate row, its members in the order of their names; empty lists and absent times are
  omitted. \<^verbatim>\<open>json.Marshal\<close> refuses a time whose year has more than four digits.
\<close>

definition ids_member :: "string \<Rightarrow> string list \<Rightarrow> (string \<times> json) list" where
  "ids_member name ids = (if ids = [] then [] else [(name, JArray (map JString ids))])"

definition time_member :: "string \<Rightarrow> time option \<Rightarrow> (string \<times> json) list" where
  "time_member name t = (case t of None \<Rightarrow> [] | Some t \<Rightarrow> [(name, JString (Format_RFC3339Nano t))])"

definition marshal_time_ok :: "time \<Rightarrow> bool" where
  "marshal_time_ok t \<longleftrightarrow> 0 \<le> year_of t \<and> year_of t \<le> 9999"

definition candidate_json :: "ReleaseCandidate \<Rightarrow> json" where
  "candidate_json v =
    JObject (ids_member ''artifact_ids'' (cand_ArtifactIDs v) @ ids_member ''build_ids'' (cand_BuildIDs v) @
      ids_member ''bundle_ids'' (cand_BundleIDs v) @ ids_member ''contract_ids'' (cand_ContractIDs v) @
      [(''created_at'', JString (Format_RFC3339Nano (cand_CreatedAt v))), (''id'', JString (cand_ID v)),
       (''name'', JString (cand_Name v))] @ time_member ''promoted_at'' (cand_PromotedAt v) @
      time_member ''rejected_at'' (cand_RejectedAt v) @
      [(''release_id'', JString (cand_ReleaseID v)), (''revision'', JNumber (decimal_int (cand_Revision v)))] @
      ids_member ''sbom_ids'' (cand_SBOMIDs v) @ ids_member ''scan_ids'' (cand_ScanIDs v) @
      [(''schema_version'', JString (cand_SchemaVersion v)), (''snapshot_hash'', JString (cand_SnapshotHash v)),
       (''state'', JString (cand_State v)), (''tenant_id'', JString (cand_TenantID v))] @
      ids_member ''vex_ids'' (cand_VEXIDs v))"

definition HashReleaseCandidate :: "go_context \<Rightarrow> canonical_hasher \<Rightarrow> ReleaseCandidate \<Rightarrow> string tx" where
  "HashReleaseCandidate ctx hasher v =
    tx_bind (tx_observe ctx) (\<lambda>_.
    tx_result (if list_all marshal_time_ok (cand_CreatedAt v # case_option [] (\<lambda>t. [t]) (cand_PromotedAt v) @
        case_option [] (\<lambda>t. [t]) (cand_RejectedAt v))
      then hasher (candidate_json v) else Inl (ErrOther ''json: year outside of range'')))"

text \<open>
  The transaction's authorizer decides with the artifact reader of the unit's own copy. It observes the
  context twice, and two more times for an artifact.
\<close>

definition candidate_authorize :: "release_command \<Rightarrow> nat \<Rightarrow> Actor \<Rightarrow> ResourceReferences \<Rightarrow> unit tx" where
  "candidate_authorize c k actor refs =
    (\<lambda>(n, s). tx_authorize (\<lambda>ctx. candidateAuthorizer (rc_artifacts c s) ctx actor
        (resource_request ActionReleaseCandidatesCreate refs)) k (rc_ctx c) (n, s))"

fun artifact_grants :: "release_command \<Rightarrow> Actor \<Rightarrow> string list \<Rightarrow> string list \<Rightarrow> unit tx" where
  "artifact_grants c a seen [] = tx_return ()"
| "artifact_grants c a seen (i # ids) =
    (if i \<in> set seen then artifact_grants c a seen ids
     else tx_bind (candidate_authorize c 4 a (no_refs\<lparr>ref_ArtifactID := i\<rparr>)) (\<lambda>_. artifact_grants c a (i # seen) ids))"

definition authorizeCandidateCreationScope ::
  "release_command \<Rightarrow> Actor \<Rightarrow> CreateReleaseCandidateInput \<Rightarrow> CandidateReleaseCoordinates tx" where
  "authorizeCandidateCreationScope c a input =
    (let ctx = rc_ctx c in
    tx_bind (tx_map_error mapProductWriteError (ReadCandidateRelease ctx (actor_TenantID a) (cci_ReleaseID input))) (\<lambda>p.
    tx_bind (tx_fail_if (crc_ID p \<noteq> cci_ReleaseID input \<or> crc_TenantID p \<noteq> actor_TenantID a \<or> crc_ProductID p = [])
      ErrNotFound) (\<lambda>_.
    tx_bind (tx_fail_if (\<not> validCandidateText (crc_ProductID p) 1024) ErrConflict) (\<lambda>_.
    tx_bind (candidate_authorize c 2 a (no_refs\<lparr>ref_ProductID := crc_ProductID p, ref_ReleaseID := crc_ID p\<rparr>)) (\<lambda>_.
    tx_bind (tx_map_error mapProductWriteError
      (ValidateReleaseCandidateReferences ctx (actor_TenantID a) (crc_ID p) (cci_References input))) (\<lambda>_.
    tx_bind (artifact_grants c a [] (rcr_ArtifactIDs (cci_References input))) (\<lambda>_.
    tx_return p)))))))"

definition new_candidate :: "release_command \<Rightarrow> Actor \<Rightarrow> CreateReleaseCandidateInput \<Rightarrow> CandidateReleaseCoordinates \<Rightarrow> ReleaseCandidate" where
  "new_candidate c actor input parent =
    (let refs = cci_References input in
     \<lparr>cand_ID = rc_newID c ''rc'', cand_TenantID = actor_TenantID actor, cand_ReleaseID = crc_ID parent,
      cand_Name = cci_Name input, cand_Revision = 1,
      cand_State = parsed_or_zero (ParseReleaseCandidateState ''open''),
      cand_BuildIDs = rcr_BuildIDs refs, cand_ArtifactIDs = rcr_ArtifactIDs refs, cand_SBOMIDs = rcr_SBOMIDs refs,
      cand_ScanIDs = rcr_ScanIDs refs, cand_VEXIDs = rcr_VEXIDs refs, cand_ContractIDs = rcr_ContractIDs refs,
      cand_BundleIDs = rcr_BundleIDs refs, cand_SnapshotHash = [], cand_SchemaVersion = ReleaseCandidateSchemaVersion,
      cand_CreatedAt = rc_now c, cand_PromotedAt = None, cand_RejectedAt = None\<rparr>)"

definition create_candidate_tx :: "release_command \<Rightarrow> Actor \<Rightarrow> CreateReleaseCandidateInput \<Rightarrow> ReleaseCandidate tx" where
  "create_candidate_tx c actor input =
    (let ctx = rc_ctx c in
    tx_bind (authorizeCandidateCreationScope c actor input) (\<lambda>parent.
    let candidate = new_candidate c actor input parent in
    tx_bind (tx_fail_if (\<not> validCandidateText (cand_ID candidate) 1024 \<or> is_zero_time (cand_CreatedAt candidate))
      ErrValidation) (\<lambda>_.
    tx_bind (HashReleaseCandidate ctx (rc_hasher c) candidate) (\<lambda>hash.
    tx_bind (tx_fail_if (\<not> validReleaseDigest hash) ErrValidation) (\<lambda>_.
    let candidate = candidate\<lparr>cand_SnapshotHash := hash\<rparr> in
    tx_bind (tx_map_error mapProductWriteError (tx_mutate ctx (on_rows (InsertReleaseCandidate candidate)))) (\<lambda>_.
    tx_bind (AppendAudit ctx (rc_hasher c) (auditEventFor (rc_newID c ''ace'') actor (cand_CreatedAt candidate)
      ''release_candidate.created'' ''release_candidate'' (cand_ID candidate) (cand_SnapshotHash candidate))) (\<lambda>_.
    tx_return candidate)))))))"

definition CreateReleaseCandidate :: "release_command \<Rightarrow> Actor \<Rightarrow> CreateReleaseCandidateInput \<Rightarrow> ReleaseCandidate tx" where
  "CreateReleaseCandidate c actor input =
    (let ctx = rc_ctx c in
    tx_bind (contextError ctx) (\<lambda>_.
    tx_bind (catalog_authorize ctx actor (scope_request ActionReleaseCandidatesCreate)) (\<lambda>_.
    tx_bind (tx_result (NormalizeCandidateCreationInput input)) (\<lambda>input.
    run_unit c 0 mapProductWriteError (create_candidate_tx c actor input)))))"

definition AuthorizeCandidateCreation :: "release_command \<Rightarrow> Actor \<Rightarrow> CreateReleaseCandidateInput \<Rightarrow> unit tx" where
  "AuthorizeCandidateCreation c a input =
    tx_bind (contextError (rc_ctx c)) (\<lambda>_.
    tx_bind (tx_result (check_then (validateCatalogCreationActor a) (Inr ()))) (\<lambda>_.
    tx_bind (catalog_authorize (rc_ctx c) a (scope_request ActionReleaseCandidatesCreate)) (\<lambda>_.
    tx_bind (tx_result (NormalizeCandidateCreationInput input)) (\<lambda>input.
    run_unit c 0 mapProductWriteError
     (tx_bind (authorizeCandidateCreationScope c a input) (\<lambda>_. tx_return ()))))))"

definition UpdateCandidateState :: "go_context \<Rightarrow> ReleaseCandidate \<Rightarrow> int \<Rightarrow> string \<Rightarrow> unit tx" where
  "UpdateCandidateState ctx v revision state =
    tx_bind (tx_fail_if (cand_Revision v \<noteq> i64 (revision + 1)) ErrConflict) (\<lambda>_.
    tx_map_error mapReleaseStateWriteError (tx_mutate ctx (on_rows (UpdateReleaseCandidateState v state))))"

definition candidate_moved :: "ReleaseCandidate \<Rightarrow> string \<Rightarrow> time \<Rightarrow> ReleaseCandidate" where
  "candidate_moved current state at =
    (let updated = current\<lparr>cand_State := parsed_or_zero (ParseReleaseCandidateState state),
       cand_Revision := i64 (cand_Revision current + 1)\<rparr> in
     if state = ''promoted'' then updated\<lparr>cand_PromotedAt := Some at\<rparr> else updated\<lparr>cand_RejectedAt := Some at\<rparr>)"

definition move_candidate_tx :: "release_command \<Rightarrow> Actor \<Rightarrow> CandidateTransitionInput \<Rightarrow> ReleaseCandidate tx" where
  "move_candidate_tx c actor v =
    (let ctx = rc_ctx c; i = cti_ID v; state = cti_State v; expectedRevision = cti_ExpectedRevision v in
    tx_bind (tx_map_error mapReleaseStateWriteError (ReadCandidateState ctx (actor_TenantID actor) i)) (\<lambda>(current, product).
    tx_bind (tx_fail_if (cand_ID current \<noteq> i \<or> cand_TenantID current \<noteq> actor_TenantID actor \<or>
      cand_ReleaseID current = [] \<or> product = []) ErrNotFound) (\<lambda>_.
    tx_bind (catalog_authorize ctx actor (resource_request ActionReleasesManage
      (no_refs\<lparr>ref_ProductID := product, ref_ReleaseID := cand_ReleaseID current\<rparr>))) (\<lambda>_.
    tx_bind (tx_fail_if (cand_Revision current \<noteq> expectedRevision) (NewVersionConflict (cand_Revision current))) (\<lambda>_.
    tx_bind (tx_fail_if (cand_State current \<noteq> ''open'' \<or> cand_Revision current = 2 ^ 63 - 1) ErrConflict) (\<lambda>_.
    let at = rc_now c; updated = candidate_moved current state at in
    tx_bind (UpdateCandidateState ctx updated expectedRevision ''open'') (\<lambda>_.
    tx_bind (AppendAudit ctx (rc_hasher c) (auditEventFor (rc_newID c ''ace'') actor at
      (''release_candidate.'' @ state) ''release_candidate'' (cand_ID updated) (cand_SnapshotHash updated))) (\<lambda>_.
    tx_return updated))))))))"

definition UpdateReleaseCandidateStateCommand ::
  "release_command \<Rightarrow> Actor \<Rightarrow> CandidateTransitionInput \<Rightarrow> ReleaseCandidate tx" where
  "UpdateReleaseCandidateStateCommand c actor input =
    (let ctx = rc_ctx c in
    tx_bind (contextError ctx) (\<lambda>_.
    tx_bind (catalog_authorize ctx actor (scope_request ActionReleasesManage)) (\<lambda>_.
    tx_bind (tx_result (NormalizeCandidateTransitionInput input)) (\<lambda>v.
    run_unit c 0 mapReleaseStateWriteError (move_candidate_tx c actor v)))))"

definition AuthorizeCandidateTransition :: "release_command \<Rightarrow> Actor \<Rightarrow> string \<Rightarrow> unit tx" where
  "AuthorizeCandidateTransition c a i =
    (let ctx = rc_ctx c in
    tx_bind (contextError ctx) (\<lambda>_.
    tx_bind (tx_result (check_then (validateCatalogCreationActor a) (Inr ()))) (\<lambda>_.
    tx_bind (catalog_authorize ctx a (scope_request ActionReleasesManage)) (\<lambda>_.
    tx_bind (tx_result (NormalizeTransitionID i)) (\<lambda>i.
    run_unit c 0 mapReleaseStateWriteError
     (tx_bind (tx_map_error mapReleaseStateWriteError (ReadCandidateTransitionScope ctx (actor_TenantID a) i)) (\<lambda>v.
      tx_bind (tx_fail_if (cts_ID v \<noteq> i \<or> cts_TenantID v \<noteq> actor_TenantID a \<or> cts_ReleaseID v = [] \<or> cts_ProductID v = [])
        ErrNotFound) (\<lambda>_.
      tx_bind (tx_fail_if (\<not> validCandidateText (cts_ReleaseID v) 1024 \<or> \<not> validCandidateText (cts_ProductID v) 1024)
        ErrConflict) (\<lambda>_.
      catalog_authorize ctx a (resource_request ActionReleasesManage
        (no_refs\<lparr>ref_ProductID := cts_ProductID v, ref_ReleaseID := cts_ReleaseID v\<rparr>)))))))))))"

end
