(* ===== verification/Release_Properties.thy ===== *)
theory Release_Properties
  imports Release_Commands
begin

text \<open>
  The lifecycle of releases and release candidates. The commands of \<open>Release_Commands\<close> interleave as the
  steps of \<open>catalog_step\<close>; in every reachable store each release is a draft, frozen or approved one with the
  revision and timestamps of that state, and each candidate an open, promoted or rejected one that still
  carries the hash of its creation. A transition happens at the expected revision only, with the authority
  for the release it changes, and leaves one audit entry.
\<close>

section \<open>Successful transactions\<close>

lemma run_unit_Inr [tx_success]:
  "run_unit c k f m st = Inr (x, st') \<longleftrightarrow>
    ctx_err (rc_ctx c) (fst st) = None \<and> ctx_err (rc_ctx c) (fst st + 1) = None \<and> \<not> rc_raced c k \<and>
    (\<exists>n s'. m (fst st + 2, rc_env c k) = Inr (x, n, s') \<and> ctx_err (rc_ctx c) n = None \<and> st' = (n + 1, s'))"
  by (simp add: run_unit_def tx_success)

lemma run_command_Inr: "run_command c m = Inr (x, s) \<longleftrightarrow> (\<exists>n. m (0, rc_env c 0) = Inr (x, n, s))"
  by (auto simp: run_command_def split: sum.splits prod.splits)

lemma keeps_store_authorize [intro!]: "keeps_store (catalog_authorize ctx a r)"
  by (auto simp: catalog_authorize_def)

lemma keeps_store_readers [intro!]:
  "keeps_store (ReadProductCoordinates ctx t i)" "keeps_store (ReadReleaseState ctx t i)"
  "keeps_store (ProductSlugExists ctx t i)" "keeps_store (ReadCandidateRelease ctx t i)"
  "keeps_store (LockCatalogCreationTenant ctx t)" "keeps_store (ReadCandidateState ctx t i)"
  by (auto simp: ReadProductCoordinates_def ReadReleaseState_def ProductSlugExists_def ReadCandidateRelease_def
      memoryGovernanceRead_def LockCatalogCreationTenant_def ReadCandidateState_def Let_def)

lemma keeps_store_version [intro!]: "keeps_store (version_exists ctx t p v)"
  by (auto simp: version_exists_def ReleaseVersionExists_def Let_def)

lemma keeps_store_creation_product [intro!]: "keeps_store (ReadCatalogCreationProduct ctx t i)"
  by (auto simp: ReadCatalogCreationProduct_def)

lemma keeps_store_creation_scope [intro!]: "keeps_store (authorizeCatalogCreationScope ctx a action p)"
  by (auto simp: authorizeCatalogCreationScope_def)

lemma keeps_store_parent [intro!]: "keeps_store (recheck_parent ctx a p)"
  by (auto simp: recheck_parent_def)

lemma keeps_store_current [intro!]: "keeps_store (current_release ctx a r p)"
  by (auto simp: current_release_def)

lemma keeps_store_owned [intro!]: "keeps_store (owned_loop ctx t r p refs)"
  by (induction ctx t r p refs rule: owned_loop.induct) auto

lemma keeps_store_references [intro!]: "keeps_store (ValidateReleaseCandidateReferences ctx t r refs)"
  by (auto simp: ValidateReleaseCandidateReferences_def memoryGovernanceRead_def)

lemma keeps_store_candidate_authorize [intro!]: "keeps_store (candidate_authorize c k a refs)"
  by (auto simp: keeps_store_def candidate_authorize_def tx_success split: prod.splits)

lemma keeps_store_grants [intro!]: "keeps_store (artifact_grants c a seen ids)"
  by (induction c a seen ids rule: artifact_grants.induct) auto

lemma keeps_store_candidate_scope [intro!]: "keeps_store (authorizeCandidateCreationScope c a input)"
  by (auto simp: authorizeCandidateCreationScope_def Let_def)

lemma keeps_store_hash [intro!]: "keeps_store (HashReleaseCandidate ctx h v)"
  by (auto simp: HashReleaseCandidate_def)

subsection \<open>Writes\<close>

lemma on_rows_Inr [tx_success]: "on_rows f s = Inr s' \<longleftrightarrow> (\<exists>r. f (cs_rows s) = Inr r \<and> s' = s\<lparr>cs_rows := r\<rparr>)"
  by (auto simp: on_rows_def)

text \<open>A successful append adds one entry to the chain of the actor's tenant and touches nothing else.\<close>

definition appended :: "AuditEvent \<Rightarrow> 'z catalog_store_scheme \<Rightarrow> 'z catalog_store_scheme \<Rightarrow> bool" where
  "appended v s s' \<longleftrightarrow>
    (\<exists>e. s' = s\<lparr>cs_AuditEntries := tbl_put (cs_AuditEntries s) (aev_TenantID v) (chain_of (cs_audit s) (aev_TenantID v) @ [e])\<rparr> \<and>
      ace_ID e = coerce_utf8 (aev_ID v) \<and> ace_EntryType e = coerce_utf8 (aev_EntryType v) \<and> ace_SubjectID e = coerce_utf8 (aev_SubjectID v) \<and>
      ace_ActorID e = coerce_utf8 (aev_ActorID v) \<and> ace_OccurredAt e = aev_OccurredAt v \<and>
      ace_Sequence e = i64 (int (length (chain_of (cs_audit s) (aev_TenantID v))) + 1))"

lemma appended_rows: "appended v s s' \<Longrightarrow> cs_rows s' = cs_rows s"
  by (auto simp: appended_def)

lemma catalog_append_appended: "catalog_append h v s = Inr s' \<Longrightarrow> appended v s s'"
  by (auto simp: catalog_append_def appendAudit_def RehashAuditChainEntry_def cloneMemoryAuditEntry_def event_entry_def
      Let_def appended_def cs_audit_def split: if_splits)

lemma AppendAudit_Inr [tx_success]:
  "AppendAudit ctx h v st = Inr (u, st') \<longleftrightarrow>
    ctx_err ctx (fst st) = None \<and> (\<exists>s'. catalog_append h v (snd st) = Inr s' \<and> st' = (fst st + 1, s'))"
  by (simp add: AppendAudit_def tx_success)

section \<open>What a successful command does\<close>

lemma ReadReleaseState_Inr:
  assumes "ReadReleaseState ctx t i st = Inr (v, st')"
  obtains row state where "tbl_get (Releases (cs_rows (snd st))) (TrimSpace i) = Some row"
    "rel_TenantID row = TrimSpace t" "ParseReleaseState (rel_State row) = Inr state" "v = row\<lparr>rel_State := state\<rparr>"
  using assms
  by (auto simp: ReadReleaseState_def GetRelease_def Let_def tx_success split: if_splits option.splits sum.splits)

lemma NormalizeTransitionID_Inr: "NormalizeTransitionID i = Inr j \<Longrightarrow> j = TrimSpace i \<and> TrimSpace j = j \<and> j \<noteq> []"
  by (auto simp: NormalizeTransitionID_def Let_def split: if_splits)

lemma current_release_Inr:
  assumes "current_release ctx actor rel p st = Inr (v, st')"
  shows "\<exists>row state. tbl_get (Releases (cs_rows (snd st))) (TrimSpace (rel_ID rel)) = Some row \<and>
      ParseReleaseState (rel_State row) = Inr state \<and> v = row\<lparr>rel_State := state\<rparr> \<and>
      rel_TenantID row = actor_TenantID actor \<and> rel_ID row = rel_ID rel \<and> snd st' = snd st"
proof -
  from assms obtain st1 where r: "ReadReleaseState ctx (actor_TenantID actor) (rel_ID rel) st = Inr (v, st1)"
    and b: "releaseBelongsToTenant v (actor_TenantID actor) (rel_ID rel)"
    by (auto simp: current_release_def tx_success)
  have "snd st' = snd st" using keeps_store_current assms by (rule keeps_storeD)
  with r b show ?thesis by (auto elim!: ReadReleaseState_Inr simp: releaseBelongsToTenant_def)
qed

lemma release_at_Inr: "release_at c actor i st = Inr (v, st') \<Longrightarrow> rel_ID v = i"
  by (auto simp: release_at_def releaseBelongsToTenant_def tx_success)

definition release_event :: "release_command \<Rightarrow> Actor \<Rightarrow> string \<Rightarrow> string \<Rightarrow> AuditEvent" where
  "release_event c actor kind i = auditEventFor (rc_newID c ''ace'') actor (rc_now c) kind ''release'' i []"

definition permits_release :: "release_command \<Rightarrow> Actor \<Rightarrow> Release \<Rightarrow> bool" where
  "permits_release c actor r \<longleftrightarrow>
    (\<exists>n. catalogAuthorizer (ctx_drop n (rc_ctx c)) actor (resource_request ActionReleasesManage (release_refs r)) = None)"

lemma transition_tx_Inr:
  assumes "transition_tx c actor rel p r st kind tr (n, s) = Inr (v, st')"
  obtains row state current s1 where
    "tbl_get (Releases (cs_rows s)) (TrimSpace (rel_ID rel)) = Some row" "rel_ID row = rel_ID rel"
    "rel_TenantID row = actor_TenantID actor" "ParseReleaseState (rel_State row) = Inr st" "current = row\<lparr>rel_State := st\<rparr>"
    "permits_release c actor current" "rel_Revision row = r" "tr current (rc_now c) = Inr v" "rel_Revision v = i64 (r + 1)"
    "UpdateReleaseState v st (cs_rows s) = Inr s1"
    "catalog_append (rc_hasher c) (release_event c actor kind (rel_ID v)) (s\<lparr>cs_rows := s1\<rparr>) = Inr (snd st')"
proof -
  from assms obtain cur st1 where cur: "current_release (rc_ctx c) actor rel p (n, s) = Inr (cur, st1)"
    and auth: "catalogAuthorizer (ctx_drop (fst st1) (rc_ctx c)) actor (resource_request ActionReleasesManage (release_refs cur)) = None"
    and body: "rel_Revision cur = r" "rel_State cur = st" "tr cur (rc_now c) = Inr v" "rel_Revision v = i64 (r + 1)"
      "\<exists>s1. UpdateReleaseState v st (cs_rows (snd st1)) = Inr s1 \<and>
        catalog_append (rc_hasher c) (release_event c actor kind (rel_ID v)) ((snd st1)\<lparr>cs_rows := s1\<rparr>) = Inr (snd st')"
    unfolding transition_tx_def Let_def catalog_authorize_def check_revision_def UpdateRelease_def
    by (auto simp: tx_success release_event_def)
  from current_release_Inr [OF cur] body auth show ?thesis
    by (auto simp: permits_release_def intro!: that)
qed

lemma transitionRelease_Inr:
  assumes "run_command c (transitionRelease c actor i r st kind tr) = Inr (v, s')"
  obtains row current s1 where "NormalizeTransitionID i = Inr (rel_ID row)"
    "tbl_get (Releases (cs_rows (rc_env c 2))) (rel_ID row) = Some row" "rel_TenantID row = actor_TenantID actor"
    "ParseReleaseState (rel_State row) = Inr st" "current = row\<lparr>rel_State := st\<rparr>" "permits_release c actor current"
    "rel_Revision row = r" "1 \<le> r" "tr current (rc_now c) = Inr v" "rel_Revision v = i64 (r + 1)"
    "UpdateReleaseState v st (cs_rows (rc_env c 2)) = Inr s1"
    "catalog_append (rc_hasher c) (release_event c actor kind (rel_ID v)) ((rc_env c 2)\<lparr>cs_rows := s1\<rparr>) = Inr s'"
proof -
  from assms obtain j rel p st1 st2 n n' where j: "1 \<le> r" "NormalizeTransitionID i = Inr j"
    and rel: "release_at c actor j st1 = Inr (rel, st2)"
    and tx: "transition_tx c actor rel p r st kind tr (n, rc_env c 2) = Inr (v, n', s')"
    unfolding run_command_Inr transitionRelease_def Let_def catalog_authorize_def
    by (auto simp: tx_success not_less)
  from tx show ?thesis
    using release_at_Inr [OF rel] NormalizeTransitionID_Inr [OF j(2)] j
    by (auto elim!: transition_tx_Inr intro!: that)
qed

text \<open>
  A creating transaction reads, writes one row and appends one event; what it leaves follows from its last
  two calls because the reads before them keep the copy.
\<close>

definition tx_post :: "'a tx \<Rightarrow> catalog_store \<Rightarrow> ('a \<Rightarrow> catalog_store \<Rightarrow> bool) \<Rightarrow> bool" where
  "tx_post m s P \<longleftrightarrow> (\<forall>n x n' s'. m (n, s) = Inr (x, n', s') \<longrightarrow> P x s')"

definition stored :: "repository_op \<Rightarrow> canonical_hasher \<Rightarrow> 'a \<Rightarrow> catalog_store \<Rightarrow> 'a \<Rightarrow> catalog_store \<Rightarrow> bool" where
  "stored g h w s v s' \<longleftrightarrow>
    v = w \<and> (\<exists>s1 e. g (cs_rows s) = Inr s1 \<and> catalog_append h e (s\<lparr>cs_rows := s1\<rparr>) = Inr s')"

lemma tx_postD: "tx_post m s P \<Longrightarrow> m (n, s) = Inr (x, n', s') \<Longrightarrow> P x s'"
  by (auto simp: tx_post_def)

lemma tx_post_keep: "keeps_store m \<Longrightarrow> (\<And>x. tx_post (f x) s P) \<Longrightarrow> tx_post (tx_bind m f) s P"
  unfolding tx_post_def tx_bind_Inr keeps_store_def by (metis prod.collapse snd_conv)

lemma tx_post_write:
  assumes "keeps_store guard"
  shows "tx_post (tx_bind (tx_bind guard (\<lambda>_. tx_map_error f (tx_mutate ctx (on_rows g))))
    (\<lambda>_. tx_bind (AppendAudit ctx h e) (\<lambda>_. tx_return w))) s (stored g h w s)"
  using keeps_storeD [OF assms] unfolding tx_post_def stored_def
  by (simp add: tx_success) (metis snd_conv)

lemma create_product_post: "tx_post (create_product_tx c actor q w) s (stored (InsertProduct w) (rc_hasher c) w s)"
  unfolding create_product_tx_def Let_def write_product_def by (intro tx_post_keep tx_post_write) auto

lemma create_project_post: "tx_post (create_project_tx c actor q p w) s (stored (InsertProject w) (rc_hasher c) w s)"
  unfolding create_project_tx_def Let_def write_project_def by (intro tx_post_keep tx_post_write) auto

lemma create_release_post: "tx_post (create_release_tx c actor q p w) s (stored (InsertRelease w) (rc_hasher c) w s)"
  unfolding create_release_tx_def Let_def write_release_def by (intro tx_post_keep tx_post_write) auto

lemma CreateProduct_Inr:
  assumes "run_command c (CreateProduct c actor input) = Inr (v, s')"
  shows "stored (InsertProduct v) (rc_hasher c) v (rc_env c 0) v s'"
proof -
  from assms obtain w n n' q where "create_product_tx c actor q w (n, rc_env c 0) = Inr (v, n', s')"
    unfolding run_command_Inr CreateProduct_def Let_def catalog_authorize_def by (auto simp: tx_success)
  from tx_postD [OF create_product_post this] show ?thesis by (simp add: stored_def)
qed

lemma CreateProject_Inr:
  assumes "run_command c (CreateProject c actor input) = Inr (v, s')"
  shows "stored (InsertProject v) (rc_hasher c) v (rc_env c 1) v s'"
proof -
  from assms obtain w n n' q p where "create_project_tx c actor q p w (n, rc_env c 1) = Inr (v, n', s')"
    unfolding run_command_Inr CreateProject_def Let_def catalog_authorize_def by (auto simp: tx_success)
  from tx_postD [OF create_project_post this] show ?thesis by (simp add: stored_def)
qed

lemma CreateRelease_Inr:
  assumes "run_command c (CreateRelease c actor input) = Inr (v, s')"
  shows "stored (InsertRelease v) (rc_hasher c) v (rc_env c 1) v s' \<and>
    (\<exists>i p x. NewRelease i (actor_TenantID actor) p x (rc_now c) = Inr v)"
proof -
  from assms obtain w n n' q p i x where new: "NewRelease i (actor_TenantID actor) (pc_ID p) x (rc_now c) = Inr w"
    and tx: "create_release_tx c actor q p w (n, rc_env c 1) = Inr (v, n', s')"
    unfolding run_command_Inr CreateRelease_def Let_def catalog_authorize_def by (auto simp: tx_success)
  from tx_postD [OF create_release_post tx] new show ?thesis by (auto simp: stored_def)
qed

text \<open>The candidate as it was created, before its hash was set.\<close>

definition created_snapshot :: "ReleaseCandidate \<Rightarrow> ReleaseCandidate" where
  "created_snapshot v = v\<lparr>cand_State := ReleaseCandidateStateOpenValue, cand_Revision := 1, cand_SnapshotHash := [],
     cand_PromotedAt := None, cand_RejectedAt := None\<rparr>"

lemma open_trimmed [simp]: "parsed_or_zero (ParseReleaseCandidateState ''open'') = ReleaseCandidateStateOpenValue"
  by (simp add: ParseReleaseCandidateState_def parsed_or_zero_def candidate_state_values edge_safe_def graphic_def byte_def)

definition fresh_candidate :: "canonical_hasher \<Rightarrow> ReleaseCandidate \<Rightarrow> bool" where
  "fresh_candidate h v \<longleftrightarrow>
    h (candidate_json (created_snapshot v)) = Inr (cand_SnapshotHash v) \<and> validReleaseDigest (cand_SnapshotHash v) \<and>
    cand_State v = ReleaseCandidateStateOpenValue \<and> cand_Revision v = 1 \<and> cand_PromotedAt v = None \<and>
    cand_RejectedAt v = None \<and> cand_ID v \<noteq> [] \<and> cand_CreatedAt v \<noteq> 0"

lemma new_candidate_fields:
  "created_snapshot (new_candidate c a q p\<lparr>cand_SnapshotHash := hash\<rparr>) = new_candidate c a q p"
  "cand_State (new_candidate c a q p) = ReleaseCandidateStateOpenValue" "cand_Revision (new_candidate c a q p) = 1"
  "cand_PromotedAt (new_candidate c a q p) = None" "cand_RejectedAt (new_candidate c a q p) = None"
  by (simp_all add: created_snapshot_def new_candidate_def Let_def)

lemma create_candidate_post:
  "tx_post (create_candidate_tx c actor q) s (\<lambda>v s'. fresh_candidate (rc_hasher c) v \<and>
    stored (InsertReleaseCandidate v) (rc_hasher c) v s v s')"
  unfolding create_candidate_tx_def Let_def
  by (rule tx_post_keep, blast)
     (auto simp: tx_post_def tx_success HashReleaseCandidate_def stored_def fresh_candidate_def validCandidateText_def
        new_candidate_fields split: if_splits)

lemma CreateReleaseCandidate_Inr:
  assumes "run_command c (CreateReleaseCandidate c actor input) = Inr (v, s')"
  shows "fresh_candidate (rc_hasher c) v \<and> stored (InsertReleaseCandidate v) (rc_hasher c) v (rc_env c 0) v s'"
proof -
  from assms obtain n n' q where "create_candidate_tx c actor q (n, rc_env c 0) = Inr (v, n', s')"
    unfolding run_command_Inr CreateReleaseCandidate_def Let_def catalog_authorize_def by (auto simp: tx_success)
  from tx_postD [OF create_candidate_post this] show ?thesis .
qed


lemma ParseReleaseCandidateState_Inr: "ParseReleaseCandidateState v = Inr st \<Longrightarrow> st = TrimSpace v \<and>
    st \<in> {ReleaseCandidateStateOpenValue, ReleaseCandidateStatePromotedValue, ReleaseCandidateStateRejectedValue}"
  by (auto simp: ParseReleaseCandidateState_def Let_def split: if_splits)

lemma coordinates_of_release:
  assumes "memoryOperationsCoordinates s t (no_refs\<lparr>ref_ReleaseID := i\<rparr>) = Inr refs" "ref_ProductID refs \<noteq> []"
  shows "\<exists>r. tbl_get (Releases s) i = Some r \<and> rel_TenantID r = t \<and> rel_ProductID r = ref_ProductID refs"
  using assms
  by (auto simp: memoryOperationsCoordinates_def resolve_build_def resolve_deployment_def resolve_project_def
      resolve_release_def merge_ref_def no_refs_def split: if_splits option.splits)

text \<open>The product that owns the release of a candidate.\<close>

definition owner_product :: "MemoryUnitOfWorkSnapshot \<Rightarrow> ReleaseCandidate \<Rightarrow> string \<Rightarrow> bool" where
  "owner_product s v product \<longleftrightarrow>
    (\<exists>r. tbl_get (Releases s) (cand_ReleaseID v) = Some r \<and> rel_TenantID r = cand_TenantID v \<and> rel_ProductID r = product)"

lemma ReadCandidateState_Inr:
  assumes "ReadCandidateState ctx t i st = Inr ((v, product), st')" "product \<noteq> []"
  shows "\<exists>row. tbl_get (ReleaseCandidates (cs_rows (snd st))) i = Some row \<and> cand_ID row = i \<and> cand_TenantID row = t \<and>
    v = row\<lparr>cand_State := TrimSpace (cand_State row)\<rparr> \<and> owner_product (cs_rows (snd st)) row product"
  using assms
  by (auto simp: ReadCandidateState_def memoryGovernanceRead_def candidate_row_def memoryCandidateMetadata_def tx_success
      owner_product_def split: if_splits option.splits sum.splits dest!: ParseReleaseCandidateState_Inr coordinates_of_release)

definition candidate_event :: "release_command \<Rightarrow> Actor \<Rightarrow> string \<Rightarrow> ReleaseCandidate \<Rightarrow> AuditEvent" where
  "candidate_event c actor state v =
    auditEventFor (rc_newID c ''ace'') actor (rc_now c) (''release_candidate.'' @ state) ''release_candidate'' (cand_ID v)
      (cand_SnapshotHash v)"

definition permits_candidate :: "release_command \<Rightarrow> Actor \<Rightarrow> string \<Rightarrow> string \<Rightarrow> bool" where
  "permits_candidate c actor product release \<longleftrightarrow>
    (\<exists>n. catalogAuthorizer (ctx_drop n (rc_ctx c)) actor (resource_request ActionReleasesManage
      (no_refs\<lparr>ref_ProductID := product, ref_ReleaseID := release\<rparr>)) = None)"

lemma permits_candidateI:
  "catalogAuthorizer (ctx_drop n (rc_ctx c)) actor (resource_request ActionReleasesManage
    (no_refs\<lparr>ref_ProductID := product, ref_ReleaseID := release\<rparr>)) = None \<Longrightarrow> permits_candidate c actor product release"
  unfolding permits_candidate_def by blast

lemma NormalizeCandidateTransitionInput_Inr:
  "NormalizeCandidateTransitionInput v = Inr w \<Longrightarrow> cti_ExpectedRevision w = cti_ExpectedRevision v \<and>
    1 \<le> cti_ExpectedRevision v \<and> cti_State w \<in> {''promoted'', ''rejected''} \<and> cti_Reason w \<noteq> [] \<and>
    NormalizeTransitionID (cti_ID v) = Inr (cti_ID w)"
  by (auto simp: NormalizeCandidateTransitionInput_def Let_def split: if_splits)

lemma move_candidate_tx_Inr:
  assumes "move_candidate_tx c actor w (n, s) = Inr (v, n', s')"
  obtains row product s1 where "tbl_get (ReleaseCandidates (cs_rows s)) (cti_ID w) = Some row" "cand_ID row = cti_ID w"
    "cand_TenantID row = actor_TenantID actor" "owner_product (cs_rows s) row product"
    "permits_candidate c actor product (cand_ReleaseID row)" "cand_Revision row = cti_ExpectedRevision w"
    "TrimSpace (cand_State row) = ''open''" "v = candidate_moved (row\<lparr>cand_State := ''open''\<rparr>) (cti_State w) (rc_now c)"
    "cand_Revision v = i64 (cti_ExpectedRevision w + 1)" "UpdateReleaseCandidateState v ''open'' (cs_rows s) = Inr s1"
    "catalog_append (rc_hasher c) (candidate_event c actor (cti_State w) v) (s\<lparr>cs_rows := s1\<rparr>) = Inr s'"
proof -
  from assms obtain cur product st1 where
      read: "ReadCandidateState (rc_ctx c) (actor_TenantID actor) (cti_ID w) (n, s) = Inr ((cur, product), st1)" "product \<noteq> []"
    and auth: "permits_candidate c actor product (cand_ReleaseID cur)"
    and body: "cand_Revision cur = cti_ExpectedRevision w" "cand_State cur = ''open''"
      "v = candidate_moved cur (cti_State w) (rc_now c)" "cand_Revision v = i64 (cti_ExpectedRevision w + 1)"
      "\<exists>s1. UpdateReleaseCandidateState v ''open'' (cs_rows (snd st1)) = Inr s1 \<and>
        catalog_append (rc_hasher c) (candidate_event c actor (cti_State w) v) ((snd st1)\<lparr>cs_rows := s1\<rparr>) = Inr s'"
    unfolding move_candidate_tx_def Let_def catalog_authorize_def UpdateCandidateState_def
    by (auto simp: tx_success candidate_event_def dest: permits_candidateI)
  have "snd st1 = s" using keeps_storeD [OF keeps_store_readers(6) read(1)] by simp
  with ReadCandidateState_Inr [OF read] auth body show ?thesis by (auto intro!: that)
qed

lemma MoveCandidate_Inr:
  assumes "run_command c (UpdateReleaseCandidateStateCommand c actor input) = Inr (v, s')"
  obtains row product s1 state where "NormalizeTransitionID (cti_ID input) = Inr (cand_ID row)"
    "state \<in> {''promoted'', ''rejected''}" "tbl_get (ReleaseCandidates (cs_rows (rc_env c 0))) (cand_ID row) = Some row"
    "cand_TenantID row = actor_TenantID actor" "owner_product (cs_rows (rc_env c 0)) row product"
    "permits_candidate c actor product (cand_ReleaseID row)" "cand_Revision row = cti_ExpectedRevision input"
    "TrimSpace (cand_State row) = ''open''" "v = candidate_moved (row\<lparr>cand_State := ''open''\<rparr>) state (rc_now c)"
    "cand_Revision v = i64 (cti_ExpectedRevision input + 1)"
    "UpdateReleaseCandidateState v ''open'' (cs_rows (rc_env c 0)) = Inr s1"
    "catalog_append (rc_hasher c) (candidate_event c actor state v) ((rc_env c 0)\<lparr>cs_rows := s1\<rparr>) = Inr s'"
proof -
  from assms obtain w n n' where w: "NormalizeCandidateTransitionInput input = Inr w"
    and tx: "move_candidate_tx c actor w (n, rc_env c 0) = Inr (v, n', s')"
    unfolding run_command_Inr UpdateReleaseCandidateStateCommand_def Let_def catalog_authorize_def by (auto simp: tx_success)
  show ?thesis using NormalizeCandidateTransitionInput_Inr [OF w]
    by (rule_tac move_candidate_tx_Inr [OF tx]) (rule that, auto)
qed

section \<open>The lifecycle\<close>

text \<open>
  The rows of a state of the lifecycle: its name, its revision and which of its two timestamps are set.
\<close>

definition release_phases :: "(string \<times> int \<times> bool \<times> bool) set" where
  "release_phases =
    {(ReleaseStateDraftValue, 1, False, False), (ReleaseStateFrozenValue, 2, True, False),
     (ReleaseStateApprovedValue, 3, True, True)}"

definition candidate_phases :: "(string \<times> int \<times> bool \<times> bool) set" where
  "candidate_phases =
    {(ReleaseCandidateStateOpenValue, 1, False, False), (ReleaseCandidateStatePromotedValue, 2, True, False),
     (ReleaseCandidateStateRejectedValue, 2, False, True)}"

definition release_wf :: "string \<Rightarrow> Release \<Rightarrow> bool" where
  "release_wf i r \<longleftrightarrow>
    rel_ID r = i \<and> i \<noteq> [] \<and> rel_TenantID r \<noteq> [] \<and> rel_ProductID r \<noteq> [] \<and> rel_Version r \<noteq> [] \<and> rel_CreatedAt r \<noteq> 0 \<and>
    (rel_State r, rel_Revision r, rel_FrozenAt r \<noteq> None, rel_ApprovedAt r \<noteq> None) \<in> release_phases"

definition candidate_wf :: "canonical_hasher \<Rightarrow> string \<Rightarrow> ReleaseCandidate \<Rightarrow> bool" where
  "candidate_wf h i v \<longleftrightarrow>
    cand_ID v = i \<and> i \<noteq> [] \<and> cand_CreatedAt v \<noteq> 0 \<and>
    (cand_State v, cand_Revision v, cand_PromotedAt v \<noteq> None, cand_RejectedAt v \<noteq> None) \<in> candidate_phases \<and>
    h (candidate_json (created_snapshot v)) = Inr (cand_SnapshotHash v) \<and> validReleaseDigest (cand_SnapshotHash v)"

definition lifecycle_ok :: "canonical_hasher \<Rightarrow> catalog_store \<Rightarrow> bool" where
  "lifecycle_ok h s \<longleftrightarrow>
    (\<forall>i r. tbl_get (Releases (cs_rows s)) i = Some r \<longrightarrow> release_wf i r) \<and>
    (\<forall>i v. tbl_get (ReleaseCandidates (cs_rows s)) i = Some v \<longrightarrow> candidate_wf h i v)"

lemma lifecycle_okD:
  "lifecycle_ok h s \<Longrightarrow> tbl_get (Releases (cs_rows s)) i = Some r \<Longrightarrow> release_wf i r"
  "lifecycle_ok h s \<Longrightarrow> tbl_get (ReleaseCandidates (cs_rows s)) i = Some v \<Longrightarrow> candidate_wf h i v"
  by (simp_all add: lifecycle_ok_def)

text \<open>
  The steps: the commands of the context, each on the committed store its writing unit began on, and any
  change by another part of the server, which writes neither releases nor candidates.
\<close>

inductive catalog_step :: "canonical_hasher \<Rightarrow> catalog_store \<Rightarrow> catalog_store \<Rightarrow> bool" for h where
  product: "run_command c (CreateProduct c actor q) = Inr (v, s') \<Longrightarrow> rc_hasher c = h \<Longrightarrow> catalog_step h (rc_env c 0) s'"
| project: "run_command c (CreateProject c actor q) = Inr (v, s') \<Longrightarrow> rc_hasher c = h \<Longrightarrow> catalog_step h (rc_env c 1) s'"
| release: "run_command c (CreateRelease c actor q) = Inr (v, s') \<Longrightarrow> rc_hasher c = h \<Longrightarrow> catalog_step h (rc_env c 1) s'"
| freeze: "run_command c (FreezeRelease c actor i r) = Inr (v, s') \<Longrightarrow> rc_hasher c = h \<Longrightarrow> catalog_step h (rc_env c 2) s'"
| approve: "run_command c (ApproveRelease c actor i r) = Inr (v, s') \<Longrightarrow> rc_hasher c = h \<Longrightarrow> catalog_step h (rc_env c 2) s'"
| candidate: "run_command c (CreateReleaseCandidate c actor q) = Inr (v, s') \<Longrightarrow> rc_hasher c = h \<Longrightarrow>
    catalog_step h (rc_env c 0) s'"
| move: "run_command c (UpdateReleaseCandidateStateCommand c actor q) = Inr (v, s') \<Longrightarrow> rc_hasher c = h \<Longrightarrow>
    catalog_step h (rc_env c 0) s'"
| other: "Releases (cs_rows s') = Releases (cs_rows s) \<Longrightarrow> ReleaseCandidates (cs_rows s') = ReleaseCandidates (cs_rows s) \<Longrightarrow>
    catalog_step h s s'"

inductive catalog_reachable :: "canonical_hasher \<Rightarrow> catalog_store \<Rightarrow> bool" for h where
  start: "cs_rows s = emptyMemoryUnitOfWorkSnapshot \<Longrightarrow> catalog_reachable h s"
| step: "catalog_reachable h s \<Longrightarrow> catalog_step h s s' \<Longrightarrow> catalog_reachable h s'"

text \<open>How a table of releases or candidates may change: rows are added and moved forward, never removed.\<close>

definition release_moves :: "Release \<Rightarrow> Release \<Rightarrow> bool" where
  "release_moves r r' \<longleftrightarrow> r' = r \<or> (\<exists>t. Freeze r t = Inr r' \<or> Approve r t = Inr r')"

definition candidate_moves :: "ReleaseCandidate \<Rightarrow> ReleaseCandidate \<Rightarrow> bool" where
  "candidate_moves v v' \<longleftrightarrow> v' = v \<or>
    (\<exists>t. cand_State v = ReleaseCandidateStateOpenValue \<and>
      (v' = candidate_moved v ''promoted'' t \<or> v' = candidate_moved v ''rejected'' t))"

lemma trimmed_states [simp]:
  "parsed_or_zero (ParseReleaseState ReleaseStateDraftValue) = ReleaseStateDraftValue"
  "parsed_or_zero (ParseReleaseState ReleaseStateFrozenValue) = ReleaseStateFrozenValue"
  "parsed_or_zero (ParseReleaseState ReleaseStateApprovedValue) = ReleaseStateApprovedValue"
  "parsed_or_zero (ParseReleaseCandidateState ''promoted'') = ReleaseCandidateStatePromotedValue"
  "parsed_or_zero (ParseReleaseCandidateState ''rejected'') = ReleaseCandidateStateRejectedValue"
  by (simp_all add: ParseReleaseState_def ParseReleaseCandidateState_def parsed_or_zero_def release_state_values
      candidate_state_values edge_safe_def graphic_def byte_def)

lemma NewRelease_wf: "NewRelease i t p x now = Inr v \<Longrightarrow> release_wf (rel_ID v) v"
  by (auto simp: NewRelease_def release_wf_def release_phases_def Let_def split: if_splits)

lemma wf_revision: "release_wf i r \<Longrightarrow> 1 \<le> rel_Revision r \<and> rel_Revision r \<le> 3"
  by (auto simp: release_wf_def release_phases_def)

lemma states_distinct [simp]:
  "ReleaseStateDraftValue \<noteq> ReleaseStateFrozenValue" "ReleaseStateFrozenValue \<noteq> ReleaseStateDraftValue"
  "ReleaseStateDraftValue \<noteq> ReleaseStateApprovedValue" "ReleaseStateApprovedValue \<noteq> ReleaseStateDraftValue"
  "ReleaseStateFrozenValue \<noteq> ReleaseStateApprovedValue" "ReleaseStateApprovedValue \<noteq> ReleaseStateFrozenValue"
  "ReleaseCandidateStateOpenValue \<noteq> ReleaseCandidateStatePromotedValue"
  "ReleaseCandidateStateOpenValue \<noteq> ReleaseCandidateStateRejectedValue"
  "ReleaseCandidateStatePromotedValue \<noteq> ReleaseCandidateStateOpenValue"
  "ReleaseCandidateStateRejectedValue \<noteq> ReleaseCandidateStateOpenValue"
  by (simp_all add: release_state_values candidate_state_values)

lemma Freeze_Inr:
  "Freeze r t = Inr r' \<longleftrightarrow> rel_State r = ReleaseStateDraftValue \<and> t \<noteq> 0 \<and>
    r' = r\<lparr>rel_State := ReleaseStateFrozenValue, rel_Revision := i64 (rel_Revision r + 1), rel_FrozenAt := Some t\<rparr>"
  by (auto simp: Freeze_def)

lemma Approve_Inr:
  "Approve r t = Inr r' \<longleftrightarrow> rel_State r = ReleaseStateFrozenValue \<and> t \<noteq> 0 \<and>
    r' = r\<lparr>rel_State := ReleaseStateApprovedValue, rel_Revision := i64 (rel_Revision r + 1), rel_ApprovedAt := Some t\<rparr>"
  by (auto simp: Approve_def)

lemma small_i64: "i64 2 = 2" "i64 3 = 3"
  by (simp_all add: i64_def)

lemma transitions_wf:
  assumes "release_wf i r" "Freeze r t = Inr r' \<or> Approve r t = Inr r'"
  shows "release_wf i r' \<and> rel_Revision r' = rel_Revision r + 1"
  using assms(2)
proof
  assume f: "Freeze r t = Inr r'"
  with assms(1) have "rel_Revision r = 1" "rel_FrozenAt r = None" "rel_ApprovedAt r = None"
    by (auto simp: Freeze_Inr release_wf_def release_phases_def)
  with f assms(1) show ?thesis by (auto simp: Freeze_Inr release_wf_def release_phases_def small_i64)
next
  assume a: "Approve r t = Inr r'"
  with assms(1) have "rel_Revision r = 2" "rel_FrozenAt r \<noteq> None" "rel_ApprovedAt r = None"
    by (auto simp: Approve_Inr release_wf_def release_phases_def)
  with a assms(1) show ?thesis by (auto simp: Approve_Inr release_wf_def release_phases_def small_i64)
qed

lemma fresh_candidate_wf: "fresh_candidate h v \<Longrightarrow> candidate_wf h (cand_ID v) v"
  by (simp add: fresh_candidate_def candidate_wf_def candidate_phases_def)

lemma candidate_moved_fields:
  "created_snapshot (candidate_moved v st t) = created_snapshot v" "cand_ID (candidate_moved v st t) = cand_ID v"
  "cand_SnapshotHash (candidate_moved v st t) = cand_SnapshotHash v" "cand_CreatedAt (candidate_moved v st t) = cand_CreatedAt v"
  "cand_Revision (candidate_moved v st t) = i64 (cand_Revision v + 1)"
  "cand_State (candidate_moved v st t) = parsed_or_zero (ParseReleaseCandidateState st)"
  by (simp_all add: candidate_moved_def created_snapshot_def Let_def)

lemma candidate_moved_times:
  "cand_PromotedAt (candidate_moved v ''promoted'' t) = Some t" "cand_RejectedAt (candidate_moved v ''promoted'' t) = cand_RejectedAt v"
  "cand_RejectedAt (candidate_moved v ''rejected'' t) = Some t" "cand_PromotedAt (candidate_moved v ''rejected'' t) = cand_PromotedAt v"
  by (simp_all add: candidate_moved_def Let_def)

lemma candidate_moves_wf:
  assumes "candidate_wf h i v" "cand_State v = ReleaseCandidateStateOpenValue" "st \<in> {''promoted'', ''rejected''}"
  shows "candidate_wf h i (candidate_moved v st t) \<and> cand_Revision (candidate_moved v st t) = 2"
proof -
  have "cand_Revision v = 1" "cand_PromotedAt v = None" "cand_RejectedAt v = None"
    using assms(1,2) by (auto simp: candidate_wf_def candidate_phases_def)
  with assms show ?thesis
    by (auto simp: candidate_wf_def candidate_phases_def candidate_moved_fields candidate_moved_times small_i64)
qed

subsection \<open>The effect of each command on the two tables\<close>

definition rows_of :: "catalog_store \<Rightarrow> (string, Release) table \<times> (string, ReleaseCandidate) table" where
  "rows_of s = (Releases (cs_rows s), ReleaseCandidates (cs_rows s))"

lemma catalog_append_rows: "catalog_append h e s = Inr s' \<Longrightarrow> cs_rows s' = cs_rows s"
  by (rule appended_rows [OF catalog_append_appended])

lemma stored_frame:
  assumes "stored g h v s v s'" "\<And>r r'. g r = Inr r' \<Longrightarrow> Releases r' = Releases r \<and> ReleaseCandidates r' = ReleaseCandidates r"
  shows "rows_of s' = rows_of s"
  using assms(1) by (auto simp: stored_def rows_of_def dest!: catalog_append_rows assms(2))

lemma insert_frames:
  "InsertProduct v r = Inr r' \<Longrightarrow> Releases r' = Releases r \<and> ReleaseCandidates r' = ReleaseCandidates r"
  "InsertProject w r = Inr r' \<Longrightarrow> Releases r' = Releases r \<and> ReleaseCandidates r' = ReleaseCandidates r"
  by (auto simp: InsertProduct_def InsertProject_def split: if_splits)

lemma insert_release_rows:
  "InsertRelease v r = Inr r' \<Longrightarrow> rel_Revision v = 1 \<Longrightarrow>
    Releases r' = tbl_put (Releases r) (rel_ID v) v \<and> ReleaseCandidates r' = ReleaseCandidates r \<and> tbl_get (Releases r) (rel_ID v) = None"
  by (auto simp: InsertRelease_def Let_def split: if_splits)

lemma insert_candidate_rows:
  "InsertReleaseCandidate v r = Inr r' \<Longrightarrow> cand_Revision v = 1 \<Longrightarrow>
    ReleaseCandidates r' = tbl_put (ReleaseCandidates r) (cand_ID v) v \<and> Releases r' = Releases r \<and>
    tbl_get (ReleaseCandidates r) (cand_ID v) = None"
  by (auto simp: InsertReleaseCandidate_def Let_def split: if_splits)

lemma update_release_rows:
  "UpdateReleaseState v st r = Inr r' \<Longrightarrow>
    r' = r\<lparr>Releases := tbl_put (Releases r) (rel_ID v) v\<rparr> \<and> (\<exists>row. tbl_get (Releases r) (rel_ID v) = Some row \<and> rel_State row = st)"
  by (auto simp: UpdateReleaseState_def split: if_splits option.splits)

lemma update_candidate_rows:
  "UpdateReleaseCandidateState v st r = Inr r' \<Longrightarrow>
    r' = r\<lparr>ReleaseCandidates := tbl_put (ReleaseCandidates r) (cand_ID v) v\<rparr> \<and>
    (\<exists>row. tbl_get (ReleaseCandidates r) (cand_ID v) = Some row \<and> cand_State row = st)"
  by (auto simp: UpdateReleaseCandidateState_def split: if_splits option.splits)

text \<open>Inside its transaction a release transition acts on the stored row itself.\<close>

definition release_transition :: "string \<Rightarrow> (Release \<Rightarrow> time \<Rightarrow> Release result) \<Rightarrow> string \<Rightarrow> bool" where
  "release_transition st tr kind \<longleftrightarrow>
    (st, tr, kind) \<in> {(ReleaseStateDraftValue, Freeze, ''release.frozen''), (ReleaseStateFrozenValue, Approve, ''release.approved'')}"

lemma release_transition_keeps_id: "release_transition st tr kind \<Longrightarrow> tr r t = Inr v \<Longrightarrow> rel_ID v = rel_ID r \<and> rel_State r = st"
  by (auto simp: release_transition_def Freeze_Inr Approve_Inr)

lemma transition_effect:
  assumes "run_command c (transitionRelease c actor i r st kind tr) = Inr (v, s')" "release_transition st tr kind"
  obtains row where "NormalizeTransitionID i = Inr (rel_ID v)" "rel_ID row = rel_ID v"
    "tbl_get (Releases (cs_rows (rc_env c 2))) (rel_ID v) = Some row" "rel_TenantID row = actor_TenantID actor"
    "rel_State row = st" "rel_Revision row = r" "permits_release c actor row" "tr row (rc_now c) = Inr v"
    "cs_rows s' = (cs_rows (rc_env c 2))\<lparr>Releases := tbl_put (Releases (cs_rows (rc_env c 2))) (rel_ID v) v\<rparr>"
    "appended (release_event c actor kind (rel_ID v)) ((rc_env c 2)\<lparr>cs_rows := cs_rows s'\<rparr>) s'"
  using assms(1)
proof (rule transitionRelease_Inr)
  fix row current s1
  assume row: "NormalizeTransitionID i = Inr (rel_ID row)" "tbl_get (Releases (cs_rows (rc_env c 2))) (rel_ID row) = Some row"
    "rel_TenantID row = actor_TenantID actor" "current = row\<lparr>rel_State := st\<rparr>" "permits_release c actor current"
    "rel_Revision row = r" and v: "tr current (rc_now c) = Inr v"
    and s1: "UpdateReleaseState v st (cs_rows (rc_env c 2)) = Inr s1"
    and s': "catalog_append (rc_hasher c) (release_event c actor kind (rel_ID v)) (rc_env c 2\<lparr>cs_rows := s1\<rparr>) = Inr s'"
  have i: "rel_ID v = rel_ID row" using release_transition_keeps_id [OF assms(2) v] row(4) by simp
  with update_release_rows [OF s1] row(2) have st: "rel_State row = st" by simp
  then have "current = row" using row(4) by simp
  with i st row v update_release_rows [OF s1] catalog_append_rows [OF s'] catalog_append_appended [OF s'] show thesis
    by (intro that) simp_all
qed

lemma move_effect:
  assumes "run_command c (UpdateReleaseCandidateStateCommand c actor q) = Inr (v, s')"
  obtains row product state where "NormalizeTransitionID (cti_ID q) = Inr (cand_ID v)" "cand_ID row = cand_ID v"
    "tbl_get (ReleaseCandidates (cs_rows (rc_env c 0))) (cand_ID v) = Some row" "cand_TenantID row = actor_TenantID actor"
    "owner_product (cs_rows (rc_env c 0)) row product" "permits_candidate c actor product (cand_ReleaseID row)"
    "cand_Revision row = cti_ExpectedRevision q" "cand_State row = ReleaseCandidateStateOpenValue"
    "state \<in> {''promoted'', ''rejected''}" "v = candidate_moved row state (rc_now c)"
    "cs_rows s' = (cs_rows (rc_env c 0))\<lparr>ReleaseCandidates := tbl_put (ReleaseCandidates (cs_rows (rc_env c 0))) (cand_ID v) v\<rparr>"
    "appended (candidate_event c actor state v) ((rc_env c 0)\<lparr>cs_rows := cs_rows s'\<rparr>) s'"
  using assms
proof (rule MoveCandidate_Inr)
  fix row product s1 state
  assume row: "NormalizeTransitionID (cti_ID q) = Inr (cand_ID row)" "state \<in> {''promoted'', ''rejected''}"
    "tbl_get (ReleaseCandidates (cs_rows (rc_env c 0))) (cand_ID row) = Some row" "cand_TenantID row = actor_TenantID actor"
    "owner_product (cs_rows (rc_env c 0)) row product" "permits_candidate c actor product (cand_ReleaseID row)"
    "cand_Revision row = cti_ExpectedRevision q"
    and v: "v = candidate_moved (row\<lparr>cand_State := ''open''\<rparr>) state (rc_now c)"
    and s1: "UpdateReleaseCandidateState v ''open'' (cs_rows (rc_env c 0)) = Inr s1"
    and s': "catalog_append (rc_hasher c) (candidate_event c actor state v) (rc_env c 0\<lparr>cs_rows := s1\<rparr>) = Inr s'"
  have i: "cand_ID v = cand_ID row" using v by (simp add: candidate_moved_fields)
  with update_candidate_rows [OF s1] row(3) have st: "cand_State row = ''open''" by simp
  then have "row\<lparr>cand_State := ''open''\<rparr> = row" by (cases row) simp
  with v have "v = candidate_moved row state (rc_now c)" by simp
  with i st row update_candidate_rows [OF s1] catalog_append_rows [OF s'] catalog_append_appended [OF s'] show thesis
    by (intro that) (simp_all add: ReleaseCandidateStateOpenValue_def)
qed

text \<open>Every step leaves both tables, or adds one row or moves one row forward in one of them.\<close>

definition release_put :: "catalog_store \<Rightarrow> Release \<Rightarrow> catalog_store \<Rightarrow> bool" where
  "release_put s v s' \<longleftrightarrow>
    rows_of s' = (tbl_put (Releases (cs_rows s)) (rel_ID v) v, ReleaseCandidates (cs_rows s)) \<and> release_wf (rel_ID v) v \<and>
    (\<forall>row. tbl_get (Releases (cs_rows s)) (rel_ID v) = Some row \<longrightarrow> release_moves row v)"

definition candidate_put :: "canonical_hasher \<Rightarrow> catalog_store \<Rightarrow> ReleaseCandidate \<Rightarrow> catalog_store \<Rightarrow> bool" where
  "candidate_put h s v s' \<longleftrightarrow>
    rows_of s' = (Releases (cs_rows s), tbl_put (ReleaseCandidates (cs_rows s)) (cand_ID v) v) \<and> candidate_wf h (cand_ID v) v \<and>
    (\<forall>row. tbl_get (ReleaseCandidates (cs_rows s)) (cand_ID v) = Some row \<longrightarrow> candidate_moves row v)"

lemma created_release_put:
  assumes "run_command c (CreateRelease c actor q) = Inr (v, s')"
  shows "release_put (rc_env c 1) v s'"
proof -
  from CreateRelease_Inr [OF assms] obtain i p x s1 e where new: "NewRelease i (actor_TenantID actor) p x (rc_now c) = Inr v"
    and s1: "InsertRelease v (cs_rows (rc_env c 1)) = Inr s1" "catalog_append (rc_hasher c) e (rc_env c 1\<lparr>cs_rows := s1\<rparr>) = Inr s'"
    by (auto simp: stored_def)
  have "rel_Revision v = 1" using new by (auto simp: NewRelease_def Let_def split: if_splits)
  with insert_release_rows [OF s1(1)] catalog_append_rows [OF s1(2)] NewRelease_wf [OF new] show ?thesis
    by (simp add: release_put_def rows_of_def)
qed

lemma transition_put:
  assumes "run_command c (transitionRelease c actor i r st kind tr) = Inr (v, s')" "release_transition st tr kind"
    "lifecycle_ok h (rc_env c 2)"
  shows "release_put (rc_env c 2) v s'"
  using assms(1,2)
proof (rule transition_effect)
  fix row
  assume row: "tbl_get (Releases (cs_rows (rc_env c 2))) (rel_ID v) = Some row" and tr: "tr row (rc_now c) = Inr v"
    and rows: "cs_rows s' = (cs_rows (rc_env c 2))\<lparr>Releases := tbl_put (Releases (cs_rows (rc_env c 2))) (rel_ID v) v\<rparr>"
  have moves: "Freeze row (rc_now c) = Inr v \<or> Approve row (rc_now c) = Inr v"
    using tr assms(2) by (auto simp: release_transition_def)
  have "release_wf (rel_ID v) row" using assms(3) row by (simp add: lifecycle_ok_def)
  from transitions_wf [OF this moves] row moves rows show ?thesis
    by (auto simp: release_put_def rows_of_def release_moves_def)
qed

lemma created_candidate_put:
  assumes "run_command c (CreateReleaseCandidate c actor q) = Inr (v, s')"
  shows "candidate_put (rc_hasher c) (rc_env c 0) v s'"
proof -
  from CreateReleaseCandidate_Inr [OF assms] obtain s1 e where new: "fresh_candidate (rc_hasher c) v"
    and s1: "InsertReleaseCandidate v (cs_rows (rc_env c 0)) = Inr s1" "catalog_append (rc_hasher c) e (rc_env c 0\<lparr>cs_rows := s1\<rparr>) = Inr s'"
    by (auto simp: stored_def)
  have "cand_Revision v = 1" using new by (simp add: fresh_candidate_def)
  with insert_candidate_rows [OF s1(1)] catalog_append_rows [OF s1(2)] fresh_candidate_wf [OF new] show ?thesis
    by (simp add: candidate_put_def rows_of_def)
qed

lemma moved_candidate_put:
  assumes "run_command c (UpdateReleaseCandidateStateCommand c actor q) = Inr (v, s')" "lifecycle_ok h (rc_env c 0)"
  shows "candidate_put h (rc_env c 0) v s'"
  using assms(1)
proof (rule move_effect)
  fix row product state
  assume row: "tbl_get (ReleaseCandidates (cs_rows (rc_env c 0))) (cand_ID v) = Some row"
    and v: "cand_State row = ReleaseCandidateStateOpenValue" "state \<in> {''promoted'', ''rejected''}" "v = candidate_moved row state (rc_now c)"
    and rows: "cs_rows s' = (cs_rows (rc_env c 0))\<lparr>ReleaseCandidates := tbl_put (ReleaseCandidates (cs_rows (rc_env c 0))) (cand_ID v) v\<rparr>"
  have "candidate_wf h (cand_ID v) row" using assms(2) row by (simp add: lifecycle_ok_def)
  from candidate_moves_wf [OF this v(1,2), of "rc_now c"] v have "candidate_wf h (cand_ID v) v" by simp
  moreover have "candidate_moves row v" using v by (auto simp: candidate_moves_def)
  ultimately show ?thesis using row rows by (simp add: candidate_put_def rows_of_def)
qed

lemma catalog_step_rows:
  assumes "catalog_step h s s'" "lifecycle_ok h s"
  shows "rows_of s' = rows_of s \<or> (\<exists>v. release_put s v s') \<or> (\<exists>v. candidate_put h s v s')"
  using assms
proof (induction rule: catalog_step.induct)
  case (product c actor q v s')
  show ?case by (rule disjI1, rule stored_frame [OF CreateProduct_Inr [OF product(1)]], erule insert_frames)
next
  case (project c actor q v s')
  show ?case by (rule disjI1, rule stored_frame [OF CreateProject_Inr [OF project(1)]], erule insert_frames)
next
  case (release c actor q v s')
  then show ?case using created_release_put by blast
next
  case (freeze c actor i r v s')
  then show ?case using transition_put [of c actor i r ReleaseStateDraftValue "''release.frozen''" Freeze]
    by (auto simp: FreezeRelease_def release_transition_def)
next
  case (approve c actor i r v s')
  then show ?case using transition_put [of c actor i r ReleaseStateFrozenValue "''release.approved''" Approve]
    by (auto simp: ApproveRelease_def release_transition_def)
next
  case (candidate c actor q v s')
  then show ?case using created_candidate_put by blast
next
  case (move c actor q v s')
  then show ?case using moved_candidate_put by blast
next
  case (other s' s)
  then show ?case by (simp add: rows_of_def)
qed

lemma catalog_step_ok:
  assumes "catalog_step h s s'" "lifecycle_ok h s"
  shows "lifecycle_ok h s'"
  using catalog_step_rows [OF assms] assms(2)
  by (auto simp: lifecycle_ok_def rows_of_def release_put_def candidate_put_def split: if_splits)

lemma reachable_lifecycle: "catalog_reachable h s \<Longrightarrow> lifecycle_ok h s"
proof (induction rule: catalog_reachable.induct)
  case (start s)
  then show ?case by (simp add: lifecycle_ok_def emptyMemoryUnitOfWorkSnapshot_def)
next
  case (step s s')
  then show ?case using catalog_step_ok by blast
qed

lemma catalog_step_forward:
  assumes "catalog_step h s s'" "lifecycle_ok h s"
  shows "tbl_get (Releases (cs_rows s)) i = Some r \<Longrightarrow> \<exists>r'. tbl_get (Releases (cs_rows s')) i = Some r' \<and> release_moves r r'"
    and "tbl_get (ReleaseCandidates (cs_rows s)) i = Some v \<Longrightarrow>
      \<exists>v'. tbl_get (ReleaseCandidates (cs_rows s')) i = Some v' \<and> candidate_moves v v'"
  using catalog_step_rows [OF assms]
  by (auto simp: rows_of_def release_put_def candidate_put_def release_moves_def candidate_moves_def)

section \<open>Properties\<close>

text \<open>What a release keeps for its whole life, and how two of its rows are ordered in time.\<close>

definition later_release :: "Release \<Rightarrow> Release \<Rightarrow> bool" where
  "later_release r r' \<longleftrightarrow>
    rel_ID r' = rel_ID r \<and> rel_TenantID r' = rel_TenantID r \<and> rel_ProductID r' = rel_ProductID r \<and>
    rel_Version r' = rel_Version r \<and> rel_CreatedAt r' = rel_CreatedAt r \<and>
    (rel_FrozenAt r \<noteq> None \<longrightarrow> rel_FrozenAt r' = rel_FrozenAt r) \<and>
    (rel_Revision r < rel_Revision r' \<or> r' = r)"

definition later_candidate :: "ReleaseCandidate \<Rightarrow> ReleaseCandidate \<Rightarrow> bool" where
  "later_candidate v v' \<longleftrightarrow>
    created_snapshot v' = created_snapshot v \<and> cand_SnapshotHash v' = cand_SnapshotHash v \<and>
    (cand_State v = ReleaseCandidateStateOpenValue \<or> v' = v)"

lemma later_release_trans: "later_release r r' \<Longrightarrow> later_release r' r'' \<Longrightarrow> later_release r r''"
  unfolding later_release_def by (elim conjE, intro conjI) auto

lemma release_moves_later:
  assumes "release_wf i r" "release_moves r r'"
  shows "later_release r r'"
proof (cases "r' = r")
  case False
  with assms(2) obtain t where t: "Freeze r t = Inr r' \<or> Approve r t = Inr r'" by (auto simp: release_moves_def)
  from transitions_wf [OF assms(1) t] have "rel_Revision r < rel_Revision r'" by simp
  moreover have "rel_State r = ReleaseStateDraftValue \<Longrightarrow> rel_FrozenAt r = None"
    using assms(1) by (auto simp: release_wf_def release_phases_def)
  ultimately show ?thesis using t by (auto simp: later_release_def Freeze_Inr Approve_Inr)
qed (simp add: later_release_def)

lemma candidate_moves_later: "candidate_moves v v' \<Longrightarrow> later_candidate v v'"
  by (auto simp: candidate_moves_def later_candidate_def candidate_moved_fields)

text \<open>
  What both tables promise their readers: a row once read is found again after any further steps, as a later
  version of itself.
\<close>

locale forward_rows =
  fixes get :: "'s \<Rightarrow> string \<Rightarrow> 'r option"
    and ok :: "'s \<Rightarrow> bool"
    and step :: "'s \<Rightarrow> 's \<Rightarrow> bool"
    and later :: "'r \<Rightarrow> 'r \<Rightarrow> bool"
  assumes later_refl: "later r r"
    and later_trans: "later r r' \<Longrightarrow> later r' r'' \<Longrightarrow> later r r''"
    and step_ok: "ok s \<Longrightarrow> step s s' \<Longrightarrow> ok s'"
    and step_later: "ok s \<Longrightarrow> step s s' \<Longrightarrow> get s i = Some r \<Longrightarrow> \<exists>r'. get s' i = Some r' \<and> later r r'"
begin

lemma steps_ok: "step\<^sup>*\<^sup>* s s' \<Longrightarrow> ok s \<Longrightarrow> ok s'"
  by (induction rule: rtranclp_induct) (auto intro: step_ok)

lemma steps_later:
  assumes "step\<^sup>*\<^sup>* s s'" "ok s" "get s i = Some r"
  shows "\<exists>r'. get s' i = Some r' \<and> later r r'"
  using assms(1)
proof (induction rule: rtranclp_induct)
  case base
  then show ?case using assms(3) later_refl by blast
next
  case (step s1 s2)
  then obtain r1 where "get s1 i = Some r1" "later r r1" by blast
  with step_later [OF steps_ok [OF step(1) assms(2)] step(2)] show ?case by (blast intro: later_trans)
qed

end

interpretation release_rows: forward_rows "\<lambda>s. tbl_get (Releases (cs_rows s))" "lifecycle_ok h" "catalog_step h" later_release for h
proof unfold_locales
  fix s s' i r
  assume "lifecycle_ok h s" "catalog_step h s s'" "tbl_get (Releases (cs_rows s)) i = Some r"
  then show "\<exists>r'. tbl_get (Releases (cs_rows s')) i = Some r' \<and> later_release r r'"
    using catalog_step_forward(1) lifecycle_okD(1) release_moves_later by blast
qed (auto simp: later_release_def intro: catalog_step_ok later_release_trans)

interpretation candidate_rows: forward_rows "\<lambda>s. tbl_get (ReleaseCandidates (cs_rows s))" "lifecycle_ok h" "catalog_step h" later_candidate for h
proof unfold_locales
  fix s s' i v
  assume "lifecycle_ok h s" "catalog_step h s s'" "tbl_get (ReleaseCandidates (cs_rows s)) i = Some v"
  then show "\<exists>v'. tbl_get (ReleaseCandidates (cs_rows s')) i = Some v' \<and> later_candidate v v'"
    using catalog_step_forward(2) candidate_moves_later by blast
qed (auto simp: later_candidate_def intro: catalog_step_ok)

text \<open>
  C31: in every reachable store each release row is well formed: it sits under its own identifier, and its
  state, revision and timestamps are those of a draft (revision 1), frozen (2) or approved (3) release; each
  candidate row is an open (1), promoted or rejected (2) one whose snapshot hash is the digest of the
  candidate as it was created. Whatever commands run later, the row stays, keeps its coordinates, version,
  creation and freeze times, and changes only to a higher revision; a candidate keeps the content its hash
  covers, and a promoted or rejected one never changes again.
\<close>

theorem lifecycle_typed:
  assumes "catalog_reachable h s" "(catalog_step h)\<^sup>*\<^sup>* s s'"
  shows "(\<forall>i r. tbl_get (Releases (cs_rows s)) i = Some r \<longrightarrow> release_wf i r \<and>
      (\<exists>r'. tbl_get (Releases (cs_rows s')) i = Some r' \<and> release_wf i r' \<and> later_release r r')) \<and>
    (\<forall>i v. tbl_get (ReleaseCandidates (cs_rows s)) i = Some v \<longrightarrow> candidate_wf h i v \<and>
      (\<exists>v'. tbl_get (ReleaseCandidates (cs_rows s')) i = Some v' \<and> candidate_wf h i v' \<and> later_candidate v v'))"
proof -
  have ok: "lifecycle_ok h s" using assms(1) by (rule reachable_lifecycle)
  note ok' = release_rows.steps_ok [OF assms(2) ok]
  show ?thesis
  proof (intro conjI allI impI)
    fix i r assume "tbl_get (Releases (cs_rows s)) i = Some r"
    then show "release_wf i r"
      "\<exists>r'. tbl_get (Releases (cs_rows s')) i = Some r' \<and> release_wf i r' \<and> later_release r r'"
      using lifecycle_okD(1) [OF ok] lifecycle_okD(1) [OF ok'] release_rows.steps_later [OF assms(2) ok] by blast+
  next
    fix i v assume "tbl_get (ReleaseCandidates (cs_rows s)) i = Some v"
    then show "candidate_wf h i v"
      "\<exists>v'. tbl_get (ReleaseCandidates (cs_rows s')) i = Some v' \<and> candidate_wf h i v' \<and> later_candidate v v'"
      using lifecycle_okD(2) [OF ok] lifecycle_okD(2) [OF ok'] candidate_rows.steps_later [OF assms(2) ok] by blast+
  qed
qed

text \<open>
  C32: a freeze or approval that succeeds acted on the row its transaction read: a release of the actor's
  tenant in the expected state at exactly the expected revision, which the context's authorizer let the actor
  manage by its product and release. It changed that row alone, to the next revision, and appended one audit
  entry to the tenant's chain. From then on no command can succeed with the revision it was given, whichever
  transition and whoever the actor: of two commands with one expected revision at most one takes effect.
\<close>

theorem release_transition_once:
  assumes "run_command c (transitionRelease c actor i r st kind tr) = Inr (v, s')" "release_transition st tr kind"
    and "catalog_reachable h (rc_env c 2)"
  shows "(\<exists>row. tbl_get (Releases (cs_rows (rc_env c 2))) (rel_ID v) = Some row \<and> rel_TenantID row = actor_TenantID actor \<and>
        rel_State row = st \<and> rel_Revision row = r \<and> permits_release c actor row \<and> tr row (rc_now c) = Inr v \<and>
        rel_Revision v = r + 1) \<and>
    cs_rows s' = (cs_rows (rc_env c 2))\<lparr>Releases := tbl_put (Releases (cs_rows (rc_env c 2))) (rel_ID v) v\<rparr> \<and>
    appended (release_event c actor kind (rel_ID v)) ((rc_env c 2)\<lparr>cs_rows := cs_rows s'\<rparr>) s' \<and>
    (\<forall>c' actor' j st' kind' tr' v' s''.
      (catalog_step h)\<^sup>*\<^sup>* s' (rc_env c' 2) \<longrightarrow> release_transition st' tr' kind' \<longrightarrow> NormalizeTransitionID j = Inr (rel_ID v) \<longrightarrow>
      run_command c' (transitionRelease c' actor' j r st' kind' tr') \<noteq> Inr (v', s''))"
  using assms(1,2)
proof (rule transition_effect)
  fix row
  let ?s = "rc_env c 2"
  assume row: "tbl_get (Releases (cs_rows ?s)) (rel_ID v) = Some row" "rel_TenantID row = actor_TenantID actor"
      "rel_State row = st" "rel_Revision row = r" "permits_release c actor row" "tr row (rc_now c) = Inr v"
    and rows: "cs_rows s' = (cs_rows ?s)\<lparr>Releases := tbl_put (Releases (cs_rows ?s)) (rel_ID v) v\<rparr>"
    and app: "appended (release_event c actor kind (rel_ID v)) (?s\<lparr>cs_rows := cs_rows s'\<rparr>) s'"
  have ok: "lifecycle_ok h ?s" using assms(3) by (rule reachable_lifecycle)
  have tr: "Freeze row (rc_now c) = Inr v \<or> Approve row (rc_now c) = Inr v" using row(6) assms(2) by (auto simp: release_transition_def)
  have wf: "release_wf (rel_ID v) row" using ok row(1) by (simp add: lifecycle_ok_def)
  from transitions_wf [OF wf tr] row(4) have wf': "release_wf (rel_ID v) v" "rel_Revision v = r + 1" by simp_all
  have ok': "lifecycle_ok h s'" using ok rows wf'(1) by (auto simp: lifecycle_ok_def)
  have v: "tbl_get (Releases (cs_rows s')) (rel_ID v) = Some v" using rows by simp
  have "run_command c' (transitionRelease c' actor' j r st' kind' tr') \<noteq> Inr (v', s'')"
    if later: "(catalog_step h)\<^sup>*\<^sup>* s' (rc_env c' 2)" "release_transition st' tr' kind'" "NormalizeTransitionID j = Inr (rel_ID v)"
    for c' actor' j st' kind' tr' v' s''
  proof
    assume run: "run_command c' (transitionRelease c' actor' j r st' kind' tr') = Inr (v', s'')"
    from run later(2) show False
    proof (rule transition_effect)
      fix row'
      assume "NormalizeTransitionID j = Inr (rel_ID v')" "tbl_get (Releases (cs_rows (rc_env c' 2))) (rel_ID v') = Some row'"
        "rel_Revision row' = r"
      with later(3) release_rows.steps_later [OF later(1) ok' v] wf'(2) show False by (auto simp: later_release_def)
    qed
  qed
  with row rows app wf'(2) show ?thesis by blast
qed

section \<open>A sample release\<close>

text \<open>
  A tenant with one product, a key that may manage releases, and the creation and the freeze of a release.
\<close>

definition release_manager :: Actor where
  "release_manager = zero_actor\<lparr>actor_TenantID := ''t1'', actor_KeyID := ''k1'', actor_Scopes := [''release:write'']\<rparr>"

definition sample_catalog :: catalog_store where
  "sample_catalog =
    \<lparr>cs_rows = emptyMemoryUnitOfWorkSnapshot\<lparr>Tenants := [(''t1'', \<lparr>tenant_ID = ''t1'', tenant_Name = ''n'', tenant_CreatedAt = 1\<rparr>)],
       Products := [(''p1'', \<lparr>prod_ID = ''p1'', prod_TenantID = ''t1'', prod_Name = ''n'', prod_Slug = ''s'', prod_CreatedAt = 1\<rparr>)]\<rparr>,
     cs_AuditEntries = [], cs_SBOMs = [], cs_VEXDocuments = [], cs_OpenAPIContracts = [], cs_ReleaseBundles = []\<rparr>"

definition sample_run :: "string \<Rightarrow> catalog_store \<Rightarrow> release_command" where
  "sample_run event s = \<lparr>rc_ctx = Background, rc_env = (\<lambda>_. s), rc_raced = (\<lambda>_. False), rc_now = 20,
     rc_newID = (\<lambda>p. if p = ''ace'' then event else p), rc_hasher = (\<lambda>_. Inr ''c''), rc_artifacts = (\<lambda>_. None)\<rparr>"

lemma manager_permitted:
  "catalogAuthorizer Background release_manager (scope_request ActionReleasesManage) = None"
  "catalogAuthorizer Background release_manager (resource_request ActionReleasesManage (no_refs\<lparr>ref_ProductID := ''p1''\<rparr>)) = None"
  "catalogAuthorizer Background release_manager
    (resource_request ActionReleasesManage (no_refs\<lparr>ref_ProductID := ''p1'', ref_ReleaseID := ''rel''\<rparr>)) = None"
  by code_simp+

lemma nil_context_Background [simp]: "\<not> nil_context Background"
  by (simp add: Background_def)

lemma sample_texts [simp]:
  "bounded_text 1024 ''t1''" "bounded_text 1024 ''p1''" "bounded_text 1024 ''rel''" "bounded_text 65536 ''1.0''"
  "TrimSpace ''t1'' = ''t1''" "TrimSpace ''p1'' = ''p1''" "TrimSpace ''rel'' = ''rel''" "TrimSpace ''1.0'' = ''1.0''"
  "validBuildText ''p1''" "validBuildText ''1.0''" "validBuildText ''rel''"
  by (simp_all add: bounded_text_def validBuildText_def contains_nul_def byte_def edge_safe_def graphic_def)

lemma sample_event_appended:
  assumes "''t1'' \<in> fst ` set (Tenants (cs_rows s))" "kind \<noteq> []" "event \<noteq> []" "i \<noteq> []"
    "list_all (\<lambda>e. ace_ID e \<noteq> event) (chain_of (cs_audit s) ''t1'')"
  shows "\<exists>s'. catalog_append (\<lambda>_. Inr ''c'') (auditEventFor event release_manager 20 kind ''release'' i []) s = Inr s'"
proof -
  have "year_of 20 = 1" by code_simp
  with assms show ?thesis
    by (simp add: catalog_append_def appendAudit_def event_entry_def auditEventFor_def auditActor_def release_manager_def zero_actor_def
        require_audit_tenant_def RehashAuditChainEntry_def CanonicalAuditChainEntryHash_def canonical_fields_def
        cloneMemoryAuditEntry_def AuditChainEntrySchemaVersion_def AuditChainEntryLegacySchemaVersion_def cs_audit_def Let_def
        list_ex_iff list_all_iff chain_of_def)
qed

lemmas tx_eval = tx_bind_def tx_return_def tx_result_def tx_fail_if_def tx_observe_def tx_mutate_def tx_read_def tx_gets_def
  tx_authorize_def tx_map_error_def ExecuteUnit_def run_unit_def run_command_def contextError_def catalog_authorize_def

definition like_sample :: "catalog_store \<Rightarrow> bool" where
  "like_sample s \<longleftrightarrow> Tenants (cs_rows s) = Tenants (cs_rows sample_catalog) \<and> Products (cs_rows s) = Products (cs_rows sample_catalog)"

lemma sample_tables:
  "Tenants (cs_rows sample_catalog) = [(''t1'', \<lparr>tenant_ID = ''t1'', tenant_Name = ''n'', tenant_CreatedAt = 1\<rparr>)]"
  "Products (cs_rows sample_catalog) = [(''p1'', \<lparr>prod_ID = ''p1'', prod_TenantID = ''t1'', prod_Name = ''n'', prod_Slug = ''s'', prod_CreatedAt = 1\<rparr>)]"
  "Releases (cs_rows sample_catalog) = []" "ReleaseCandidates (cs_rows sample_catalog) = []" "cs_AuditEntries sample_catalog = []"
  "actor_TenantID release_manager = ''t1''"
  by (simp_all add: sample_catalog_def emptyMemoryUnitOfWorkSnapshot_def release_manager_def zero_actor_def)

lemma sample_product_read:
  "like_sample s \<Longrightarrow> ReadProductCoordinates Background ''t1'' ''p1'' (n, s) =
    Inr (\<lparr>pc_ID = ''p1'', pc_TenantID = ''t1'', pc_Slug = ''s''\<rparr>, n + 1, s)"
  by (simp add: ReadProductCoordinates_def tx_eval Let_def like_sample_def sample_tables tbl_get_def)

lemma sample_creation_scope:
  "like_sample s \<Longrightarrow> authorizeCatalogCreationScope Background release_manager ActionReleasesManage ''p1'' (n, s) = Inr ((), n + 7, s)"
  by (simp add: authorizeCatalogCreationScope_def LockCatalogCreationTenant_def ReadCatalogCreationProduct_def tx_eval creation_text_def
      like_sample_def sample_tables tbl_get_def requireMemoryTenant_def manager_permitted)

lemma sample_version_free:
  "like_sample s \<Longrightarrow> Releases (cs_rows s) = [] \<Longrightarrow> version_exists Background ''t1'' ''p1'' ''1.0'' (n, s) = Inr (False, n + 2, s)"
  by (simp add: version_exists_def ReleaseVersionExists_def tx_eval Let_def sample_product_read tbl_any_def)

definition sample_release :: Release where
  "sample_release = \<lparr>rel_ID = ''rel'', rel_TenantID = ''t1'', rel_ProductID = ''p1'', rel_Version = ''1.0'', rel_Revision = 1,
     rel_State = ReleaseStateDraftValue, rel_CreatedAt = 20, rel_FrozenAt = None, rel_ApprovedAt = None\<rparr>"

definition sample_rows :: MemoryUnitOfWorkSnapshot where
  "sample_rows = (cs_rows sample_catalog)\<lparr>Releases := [(''rel'', sample_release)]\<rparr>"

lemma sample_insert: "InsertRelease sample_release (cs_rows sample_catalog) = Inr sample_rows"
  by (simp add: InsertRelease_def sample_release_def sample_rows_def Let_def requireMemoryTenant_def sample_tables tbl_get_def
      parent_product_ok_def tbl_any_def tbl_put_def release_state_values)

lemma sample_new: "NewRelease ''rel'' ''t1'' ''p1'' ''1.0'' 20 = Inr sample_release"
  by (simp add: NewRelease_def sample_release_def Let_def)

lemma sample_release_created:
  "\<exists>s1. run_command (sample_run ''e1'' sample_catalog) (CreateRelease (sample_run ''e1'' sample_catalog) release_manager
      \<lparr>cri_ProductID = ''p1'', cri_Version = ''1.0''\<rparr>) = Inr (sample_release, s1) \<and> cs_rows s1 = sample_rows \<and>
    (\<exists>e. chain_of (cs_audit s1) ''t1'' = [e] \<and> ace_ID e = ''e1'')"
proof -
  let ?s = "sample_catalog\<lparr>cs_rows := sample_rows\<rparr>"
  have "\<exists>s1. catalog_append (\<lambda>_. Inr ''c'') (auditEventFor ''e1'' release_manager 20 ''release.created'' ''release'' ''rel'' []) ?s = Inr s1"
    by (rule sample_event_appended) (simp_all add: sample_rows_def sample_tables cs_audit_def chain_of_def tbl_get_def)
  then obtain s1 where s1: "catalog_append (\<lambda>_. Inr ''c'')
      (auditEventFor ''e1'' release_manager 20 ''release.created'' ''release'' ''rel'' []) ?s = Inr s1" by blast
  have "coerce_utf8 ''e1'' = ''e1''" by (simp add: coerce_utf8_ascii byte_def)
  with catalog_append_appended [OF s1] have "\<exists>e. chain_of (cs_audit s1) ''t1'' = [e] \<and> ace_ID e = ''e1''"
    by (auto simp: appended_def auditEventFor_def sample_tables cs_audit_def chain_of_def)
  moreover have "like_sample sample_catalog" by (simp add: like_sample_def)
  moreover have "normalizeCatalogCreationText ''p1'' 1024 = Inr ''p1''" "normalizeCatalogCreationText ''1.0'' 65536 = Inr ''1.0''"
    by (simp_all add: normalizeCatalogCreationText_def Let_def)
  ultimately show ?thesis using s1 catalog_append_rows [OF s1]
    by (simp add: CreateRelease_def create_release_tx_def write_release_def on_rows_def AppendAudit_def Let_def tx_eval sample_run_def sample_tables
        NormalizeReleaseCreationInput_def read_parent_def recheck_parent_def manager_permitted sample_product_read
        sample_creation_scope sample_version_free sample_insert sample_new)
       (simp add: sample_release_def)
qed

definition sample_frozen :: Release where
  "sample_frozen = sample_release\<lparr>rel_State := ReleaseStateFrozenValue, rel_Revision := 2, rel_FrozenAt := Some 20\<rparr>"

lemma sample_release_reads:
  "cs_rows s = sample_rows \<Longrightarrow> ReadReleaseState Background ''t1'' ''rel'' (n, s) = Inr (sample_release, n + 1, s)"
proof -
  have "ParseReleaseState ReleaseStateDraftValue = Inr ReleaseStateDraftValue" by code_simp
  then show "cs_rows s = sample_rows \<Longrightarrow> ?thesis"
    by (simp add: ReadReleaseState_def tx_eval Let_def GetRelease_def sample_rows_def sample_tables sample_release_def tbl_get_def
        parent_product_ok_def ReleaseStateDraftValue_def)
qed

lemma sample_update:
  "UpdateReleaseState sample_frozen ReleaseStateDraftValue sample_rows = Inr (sample_rows\<lparr>Releases := [(''rel'', sample_frozen)]\<rparr>)"
  by (simp add: UpdateReleaseState_def sample_frozen_def sample_release_def sample_rows_def requireMemoryTenant_def sample_tables
      tbl_get_def tbl_put_def release_state_values small_i64)

lemma sample_transition: "release_transition ReleaseStateDraftValue Freeze ''release.frozen''"
  "Freeze sample_release 20 = Inr sample_frozen"
  by (simp_all add: release_transition_def Freeze_Inr sample_release_def sample_frozen_def small_i64)

lemma sample_freezes:
  assumes "cs_rows s1 = sample_rows" "chain_of (cs_audit s1) ''t1'' = [e]" "ace_ID e = ''e1''"
  shows "\<exists>s2. run_command (sample_run ''e2'' s1) (FreezeRelease (sample_run ''e2'' s1) release_manager ''rel'' 1) =
    Inr (sample_frozen, s2)"
proof -
  let ?s = "s1\<lparr>cs_rows := sample_rows\<lparr>Releases := [(''rel'', sample_frozen)]\<rparr>\<rparr>"
  have "\<exists>s2. catalog_append (\<lambda>_. Inr ''c'') (auditEventFor ''e2'' release_manager 20 ''release.frozen'' ''release'' ''rel'' []) ?s = Inr s2"
    using assms by (intro sample_event_appended) (simp_all add: sample_rows_def sample_tables cs_audit_def chain_of_def)
  then obtain s2 where s2: "catalog_append (\<lambda>_. Inr ''c'')
      (auditEventFor ''e2'' release_manager 20 ''release.frozen'' ''release'' ''rel'' []) ?s = Inr s2" by blast
  have "like_sample s1" by (simp add: like_sample_def assms(1) sample_rows_def)
  moreover have "NormalizeTransitionID ''rel'' = Inr ''rel''" by (simp add: NormalizeTransitionID_def)
  moreover have "rel_ID sample_release = ''rel''" "rel_TenantID sample_release = ''t1''" "rel_ProductID sample_release = ''p1''"
    "rel_Revision sample_release = 1" "rel_State sample_release = ReleaseStateDraftValue" "rel_ID sample_frozen = ''rel''"
    "rel_Revision sample_frozen = 2" by (simp_all add: sample_release_def sample_frozen_def)
  ultimately show ?thesis using s2 assms(1)
    by (simp add: FreezeRelease_def transitionRelease_def transition_tx_def release_at_def product_of_def current_release_def
        check_revision_def UpdateRelease_def on_rows_def AppendAudit_def Let_def tx_eval sample_run_def sample_tables
        manager_permitted sample_product_read sample_release_reads sample_transition(2) sample_update small_i64
        releaseBelongsToTenant_def sameReleaseCoordinates_def release_refs_def)
qed

lemma sample_history:
  obtains s1 s2 where "catalog_reachable (\<lambda>_. Inr ''c'') s1" "cs_rows s1 = sample_rows"
    "run_command (sample_run ''e2'' s1) (FreezeRelease (sample_run ''e2'' s1) release_manager ''rel'' 1) = Inr (sample_frozen, s2)"
proof -
  let ?h = "\<lambda>_. Inr ''c''"
  have "catalog_reachable ?h (sample_catalog\<lparr>cs_rows := emptyMemoryUnitOfWorkSnapshot\<rparr>)" by (rule catalog_reachable.start) simp
  then have s0: "catalog_reachable ?h sample_catalog"
    by (rule catalog_reachable.step, intro catalog_step.other)
       (simp_all add: sample_tables emptyMemoryUnitOfWorkSnapshot_def)
  from sample_release_created obtain s1 e where s1: "run_command (sample_run ''e1'' sample_catalog)
      (CreateRelease (sample_run ''e1'' sample_catalog) release_manager \<lparr>cri_ProductID = ''p1'', cri_Version = ''1.0''\<rparr>) =
      Inr (sample_release, s1)" "cs_rows s1 = sample_rows" "chain_of (cs_audit s1) ''t1'' = [e]" "ace_ID e = ''e1''" by blast
  have "catalog_step ?h (rc_env (sample_run ''e1'' sample_catalog) 1) s1"
    by (rule catalog_step.release [OF s1(1)]) (simp add: sample_run_def)
  then have "catalog_reachable ?h s1" by (intro catalog_reachable.step [OF s0]) (simp add: sample_run_def)
  with s1(2) sample_freezes [OF s1(2-4)] show ?thesis using that by blast
qed

theorem lifecycle_typed_witness:
  "\<exists>(s :: catalog_store) (s' :: catalog_store). tbl_get (Releases (cs_rows s)) ''rel'' = Some sample_release \<and>
     tbl_get (Releases (cs_rows s')) ''rel'' = Some sample_frozen \<and> release_wf ''rel'' sample_release \<and>
     release_wf ''rel'' sample_frozen \<and> later_release sample_release sample_frozen"
proof -
  obtain s1 s2 where s: "catalog_reachable (\<lambda>_. Inr ''c'') s1" "cs_rows s1 = sample_rows"
    "run_command (sample_run ''e2'' s1) (FreezeRelease (sample_run ''e2'' s1) release_manager ''rel'' 1) = Inr (sample_frozen, s2)"
    by (rule sample_history)
  have env: "rc_env (sample_run ''e2'' s1) 2 = s1" by (simp add: sample_run_def)
  have "catalog_step (\<lambda>_. Inr ''c'') (rc_env (sample_run ''e2'' s1) 2) s2"
    by (rule catalog_step.freeze [OF s(3)]) (simp add: sample_run_def)
  then have steps: "(catalog_step (\<lambda>_. Inr ''c''))\<^sup>*\<^sup>* s1 s2" by (simp add: env)
  have r1: "tbl_get (Releases (cs_rows s1)) ''rel'' = Some sample_release" by (simp add: s(2) sample_rows_def tbl_get_def)
  have "cs_rows s2 = (cs_rows s1)\<lparr>Releases := tbl_put (Releases (cs_rows s1)) ''rel'' sample_frozen\<rparr>"
    using s(3) sample_transition(1) unfolding FreezeRelease_def
    by (rule transition_effect) (simp add: env sample_frozen_def sample_release_def)
  then have r2: "tbl_get (Releases (cs_rows s2)) ''rel'' = Some sample_frozen" by simp
  have "release_wf ''rel'' sample_release \<and> (\<exists>r'. tbl_get (Releases (cs_rows s2)) ''rel'' = Some r' \<and> release_wf ''rel'' r' \<and>
      later_release sample_release r')"
    by (rule conjunct1 [OF lifecycle_typed [OF s(1) steps], rule_format, OF r1])
  with r1 r2 have "release_wf ''rel'' sample_release" "release_wf ''rel'' sample_frozen" "later_release sample_release sample_frozen" by auto
  with r1 r2 show ?thesis by blast
qed

theorem release_transition_once_witness:
  "\<exists>c s' row. run_command c (FreezeRelease c release_manager ''rel'' 1) = Inr (sample_frozen, s') \<and>
     tbl_get (Releases (cs_rows (rc_env c 2))) ''rel'' = Some row \<and> rel_Revision row = 1 \<and> rel_Revision sample_frozen = 2 \<and>
     permits_release c release_manager row \<and>
     run_command (c\<lparr>rc_env := \<lambda>_. s'\<rparr>) (FreezeRelease (c\<lparr>rc_env := \<lambda>_. s'\<rparr>) release_manager ''rel'' 1) \<noteq> Inr (sample_frozen, s')"
proof -
  obtain s1 s2 where s: "catalog_reachable (\<lambda>_. Inr ''c'') s1" "cs_rows s1 = sample_rows"
    "run_command (sample_run ''e2'' s1) (FreezeRelease (sample_run ''e2'' s1) release_manager ''rel'' 1) = Inr (sample_frozen, s2)"
    by (rule sample_history)
  let ?c = "sample_run ''e2'' s1"
  have env: "catalog_reachable (\<lambda>_. Inr ''c'') (rc_env ?c 2)" using s(1) by (simp add: sample_run_def)
  have i: "rel_ID sample_frozen = ''rel''" "NormalizeTransitionID ''rel'' = Inr ''rel''"
    by (simp_all add: sample_frozen_def sample_release_def NormalizeTransitionID_def)
  note once = release_transition_once [OF s(3) [unfolded FreezeRelease_def] sample_transition(1) env, unfolded i(1)]
  from conjunct1 [OF once] obtain row where row: "tbl_get (Releases (cs_rows (rc_env ?c 2))) ''rel'' = Some row" "rel_Revision row = 1"
    "permits_release ?c release_manager row" "rel_Revision sample_frozen = 2" by auto
  have "run_command (?c\<lparr>rc_env := \<lambda>_. s2\<rparr>) (FreezeRelease (?c\<lparr>rc_env := \<lambda>_. s2\<rparr>) release_manager ''rel'' 1) \<noteq> Inr (sample_frozen, s2)"
    unfolding FreezeRelease_def
    by (rule conjunct2 [OF conjunct2 [OF conjunct2 [OF once]], rule_format]) (simp_all add: sample_transition(1) i(2))
  with s(3) row show ?thesis by blast
qed

end
