(* ===== verification/Readiness.thy ===== *)
theory Readiness
  imports Release_Properties Idempotency Authorization_Properties
begin

text \<open>
  Release readiness: the policy interpretation of a fact snapshot (\<^verbatim>\<open>risk/domain/readiness.go\<close>) and the
  reader that gathers the facts of a release from the rows of a transaction (\<^verbatim>\<open>app/memory_readiness_facts.go\<close>,
  \<^verbatim>\<open>memory_readiness_query.go\<close>, \<^verbatim>\<open>memory_readiness_signatures.go\<close>, with the ownership predicates of
  \<^verbatim>\<open>memory_anomaly_ports.go\<close> and \<^verbatim>\<open>memory_release_summary_query.go\<close>). The verification of an Ed25519
  signature over decoded bytes is an argument. A \<^verbatim>\<open>range\<close> loop visits the rows of a table in the order of the
  table; each visit observes the context.
\<close>

section \<open>Loops over tables\<close>

definition tbl_rows :: "('k, 'v) table \<Rightarrow> ('k \<times> 'v) list" where
  "tbl_rows t = AList.clearjunk t"

lemma tbl_rows_iff [simp]: "(k, v) \<in> set (tbl_rows t) \<longleftrightarrow> tbl_get t k = Some v"
  by (metis distinct_clearjunk map_of_clearjunk map_of_eq_Some_iff tbl_get_def tbl_rows_def)

lemma tbl_rows_distinct [simp]: "distinct (map fst (tbl_rows t))"
  by (simp add: tbl_rows_def distinct_clearjunk)

definition tbl_ex :: "('k \<Rightarrow> 'v \<Rightarrow> bool) \<Rightarrow> ('k, 'v) table \<Rightarrow> bool" where
  "tbl_ex p t = list_ex (\<lambda>(k, v). p k v) (tbl_rows t)"

lemma tbl_ex_iff [simp]: "tbl_ex p t \<longleftrightarrow> (\<exists>k v. tbl_get t k = Some v \<and> p k v)"
proof
  assume "tbl_ex p t"
  then show "\<exists>k v. tbl_get t k = Some v \<and> p k v" by (simp add: tbl_ex_def list_ex_iff Bex_def)
next
  assume "\<exists>k v. tbl_get t k = Some v \<and> p k v"
  then obtain k v where "(k, v) \<in> set (tbl_rows t)" "p k v" by auto
  then show "tbl_ex p t" by (force simp: tbl_ex_def list_ex_iff)
qed

text \<open>A loop that observes the context, then runs its body, for each element.\<close>

fun range_loop :: "go_context \<Rightarrow> ('x \<Rightarrow> 'acc \<Rightarrow> 'acc result) \<Rightarrow> 'x list \<Rightarrow> 'acc \<Rightarrow> ('s, 'acc) stx" where
  "range_loop ctx g [] acc = tx_return acc"
| "range_loop ctx g (x # xs) acc =
    tx_bind (tx_observe ctx) (\<lambda>_. tx_bind (tx_result (g x acc)) (range_loop ctx g xs))"

fun fold_result :: "('x \<Rightarrow> 'acc \<Rightarrow> 'acc result) \<Rightarrow> 'x list \<Rightarrow> 'acc \<Rightarrow> 'acc result" where
  "fold_result g [] acc = Inr acc"
| "fold_result g (x # xs) acc = bind_result (g x acc) (fold_result g xs)"

lemma range_loop_Inr:
  "range_loop ctx g xs acc st = Inr (r, st') \<Longrightarrow> fold_result g xs acc = Inr r \<and> snd st' = snd st"
  by (induction ctx g xs acc arbitrary: st rule: range_loop.induct) (fastforce simp: tx_success)+

lemma keeps_store_range [intro!]: "keeps_store (range_loop ctx g xs acc)"
  unfolding keeps_store_def by (blast dest: range_loop_Inr)

lemma fold_result_pure [simp]: "fold_result (\<lambda>x acc. Inr (f x acc)) xs acc = Inr (fold f xs acc)"
  by (induction xs arbitrary: acc) simp_all

text \<open>
  \<^verbatim>\<open>strings.ToLower\<close>, as far as a comparison with ASCII text can tell: besides the ASCII letters only U+0130
  and the Kelvin sign U+212A have an ASCII lower case.
\<close>

function ToLower :: "string \<Rightarrow> string" where
  "ToLower s =
    (if s = [] then []
     else if take 2 s = [CHR 0xC4, CHR 0xB0] then CHR ''i'' # ToLower (drop 2 s)
     else if take 3 s = [CHR 0xE2, CHR 0x84, CHR 0xAA] then CHR ''k'' # ToLower (drop 3 s)
     else (if CHR ''A'' \<le> hd s \<and> hd s \<le> CHR ''Z'' then char_of (byte (hd s) + 32) else hd s) # ToLower (tl s))"
  by pat_completeness auto
termination by (relation "measure length") auto

declare ToLower.simps [simp del]

text \<open>\<^verbatim>\<open>base64.RawStdEncoding.DecodeString\<close>.\<close>

definition RawStdDecodeString :: "string \<Rightarrow> string option" where
  "RawStdDecodeString s =
    map_option (map char_of) (Option.bind
      (those (map (index_of ''ABCDEFGHIJKLMNOPQRSTUVWXYZabcdefghijklmnopqrstuvwxyz0123456789+/'')
        (filter (\<lambda>c. c \<noteq> CHR 0x0A \<and> c \<noteq> CHR 0x0D) s))) b64_groups)"

section \<open>The policy\<close>

definition ReadinessSnapshotVersion :: string where
  "ReadinessSnapshotVersion = ''release-readiness-snapshot.v1.0.0''"

definition PolicySetVersion :: string where
  "PolicySetVersion = ''policy-set.v1.0.0''"

record ReadinessSnapshot =
  rs_SnapshotVersion :: string
  rs_TenantID :: string
  rs_ProductID :: string
  rs_ReleaseID :: string
  rs_HasArtifact :: bool
  rs_HasSBOM :: bool
  rs_HasVulnerabilityScan :: bool
  rs_HasArtifactDigest :: bool
  rs_HasVerifiedSignedBundle :: bool
  rs_HasPassedBuild :: bool
  rs_HasVerifiedBuildAttestation :: bool
  rs_UnhandledCritical :: bool
  rs_UnhandledHigh :: bool
  rs_MissingCustomerStatementIDs :: "string list"
  rs_MissingNotAffectedReasonIDs :: "string list"
  rs_IncompleteExceptionIDs :: "string list"
  rs_PackageCount :: int
  rs_InvalidPackageOrProfileIDs :: "string list"

record PolicyCheck =
  pck_Name :: string
  pck_Result :: string
  pck_Severity :: string
  pck_Missing :: "string list"
  pck_Explanation :: string
  pck_Remediation :: string

record PolicyEvaluation =
  pe_ID :: string
  pe_TenantID :: string
  pe_ReleaseID :: string
  pe_Result :: string
  pe_PolicySet :: string
  pe_Checks :: "PolicyCheck list"
  pe_CreatedAt :: time

definition presenceCheck :: "bool \<Rightarrow> string \<Rightarrow> string \<Rightarrow> string \<Rightarrow> string \<Rightarrow> string \<Rightarrow> string \<Rightarrow> PolicyCheck" where
  "presenceCheck passed name severity missing passedExplanation failedExplanation remediation =
    (if passed then
       \<lparr>pck_Name = name, pck_Result = ''passed'', pck_Severity = severity, pck_Missing = [],
        pck_Explanation = passedExplanation, pck_Remediation = []\<rparr>
     else
       \<lparr>pck_Name = name, pck_Result = ''failed'', pck_Severity = severity, pck_Missing = [missing],
        pck_Explanation = failedExplanation, pck_Remediation = remediation\<rparr>)"

definition inversePresenceCheck ::
  "bool \<Rightarrow> string \<Rightarrow> string \<Rightarrow> string \<Rightarrow> string \<Rightarrow> string \<Rightarrow> string \<Rightarrow> PolicyCheck" where
  "inversePresenceCheck blocked = presenceCheck (\<not> blocked)"

definition normalizedIDs :: "string list \<Rightarrow> string list" where
  "normalizedIDs values = trimmed_set values"

definition missingIDsCheck ::
  "string list \<Rightarrow> string \<Rightarrow> string \<Rightarrow> string \<Rightarrow> string \<Rightarrow> string \<Rightarrow> PolicyCheck" where
  "missingIDsCheck values name severity passedExplanation failedExplanation remediation =
    (let missing = normalizedIDs values in
     if missing = [] then
       \<lparr>pck_Name = name, pck_Result = ''passed'', pck_Severity = severity, pck_Missing = [],
        pck_Explanation = passedExplanation, pck_Remediation = []\<rparr>
     else
       \<lparr>pck_Name = name, pck_Result = ''failed'', pck_Severity = severity, pck_Missing = missing,
        pck_Explanation = failedExplanation, pck_Remediation = remediation\<rparr>)"

definition package_check :: "ReadinessSnapshot \<Rightarrow> PolicyCheck" where
  "package_check snapshot =
    (let invalidPackages = normalizedIDs (rs_InvalidPackageOrProfileIDs snapshot) in
     if invalidPackages \<noteq> [] then
       \<lparr>pck_Name = ''package_redaction_profile_valid'', pck_Result = ''failed'', pck_Severity = ''high'',
        pck_Missing = invalidPackages,
        pck_Explanation =
          ''one or more customer packages has an expired package or redaction profile that does not explicitly exclude sensitive fields'',
        pck_Remediation =
          ''Create a new package with the customer_safe or security_review preset, or configure explicit allowed types and sensitive-field exclusions.''\<rparr>
     else if rs_PackageCount snapshot = 0 then
       \<lparr>pck_Name = ''package_redaction_profile_valid'', pck_Result = ''passed'', pck_Severity = ''medium'',
        pck_Missing = [],
        pck_Explanation =
          ''no customer package is recorded for this release; redaction profile validation applies when a package exists'',
        pck_Remediation =
          []\<rparr>
     else
       \<lparr>pck_Name = ''package_redaction_profile_valid'', pck_Result = ''passed'', pck_Severity = ''high'',
        pck_Missing = [],
        pck_Explanation =
          ''customer package redaction profiles are explicit and exclude sensitive fields'',
        pck_Remediation =
          []\<rparr>)"

definition readinessPolicyChecks :: "ReadinessSnapshot \<Rightarrow> PolicyCheck list" where
  "readinessPolicyChecks snapshot =
    [presenceCheck (rs_HasArtifact snapshot) ''release_has_artifact'' ''high'' ''artifact''
       ''artifact evidence is linked to the release''
       ''release artifact evidence is missing''
       ''Register an artifact digest and link it to release evidence such as SBOM, scan, build output, or artifact digest evidence.'',
     presenceCheck (rs_HasSBOM snapshot) ''release_requires_sbom'' ''high'' ''sbom''
       ''sbom evidence exists''
       ''sbom evidence is missing''
       ''Upload sbom evidence for this release.'',
     presenceCheck (rs_HasVulnerabilityScan snapshot) ''release_requires_vulnerability_scan'' ''high'' ''vulnerability_scan''
       ''vulnerability_scan evidence exists''
       ''vulnerability_scan evidence is missing''
       ''Upload vulnerability_scan evidence for this release.'',
     presenceCheck (rs_HasArtifactDigest snapshot) ''release_requires_artifact_digest'' ''high'' ''artifact_digest''
       ''artifact digest evidence is linked to the release''
       ''release artifact digest evidence is missing''
       ''Register an artifact digest and link it to release evidence.'',
     presenceCheck (rs_HasVerifiedSignedBundle snapshot) ''release_requires_signed_bundle'' ''high'' ''signed_release_bundle''
       ''signed release bundle exists''
       ''signed release bundle is missing''
       ''Generate a release bundle after required evidence is recorded.'',
     presenceCheck (rs_HasPassedBuild snapshot) ''release_requires_passed_build'' ''high'' ''passed_build''
       ''passed build is linked to a release artifact digest''
       ''no passed build with output digest linked to the release was found''
       ''Upload a passed build run whose output digest matches a release artifact digest.'',
     presenceCheck (rs_HasVerifiedBuildAttestation snapshot) ''release_requires_build_attestation'' ''high'' ''build_attestation''
       ''verified build attestation receipt and subject match a release artifact digest''
       ''no attestation has a passed DSSE/in-toto receipt and a subject matching a release artifact digest''
       ''Upload a supported DSSE/in-toto attestation, verify it with a configured root policy, and ensure its subject digest matches a release artifact digest.'',
     inversePresenceCheck (rs_UnhandledCritical snapshot) ''critical_exploitable_blocks_release'' ''critical'' ''vulnerability_decision''
       ''no open critical findings recorded''
       ''open critical finding requires remediation, a valid VEX decision, or an approved unexpired exception''
       ''Record a fixed or not_affected vulnerability decision, upload VEX evidence, remediate the finding, or approve an unexpired scoped exception.'',
     inversePresenceCheck (rs_UnhandledHigh snapshot) ''high_findings_require_triage'' ''high'' ''vulnerability_decision''
       ''no unhandled open high findings recorded''
       ''open high finding requires a valid decision, remediation, or an approved unexpired exception''
       ''Record a fixed or not_affected vulnerability decision, upload VEX evidence, remediate the finding, or approve an unexpired scoped exception.'',
     missingIDsCheck (rs_MissingCustomerStatementIDs snapshot) ''customer_visible_decisions_require_statements'' ''high''
       ''customer-visible decisions have required impact statements''
       ''customer-visible decisions require an impact statement suitable for package summaries''
       ''Create a superseding customer-visible decision with a clear impact statement and no internal-only notes in customer-facing fields.'',
     missingIDsCheck (rs_MissingNotAffectedReasonIDs snapshot) ''not_affected_decisions_require_justification'' ''high''
       ''not_affected decisions have recorded justifications''
       ''not_affected decisions require a recorded justification''
       ''Create a superseding not_affected decision with a specific technical justification.'',
     missingIDsCheck (rs_IncompleteExceptionIDs snapshot) ''exceptions_require_owner_reason_expiry_and_approval'' ''high''
       ''release exceptions have required completeness fields''
       ''exceptions must include owner, reason, expiry, and approval metadata when approved''
       ''Create a complete exception with owner, reason, future expiry, and an audited approval transition.'',
     package_check snapshot]"

definition readinessPolicyResult :: "PolicyCheck list \<Rightarrow> string" where
  "readinessPolicyResult checks =
    (if list_ex (\<lambda>c. pck_Result c = ''failed'') checks then ''failed'' else ''passed'')"

definition EvaluateReadinessSnapshot :: "ReadinessSnapshot \<Rightarrow> time \<Rightarrow> PolicyEvaluation result" where
  "EvaluateReadinessSnapshot snapshot createdAt =
    (if rs_SnapshotVersion snapshot \<noteq> ReadinessSnapshotVersion \<or> rs_TenantID snapshot = [] \<or> rs_ProductID snapshot = [] \<or>
        rs_ReleaseID snapshot = [] \<or> rs_PackageCount snapshot < 0 \<or> is_zero_time createdAt
     then Inl ErrValidation
     else let checks = readinessPolicyChecks snapshot in
       Inr \<lparr>pe_ID = [], pe_TenantID = rs_TenantID snapshot, pe_ReleaseID = rs_ReleaseID snapshot,
         pe_Result = readinessPolicyResult checks, pe_PolicySet = PolicySetVersion, pe_Checks = checks,
         pe_CreatedAt = createdAt\<rparr>)"

section \<open>Facts of a release\<close>

record BuildAttestation =
  att_ID :: string
  att_TenantID :: string
  att_BuildID :: string
  att_EvidenceID :: string
  att_PayloadRef :: string
  att_PayloadHash :: string
  att_PayloadSize :: int
  att_PayloadType :: string
  att_PredicateType :: string
  att_SubjectDigests :: "string list"
  att_BuilderID :: string
  att_BuildType :: string
  att_MaterialsCount :: int
  att_SignatureCount :: int
  att_VerificationStatus :: string
  att_SchemaVersion :: string
  att_CreatedAt :: time

record VerificationResult =
  vres_ID :: string
  vres_TenantID :: string
  vres_SubjectType :: string
  vres_SubjectID :: string
  vres_Result :: string
  vres_Checks :: "VerifyCheck list"
  vres_Profile :: VerificationProfile
  vres_Limitations :: "string list"
  vres_SchemaVersion :: string
  vres_VerifiedAt :: time

record RedactionProfile =
  rprof_ID :: string
  rprof_TenantID :: string
  rprof_Name :: string
  rprof_Description :: string
  rprof_AllowedTypes :: "string list"
  rprof_ExcludedFields :: "string list"
  rprof_SchemaVersion :: string
  rprof_CreatedAt :: time

record CustomerSecurityPackage =
  pkg_ID :: string
  pkg_TenantID :: string
  pkg_ProductID :: string
  pkg_ReleaseID :: string
  pkg_RedactionProfileID :: string
  pkg_Title :: string
  pkg_State :: string
  pkg_Manifest :: json_object
  pkg_ManifestHash :: string
  pkg_DistributionWatermark :: string
  pkg_ExpiresAt :: time
  pkg_AccessCount :: int
  pkg_SchemaVersion :: string
  pkg_CreatedAt :: time

text \<open>The further tables of the snapshot that a policy evaluation reads and writes.\<close>

record evaluation_store = catalog_store +
  es_BuildAttestations :: "(string, BuildAttestation) table"
  es_VerificationResults :: "(string, VerificationResult) table"
  es_CustomerPackages :: "(string, CustomerSecurityPackage) table"
  es_RedactionProfiles :: "(string, RedactionProfile) table"
  es_Signatures :: "(string, Signature) table"
  es_SigningKeys :: "(string, StoredSigningKey) table"
  es_PolicyEvaluations :: "(string, PolicyEvaluation) table"

definition memoryAnomalyEvidence ::
  "MemoryUnitOfWorkSnapshot \<Rightarrow> string \<Rightarrow> string \<Rightarrow> string \<Rightarrow> string \<Rightarrow> EvidenceItem option" where
  "memoryAnomalyEvidence state tenant product release i =
    (case tbl_get (Evidence state) i of
       None \<Rightarrow> None
     | Some e \<Rightarrow>
        (if ev_ID e \<noteq> i \<or> ev_TenantID e \<noteq> tenant \<or> ev_ReleaseID e \<noteq> release then None
         else case memoryOperationsCoordinates state tenant (no_refs\<lparr>ref_ProductID := ev_ProductID e,
             ref_ProjectID := ev_ProjectID e, ref_ReleaseID := ev_ReleaseID e, ref_BuildID := ev_BuildID e,
             ref_DeploymentID := ev_DeploymentID e\<rparr>) of
           Inl _ \<Rightarrow> None
         | Inr refs \<Rightarrow> (if ref_ProductID refs = product then Some e else None)))"

definition artifact_matches :: "MemoryUnitOfWorkSnapshot \<Rightarrow> string \<Rightarrow> BuildOutput \<Rightarrow> bool" where
  "artifact_matches state tenant o' \<longleftrightarrow>
    out_ArtifactID o' = [] \<or>
    (case tbl_get (Artifacts state) (out_ArtifactID o') of None \<Rightarrow> False
     | Some a \<Rightarrow> art_ID a = out_ArtifactID o' \<and> art_TenantID a = tenant \<and> art_Digest a = out_Digest o')"

fun outputs_loop :: "MemoryUnitOfWorkSnapshot \<Rightarrow> string \<Rightarrow> BuildOutput list \<Rightarrow> int \<Rightarrow> bool" where
  "outputs_loop state tenant [] bytes = True"
| "outputs_loop state tenant (o' # outs) bytes =
    (let bytes = bytes + (int (length (out_ArtifactID o')) + int (length (out_Digest o'))) in
     if \<not> memoryMembershipText (out_ArtifactID o') 1024 \<or> bytes > 8388608 then False
     else if \<not> artifact_matches state tenant o' then False
     else outputs_loop state tenant outs bytes)"

definition output_json :: "BuildOutput \<Rightarrow> json" where
  "output_json o' = JObject ((if out_ArtifactID o' = [] then [] else [(''artifact_id'', JString (out_ArtifactID o'))]) @
     [(''digest'', JString (out_Digest o'))])"

definition collector_owned :: "MemoryUnitOfWorkSnapshot \<Rightarrow> string \<Rightarrow> string \<Rightarrow> bool" where
  "collector_owned state tenant i \<longleftrightarrow>
    i = [] \<or> (case tbl_get (Collectors state) i of None \<Rightarrow> False | Some c \<Rightarrow> coll_ID c = i \<and> coll_TenantID c = tenant)"

definition memoryAnomalyBuild ::
  "MemoryUnitOfWorkSnapshot \<Rightarrow> string \<Rightarrow> string \<Rightarrow> string \<Rightarrow> string \<Rightarrow> BuildRun option" where
  "memoryAnomalyBuild state tenant product release i =
    (case tbl_get (BuildRuns state) i of
       None \<Rightarrow> None
     | Some b \<Rightarrow>
        (if build_ID b \<noteq> i \<or> build_TenantID b \<noteq> tenant \<or> build_ReleaseID b \<noteq> release \<or> build_ProjectID b = [] \<or>
            int (length (build_Outputs b)) > 4096 then None
         else case memoryOperationsCoordinates state tenant
             (no_refs\<lparr>ref_ProjectID := build_ProjectID b, ref_ReleaseID := build_ReleaseID b\<rparr>) of
           Inl _ \<Rightarrow> None
         | Inr refs \<Rightarrow>
            (if ref_ProductID refs \<noteq> product then None
             else if \<not> collector_owned state tenant (build_CollectorID b) then None
             else if \<not> outputs_loop state tenant (build_Outputs b) 0 then None
             else if int (length (encode_json (JArray (map output_json (build_Outputs b))))) > 8388608 then None
             else Some b)))"

definition control_owned :: "MemoryUnitOfWorkSnapshot \<Rightarrow> string \<Rightarrow> string \<Rightarrow> bool" where
  "control_owned state tenant i \<longleftrightarrow>
    i = [] \<or>
    (case tbl_get (SecurityControls state) i of None \<Rightarrow> False
     | Some c \<Rightarrow> ctl_ID c = i \<and> ctl_TenantID c = tenant \<and>
        (case tbl_get (ControlFrameworks state) (ctl_FrameworkID c) of None \<Rightarrow> False
         | Some f \<Rightarrow> fw_ID f = ctl_FrameworkID c \<and> fw_TenantID f = tenant))"

type_synonym scan_map = "(string \<times> VulnerabilityFinding list) list"

definition finding_recorded :: "scan_map \<Rightarrow> string \<Rightarrow> bool" where
  "finding_recorded scans i \<longleftrightarrow> list_ex (\<lambda>(_, findings). list_ex (\<lambda>f. find_ID f = i) findings) scans"

definition memoryAnomalyException ::
  "MemoryUnitOfWorkSnapshot \<Rightarrow> string \<Rightarrow> string \<Rightarrow> string \<Rightarrow> time \<Rightarrow> scan_map \<Rightarrow> bool" where
  "memoryAnomalyException state tenant release finding at scans =
    tbl_ex (\<lambda>i x.
      \<not> (exc_ID x \<noteq> i \<or> exc_TenantID x \<noteq> tenant \<or> exc_ReleaseID x \<noteq> release \<or> \<not> exc_Approved x \<or>
         \<not> exc_ExpiresAt x > at \<or> exc_FindingID x \<noteq> [] \<and> exc_FindingID x \<noteq> finding) \<and>
      control_owned state tenant (exc_ControlID x) \<and>
      (exc_FindingID x \<noteq> [] \<longrightarrow> finding_recorded scans (exc_FindingID x))) (Exceptions state)"

definition memoryReleaseFindingHandled ::
  "MemoryUnitOfWorkSnapshot \<Rightarrow> string \<Rightarrow> string \<Rightarrow> string \<Rightarrow> VulnerabilityFinding \<Rightarrow> nat \<Rightarrow> time \<Rightarrow> scan_map \<Rightarrow> bool" where
  "memoryReleaseFindingHandled s tenant release scan f duplicates at scans =
    (if tbl_ex (\<lambda>i d. dec_ID d = i \<and> dec_TenantID d = tenant \<and> dec_ReleaseID d = release \<and> dec_ScanID d = scan \<and>
          dec_FindingID d = find_ID f \<and> dec_Vulnerability d = find_Vulnerability f \<and> dec_Component d = find_Component f \<and>
          dec_SupersededBy d = [] \<and> duplicates = 1 \<and> (dec_Status d = ''fixed'' \<or> dec_Status d = ''not_affected''))
        (Decisions s) then True
     else memoryAnomalyException s tenant release (find_ID f) at scans)"

record memoryReadinessFacts =
  mrf_HasArtifact :: bool
  mrf_HasSBOM :: bool
  mrf_HasVulnerabilityScan :: bool
  mrf_HasArtifactDigest :: bool
  mrf_HasPassedBuild :: bool
  mrf_HasVerifiedBuildAttestation :: bool
  mrf_UnhandledCritical :: bool
  mrf_UnhandledHigh :: bool
  mrf_scans :: scan_map

definition no_facts :: memoryReadinessFacts where
  "no_facts = \<lparr>mrf_HasArtifact = False, mrf_HasSBOM = False, mrf_HasVulnerabilityScan = False, mrf_HasArtifactDigest = False,
    mrf_HasPassedBuild = False, mrf_HasVerifiedBuildAttestation = False, mrf_UnhandledCritical = False,
    mrf_UnhandledHigh = False, mrf_scans = []\<rparr>"

text \<open>The bodies of the loops of \<^verbatim>\<open>readMemoryReadinessFacts\<close>; the map \<^verbatim>\<open>digests\<close> is the list of its keys.\<close>

definition subject_step ::
  "MemoryUnitOfWorkSnapshot \<Rightarrow> string \<Rightarrow> SubjectRef \<Rightarrow> memoryReadinessFacts \<times> string list \<Rightarrow> memoryReadinessFacts \<times> string list" where
  "subject_step state tenant ref = (\<lambda>(out, digests).
    if sref_Type ref \<noteq> ''artifact'' then (out, digests)
    else let out = out\<lparr>mrf_HasArtifact := mrf_HasArtifact out \<or> sref_ID ref \<noteq> []\<rparr> in
      case tbl_get (Artifacts state) (sref_ID ref) of
        None \<Rightarrow> (out, digests)
      | Some a \<Rightarrow>
         (if art_ID a = sref_ID ref \<and> art_TenantID a = tenant \<and> validDigest (art_Digest a)
          then (out\<lparr>mrf_HasArtifactDigest := True\<rparr>, art_Digest a # digests) else (out, digests)))"

definition evidence_step ::
  "MemoryUnitOfWorkSnapshot \<Rightarrow> string \<Rightarrow> string \<Rightarrow> string \<Rightarrow> string \<Rightarrow>
   memoryReadinessFacts \<times> string list \<Rightarrow> memoryReadinessFacts \<times> string list" where
  "evidence_step state tenant product release i = (\<lambda>(out, digests).
    case memoryAnomalyEvidence state tenant product release i of
      None \<Rightarrow> (out, digests)
    | Some e \<Rightarrow>
       fold (subject_step state tenant) (ev_SubjectRefs e)
        (out\<lparr>mrf_HasSBOM := mrf_HasSBOM out \<or> ev_Type e = ''sbom'',
             mrf_HasVulnerabilityScan := mrf_HasVulnerabilityScan out \<or> ev_Type e = ''vulnerability_scan''\<rparr>, digests))"

definition build_step ::
  "MemoryUnitOfWorkSnapshot \<Rightarrow> string \<Rightarrow> string \<Rightarrow> string \<Rightarrow> string list \<Rightarrow> string \<Rightarrow>
   memoryReadinessFacts \<Rightarrow> memoryReadinessFacts" where
  "build_step state tenant product release digests i out =
    (case memoryAnomalyBuild state tenant product release i of
       None \<Rightarrow> out
     | Some b \<Rightarrow>
        (if build_Status b \<noteq> ''passed'' then out
         else if list_ex (\<lambda>o'. out_Digest o' \<in> set digests) (build_Outputs b) then out\<lparr>mrf_HasPassedBuild := True\<rparr> else out))"

definition VerificationProfileDSSEAttestationSignature :: string where
  "VerificationProfileDSSEAttestationSignature = ''dsse-attestation-signature.v1''"

definition VerificationResultSchemaVersion :: string where
  "VerificationResultSchemaVersion = ''verification-result.v2.0.0''"

definition attestation_verified :: "'z evaluation_store_scheme \<Rightarrow> string \<Rightarrow> string \<Rightarrow> bool" where
  "attestation_verified s tenant i =
    tbl_ex (\<lambda>key v. vres_ID v = key \<and> vres_TenantID v = tenant \<and> vres_SubjectType v = ''build_attestation'' \<and>
      vres_SubjectID v = i \<and> vres_Result v = ''passed'' \<and>
      vp_ID (vres_Profile v) = VerificationProfileDSSEAttestationSignature \<and>
      vres_SchemaVersion v = VerificationResultSchemaVersion) (es_VerificationResults s)"

definition attestation_step ::
  "'z evaluation_store_scheme \<Rightarrow> string \<Rightarrow> string \<Rightarrow> string \<Rightarrow> string list \<Rightarrow> string \<times> BuildAttestation \<Rightarrow>
   memoryReadinessFacts \<Rightarrow> memoryReadinessFacts" where
  "attestation_step s tenant product release digests = (\<lambda>(i, a) out.
    if att_ID a \<noteq> i \<or> att_TenantID a \<noteq> tenant \<or> int (length (att_SubjectDigests a)) > 4096 then out
    else case memoryAnomalyBuild (cs_rows s) tenant product release (att_BuildID a) of
      None \<Rightarrow> out
    | Some b \<Rightarrow>
       (case memoryAnomalyEvidence (cs_rows s) tenant product release (att_EvidenceID a) of
          None \<Rightarrow> out
        | Some e \<Rightarrow>
           (if ev_Type e \<noteq> ''build_attestation'' \<or> ev_ProductID e \<noteq> product \<or> ev_ProjectID e \<noteq> build_ProjectID b \<or>
               ev_BuildID e \<noteq> build_ID b \<or> ev_DeploymentID e \<noteq> [] \<or> ev_PayloadHash e \<noteq> att_PayloadHash a \<or>
               ev_PayloadSize e \<noteq> att_PayloadSize a \<or> ev_PayloadRef e \<noteq> att_PayloadRef a then out
            else if \<not> list_ex (\<lambda>d. d \<in> set digests) (att_SubjectDigests a) then out
            else if attestation_verified s tenant (att_ID a) then out\<lparr>mrf_HasVerifiedBuildAttestation := True\<rparr>
            else out)))"

definition scan_step ::
  "MemoryUnitOfWorkSnapshot \<Rightarrow> string \<Rightarrow> string \<Rightarrow> string \<Rightarrow> string \<times> VulnerabilityScan \<Rightarrow> scan_map \<Rightarrow> scan_map result" where
  "scan_step state tenant product release = (\<lambda>(i, v) scans.
    if scan_ID v \<noteq> i \<or> scan_TenantID v \<noteq> tenant \<or> scan_ReleaseID v \<noteq> release then Inr scans
    else case memoryAnomalyEvidence state tenant product release (scan_EvidenceID v) of
      None \<Rightarrow> Inr scans
    | Some e \<Rightarrow>
       (if ev_Type e \<noteq> ''vulnerability_scan'' then Inr scans
        else case scan_Findings v of
          None \<Rightarrow> Inl ErrValidation
        | Some findings \<Rightarrow>
           (if list_ex (\<lambda>f. TrimSpace (find_ID f) = [] \<or> TrimSpace (find_Severity f) = []) findings
            then Inl ErrValidation else Inr (scans @ [(i, findings)]))))"

text \<open>One element per finding of the nested loops over \<^verbatim>\<open>scans\<close>, with the number of findings of its identifier.\<close>

definition scan_findings :: "scan_map \<Rightarrow> (string \<times> VulnerabilityFinding \<times> nat) list" where
  "scan_findings scans =
    concat (map (\<lambda>(scan, findings).
      map (\<lambda>f. (scan, f, length (filter (\<lambda>g. find_ID g = find_ID f) findings))) findings) scans)"

definition open_state :: "VulnerabilityFinding \<Rightarrow> bool" where
  "open_state f \<longleftrightarrow> ToLower (find_State f) = [] \<or> ToLower (find_State f) = ''open''"

definition finding_step ::
  "MemoryUnitOfWorkSnapshot \<Rightarrow> string \<Rightarrow> string \<Rightarrow> time \<Rightarrow> scan_map \<Rightarrow> string \<times> VulnerabilityFinding \<times> nat \<Rightarrow>
   memoryReadinessFacts \<Rightarrow> memoryReadinessFacts" where
  "finding_step state tenant release at scans = (\<lambda>(scan, f, count) out.
    let severity = ToLower (find_Severity f) in
    if severity \<noteq> ''critical'' \<and> severity \<noteq> ''high'' \<or> \<not> open_state f then out
    else let handled = memoryReleaseFindingHandled state tenant release scan f count at scans in
      if severity = ''critical'' then out\<lparr>mrf_UnhandledCritical := mrf_UnhandledCritical out \<or> \<not> handled\<rparr>
      else out\<lparr>mrf_UnhandledHigh := mrf_UnhandledHigh out \<or> \<not> handled\<rparr>)"

definition readMemoryReadinessFacts ::
  "go_context \<Rightarrow> 'z evaluation_store_scheme \<Rightarrow> string \<Rightarrow> string \<Rightarrow> string \<Rightarrow> time \<Rightarrow> ('s, memoryReadinessFacts) stx" where
  "readMemoryReadinessFacts ctx s tenant product release at =
    (let state = cs_rows s in
    tx_bind (range_loop ctx (\<lambda>(i, _) acc. Inr (evidence_step state tenant product release i acc))
      (tbl_rows (Evidence state)) (no_facts, [])) (\<lambda>(out, digests).
    tx_bind (range_loop ctx (\<lambda>(i, _) out. Inr (build_step state tenant product release digests i out))
      (tbl_rows (BuildRuns state)) out) (\<lambda>out.
    tx_bind (range_loop ctx (\<lambda>row out. Inr (attestation_step s tenant product release digests row out))
      (tbl_rows (es_BuildAttestations s)) out) (\<lambda>out.
    tx_bind (range_loop ctx (scan_step state tenant product release) (tbl_rows (VulnerabilityScans state)) []) (\<lambda>scans.
    tx_bind (range_loop ctx (\<lambda>row out. Inr (finding_step state tenant release at scans row out))
      (scan_findings scans) (out\<lparr>mrf_scans := scans\<rparr>)) (\<lambda>out.
    tx_bind (tx_observe ctx) (\<lambda>_. tx_return out)))))))"

section \<open>The snapshot of a release\<close>

definition memoryReadinessDecisionOwned :: "VulnerabilityDecision \<Rightarrow> scan_map \<Rightarrow> bool" where
  "memoryReadinessDecisionOwned d scans =
    (let hits = filter (\<lambda>f. find_ID f = dec_FindingID d)
        (case tbl_get scans (dec_ScanID d) of None \<Rightarrow> [] | Some findings \<Rightarrow> findings) in
     length hits = 1 \<and> list_ex (\<lambda>f. find_Vulnerability f = dec_Vulnerability d \<and> find_Component f = dec_Component d) hits)"

definition memoryReadinessExceptionOwned :: "MemoryUnitOfWorkSnapshot \<Rightarrow> string \<Rightarrow> Exception \<Rightarrow> scan_map \<Rightarrow> bool" where
  "memoryReadinessExceptionOwned s tenant x scans =
    (if \<not> control_owned s tenant (exc_ControlID x) then False
     else exc_FindingID x = [] \<or> finding_recorded scans (exc_FindingID x))"

definition sensitive_fields :: "string list" where
  "sensitive_fields = [''payload_ref'', ''object_key'', ''private_key'', ''token'', ''secret'', ''internal_notes'']"

definition memoryReadinessRedaction :: "RedactionProfile \<Rightarrow> bool" where
  "memoryReadinessRedaction p =
    (if rprof_AllowedTypes p = [] then False
     else let excluded = map (\<lambda>field. ToLower (TrimSpace field)) (rprof_ExcludedFields p) in
       list_all (\<lambda>field. field \<in> set excluded) sensitive_fields)"

text \<open>
  \<^verbatim>\<open>appendID\<close> with its two budgets; the accumulator of the loops is the snapshot and what is left of them.
\<close>

type_synonym readiness_acc = "ReadinessSnapshot \<times> int \<times> int"

definition MaxCustomerPackageManifestBytes :: int where
  "MaxCustomerPackageManifestBytes = 8388608"

definition appendID ::
  "((string list \<Rightarrow> string list) \<Rightarrow> ReadinessSnapshot \<Rightarrow> ReadinessSnapshot) \<Rightarrow> string \<Rightarrow> readiness_acc \<Rightarrow> readiness_acc result" where
  "appendID upd i = (\<lambda>(out, remainingIDs, remainingBytes).
    if \<not> memoryMembershipQueryText i 1024 \<or> remainingIDs = 0 then Inl ErrValidation
    else if int (length (quoted i)) > remainingBytes then Inl ErrValidation
    else Inr (upd (\<lambda>ids. ids @ [i]) out, remainingIDs - 1, remainingBytes - int (length (quoted i))))"

definition decision_step ::
  "string \<Rightarrow> string \<Rightarrow> scan_map \<Rightarrow> string \<times> VulnerabilityDecision \<Rightarrow> readiness_acc \<Rightarrow> readiness_acc result" where
  "decision_step tenant release scans = (\<lambda>(i, d) acc.
    if dec_ID d \<noteq> i \<or> dec_TenantID d \<noteq> tenant \<or> dec_ReleaseID d \<noteq> release \<or> dec_SupersededBy d \<noteq> [] \<or>
       \<not> memoryReadinessDecisionOwned d scans then Inr acc
    else bind_result
      (if dec_CustomerVisible d \<and> TrimSpace (dec_ImpactStatement d) = []
       then appendID rs_MissingCustomerStatementIDs_update i acc else Inr acc) (\<lambda>acc.
      if dec_Status d = ''not_affected'' \<and> TrimSpace (dec_Justification d) = []
      then appendID rs_MissingNotAffectedReasonIDs_update i acc else Inr acc))"

definition exception_incomplete :: "Exception \<Rightarrow> bool" where
  "exception_incomplete x \<longleftrightarrow> TrimSpace (exc_Owner x) = [] \<or> TrimSpace (exc_Reason x) = [] \<or>
    exc_Approved x \<and> (TrimSpace (exc_ApprovedBy x) = [] \<or> exc_ApprovedAt x = None)"

definition exception_step ::
  "MemoryUnitOfWorkSnapshot \<Rightarrow> string \<Rightarrow> string \<Rightarrow> scan_map \<Rightarrow> string \<times> Exception \<Rightarrow> readiness_acc \<Rightarrow> readiness_acc result" where
  "exception_step s tenant release scans = (\<lambda>(i, x) acc.
    if exc_ID x \<noteq> i \<or> exc_TenantID x \<noteq> tenant \<or> exc_ReleaseID x \<noteq> release \<or>
       \<not> memoryReadinessExceptionOwned s tenant x scans then Inr acc
    else if exception_incomplete x then appendID rs_IncompleteExceptionIDs_update i acc else Inr acc)"

definition profile_usable :: "'z evaluation_store_scheme \<Rightarrow> string \<Rightarrow> string \<Rightarrow> bool" where
  "profile_usable s tenant i =
    (case tbl_get (es_RedactionProfiles s) i of None \<Rightarrow> False
     | Some profile \<Rightarrow> rprof_ID profile = i \<and> rprof_TenantID profile = tenant \<and> memoryReadinessRedaction profile)"

definition package_step ::
  "'z evaluation_store_scheme \<Rightarrow> string \<Rightarrow> string \<Rightarrow> string \<Rightarrow> time \<Rightarrow> int \<Rightarrow> string \<times> CustomerSecurityPackage \<Rightarrow>
   readiness_acc \<Rightarrow> readiness_acc result" where
  "package_step s tenant product release at packageLimit = (\<lambda>(i, p) (out, ids, bytes).
    if pkg_ID p \<noteq> i \<or> pkg_TenantID p \<noteq> tenant \<or> pkg_ReleaseID p \<noteq> release \<or> pkg_ProductID p \<noteq> product
    then Inr (out, ids, bytes)
    else let out = out\<lparr>rs_PackageCount := rs_PackageCount out + 1\<rparr> in
      if rs_PackageCount out > packageLimit then Inl ErrValidation
      else if \<not> profile_usable s tenant (pkg_RedactionProfileID p) \<or> \<not> pkg_ExpiresAt p > at
      then appendID rs_InvalidPackageOrProfileIDs_update i (out, ids, bytes) else Inr (out, ids, bytes))"

text \<open>\<^verbatim>\<open>memoryReadinessSignedBundle\<close>: one element per signature reference of the bundles of the release.\<close>

definition bundle_refs :: "'z catalog_store_scheme \<Rightarrow> string \<Rightarrow> string \<Rightarrow> (ReleaseBundle \<times> string) list" where
  "bundle_refs s tenant release =
    concat (map (\<lambda>(i, b). if bun_ID b \<noteq> i \<or> bun_TenantID b \<noteq> tenant \<or> bun_ReleaseID b \<noteq> release then []
      else map (Pair b) (bun_SignatureRefs b)) (tbl_rows (cs_ReleaseBundles s)))"

definition bundle_signature ::
  "'z evaluation_store_scheme \<Rightarrow> string \<Rightarrow> ReleaseBundle \<times> string \<Rightarrow> (Signature \<times> SigningKey) option" where
  "bundle_signature s tenant = (\<lambda>(b, ref).
    case tbl_get (es_Signatures s) ref of
      None \<Rightarrow> None
    | Some signature \<Rightarrow>
       (if sig_ID signature \<noteq> ref \<or> sig_TenantID signature \<noteq> tenant \<or> sig_SubjectType signature \<noteq> ''release_bundle'' \<or>
           sig_SubjectID signature \<noteq> bun_ID b \<or> sig_Algorithm signature \<noteq> ''Ed25519'' then None
        else case tbl_get (es_SigningKeys s) (sig_KeyID signature) of
          None \<Rightarrow> None
        | Some row \<Rightarrow>
           (let key = ssk_Key row in
            if sk_ID key \<noteq> sig_KeyID signature \<or> sk_TenantID key \<noteq> tenant \<or> sk_Algorithm key \<noteq> ''Ed25519'' then None
            else Some (signature, key))))"

definition oversized_signature :: "ReleaseBundle \<Rightarrow> Signature \<Rightarrow> SigningKey \<Rightarrow> bool" where
  "oversized_signature b signature key \<longleftrightarrow>
    list_ex (\<lambda>v. length v > 256) [bun_ManifestHash b, sig_Value signature, sk_PublicKey key, sk_Status key,
      sk_RevocationSemantics key, sk_HistoricalValidityPolicy key]"

type_synonym ed25519_verifier = "string \<Rightarrow> string \<Rightarrow> string \<Rightarrow> bool"

definition signature_verifies ::
  "ed25519_verifier \<Rightarrow> time \<Rightarrow> ReleaseBundle \<Rightarrow> Signature \<Rightarrow> SigningKey \<Rightarrow> bool" where
  "signature_verifies verify at b signature key =
    (case ParseSigningKeyStatus (sk_Status key) of
       Inl _ \<Rightarrow> False
     | Inr status \<Rightarrow>
        (if HistoricalValidityAt (key\<lparr>sk_Status := status\<rparr>) (sig_CreatedAt signature) at \<noteq> SigningKeyHistoricalValidityValid
         then False
         else case (RawStdDecodeString (sk_PublicKey key), RawStdDecodeString (sig_Value signature)) of
           (Some pub, Some sig) \<Rightarrow> length pub = 32 \<and> length sig = 64 \<and> verify pub (bun_ManifestHash b) sig
         | _ \<Rightarrow> False))"

definition signature_step ::
  "'z evaluation_store_scheme \<Rightarrow> ed25519_verifier \<Rightarrow> string \<Rightarrow> time \<Rightarrow> ReleaseBundle \<times> string \<Rightarrow> int \<times> bool \<Rightarrow>
   (int \<times> bool) result" where
  "signature_step s verify tenant at = (\<lambda>(b, ref) (count, verified).
    case bundle_signature s tenant (b, ref) of
      None \<Rightarrow> Inr (count, verified)
    | Some (signature, key) \<Rightarrow>
       (if count + 1 > 256 then Inl ErrValidation
        else if oversized_signature b signature key then Inl ErrValidation
        else Inr (count + 1, verified \<or> signature_verifies verify at b signature key)))"

definition memoryReadinessSignedBundle ::
  "go_context \<Rightarrow> 'z evaluation_store_scheme \<Rightarrow> ed25519_verifier \<Rightarrow> string \<Rightarrow> string \<Rightarrow> time \<Rightarrow> ('s, bool) stx" where
  "memoryReadinessSignedBundle ctx s verify tenant release at =
    tx_bind (range_loop ctx (signature_step s verify tenant at) (bundle_refs s tenant release) (0, False))
      (\<lambda>(_, verified). tx_return verified)"

definition facts_snapshot :: "string \<Rightarrow> string \<Rightarrow> string \<Rightarrow> memoryReadinessFacts \<Rightarrow> ReadinessSnapshot" where
  "facts_snapshot tenant product release facts =
    \<lparr>rs_SnapshotVersion = ReadinessSnapshotVersion, rs_TenantID = tenant, rs_ProductID = product, rs_ReleaseID = release,
     rs_HasArtifact = mrf_HasArtifact facts, rs_HasSBOM = mrf_HasSBOM facts,
     rs_HasVulnerabilityScan = mrf_HasVulnerabilityScan facts, rs_HasArtifactDigest = mrf_HasArtifactDigest facts,
     rs_HasVerifiedSignedBundle = False, rs_HasPassedBuild = mrf_HasPassedBuild facts,
     rs_HasVerifiedBuildAttestation = mrf_HasVerifiedBuildAttestation facts,
     rs_UnhandledCritical = mrf_UnhandledCritical facts, rs_UnhandledHigh = mrf_UnhandledHigh facts,
     rs_MissingCustomerStatementIDs = [], rs_MissingNotAffectedReasonIDs = [], rs_IncompleteExceptionIDs = [],
     rs_PackageCount = 0, rs_InvalidPackageOrProfileIDs = []\<rparr>"

definition sorted_ids :: "ReadinessSnapshot \<Rightarrow> ReadinessSnapshot" where
  "sorted_ids out = out\<lparr>rs_MissingCustomerStatementIDs := sort (rs_MissingCustomerStatementIDs out),
    rs_MissingNotAffectedReasonIDs := sort (rs_MissingNotAffectedReasonIDs out),
    rs_IncompleteExceptionIDs := sort (rs_IncompleteExceptionIDs out),
    rs_InvalidPackageOrProfileIDs := sort (rs_InvalidPackageOrProfileIDs out)\<rparr>"

definition readMemoryReadinessSnapshot ::
  "go_context \<Rightarrow> ed25519_verifier \<Rightarrow> 'z evaluation_store_scheme \<Rightarrow> string \<Rightarrow> string \<Rightarrow> time \<Rightarrow> ('s, ReadinessSnapshot) stx" where
  "readMemoryReadinessSnapshot ctx verify s tenant release at =
    tx_bind (tx_result (memoryOperationsCoordinates (cs_rows s) tenant (no_refs\<lparr>ref_ReleaseID := release\<rparr>))) (\<lambda>root.
    let product = ref_ProductID root in
    tx_bind (readMemoryReadinessFacts ctx s tenant product release at) (\<lambda>facts.
    tx_bind (range_loop ctx (decision_step tenant release (mrf_scans facts)) (tbl_rows (Decisions (cs_rows s)))
      (facts_snapshot tenant product release facts, 4096, MaxCustomerPackageManifestBytes)) (\<lambda>acc.
    tx_bind (range_loop ctx (exception_step (cs_rows s) tenant release (mrf_scans facts))
      (tbl_rows (Exceptions (cs_rows s))) acc) (\<lambda>acc.
    tx_bind (range_loop ctx (package_step s tenant product release at (fst (snd acc)))
      (tbl_rows (es_CustomerPackages s)) acc) (\<lambda>(out, _, _).
    tx_bind (memoryReadinessSignedBundle ctx s verify tenant release at) (\<lambda>verified.
    tx_return (sorted_ids out\<lparr>rs_HasVerifiedSignedBundle := verified\<rparr>)))))))"

end
