(* ===== verification/Policy_Evaluation.thy ===== *)
theory Policy_Evaluation
  imports Readiness
begin

text \<open>
  The command that evaluates the readiness policy of a release and stores the result
  (\<^verbatim>\<open>risk/app/policy_evaluation_commands.go\<close>), with its authorizer (\<^verbatim>\<open>vulnerability_decision_authorizer.go\<close>),
  its readers (\<^verbatim>\<open>app/memory_policy_evaluation_reader.go\<close>), its repository (\<^verbatim>\<open>memory_uow.go\<close>) and the unit of
  work that \<^verbatim>\<open>platform/wiring\<close> composes for it. The clock, the identifier generator, the hasher of audit
  entries and the Ed25519 verifier are arguments; \<open>pv_env\<close> is the committed store the unit begins on and
  \<open>pv_raced\<close> tells whether another unit commits while it runs.
\<close>

section \<open>Guards\<close>

definition validControlText :: "string \<Rightarrow> nat \<Rightarrow> bool \<Rightarrow> bool" where
  "validControlText text limit required \<longleftrightarrow>
    (\<not> required \<or> text \<noteq> []) \<and> length text \<le> limit \<and> utf8_valid text \<and> \<not> contains_nul text"

definition validRiskLifecycleTime :: "time \<Rightarrow> bool" where
  "validRiskLifecycleTime v \<longleftrightarrow> \<not> is_zero_time v \<and> 0 \<le> v \<and> v < year_10000"

definition riskResourceWriteAuthorizer :: "Action \<Rightarrow> go_context \<Rightarrow> Actor \<Rightarrow> AuthorizationRequest \<Rightarrow> error option" where
  "riskResourceWriteAuthorizer action ctx actor r =
    (if nil_context ctx then Some (ErrOther ''context canceled'')
     else on_ok (ctx_err ctx 0)
      (if TrimSpace (actor_TenantID actor) = [] \<or> TrimSpace (auditActorID actor) = [] then Some ErrUnauthorized
       else if areq_Action r \<noteq> action \<or> areq_Scope r \<noteq> [] \<or> areq_ScopeOnly r \<and> areq_TenantWide r then Some ErrForbidden
       else Authorize (ctx_drop 1 ctx) actor \<lparr>req_Action = areq_Action r, req_Resources = areq_Resources r,
         req_Evaluation = (if areq_ScopeOnly r then ScopeEvaluation
           else if areq_TenantWide r then TenantEvaluation else ResolvedEvaluation)\<rparr>))"

definition NewPolicyEvaluationAuthorizer :: "go_context \<Rightarrow> Actor \<Rightarrow> AuthorizationRequest \<Rightarrow> error option" where
  "NewPolicyEvaluationAuthorizer = riskResourceWriteAuthorizer ActionPolicyEvaluationsCreate"

definition mapControlWriteError :: "error \<Rightarrow> error" where
  "mapControlWriteError e = (case e of ErrVersionConflict _ \<Rightarrow> ErrConflict | _ \<Rightarrow> e)"

section \<open>Readers and repository\<close>

text \<open>\<^verbatim>\<open>memoryGovernanceRead\<close> with a body that observes the context itself.\<close>

definition memoryGovernanceScan ::
  "go_context \<Rightarrow> string \<Rightarrow> string \<Rightarrow> ('z catalog_store_scheme \<Rightarrow> ('z catalog_store_scheme, 'a) stx) \<Rightarrow>
   ('z catalog_store_scheme, 'a) stx" where
  "memoryGovernanceScan ctx tenant i read =
    tx_bind (tx_observe ctx) (\<lambda>_.
    tx_bind (tx_fail_if (\<not> list_all governance_text [tenant, i]) ErrValidation) (\<lambda>_.
    tx_bind (tx_read ctx (\<lambda>s. check_then (requireMemoryTenant (cs_rows s) tenant) (Inr s))) read))"

record GovernanceSubjectReference =
  gsr_Type :: string
  gsr_ID :: string
  gsr_TenantID :: string
  gsr_ProductID :: string
  gsr_ReleaseID :: string

definition validGovernanceSubject :: "GovernanceSubjectReference \<Rightarrow> string \<Rightarrow> string \<Rightarrow> string \<Rightarrow> bool" where
  "validGovernanceSubject v tenantID subjectType i \<longleftrightarrow>
    gsr_Type v = subjectType \<and> gsr_ID v = i \<and> gsr_TenantID v = tenantID"

definition subjectResources :: "GovernanceSubjectReference \<Rightarrow> ResourceReferences" where
  "subjectResources v = no_refs\<lparr>ref_ProductID := gsr_ProductID v, ref_ReleaseID := gsr_ReleaseID v\<rparr>"

definition ReadPolicyEvaluationRelease ::
  "go_context \<Rightarrow> string \<Rightarrow> string \<Rightarrow> (evaluation_store, GovernanceSubjectReference) stx" where
  "ReadPolicyEvaluationRelease ctx tenant release =
    memoryGovernanceScan ctx tenant release (\<lambda>s.
      tx_bind (tx_result (memoryOperationsCoordinates (cs_rows s) tenant (no_refs\<lparr>ref_ReleaseID := release\<rparr>))) (\<lambda>refs.
      tx_bind (tx_observe ctx) (\<lambda>_.
      tx_return \<lparr>gsr_Type = ''release'', gsr_ID = release, gsr_TenantID = tenant, gsr_ProductID = ref_ProductID refs,
        gsr_ReleaseID = release\<rparr>)))"

definition ReadReleaseReadinessSnapshotAt ::
  "go_context \<Rightarrow> ed25519_verifier \<Rightarrow> string \<Rightarrow> string \<Rightarrow> time \<Rightarrow> (evaluation_store, ReadinessSnapshot) stx" where
  "ReadReleaseReadinessSnapshotAt ctx verify tenant release at =
    tx_bind (tx_fail_if (is_zero_time at \<or> at < 0 \<or> at \<ge> year_10000) ErrValidation) (\<lambda>_.
    memoryGovernanceScan ctx tenant release (\<lambda>s. readMemoryReadinessSnapshot ctx verify s tenant release at))"

definition InsertPolicyEvaluation :: "PolicyEvaluation \<Rightarrow> evaluation_store \<Rightarrow> evaluation_store result" where
  "InsertPolicyEvaluation v s =
    check_then (requireMemoryTenant (cs_rows s) (pe_TenantID v))
    (if pe_ID v = [] \<or> pe_ReleaseID v = [] \<or> pe_Result v = [] \<or> pe_PolicySet v = [] \<or> is_zero_time (pe_CreatedAt v)
     then Inl ErrValidation
     else if \<not> memoryResourceBelongsToTenant rel_TenantID (pe_ReleaseID v) (pe_TenantID v) (Releases (cs_rows s))
     then Inl ErrNotFound
     else if tbl_get (es_PolicyEvaluations s) (pe_ID v) \<noteq> None then Inl ErrConflict
     else Inr (s\<lparr>es_PolicyEvaluations := tbl_put (es_PolicyEvaluations s) (pe_ID v) v\<rparr>))"

section \<open>The command\<close>

record policy_command =
  pv_ctx :: go_context
  pv_env :: evaluation_store
  pv_raced :: bool
  pv_now :: time
  pv_newID :: "string \<Rightarrow> string"
  pv_hasher :: canonical_hasher
  pv_verify :: ed25519_verifier

definition policy_authorize :: "go_context \<Rightarrow> Actor \<Rightarrow> AuthorizationRequest \<Rightarrow> (evaluation_store, unit) stx" where
  "policy_authorize ctx a r = tx_authorize (\<lambda>c. NewPolicyEvaluationAuthorizer c a r) 2 ctx"

definition prepare :: "go_context \<Rightarrow> Actor \<Rightarrow> string \<Rightarrow> (evaluation_store, string) stx" where
  "prepare ctx a release =
    tx_bind (if nil_context ctx then tx_result (Inl (ErrOther ''context canceled'')) else tx_observe ctx) (\<lambda>_.
    tx_bind (policy_authorize ctx a (scope_request ActionPolicyEvaluationsCreate)) (\<lambda>_.
    tx_bind (tx_fail_if (\<not> validControlText (actor_TenantID a) 1024 True \<or> \<not> validControlText (auditActorID a) 1024 True \<or>
      \<not> validControlText release 1024 True) ErrValidation) (\<lambda>_.
    tx_bind (tx_fail_if (TrimSpace release = []) ErrValidation) (\<lambda>_.
    tx_return (TrimSpace release)))))"

definition authorizeEvaluationRelease ::
  "go_context \<Rightarrow> Actor \<Rightarrow> string \<Rightarrow> (evaluation_store, GovernanceSubjectReference) stx" where
  "authorizeEvaluationRelease ctx a i =
    tx_bind (policy_authorize ctx a (scope_request ActionPolicyEvaluationsCreate)) (\<lambda>_.
    tx_bind (tx_map_error mapControlWriteError (ReadPolicyEvaluationRelease ctx (actor_TenantID a) i)) (\<lambda>r.
    tx_bind (tx_fail_if (\<not> validGovernanceSubject r (actor_TenantID a) ''release'' i \<or> gsr_ReleaseID r \<noteq> i \<or>
      gsr_ProductID r = []) ErrNotFound) (\<lambda>_.
    tx_bind (tx_fail_if (\<not> validControlText (gsr_ProductID r) 1024 True) ErrValidation) (\<lambda>_.
    tx_bind (policy_authorize ctx a (resource_request ActionPolicyEvaluationsCreate (subjectResources r))) (\<lambda>_.
    tx_return r)))))"

definition execute_evaluation :: "policy_command \<Rightarrow> (evaluation_store, 'a) stx \<Rightarrow> (evaluation_store, 'a) stx" where
  "execute_evaluation c m = tx_map_error mapControlWriteError (ExecuteUnit (pv_ctx c) (pv_raced c) (pv_env c) m)"

definition AuthorizeEvaluateRelease :: "policy_command \<Rightarrow> Actor \<Rightarrow> string \<Rightarrow> (evaluation_store, unit) stx" where
  "AuthorizeEvaluateRelease c a release =
    tx_bind (prepare (pv_ctx c) a release) (\<lambda>release.
    execute_evaluation c (tx_bind (authorizeEvaluationRelease (pv_ctx c) a release) (\<lambda>_. tx_return ())))"

fun id_budget :: "string list list \<Rightarrow> int \<Rightarrow> bool" where
  "id_budget [] remaining = True"
| "id_budget (ids # groups) remaining =
    (if int (length ids) > remaining then False else id_budget groups (remaining - int (length ids)))"

definition validPolicyEvaluationSnapshot :: "ReadinessSnapshot \<Rightarrow> bool" where
  "validPolicyEvaluationSnapshot v =
    (if rs_PackageCount v < 0 \<or> rs_PackageCount v > 4096 \<or>
        int (length (rs_InvalidPackageOrProfileIDs v)) > rs_PackageCount v then False
     else if \<not> id_budget [rs_MissingCustomerStatementIDs v, rs_MissingNotAffectedReasonIDs v, rs_IncompleteExceptionIDs v]
        (4096 - rs_PackageCount v) then False
     else list_all (list_all (\<lambda>i. \<not> (\<not> validControlText i 1024 True \<or> TrimSpace i = [])))
       [rs_MissingCustomerStatementIDs v, rs_MissingNotAffectedReasonIDs v, rs_IncompleteExceptionIDs v,
        rs_InvalidPackageOrProfileIDs v])"

definition evaluation_event :: "policy_command \<Rightarrow> Actor \<Rightarrow> time \<Rightarrow> string \<Rightarrow> AuditEvent" where
  "evaluation_event c a now i =
    \<lparr>aev_ID = pv_newID c ''ace'', aev_TenantID = actor_TenantID a, aev_EntryType = ''policy.evaluated'',
     aev_SubjectType = ''policy_evaluation'', aev_SubjectID = i, aev_ActorType = auditActorType a, aev_ActorID = auditActorID a,
     aev_OccurredAt = now, aev_PayloadHash = [], aev_SignatureRef = []\<rparr>"

definition evaluate_tx :: "policy_command \<Rightarrow> Actor \<Rightarrow> string \<Rightarrow> string \<Rightarrow> (evaluation_store, PolicyEvaluation) stx" where
  "evaluate_tx c a release i =
    (let ctx = pv_ctx c; now = truncate_microsecond (pv_now c) in
    tx_bind (authorizeEvaluationRelease ctx a release) (\<lambda>r.
    tx_bind (tx_fail_if (\<not> validRiskLifecycleTime now) ErrValidation) (\<lambda>_.
    tx_bind (tx_map_error mapControlWriteError
      (ReadReleaseReadinessSnapshotAt ctx (pv_verify c) (actor_TenantID a) release now)) (\<lambda>snapshot.
    tx_bind (tx_fail_if (rs_SnapshotVersion snapshot \<noteq> ReadinessSnapshotVersion \<or> rs_TenantID snapshot \<noteq> actor_TenantID a \<or>
      rs_ReleaseID snapshot \<noteq> release \<or> rs_ProductID snapshot \<noteq> gsr_ProductID r) ErrNotFound) (\<lambda>_.
    tx_bind (tx_fail_if (\<not> validPolicyEvaluationSnapshot snapshot) ErrValidation) (\<lambda>_.
    tx_bind (tx_result (EvaluateReadinessSnapshot snapshot now)) (\<lambda>v.
    let v = v\<lparr>pe_ID := i\<rparr> in
    tx_bind (tx_map_error mapControlWriteError (tx_mutate ctx (InsertPolicyEvaluation v))) (\<lambda>_.
    tx_bind (tx_fail_if (\<not> validControlText (pv_newID c ''ace'') 1024 True) ErrValidation) (\<lambda>_.
    tx_bind (tx_mutate ctx (catalog_append (pv_hasher c) (evaluation_event c a now i))) (\<lambda>_.
    tx_return v))))))))))"

definition EvaluateRelease :: "policy_command \<Rightarrow> Actor \<Rightarrow> string \<Rightarrow> (evaluation_store, PolicyEvaluation) stx" where
  "EvaluateRelease c a release =
    tx_bind (prepare (pv_ctx c) a release) (\<lambda>release.
    let i = pv_newID c ''pe'' in
    tx_bind (tx_fail_if (\<not> validControlText i 1024 True) ErrValidation) (\<lambda>_.
    execute_evaluation c (evaluate_tx c a release i)))"

text \<open>What the caller gets: the evaluation and the store its unit committed.\<close>

definition run_evaluation :: "policy_command \<Rightarrow> (evaluation_store, 'a) stx \<Rightarrow> ('a \<times> evaluation_store) result" where
  "run_evaluation c m = (case m (0, pv_env c) of Inl e \<Rightarrow> Inl e | Inr (x, _, s) \<Rightarrow> Inr (x, s))"

end
