(* ===== verification/Readiness_Properties.thy ===== *)
theory Readiness_Properties
  imports Policy_Evaluation
begin

text \<open>
  What a readiness evaluation promises: the stored result is \<^verbatim>\<open>passed\<close> exactly when the rows of the
  transaction satisfy \<open>release_ready\<close>, a specification with quantifiers over the tables.
\<close>

section \<open>What the loops compute\<close>

definition subject_digests :: "MemoryUnitOfWorkSnapshot \<Rightarrow> string \<Rightarrow> SubjectRef list \<Rightarrow> string set" where
  "subject_digests state tenant refs =
    {art_Digest a | ref a. ref \<in> set refs \<and> sref_Type ref = ''artifact'' \<and> tbl_get (Artifacts state) (sref_ID ref) = Some a \<and>
      art_ID a = sref_ID ref \<and> art_TenantID a = tenant \<and> validDigest (art_Digest a)}"

definition has_any :: "'a set \<Rightarrow> bool" where
  "has_any A \<longleftrightarrow> A \<noteq> {}"

lemma has_any_Un: "has_any (A \<union> B) \<longleftrightarrow> has_any A \<or> has_any B"
  by (auto simp: has_any_def)

lemma has_any_empty [simp]: "\<not> has_any {}"
  by (simp add: has_any_def)

lemma subject_digests_Cons:
  "subject_digests state tenant (ref # refs) = subject_digests state tenant [ref] \<union> subject_digests state tenant refs"
  by (auto simp: subject_digests_def)

lemma subject_step_eq:
  "\<exists>ds'. subject_step state tenant ref (out, ds) =
    (out\<lparr>mrf_HasArtifact := mrf_HasArtifact out \<or> sref_Type ref = ''artifact'' \<and> sref_ID ref \<noteq> [],
         mrf_HasArtifactDigest := mrf_HasArtifactDigest out \<or> has_any (subject_digests state tenant [ref])\<rparr>, ds') \<and>
    set ds' = set ds \<union> subject_digests state tenant [ref]"
  by (auto simp: subject_step_def subject_digests_def has_any_def Let_def split: option.splits)

lemma subject_fold:
  "\<exists>ds'. fold (subject_step state tenant) refs (out, ds) =
    (out\<lparr>mrf_HasArtifact := mrf_HasArtifact out \<or> (\<exists>ref\<in>set refs. sref_Type ref = ''artifact'' \<and> sref_ID ref \<noteq> []),
         mrf_HasArtifactDigest := mrf_HasArtifactDigest out \<or> has_any (subject_digests state tenant refs)\<rparr>, ds') \<and>
    set ds' = set ds \<union> subject_digests state tenant refs"
proof (induction refs arbitrary: out ds)
  case Nil
  then show ?case by (simp add: subject_digests_def)
next
  case (Cons ref refs)
  obtain ds1 where s: "subject_step state tenant ref (out, ds) =
      (out\<lparr>mrf_HasArtifact := mrf_HasArtifact out \<or> sref_Type ref = ''artifact'' \<and> sref_ID ref \<noteq> [],
         mrf_HasArtifactDigest := mrf_HasArtifactDigest out \<or> has_any (subject_digests state tenant [ref])\<rparr>, ds1)"
    "set ds1 = set ds \<union> subject_digests state tenant [ref]"
    using subject_step_eq by blast
  show ?case
    using Cons [of "out\<lparr>mrf_HasArtifact := mrf_HasArtifact out \<or> sref_Type ref = ''artifact'' \<and> sref_ID ref \<noteq> [],
         mrf_HasArtifactDigest := mrf_HasArtifactDigest out \<or> has_any (subject_digests state tenant [ref])\<rparr>" ds1]
    by (auto simp: s subject_digests_Cons [of _ _ ref refs] has_any_Un Un_assoc disj_assoc)
qed

abbreviation owned_evidence ::
  "MemoryUnitOfWorkSnapshot \<Rightarrow> string \<Rightarrow> string \<Rightarrow> string \<Rightarrow> string \<Rightarrow> EvidenceItem \<Rightarrow> bool" where
  "owned_evidence state tenant product release i e \<equiv> memoryAnomalyEvidence state tenant product release i = Some e"

definition evidence_digests ::
  "MemoryUnitOfWorkSnapshot \<Rightarrow> string \<Rightarrow> string \<Rightarrow> string \<Rightarrow> string set \<Rightarrow> string set" where
  "evidence_digests state tenant product release is =
    (\<Union>i\<in>is. \<Union>e\<in>{e. owned_evidence state tenant product release i e}. subject_digests state tenant (ev_SubjectRefs e))"

lemma evidence_fold:
  "\<exists>ds'. fold (evidence_step state tenant product release) is (out, ds) =
    (out\<lparr>mrf_HasArtifact := mrf_HasArtifact out \<or> (\<exists>i\<in>set is. \<exists>e. owned_evidence state tenant product release i e \<and>
            (\<exists>ref\<in>set (ev_SubjectRefs e). sref_Type ref = ''artifact'' \<and> sref_ID ref \<noteq> [])),
         mrf_HasSBOM := mrf_HasSBOM out \<or> (\<exists>i\<in>set is. \<exists>e. owned_evidence state tenant product release i e \<and> ev_Type e = ''sbom''),
         mrf_HasVulnerabilityScan := mrf_HasVulnerabilityScan out \<or>
           (\<exists>i\<in>set is. \<exists>e. owned_evidence state tenant product release i e \<and> ev_Type e = ''vulnerability_scan''),
         mrf_HasArtifactDigest := mrf_HasArtifactDigest out \<or> has_any (evidence_digests state tenant product release (set is))\<rparr>, ds') \<and>
    set ds' = set ds \<union> evidence_digests state tenant product release (set is)"
proof (induction "is" arbitrary: out ds)
  case Nil
  then show ?case by (simp add: evidence_digests_def)
next
  case (Cons i "is")
  show ?case
  proof (cases "memoryAnomalyEvidence state tenant product release i")
    case None
    then show ?thesis using Cons [of out ds] by (simp add: evidence_step_def evidence_digests_def)
  next
    case (Some e)
    let ?out = "out\<lparr>mrf_HasArtifact := mrf_HasArtifact out \<or> (\<exists>ref\<in>set (ev_SubjectRefs e). sref_Type ref = ''artifact'' \<and> sref_ID ref \<noteq> []),
      mrf_HasSBOM := mrf_HasSBOM out \<or> ev_Type e = ''sbom'',
      mrf_HasVulnerabilityScan := mrf_HasVulnerabilityScan out \<or> ev_Type e = ''vulnerability_scan'',
      mrf_HasArtifactDigest := mrf_HasArtifactDigest out \<or> has_any (subject_digests state tenant (ev_SubjectRefs e))\<rparr>"
    obtain ds1 where s: "evidence_step state tenant product release i (out, ds) = (?out, ds1)"
      "set ds1 = set ds \<union> subject_digests state tenant (ev_SubjectRefs e)"
      using subject_fold [of state tenant "ev_SubjectRefs e" "out\<lparr>mrf_HasSBOM := mrf_HasSBOM out \<or> ev_Type e = ''sbom'',
        mrf_HasVulnerabilityScan := mrf_HasVulnerabilityScan out \<or> ev_Type e = ''vulnerability_scan''\<rparr>" ds]
      by (auto simp: evidence_step_def Some)
    have d: "evidence_digests state tenant product release (insert i (set is)) =
        subject_digests state tenant (ev_SubjectRefs e) \<union> evidence_digests state tenant product release (set is)"
      using Some by (auto simp: evidence_digests_def)
    show ?thesis
      using Cons [of ?out ds1] by (simp add: Some s d has_any_Un Un_assoc disj_assoc)
  qed
qed

lemma fold_fst_rows: "fold (\<lambda>(i, _). f i) (tbl_rows t) = fold f (map fst (tbl_rows t))"
  by (simp add: fold_map comp_def split_def)

lemma keys_tbl_rows: "i \<in> set (map fst (tbl_rows t)) \<longleftrightarrow> tbl_get t i \<noteq> None"
  using tbl_rows_iff [of i _ t] by (force simp: image_iff simp del: tbl_rows_iff)

abbreviation release_digests :: "MemoryUnitOfWorkSnapshot \<Rightarrow> string \<Rightarrow> string \<Rightarrow> string \<Rightarrow> string set" where
  "release_digests state tenant product release \<equiv> evidence_digests state tenant product release UNIV"

lemma owned_evidence_row: "owned_evidence state tenant product release i e \<Longrightarrow> i \<in> set (map fst (tbl_rows (Evidence state)))"
  unfolding keys_tbl_rows by (auto simp: memoryAnomalyEvidence_def split: option.splits)

lemma evidence_digests_iff:
  "d \<in> evidence_digests state tenant product release is \<longleftrightarrow>
    (\<exists>i\<in>is. \<exists>e. owned_evidence state tenant product release i e \<and> d \<in> subject_digests state tenant (ev_SubjectRefs e))"
  by (simp add: evidence_digests_def)

lemma evidence_digests_rows:
  "evidence_digests state tenant product release (set (map fst (tbl_rows (Evidence state)))) =
   release_digests state tenant product release"
proof (rule set_eqI)
  show "d \<in> evidence_digests state tenant product release (set (map fst (tbl_rows (Evidence state)))) \<longleftrightarrow>
      d \<in> release_digests state tenant product release" for d
    unfolding evidence_digests_iff by (metis UNIV_I owned_evidence_row)
qed

lemma anomaly_build_row: "memoryAnomalyBuild state tenant product release i = Some b \<Longrightarrow> i \<in> set (map fst (tbl_rows (BuildRuns state)))"
  unfolding keys_tbl_rows by (auto simp: memoryAnomalyBuild_def split: option.splits)

text \<open>A loop whose body sets a flag when its element passes a test.\<close>

lemma fold_flag:
  assumes "\<And>x out. step x out = (if P x then upd out else out)" and "\<And>out. upd (upd out) = upd out"
  shows "fold step xs out = (if \<exists>x\<in>set xs. P x then upd out else out)"
  using assms by (induction xs arbitrary: out) auto

definition passed_build :: "MemoryUnitOfWorkSnapshot \<Rightarrow> string \<Rightarrow> string \<Rightarrow> string \<Rightarrow> string set \<Rightarrow> string \<Rightarrow> bool" where
  "passed_build state tenant product release digests i \<longleftrightarrow>
    (\<exists>b. memoryAnomalyBuild state tenant product release i = Some b \<and> build_Status b = ''passed'' \<and>
      (\<exists>o'\<in>set (build_Outputs b). out_Digest o' \<in> digests))"

lemma build_fold:
  "fold (build_step state tenant product release ds) is out =
    (if \<exists>i\<in>set is. passed_build state tenant product release (set ds) i then out\<lparr>mrf_HasPassedBuild := True\<rparr> else out)"
  by (rule fold_flag) (auto simp: build_step_def passed_build_def list_ex_iff split: option.splits)

definition verified_attestation ::
  "'z evaluation_store_scheme \<Rightarrow> string \<Rightarrow> string \<Rightarrow> string \<Rightarrow> string set \<Rightarrow> string \<Rightarrow> BuildAttestation \<Rightarrow> bool" where
  "verified_attestation s tenant product release digests i a \<longleftrightarrow>
    att_ID a = i \<and> att_TenantID a = tenant \<and> length (att_SubjectDigests a) \<le> 4096 \<and>
    (\<exists>b e. memoryAnomalyBuild (cs_rows s) tenant product release (att_BuildID a) = Some b \<and>
      owned_evidence (cs_rows s) tenant product release (att_EvidenceID a) e \<and> ev_Type e = ''build_attestation'' \<and>
      ev_ProductID e = product \<and> ev_ProjectID e = build_ProjectID b \<and> ev_BuildID e = build_ID b \<and> ev_DeploymentID e = [] \<and>
      ev_PayloadHash e = att_PayloadHash a \<and> ev_PayloadSize e = att_PayloadSize a \<and> ev_PayloadRef e = att_PayloadRef a) \<and>
    (\<exists>d\<in>set (att_SubjectDigests a). d \<in> digests) \<and> attestation_verified s tenant (att_ID a)"

lemma attestation_step_eq:
  "attestation_step s tenant product release ds (i, a) out =
    (if verified_attestation s tenant product release (set ds) i a
     then out\<lparr>mrf_HasVerifiedBuildAttestation := True\<rparr> else out)"
proof (cases "memoryAnomalyBuild (cs_rows s) tenant product release (att_BuildID a)")
  case None
  then show ?thesis by (simp add: attestation_step_def verified_attestation_def)
next
  case (Some b)
  then show ?thesis
    by (cases "memoryAnomalyEvidence (cs_rows s) tenant product release (att_EvidenceID a)")
      (auto simp add: attestation_step_def verified_attestation_def list_ex_iff)
qed

lemma attestation_fold:
  "fold (attestation_step s tenant product release ds) rs out =
    (if \<exists>(i, a)\<in>set rs. verified_attestation s tenant product release (set ds) i a
     then out\<lparr>mrf_HasVerifiedBuildAttestation := True\<rparr> else out)"
  by (rule fold_flag) (auto simp: attestation_step_eq)

text \<open>The scans of a release and the findings they hold.\<close>

definition scan_of_release :: "MemoryUnitOfWorkSnapshot \<Rightarrow> string \<Rightarrow> string \<Rightarrow> string \<Rightarrow> string \<times> VulnerabilityScan \<Rightarrow> bool" where
  "scan_of_release state tenant product release = (\<lambda>(i, v).
    scan_ID v = i \<and> scan_TenantID v = tenant \<and> scan_ReleaseID v = release \<and>
    (\<exists>e. owned_evidence state tenant product release (scan_EvidenceID v) e \<and> ev_Type e = ''vulnerability_scan''))"

definition well_formed_findings :: "VulnerabilityScan \<Rightarrow> bool" where
  "well_formed_findings v \<longleftrightarrow>
    (\<exists>findings. scan_Findings v = Some findings \<and>
      (\<forall>f\<in>set findings. TrimSpace (find_ID f) \<noteq> [] \<and> TrimSpace (find_Severity f) \<noteq> []))"

definition scan_entry :: "string \<times> VulnerabilityScan \<Rightarrow> string \<times> VulnerabilityFinding list" where
  "scan_entry = (\<lambda>(i, v). (i, case scan_Findings v of None \<Rightarrow> [] | Some findings \<Rightarrow> findings))"

lemma scan_step_eq:
  "scan_step state tenant product release row scans =
    (if \<not> scan_of_release state tenant product release row then Inr scans
     else if \<not> well_formed_findings (snd row) then Inl ErrValidation
     else Inr (scans @ [scan_entry row]))"
  by (cases row)
    (auto simp: scan_step_def scan_of_release_def well_formed_findings_def scan_entry_def list_ex_iff split: option.splits)

lemma scan_fold:
  "fold_result (scan_step state tenant product release) rs scans =
    (if \<exists>row\<in>set rs. scan_of_release state tenant product release row \<and> \<not> well_formed_findings (snd row)
     then Inl ErrValidation
     else Inr (scans @ map scan_entry (filter (scan_of_release state tenant product release) rs)))"
  by (induction rs arbitrary: scans) (auto simp: scan_step_eq)

definition release_scans :: "MemoryUnitOfWorkSnapshot \<Rightarrow> string \<Rightarrow> string \<Rightarrow> string \<Rightarrow> scan_map" where
  "release_scans state tenant product release =
    map scan_entry (filter (scan_of_release state tenant product release) (tbl_rows (VulnerabilityScans state)))"

lemma fst_scan_entry [simp]: "fst (scan_entry row) = fst row"
  by (simp add: scan_entry_def split_def)

lemma distinct_release_scans: "distinct (map fst (release_scans state tenant product release))"
  by (simp add: release_scans_def comp_def distinct_map_filter)

lemma tbl_get_release_scans:
  "tbl_get (release_scans state tenant product release) i = Some findings \<longleftrightarrow>
   (i, findings) \<in> set (release_scans state tenant product release)"
  by (simp add: tbl_get_def distinct_release_scans)

text \<open>Open findings of the two severities that block a release.\<close>

definition blocking :: "string \<Rightarrow> VulnerabilityFinding \<Rightarrow> bool" where
  "blocking severity f \<longleftrightarrow> ToLower (find_Severity f) = severity \<and> open_state f"

lemma finding_step_eq:
  "finding_step state tenant release at scans (scan, f, n) out =
    out\<lparr>mrf_UnhandledCritical := mrf_UnhandledCritical out \<or>
          blocking ''critical'' f \<and> \<not> memoryReleaseFindingHandled state tenant release scan f n at scans,
        mrf_UnhandledHigh := mrf_UnhandledHigh out \<or>
          blocking ''high'' f \<and> \<not> memoryReleaseFindingHandled state tenant release scan f n at scans\<rparr>"
  by (auto simp: finding_step_def blocking_def Let_def)

lemma finding_fold:
  "fold (finding_step state tenant release at scans) fs out =
    out\<lparr>mrf_UnhandledCritical := mrf_UnhandledCritical out \<or> (\<exists>(scan, f, n)\<in>set fs.
          blocking ''critical'' f \<and> \<not> memoryReleaseFindingHandled state tenant release scan f n at scans),
        mrf_UnhandledHigh := mrf_UnhandledHigh out \<or> (\<exists>(scan, f, n)\<in>set fs.
          blocking ''high'' f \<and> \<not> memoryReleaseFindingHandled state tenant release scan f n at scans)\<rparr>"
proof (induction fs arbitrary: out)
  case (Cons x fs)
  obtain scan f n where x: "x = (scan, f, n)" by (cases x)
  show ?case by (simp add: x Cons finding_step_eq disj_assoc)
qed simp

lemma scan_findings_iff:
  "(scan, f, n) \<in> set (scan_findings scans) \<longleftrightarrow>
    (\<exists>findings. (scan, findings) \<in> set scans \<and> f \<in> set findings \<and> n = length (filter (\<lambda>g. find_ID g = find_ID f) findings))"
  by (fastforce simp: scan_findings_def)

lemma scan_findings_ex:
  "(\<exists>(scan, f, n)\<in>set (scan_findings scans). P scan f n) \<longleftrightarrow>
    (\<exists>scan findings f. (scan, findings) \<in> set scans \<and> f \<in> set findings \<and>
      P scan f (length (filter (\<lambda>g. find_ID g = find_ID f) findings)))"
proof -
  have "(\<exists>(scan, f, n)\<in>set (scan_findings scans). P scan f n) \<longleftrightarrow>
      (\<exists>scan f n. (scan, f, n) \<in> set (scan_findings scans) \<and> P scan f n)" by blast
  then show ?thesis unfolding scan_findings_iff by metis
qed

section \<open>The facts of a release\<close>

text \<open>The facts that the loops gather, as a function of the rows alone.\<close>

definition release_facts ::
  "'z evaluation_store_scheme \<Rightarrow> string \<Rightarrow> string \<Rightarrow> string \<Rightarrow> time \<Rightarrow> memoryReadinessFacts" where
  "release_facts s tenant product release at =
    (let state = cs_rows s; owned = owned_evidence state tenant product release;
         digests = release_digests state tenant product release; scans = release_scans state tenant product release;
         unhandled = (\<lambda>severity. \<exists>scan findings f. (scan, findings) \<in> set scans \<and> f \<in> set findings \<and> blocking severity f \<and>
           \<not> memoryReleaseFindingHandled state tenant release scan f
             (length (filter (\<lambda>g. find_ID g = find_ID f) findings)) at scans) in
     \<lparr>mrf_HasArtifact = (\<exists>i e ref. owned i e \<and> ref \<in> set (ev_SubjectRefs e) \<and> sref_Type ref = ''artifact'' \<and> sref_ID ref \<noteq> []),
      mrf_HasSBOM = (\<exists>i e. owned i e \<and> ev_Type e = ''sbom''),
      mrf_HasVulnerabilityScan = (\<exists>i e. owned i e \<and> ev_Type e = ''vulnerability_scan''),
      mrf_HasArtifactDigest = (digests \<noteq> {}),
      mrf_HasPassedBuild = (\<exists>i. passed_build state tenant product release digests i),
      mrf_HasVerifiedBuildAttestation = (\<exists>i a. tbl_get (es_BuildAttestations s) i = Some a \<and>
        verified_attestation s tenant product release digests i a),
      mrf_UnhandledCritical = unhandled ''critical'', mrf_UnhandledHigh = unhandled ''high'', mrf_scans = scans\<rparr>)"

lemma fold_result_keys:
  "fold_result (\<lambda>(i, _) acc. Inr (f i acc)) rs acc = Inr (fold f (map fst rs) acc)"
  by (induction rs arbitrary: acc) auto

lemma evidence_loop:
  assumes "fold_result (\<lambda>(i, _) acc. Inr (evidence_step state tenant product release i acc)) (tbl_rows (Evidence state)) (no_facts, []) =
    Inr (out, ds)"
  shows "out = no_facts\<lparr>
      mrf_HasArtifact := \<exists>i e ref. owned_evidence state tenant product release i e \<and> ref \<in> set (ev_SubjectRefs e) \<and>
        sref_Type ref = ''artifact'' \<and> sref_ID ref \<noteq> [],
      mrf_HasSBOM := \<exists>i e. owned_evidence state tenant product release i e \<and> ev_Type e = ''sbom'',
      mrf_HasVulnerabilityScan := \<exists>i e. owned_evidence state tenant product release i e \<and> ev_Type e = ''vulnerability_scan'',
      mrf_HasArtifactDigest := release_digests state tenant product release \<noteq> {}\<rparr>"
    and "set ds = release_digests state tenant product release"
proof -
  let ?keys = "set (map fst (tbl_rows (Evidence state)))"
  have ex: "(\<exists>i\<in>?keys. \<exists>e. owned_evidence state tenant product release i e \<and> P e) \<longleftrightarrow>
      (\<exists>i e. owned_evidence state tenant product release i e \<and> P e)" for P
    using owned_evidence_row by metis
  from evidence_fold [of state tenant product release "map fst (tbl_rows (Evidence state))" no_facts "[]"] assms
  show "out = no_facts\<lparr>
      mrf_HasArtifact := \<exists>i e ref. owned_evidence state tenant product release i e \<and> ref \<in> set (ev_SubjectRefs e) \<and>
        sref_Type ref = ''artifact'' \<and> sref_ID ref \<noteq> [],
      mrf_HasSBOM := \<exists>i e. owned_evidence state tenant product release i e \<and> ev_Type e = ''sbom'',
      mrf_HasVulnerabilityScan := \<exists>i e. owned_evidence state tenant product release i e \<and> ev_Type e = ''vulnerability_scan'',
      mrf_HasArtifactDigest := release_digests state tenant product release \<noteq> {}\<rparr>"
    "set ds = release_digests state tenant product release"
    unfolding fold_result_keys ex evidence_digests_rows by (auto simp: no_facts_def has_any_def Bex_def)
qed

lemma readMemoryReadinessFacts_Inr:
  assumes "readMemoryReadinessFacts ctx s tenant product release at st = Inr (out, st')"
  shows "out = release_facts s tenant product release at" and "snd st' = snd st"
    and "\<forall>i v. tbl_get (VulnerabilityScans (cs_rows s)) i = Some v \<longrightarrow> scan_of_release (cs_rows s) tenant product release (i, v) \<longrightarrow>
      well_formed_findings v"
proof -
  let ?state = "cs_rows s"
  from assms obtain out1 ds st1 out2 st2 out3 st3 scans st4 out4 st5 where
    1: "range_loop ctx (\<lambda>(i, _) acc. Inr (evidence_step ?state tenant product release i acc)) (tbl_rows (Evidence ?state))
        (no_facts, []) st = Inr ((out1, ds), st1)"
    and 2: "range_loop ctx (\<lambda>(i, _) out. Inr (build_step ?state tenant product release ds i out)) (tbl_rows (BuildRuns ?state)) out1 st1 =
        Inr (out2, st2)"
    and 3: "range_loop ctx (\<lambda>row out. Inr (attestation_step s tenant product release ds row out)) (tbl_rows (es_BuildAttestations s))
        out2 st2 = Inr (out3, st3)"
    and 4: "range_loop ctx (scan_step ?state tenant product release) (tbl_rows (VulnerabilityScans ?state)) [] st3 = Inr (scans, st4)"
    and 5: "range_loop ctx (\<lambda>row out. Inr (finding_step ?state tenant release at scans row out)) (scan_findings scans)
        (out3\<lparr>mrf_scans := scans\<rparr>) st4 = Inr (out4, st5)"
    and 6: "out = out4" "snd st' = snd st5"
    by (auto simp: readMemoryReadinessFacts_def Let_def tx_success split: prod.splits)
  show "snd st' = snd st"
    using range_loop_Inr [OF 1] range_loop_Inr [OF 2] range_loop_Inr [OF 3] range_loop_Inr [OF 4] range_loop_Inr [OF 5] 6 by simp
  note e = evidence_loop [OF conjunct1 [OF range_loop_Inr [OF 1]]]
  have b: "(\<exists>i\<in>set (map fst (tbl_rows (BuildRuns ?state))). passed_build ?state tenant product release D i) \<longleftrightarrow>
      (\<exists>i. passed_build ?state tenant product release D i)" for D
    unfolding passed_build_def using anomaly_build_row by metis
  have o2: "out2 = (if \<exists>i. passed_build ?state tenant product release (set ds) i then out1\<lparr>mrf_HasPassedBuild := True\<rparr> else out1)"
    using range_loop_Inr [OF 2] unfolding fold_result_keys build_fold b by simp
  have o3: "out3 = (if \<exists>i a. tbl_get (es_BuildAttestations s) i = Some a \<and> verified_attestation s tenant product release (set ds) i a
      then out2\<lparr>mrf_HasVerifiedBuildAttestation := True\<rparr> else out2)"
    using range_loop_Inr [OF 3] by (simp add: attestation_fold Bex_def split: if_splits)
  have sc: "scans = release_scans ?state tenant product release"
    and ok: "\<forall>row\<in>set (tbl_rows (VulnerabilityScans ?state)). scan_of_release ?state tenant product release row \<longrightarrow> well_formed_findings (snd row)"
    using range_loop_Inr [OF 4] by (auto simp: scan_fold release_scans_def split: if_splits)
  have o4: "out4 = fold (finding_step ?state tenant release at scans) (scan_findings scans) (out3\<lparr>mrf_scans := scans\<rparr>)"
    using range_loop_Inr [OF 5] by simp
  show "out = release_facts s tenant product release at"
    unfolding 6 o4 finding_fold scan_findings_ex o3 o2 e sc release_facts_def Let_def
    by (simp add: no_facts_def)
  show "\<forall>i v. tbl_get (VulnerabilityScans (cs_rows s)) i = Some v \<longrightarrow> scan_of_release (cs_rows s) tenant product release (i, v) \<longrightarrow>
      well_formed_findings v"
    using ok by fastforce
qed

section \<open>The snapshot of a release\<close>

text \<open>
  The loops that append identifiers: each appends the keys of the rows that pass its tests, every appended
  key is well formed, and the identifier budget shrinks by their number.
\<close>

definition active_decision :: "string \<Rightarrow> string \<Rightarrow> scan_map \<Rightarrow> string \<Rightarrow> VulnerabilityDecision \<Rightarrow> bool" where
  "active_decision tenant release scans i d \<longleftrightarrow>
    dec_ID d = i \<and> dec_TenantID d = tenant \<and> dec_ReleaseID d = release \<and> dec_SupersededBy d = [] \<and>
    memoryReadinessDecisionOwned d scans"

definition lacks_statement :: "VulnerabilityDecision \<Rightarrow> bool" where
  "lacks_statement d \<longleftrightarrow> dec_CustomerVisible d \<and> TrimSpace (dec_ImpactStatement d) = []"

definition lacks_justification :: "VulnerabilityDecision \<Rightarrow> bool" where
  "lacks_justification d \<longleftrightarrow> dec_Status d = ''not_affected'' \<and> TrimSpace (dec_Justification d) = []"

definition owned_exception :: "MemoryUnitOfWorkSnapshot \<Rightarrow> string \<Rightarrow> string \<Rightarrow> scan_map \<Rightarrow> string \<Rightarrow> Exception \<Rightarrow> bool" where
  "owned_exception state tenant release scans i x \<longleftrightarrow>
    exc_ID x = i \<and> exc_TenantID x = tenant \<and> exc_ReleaseID x = release \<and> memoryReadinessExceptionOwned state tenant x scans"

definition owned_package :: "string \<Rightarrow> string \<Rightarrow> string \<Rightarrow> string \<Rightarrow> CustomerSecurityPackage \<Rightarrow> bool" where
  "owned_package tenant product release i p \<longleftrightarrow>
    pkg_ID p = i \<and> pkg_TenantID p = tenant \<and> pkg_ReleaseID p = release \<and> pkg_ProductID p = product"

definition usable_package :: "'z evaluation_store_scheme \<Rightarrow> string \<Rightarrow> time \<Rightarrow> CustomerSecurityPackage \<Rightarrow> bool" where
  "usable_package s tenant at p \<longleftrightarrow> profile_usable s tenant (pkg_RedactionProfileID p) \<and> pkg_ExpiresAt p > at"

definition keys_where :: "('k \<Rightarrow> 'v \<Rightarrow> bool) \<Rightarrow> ('k \<times> 'v) list \<Rightarrow> 'k list" where
  "keys_where P rs = map fst (filter (\<lambda>(i, v). P i v) rs)"

lemma keys_where_simps [simp]:
  "keys_where P [] = []"
  "keys_where P ((i, v) # rs) = (if P i v then i # keys_where P rs else keys_where P rs)"
  by (simp_all add: keys_where_def)

abbreviation good_ids :: "string list \<Rightarrow> bool" where
  "good_ids ids \<equiv> list_all (\<lambda>i. memoryMembershipQueryText i 1024) ids"

lemma appendID_Inr:
  "appendID upd i (out, n, b) = Inr (out', n', b') \<longleftrightarrow>
    memoryMembershipQueryText i 1024 \<and> n \<noteq> 0 \<and> int (length (quoted i)) \<le> b \<and> out' = upd (\<lambda>ids. ids @ [i]) out \<and>
    n' = n - 1 \<and> b' = b - int (length (quoted i))"
  by (auto simp: appendID_def)

lemma decision_step_eq:
  "decision_step tenant release scans (i, d) acc =
    (if active_decision tenant release scans i d
     then bind_result (if lacks_statement d then appendID rs_MissingCustomerStatementIDs_update i acc else Inr acc) (\<lambda>acc.
       if lacks_justification d then appendID rs_MissingNotAffectedReasonIDs_update i acc else Inr acc)
     else Inr acc)"
  by (simp add: decision_step_def active_decision_def lacks_statement_def lacks_justification_def)

lemma exception_step_eq:
  "exception_step state tenant release scans (i, x) acc =
    (if owned_exception state tenant release scans i x \<and> exception_incomplete x
     then appendID rs_IncompleteExceptionIDs_update i acc else Inr acc)"
  by (simp add: exception_step_def owned_exception_def)

lemma package_step_eq:
  "package_step s tenant product release at limit (i, p) (out, n, b) =
    (if owned_package tenant product release i p
     then if rs_PackageCount out + 1 > limit then Inl ErrValidation
       else if usable_package s tenant at p then Inr (out\<lparr>rs_PackageCount := rs_PackageCount out + 1\<rparr>, n, b)
       else appendID rs_InvalidPackageOrProfileIDs_update i (out\<lparr>rs_PackageCount := rs_PackageCount out + 1\<rparr>, n, b)
     else Inr (out, n, b))"
  by (simp add: package_step_def owned_package_def usable_package_def Let_def)

lemma decision_step_Inr:
  assumes "decision_step tenant release scans (i, d) (out, n, b) = Inr (out1, n1, b1)"
  defines "X \<equiv> if active_decision tenant release scans i d \<and> lacks_statement d then [i] else []"
    and "Y \<equiv> if active_decision tenant release scans i d \<and> lacks_justification d then [i] else []"
  shows "out1 = out\<lparr>rs_MissingCustomerStatementIDs := rs_MissingCustomerStatementIDs out @ X,
      rs_MissingNotAffectedReasonIDs := rs_MissingNotAffectedReasonIDs out @ Y\<rparr> \<and> good_ids X \<and> good_ids Y \<and>
    n1 = n - int (length X) - int (length Y) \<and> (0 \<le> n \<longrightarrow> 0 \<le> n1)"
  using assms(1) unfolding X_def Y_def decision_step_eq
  by (cases "active_decision tenant release scans i d"; cases "lacks_statement d"; cases "lacks_justification d")
    (auto simp: appendID_Inr)

lemma package_step_Inr:
  assumes "package_step s tenant product release at limit (i, p) (out, n, b) = Inr (out1, n1, b1)"
  defines "X \<equiv> if owned_package tenant product release i p \<and> \<not> usable_package s tenant at p then [i] else []"
    and "Y \<equiv> if owned_package tenant product release i p then [i] else []"
  shows "out1 = out\<lparr>rs_PackageCount := rs_PackageCount out + int (length Y),
      rs_InvalidPackageOrProfileIDs := rs_InvalidPackageOrProfileIDs out @ X\<rparr> \<and> good_ids X \<and>
    (rs_PackageCount out \<le> limit \<longrightarrow> rs_PackageCount out + int (length Y) \<le> limit)"
proof (cases "owned_package tenant product release i p \<and> \<not> usable_package s tenant at p")
  case True
  then show ?thesis using assms(1) unfolding X_def Y_def package_step_eq by (simp add: appendID_Inr split: if_splits)
next
  case False
  then show ?thesis using assms(1) unfolding X_def Y_def package_step_eq by (auto split: if_splits)
qed

lemma keys_where_Cons: "keys_where P ((i, v) # rs) = (if P i v then [i] else []) @ keys_where P rs"
  by simp

lemma decision_fold:
  assumes "fold_result (decision_step tenant release scans) rs (out, n, b) = Inr (out', n', b')"
  shows "let xs = keys_where (\<lambda>i d. active_decision tenant release scans i d \<and> lacks_statement d) rs;
             ys = keys_where (\<lambda>i d. active_decision tenant release scans i d \<and> lacks_justification d) rs in
    out' = out\<lparr>rs_MissingCustomerStatementIDs := rs_MissingCustomerStatementIDs out @ xs,
               rs_MissingNotAffectedReasonIDs := rs_MissingNotAffectedReasonIDs out @ ys\<rparr> \<and>
    good_ids xs \<and> good_ids ys \<and> n' = n - int (length xs) - int (length ys) \<and> (0 \<le> n \<longrightarrow> 0 \<le> n')"
  using assms
proof (induction rs arbitrary: out n b)
  case (Cons row rs)
  obtain i d where row: "row = (i, d)" by (cases row)
  obtain out1 n1 b1 where s: "decision_step tenant release scans (i, d) (out, n, b) = Inr (out1, n1, b1)"
    and r: "fold_result (decision_step tenant release scans) rs (out1, n1, b1) = Inr (out', n', b')"
    using Cons.prems by (auto simp: row)
  obtain X Y where X: "(if active_decision tenant release scans i d \<and> lacks_statement d then [i] else []) = X"
    and Y: "(if active_decision tenant release scans i d \<and> lacks_justification d then [i] else []) = Y" by blast
  show ?case
    using Cons.IH [OF r] decision_step_Inr [OF s] unfolding row Let_def keys_where_Cons X Y by simp linarith
qed simp

lemma exception_fold:
  assumes "fold_result (exception_step state tenant release scans) rs (out, n, b) = Inr (out', n', b')"
  shows "let xs = keys_where (\<lambda>i x. owned_exception state tenant release scans i x \<and> exception_incomplete x) rs in
    out' = out\<lparr>rs_IncompleteExceptionIDs := rs_IncompleteExceptionIDs out @ xs\<rparr> \<and>
    good_ids xs \<and> n' = n - int (length xs) \<and> (0 \<le> n \<longrightarrow> 0 \<le> n')"
  using assms
proof (induction rs arbitrary: out n b)
  case (Cons row rs)
  obtain i x where row: "row = (i, x)" by (cases row)
  obtain out1 n1 b1 where s: "exception_step state tenant release scans (i, x) (out, n, b) = Inr (out1, n1, b1)"
    and r: "fold_result (exception_step state tenant release scans) rs (out1, n1, b1) = Inr (out', n', b')"
    using Cons.prems by (auto simp: row)
  show ?case
    using Cons.IH [OF r] s
    by (cases "owned_exception state tenant release scans i x \<and> exception_incomplete x")
      (auto simp: row exception_step_eq appendID_Inr Let_def)
qed simp

lemma package_fold:
  assumes "fold_result (package_step s tenant product release at limit) rs (out, n, b) = Inr (out', n', b')"
  shows "let xs = keys_where (\<lambda>i p. owned_package tenant product release i p \<and> \<not> usable_package s tenant at p) rs;
             ps = keys_where (owned_package tenant product release) rs in
    out' = out\<lparr>rs_PackageCount := rs_PackageCount out + int (length ps),
               rs_InvalidPackageOrProfileIDs := rs_InvalidPackageOrProfileIDs out @ xs\<rparr> \<and>
    good_ids xs \<and> (rs_PackageCount out \<le> limit \<longrightarrow> rs_PackageCount out + int (length ps) \<le> limit)"
  using assms
proof (induction rs arbitrary: out n b)
  case (Cons row rs)
  obtain i p where row: "row = (i, p)" by (cases row)
  obtain out1 n1 b1 where s: "package_step s tenant product release at limit (i, p) (out, n, b) = Inr (out1, n1, b1)"
    and r: "fold_result (package_step s tenant product release at limit) rs (out1, n1, b1) = Inr (out', n', b')"
    using Cons.prems by (auto simp: row)
  obtain X Y where X: "(if owned_package tenant product release i p \<and> \<not> usable_package s tenant at p then [i] else []) = X"
    and Y: "(if owned_package tenant product release i p then [i] else []) = Y" by blast
  show ?case
    using Cons.IH [OF r] package_step_Inr [OF s] unfolding row Let_def keys_where_Cons X Y by simp linarith
qed simp

text \<open>The signatures of the release bundles.\<close>

lemma signature_fold:
  assumes "fold_result (signature_step s verify tenant at) refs (n, v) = Inr (n', v')"
  shows "v' \<longleftrightarrow> v \<or> (\<exists>(b, ref)\<in>set refs. \<exists>signature key. bundle_signature s tenant (b, ref) = Some (signature, key) \<and>
    signature_verifies verify at b signature key)"
  using assms
proof (induction refs arbitrary: n v)
  case (Cons x refs)
  obtain b ref where x: "x = (b, ref)" by (cases x)
  obtain n1 v1 where s: "signature_step s verify tenant at (b, ref) (n, v) = Inr (n1, v1)"
    and r: "fold_result (signature_step s verify tenant at) refs (n1, v1) = Inr (n', v')"
    using Cons.prems by (auto simp: x)
  show ?case
    using Cons.IH [OF r] s by (auto simp: x signature_step_def split: option.splits if_splits)
qed simp

definition verified_bundle :: "'z evaluation_store_scheme \<Rightarrow> ed25519_verifier \<Rightarrow> string \<Rightarrow> string \<Rightarrow> time \<Rightarrow> bool" where
  "verified_bundle s verify tenant release at \<longleftrightarrow>
    (\<exists>i b ref signature key. tbl_get (cs_ReleaseBundles s) i = Some b \<and> bun_ID b = i \<and> bun_TenantID b = tenant \<and>
      bun_ReleaseID b = release \<and> ref \<in> set (bun_SignatureRefs b) \<and>
      bundle_signature s tenant (b, ref) = Some (signature, key) \<and> signature_verifies verify at b signature key)"

lemma tbl_rows_Bex: "(\<exists>x\<in>set (tbl_rows t). P x) \<longleftrightarrow> (\<exists>k v. tbl_get t k = Some v \<and> P (k, v))"
  by (simp add: Bex_def)

lemma bundle_refs_iff:
  "(b, ref) \<in> set (bundle_refs s tenant release) \<longleftrightarrow>
    (\<exists>i. tbl_get (cs_ReleaseBundles s) i = Some b \<and> bun_ID b = i \<and> bun_TenantID b = tenant \<and> bun_ReleaseID b = release \<and>
      ref \<in> set (bun_SignatureRefs b))"
proof -
  have "(b, ref) \<in> set (bundle_refs s tenant release) \<longleftrightarrow> (\<exists>i b'. tbl_get (cs_ReleaseBundles s) i = Some b' \<and>
      (b, ref) \<in> set (if bun_ID b' \<noteq> i \<or> bun_TenantID b' \<noteq> tenant \<or> bun_ReleaseID b' \<noteq> release then []
        else map (Pair b') (bun_SignatureRefs b')))"
    by (simp add: bundle_refs_def tbl_rows_Bex)
  then show ?thesis by (auto split: if_splits)
qed

lemma memoryReadinessSignedBundle_Inr:
  assumes "memoryReadinessSignedBundle ctx s verify tenant release at st = Inr (v, st')"
  shows "v \<longleftrightarrow> verified_bundle s verify tenant release at" and "snd st' = snd st"
proof -
  from assms obtain n st1 where r: "range_loop ctx (signature_step s verify tenant at) (bundle_refs s tenant release) (0, False) st =
      Inr ((n, v), st1)" and "st' = st1"
    by (auto simp: memoryReadinessSignedBundle_def tx_success split: prod.splits)
  from range_loop_Inr [OF r] \<open>st' = st1\<close> show "snd st' = snd st" by simp
  have "v \<longleftrightarrow> (\<exists>(b, ref)\<in>set (bundle_refs s tenant release). \<exists>signature key. bundle_signature s tenant (b, ref) = Some (signature, key) \<and>
      signature_verifies verify at b signature key)"
    using signature_fold [OF conjunct1 [OF range_loop_Inr [OF r]]] by simp
  also have "\<dots> \<longleftrightarrow> (\<exists>b ref. (b, ref) \<in> set (bundle_refs s tenant release) \<and> (\<exists>signature key.
      bundle_signature s tenant (b, ref) = Some (signature, key) \<and> signature_verifies verify at b signature key))" by blast
  finally show "v \<longleftrightarrow> verified_bundle s verify tenant release at"
    unfolding bundle_refs_iff verified_bundle_def by blast
qed

text \<open>The whole snapshot as a function of the tables, whatever the order of their rows.\<close>

abbreviation keys_of :: "('k, 'v) table \<Rightarrow> ('k \<Rightarrow> 'v \<Rightarrow> bool) \<Rightarrow> 'k set" where
  "keys_of t P \<equiv> {i. \<exists>v. tbl_get t i = Some v \<and> P i v}"

definition release_snapshot ::
  "'z evaluation_store_scheme \<Rightarrow> ed25519_verifier \<Rightarrow> string \<Rightarrow> string \<Rightarrow> string \<Rightarrow> time \<Rightarrow> ReadinessSnapshot" where
  "release_snapshot s verify tenant product release at =
    (let facts = release_facts s tenant product release at; active = active_decision tenant release (mrf_scans facts) in
     (facts_snapshot tenant product release facts)\<lparr>
      rs_HasVerifiedSignedBundle := verified_bundle s verify tenant release at,
      rs_MissingCustomerStatementIDs := sorted_list_of_set (keys_of (Decisions (cs_rows s)) (\<lambda>i d. active i d \<and> lacks_statement d)),
      rs_MissingNotAffectedReasonIDs := sorted_list_of_set (keys_of (Decisions (cs_rows s)) (\<lambda>i d. active i d \<and> lacks_justification d)),
      rs_IncompleteExceptionIDs := sorted_list_of_set (keys_of (Exceptions (cs_rows s))
        (\<lambda>i x. owned_exception (cs_rows s) tenant release (mrf_scans facts) i x \<and> exception_incomplete x)),
      rs_PackageCount := int (card (keys_of (es_CustomerPackages s) (owned_package tenant product release))),
      rs_InvalidPackageOrProfileIDs := sorted_list_of_set (keys_of (es_CustomerPackages s)
        (\<lambda>i p. owned_package tenant product release i p \<and> \<not> usable_package s tenant at p))\<rparr>)"

lemma set_keys_where: "set (keys_where P (tbl_rows t)) = keys_of t P"
  by (force simp: keys_where_def)

lemma distinct_keys_where: "distinct (keys_where P (tbl_rows t))"
  by (simp add: keys_where_def distinct_map_filter)

lemma sort_keys_where: "sort (keys_where P (tbl_rows t)) = sorted_list_of_set (keys_of t P)"
  for t :: "(string, 'v) table"
  by (metis distinct_keys_where distinct_remdups_id set_keys_where sorted_list_of_set_sort_remdups)

lemma length_keys_where: "length (keys_where P (tbl_rows t)) = card (keys_of t P)"
  by (metis distinct_card distinct_keys_where set_keys_where)

lemma finite_keys_of [simp]: "finite (keys_of t P)"
  by (metis List.finite_set set_keys_where)

definition well_formed_ids :: "ReadinessSnapshot \<Rightarrow> bool" where
  "well_formed_ids v \<longleftrightarrow>
    (\<forall>i\<in>set (rs_MissingCustomerStatementIDs v) \<union> set (rs_MissingNotAffectedReasonIDs v) \<union> set (rs_IncompleteExceptionIDs v) \<union>
      set (rs_InvalidPackageOrProfileIDs v). memoryMembershipQueryText i 1024)"

lemma readMemoryReadinessSnapshot_Inr:
  assumes "readMemoryReadinessSnapshot ctx verify s tenant release at st = Inr (out, st')"
  shows "\<exists>root. memoryOperationsCoordinates (cs_rows s) tenant (no_refs\<lparr>ref_ReleaseID := release\<rparr>) = Inr root \<and>
    out = release_snapshot s verify tenant (ref_ProductID root) release at \<and> well_formed_ids out \<and> snd st' = snd st"
proof -
  from assms obtain root facts st1 out2 n2 b2 st2 out3 n3 b3 st3 out4 n4 b4 st4 v st5 where
    root: "memoryOperationsCoordinates (cs_rows s) tenant (no_refs\<lparr>ref_ReleaseID := release\<rparr>) = Inr root"
    and 1: "readMemoryReadinessFacts ctx s tenant (ref_ProductID root) release at st = Inr (facts, st1)"
    and 2: "range_loop ctx (decision_step tenant release (mrf_scans facts)) (tbl_rows (Decisions (cs_rows s)))
      (facts_snapshot tenant (ref_ProductID root) release facts, 4096, MaxCustomerPackageManifestBytes) st1 = Inr ((out2, n2, b2), st2)"
    and 3: "range_loop ctx (exception_step (cs_rows s) tenant release (mrf_scans facts)) (tbl_rows (Exceptions (cs_rows s)))
      (out2, n2, b2) st2 = Inr ((out3, n3, b3), st3)"
    and 4: "range_loop ctx (package_step s tenant (ref_ProductID root) release at n3) (tbl_rows (es_CustomerPackages s))
      (out3, n3, b3) st3 = Inr ((out4, n4, b4), st4)"
    and 5: "memoryReadinessSignedBundle ctx s verify tenant release at st4 = Inr (v, st5)"
    and out: "out = sorted_ids out4\<lparr>rs_HasVerifiedSignedBundle := v\<rparr>" "st' = st5"
    by (auto simp: readMemoryReadinessSnapshot_def Let_def tx_success split: prod.splits)
  note f = readMemoryReadinessFacts_Inr [OF 1]
  note d = decision_fold [OF conjunct1 [OF range_loop_Inr [OF 2]], unfolded Let_def f(1)]
  note x = exception_fold [OF conjunct1 [OF range_loop_Inr [OF 3]], unfolded Let_def f(1)]
  note p = package_fold [OF conjunct1 [OF range_loop_Inr [OF 4]], unfolded Let_def f(1)]
  note b = memoryReadinessSignedBundle_Inr [OF 5]
  have "snd st' = snd st"
    using f(2) range_loop_Inr [OF 2] range_loop_Inr [OF 3] range_loop_Inr [OF 4] b(2) out(2) by simp
  moreover have e: "out = release_snapshot s verify tenant (ref_ProductID root) release at"
    unfolding out(1) conjunct1 [OF p] conjunct1 [OF x] conjunct1 [OF d] b(1) release_snapshot_def Let_def f(1)
    by (simp add: sorted_ids_def facts_snapshot_def sort_keys_where length_keys_where)
  moreover have "well_formed_ids out"
    using d x p unfolding e well_formed_ids_def release_snapshot_def Let_def
    by (auto simp: list_all_iff set_keys_where)
  ultimately show ?thesis using root by blast
qed

section \<open>The policy\<close>

text \<open>The condition each of the thirteen checks stands for, in the order of the report.\<close>

definition readiness_conditions :: "ReadinessSnapshot \<Rightarrow> (string \<times> bool) list" where
  "readiness_conditions v =
    [(''release_has_artifact'', rs_HasArtifact v), (''release_requires_sbom'', rs_HasSBOM v),
     (''release_requires_vulnerability_scan'', rs_HasVulnerabilityScan v),
     (''release_requires_artifact_digest'', rs_HasArtifactDigest v),
     (''release_requires_signed_bundle'', rs_HasVerifiedSignedBundle v),
     (''release_requires_passed_build'', rs_HasPassedBuild v),
     (''release_requires_build_attestation'', rs_HasVerifiedBuildAttestation v),
     (''critical_exploitable_blocks_release'', \<not> rs_UnhandledCritical v),
     (''high_findings_require_triage'', \<not> rs_UnhandledHigh v),
     (''customer_visible_decisions_require_statements'', list_all blank (rs_MissingCustomerStatementIDs v)),
     (''not_affected_decisions_require_justification'', list_all blank (rs_MissingNotAffectedReasonIDs v)),
     (''exceptions_require_owner_reason_expiry_and_approval'', list_all blank (rs_IncompleteExceptionIDs v)),
     (''package_redaction_profile_valid'', list_all blank (rs_InvalidPackageOrProfileIDs v))]"

lemma normalizedIDs_Nil: "normalizedIDs ids = [] \<longleftrightarrow> list_all blank ids"
proof -
  have "normalizedIDs ids = [] \<longleftrightarrow> set (normalizedIDs ids) = {}" by simp
  also have "\<dots> \<longleftrightarrow> list_all blank ids"
    by (auto simp: normalizedIDs_def trimmed_set_def sorted_set_def list_all_iff blank_def)
  finally show ?thesis .
qed

lemma check_results [simp]:
  "pck_Result (presenceCheck b n sv m x y z) = (if b then ''passed'' else ''failed'')"
  "pck_Name (presenceCheck b n sv m x y z) = n"
  "pck_Result (missingIDsCheck ids n sv x y z) = (if list_all blank ids then ''passed'' else ''failed'')"
  "pck_Name (missingIDsCheck ids n sv x y z) = n"
  "pck_Result (package_check v) = (if list_all blank (rs_InvalidPackageOrProfileIDs v) then ''passed'' else ''failed'')"
  "pck_Name (package_check v) = ''package_redaction_profile_valid''"
  by (simp_all add: presenceCheck_def missingIDsCheck_def package_check_def normalizedIDs_Nil Let_def)

lemma readiness_checks:
  "map (\<lambda>c. (pck_Name c, pck_Result c)) (readinessPolicyChecks v) =
   map (\<lambda>(n, b). (n, if b then ''passed'' else ''failed'')) (readiness_conditions v)"
  by (simp add: readinessPolicyChecks_def readiness_conditions_def inversePresenceCheck_def)

lemma readiness_passed: "readinessPolicyResult (readinessPolicyChecks v) = ''passed'' \<longleftrightarrow> list_all snd (readiness_conditions v)"
proof -
  have "list_ex (\<lambda>c. pck_Result c = ''failed'') (readinessPolicyChecks v) \<longleftrightarrow>
      (\<exists>nr\<in>set (map (\<lambda>c. (pck_Name c, pck_Result c)) (readinessPolicyChecks v)). snd nr = ''failed'')"
    by (simp add: list_ex_iff)
  also have "\<dots> \<longleftrightarrow> \<not> list_all snd (readiness_conditions v)"
    unfolding readiness_checks by (simp add: list_all_iff split_def image_iff)
  finally show ?thesis by (simp add: readinessPolicyResult_def)
qed

lemma readiness_result_range: "readinessPolicyResult cs = ''passed'' \<or> readinessPolicyResult cs = ''failed''"
  by (simp add: readinessPolicyResult_def)

section \<open>Release readiness\<close>

text \<open>
  A blocking finding is handled by an active decision that names exactly it, or by an approved exception of
  the release that has not expired and covers it.
\<close>

definition decided :: "MemoryUnitOfWorkSnapshot \<Rightarrow> string \<Rightarrow> string \<Rightarrow> string \<Rightarrow> VulnerabilityFinding list \<Rightarrow> VulnerabilityFinding \<Rightarrow> bool" where
  "decided state tenant release scan findings f \<longleftrightarrow>
    (\<exists>i d. tbl_get (Decisions state) i = Some d \<and> dec_ID d = i \<and> dec_TenantID d = tenant \<and> dec_ReleaseID d = release \<and>
      dec_ScanID d = scan \<and> dec_FindingID d = find_ID f \<and> dec_Vulnerability d = find_Vulnerability f \<and>
      dec_Component d = find_Component f \<and> dec_SupersededBy d = [] \<and> dec_Status d \<in> {''fixed'', ''not_affected''}) \<and>
    length (filter (\<lambda>g. find_ID g = find_ID f) findings) = 1"

definition excepted :: "MemoryUnitOfWorkSnapshot \<Rightarrow> string \<Rightarrow> string \<Rightarrow> time \<Rightarrow> VulnerabilityFinding \<Rightarrow> bool" where
  "excepted state tenant release at f \<longleftrightarrow>
    (\<exists>i x. tbl_get (Exceptions state) i = Some x \<and> exc_ID x = i \<and> exc_TenantID x = tenant \<and> exc_ReleaseID x = release \<and>
      exc_Approved x \<and> exc_ExpiresAt x > at \<and> exc_FindingID x \<in> {[], find_ID f} \<and> control_owned state tenant (exc_ControlID x))"

lemma finding_recordedI: "(scan, findings) \<in> set scans \<Longrightarrow> f \<in> set findings \<Longrightarrow> finding_recorded scans (find_ID f)"
  by (force simp: finding_recorded_def list_ex_iff)

lemma handled_iff:
  assumes "(scan, findings) \<in> set scans" "f \<in> set findings"
  shows "memoryReleaseFindingHandled state tenant release scan f (length (filter (\<lambda>g. find_ID g = find_ID f) findings)) at scans \<longleftrightarrow>
    decided state tenant release scan findings f \<or> excepted state tenant release at f"
proof -
  have "memoryAnomalyException state tenant release (find_ID f) at scans \<longleftrightarrow> excepted state tenant release at f"
    using finding_recordedI [OF assms] unfolding memoryAnomalyException_def excepted_def tbl_ex_iff by auto
  moreover have "tbl_ex (\<lambda>i d. dec_ID d = i \<and> dec_TenantID d = tenant \<and> dec_ReleaseID d = release \<and> dec_ScanID d = scan \<and>
          dec_FindingID d = find_ID f \<and> dec_Vulnerability d = find_Vulnerability f \<and> dec_Component d = find_Component f \<and>
          dec_SupersededBy d = [] \<and> length (filter (\<lambda>g. find_ID g = find_ID f) findings) = 1 \<and>
          (dec_Status d = ''fixed'' \<or> dec_Status d = ''not_affected'')) (Decisions state) \<longleftrightarrow>
      decided state tenant release scan findings f"
    unfolding decided_def tbl_ex_iff by auto
  ultimately show ?thesis unfolding memoryReleaseFindingHandled_def by simp
qed

text \<open>The specification of readiness: what the rows of a release have to show at a time.\<close>

definition release_ready ::
  "'z evaluation_store_scheme \<Rightarrow> ed25519_verifier \<Rightarrow> string \<Rightarrow> string \<Rightarrow> string \<Rightarrow> time \<Rightarrow> bool" where
  "release_ready s verify tenant product release at \<longleftrightarrow>
    (let state = cs_rows s; owned = owned_evidence state tenant product release;
         digests = release_digests state tenant product release; scans = release_scans state tenant product release in
     (\<exists>i e ref. owned i e \<and> ref \<in> set (ev_SubjectRefs e) \<and> sref_Type ref = ''artifact'' \<and> sref_ID ref \<noteq> []) \<and>
     (\<exists>i e. owned i e \<and> ev_Type e = ''sbom'') \<and>
     (\<exists>i e. owned i e \<and> ev_Type e = ''vulnerability_scan'') \<and>
     digests \<noteq> {} \<and>
     verified_bundle s verify tenant release at \<and>
     (\<exists>i. passed_build state tenant product release digests i) \<and>
     (\<exists>i a. tbl_get (es_BuildAttestations s) i = Some a \<and> verified_attestation s tenant product release digests i a) \<and>
     (\<forall>scan findings f. (scan, findings) \<in> set scans \<longrightarrow> f \<in> set findings \<longrightarrow> blocking ''critical'' f \<or> blocking ''high'' f \<longrightarrow>
       decided state tenant release scan findings f \<or> excepted state tenant release at f) \<and>
     (\<forall>i d. tbl_get (Decisions state) i = Some d \<longrightarrow> active_decision tenant release scans i d \<longrightarrow>
       \<not> lacks_statement d \<and> \<not> lacks_justification d) \<and>
     (\<forall>i x. tbl_get (Exceptions state) i = Some x \<longrightarrow> owned_exception state tenant release scans i x \<longrightarrow> \<not> exception_incomplete x) \<and>
     (\<forall>i p. tbl_get (es_CustomerPackages s) i = Some p \<longrightarrow> owned_package tenant product release i p \<longrightarrow> usable_package s tenant at p))"

lemma good_ids_blank: "\<forall>i\<in>set ids. memoryMembershipQueryText i 1024 \<Longrightarrow> list_all blank ids \<longleftrightarrow> ids = []"
  by (cases ids) (auto simp: memoryMembershipQueryText_def blank_def)

lemma sorted_keys_Nil: "sorted_list_of_set (keys_of t P) = [] \<longleftrightarrow> (\<forall>i v. tbl_get t i = Some v \<longrightarrow> \<not> P i v)"
  for t :: "(string, 'v) table"
  by auto

lemma no_unhandled:
  "(\<forall>scan findings f. (scan, findings) \<in> set scans \<longrightarrow> f \<in> set findings \<longrightarrow> blocking severity f \<longrightarrow>
      decided state tenant release scan findings f \<or> excepted state tenant release at f) \<longleftrightarrow>
   \<not> (\<exists>scan findings f. (scan, findings) \<in> set scans \<and> f \<in> set findings \<and> blocking severity f \<and>
      \<not> memoryReleaseFindingHandled state tenant release scan f (length (filter (\<lambda>g. find_ID g = find_ID f) findings)) at scans)"
  using handled_iff by metis

lemma snapshot_ready:
  assumes "well_formed_ids (release_snapshot s verify tenant product release at)"
  shows "list_all snd (readiness_conditions (release_snapshot s verify tenant product release at)) \<longleftrightarrow>
    release_ready s verify tenant product release at"
proof -
  let ?v = "release_snapshot s verify tenant product release at"
  have blank: "list_all blank (rs_MissingCustomerStatementIDs ?v) \<longleftrightarrow> rs_MissingCustomerStatementIDs ?v = []"
    "list_all blank (rs_MissingNotAffectedReasonIDs ?v) \<longleftrightarrow> rs_MissingNotAffectedReasonIDs ?v = []"
    "list_all blank (rs_IncompleteExceptionIDs ?v) \<longleftrightarrow> rs_IncompleteExceptionIDs ?v = []"
    "list_all blank (rs_InvalidPackageOrProfileIDs ?v) \<longleftrightarrow> rs_InvalidPackageOrProfileIDs ?v = []"
    by (rule good_ids_blank, use assms in \<open>simp add: well_formed_ids_def\<close>)+
  have two: "(\<forall>x y z. A x y \<longrightarrow> B y z \<longrightarrow> C z \<or> D z \<longrightarrow> E x y z) \<longleftrightarrow>
      (\<forall>x y z. A x y \<longrightarrow> B y z \<longrightarrow> C z \<longrightarrow> E x y z) \<and> (\<forall>x y z. A x y \<longrightarrow> B y z \<longrightarrow> D z \<longrightarrow> E x y z)"
    for A :: "'p \<Rightarrow> 'q \<Rightarrow> bool" and B C D and E :: "'p \<Rightarrow> 'q \<Rightarrow> 'r \<Rightarrow> bool" by blast
  have both: "(\<forall>x y. A x y \<longrightarrow> B x y \<longrightarrow> \<not> C y \<and> \<not> D y) \<longleftrightarrow> (\<forall>x y. A x y \<longrightarrow> \<not> (B x y \<and> C y)) \<and> (\<forall>x y. A x y \<longrightarrow> \<not> (B x y \<and> D y))"
    for A B :: "'p \<Rightarrow> 'q \<Rightarrow> bool" and C D by blast
  show ?thesis
    unfolding readiness_conditions_def list.pred_inject prod.sel blank
    unfolding release_snapshot_def release_facts_def facts_snapshot_def Let_def
    unfolding release_ready_def Let_def two both
    unfolding ReadinessSnapshot.simps memoryReadinessFacts.simps sorted_keys_Nil no_unhandled [symmetric]
    by simp
qed

section \<open>The command\<close>

lemma memoryGovernanceScan_Inr:
  "memoryGovernanceScan ctx tenant i read st = Inr (x, st') \<longleftrightarrow>
    ctx_err ctx (fst st) = None \<and> governance_text tenant \<and> governance_text i \<and> ctx_err ctx (fst st + 1) = None \<and>
    requireMemoryTenant (cs_rows (snd st)) tenant = None \<and> read (snd st) (fst st + 2, snd st) = Inr (x, st')"
  by (auto simp: memoryGovernanceScan_def tx_success)

lemma ReadPolicyEvaluationRelease_Inr:
  assumes "ReadPolicyEvaluationRelease ctx tenant i st = Inr (v, st')"
  shows "\<exists>root. memoryOperationsCoordinates (cs_rows (snd st)) tenant (no_refs\<lparr>ref_ReleaseID := i\<rparr>) = Inr root \<and>
    gsr_ProductID v = ref_ProductID root \<and> gsr_ReleaseID v = i \<and> snd st' = snd st"
  using assms by (auto simp: ReadPolicyEvaluationRelease_def memoryGovernanceScan_Inr tx_success)

lemma ReadReleaseReadinessSnapshotAt_Inr:
  assumes "ReadReleaseReadinessSnapshotAt ctx verify tenant release at st = Inr (v, st')"
  shows "\<exists>root. memoryOperationsCoordinates (cs_rows (snd st)) tenant (no_refs\<lparr>ref_ReleaseID := release\<rparr>) = Inr root \<and>
    v = release_snapshot (snd st) verify tenant (ref_ProductID root) release at \<and> well_formed_ids v \<and> snd st' = snd st"
  using assms readMemoryReadinessSnapshot_Inr
  by (fastforce simp: ReadReleaseReadinessSnapshotAt_def memoryGovernanceScan_Inr tx_success)

definition evaluation_request :: "Evaluation \<Rightarrow> ResourceReferences \<Rightarrow> Request" where
  "evaluation_request e refs = \<lparr>req_Action = ActionPolicyEvaluationsCreate, req_Resources = refs, req_Evaluation = e\<rparr>"

text \<open>The reference monitor lets the actor evaluate the release.\<close>

definition may_evaluate :: "Actor \<Rightarrow> string \<Rightarrow> string \<Rightarrow> bool" where
  "may_evaluate a product release \<longleftrightarrow>
    permits a (evaluation_request ResolvedEvaluation (no_refs\<lparr>ref_ProductID := product, ref_ReleaseID := release\<rparr>))"

lemma authorizer_permits:
  "NewPolicyEvaluationAuthorizer ctx a (resource_request ActionPolicyEvaluationsCreate
     (no_refs\<lparr>ref_ProductID := product, ref_ReleaseID := release\<rparr>)) = None \<Longrightarrow> may_evaluate a product release"
  by (auto simp: NewPolicyEvaluationAuthorizer_def riskResourceWriteAuthorizer_def may_evaluate_def evaluation_request_def
      split: if_splits dest!: Authorize_permitsD)

lemma authorizeEvaluationRelease_Inr:
  assumes "authorizeEvaluationRelease ctx a i st = Inr (r, st')"
  shows "\<exists>root. memoryOperationsCoordinates (cs_rows (snd st)) (actor_TenantID a) (no_refs\<lparr>ref_ReleaseID := i\<rparr>) = Inr root \<and>
    gsr_ProductID r = ref_ProductID root \<and> ref_ProductID root \<noteq> [] \<and> may_evaluate a (ref_ProductID root) i \<and> snd st' = snd st"
  using assms
  by (auto simp: authorizeEvaluationRelease_def policy_authorize_def tx_success subjectResources_def
      dest!: ReadPolicyEvaluationRelease_Inr authorizer_permits)

lemma prepare_Inr: "prepare ctx a release st = Inr (r, st') \<Longrightarrow> r = TrimSpace release \<and> snd st' = snd st"
  by (auto simp: prepare_def policy_authorize_def tx_success split: if_splits)

lemma evaluate_tx_Inr:
  assumes "evaluate_tx c a release i st = Inr (v, st')"
  defines "now \<equiv> truncate_microsecond (pv_now c)" and "t \<equiv> actor_TenantID a"
  shows "\<exists>product s1. memoryOperationsCoordinates (cs_rows (snd st)) t (no_refs\<lparr>ref_ReleaseID := release\<rparr>) = Inr product \<and>
    may_evaluate a (ref_ProductID product) release \<and>
    well_formed_ids (release_snapshot (snd st) (pv_verify c) t (ref_ProductID product) release now) \<and>
    map_sum id (pe_ID_update (\<lambda>_. i)) (EvaluateReadinessSnapshot
      (release_snapshot (snd st) (pv_verify c) t (ref_ProductID product) release now) now) = Inr v \<and>
    InsertPolicyEvaluation v (snd st) = Inr s1 \<and> catalog_append (pv_hasher c) (evaluation_event c a now i) s1 = Inr (snd st')"
proof -
  from assms(1) obtain r st1 snapshot st2 e s1 where
    r: "authorizeEvaluationRelease (pv_ctx c) a release st = Inr (r, st1)"
    and snap: "ReadReleaseReadinessSnapshotAt (pv_ctx c) (pv_verify c) t release now st1 = Inr (snapshot, st2)"
    and e: "EvaluateReadinessSnapshot snapshot now = Inr e" "v = e\<lparr>pe_ID := i\<rparr>"
    and ins: "InsertPolicyEvaluation v (snd st2) = Inr s1"
    and app: "catalog_append (pv_hasher c) (evaluation_event c a now i) s1 = Inr (snd st')"
    unfolding now_def t_def by (auto simp: evaluate_tx_def Let_def tx_success)
  from authorizeEvaluationRelease_Inr [OF r] obtain root where
    root: "memoryOperationsCoordinates (cs_rows (snd st)) t (no_refs\<lparr>ref_ReleaseID := release\<rparr>) = Inr root"
      "may_evaluate a (ref_ProductID root) release" "snd st1 = snd st"
    unfolding t_def by blast
  from ReadReleaseReadinessSnapshotAt_Inr [OF snap] root(1,3) have
    "snapshot = release_snapshot (snd st) (pv_verify c) t (ref_ProductID root) release now" "well_formed_ids snapshot" "snd st2 = snd st"
    by auto
  with root e ins app show ?thesis by (intro exI [of _ root] exI [of _ s1]) simp
qed

lemma coordinates_release:
  assumes "memoryOperationsCoordinates state tenant (no_refs\<lparr>ref_ReleaseID := i\<rparr>) = Inr root" "i \<noteq> []"
  shows "\<exists>row. tbl_get (Releases state) i = Some row \<and> rel_ID row = i \<and> rel_TenantID row = tenant \<and> rel_ProductID row = ref_ProductID root"
  using assms
  by (auto simp: memoryOperationsCoordinates_def resolve_build_def resolve_deployment_def resolve_project_def resolve_release_def
      merge_ref_def no_refs_def split: if_splits option.splits)

text \<open>What a stored evaluation says of the store it was made on.\<close>

definition evaluates ::
  "evaluation_store \<Rightarrow> ed25519_verifier \<Rightarrow> string \<Rightarrow> string \<Rightarrow> string \<Rightarrow> time \<Rightarrow> PolicyEvaluation \<Rightarrow> bool" where
  "evaluates s verify tenant product release now v \<longleftrightarrow>
    pe_TenantID v = tenant \<and> pe_ReleaseID v = release \<and> pe_CreatedAt v = now \<and> pe_PolicySet v = PolicySetVersion \<and>
    pe_Result v = (if release_ready s verify tenant product release now then ''passed'' else ''failed'') \<and>
    map (\<lambda>c. (pck_Name c, pck_Result c)) (pe_Checks v) =
      map (\<lambda>(n, b). (n, if b then ''passed'' else ''failed''))
        (readiness_conditions (release_snapshot s verify tenant product release now))"

lemma EvaluateReadinessSnapshot_Inr:
  assumes "map_sum id (pe_ID_update (\<lambda>_. i)) (EvaluateReadinessSnapshot (release_snapshot s verify t p r now) now) = Inr v"
    and "well_formed_ids (release_snapshot s verify t p r now)"
  shows "evaluates s verify t p r now v" and "pe_ID v = i" and "r \<noteq> []"
proof -
  have f: "rs_TenantID (release_snapshot s verify t p r now) = t" "rs_ReleaseID (release_snapshot s verify t p r now) = r"
    by (simp_all add: release_snapshot_def facts_snapshot_def Let_def)
  have e: "pe_Result v = readinessPolicyResult (readinessPolicyChecks (release_snapshot s verify t p r now))"
    "pe_Checks v = readinessPolicyChecks (release_snapshot s verify t p r now)" "pe_TenantID v = t" "pe_ReleaseID v = r"
    "pe_CreatedAt v = now" "pe_PolicySet v = PolicySetVersion" "pe_ID v = i" "r \<noteq> []"
    using assms(1) by (auto simp: EvaluateReadinessSnapshot_def Let_def f split: if_splits)
  show "pe_ID v = i" "r \<noteq> []" using e by simp_all
  show "evaluates s verify t p r now v"
    using e readiness_passed [of "release_snapshot s verify t p r now"] snapshot_ready [OF assms(2)]
      readiness_result_range [of "readinessPolicyChecks (release_snapshot s verify t p r now)"]
    by (auto simp: evaluates_def readiness_checks)
qed

lemma InsertPolicyEvaluation_Inr:
  "InsertPolicyEvaluation v s = Inr s' \<Longrightarrow> tbl_get (es_PolicyEvaluations s) (pe_ID v) = None \<and>
    s' = s\<lparr>es_PolicyEvaluations := tbl_put (es_PolicyEvaluations s) (pe_ID v) v\<rparr>"
  by (auto simp: InsertPolicyEvaluation_def split: if_splits)

lemma evaluation_effect:
  assumes "run_evaluation c (EvaluateRelease c a release) = Inr (v, s')"
  shows "\<exists>row. tbl_get (Releases (cs_rows (pv_env c))) (TrimSpace release) = Some row \<and> rel_TenantID row = actor_TenantID a \<and>
    may_evaluate a (rel_ProductID row) (rel_ID row) \<and>
    evaluates (pv_env c) (pv_verify c) (actor_TenantID a) (rel_ProductID row) (rel_ID row) (truncate_microsecond (pv_now c)) v \<and>
    pe_ID v = pv_newID c ''pe'' \<and> tbl_get (es_PolicyEvaluations (pv_env c)) (pe_ID v) = None \<and>
    appended (evaluation_event c a (truncate_microsecond (pv_now c)) (pe_ID v))
      ((pv_env c)\<lparr>es_PolicyEvaluations := tbl_put (es_PolicyEvaluations (pv_env c)) (pe_ID v) v\<rparr>) s'"
proof -
  let ?now = "truncate_microsecond (pv_now c)" and ?t = "actor_TenantID a" and ?i = "pv_newID c ''pe''"
  from assms obtain n n' where "EvaluateRelease c a release (n, pv_env c) = Inr (v, n', s')"
    by (auto simp: run_evaluation_def split: sum.splits prod.splits)
  then obtain m m' where "evaluate_tx c a (TrimSpace release) ?i (m, pv_env c) = Inr (v, m', s')"
    by (auto simp: EvaluateRelease_def execute_evaluation_def Let_def tx_success dest!: prepare_Inr)
  from evaluate_tx_Inr [OF this, unfolded snd_conv] obtain root s1 where
    root: "memoryOperationsCoordinates (cs_rows (pv_env c)) ?t (no_refs\<lparr>ref_ReleaseID := TrimSpace release\<rparr>) = Inr root"
    and may: "may_evaluate a (ref_ProductID root) (TrimSpace release)"
    and wf: "well_formed_ids (release_snapshot (pv_env c) (pv_verify c) ?t (ref_ProductID root) (TrimSpace release) ?now)"
    and ev: "map_sum id (pe_ID_update (\<lambda>_. ?i)) (EvaluateReadinessSnapshot
      (release_snapshot (pv_env c) (pv_verify c) ?t (ref_ProductID root) (TrimSpace release) ?now) ?now) = Inr v"
    and ins: "InsertPolicyEvaluation v (pv_env c) = Inr s1"
    and app: "catalog_append (pv_hasher c) (evaluation_event c a ?now ?i) s1 = Inr s'" by blast
  note e = EvaluateReadinessSnapshot_Inr [OF ev wf]
  from coordinates_release [OF root e(3)] obtain row where
    "tbl_get (Releases (cs_rows (pv_env c))) (TrimSpace release) = Some row" "rel_ID row = TrimSpace release"
    "rel_TenantID row = ?t" "rel_ProductID row = ref_ProductID root" by blast
  with may e(1,2) InsertPolicyEvaluation_Inr [OF ins] catalog_append_appended [OF app] show ?thesis by auto
qed

text \<open>
  C33: An evaluation that is returned was made for a release of the actor's tenant, with the authority to evaluate
  that release; its result is \<^verbatim>\<open>passed\<close> exactly when the committed rows meet the specification \<open>release_ready\<close>
  at the time of the evaluation, and each of its thirteen checks reports its own condition. The committed store
  is the one before with the evaluation under a new identifier and one audit entry, and nothing else changed.
\<close>

theorem evaluation_exact:
  assumes "run_evaluation c (EvaluateRelease c a release) = Inr (v, s')"
  shows "\<exists>row. tbl_get (Releases (cs_rows (pv_env c))) (TrimSpace release) = Some row \<and> rel_TenantID row = actor_TenantID a \<and>
    may_evaluate a (rel_ProductID row) (rel_ID row) \<and>
    evaluates (pv_env c) (pv_verify c) (actor_TenantID a) (rel_ProductID row) (rel_ID row) (truncate_microsecond (pv_now c)) v \<and>
    pe_ID v = pv_newID c ''pe'' \<and> tbl_get (es_PolicyEvaluations (pv_env c)) (pe_ID v) = None \<and>
    appended (evaluation_event c a (truncate_microsecond (pv_now c)) (pe_ID v))
      ((pv_env c)\<lparr>es_PolicyEvaluations := tbl_put (es_PolicyEvaluations (pv_env c)) (pe_ID v) v\<rparr>) s'"
  using assms by (rule evaluation_effect)

end
