(* ===== verification/Readiness_Runs.thy ===== *)
theory Readiness_Runs
  imports Readiness_Properties
begin

text \<open>
  Evaluations return: on a context that is never cancelled the reader computes a pure function of the rows,
  and an authorized evaluation within the limits of the reader succeeds. A sample release that is ready and
  one that is not show both results.
\<close>

section \<open>Live contexts\<close>

definition live :: "go_context \<Rightarrow> bool" where
  "live ctx \<longleftrightarrow> \<not> nil_context ctx \<and> (\<forall>n. ctx_err ctx n = None)"

lemma live_err [simp]: "live ctx \<Longrightarrow> ctx_err ctx n = None"
  by (simp add: live_def)

lemma live_nil [simp]: "live ctx \<Longrightarrow> \<not> nil_context ctx"
  by (simp add: live_def)

lemma live_Background [simp]: "live Background"
  by (simp add: live_def)

lemma tx_observe_live [simp]: "live ctx \<Longrightarrow> tx_observe ctx (n, s) = Inr ((), n + 1, s)"
  by (simp add: tx_observe_def)

lemma range_loop_live:
  assumes "live ctx"
  shows "range_loop ctx g xs acc (n, s) = map_sum id (\<lambda>r. (r, n + length xs, s)) (fold_result g xs acc)"
proof (induction xs arbitrary: acc n)
  case Nil
  then show ?case by (simp add: tx_return_def)
next
  case (Cons x xs)
  with assms show ?case by (cases "g x acc") (simp_all add: tx_bind_def tx_result_def)
qed

section \<open>The limits of the reader\<close>

definition id_bytes :: "string list \<Rightarrow> int" where
  "id_bytes ids = sum_list (map (\<lambda>i. int (length (quoted i))) ids)"

lemma id_bytes_simps [simp]:
  "id_bytes [] = 0" "id_bytes (i # ids) = int (length (quoted i)) + id_bytes ids" "id_bytes (xs @ ys) = id_bytes xs + id_bytes ys"
  by (simp_all add: id_bytes_def)

lemma id_bytes_nonneg: "0 \<le> id_bytes ids"
  by (induction ids) simp_all

lemma appendID_ok:
  "memoryMembershipQueryText i 1024 \<Longrightarrow> 0 < n \<Longrightarrow> int (length (quoted i)) \<le> b \<Longrightarrow>
   appendID upd i (out, n, b) = Inr (upd (\<lambda>ids. ids @ [i]) out, n - 1, b - int (length (quoted i)))"
  by (simp add: appendID_def)

text \<open>
  A loop whose body appends the identifiers \<open>ids x\<close> of its element succeeds while they are well formed and the
  budgets last.
\<close>

locale budgeted_loop =
  fixes step :: "'x \<Rightarrow> readiness_acc \<Rightarrow> readiness_acc result" and ids :: "'x \<Rightarrow> string list"
  assumes step_ok: "good_ids (ids x) \<Longrightarrow> int (length (ids x)) \<le> n \<Longrightarrow> id_bytes (ids x) \<le> b \<Longrightarrow>
    \<exists>out'. step x (out, n, b) = Inr (out', n - int (length (ids x)), b - id_bytes (ids x))"
begin

lemma loop_ok:
  assumes "good_ids (concat (map ids xs))" "int (length (concat (map ids xs))) \<le> n" "id_bytes (concat (map ids xs)) \<le> b"
  shows "\<exists>out'. fold_result step xs (out, n, b) = Inr (out', n - int (length (concat (map ids xs))), b - id_bytes (concat (map ids xs)))"
  using assms
proof (induction xs arbitrary: out n b)
  case (Cons x xs)
  note nn = id_bytes_nonneg [of "concat (map ids xs)"]
  obtain out1 where 1: "step x (out, n, b) = Inr (out1, n - int (length (ids x)), b - id_bytes (ids x))"
    using step_ok [of x n b out] Cons.prems nn by auto
  obtain out2 where "fold_result step xs (out1, n - int (length (ids x)), b - id_bytes (ids x)) =
      Inr (out2, n - int (length (ids x)) - int (length (concat (map ids xs))), b - id_bytes (ids x) - id_bytes (concat (map ids xs)))"
    using Cons.IH [of "n - int (length (ids x))" "b - id_bytes (ids x)" out1] Cons.prems by auto
  with 1 show ?case by (simp add: algebra_simps)
qed simp

end

definition decision_ids :: "string \<Rightarrow> string \<Rightarrow> scan_map \<Rightarrow> string \<times> VulnerabilityDecision \<Rightarrow> string list" where
  "decision_ids t r scans = (\<lambda>(i, d). if active_decision t r scans i d
    then (if lacks_statement d then [i] else []) @ (if lacks_justification d then [i] else []) else [])"

definition exception_ids :: "MemoryUnitOfWorkSnapshot \<Rightarrow> string \<Rightarrow> string \<Rightarrow> scan_map \<Rightarrow> string \<times> Exception \<Rightarrow> string list" where
  "exception_ids state t r scans = (\<lambda>(i, x). if owned_exception state t r scans i x \<and> exception_incomplete x then [i] else [])"

interpretation decision_loop: budgeted_loop "decision_step t r scans" "decision_ids t r scans" for t r scans
proof
  fix x n b out
  assume a: "good_ids (decision_ids t r scans x)" "int (length (decision_ids t r scans x)) \<le> n" "id_bytes (decision_ids t r scans x) \<le> b"
  obtain i d where x: "x = (i, d)" by (cases x)
  show "\<exists>out'. decision_step t r scans x (out, n, b) =
      Inr (out', n - int (length (decision_ids t r scans x)), b - id_bytes (decision_ids t r scans x))"
    using a by (cases "active_decision t r scans i d"; cases "lacks_statement d"; cases "lacks_justification d")
      (simp_all add: x decision_ids_def decision_step_eq appendID_ok)
qed

interpretation exception_loop: budgeted_loop "exception_step state t r scans" "exception_ids state t r scans" for state t r scans
proof
  fix x n b out
  assume a: "good_ids (exception_ids state t r scans x)" "int (length (exception_ids state t r scans x)) \<le> n"
    "id_bytes (exception_ids state t r scans x) \<le> b"
  obtain i d where x: "x = (i, d)" by (cases x)
  show "\<exists>out'. exception_step state t r scans x (out, n, b) =
      Inr (out', n - int (length (exception_ids state t r scans x)), b - id_bytes (exception_ids state t r scans x))"
    using a by (cases "owned_exception state t r scans i d \<and> exception_incomplete d")
      (auto simp: x exception_ids_def exception_step_eq appendID_ok)
qed

lemma package_loop_ok:
  assumes "good_ids (keys_where (\<lambda>i p. owned_package t pr r i p \<and> \<not> usable_package s t at p) rs)"
    and "rs_PackageCount out + int (length (keys_where (owned_package t pr r) rs)) \<le> limit"
    and "int (length (keys_where (owned_package t pr r) rs)) \<le> n"
    and "id_bytes (keys_where (\<lambda>i p. owned_package t pr r i p \<and> \<not> usable_package s t at p) rs) \<le> b"
  shows "\<exists>acc. fold_result (package_step s t pr r at limit) rs (out, n, b) = Inr acc"
  using assms
proof (induction rs arbitrary: out n b)
  case (Cons row rs)
  obtain i p where row: "row = (i, p)" by (cases row)
  note nn = id_bytes_nonneg [of "keys_where (\<lambda>i p. owned_package t pr r i p \<and> \<not> usable_package s t at p) rs"]
  consider "\<not> owned_package t pr r i p" | "owned_package t pr r i p" "usable_package s t at p"
    | "owned_package t pr r i p" "\<not> usable_package s t at p" by blast
  then show ?case
  proof cases
    case 1
    then show ?thesis using Cons.prems Cons.IH [of out n b] by (simp add: row package_step_eq)
  next
    case 2
    then show ?thesis using Cons.prems nn Cons.IH [of "out\<lparr>rs_PackageCount := rs_PackageCount out + 1\<rparr>" n b]
      by (simp add: row package_step_eq)
  next
    case 3
    let ?out = "out\<lparr>rs_PackageCount := rs_PackageCount out + 1\<rparr>"
    have "package_step s t pr r at limit (i, p) (out, n, b) =
        Inr (rs_InvalidPackageOrProfileIDs_update (\<lambda>ids. ids @ [i]) ?out, n - 1, b - int (length (quoted i)))"
      using 3 Cons.prems nn by (simp add: row package_step_eq appendID_ok)
    then show ?thesis
      using 3 Cons.prems nn Cons.IH [of "rs_InvalidPackageOrProfileIDs_update (\<lambda>ids. ids @ [i]) ?out" "n - 1" "b - int (length (quoted i))"]
      by (simp add: row)
  qed
qed simp

definition bundle_limits :: "'z evaluation_store_scheme \<Rightarrow> string \<Rightarrow> string \<Rightarrow> bool" where
  "bundle_limits s t r \<longleftrightarrow>
    length (filter (\<lambda>x. bundle_signature s t x \<noteq> None) (bundle_refs s t r)) \<le> 256 \<and>
    list_all (\<lambda>(b, ref). case bundle_signature s t (b, ref) of None \<Rightarrow> True
      | Some (signature, key) \<Rightarrow> \<not> oversized_signature b signature key) (bundle_refs s t r)"

lemma signature_loop_ok:
  assumes "n + int (length (filter (\<lambda>x. bundle_signature s t x \<noteq> None) refs)) \<le> 256"
    and "list_all (\<lambda>(b, ref). case bundle_signature s t (b, ref) of None \<Rightarrow> True
      | Some (signature, key) \<Rightarrow> \<not> oversized_signature b signature key) refs"
  shows "\<exists>acc. fold_result (signature_step s verify t at) refs (n, v) = Inr acc"
  using assms
proof (induction refs arbitrary: n v)
  case (Cons x refs)
  obtain b ref where x: "x = (b, ref)" by (cases x)
  show ?case
  proof (cases "bundle_signature s t (b, ref)")
    case None
    then show ?thesis using Cons by (simp add: x signature_step_def)
  next
    case (Some sk)
    obtain signature key where sk: "sk = (signature, key)" by (cases sk)
    show ?thesis
      using Cons.prems Cons.IH [of "n + 1" "v \<or> signature_verifies verify at b signature key"] by (simp add: x Some sk signature_step_def)
  qed
qed simp

text \<open>The limits within which the facts of a release are read.\<close>

definition readable_release :: "'z evaluation_store_scheme \<Rightarrow> string \<Rightarrow> string \<Rightarrow> string \<Rightarrow> time \<Rightarrow> bool" where
  "readable_release s t pr r at \<longleftrightarrow>
    (let state = cs_rows s; scans = release_scans state t pr r;
         ids = concat (map (decision_ids t r scans) (tbl_rows (Decisions state))) @
           concat (map (exception_ids state t r scans) (tbl_rows (Exceptions state)));
         packages = keys_where (owned_package t pr r) (tbl_rows (es_CustomerPackages s));
         invalid = keys_where (\<lambda>i p. owned_package t pr r i p \<and> \<not> usable_package s t at p) (tbl_rows (es_CustomerPackages s)) in
     (\<forall>i v. tbl_get (VulnerabilityScans state) i = Some v \<longrightarrow> scan_of_release state t pr r (i, v) \<longrightarrow> well_formed_findings v) \<and>
     good_ids ids \<and> good_ids invalid \<and> int (length ids) + int (length packages) \<le> 4096 \<and> id_bytes (ids @ invalid) \<le> MaxCustomerPackageManifestBytes \<and>
     bundle_limits s t r)"

lemma facts_live:
  assumes "live ctx"
    and "\<forall>i v. tbl_get (VulnerabilityScans (cs_rows s)) i = Some v \<longrightarrow> scan_of_release (cs_rows s) t pr r (i, v) \<longrightarrow> well_formed_findings v"
  shows "\<exists>n'. readMemoryReadinessFacts ctx s t pr r at (n, st) = Inr (release_facts s t pr r at, n', st)"
proof -
  let ?state = "cs_rows s"
  obtain out1 ds where 1: "fold (evidence_step ?state t pr r) (map fst (tbl_rows (Evidence ?state))) (no_facts, []) = (out1, ds)"
    by fastforce
  let ?scans = "release_scans ?state t pr r"
  have 4: "fold_result (scan_step ?state t pr r) (tbl_rows (VulnerabilityScans ?state)) [] = Inr ?scans"
    using assms(2) by (auto simp: scan_fold release_scans_def)
  have run: "\<exists>out n'. readMemoryReadinessFacts ctx s t pr r at (n, st) = Inr (out, n', st)"
    unfolding readMemoryReadinessFacts_def Let_def
    using 1 4 assms(1) by (simp add: tx_bind_def tx_return_def range_loop_live fold_result_keys)
  then obtain out n' where "readMemoryReadinessFacts ctx s t pr r at (n, st) = Inr (out, n', st)" by blast
  with readMemoryReadinessFacts_Inr(1) [OF this] show ?thesis by auto
qed

lemma snapshot_live:
  assumes "live ctx" and root: "memoryOperationsCoordinates (cs_rows s) t (no_refs\<lparr>ref_ReleaseID := r\<rparr>) = Inr root"
    and read: "readable_release s t (ref_ProductID root) r at"
  shows "\<exists>n'. readMemoryReadinessSnapshot ctx verify s t r at (n, st) =
    Inr (release_snapshot s verify t (ref_ProductID root) r at, n', st)"
proof -
  let ?p = "ref_ProductID root" and ?state = "cs_rows s"
  let ?facts = "release_facts s t ?p r at"
  let ?scans = "release_scans ?state t ?p r"
  have scans: "mrf_scans ?facts = ?scans" by (simp add: release_facts_def Let_def)
  let ?ds = "concat (map (decision_ids t r ?scans) (tbl_rows (Decisions ?state)))"
  let ?xs = "concat (map (exception_ids ?state t r ?scans) (tbl_rows (Exceptions ?state)))"
  let ?ps = "keys_where (owned_package t ?p r) (tbl_rows (es_CustomerPackages s))"
  let ?bad = "keys_where (\<lambda>i p. owned_package t ?p r i p \<and> \<not> usable_package s t at p) (tbl_rows (es_CustomerPackages s))"
  from read have wf: "\<forall>i v. tbl_get (VulnerabilityScans ?state) i = Some v \<longrightarrow> scan_of_release ?state t ?p r (i, v) \<longrightarrow> well_formed_findings v"
    and good: "good_ids ?ds" "good_ids ?xs" "good_ids ?bad"
    and len: "int (length ?ds) + int (length ?xs) + int (length ?ps) \<le> 4096"
    and bytes: "id_bytes ?ds + id_bytes ?xs + id_bytes ?bad \<le> MaxCustomerPackageManifestBytes"
    and bl: "bundle_limits s t r"
    by (auto simp: readable_release_def Let_def)
  note nn = id_bytes_nonneg [of ?ds] id_bytes_nonneg [of ?xs] id_bytes_nonneg [of ?bad]
  obtain n1 where f: "readMemoryReadinessFacts ctx s t ?p r at (n, st) = Inr (?facts, n1, st)"
    using facts_live [OF assms(1) wf, of at n st] by blast
  let ?n1 = "4096 - int (length ?ds)" and ?b1 = "MaxCustomerPackageManifestBytes - id_bytes ?ds"
  obtain out1 where 1: "fold_result (decision_step t r ?scans) (tbl_rows (Decisions ?state))
      (facts_snapshot t ?p r ?facts, 4096, MaxCustomerPackageManifestBytes) = Inr (out1, ?n1, ?b1)"
    using decision_loop.loop_ok [OF good(1), of 4096 MaxCustomerPackageManifestBytes] len bytes nn by force
  obtain out2 where 2: "fold_result (exception_step ?state t r ?scans) (tbl_rows (Exceptions ?state)) (out1, ?n1, ?b1) =
      Inr (out2, ?n1 - int (length ?xs), ?b1 - id_bytes ?xs)"
    using exception_loop.loop_ok [OF good(2), of ?n1 ?b1] len bytes nn by force
  have "rs_PackageCount out2 = 0"
    using decision_fold [OF 1] exception_fold [OF 2] by (simp add: Let_def facts_snapshot_def)
  then obtain acc where 3: "fold_result (package_step s t ?p r at (?n1 - int (length ?xs))) (tbl_rows (es_CustomerPackages s))
      (out2, ?n1 - int (length ?xs), ?b1 - id_bytes ?xs) = Inr acc"
    using package_loop_ok [OF good(3), of out2 "?n1 - int (length ?xs)" "?n1 - int (length ?xs)" "?b1 - id_bytes ?xs"] len bytes by fastforce
  obtain acc' where 4: "fold_result (signature_step s verify t at) (bundle_refs s t r) (0, False) = Inr acc'"
    using signature_loop_ok [of 0 s t "bundle_refs s t r" verify at False] bl by (auto simp: bundle_limits_def)
  have "\<exists>out n'. readMemoryReadinessSnapshot ctx verify s t r at (n, st) = Inr (out, n', st)"
    unfolding readMemoryReadinessSnapshot_def memoryReadinessSignedBundle_def
    using f 1 2 3 4 assms(1) root scans
    by (simp add: tx_bind_def tx_return_def tx_result_def range_loop_live Let_def split: prod.splits)
  then obtain out n' where run: "readMemoryReadinessSnapshot ctx verify s t r at (n, st) = Inr (out, n', st)" by blast
  with readMemoryReadinessSnapshot_Inr [OF run] root show ?thesis by auto
qed

section \<open>Evaluations return\<close>

lemma live_drop [simp]: "live ctx \<Longrightarrow> live (ctx_drop n ctx)"
  by (cases ctx) (auto simp: live_def)

lemma authorizer_live:
  assumes "live ctx" "TrimSpace (actor_TenantID a) \<noteq> []" "TrimSpace (auditActorID a) \<noteq> []"
    and "permits a (evaluation_request (if areq_ScopeOnly r then ScopeEvaluation else ResolvedEvaluation) (areq_Resources r))"
    and "areq_Action r = ActionPolicyEvaluationsCreate" "areq_Scope r = []" "\<not> areq_TenantWide r"
  shows "NewPolicyEvaluationAuthorizer (ctx_drop n ctx) a r = None"
proof -
  have "Authorize (ctx_drop 1 (ctx_drop n ctx)) a (evaluation_request (if areq_ScopeOnly r then ScopeEvaluation else ResolvedEvaluation)
      (areq_Resources r)) = None"
    using assms(1,4) by (subst Authorize_permits) simp_all
  with assms show ?thesis
    using live_nil [of "ctx_drop n ctx"]
    by (cases "areq_ScopeOnly r") (simp_all add: NewPolicyEvaluationAuthorizer_def riskResourceWriteAuthorizer_def evaluation_request_def)
qed

text \<open>What a caller has to bring, and what the store has to hold, for an evaluation to be made.\<close>

definition evaluation_call_ok :: "policy_command \<Rightarrow> Actor \<Rightarrow> string \<Rightarrow> bool" where
  "evaluation_call_ok c a release \<longleftrightarrow>
    live (pv_ctx c) \<and> \<not> pv_raced c \<and> validRiskLifecycleTime (truncate_microsecond (pv_now c)) \<and>
    validControlText (actor_TenantID a) 1024 True \<and> TrimSpace (actor_TenantID a) = actor_TenantID a \<and>
    validControlText (auditActorID a) 1024 True \<and> validControlText release 1024 True \<and> TrimSpace release \<noteq> [] \<and>
    validControlText (pv_newID c ''pe'') 1024 True \<and> validControlText (pv_newID c ''ace'') 1024 True \<and>
    permits a (evaluation_request ScopeEvaluation no_refs)"

definition evaluation_store_ok :: "policy_command \<Rightarrow> Actor \<Rightarrow> string \<Rightarrow> string \<Rightarrow> bool" where
  "evaluation_store_ok c a product i \<longleftrightarrow>
    (let s = pv_env c; t = actor_TenantID a in
     tbl_get (Tenants (cs_rows s)) t \<noteq> None \<and>
     (\<exists>root. memoryOperationsCoordinates (cs_rows s) t (no_refs\<lparr>ref_ReleaseID := i\<rparr>) = Inr root \<and> ref_ProductID root = product) \<and>
     readable_release s t product i (truncate_microsecond (pv_now c)) \<and>
     tbl_get (es_PolicyEvaluations s) (pv_newID c ''pe'') = None \<and>
     list_all (\<lambda>e. ace_ID e \<noteq> pv_newID c ''ace'') (chain_of (cs_audit s) t) \<and>
     (\<forall>j. \<exists>h. pv_hasher c j = Inr h) \<and>
     0 \<le> year_of (truncate_microsecond (pv_now c)) \<and> year_of (truncate_microsecond (pv_now c)) \<le> 9999)"

lemma length_TrimSpace: "length (TrimSpace s) \<le> length s"
  using prefix_length_le [OF trim_right_prefix [of "trim_left s"]] suffix_length_le [OF trim_left_suffix [of s]]
  by (simp add: TrimSpace_def)

lemma audit_actor_nonempty: "TrimSpace (auditActorID a) = auditActorID a"
  by (simp add: auditActorID_def)

lemma coordinates_text:
  assumes "memoryOperationsCoordinates state t (no_refs\<lparr>ref_ReleaseID := i\<rparr>) = Inr root" "i \<noteq> []"
  shows "governance_text i" "governance_text (ref_ProductID root)"
  using assms
  by (auto simp: memoryOperationsCoordinates_def resolve_build_def resolve_deployment_def resolve_project_def resolve_release_def
      merge_ref_def no_refs_def governance_text_def split: if_splits option.splits)

lemma control_text_iff: "validControlText v 1024 True \<longleftrightarrow> v \<noteq> [] \<and> memoryGovernanceText v 1024"
  by (auto simp: validControlText_def memoryGovernanceText_def)

lemma audit_append_ok:
  assumes "aev_TenantID v \<noteq> []" "aev_TenantID v \<in> fst ` set (Tenants (cs_rows s))" "aev_ID v \<noteq> []" "aev_EntryType v \<noteq> []"
    "aev_SubjectType v \<noteq> []" "aev_SubjectID v \<noteq> []" "aev_ActorType v \<noteq> []" "aev_ActorID v \<noteq> []" "aev_OccurredAt v \<noteq> 0"
    "list_all (\<lambda>e. ace_ID e \<noteq> aev_ID v) (chain_of (cs_audit s) (aev_TenantID v))" "\<forall>j. \<exists>h. hasher j = Inr h"
    "0 \<le> year_of (aev_OccurredAt v)" "year_of (aev_OccurredAt v) \<le> 9999"
  shows "\<exists>s'. catalog_append hasher v s = Inr s'"
proof -
  let ?chain = "chain_of (cs_audit s) (aev_TenantID v)"
  let ?e = "event_entry v\<lparr>ace_Sequence := i64 (int (length ?chain) + 1),
    ace_PreviousEntryHash := (if ?chain = [] then [] else ace_EntryHash (last ?chain))\<rparr>"
  obtain h where "CanonicalAuditChainEntryHash hasher ?e = Inr h"
    using assms(11) by (auto simp: CanonicalAuditChainEntryHash_def canonical_fields_def event_entry_def AuditChainEntrySchemaVersion_def
        AuditChainEntryLegacySchemaVersion_def)
  then obtain e1 where e1: "RehashAuditChainEntry hasher ?e = Inr e1" "ace_OccurredAt e1 = aev_OccurredAt v" "ace_TenantID e1 = aev_TenantID v"
    by (auto simp: RehashAuditChainEntry_def event_entry_def)
  then obtain e2 where e2: "cloneMemoryAuditEntry e1 = Inr e2"
    using assms(12,13) by (simp add: cloneMemoryAuditEntry_def)
  have tenants: "as_tenants (cs_audit s) = map fst (Tenants (cs_rows s))" by (simp add: cs_audit_def)
  have "appendAudit hasher (event_entry v) (cs_audit s) =
      Inr (e2, (cs_audit s)\<lparr>as_entries := tbl_put (as_entries (cs_audit s)) (aev_TenantID v) (?chain @ [e2])\<rparr>)"
    using assms(1-10) e1 e2 tenants
    by (cases "?chain = []") (simp_all add: appendAudit_def event_entry_def require_audit_tenant_def AuditChainEntrySchemaVersion_def Let_def
        list_ex_iff list_all_iff)
  then show ?thesis by (simp add: catalog_append_def)
qed

lemma length_decision_ids:
  "length (concat (map (decision_ids t r scans) rs)) =
    length (keys_where (\<lambda>i d. active_decision t r scans i d \<and> lacks_statement d) rs) +
    length (keys_where (\<lambda>i d. active_decision t r scans i d \<and> lacks_justification d) rs)"
  by (induction rs) (auto simp: decision_ids_def)

lemma length_exception_ids:
  "length (concat (map (exception_ids state t r scans) rs)) =
    length (keys_where (\<lambda>i x. owned_exception state t r scans i x \<and> exception_incomplete x) rs)"
  by (induction rs) (auto simp: exception_ids_def)

lemma length_keys_where_mono: "(\<And>i v. P i v \<Longrightarrow> Q i v) \<Longrightarrow> length (keys_where P rs) \<le> length (keys_where Q rs)"
  by (induction rs) (auto intro: le_SucI)

lemma query_text_control: "memoryMembershipQueryText i 1024 \<Longrightarrow> validControlText i 1024 True \<and> TrimSpace i \<noteq> []"
  by (simp add: memoryMembershipQueryText_def memoryMembershipText_def validControlText_def)

lemma readable_snapshot_valid:
  assumes "readable_release s t p r at" and "well_formed_ids (release_snapshot s verify t p r at)"
  shows "validPolicyEvaluationSnapshot (release_snapshot s verify t p r at)"
proof -
  let ?v = "release_snapshot s verify t p r at" and ?scans = "release_scans (cs_rows s) t p r"
  have scans: "mrf_scans (release_facts s t p r at) = ?scans" by (simp add: release_facts_def Let_def)
  let ?st = "keys_where (\<lambda>i d. active_decision t r ?scans i d \<and> lacks_statement d) (tbl_rows (Decisions (cs_rows s)))"
  let ?ju = "keys_where (\<lambda>i d. active_decision t r ?scans i d \<and> lacks_justification d) (tbl_rows (Decisions (cs_rows s)))"
  let ?ex = "keys_where (\<lambda>i x. owned_exception (cs_rows s) t r ?scans i x \<and> exception_incomplete x) (tbl_rows (Exceptions (cs_rows s)))"
  let ?ps = "keys_where (owned_package t p r) (tbl_rows (es_CustomerPackages s))"
  let ?bad = "keys_where (\<lambda>i q. owned_package t p r i q \<and> \<not> usable_package s t at q) (tbl_rows (es_CustomerPackages s))"
  have len: "length (rs_MissingCustomerStatementIDs ?v) = length ?st" "length (rs_MissingNotAffectedReasonIDs ?v) = length ?ju"
    "length (rs_IncompleteExceptionIDs ?v) = length ?ex" "length (rs_InvalidPackageOrProfileIDs ?v) = length ?bad"
    "rs_PackageCount ?v = int (length ?ps)"
    by (simp_all add: release_snapshot_def Let_def scans length_keys_where)
  have bad: "length ?bad \<le> length ?ps" by (rule length_keys_where_mono) simp
  have total: "length ?st + length ?ju + length ?ex + length ?ps \<le> 4096"
    using assms(1) by (simp add: readable_release_def Let_def length_decision_ids length_exception_ids)
  have ids: "\<forall>i\<in>set (rs_MissingCustomerStatementIDs ?v) \<union> set (rs_MissingNotAffectedReasonIDs ?v) \<union> set (rs_IncompleteExceptionIDs ?v) \<union>
      set (rs_InvalidPackageOrProfileIDs ?v). validControlText i 1024 True \<and> TrimSpace i \<noteq> []"
    using assms(2) unfolding well_formed_ids_def by (meson query_text_control)
  show ?thesis
    using bad total ids unfolding validPolicyEvaluationSnapshot_def by (simp add: len list_all_iff)
qed

text \<open>The steps of an evaluation on a live context.\<close>

lemmas tx_run = tx_bind_def tx_fail_if_def tx_result_def tx_return_def tx_authorize_def tx_read_def tx_gets_def tx_mutate_def tx_map_error_def

lemma policy_authorize_live:
  "live ctx \<Longrightarrow> NewPolicyEvaluationAuthorizer (ctx_drop n ctx) a r = None \<Longrightarrow> policy_authorize ctx a r (n, s) = Inr ((), n + 2, s)"
  by (simp add: policy_authorize_def tx_authorize_def)

lemma memoryGovernanceScan_live:
  "live ctx \<Longrightarrow> governance_text t \<Longrightarrow> governance_text i \<Longrightarrow> requireMemoryTenant (cs_rows s) t = None \<Longrightarrow>
    memoryGovernanceScan ctx t i read (n, s) = read s (n + 2, s)"
  by (simp add: memoryGovernanceScan_def tx_run)

lemma authorize_release_live:
  assumes "live ctx" "governance_text (actor_TenantID a)" "governance_text i" "requireMemoryTenant (cs_rows s) (actor_TenantID a) = None"
    and root: "memoryOperationsCoordinates (cs_rows s) (actor_TenantID a) (no_refs\<lparr>ref_ReleaseID := i\<rparr>) = Inr root"
    and product: "governance_text (ref_ProductID root)"
    and auth: "\<And>n. NewPolicyEvaluationAuthorizer (ctx_drop n ctx) a (scope_request ActionPolicyEvaluationsCreate) = None"
      "\<And>n. NewPolicyEvaluationAuthorizer (ctx_drop n ctx) a (resource_request ActionPolicyEvaluationsCreate
        (no_refs\<lparr>ref_ProductID := ref_ProductID root, ref_ReleaseID := i\<rparr>)) = None"
  shows "\<exists>ref n'. authorizeEvaluationRelease ctx a i (n, s) = Inr (ref, n', s) \<and> gsr_ProductID ref = ref_ProductID root"
proof -
  have "ReadPolicyEvaluationRelease ctx (actor_TenantID a) i (n, s) =
      Inr (\<lparr>gsr_Type = ''release'', gsr_ID = i, gsr_TenantID = actor_TenantID a, gsr_ProductID = ref_ProductID root, gsr_ReleaseID = i\<rparr>, n + 3, s)"
    for n
    using assms(1-4) root by (simp add: ReadPolicyEvaluationRelease_def memoryGovernanceScan_live tx_bind_def tx_result_def tx_return_def)
  with assms(1) auth product show ?thesis
    by (simp add: authorizeEvaluationRelease_def tx_bind_def tx_fail_if_def tx_result_def tx_return_def tx_map_error_def policy_authorize_live
        validGovernanceSubject_def subjectResources_def control_text_iff governance_text_def)
qed

lemma EvaluateReadinessSnapshot_ok:
  assumes "t \<noteq> []" "p \<noteq> []" "r \<noteq> []" "now \<noteq> 0"
  shows "\<exists>v. EvaluateReadinessSnapshot (release_snapshot s verify t p r now) now = Inr v \<and> pe_TenantID v = t \<and> pe_ReleaseID v = r \<and>
    pe_Result v \<noteq> [] \<and> pe_PolicySet v \<noteq> [] \<and> pe_CreatedAt v = now"
  using assms readiness_result_range [of "readinessPolicyChecks (release_snapshot s verify t p r now)"]
  by (auto simp: EvaluateReadinessSnapshot_def Let_def release_snapshot_def facts_snapshot_def PolicySetVersion_def)

lemma evaluate_tx_live:
  assumes l: "live (pv_ctx c)" and auth: "\<And>n. \<exists>ref n'. authorizeEvaluationRelease (pv_ctx c) a r (n, s) = Inr (ref, n', s) \<and>
      gsr_ProductID ref = ref_ProductID root"
    and now: "validRiskLifecycleTime (truncate_microsecond (pv_now c))" "0 \<le> year_of (truncate_microsecond (pv_now c))"
      "year_of (truncate_microsecond (pv_now c)) \<le> 9999"
    and texts: "governance_text (actor_TenantID a)" "governance_text r" "governance_text (ref_ProductID root)" "auditActorID a \<noteq> []"
      "validControlText (pv_newID c ''ace'') 1024 True" "i \<noteq> []"
    and rows: "requireMemoryTenant (cs_rows s) (actor_TenantID a) = None"
      "memoryOperationsCoordinates (cs_rows s) (actor_TenantID a) (no_refs\<lparr>ref_ReleaseID := r\<rparr>) = Inr root"
      "readable_release s (actor_TenantID a) (ref_ProductID root) r (truncate_microsecond (pv_now c))"
      "tbl_get (es_PolicyEvaluations s) i = None"
      "list_all (\<lambda>e. ace_ID e \<noteq> pv_newID c ''ace'') (chain_of (cs_audit s) (actor_TenantID a))" "\<forall>j. \<exists>h. pv_hasher c j = Inr h"
  shows "\<exists>v n' s'. evaluate_tx c a r i (n, s) = Inr (v, n', s')"
proof -
  let ?t = "actor_TenantID a" and ?p = "ref_ProductID root" and ?now = "truncate_microsecond (pv_now c)"
  let ?snap = "release_snapshot s (pv_verify c) ?t ?p r ?now"
  obtain ref n1 where ref: "authorizeEvaluationRelease (pv_ctx c) a r (n, s) = Inr (ref, n1, s)" "gsr_ProductID ref = ?p"
    using auth by blast
  obtain n2 where rm: "readMemoryReadinessSnapshot (pv_ctx c) (pv_verify c) s ?t r ?now (n1 + 2, s) = Inr (?snap, n2, s)"
    using snapshot_live [OF l rows(2,3), of "pv_verify c" "n1 + 2" s] by blast
  then have rd: "ReadReleaseReadinessSnapshotAt (pv_ctx c) (pv_verify c) ?t r ?now (n1, s) = Inr (?snap, n2, s)"
    using l texts(1,2) rows(1) now(1)
    by (simp add: ReadReleaseReadinessSnapshotAt_def memoryGovernanceScan_live validRiskLifecycleTime_def tx_bind_def tx_fail_if_def tx_result_def)
  have wf: "well_formed_ids ?snap" using readMemoryReadinessSnapshot_Inr [OF rm] rows(2) by auto
  have valid: "validPolicyEvaluationSnapshot ?snap" using rows(3) wf by (rule readable_snapshot_valid)
  have ne: "?t \<noteq> []" "?p \<noteq> []" "r \<noteq> []" "?now \<noteq> 0"
    using texts now(1) by (simp_all add: governance_text_def validRiskLifecycleTime_def)
  obtain v where v: "EvaluateReadinessSnapshot ?snap ?now = Inr v" "pe_TenantID v = ?t" "pe_ReleaseID v = r" "pe_Result v \<noteq> []"
      "pe_PolicySet v \<noteq> []" "pe_CreatedAt v = ?now"
    using EvaluateReadinessSnapshot_ok [OF ne, of s "pv_verify c"] by blast
  let ?s1 = "s\<lparr>es_PolicyEvaluations := tbl_put (es_PolicyEvaluations s) i (v\<lparr>pe_ID := i\<rparr>)\<rparr>"
  from coordinates_release [OF rows(2) ne(3)] have ins: "InsertPolicyEvaluation (v\<lparr>pe_ID := i\<rparr>) s = Inr ?s1"
    using v rows(1,4) texts(6) ne by (auto simp: InsertPolicyEvaluation_def memoryResourceBelongsToTenant_def)
  have "\<exists>s'. catalog_append (pv_hasher c) (evaluation_event c a ?now i) ?s1 = Inr s'"
  proof (rule audit_append_ok)
    show "aev_TenantID (evaluation_event c a ?now i) \<in> fst ` set (Tenants (cs_rows ?s1))"
      using rows(1) by (force simp: evaluation_event_def requireMemoryTenant_def tbl_get_def split: if_splits option.splits dest: map_of_SomeD)
  qed (use ne texts now rows(5,6) in \<open>simp_all add: evaluation_event_def auditActorType_def validControlText_def cs_audit_def\<close>)
  then obtain s' where app: "catalog_append (pv_hasher c) (evaluation_event c a ?now i) ?s1 = Inr s'" by blast
  have snap: "rs_SnapshotVersion ?snap = ReadinessSnapshotVersion" "rs_TenantID ?snap = ?t" "rs_ReleaseID ?snap = r" "rs_ProductID ?snap = ?p"
    by (simp_all add: release_snapshot_def facts_snapshot_def Let_def)
  show ?thesis
    unfolding evaluate_tx_def Let_def using l ref rd valid v(1) ins app now(1) snap texts(5)
    by (simp add: tx_run)
qed

lemma evaluation_runs:
  assumes call: "evaluation_call_ok c a release" and store: "evaluation_store_ok c a product (TrimSpace release)"
    and may: "may_evaluate a product (TrimSpace release)"
  shows "\<exists>v s'. run_evaluation c (EvaluateRelease c a release) = Inr (v, s')"
proof -
  let ?ctx = "pv_ctx c" and ?s = "pv_env c" and ?t = "actor_TenantID a" and ?r = "TrimSpace release"
  let ?now = "truncate_microsecond (pv_now c)"
  have l: "live ?ctx" and rne: "?r \<noteq> []"
    and texts: "validControlText ?t 1024 True" "TrimSpace ?t = ?t" "validControlText (auditActorID a) 1024 True"
      "validControlText release 1024 True" "validControlText (pv_newID c ''pe'') 1024 True"
    and scope: "permits a (evaluation_request ScopeEvaluation no_refs)"
    using call by (auto simp: evaluation_call_ok_def)
  obtain root where root: "memoryOperationsCoordinates (cs_rows ?s) ?t (no_refs\<lparr>ref_ReleaseID := ?r\<rparr>) = Inr root" "ref_ProductID root = product"
    and tenant: "tbl_get (Tenants (cs_rows ?s)) ?t \<noteq> None"
    using store by (auto simp: evaluation_store_ok_def Let_def)
  have who: "?t \<noteq> []" "auditActorID a \<noteq> []" "TrimSpace (auditActorID a) = auditActorID a"
    using texts by (simp_all add: validControlText_def audit_actor_nonempty)
  have gt: "governance_text ?t" using texts(1,2) by (simp add: governance_text_def control_text_iff)
  note gr = coordinates_text [OF root(1) rne]
  have auth: "NewPolicyEvaluationAuthorizer (ctx_drop n ?ctx) a (scope_request ActionPolicyEvaluationsCreate) = None"
    "NewPolicyEvaluationAuthorizer (ctx_drop n ?ctx) a (resource_request ActionPolicyEvaluationsCreate
      (no_refs\<lparr>ref_ProductID := ref_ProductID root, ref_ReleaseID := ?r\<rparr>)) = None" for n
    using l scope may who texts(2) root(2) by (simp_all add: authorizer_live may_evaluate_def)
  have req: "requireMemoryTenant (cs_rows ?s) ?t = None" using tenant who by (auto simp: requireMemoryTenant_def)
  have prep: "prepare ?ctx a release (n, st) = Inr (?r, n + 3, st)" for n st
    using l texts rne auth by (simp add: prepare_def policy_authorize_def tx_run)
  obtain v n' s' where "evaluate_tx c a ?r (pv_newID c ''pe'') (5, ?s) = Inr (v, n', s')"
    using evaluate_tx_live [OF l authorize_release_live [OF l gt gr(1) req root(1) gr(2) auth], of "pv_newID c ''pe''" 5]
      call store texts(5) who gt gr req root by (auto simp: evaluation_call_ok_def evaluation_store_ok_def Let_def validControlText_def)
  then show ?thesis
    using prep l call texts(5)
    by (simp add: run_evaluation_def EvaluateRelease_def execute_evaluation_def ExecuteUnit_def evaluation_call_ok_def tx_run numeral_eq_Suc)
qed

text \<open>
  C34: An evaluation returns: with a live context, well-formed arguments, the authority for the release and a store
  in which the release belongs to the tenant and its rows are within the limits of the reader, \<^verbatim>\<open>EvaluateRelease\<close>
  stores an evaluation whose result is the readiness of the release.
\<close>

theorem evaluation_returns:
  assumes "evaluation_call_ok c a release" and "evaluation_store_ok c a product (TrimSpace release)"
    and "may_evaluate a product (TrimSpace release)"
  shows "\<exists>v s'. run_evaluation c (EvaluateRelease c a release) = Inr (v, s') \<and>
    tbl_get (es_PolicyEvaluations s') (pv_newID c ''pe'') = Some v \<and>
    pe_Result v = (if release_ready (pv_env c) (pv_verify c) (actor_TenantID a) product (TrimSpace release)
      (truncate_microsecond (pv_now c)) then ''passed'' else ''failed'')"
proof -
  obtain v s' where run: "run_evaluation c (EvaluateRelease c a release) = Inr (v, s')" using evaluation_runs [OF assms] by blast
  from evaluation_effect [OF run] obtain row where row: "tbl_get (Releases (cs_rows (pv_env c))) (TrimSpace release) = Some row"
    and ev: "evaluates (pv_env c) (pv_verify c) (actor_TenantID a) (rel_ProductID row) (rel_ID row) (truncate_microsecond (pv_now c)) v"
    and i: "pe_ID v = pv_newID c ''pe''"
    and app: "appended (evaluation_event c a (truncate_microsecond (pv_now c)) (pe_ID v))
      ((pv_env c)\<lparr>es_PolicyEvaluations := tbl_put (es_PolicyEvaluations (pv_env c)) (pe_ID v) v\<rparr>) s'" by blast
  have "TrimSpace release \<noteq> []" using assms(1) by (simp add: evaluation_call_ok_def)
  with assms(2) row have "rel_ProductID row = product" "rel_ID row = TrimSpace release"
    by (auto simp: evaluation_store_ok_def Let_def dest!: coordinates_release)
  moreover from app have "es_PolicyEvaluations s' = tbl_put (es_PolicyEvaluations (pv_env c)) (pe_ID v) v"
    by (auto simp: appended_def)
  ultimately show ?thesis using run ev i by (auto simp: evaluates_def)
qed

section \<open>A sample evaluation\<close>

text \<open>Executable forms of the predicates on scans.\<close>

lemma scan_of_release_code [code]:
  "scan_of_release state t p r (i, v) \<longleftrightarrow> scan_ID v = i \<and> scan_TenantID v = t \<and> scan_ReleaseID v = r \<and>
    (case memoryAnomalyEvidence state t p r (scan_EvidenceID v) of None \<Rightarrow> False | Some e \<Rightarrow> ev_Type e = ''vulnerability_scan'')"
  by (auto simp: scan_of_release_def split: option.splits)

lemma well_formed_findings_code [code]:
  "well_formed_findings v \<longleftrightarrow> (case scan_Findings v of None \<Rightarrow> False
    | Some findings \<Rightarrow> list_all (\<lambda>f. TrimSpace (find_ID f) \<noteq> [] \<and> TrimSpace (find_Severity f) \<noteq> []) findings)"
  by (auto simp: well_formed_findings_def list_all_iff split: option.splits)

lemma readable_release_code [code]:
  "readable_release s t pr r at \<longleftrightarrow>
    (let state = cs_rows s; scans = release_scans state t pr r;
         ids = concat (map (decision_ids t r scans) (tbl_rows (Decisions state))) @
           concat (map (exception_ids state t r scans) (tbl_rows (Exceptions state)));
         packages = keys_where (owned_package t pr r) (tbl_rows (es_CustomerPackages s));
         invalid = keys_where (\<lambda>i p. owned_package t pr r i p \<and> \<not> usable_package s t at p) (tbl_rows (es_CustomerPackages s)) in
     list_all (\<lambda>(i, v). scan_of_release state t pr r (i, v) \<longrightarrow> well_formed_findings v) (tbl_rows (VulnerabilityScans state)) \<and>
     good_ids ids \<and> good_ids invalid \<and> int (length ids) + int (length packages) \<le> 4096 \<and> id_bytes (ids @ invalid) \<le> MaxCustomerPackageManifestBytes \<and>
     bundle_limits s t r)"
proof -
  have "(\<forall>i v. tbl_get (VulnerabilityScans (cs_rows s)) i = Some v \<longrightarrow>
      scan_of_release (cs_rows s) t pr r (i, v) \<longrightarrow> well_formed_findings v) \<longleftrightarrow>
    list_all (\<lambda>(i, v). scan_of_release (cs_rows s) t pr r (i, v) \<longrightarrow> well_formed_findings v)
      (tbl_rows (VulnerabilityScans (cs_rows s)))"
    by (auto simp: list_all_iff)
  then show ?thesis unfolding readable_release_def Let_def by simp
qed

end
