(* ===== verification/Readiness_Sample.thy ===== *)
theory Readiness_Sample
  imports Readiness_Runs
begin

text \<open>
  Two sample evaluations: a release with everything the policy asks for, whose evaluation passes, and the same
  release after its only decision is superseded, whose evaluation fails.
\<close>

definition sample_digest :: string where
  "sample_digest = ''sha256:'' @ replicate 64 CHR ''0''"

definition sample_evidence :: "string \<Rightarrow> string \<Rightarrow> string \<Rightarrow> string \<Rightarrow> EvidenceItem" where
  "sample_evidence i kind project build =
    \<lparr>ev_ID = i, ev_TenantID = ''t1'', ev_ProductID = ''p1'', ev_ProjectID = project, ev_ReleaseID = ''rel'', ev_BuildID = build,
     ev_DeploymentID = [], ev_Type = kind, ev_Subtype = [], ev_Title = kind, ev_SourceSystem = ''ci'', ev_SourceIdentity = [],
     ev_CollectorID = [], ev_UploadedBy = ''k1'', ev_ObservedAt = 5, ev_EvidenceVersion = 1, ev_SchemaVersion = ''v1'',
     ev_PayloadRef = [], ev_PayloadHash = sample_digest, ev_PayloadMediaType = ''application/json'', ev_PayloadSize = 2,
     ev_CanonicalHash = sample_digest, ev_Canonicalization = ''c'',
     ev_SubjectRefs = [\<lparr>sref_Type = ''artifact'', sref_ID = ''a1'', sref_Digest = sample_digest\<rparr>],
     ev_RelatedEvidenceRefs = [], ev_Supersedes = [], ev_SupersededBy = [], ev_TrustLevel = ''t'', ev_VerificationStatus = ''v'',
     ev_SignatureRefs = [], ev_ChainEntryID = ''e0'', ev_Tags = [], ev_Metadata = [], ev_Warnings = [], ev_Limitations = [],
     ev_CreatedAt = 5\<rparr>"

definition sample_build :: BuildRun where
  "sample_build =
    \<lparr>build_ID = ''b1'', build_TenantID = ''t1'', build_ProjectID = ''j1'', build_ReleaseID = ''rel'', build_CollectorID = [],
     build_Provider = ''ci'', build_CommitSHA = ''c'', build_Repository = ''r'', build_WorkflowRef = [], build_RunID = ''1'',
     build_RunAttempt = 1, build_JobID = [], build_Actor = [], build_Ref = [], build_OIDCSubject = [], build_Status = ''passed'',
     build_StartedAt = 4, build_FinishedAt = Some 5, build_ParametersHash = [], build_EnvironmentHash = [],
     build_SourceIdentity = [], build_Outputs = [\<lparr>out_ArtifactID = ''a1'', out_Digest = sample_digest\<rparr>],
     build_SchemaVersion = ''v1'', build_CreatedAt = 5\<rparr>"

definition sample_finding :: VulnerabilityFinding where
  "sample_finding =
    \<lparr>find_ID = ''f1'', find_Vulnerability = ''CVE-1'', find_Component = ''lib'', find_Severity = ''Critical'', find_State = [],
     find_SeveritySource = [], find_FixVersion = [], find_Identity = \<lparr>vid_CVE = ''CVE-1'', vid_GHSA = [], vid_OSV = [],
       vid_VendorAdvisory = [], vid_PURL = [], vid_CPE = []\<rparr>\<rparr>"

definition sample_scan :: VulnerabilityScan where
  "sample_scan =
    \<lparr>scan_ID = ''v1'', scan_TenantID = ''t1'', scan_EvidenceID = ''ev_scan'', scan_ReleaseID = ''rel'', scan_Scanner = ''s'',
     scan_Adapter = ''a'', scan_AdapterVersion = ''1'', scan_SourceSchema = ''s'', scan_TargetRef = [], scan_Summary = None,
     scan_Findings = Some [sample_finding], scan_CreatedAt = 6\<rparr>"

definition sample_decision :: "string \<Rightarrow> VulnerabilityDecision" where
  "sample_decision superseded =
    \<lparr>dec_ID = ''d1'', dec_TenantID = ''t1'', dec_FindingID = ''f1'', dec_ScanID = ''v1'', dec_ReleaseID = ''rel'',
     dec_Vulnerability = ''CVE-1'', dec_Component = ''lib'', dec_SBOMID = [], dec_SBOMComponentPURL = [], dec_SBOMComponentName = [],
     dec_Status = ''fixed'', dec_Justification = [], dec_ImpactStatement = ''none'', dec_ActionStatement = [],
     dec_CustomerVisible = True, dec_InternalNotes = [], dec_Source = ''manual'', dec_EvidenceID = [], dec_EvidenceIDs = [],
     dec_SupportingRefs = [], dec_VEXDocumentID = [], dec_Supersedes = [], dec_SupersededBy = superseded, dec_ApprovedBy = [],
     dec_ReviewedAt = None, dec_ReviewDueAt = None, dec_SchemaVersion = ''v1'', dec_CreatedAt = 7\<rparr>"

definition sample_attestation :: BuildAttestation where
  "sample_attestation =
    \<lparr>att_ID = ''at1'', att_TenantID = ''t1'', att_BuildID = ''b1'', att_EvidenceID = ''ev_att'', att_PayloadRef = [],
     att_PayloadHash = sample_digest, att_PayloadSize = 2, att_PayloadType = ''t'', att_PredicateType = ''p'',
     att_SubjectDigests = [sample_digest], att_BuilderID = ''b'', att_BuildType = ''b'', att_MaterialsCount = 0,
     att_SignatureCount = 1, att_VerificationStatus = ''passed'', att_SchemaVersion = ''v1'', att_CreatedAt = 6\<rparr>"

definition sample_receipt :: VerificationResult where
  "sample_receipt =
    \<lparr>vres_ID = ''vr1'', vres_TenantID = ''t1'', vres_SubjectType = ''build_attestation'', vres_SubjectID = ''at1'',
     vres_Result = ''passed'', vres_Checks = [],
     vres_Profile = \<lparr>vp_ID = VerificationProfileDSSEAttestationSignature, vp_Version = ''1'', vp_RequiredChecks = [],
       vp_TrustMaterial = [], vp_IdentityPolicy = [], vp_TransparencyProof = [], vp_PayloadScope = [], vp_PayloadDigest = [],
       vp_Limitations = []\<rparr>,
     vres_Limitations = [], vres_SchemaVersion = VerificationResultSchemaVersion, vres_VerifiedAt = 7\<rparr>"

definition sample_key :: StoredSigningKey where
  "sample_key =
    \<lparr>ssk_Key = \<lparr>sk_ID = ''key1'', sk_TenantID = ''t1'', sk_KID = ''kid'', sk_Version = 1, sk_Provider = ''local'',
       sk_Algorithm = ''Ed25519'', sk_Status = ''active'', sk_PublicKey = replicate 43 CHR ''A'', sk_PublicKeyFingerprint = ''f'',
       sk_ValidFrom = 1, sk_ValidUntil = None, sk_CreatedAt = 1, sk_RevokedAt = None, sk_RevocationReason = [],
       sk_RevocationSemantics = [], sk_HistoricalValidityPolicy = [], sk_CompromisedAt = None\<rparr>, ssk_Private = []\<rparr>"

definition sample_bundle_signature :: Signature where
  "sample_bundle_signature =
    \<lparr>sig_ID = ''sig1'', sig_TenantID = ''t1'', sig_SubjectType = ''release_bundle'', sig_SubjectID = ''bun1'', sig_KeyID = ''key1'',
     sig_Algorithm = ''Ed25519'', sig_Value = replicate 86 CHR ''A'', sig_CreatedAt = 8\<rparr>"

definition sample_bundle :: ReleaseBundle where
  "sample_bundle =
    \<lparr>bun_ID = ''bun1'', bun_TenantID = ''t1'', bun_ReleaseID = ''rel'', bun_State = ''published'', bun_Manifest = [],
     bun_ManifestHash = sample_digest, bun_SignatureRefs = [''sig1''], bun_CreatedAt = 8, bun_PublishedAt = Some 8,
     bun_RevokedAt = None\<rparr>"

definition ready_rows :: "string \<Rightarrow> MemoryUnitOfWorkSnapshot" where
  "ready_rows superseded = sample_rows\<lparr>
    Projects := [(''j1'', \<lparr>proj_ID = ''j1'', proj_TenantID = ''t1'', proj_ProductID = ''p1'', proj_Name = ''n'', proj_CreatedAt = 2\<rparr>)],
    Artifacts := [(''a1'', \<lparr>art_ID = ''a1'', art_TenantID = ''t1'', art_Name = ''n'', art_MediaType = ''m'', art_Size = 1,
      art_Digest = sample_digest, art_CreatedAt = 3\<rparr>)],
    Evidence := [(''ev_sbom'', sample_evidence ''ev_sbom'' ''sbom'' [] []),
      (''ev_scan'', sample_evidence ''ev_scan'' ''vulnerability_scan'' [] []),
      (''ev_att'', sample_evidence ''ev_att'' ''build_attestation'' ''j1'' ''b1'')],
    BuildRuns := [(''b1'', sample_build)], VulnerabilityScans := [(''v1'', sample_scan)],
    Decisions := [(''d1'', sample_decision superseded)]\<rparr>"

definition ready_store :: "string \<Rightarrow> evaluation_store" where
  "ready_store superseded =
    \<lparr>cs_rows = ready_rows superseded, cs_AuditEntries = [], cs_SBOMs = [], cs_VEXDocuments = [], cs_OpenAPIContracts = [],
     cs_ReleaseBundles = [(''bun1'', sample_bundle)], es_BuildAttestations = [(''at1'', sample_attestation)],
     es_VerificationResults = [(''vr1'', sample_receipt)], es_CustomerPackages = [], es_RedactionProfiles = [],
     es_Signatures = [(''sig1'', sample_bundle_signature)], es_SigningKeys = [(''key1'', sample_key)],
     es_PolicyEvaluations = []\<rparr>"

definition sample_evaluation :: "string \<Rightarrow> policy_command" where
  "sample_evaluation superseded =
    \<lparr>pv_ctx = Background, pv_env = ready_store superseded, pv_raced = False, pv_now = 20000, pv_newID = (\<lambda>p. p),
     pv_hasher = (\<lambda>_. Inr ''c''), pv_verify = (\<lambda>_ _ _. True)\<rparr>"

definition evaluator :: Actor where
  "evaluator = zero_actor\<lparr>actor_TenantID := ''t1'', actor_KeyID := ''k1'', actor_Scopes := [''verify:read'']\<rparr>"

lemma evaluator_permitted:
  "permits evaluator (evaluation_request ScopeEvaluation no_refs)" "may_evaluate evaluator ''p1'' ''rel''"
proof -
  have "Authorize Background evaluator (evaluation_request ScopeEvaluation no_refs) = None"
    "Authorize Background evaluator (evaluation_request ResolvedEvaluation (no_refs\<lparr>ref_ProductID := ''p1'', ref_ReleaseID := ''rel''\<rparr>)) = None"
    by code_simp+
  then show "permits evaluator (evaluation_request ScopeEvaluation no_refs)" "may_evaluate evaluator ''p1'' ''rel''"
    by (auto simp: may_evaluate_def dest: Authorize_permitsD)
qed

lemma sample_call_ok: "evaluation_call_ok (sample_evaluation d) evaluator ''rel''"
proof -
  have "validRiskLifecycleTime (truncate_microsecond 20000)" "validControlText (actor_TenantID evaluator) 1024 True"
    "TrimSpace (actor_TenantID evaluator) = actor_TenantID evaluator" "validControlText (auditActorID evaluator) 1024 True"
    "validControlText ''rel'' 1024 True" "TrimSpace ''rel'' \<noteq> []" "validControlText ''pe'' 1024 True" "validControlText ''ace'' 1024 True"
    by code_simp+
  then show ?thesis using evaluator_permitted by (simp add: evaluation_call_ok_def sample_evaluation_def)
qed

lemma sample_readable:
  "readable_release (ready_store []) ''t1'' ''p1'' ''rel'' (truncate_microsecond 20000)"
  "readable_release (ready_store ''d2'') ''t1'' ''p1'' ''rel'' (truncate_microsecond 20000)"
  by code_simp+

lemma sample_coordinates:
  "memoryOperationsCoordinates (ready_rows []) ''t1'' (no_refs\<lparr>ref_ReleaseID := ''rel''\<rparr>) =
     Inr (no_refs\<lparr>ref_ProductID := ''p1'', ref_ReleaseID := ''rel''\<rparr>)"
  "memoryOperationsCoordinates (ready_rows ''d2'') ''t1'' (no_refs\<lparr>ref_ReleaseID := ''rel''\<rparr>) =
     Inr (no_refs\<lparr>ref_ProductID := ''p1'', ref_ReleaseID := ''rel''\<rparr>)"
  by code_simp+

lemma sample_snapshots:
  "map_sum id (\<lambda>(v, _). map snd (readiness_conditions v))
     (readMemoryReadinessSnapshot Background (\<lambda>_ _ _. True) (ready_store []) ''t1'' ''rel'' (truncate_microsecond 20000) (0, ())) =
   Inr (replicate 13 True)"
  "map_sum id (\<lambda>(v, _). map snd (readiness_conditions v))
     (readMemoryReadinessSnapshot Background (\<lambda>_ _ _. True) (ready_store ''d2'') ''t1'' ''rel'' (truncate_microsecond 20000) (0, ())) =
   Inr ((replicate 13 True)[7 := False])"
  by code_simp+

lemma sample_store_ok: "d \<in> {[], ''d2''} \<Longrightarrow> evaluation_store_ok (sample_evaluation d) evaluator ''p1'' ''rel''"
proof -
  have "tbl_get (Tenants (ready_rows d)) ''t1'' \<noteq> None" for d
    by (simp add: ready_rows_def sample_rows_def sample_tables tbl_get_def)
  moreover have "year_of (truncate_microsecond 20000) = 1" by code_simp
  ultimately show "d \<in> {[], ''d2''} \<Longrightarrow> evaluation_store_ok (sample_evaluation d) evaluator ''p1'' ''rel''"
    using sample_readable sample_coordinates
    by (auto simp: evaluation_store_ok_def sample_evaluation_def ready_store_def evaluator_def zero_actor_def cs_audit_def chain_of_def
        tbl_get_def no_refs_def)
qed

lemma sample_ready:
  assumes "map_sum id (\<lambda>(v, _). map snd (readiness_conditions v))
     (readMemoryReadinessSnapshot Background (\<lambda>_ _ _. True) (ready_store d) ''t1'' ''rel'' (truncate_microsecond 20000) (0 :: nat, ())) = Inr bs"
    and "d \<in> {[], ''d2''}"
  shows "release_ready (ready_store d) (\<lambda>_ _ _. True) ''t1'' ''p1'' ''rel'' (truncate_microsecond 20000) \<longleftrightarrow> list_all id bs"
proof -
  from assms(1) obtain v st where rd: "readMemoryReadinessSnapshot Background (\<lambda>_ _ _. True) (ready_store d) ''t1'' ''rel''
      (truncate_microsecond 20000) (0, ()) = Inr (v, st)" and bs: "bs = map snd (readiness_conditions v)"
    by (auto simp: map_sum_def split: sum.splits)
  from readMemoryReadinessSnapshot_Inr [OF rd] sample_coordinates assms(2)
  have v: "v = release_snapshot (ready_store d) (\<lambda>_ _ _. True) ''t1'' ''p1'' ''rel'' (truncate_microsecond 20000)" "well_formed_ids v"
    by (auto simp: ready_store_def)
  show ?thesis using snapshot_ready [of "ready_store d"] v by (simp add: bs list_all_iff)
qed

theorem evaluation_exact_witness:
  "\<exists>v s'. run_evaluation (sample_evaluation []) (EvaluateRelease (sample_evaluation []) evaluator ''rel'') = Inr (v, s') \<and>
    pe_Result v = ''passed'' \<and> tbl_get (es_PolicyEvaluations s') ''pe'' = Some v"
proof -
  obtain v s' where run: "run_evaluation (sample_evaluation []) (EvaluateRelease (sample_evaluation []) evaluator ''rel'') = Inr (v, s')"
    using evaluation_runs [OF sample_call_ok] sample_store_ok evaluator_permitted(2) by fastforce
  have "release_ready (ready_store []) (\<lambda>_ _ _. True) ''t1'' ''p1'' ''rel'' (truncate_microsecond 20000)"
    using sample_ready [OF sample_snapshots(1)] by (simp add: list_all_iff)
  with evaluation_exact [OF run] run show ?thesis
    by (auto simp: appended_def evaluates_def sample_evaluation_def ready_store_def ready_rows_def sample_rows_def sample_release_def
        evaluator_def zero_actor_def tbl_get_def tbl_put_def)
qed

theorem evaluation_returns_witness:
  "\<exists>v s'. run_evaluation (sample_evaluation ''d2'') (EvaluateRelease (sample_evaluation ''d2'') evaluator ''rel'') = Inr (v, s') \<and>
    tbl_get (es_PolicyEvaluations s') ''pe'' = Some v \<and> pe_Result v = ''failed''"
proof -
  have "\<not> release_ready (ready_store ''d2'') (\<lambda>_ _ _. True) ''t1'' ''p1'' ''rel'' (truncate_microsecond 20000)"
    using sample_ready [OF sample_snapshots(2)] by (simp add: numeral_eq_Suc)
  with evaluation_returns [OF sample_call_ok [of "''d2''"], of "''p1''"] sample_store_ok evaluator_permitted(2) show ?thesis
    by (simp add: sample_evaluation_def evaluator_def zero_actor_def)
qed

end
