(* ===== verification/Governance.thy ===== *)
theory Governance
  imports Policy_Evaluation Store_Evidence
begin

text \<open>
  Governance of a release: exceptions, waivers and approval records. This theory holds their rows, the
  repository operations of \<^verbatim>\<open>memoryGovernanceRepository\<close> (\<^verbatim>\<open>app/memory_uow.go\<close>), the ownership coordinates
  of governed subjects (\<^verbatim>\<open>memory_governance_coordinates.go\<close>) and the readers of the commands
  (\<^verbatim>\<open>memory_governance_reads.go\<close>). Times are instants, so the conversions to UTC are identities; a loop over a
  map visits the rows of its table in order.
\<close>

section \<open>Rows\<close>

record Waiver =
  wv_ID :: string
  wv_TenantID :: string
  wv_ScopeType :: string
  wv_ScopeID :: string
  wv_ControlID :: string
  wv_PolicyID :: string
  wv_Owner :: string
  wv_Risk :: string
  wv_Reason :: string
  wv_ExpiresAt :: time
  wv_Approved :: bool
  wv_ApprovedBy :: string
  wv_ApprovedAt :: "time option"
  wv_Supersedes :: string
  wv_SupersededBy :: string
  wv_SchemaVersion :: string
  wv_CreatedAt :: time

record ApprovalRecord =
  apr_ID :: string
  apr_TenantID :: string
  apr_SubjectType :: string
  apr_SubjectID :: string
  apr_Decision :: string
  apr_Reason :: string
  apr_ApproverID :: string
  apr_EvidenceID :: string
  apr_SchemaVersion :: string
  apr_CreatedAt :: time

record PolicyRule =
  prule_Name :: string
  prule_EvidenceType :: string
  prule_Severity :: string
  prule_Required :: bool

record CustomPolicy =
  cpol_ID :: string
  cpol_TenantID :: string
  cpol_Name :: string
  cpol_Version :: string
  cpol_Description :: string
  cpol_Rules :: "PolicyRule list"
  cpol_SchemaVersion :: string
  cpol_CreatedAt :: time

record ManualSecurityDocument =
  mdoc_ID :: string
  mdoc_TenantID :: string
  mdoc_ProductID :: string
  mdoc_ReleaseID :: string
  mdoc_DocumentType :: string
  mdoc_Title :: string
  mdoc_Sensitivity :: string
  mdoc_EvidenceID :: string
  mdoc_PayloadRef :: string
  mdoc_PayloadHash :: string
  mdoc_SchemaVersion :: string
  mdoc_CreatedAt :: time

record ContractDiff =
  cdiff_ID :: string
  cdiff_TenantID :: string
  cdiff_BaseContractID :: string
  cdiff_TargetContractID :: string
  cdiff_ProductID :: string
  cdiff_ReleaseID :: string
  cdiff_Result :: string
  cdiff_BreakingChanges :: "string list"
  cdiff_NonBreakingChanges :: "string list"
  cdiff_SchemaVersion :: string
  cdiff_CreatedAt :: time

text \<open>The further tables of the snapshot that the governance commands read and write.\<close>

record governance_store = evaluation_store +
  gs_Waivers :: "(string, Waiver) table"
  gs_Approvals :: "(string, ApprovalRecord) table"
  gs_CustomPolicies :: "(string, CustomPolicy) table"
  gs_ManualSecurityDocuments :: "(string, ManualSecurityDocument) table"
  gs_ContractDiffs :: "(string, ContractDiff) table"

section \<open>Repository operations\<close>

definition InsertWaiver :: "Waiver \<Rightarrow> governance_store \<Rightarrow> governance_store result" where
  "InsertWaiver v s =
    check_then (requireMemoryTenant (cs_rows s) (wv_TenantID v))
    (if wv_ID v = [] \<or> wv_ScopeType v = [] \<or> wv_ScopeID v = [] \<or> wv_Owner v = [] \<or> wv_Risk v = [] \<or> wv_Reason v = [] \<or>
        \<not> wv_ExpiresAt v > wv_CreatedAt v \<or> wv_SchemaVersion v = [] \<or> is_zero_time (wv_CreatedAt v)
     then Inl ErrValidation
     else if wv_ControlID v \<noteq> [] \<and>
        \<not> memoryResourceBelongsToTenant ctl_TenantID (wv_ControlID v) (wv_TenantID v) (SecurityControls (cs_rows s))
     then Inl ErrNotFound
     else if tbl_get (gs_Waivers s) (wv_ID v) \<noteq> None then Inl ErrConflict
     else if wv_Supersedes v = [] then Inr (s\<lparr>gs_Waivers := tbl_put (gs_Waivers s) (wv_ID v) v\<rparr>)
     else case tbl_get (gs_Waivers s) (wv_Supersedes v) of
       None \<Rightarrow> Inl ErrNotFound
     | Some previous \<Rightarrow>
        (if wv_TenantID previous \<noteq> wv_TenantID v then Inl ErrNotFound
         else if wv_SupersededBy previous \<noteq> [] then Inl ErrConflict
         else let previous = previous\<lparr>wv_SupersededBy := wv_ID v\<rparr> in
           Inr (s\<lparr>gs_Waivers := tbl_put (tbl_put (gs_Waivers s) (wv_ID previous) previous) (wv_ID v) v\<rparr>)))"

definition ApproveWaiver :: "Waiver \<Rightarrow> governance_store \<Rightarrow> governance_store result" where
  "ApproveWaiver v s =
    check_then (requireMemoryTenant (cs_rows s) (wv_TenantID v))
    (case tbl_get (gs_Waivers s) (wv_ID v) of
       None \<Rightarrow> Inl ErrNotFound
     | Some row \<Rightarrow>
        (if wv_TenantID row \<noteq> wv_TenantID v then Inl ErrNotFound
         else if wv_Approved row \<or> \<not> wv_Approved v \<or> wv_ApprovedBy v = [] \<or>
            (case wv_ApprovedAt v of None \<Rightarrow> True | Some t \<Rightarrow> \<not> wv_ExpiresAt v > t)
         then Inl ErrConflict
         else Inr (s\<lparr>gs_Waivers := tbl_put (gs_Waivers s) (wv_ID v) v\<rparr>)))"

definition InsertApprovalRecord :: "ApprovalRecord \<Rightarrow> governance_store \<Rightarrow> governance_store result" where
  "InsertApprovalRecord v s =
    check_then (requireMemoryTenant (cs_rows s) (apr_TenantID v))
    (if apr_ID v = [] \<or> apr_SubjectType v = [] \<or> apr_SubjectID v = [] \<or> apr_Decision v = [] \<or> apr_Reason v = [] \<or>
        apr_ApproverID v = [] \<or> apr_SchemaVersion v = [] \<or> is_zero_time (apr_CreatedAt v)
     then Inl ErrValidation
     else if apr_EvidenceID v \<noteq> [] \<and>
        \<not> memoryResourceBelongsToTenant ev_TenantID (apr_EvidenceID v) (apr_TenantID v) (Evidence (cs_rows s))
     then Inl ErrNotFound
     else if tbl_get (gs_Approvals s) (apr_ID v) \<noteq> None then Inl ErrConflict
     else Inr (s\<lparr>gs_Approvals := tbl_put (gs_Approvals s) (apr_ID v) v\<rparr>))"

section \<open>Ownership coordinates\<close>

text \<open>
  The owner of a subject is the product and the release it belongs to, both blank for a subject of the tenant
  itself; its tenant is the one that is asked for.
\<close>

type_synonym owner = "string \<times> string"

definition product_release :: "MemoryUnitOfWorkSnapshot \<Rightarrow> string \<Rightarrow> string \<Rightarrow> string \<Rightarrow> owner result" where
  "product_release s tenant product release =
    check_then (memoryGovernanceProductRelease s tenant product release) (Inr (product, release))"

definition evidence_project :: "MemoryUnitOfWorkSnapshot \<Rightarrow> string \<Rightarrow> EvidenceItem \<Rightarrow> string result" where
  "evidence_project s tenant e =
    (if ev_ProjectID e = [] then Inr (ev_ProductID e)
     else case tbl_get (Projects s) (ev_ProjectID e) of
       None \<Rightarrow> Inl ErrNotFound
     | Some project \<Rightarrow>
        (if proj_ID project \<noteq> ev_ProjectID e \<or> proj_TenantID project \<noteq> tenant \<or> proj_ProductID project = [] \<or>
            ev_ProductID e \<noteq> [] \<and> proj_ProductID project \<noteq> ev_ProductID e then Inl ErrNotFound
         else bind_result (product_release s tenant (proj_ProductID project) []) (\<lambda>_. Inr (proj_ProductID project))))"

definition evidence_release :: "MemoryUnitOfWorkSnapshot \<Rightarrow> string \<Rightarrow> EvidenceItem \<Rightarrow> string \<Rightarrow> string result" where
  "evidence_release s tenant e product =
    (if ev_ReleaseID e = [] then Inr product
     else case tbl_get (Releases s) (ev_ReleaseID e) of
       None \<Rightarrow> Inl ErrNotFound
     | Some release \<Rightarrow>
        (if rel_ID release \<noteq> ev_ReleaseID e \<or> rel_TenantID release \<noteq> tenant \<or> product \<noteq> [] \<and> rel_ProductID release \<noteq> product
         then Inl ErrNotFound else Inr (rel_ProductID release)))"

definition memoryGovernanceEvidence :: "MemoryUnitOfWorkSnapshot \<Rightarrow> string \<Rightarrow> string \<Rightarrow> string \<Rightarrow> owner result" where
  "memoryGovernanceEvidence s tenant i kind =
    (case tbl_get (Evidence s) i of
       None \<Rightarrow> Inl ErrNotFound
     | Some e \<Rightarrow>
        (if ev_ID e \<noteq> i \<or> ev_TenantID e \<noteq> tenant \<or> ev_Type e \<noteq> kind then Inl ErrNotFound
         else if list_ex (\<lambda>v. \<not> memoryGovernanceText v 1024) [ev_ProductID e, ev_ProjectID e, ev_ReleaseID e] then Inl ErrValidation
         else bind_result (evidence_project s tenant e) (\<lambda>product.
           bind_result (evidence_release s tenant e product) (\<lambda>product.
           if product = [] then Inr ([], []) else product_release s tenant product (ev_ReleaseID e)))))"

text \<open>
  The loops of \<^verbatim>\<open>memoryGovernanceFinding\<close>: \<open>scan_hits\<close> lists the findings with the identifier, and the
  accumulator is the owner of the one found so far.
\<close>

definition scan_hits :: "MemoryUnitOfWorkSnapshot \<Rightarrow> string \<Rightarrow> string \<Rightarrow> (VulnerabilityScan \<times> VulnerabilityFinding) list" where
  "scan_hits s tenant i =
    concat (map (\<lambda>(key, scan). if scan_TenantID scan \<noteq> tenant \<or> scan_ID scan \<noteq> key then []
      else map (Pair scan) (filter (\<lambda>f. find_ID f = i) (case scan_Findings scan of None \<Rightarrow> [] | Some fs \<Rightarrow> fs)))
      (tbl_rows (VulnerabilityScans s)))"

definition invalid_finding :: "VulnerabilityFinding \<Rightarrow> bool" where
  "invalid_finding f \<longleftrightarrow> TrimSpace (find_Vulnerability f) = [] \<or> \<not> memoryGovernanceText (find_Vulnerability f) 1024 \<or>
    \<not> memoryGovernanceText (find_Component f) 1024 \<or> \<not> memoryGovernanceText (find_Severity f) 128 \<or>
    \<not> memoryGovernanceText (find_State f) 128"

definition finding_owner_step ::
  "MemoryUnitOfWorkSnapshot \<Rightarrow> string \<Rightarrow> VulnerabilityScan \<times> VulnerabilityFinding \<Rightarrow> owner option \<Rightarrow> owner option result" where
  "finding_owner_step s tenant = (\<lambda>(scan, f) found.
    case memoryGovernanceEvidence s tenant (scan_EvidenceID scan) ''vulnerability_scan'' of
      Inl e \<Rightarrow> (if e = ErrNotFound then Inr found else Inl e)
    | Inr (evProduct, evRelease) \<Rightarrow>
       (let release = (if scan_ReleaseID scan = [] then evRelease else scan_ReleaseID scan) in
        if release = [] \<or> evRelease \<noteq> [] \<and> evRelease \<noteq> release then Inr found
        else case tbl_get (Releases s) release of
          None \<Rightarrow> Inr found
        | Some r \<Rightarrow>
           (if rel_ID r \<noteq> release \<or> rel_TenantID r \<noteq> tenant \<or> evProduct \<noteq> [] \<and> evProduct \<noteq> rel_ProductID r then Inr found
            else bind_result (product_release s tenant (rel_ProductID r) release) (\<lambda>owner.
              if invalid_finding f then Inl ErrValidation
              else if found \<noteq> None then Inl ErrConflict
              else Inr (Some owner)))))"

definition memoryGovernanceFinding :: "MemoryUnitOfWorkSnapshot \<Rightarrow> string \<Rightarrow> string \<Rightarrow> owner result" where
  "memoryGovernanceFinding s tenant i =
    bind_result (fold_result (finding_owner_step s tenant) (scan_hits s tenant i) None) (\<lambda>found.
      case found of None \<Rightarrow> Inl ErrNotFound | Some owner \<Rightarrow> Inr owner)"

text \<open>The four kinds a waiver can be scoped to.\<close>

definition release_owner :: "MemoryUnitOfWorkSnapshot \<Rightarrow> string \<Rightarrow> string \<Rightarrow> owner result" where
  "release_owner s tenant i =
    (case tbl_get (Releases s) i of
       None \<Rightarrow> Inl ErrNotFound
     | Some v \<Rightarrow> (if rel_ID v \<noteq> i \<or> rel_TenantID v \<noteq> tenant then Inl ErrNotFound
         else product_release s tenant (rel_ProductID v) i))"

definition control_owner :: "MemoryUnitOfWorkSnapshot \<Rightarrow> string \<Rightarrow> string \<Rightarrow> owner result" where
  "control_owner s tenant i =
    (case tbl_get (SecurityControls s) i of
       None \<Rightarrow> Inl ErrNotFound
     | Some v \<Rightarrow> (if ctl_ID v \<noteq> i \<or> ctl_TenantID v \<noteq> tenant then Inl ErrNotFound
         else case tbl_get (ControlFrameworks s) (ctl_FrameworkID v) of
           None \<Rightarrow> Inl ErrNotFound
         | Some f \<Rightarrow> (if fw_ID f \<noteq> ctl_FrameworkID v \<or> fw_TenantID f \<noteq> tenant then Inl ErrNotFound else Inr ([], []))))"

definition policy_owner :: "governance_store \<Rightarrow> string \<Rightarrow> string \<Rightarrow> owner result" where
  "policy_owner s tenant i =
    (case tbl_get (gs_CustomPolicies s) i of
       None \<Rightarrow> Inl ErrNotFound
     | Some v \<Rightarrow> (if cpol_ID v \<noteq> i \<or> cpol_TenantID v \<noteq> tenant then Inl ErrNotFound else Inr ([], [])))"

definition scope_owner :: "governance_store \<Rightarrow> string \<Rightarrow> string \<Rightarrow> string \<Rightarrow> owner result" where
  "scope_owner s tenant kind i =
    (if kind = ''release'' then release_owner (cs_rows s) tenant i
     else if kind = ''finding'' then memoryGovernanceFinding (cs_rows s) tenant i
     else if kind = ''control'' then control_owner (cs_rows s) tenant i
     else if kind = ''policy'' then policy_owner s tenant i
     else Inl ErrNotFound)"

definition waiver_owner :: "governance_store \<Rightarrow> string \<Rightarrow> string \<Rightarrow> owner result" where
  "waiver_owner s tenant i =
    (case tbl_get (gs_Waivers s) i of
       None \<Rightarrow> Inl ErrNotFound
     | Some v \<Rightarrow>
        (if wv_ID v \<noteq> i \<or> wv_TenantID v \<noteq> tenant then Inl ErrNotFound
         else if \<not> memoryGovernanceText (wv_ScopeType v) 128 \<or> \<not> memoryGovernanceText (wv_ScopeID v) 1024 then Inl ErrValidation
         else scope_owner s tenant (wv_ScopeType v) (wv_ScopeID v)))"

definition package_owner :: "governance_store \<Rightarrow> string \<Rightarrow> string \<Rightarrow> owner result" where
  "package_owner s tenant i =
    (case tbl_get (es_CustomerPackages s) i of
       None \<Rightarrow> Inl ErrNotFound
     | Some v \<Rightarrow>
        (if pkg_ID v \<noteq> i \<or> pkg_TenantID v \<noteq> tenant then Inl ErrNotFound
         else case tbl_get (es_RedactionProfiles s) (pkg_RedactionProfileID v) of
           None \<Rightarrow> Inl ErrNotFound
         | Some profile \<Rightarrow>
            (if rprof_ID profile \<noteq> pkg_RedactionProfileID v \<or> rprof_TenantID profile \<noteq> tenant then Inl ErrNotFound
             else product_release (cs_rows s) tenant (pkg_ProductID v) (pkg_ReleaseID v))))"

definition disagrees :: "owner \<Rightarrow> string \<Rightarrow> string \<Rightarrow> bool" where
  "disagrees e product release \<longleftrightarrow>
    fst e \<noteq> [] \<and> fst e \<noteq> product \<or> snd e \<noteq> [] \<and> release \<noteq> [] \<and> snd e \<noteq> release"

definition review_owner :: "governance_store \<Rightarrow> string \<Rightarrow> string \<Rightarrow> owner result" where
  "review_owner s tenant i =
    (case tbl_get (gs_ManualSecurityDocuments s) i of
       None \<Rightarrow> Inl ErrNotFound
     | Some v \<Rightarrow>
        (if mdoc_ID v \<noteq> i \<or> mdoc_TenantID v \<noteq> tenant \<or> mdoc_DocumentType v \<noteq> ''security_review'' then Inl ErrNotFound
         else bind_result (memoryGovernanceEvidence (cs_rows s) tenant (mdoc_EvidenceID v) ''security_review'') (\<lambda>e.
           if disagrees e (mdoc_ProductID v) (mdoc_ReleaseID v) then Inl ErrNotFound
           else product_release (cs_rows s) tenant (mdoc_ProductID v) (mdoc_ReleaseID v))))"

definition contract_step :: "governance_store \<Rightarrow> string \<Rightarrow> string \<Rightarrow> string \<Rightarrow> unit \<Rightarrow> unit result" where
  "contract_step s tenant product i u =
    (case tbl_get (cs_OpenAPIContracts s) i of
       None \<Rightarrow> Inl ErrNotFound
     | Some c \<Rightarrow>
        (if src_ID c \<noteq> i \<or> src_TenantID c \<noteq> tenant \<or> src_ProductID c \<noteq> product then Inl ErrNotFound
         else bind_result (memoryGovernanceEvidence (cs_rows s) tenant (src_EvidenceID c) ''openapi_contract'') (\<lambda>e.
           if disagrees e (src_ProductID c) (src_ReleaseID c) then Inl ErrNotFound
           else bind_result (product_release (cs_rows s) tenant (src_ProductID c) (src_ReleaseID c)) (\<lambda>_. Inr ()))))"

definition diff_owner :: "governance_store \<Rightarrow> string \<Rightarrow> string \<Rightarrow> owner result" where
  "diff_owner s tenant i =
    (case tbl_get (gs_ContractDiffs s) i of
       None \<Rightarrow> Inl ErrNotFound
     | Some v \<Rightarrow>
        (if cdiff_ID v \<noteq> i \<or> cdiff_TenantID v \<noteq> tenant then Inl ErrNotFound
         else bind_result (fold_result (contract_step s tenant (cdiff_ProductID v))
             [cdiff_BaseContractID v, cdiff_TargetContractID v] ()) (\<lambda>_.
           product_release (cs_rows s) tenant (cdiff_ProductID v) (cdiff_ReleaseID v))))"

definition memoryGovernanceOwner :: "governance_store \<Rightarrow> string \<Rightarrow> string \<Rightarrow> string \<Rightarrow> owner result" where
  "memoryGovernanceOwner s tenant kind i =
    (if kind = ''release'' \<or> kind = ''finding'' \<or> kind = ''control'' \<or> kind = ''policy'' then scope_owner s tenant kind i
     else if kind = ''waiver'' then waiver_owner s tenant i
     else if kind = ''customer_package'' then package_owner s tenant i
     else if kind = ''security_review'' then review_owner s tenant i
     else if kind = ''contract_diff'' then diff_owner s tenant i
     else Inl ErrValidation)"

section \<open>Readers\<close>

definition readSubject :: "go_context \<Rightarrow> string \<Rightarrow> string \<Rightarrow> string \<Rightarrow> (governance_store, GovernanceSubjectReference) stx" where
  "readSubject ctx tenant kind i =
    tx_bind (memoryGovernanceRead ctx tenant i (\<lambda>s. memoryGovernanceOwner s tenant kind i)) (\<lambda>(product, release).
    tx_return \<lparr>gsr_Type = kind, gsr_ID = i, gsr_TenantID = tenant, gsr_ProductID = product, gsr_ReleaseID = release\<rparr>)"

definition subject_of_kinds ::
  "string list \<Rightarrow> go_context \<Rightarrow> string \<Rightarrow> string \<Rightarrow> string \<Rightarrow> (governance_store, GovernanceSubjectReference) stx" where
  "subject_of_kinds kinds ctx tenant kind i =
    (if kind \<in> set kinds then readSubject ctx tenant kind i else tx_result (Inl ErrValidation))"

definition ReadWaiverSubject :: "go_context \<Rightarrow> string \<Rightarrow> string \<Rightarrow> string \<Rightarrow> (governance_store, GovernanceSubjectReference) stx" where
  "ReadWaiverSubject = subject_of_kinds [''release'', ''finding'', ''control'', ''policy'']"

definition ReadApprovalSubject :: "go_context \<Rightarrow> string \<Rightarrow> string \<Rightarrow> string \<Rightarrow> (governance_store, GovernanceSubjectReference) stx" where
  "ReadApprovalSubject = subject_of_kinds [''release'', ''contract_diff'', ''waiver'', ''security_review'', ''customer_package'']"

definition ReadExceptionSubject :: "go_context \<Rightarrow> string \<Rightarrow> string \<Rightarrow> string \<Rightarrow> (governance_store, GovernanceSubjectReference) stx" where
  "ReadExceptionSubject = subject_of_kinds [''release'', ''finding'', ''control'']"

definition ApprovalEvidenceExists :: "go_context \<Rightarrow> string \<Rightarrow> string \<Rightarrow> (governance_store, bool) stx" where
  "ApprovalEvidenceExists ctx tenant i =
    memoryGovernanceRead ctx tenant i (\<lambda>s. Inr (case tbl_get (Evidence (cs_rows s)) i of
      None \<Rightarrow> False | Some v \<Rightarrow> ev_ID v = i \<and> ev_TenantID v = tenant))"

record WaiverTransitionState =
  wts_ID :: string
  wts_TenantID :: string
  wts_ScopeType :: string
  wts_ScopeID :: string
  wts_SupersededBy :: string
  wts_Approved :: bool
  wts_ExpiresAt :: time

definition ReadWaiverTransitionState :: "go_context \<Rightarrow> string \<Rightarrow> string \<Rightarrow> (governance_store, WaiverTransitionState) stx" where
  "ReadWaiverTransitionState ctx tenant i =
    memoryGovernanceRead ctx tenant i (\<lambda>s. case tbl_get (gs_Waivers s) i of
      None \<Rightarrow> Inl ErrNotFound
    | Some v \<Rightarrow>
       (if wv_ID v \<noteq> i \<or> wv_TenantID v \<noteq> tenant then Inl ErrNotFound
        else if \<not> memoryGovernanceText (wv_ScopeType v) 128 \<or> \<not> memoryGovernanceText (wv_ScopeID v) 1024 \<or>
          \<not> memoryGovernanceText (wv_SupersededBy v) 1024 then Inl ErrValidation
        else Inr \<lparr>wts_ID = i, wts_TenantID = tenant, wts_ScopeType = wv_ScopeType v, wts_ScopeID = wv_ScopeID v,
          wts_SupersededBy = wv_SupersededBy v, wts_Approved = wv_Approved v, wts_ExpiresAt = wv_ExpiresAt v\<rparr>))"

definition ReadWaiverForApproval :: "go_context \<Rightarrow> string \<Rightarrow> string \<Rightarrow> (governance_store, Waiver) stx" where
  "ReadWaiverForApproval ctx tenant i =
    memoryGovernanceRead ctx tenant i (\<lambda>s. case tbl_get (gs_Waivers s) i of
      None \<Rightarrow> Inl ErrNotFound
    | Some v \<Rightarrow>
       (if wv_ID v \<noteq> i \<or> wv_TenantID v \<noteq> tenant then Inl ErrNotFound
        else if \<not> memoryGovernanceText (wv_ScopeType v) 128 \<or> \<not> memoryGovernanceText (wv_Reason v) 65536 then Inl ErrValidation
        else if list_ex (\<lambda>text. \<not> memoryGovernanceText text 1024) [wv_ScopeID v, wv_ControlID v, wv_PolicyID v, wv_Owner v,
          wv_Risk v, wv_ApprovedBy v, wv_Supersedes v, wv_SupersededBy v, wv_SchemaVersion v] then Inl ErrValidation
        else Inr v))"

record ExceptionTransitionState =
  ets_ID :: string
  ets_TenantID :: string
  ets_ReleaseID :: string
  ets_FindingID :: string
  ets_ControlID :: string
  ets_Approved :: bool
  ets_ExpiresAt :: time

definition ReadExceptionTransitionState :: "go_context \<Rightarrow> string \<Rightarrow> string \<Rightarrow> (governance_store, ExceptionTransitionState) stx" where
  "ReadExceptionTransitionState ctx tenant i =
    memoryGovernanceRead ctx tenant i (\<lambda>s. case tbl_get (Exceptions (cs_rows s)) i of
      None \<Rightarrow> Inl ErrNotFound
    | Some v \<Rightarrow>
       (if exc_ID v \<noteq> i \<or> exc_TenantID v \<noteq> tenant then Inl ErrNotFound
        else if list_ex (\<lambda>text. \<not> memoryGovernanceText text 1024) [exc_ReleaseID v, exc_FindingID v, exc_ControlID v]
        then Inl ErrValidation
        else Inr \<lparr>ets_ID = i, ets_TenantID = tenant, ets_ReleaseID = exc_ReleaseID v, ets_FindingID = exc_FindingID v,
          ets_ControlID = exc_ControlID v, ets_Approved = exc_Approved v, ets_ExpiresAt = exc_ExpiresAt v\<rparr>))"

definition ReadExceptionForApproval :: "go_context \<Rightarrow> string \<Rightarrow> string \<Rightarrow> (governance_store, Exception) stx" where
  "ReadExceptionForApproval ctx tenant i =
    memoryGovernanceRead ctx tenant i (\<lambda>s. case tbl_get (Exceptions (cs_rows s)) i of
      None \<Rightarrow> Inl ErrNotFound
    | Some v \<Rightarrow>
       (if exc_ID v \<noteq> i \<or> exc_TenantID v \<noteq> tenant then Inl ErrNotFound
        else if \<not> memoryGovernanceText (exc_Reason v) 65536 then Inl ErrValidation
        else if list_ex (\<lambda>text. \<not> memoryGovernanceText text 1024)
          [exc_ReleaseID v, exc_FindingID v, exc_ControlID v, exc_Owner v, exc_ApprovedBy v] then Inl ErrValidation
        else Inr v))"

end
