(* ===== verification/Governance_Commands.thy ===== *)
theory Governance_Commands
  imports Governance
begin

text \<open>
  The commands that create and approve exceptions and waivers and that record approvals
  (\<^verbatim>\<open>risk/app/exception_commands.go\<close>, \<^verbatim>\<open>waiver_commands.go\<close>, \<^verbatim>\<open>approval_commands.go\<close>) on the units of work
  that \<^verbatim>\<open>platform/wiring\<close> composes for them. The clock, the identifier generator and the hasher of audit
  entries are arguments; \<open>gc_env\<close> is the committed store the unit begins on.
\<close>

section \<open>The transactions\<close>

record governance_command =
  gc_ctx :: go_context
  gc_env :: governance_store
  gc_raced :: bool
  gc_now :: time
  gc_newID :: "string \<Rightarrow> string"
  gc_hasher :: canonical_hasher

definition NewExceptionWriteAuthorizer :: "go_context \<Rightarrow> Actor \<Rightarrow> AuthorizationRequest \<Rightarrow> error option" where
  "NewExceptionWriteAuthorizer = riskResourceWriteAuthorizer ActionExceptionsManage"

definition NewWaiverWriteAuthorizer :: "go_context \<Rightarrow> Actor \<Rightarrow> AuthorizationRequest \<Rightarrow> error option" where
  "NewWaiverWriteAuthorizer = riskResourceWriteAuthorizer ActionWaiversManage"

definition NewApprovalWriteAuthorizer :: "go_context \<Rightarrow> Actor \<Rightarrow> AuthorizationRequest \<Rightarrow> error option" where
  "NewApprovalWriteAuthorizer = riskResourceWriteAuthorizer ActionApprovalsRecord"

text \<open>A call of one of these authorizers observes the context twice when it permits.\<close>

definition risk_authorize ::
  "(go_context \<Rightarrow> Actor \<Rightarrow> AuthorizationRequest \<Rightarrow> error option) \<Rightarrow> go_context \<Rightarrow> Actor \<Rightarrow> AuthorizationRequest \<Rightarrow>
   (governance_store, unit) stx" where
  "risk_authorize authorizer ctx a r = tx_authorize (\<lambda>c. authorizer c a r) 2 ctx"

definition subject_request :: "Action \<Rightarrow> GovernanceSubjectReference \<Rightarrow> AuthorizationRequest" where
  "subject_request action subject =
    (resource_request action (subjectResources subject))\<lparr>areq_TenantWide := gsr_ProductID subject = []\<rparr>"

definition governance_context :: "go_context \<Rightarrow> (governance_store, unit) stx" where
  "governance_context ctx = (if nil_context ctx then tx_result (Inl (ErrOther ''context canceled'')) else tx_observe ctx)"

definition execute_governance :: "governance_command \<Rightarrow> (governance_store, 'a) stx \<Rightarrow> (governance_store, 'a) stx" where
  "execute_governance c m = tx_map_error mapControlWriteError (ExecuteUnit (gc_ctx c) (gc_raced c) (gc_env c) m)"

definition governance_write ::
  "go_context \<Rightarrow> (governance_store \<Rightarrow> governance_store result) \<Rightarrow> (governance_store, unit) stx" where
  "governance_write ctx f = tx_map_error mapControlWriteError (tx_mutate ctx f)"

definition governance_rows :: "repository_op \<Rightarrow> governance_store \<Rightarrow> governance_store result" where
  "governance_rows f s = bind_result (f (cs_rows s)) (\<lambda>r. Inr (s\<lparr>cs_rows := r\<rparr>))"

definition governance_event :: "governance_command \<Rightarrow> Actor \<Rightarrow> time \<Rightarrow> string \<Rightarrow> string \<Rightarrow> string \<Rightarrow> AuditEvent" where
  "governance_event c a now kind subjectType i =
    \<lparr>aev_ID = gc_newID c ''ace'', aev_TenantID = actor_TenantID a, aev_EntryType = kind, aev_SubjectType = subjectType,
     aev_SubjectID = i, aev_ActorType = auditActorType a, aev_ActorID = auditActorID a, aev_OccurredAt = now,
     aev_PayloadHash = [], aev_SignatureRef = []\<rparr>"

definition appendGovernanceAudit ::
  "governance_command \<Rightarrow> Actor \<Rightarrow> time \<Rightarrow> string \<Rightarrow> string \<Rightarrow> string \<Rightarrow> (governance_store, unit) stx" where
  "appendGovernanceAudit c a now kind subjectType i =
    tx_bind (tx_fail_if (\<not> validControlText (gc_newID c ''ace'') 1024 True) ErrValidation) (\<lambda>_.
    tx_mutate (gc_ctx c) (catalog_append (gc_hasher c) (governance_event c a now kind subjectType i)))"

section \<open>Exceptions\<close>

record CreateExceptionInput =
  cei_ReleaseID :: string
  cei_FindingID :: string
  cei_ControlID :: string
  cei_Reason :: string
  cei_Owner :: string
  cei_ExpiresAt :: time

definition exception_authorize :: "go_context \<Rightarrow> Actor \<Rightarrow> AuthorizationRequest \<Rightarrow> (governance_store, unit) stx" where
  "exception_authorize = risk_authorize NewExceptionWriteAuthorizer"

definition exception_preflight :: "go_context \<Rightarrow> Actor \<Rightarrow> (governance_store, unit) stx" where
  "exception_preflight ctx a =
    tx_bind (governance_context ctx) (\<lambda>_.
    tx_bind (exception_authorize ctx a (scope_request ActionExceptionsManage)) (\<lambda>_.
    tx_fail_if (\<not> validControlText (actor_TenantID a) 1024 True \<or> \<not> validControlText (auditActorID a) 1024 True) ErrValidation))"

definition trimmed_exception :: "CreateExceptionInput \<Rightarrow> CreateExceptionInput" where
  "trimmed_exception v =
    \<lparr>cei_ReleaseID = TrimSpace (cei_ReleaseID v), cei_FindingID = TrimSpace (cei_FindingID v),
     cei_ControlID = TrimSpace (cei_ControlID v), cei_Reason = TrimSpace (cei_Reason v), cei_Owner = TrimSpace (cei_Owner v),
     cei_ExpiresAt = truncate_microsecond (cei_ExpiresAt v)\<rparr>"

definition prepareCreateException :: "go_context \<Rightarrow> Actor \<Rightarrow> CreateExceptionInput \<Rightarrow> (governance_store, CreateExceptionInput) stx" where
  "prepareCreateException ctx a v =
    tx_bind (exception_preflight ctx a) (\<lambda>_.
    tx_bind (tx_fail_if (list_ex (\<lambda>t. \<not> validControlText t 1024 False)
      [cei_ReleaseID v, cei_FindingID v, cei_ControlID v, cei_Owner v]) ErrValidation) (\<lambda>_.
    tx_bind (tx_fail_if (\<not> validControlText (cei_Reason v) 65536 False) ErrValidation) (\<lambda>_.
    let v = trimmed_exception v in
    tx_bind (tx_fail_if (cei_ReleaseID v = [] \<or> cei_Owner v = [] \<or> cei_Reason v = [] \<or>
      \<not> validRiskLifecycleTime (cei_ExpiresAt v)) ErrValidation) (\<lambda>_.
    tx_return v))))"

definition exception_subject ::
  "go_context \<Rightarrow> Actor \<Rightarrow> string \<Rightarrow> string \<Rightarrow> (governance_store, GovernanceSubjectReference) stx" where
  "exception_subject ctx a kind i =
    tx_map_error mapControlWriteError (ReadExceptionSubject ctx (actor_TenantID a) kind i)"

definition authorizeExceptionScope :: "go_context \<Rightarrow> Actor \<Rightarrow> string \<Rightarrow> string \<Rightarrow> string \<Rightarrow> (governance_store, unit) stx" where
  "authorizeExceptionScope ctx a releaseID findingID controlID =
    tx_bind (exception_authorize ctx a (scope_request ActionExceptionsManage)) (\<lambda>_.
    tx_bind (tx_fail_if (\<not> validControlText releaseID 1024 True \<or> \<not> validControlText findingID 1024 False \<or>
      \<not> validControlText controlID 1024 False) ErrValidation) (\<lambda>_.
    tx_bind (exception_subject ctx a ''release'' releaseID) (\<lambda>release.
    tx_bind (tx_fail_if (\<not> validGovernanceSubject release (actor_TenantID a) ''release'' releaseID \<or> gsr_ProductID release = [] \<or>
      gsr_ReleaseID release \<noteq> releaseID) ErrNotFound) (\<lambda>_.
    tx_bind (tx_fail_if (\<not> validControlText (gsr_ProductID release) 1024 True) ErrValidation) (\<lambda>_.
    tx_bind (exception_authorize ctx a (resource_request ActionExceptionsManage (subjectResources release))) (\<lambda>_.
    tx_bind (if findingID = [] then tx_return ()
      else tx_bind (exception_subject ctx a ''finding'' findingID) (\<lambda>finding.
        tx_fail_if (\<not> validGovernanceSubject finding (actor_TenantID a) ''finding'' findingID \<or>
          gsr_ProductID finding \<noteq> gsr_ProductID release \<or> gsr_ReleaseID finding \<noteq> releaseID) ErrNotFound)) (\<lambda>_.
    if controlID = [] then tx_return ()
    else tx_bind (exception_subject ctx a ''control'' controlID) (\<lambda>control.
      tx_fail_if (\<not> validGovernanceSubject control (actor_TenantID a) ''control'' controlID \<or>
        gsr_ProductID control \<noteq> [] \<or> gsr_ReleaseID control \<noteq> []) ErrNotFound))))))))"

definition AuthorizeCreateException :: "governance_command \<Rightarrow> Actor \<Rightarrow> CreateExceptionInput \<Rightarrow> (governance_store, unit) stx" where
  "AuthorizeCreateException c a v =
    tx_bind (prepareCreateException (gc_ctx c) a v) (\<lambda>v.
    execute_governance c (authorizeExceptionScope (gc_ctx c) a (cei_ReleaseID v) (cei_FindingID v) (cei_ControlID v)))"

definition new_exception :: "governance_command \<Rightarrow> Actor \<Rightarrow> CreateExceptionInput \<Rightarrow> time \<Rightarrow> Exception" where
  "new_exception c a v now =
    \<lparr>exc_ID = gc_newID c ''ex'', exc_TenantID = actor_TenantID a, exc_ReleaseID = cei_ReleaseID v, exc_FindingID = cei_FindingID v,
     exc_ControlID = cei_ControlID v, exc_Reason = cei_Reason v, exc_Owner = cei_Owner v, exc_ExpiresAt = cei_ExpiresAt v,
     exc_Approved = False, exc_ApprovedBy = [], exc_ApprovedAt = None, exc_CreatedAt = now\<rparr>"

definition create_exception_tx ::
  "governance_command \<Rightarrow> Actor \<Rightarrow> Exception \<Rightarrow> time \<Rightarrow> (governance_store, unit) stx" where
  "create_exception_tx c a x now =
    tx_bind (authorizeExceptionScope (gc_ctx c) a (exc_ReleaseID x) (exc_FindingID x) (exc_ControlID x)) (\<lambda>_.
    tx_bind (governance_write (gc_ctx c) (governance_rows (InsertException x))) (\<lambda>_.
    appendGovernanceAudit c a now ''exception.created'' ''exception'' (exc_ID x)))"

definition CreateException :: "governance_command \<Rightarrow> Actor \<Rightarrow> CreateExceptionInput \<Rightarrow> (governance_store, Exception) stx" where
  "CreateException c a v =
    tx_bind (prepareCreateException (gc_ctx c) a v) (\<lambda>v.
    let now = truncate_microsecond (gc_now c) in
    tx_bind (tx_fail_if (\<not> validRiskLifecycleTime now \<or> \<not> cei_ExpiresAt v > now) ErrValidation) (\<lambda>_.
    let x = new_exception c a v now in
    tx_bind (tx_fail_if (\<not> validControlText (exc_ID x) 1024 True) ErrValidation) (\<lambda>_.
    tx_bind (execute_governance c (create_exception_tx c a x now)) (\<lambda>_.
    tx_return x))))"

definition prepareExceptionApproval :: "go_context \<Rightarrow> Actor \<Rightarrow> string \<Rightarrow> (governance_store, string) stx" where
  "prepareExceptionApproval ctx a i =
    tx_bind (exception_preflight ctx a) (\<lambda>_.
    tx_bind (tx_fail_if (\<not> validControlText i 1024 True) ErrValidation) (\<lambda>_.
    tx_return (TrimSpace i)))"

definition authorizeExceptionApproval :: "go_context \<Rightarrow> Actor \<Rightarrow> string \<Rightarrow> (governance_store, ExceptionTransitionState) stx" where
  "authorizeExceptionApproval ctx a i =
    tx_bind (exception_authorize ctx a (scope_request ActionExceptionsManage)) (\<lambda>_.
    tx_bind (tx_map_error mapControlWriteError (ReadExceptionTransitionState ctx (actor_TenantID a) i)) (\<lambda>v.
    tx_bind (tx_fail_if (ets_ID v \<noteq> i \<or> ets_TenantID v \<noteq> actor_TenantID a) ErrNotFound) (\<lambda>_.
    tx_bind (tx_fail_if (\<not> validRiskLifecycleTime (ets_ExpiresAt v)) ErrValidation) (\<lambda>_.
    tx_bind (authorizeExceptionScope ctx a (ets_ReleaseID v) (ets_FindingID v) (ets_ControlID v)) (\<lambda>_.
    tx_return v)))))"

definition AuthorizeApproveException :: "governance_command \<Rightarrow> Actor \<Rightarrow> string \<Rightarrow> (governance_store, unit) stx" where
  "AuthorizeApproveException c a i =
    tx_bind (prepareExceptionApproval (gc_ctx c) a i) (\<lambda>i.
    execute_governance c (tx_bind (authorizeExceptionApproval (gc_ctx c) a i) (\<lambda>_. tx_return ())))"

definition exception_changed :: "Exception \<Rightarrow> Actor \<Rightarrow> string \<Rightarrow> ExceptionTransitionState \<Rightarrow> bool" where
  "exception_changed x a i state \<longleftrightarrow>
    exc_ID x \<noteq> i \<or> exc_TenantID x \<noteq> actor_TenantID a \<or> exc_ReleaseID x \<noteq> ets_ReleaseID state \<or>
    exc_FindingID x \<noteq> ets_FindingID state \<or> exc_ControlID x \<noteq> ets_ControlID state \<or> exc_Approved x \<noteq> ets_Approved state \<or>
    exc_ExpiresAt x \<noteq> ets_ExpiresAt state"

definition approval_recorded :: "Exception \<Rightarrow> bool" where
  "approval_recorded x \<longleftrightarrow> exc_ApprovedBy x \<noteq> [] \<and>
    (case exc_ApprovedAt x of None \<Rightarrow> False | Some t \<Rightarrow> validRiskLifecycleTime t \<and> exc_ExpiresAt x > t)"

definition record_exception_approval ::
  "governance_command \<Rightarrow> Actor \<Rightarrow> time \<Rightarrow> Exception \<Rightarrow> (governance_store, Exception) stx" where
  "record_exception_approval c a now x =
    (if exc_Approved x then tx_bind (tx_fail_if (\<not> approval_recorded x) ErrValidation) (\<lambda>_. tx_return x)
     else
     tx_bind (tx_fail_if (exc_ApprovedBy x \<noteq> [] \<or> exc_ApprovedAt x \<noteq> None) ErrValidation) (\<lambda>_.
     let x = x\<lparr>exc_Approved := True, exc_ApprovedBy := auditActorID a, exc_ApprovedAt := Some now\<rparr> in
     tx_bind (governance_write (gc_ctx c) (governance_rows (ApproveException x))) (\<lambda>_.
     tx_bind (appendGovernanceAudit c a now ''exception.approved'' ''exception'' (exc_ID x)) (\<lambda>_.
     tx_return x))))"

definition approve_exception_tx ::
  "governance_command \<Rightarrow> Actor \<Rightarrow> string \<Rightarrow> time \<Rightarrow> (governance_store, Exception) stx" where
  "approve_exception_tx c a i now =
    (let ctx = gc_ctx c in
    tx_bind (authorizeExceptionApproval ctx a i) (\<lambda>state.
    tx_bind (tx_fail_if (\<not> ets_ExpiresAt state > now) ErrConflict) (\<lambda>_.
    tx_bind (tx_map_error mapControlWriteError (ReadExceptionForApproval ctx (actor_TenantID a) i)) (\<lambda>x.
    tx_bind (tx_fail_if (exception_changed x a i state) ErrConflict) (\<lambda>_.
    tx_bind (tx_fail_if (\<not> validControlText (exc_Owner x) 1024 True \<or> \<not> validControlText (exc_Reason x) 65536 True \<or>
      \<not> validControlText (exc_ApprovedBy x) 1024 False \<or> \<not> validRiskLifecycleTime (exc_CreatedAt x)) ErrValidation) (\<lambda>_.
    record_exception_approval c a now x))))))"

definition ApproveExceptionCommand :: "governance_command \<Rightarrow> Actor \<Rightarrow> string \<Rightarrow> (governance_store, Exception) stx" where
  "ApproveExceptionCommand c a i =
    tx_bind (prepareExceptionApproval (gc_ctx c) a i) (\<lambda>i.
    let now = truncate_microsecond (gc_now c) in
    tx_bind (tx_fail_if (\<not> validRiskLifecycleTime now) ErrValidation) (\<lambda>_.
    execute_governance c (approve_exception_tx c a i now)))"

section \<open>Waivers\<close>

definition WaiverSchemaVersion :: string where
  "WaiverSchemaVersion = ''waiver.v1.0.0''"

record CreateWaiverInput =
  cwi_ScopeType :: string
  cwi_ScopeID :: string
  cwi_ControlID :: string
  cwi_PolicyID :: string
  cwi_Owner :: string
  cwi_Risk :: string
  cwi_Reason :: string
  cwi_ExpiresAt :: time
  cwi_Supersedes :: string

definition validWaiverScope :: "string \<Rightarrow> bool" where
  "validWaiverScope v \<longleftrightarrow> v \<in> {''release'', ''finding'', ''control'', ''policy''}"

definition waiver_authorize :: "go_context \<Rightarrow> Actor \<Rightarrow> AuthorizationRequest \<Rightarrow> (governance_store, unit) stx" where
  "waiver_authorize = risk_authorize NewWaiverWriteAuthorizer"

definition waiver_preflight :: "go_context \<Rightarrow> Actor \<Rightarrow> (governance_store, unit) stx" where
  "waiver_preflight ctx a =
    tx_bind (governance_context ctx) (\<lambda>_.
    tx_bind (waiver_authorize ctx a (scope_request ActionWaiversManage)) (\<lambda>_.
    tx_fail_if (\<not> validControlText (actor_TenantID a) 1024 True \<or> \<not> validControlText (auditActorID a) 1024 True) ErrValidation))"

definition trimmed_waiver :: "CreateWaiverInput \<Rightarrow> CreateWaiverInput" where
  "trimmed_waiver v =
    \<lparr>cwi_ScopeType = TrimSpace (cwi_ScopeType v), cwi_ScopeID = TrimSpace (cwi_ScopeID v),
     cwi_ControlID = TrimSpace (cwi_ControlID v), cwi_PolicyID = TrimSpace (cwi_PolicyID v), cwi_Owner = TrimSpace (cwi_Owner v),
     cwi_Risk = TrimSpace (cwi_Risk v), cwi_Reason = TrimSpace (cwi_Reason v),
     cwi_ExpiresAt = truncate_microsecond (cwi_ExpiresAt v), cwi_Supersedes = TrimSpace (cwi_Supersedes v)\<rparr>"

definition prepareCreateWaiver :: "go_context \<Rightarrow> Actor \<Rightarrow> CreateWaiverInput \<Rightarrow> (governance_store, CreateWaiverInput) stx" where
  "prepareCreateWaiver ctx a v =
    tx_bind (waiver_preflight ctx a) (\<lambda>_.
    tx_bind (tx_fail_if (list_ex (\<lambda>t. \<not> validControlText t 1024 False)
      [cwi_ScopeID v, cwi_ControlID v, cwi_PolicyID v, cwi_Owner v, cwi_Risk v, cwi_Supersedes v]) ErrValidation) (\<lambda>_.
    tx_bind (tx_fail_if (\<not> validControlText (cwi_ScopeType v) 128 False \<or> \<not> validControlText (cwi_Reason v) 65536 False)
      ErrValidation) (\<lambda>_.
    let v = trimmed_waiver v in
    tx_bind (tx_fail_if (\<not> validWaiverScope (cwi_ScopeType v) \<or> cwi_ScopeID v = [] \<or> cwi_Owner v = [] \<or> cwi_Risk v = [] \<or>
      cwi_Reason v = [] \<or> \<not> validRiskLifecycleTime (cwi_ExpiresAt v)) ErrValidation) (\<lambda>_.
    tx_return v))))"

definition waiver_subject ::
  "go_context \<Rightarrow> Actor \<Rightarrow> string \<Rightarrow> string \<Rightarrow> (governance_store, GovernanceSubjectReference) stx" where
  "waiver_subject ctx a kind i = tx_map_error mapControlWriteError (ReadWaiverSubject ctx (actor_TenantID a) kind i)"

definition waiver_coordinates_ok :: "string \<Rightarrow> string \<Rightarrow> GovernanceSubjectReference \<Rightarrow> bool" where
  "waiver_coordinates_ok kind i subject \<longleftrightarrow>
    (if kind = ''release'' then \<not> (gsr_ProductID subject = [] \<or> gsr_ReleaseID subject \<noteq> i)
     else if kind = ''finding'' then \<not> (gsr_ProductID subject = [] \<or> gsr_ReleaseID subject = [])
     else if kind = ''control'' \<or> kind = ''policy'' then \<not> (gsr_ProductID subject \<noteq> [] \<or> gsr_ReleaseID subject \<noteq> [])
     else True)"

definition authorizeWaiverSubject :: "go_context \<Rightarrow> Actor \<Rightarrow> string \<Rightarrow> string \<Rightarrow> (governance_store, unit) stx" where
  "authorizeWaiverSubject ctx a kind i =
    tx_bind (tx_fail_if (\<not> validWaiverScope kind \<or> \<not> validControlText i 1024 True) ErrValidation) (\<lambda>_.
    tx_bind (waiver_subject ctx a kind i) (\<lambda>subject.
    tx_bind (tx_fail_if (\<not> validGovernanceSubject subject (actor_TenantID a) kind i) ErrNotFound) (\<lambda>_.
    tx_bind (tx_fail_if (\<not> validControlText (gsr_ProductID subject) 1024 False \<or>
      \<not> validControlText (gsr_ReleaseID subject) 1024 False) ErrValidation) (\<lambda>_.
    tx_bind (tx_fail_if (\<not> waiver_coordinates_ok kind i subject) ErrNotFound) (\<lambda>_.
    waiver_authorize ctx a (subject_request ActionWaiversManage subject))))))"

definition readAuthorizedWaiverState :: "go_context \<Rightarrow> Actor \<Rightarrow> string \<Rightarrow> (governance_store, WaiverTransitionState) stx" where
  "readAuthorizedWaiverState ctx a i =
    tx_bind (tx_map_error mapControlWriteError (ReadWaiverTransitionState ctx (actor_TenantID a) i)) (\<lambda>v.
    tx_bind (tx_fail_if (wts_ID v \<noteq> i \<or> wts_TenantID v \<noteq> actor_TenantID a) ErrNotFound) (\<lambda>_.
    tx_bind (tx_fail_if (\<not> validControlText (wts_SupersededBy v) 1024 False \<or> \<not> validRiskLifecycleTime (wts_ExpiresAt v))
      ErrValidation) (\<lambda>_.
    tx_bind (authorizeWaiverSubject ctx a (wts_ScopeType v) (wts_ScopeID v)) (\<lambda>_.
    tx_return v))))"

definition linked_subject :: "go_context \<Rightarrow> Actor \<Rightarrow> string \<Rightarrow> string \<Rightarrow> (governance_store, unit) stx" where
  "linked_subject ctx a kind i =
    (if i = [] then tx_return ()
     else tx_bind (waiver_subject ctx a kind i) (\<lambda>v.
       tx_fail_if (\<not> validGovernanceSubject v (actor_TenantID a) kind i \<or> gsr_ProductID v \<noteq> [] \<or> gsr_ReleaseID v \<noteq> []) ErrNotFound))"

definition authorizeWaiverCreation ::
  "go_context \<Rightarrow> Actor \<Rightarrow> CreateWaiverInput \<Rightarrow> (governance_store, WaiverTransitionState option) stx" where
  "authorizeWaiverCreation ctx a v =
    tx_bind (waiver_authorize ctx a (scope_request ActionWaiversManage)) (\<lambda>_.
    tx_bind (authorizeWaiverSubject ctx a (cwi_ScopeType v) (cwi_ScopeID v)) (\<lambda>_.
    tx_bind (linked_subject ctx a ''control'' (cwi_ControlID v)) (\<lambda>_.
    tx_bind (linked_subject ctx a ''policy'' (cwi_PolicyID v)) (\<lambda>_.
    if cwi_Supersedes v = [] then tx_return None
    else tx_bind (readAuthorizedWaiverState ctx a (cwi_Supersedes v)) (\<lambda>prior. tx_return (Some prior))))))"

definition AuthorizeCreateWaiver :: "governance_command \<Rightarrow> Actor \<Rightarrow> CreateWaiverInput \<Rightarrow> (governance_store, unit) stx" where
  "AuthorizeCreateWaiver c a v =
    tx_bind (prepareCreateWaiver (gc_ctx c) a v) (\<lambda>v.
    execute_governance c (tx_bind (authorizeWaiverCreation (gc_ctx c) a v) (\<lambda>_. tx_return ())))"

definition new_waiver :: "governance_command \<Rightarrow> Actor \<Rightarrow> CreateWaiverInput \<Rightarrow> time \<Rightarrow> Waiver" where
  "new_waiver c a v now =
    \<lparr>wv_ID = gc_newID c ''wv'', wv_TenantID = actor_TenantID a, wv_ScopeType = cwi_ScopeType v, wv_ScopeID = cwi_ScopeID v,
     wv_ControlID = cwi_ControlID v, wv_PolicyID = cwi_PolicyID v, wv_Owner = cwi_Owner v, wv_Risk = cwi_Risk v,
     wv_Reason = cwi_Reason v, wv_ExpiresAt = cwi_ExpiresAt v, wv_Approved = False, wv_ApprovedBy = [], wv_ApprovedAt = None,
     wv_Supersedes = cwi_Supersedes v, wv_SupersededBy = [], wv_SchemaVersion = WaiverSchemaVersion, wv_CreatedAt = now\<rparr>"

definition create_waiver_tx ::
  "governance_command \<Rightarrow> Actor \<Rightarrow> CreateWaiverInput \<Rightarrow> Waiver \<Rightarrow> time \<Rightarrow> (governance_store, unit) stx" where
  "create_waiver_tx c a v w now =
    tx_bind (authorizeWaiverCreation (gc_ctx c) a v) (\<lambda>prior.
    tx_bind (tx_fail_if (case prior of None \<Rightarrow> False | Some p \<Rightarrow> wts_SupersededBy p \<noteq> []) ErrConflict) (\<lambda>_.
    tx_bind (governance_write (gc_ctx c) (InsertWaiver w)) (\<lambda>_.
    appendGovernanceAudit c a now ''waiver.created'' ''waiver'' (wv_ID w))))"

definition CreateWaiver :: "governance_command \<Rightarrow> Actor \<Rightarrow> CreateWaiverInput \<Rightarrow> (governance_store, Waiver) stx" where
  "CreateWaiver c a v =
    tx_bind (prepareCreateWaiver (gc_ctx c) a v) (\<lambda>v.
    let now = truncate_microsecond (gc_now c) in
    tx_bind (tx_fail_if (\<not> validRiskLifecycleTime now \<or> \<not> cwi_ExpiresAt v > now) ErrValidation) (\<lambda>_.
    let w = new_waiver c a v now in
    tx_bind (tx_fail_if (\<not> validControlText (wv_ID w) 1024 True) ErrValidation) (\<lambda>_.
    tx_bind (execute_governance c (create_waiver_tx c a v w now)) (\<lambda>_.
    tx_return w))))"

definition prepareWaiverApproval :: "go_context \<Rightarrow> Actor \<Rightarrow> string \<Rightarrow> (governance_store, string) stx" where
  "prepareWaiverApproval ctx a i =
    tx_bind (waiver_preflight ctx a) (\<lambda>_.
    tx_bind (tx_fail_if (\<not> validControlText i 1024 True) ErrValidation) (\<lambda>_.
    tx_return (TrimSpace i)))"

definition authorizeWaiverApproval :: "go_context \<Rightarrow> Actor \<Rightarrow> string \<Rightarrow> (governance_store, WaiverTransitionState) stx" where
  "authorizeWaiverApproval ctx a i =
    tx_bind (waiver_authorize ctx a (scope_request ActionWaiversManage)) (\<lambda>_. readAuthorizedWaiverState ctx a i)"

definition AuthorizeApproveWaiver :: "governance_command \<Rightarrow> Actor \<Rightarrow> string \<Rightarrow> (governance_store, unit) stx" where
  "AuthorizeApproveWaiver c a i =
    tx_bind (prepareWaiverApproval (gc_ctx c) a i) (\<lambda>i.
    execute_governance c (tx_bind (authorizeWaiverApproval (gc_ctx c) a i) (\<lambda>_. tx_return ())))"

definition waiver_changed :: "Waiver \<Rightarrow> Actor \<Rightarrow> string \<Rightarrow> WaiverTransitionState \<Rightarrow> bool" where
  "waiver_changed w a i state \<longleftrightarrow>
    wv_ID w \<noteq> i \<or> wv_TenantID w \<noteq> actor_TenantID a \<or> wv_ScopeType w \<noteq> wts_ScopeType state \<or> wv_ScopeID w \<noteq> wts_ScopeID state \<or>
    wv_Approved w \<noteq> wts_Approved state \<or> wv_ExpiresAt w \<noteq> wts_ExpiresAt state \<or> wv_SupersededBy w \<noteq> wts_SupersededBy state"

definition invalid_pending_waiver :: "Waiver \<Rightarrow> bool" where
  "invalid_pending_waiver w \<longleftrightarrow>
    list_ex (\<lambda>t. \<not> validControlText t 1024 False) [wv_ControlID w, wv_PolicyID w, wv_Owner w, wv_Risk w, wv_ApprovedBy w,
      wv_Supersedes w, wv_SupersededBy w, wv_SchemaVersion w] \<or>
    \<not> validControlText (wv_Owner w) 1024 True \<or> \<not> validControlText (wv_Risk w) 1024 True \<or>
    \<not> validControlText (wv_Reason w) 65536 True \<or> \<not> validControlText (wv_SchemaVersion w) 1024 True \<or>
    \<not> validRiskLifecycleTime (wv_CreatedAt w) \<or> wv_ApprovedBy w \<noteq> [] \<or> wv_ApprovedAt w \<noteq> None"

definition approve_waiver_tx :: "governance_command \<Rightarrow> Actor \<Rightarrow> string \<Rightarrow> time \<Rightarrow> (governance_store, Waiver) stx" where
  "approve_waiver_tx c a i now =
    (let ctx = gc_ctx c in
    tx_bind (authorizeWaiverApproval ctx a i) (\<lambda>state.
    tx_bind (tx_fail_if (wts_Approved state \<or> \<not> wts_ExpiresAt state > now) ErrConflict) (\<lambda>_.
    tx_bind (tx_map_error mapControlWriteError (ReadWaiverForApproval ctx (actor_TenantID a) i)) (\<lambda>w.
    tx_bind (tx_fail_if (waiver_changed w a i state) ErrConflict) (\<lambda>_.
    tx_bind (tx_fail_if (invalid_pending_waiver w) ErrValidation) (\<lambda>_.
    let w = w\<lparr>wv_Approved := True, wv_ApprovedBy := auditActorID a, wv_ApprovedAt := Some now\<rparr> in
    tx_bind (governance_write ctx (ApproveWaiver w)) (\<lambda>_.
    tx_bind (appendGovernanceAudit c a now ''waiver.approved'' ''waiver'' (wv_ID w)) (\<lambda>_.
    tx_return w))))))))"

definition ApproveWaiverCommand :: "governance_command \<Rightarrow> Actor \<Rightarrow> string \<Rightarrow> (governance_store, Waiver) stx" where
  "ApproveWaiverCommand c a i =
    tx_bind (prepareWaiverApproval (gc_ctx c) a i) (\<lambda>i.
    let now = truncate_microsecond (gc_now c) in
    tx_bind (tx_fail_if (\<not> validRiskLifecycleTime now) ErrValidation) (\<lambda>_.
    execute_governance c (approve_waiver_tx c a i now)))"

section \<open>Approval records\<close>

definition ApprovalRecordSchemaVersion :: string where
  "ApprovalRecordSchemaVersion = ''approval-record.v1.0.0''"

record CreateApprovalInput =
  cai_SubjectType :: string
  cai_SubjectID :: string
  cai_Decision :: string
  cai_Reason :: string
  cai_EvidenceID :: string

definition validApprovalSubject :: "string \<Rightarrow> bool" where
  "validApprovalSubject v \<longleftrightarrow> v \<in> {''release'', ''contract_diff'', ''waiver'', ''security_review'', ''customer_package''}"

definition validApprovalDecision :: "string \<Rightarrow> bool" where
  "validApprovalDecision v \<longleftrightarrow> v = ''approved'' \<or> v = ''rejected'' \<or> v = ''accepted''"

definition approval_authorize :: "go_context \<Rightarrow> Actor \<Rightarrow> AuthorizationRequest \<Rightarrow> (governance_store, unit) stx" where
  "approval_authorize = risk_authorize NewApprovalWriteAuthorizer"

definition trimmed_approval :: "CreateApprovalInput \<Rightarrow> CreateApprovalInput" where
  "trimmed_approval v =
    \<lparr>cai_SubjectType = TrimSpace (cai_SubjectType v), cai_SubjectID = TrimSpace (cai_SubjectID v),
     cai_Decision = TrimSpace (cai_Decision v), cai_Reason = TrimSpace (cai_Reason v), cai_EvidenceID = TrimSpace (cai_EvidenceID v)\<rparr>"

definition prepareApproval :: "go_context \<Rightarrow> Actor \<Rightarrow> CreateApprovalInput \<Rightarrow> (governance_store, CreateApprovalInput) stx" where
  "prepareApproval ctx a v =
    tx_bind (governance_context ctx) (\<lambda>_.
    tx_bind (approval_authorize ctx a (scope_request ActionApprovalsRecord)) (\<lambda>_.
    tx_bind (tx_fail_if (list_ex (\<lambda>t. \<not> validControlText t 1024 False)
      [actor_TenantID a, auditActorID a, cai_SubjectID v, cai_EvidenceID v]) ErrValidation) (\<lambda>_.
    tx_bind (tx_fail_if (\<not> validControlText (cai_SubjectType v) 128 False \<or> \<not> validControlText (cai_Decision v) 128 False \<or>
      \<not> validControlText (cai_Reason v) 65536 False) ErrValidation) (\<lambda>_.
    let v = trimmed_approval v in
    tx_bind (tx_fail_if (TrimSpace (actor_TenantID a) = [] \<or> TrimSpace (auditActorID a) = [] \<or>
      \<not> validApprovalSubject (cai_SubjectType v) \<or> cai_SubjectID v = [] \<or> \<not> validApprovalDecision (cai_Decision v) \<or>
      cai_Reason v = []) ErrValidation) (\<lambda>_.
    tx_return v)))))"

definition authorizeApprovalSubject :: "go_context \<Rightarrow> Actor \<Rightarrow> CreateApprovalInput \<Rightarrow> (governance_store, unit) stx" where
  "authorizeApprovalSubject ctx a v =
    tx_bind (approval_authorize ctx a (scope_request ActionApprovalsRecord)) (\<lambda>_.
    tx_bind (tx_map_error mapControlWriteError (ReadApprovalSubject ctx (actor_TenantID a) (cai_SubjectType v) (cai_SubjectID v))) (\<lambda>subject.
    tx_bind (tx_fail_if (\<not> validGovernanceSubject subject (actor_TenantID a) (cai_SubjectType v) (cai_SubjectID v) \<or>
      gsr_ProductID subject = [] \<and> gsr_ReleaseID subject \<noteq> []) ErrNotFound) (\<lambda>_.
    tx_bind (tx_fail_if (gsr_Type subject \<noteq> ''waiver'' \<and> gsr_ProductID subject = [] \<or>
      gsr_Type subject = ''release'' \<and> gsr_ReleaseID subject \<noteq> gsr_ID subject) ErrNotFound) (\<lambda>_.
    tx_bind (tx_fail_if (\<not> validControlText (gsr_ProductID subject) 1024 False \<or>
      \<not> validControlText (gsr_ReleaseID subject) 1024 False) ErrValidation) (\<lambda>_.
    approval_authorize ctx a (subject_request ActionApprovalsRecord subject))))))"

definition AuthorizeApproval :: "governance_command \<Rightarrow> Actor \<Rightarrow> CreateApprovalInput \<Rightarrow> (governance_store, unit) stx" where
  "AuthorizeApproval c a v =
    tx_bind (prepareApproval (gc_ctx c) a v) (\<lambda>v. execute_governance c (authorizeApprovalSubject (gc_ctx c) a v))"

definition new_approval :: "governance_command \<Rightarrow> Actor \<Rightarrow> CreateApprovalInput \<Rightarrow> ApprovalRecord" where
  "new_approval c a v =
    \<lparr>apr_ID = gc_newID c ''apr'', apr_TenantID = actor_TenantID a, apr_SubjectType = cai_SubjectType v, apr_SubjectID = cai_SubjectID v,
     apr_Decision = cai_Decision v, apr_Reason = cai_Reason v, apr_ApproverID = auditActorID a, apr_EvidenceID = cai_EvidenceID v,
     apr_SchemaVersion = ApprovalRecordSchemaVersion, apr_CreatedAt = gc_now c\<rparr>"

definition create_approval_tx :: "governance_command \<Rightarrow> Actor \<Rightarrow> CreateApprovalInput \<Rightarrow> (governance_store, ApprovalRecord) stx" where
  "create_approval_tx c a v =
    (let ctx = gc_ctx c; approval = new_approval c a v in
    tx_bind (authorizeApprovalSubject ctx a v) (\<lambda>_.
    tx_bind (if cai_EvidenceID v = [] then tx_return ()
      else tx_bind (tx_map_error mapControlWriteError (ApprovalEvidenceExists ctx (actor_TenantID a) (cai_EvidenceID v))) (\<lambda>exists.
        tx_fail_if (\<not> exists) ErrNotFound)) (\<lambda>_.
    tx_bind (tx_fail_if (\<not> validControlText (apr_ID approval) 1024 True) ErrValidation) (\<lambda>_.
    tx_bind (governance_context ctx) (\<lambda>_.
    tx_bind (governance_write ctx (InsertApprovalRecord approval)) (\<lambda>_.
    tx_bind (tx_fail_if (\<not> validControlText (gc_newID c ''ace'') 1024 True) ErrValidation) (\<lambda>_.
    tx_bind (governance_context ctx) (\<lambda>_.
    tx_bind (tx_mutate ctx (catalog_append (gc_hasher c)
      (governance_event c a (gc_now c) ''approval.created'' ''approval'' (apr_ID approval)))) (\<lambda>_.
    tx_return approval)))))))))"

definition CreateApprovalRecord :: "governance_command \<Rightarrow> Actor \<Rightarrow> CreateApprovalInput \<Rightarrow> (governance_store, ApprovalRecord) stx" where
  "CreateApprovalRecord c a v =
    tx_bind (prepareApproval (gc_ctx c) a v) (\<lambda>v.
    tx_bind (tx_fail_if (is_zero_time (gc_now c)) ErrValidation) (\<lambda>_.
    execute_governance c (create_approval_tx c a v)))"

text \<open>What the caller gets: the value and the store its unit committed.\<close>

definition run_governance :: "governance_command \<Rightarrow> (governance_store, 'a) stx \<Rightarrow> ('a \<times> governance_store) result" where
  "run_governance c m = (case m (0, gc_env c) of Inl e \<Rightarrow> Inl e | Inr (x, _, s) \<Rightarrow> Inr (x, s))"

end
