(* ===== verification/Governance_Properties.thy ===== *)
theory Governance_Properties
  imports Governance_Commands Readiness_Runs
begin

text \<open>
  What a governance command did when it succeeded: for each of the five commands the row it wrote, the authority
  over the current owner of the subject that it had, and the one audit entry it appended.
\<close>

section \<open>Authority and reads\<close>

definition risk_request :: "Action \<Rightarrow> Evaluation \<Rightarrow> ResourceReferences \<Rightarrow> Request" where
  "risk_request action e refs = \<lparr>req_Action = action, req_Resources = refs, req_Evaluation = e\<rparr>"

lemma risk_authorizer_permits:
  assumes "riskResourceWriteAuthorizer action ctx a r = None"
  shows "permits a (risk_request action (if areq_ScopeOnly r then ScopeEvaluation
    else if areq_TenantWide r then TenantEvaluation else ResolvedEvaluation) (areq_Resources r))"
  using assms by (auto simp: riskResourceWriteAuthorizer_def risk_request_def split: if_splits dest!: Authorize_permitsD)

text \<open>The reference monitor lets the actor act on a subject with this owner.\<close>

definition may_govern :: "Action \<Rightarrow> Actor \<Rightarrow> owner \<Rightarrow> bool" where
  "may_govern action a = (\<lambda>(product, release).
    permits a (risk_request action (if product = [] then TenantEvaluation else ResolvedEvaluation)
      (no_refs\<lparr>ref_ProductID := product, ref_ReleaseID := release\<rparr>)))"

lemma risk_authorize_Inr:
  "risk_authorize authorizer ctx a r st = Inr (u, st') \<longleftrightarrow>
    authorizer (ctx_drop (fst st) ctx) a r = None \<and> st' = (fst st + 2, snd st)"
  by (auto simp: risk_authorize_def tx_success)

lemma subject_request_permits:
  "riskResourceWriteAuthorizer action ctx a (subject_request action v) = None \<Longrightarrow>
    may_govern action a (gsr_ProductID v, gsr_ReleaseID v)"
  by (auto simp: subject_request_def subjectResources_def may_govern_def dest!: risk_authorizer_permits split: if_splits)

lemma resource_request_permits:
  "riskResourceWriteAuthorizer action ctx a (resource_request action (subjectResources v)) = None \<Longrightarrow> gsr_ProductID v \<noteq> [] \<Longrightarrow>
    may_govern action a (gsr_ProductID v, gsr_ReleaseID v)"
  by (auto simp: subjectResources_def may_govern_def dest!: risk_authorizer_permits)

lemma memoryGovernanceRead_Inr [tx_success]:
  "memoryGovernanceRead ctx tenant i read st = Inr (x, st') \<longleftrightarrow>
    ctx_err ctx (fst st) = None \<and> governance_text tenant \<and> governance_text i \<and> ctx_err ctx (fst st + 1) = None \<and>
    requireMemoryTenant (cs_rows (snd st)) tenant = None \<and> read (snd st) = Inr x \<and> st' = (fst st + 2, snd st)"
  by (auto simp: memoryGovernanceRead_def tx_success)

lemma subject_of_kinds_Inr:
  "subject_of_kinds kinds ctx tenant kind i st = Inr (v, st') \<Longrightarrow>
    kind \<in> set kinds \<and> memoryGovernanceOwner (snd st) tenant kind i = Inr (gsr_ProductID v, gsr_ReleaseID v) \<and> snd st' = snd st"
  by (auto simp: subject_of_kinds_def readSubject_def tx_success split: if_splits)

lemma control_owner_owned: "control_owner state t i = Inr o' \<Longrightarrow> o' = ([], []) \<and> control_owned state t i"
  by (auto simp: control_owner_def control_owned_def split: option.splits if_splits)

lemma release_owner_row:
  assumes "release_owner state t i = Inr (p, r)"
  shows "r = i" and "\<exists>row. tbl_get (Releases state) i = Some row \<and> rel_ID row = i \<and> rel_TenantID row = t \<and> rel_ProductID row = p"
  using assms by (auto simp: release_owner_def product_release_def split: option.splits if_splits)

text \<open>What the scope of an exception has to be for its commands to act on it.\<close>

definition exception_scope :: "governance_store \<Rightarrow> Actor \<Rightarrow> string \<Rightarrow> string \<Rightarrow> string \<Rightarrow> bool" where
  "exception_scope s a releaseID findingID controlID \<longleftrightarrow>
    (\<exists>product. product \<noteq> [] \<and> release_owner (cs_rows s) (actor_TenantID a) releaseID = Inr (product, releaseID) \<and>
      may_govern ActionExceptionsManage a (product, releaseID) \<and>
      (findingID \<noteq> [] \<longrightarrow> memoryGovernanceFinding (cs_rows s) (actor_TenantID a) findingID = Inr (product, releaseID))) \<and>
    (controlID \<noteq> [] \<longrightarrow> control_owned (cs_rows s) (actor_TenantID a) controlID)"

lemma exception_subject_Inr:
  "exception_subject ctx a kind i st = Inr (v, st') \<Longrightarrow>
    scope_owner (snd st) (actor_TenantID a) kind i = Inr (gsr_ProductID v, gsr_ReleaseID v) \<and> snd st' = snd st"
  by (auto simp: exception_subject_def ReadExceptionSubject_def memoryGovernanceOwner_def tx_success dest!: subject_of_kinds_Inr)

lemma authorizeExceptionScope_Inr:
  assumes "authorizeExceptionScope ctx a r f k st = Inr (u, st')"
  shows "exception_scope (snd st) a r f k" and "snd st' = snd st"
proof -
  have authorize: "exception_authorize ctx a q st1 = Inr (u1, st2) \<Longrightarrow> snd st2 = snd st1 \<and> (\<exists>c. riskResourceWriteAuthorizer ActionExceptionsManage c a q = None)"
    for q st1 u1 st2
    by (auto simp: exception_authorize_def risk_authorize_Inr NewExceptionWriteAuthorizer_def)
  from assms obtain u0 st1 release st2 u3 st3 u4 st4 u5 where
    au0: "exception_authorize ctx a (scope_request ActionExceptionsManage) st = Inr (u0, st1)" and rel: "exception_subject ctx a ''release'' r st1 = Inr (release, st2)"
    and ok: "gsr_ProductID release \<noteq> []" "gsr_ReleaseID release = r"
    and au: "exception_authorize ctx a (resource_request ActionExceptionsManage (subjectResources release)) st2 = Inr (u3, st3)"
    and fin: "(if f = [] then tx_return () else tx_bind (exception_subject ctx a ''finding'' f) (\<lambda>finding.
        tx_fail_if (\<not> validGovernanceSubject finding (actor_TenantID a) ''finding'' f \<or>
          gsr_ProductID finding \<noteq> gsr_ProductID release \<or> gsr_ReleaseID finding \<noteq> r) ErrNotFound)) st3 = Inr (u4, st4)"
    and ctl: "(if k = [] then tx_return () else tx_bind (exception_subject ctx a ''control'' k) (\<lambda>control.
      tx_fail_if (\<not> validGovernanceSubject control (actor_TenantID a) ''control'' k \<or>
        gsr_ProductID control \<noteq> [] \<or> gsr_ReleaseID control \<noteq> []) ErrNotFound)) st4 = Inr (u5, st')"
    by (auto simp: authorizeExceptionScope_def tx_bind_Inr tx_fail_if_Inr)
  note rel' = exception_subject_Inr [OF rel]
  have 1: "snd st1 = snd st" using authorize [OF au0] by simp
  have 3: "snd st3 = snd st" using rel' authorize [OF au] 1 by simp
  have owner: "release_owner (cs_rows (snd st)) (actor_TenantID a) r = Inr (gsr_ProductID release, r)"
    using rel' ok 1 by (simp add: scope_owner_def)
  have may: "may_govern ActionExceptionsManage a (gsr_ProductID release, r)"
    using authorize [OF au] ok resource_request_permits by fastforce
  have f: "snd st4 = snd st" "f \<noteq> [] \<Longrightarrow> memoryGovernanceFinding (cs_rows (snd st)) (actor_TenantID a) f = Inr (gsr_ProductID release, r)"
    using fin 3 by (auto simp: tx_success scope_owner_def split: if_splits dest!: exception_subject_Inr)
  have k: "snd st' = snd st" "k \<noteq> [] \<Longrightarrow> control_owned (cs_rows (snd st)) (actor_TenantID a) k"
    using ctl f(1) by (auto simp: tx_success scope_owner_def split: if_splits dest!: exception_subject_Inr control_owner_owned)
  show "exception_scope (snd st) a r f k" "snd st' = snd st"
    using owner may ok f(2) k by (auto simp: exception_scope_def)
qed

section \<open>What a successful command does\<close>

lemma governance_rows_Inr [tx_success]:
  "governance_rows f s = Inr s' \<longleftrightarrow> (\<exists>r. f (cs_rows s) = Inr r \<and> s' = s\<lparr>cs_rows := r\<rparr>)"
  by (auto simp: governance_rows_def)

lemma governance_write_Inr [tx_success]:
  "governance_write ctx f st = Inr (u, st') \<longleftrightarrow>
    ctx_err ctx (fst st) = None \<and> (\<exists>s'. f (snd st) = Inr s' \<and> st' = (fst st + 1, s'))"
  by (simp add: governance_write_def tx_success)

lemma governance_context_Inr [tx_success]:
  "governance_context ctx st = Inr (u, st') \<longleftrightarrow> \<not> nil_context ctx \<and> ctx_err ctx (fst st) = None \<and> st' = (fst st + 1, snd st)"
  by (auto simp: governance_context_def tx_success)

lemma appendGovernanceAudit_Inr:
  "appendGovernanceAudit c a now kind subject i st = Inr (u, st') \<Longrightarrow>
    appended (governance_event c a now kind subject i) (snd st) (snd st')"
  by (auto simp: appendGovernanceAudit_def tx_success dest!: catalog_append_appended)

lemma execute_governance_Inr:
  "execute_governance c m st = Inr (x, st') \<Longrightarrow> \<exists>n n'. m (n, gc_env c) = Inr (x, n', snd st')"
  by (auto simp: execute_governance_def tx_success) blast

lemma run_governance_Inr: "run_governance c m = Inr (x, s') \<Longrightarrow> \<exists>n. m (0, gc_env c) = Inr (x, n, s')"
  by (auto simp: run_governance_def split: sum.splits prod.splits)

subsection \<open>Exceptions\<close>

definition put_exception :: "Exception \<Rightarrow> governance_store \<Rightarrow> governance_store" where
  "put_exception x s = s\<lparr>cs_rows := (cs_rows s)\<lparr>Exceptions := tbl_put (Exceptions (cs_rows s)) (exc_ID x) x\<rparr>\<rparr>"

definition exception_created :: "governance_command \<Rightarrow> Actor \<Rightarrow> Exception \<Rightarrow> governance_store \<Rightarrow> governance_store \<Rightarrow> bool" where
  "exception_created c a x s s' \<longleftrightarrow>
    tbl_get (Exceptions (cs_rows s)) (exc_ID x) = None \<and> exc_ID x \<noteq> [] \<and> exc_TenantID x = actor_TenantID a \<and> exc_Owner x \<noteq> [] \<and>
    exc_Reason x \<noteq> [] \<and> \<not> exc_Approved x \<and> exc_ApprovedBy x = [] \<and> exc_ApprovedAt x = None \<and>
    exc_CreatedAt x = truncate_microsecond (gc_now c) \<and> exc_ExpiresAt x > exc_CreatedAt x \<and>
    exception_scope s a (exc_ReleaseID x) (exc_FindingID x) (exc_ControlID x) \<and>
    appended (governance_event c a (exc_CreatedAt x) ''exception.created'' ''exception'' (exc_ID x)) (put_exception x s) s'"

lemma InsertException_Inr:
  "InsertException x r = Inr r' \<Longrightarrow> tbl_get (Exceptions r) (exc_ID x) = None \<and> exc_ID x \<noteq> [] \<and> exc_Owner x \<noteq> [] \<and> exc_Reason x \<noteq> [] \<and>
    \<not> exc_Approved x \<and> exc_ApprovedBy x = [] \<and> exc_ApprovedAt x = None \<and> exc_ExpiresAt x > exc_CreatedAt x \<and>
    r' = r\<lparr>Exceptions := tbl_put (Exceptions r) (exc_ID x) x\<rparr>"
  by (auto simp: InsertException_def split: if_splits)

lemma create_exception_tx_Inr:
  assumes "create_exception_tx c a x now st = Inr (u, st')" "exc_TenantID x = actor_TenantID a" "exc_CreatedAt x = now"
    and "now = truncate_microsecond (gc_now c)"
  shows "exception_created c a x (snd st) (snd st')"
proof -
  from assms(1) obtain u1 st1 r st2 where
    sc: "authorizeExceptionScope (gc_ctx c) a (exc_ReleaseID x) (exc_FindingID x) (exc_ControlID x) st = Inr (u1, st1)"
    and ins: "InsertException x (cs_rows (snd st1)) = Inr r" and st2: "snd st2 = (snd st1)\<lparr>cs_rows := r\<rparr>"
    and au: "appendGovernanceAudit c a now ''exception.created'' ''exception'' (exc_ID x) st2 = Inr (u, st')"
    by (auto simp: create_exception_tx_def tx_success)
  from authorizeExceptionScope_Inr [OF sc] InsertException_Inr [OF ins] appendGovernanceAudit_Inr [OF au] st2 assms(2-4)
  show ?thesis by (simp add: exception_created_def put_exception_def)
qed

lemma CreateException_effect:
  assumes "run_governance c (CreateException c a v) = Inr (x, s')"
  shows "exception_created c a x (gc_env c) s'"
proof -
  from run_governance_Inr [OF assms] obtain v' st1 st2 u where
    x: "x = new_exception c a v' (truncate_microsecond (gc_now c))"
    and ex: "execute_governance c (create_exception_tx c a x (truncate_microsecond (gc_now c))) st1 = Inr (u, st2)" "snd st2 = s'"
    by (auto simp: CreateException_def Let_def tx_success)
  from execute_governance_Inr [OF ex(1)] obtain n n' where
    "create_exception_tx c a x (truncate_microsecond (gc_now c)) (n, gc_env c) = Inr (u, n', snd st2)" by blast
  from create_exception_tx_Inr [OF this] x ex(2) show ?thesis by (simp add: new_exception_def)
qed

definition exception_approved :: "governance_command \<Rightarrow> Actor \<Rightarrow> Exception \<Rightarrow> Exception \<Rightarrow> governance_store \<Rightarrow> governance_store \<Rightarrow> bool" where
  "exception_approved c a row x s s' \<longleftrightarrow>
    (let now = truncate_microsecond (gc_now c) in
     tbl_get (Exceptions (cs_rows s)) (exc_ID row) = Some row \<and> exc_TenantID row = actor_TenantID a \<and>
     \<not> exc_Approved row \<and> now < exc_ExpiresAt row \<and> auditActorID a \<noteq> [] \<and>
     x = row\<lparr>exc_Approved := True, exc_ApprovedBy := auditActorID a, exc_ApprovedAt := Some now\<rparr> \<and>
     exception_scope s a (exc_ReleaseID row) (exc_FindingID row) (exc_ControlID row) \<and>
     appended (governance_event c a now ''exception.approved'' ''exception'' (exc_ID x)) (put_exception x s) s')"

definition exception_already :: "Actor \<Rightarrow> Exception \<Rightarrow> governance_store \<Rightarrow> governance_store \<Rightarrow> bool" where
  "exception_already a x s s' \<longleftrightarrow>
    tbl_get (Exceptions (cs_rows s)) (exc_ID x) = Some x \<and> exc_TenantID x = actor_TenantID a \<and> exc_Approved x \<and> approval_recorded x \<and>
    exception_scope s a (exc_ReleaseID x) (exc_FindingID x) (exc_ControlID x) \<and> s' = s"

lemma authorizeExceptionApproval_Inr:
  assumes "authorizeExceptionApproval ctx a i st = Inr (v, st')"
  shows "exception_scope (snd st) a (ets_ReleaseID v) (ets_FindingID v) (ets_ControlID v)" and "snd st' = snd st"
proof -
  from assms obtain u st1 u2 where st1: "snd st1 = snd st"
    and sc: "authorizeExceptionScope ctx a (ets_ReleaseID v) (ets_FindingID v) (ets_ControlID v) st1 = Inr (u2, st')"
    by (auto simp: authorizeExceptionApproval_def exception_authorize_def risk_authorize_Inr ReadExceptionTransitionState_def tx_success)
  from authorizeExceptionScope_Inr [OF sc] st1
  show "exception_scope (snd st) a (ets_ReleaseID v) (ets_FindingID v) (ets_ControlID v)" "snd st' = snd st" by simp_all
qed

lemma ReadExceptionForApproval_Inr:
  "ReadExceptionForApproval ctx t i st = Inr (x, st') \<Longrightarrow>
    tbl_get (Exceptions (cs_rows (snd st))) i = Some x \<and> exc_ID x = i \<and> exc_TenantID x = t \<and> snd st' = snd st"
  by (auto simp: ReadExceptionForApproval_def tx_success split: option.splits if_splits)

lemma ApproveException_Inr:
  "ApproveException x r = Inr r' \<Longrightarrow> exc_ApprovedBy x \<noteq> [] \<and> r' = r\<lparr>Exceptions := tbl_put (Exceptions r) (exc_ID x) x\<rparr>"
  by (auto simp: ApproveException_def split: option.splits if_splits)

lemma approve_exception_tx_Inr:
  assumes "approve_exception_tx c a i now st = Inr (x, st')" "now = truncate_microsecond (gc_now c)"
  shows "(\<exists>row. exception_approved c a row x (snd st) (snd st')) \<or> exception_already a x (snd st) (snd st')"
proof -
  let ?approved = "\<lambda>row. row\<lparr>exc_Approved := True, exc_ApprovedBy := auditActorID a, exc_ApprovedAt := Some now\<rparr>"
  from assms(1) obtain state st1 row st2 where
    au: "authorizeExceptionApproval (gc_ctx c) a i st = Inr (state, st1)" and exp: "now < ets_ExpiresAt state"
    and rd: "ReadExceptionForApproval (gc_ctx c) (actor_TenantID a) i st1 = Inr (row, st2)"
    and same: "\<not> exception_changed row a i state"
    and rest: "record_exception_approval c a now row st2 = Inr (x, st')"
    by (auto simp: approve_exception_tx_def Let_def tx_bind_Inr tx_fail_if_Inr tx_map_error_Inr)
  note scope = authorizeExceptionApproval_Inr [OF au] and row = ReadExceptionForApproval_Inr [OF rd]
  have coords: "exception_scope (snd st) a (exc_ReleaseID row) (exc_FindingID row) (exc_ControlID row)" "now < exc_ExpiresAt row"
    using scope same exp by (simp_all add: exception_changed_def)
  show ?thesis
  proof (cases "exc_Approved row")
    case True
    with rest row scope coords show ?thesis by (auto simp: record_exception_approval_def tx_success exception_already_def)
  next
    case False
    with rest obtain r u st3 where w: "ApproveException (?approved row) (cs_rows (snd st2)) = Inr r"
      and log: "appendGovernanceAudit c a now ''exception.approved'' ''exception'' (exc_ID (?approved row)) st3 = Inr (u, st')"
        "snd st3 = (snd st2)\<lparr>cs_rows := r\<rparr>" "x = ?approved row"
      by (auto simp: record_exception_approval_def Let_def tx_success)
    have "exception_approved c a row x (snd st) (snd st')"
      using appendGovernanceAudit_Inr [OF log(1)] log(2,3) ApproveException_Inr [OF w] row scope coords False assms(2)
      by (simp add: exception_approved_def put_exception_def)
    then show ?thesis by blast
  qed
qed

lemma ApproveException_effect:
  assumes "run_governance c (ApproveExceptionCommand c a i) = Inr (x, s')"
  shows "(\<exists>row. exception_approved c a row x (gc_env c) s') \<or> exception_already a x (gc_env c) s'"
proof -
  from run_governance_Inr [OF assms] obtain j st1 st2 where
    ex: "execute_governance c (approve_exception_tx c a j (truncate_microsecond (gc_now c))) st1 = Inr (x, st2)" "snd st2 = s'"
    by (auto simp: ApproveExceptionCommand_def Let_def tx_success)
  from execute_governance_Inr [OF ex(1)] obtain n n' where
    "approve_exception_tx c a j (truncate_microsecond (gc_now c)) (n, gc_env c) = Inr (x, n', snd st2)" by blast
  from approve_exception_tx_Inr [OF this] ex(2) show ?thesis by simp
qed

subsection \<open>Waivers\<close>

definition put_waiver :: "Waiver \<Rightarrow> governance_store \<Rightarrow> governance_store" where
  "put_waiver w s = s\<lparr>gs_Waivers := tbl_put (gs_Waivers s) (wv_ID w) w\<rparr>"

definition waiver_scope :: "governance_store \<Rightarrow> Actor \<Rightarrow> string \<Rightarrow> string \<Rightarrow> bool" where
  "waiver_scope s a kind i \<longleftrightarrow> validWaiverScope kind \<and>
    (\<exists>o'. scope_owner s (actor_TenantID a) kind i = Inr o' \<and> may_govern ActionWaiversManage a o')"

lemma waiver_subject_Inr:
  "waiver_subject ctx a kind i st = Inr (v, st') \<Longrightarrow>
    scope_owner (snd st) (actor_TenantID a) kind i = Inr (gsr_ProductID v, gsr_ReleaseID v) \<and> snd st' = snd st"
  by (auto simp: waiver_subject_def ReadWaiverSubject_def memoryGovernanceOwner_def tx_success dest!: subject_of_kinds_Inr)

lemma authorizeWaiverSubject_Inr:
  assumes "authorizeWaiverSubject ctx a kind i st = Inr (u, st')"
  shows "waiver_scope (snd st) a kind i" and "snd st' = snd st"
proof -
  from assms obtain v st1 where k: "validWaiverScope kind" and v: "waiver_subject ctx a kind i st = Inr (v, st1)"
    and au: "waiver_authorize ctx a (subject_request ActionWaiversManage v) st1 = Inr (u, st')"
    by (auto simp: authorizeWaiverSubject_def tx_success)
  from au have "may_govern ActionWaiversManage a (gsr_ProductID v, gsr_ReleaseID v)" "snd st' = snd st1"
    by (auto simp: waiver_authorize_def risk_authorize_Inr NewWaiverWriteAuthorizer_def dest!: subject_request_permits)
  with k waiver_subject_Inr [OF v] show "waiver_scope (snd st) a kind i" "snd st' = snd st"
    by (auto simp: waiver_scope_def)
qed

lemma ReadWaiverTransitionState_Inr:
  "ReadWaiverTransitionState ctx t i st = Inr (v, st') \<Longrightarrow> snd st' = snd st \<and>
    (\<exists>w. tbl_get (gs_Waivers (snd st)) i = Some w \<and> wv_ID w = i \<and> wv_TenantID w = t \<and> wts_ScopeType v = wv_ScopeType w \<and>
      wts_ScopeID v = wv_ScopeID w \<and> wts_SupersededBy v = wv_SupersededBy w \<and> wts_Approved v = wv_Approved w \<and>
      wts_ExpiresAt v = wv_ExpiresAt w)"
  by (auto simp: ReadWaiverTransitionState_def tx_success split: option.splits if_splits)

lemma readAuthorizedWaiverState_Inr:
  assumes "readAuthorizedWaiverState ctx a i st = Inr (v, st')"
  shows "snd st' = snd st \<and> (\<exists>w. tbl_get (gs_Waivers (snd st)) i = Some w \<and> wv_ID w = i \<and> wv_TenantID w = actor_TenantID a \<and>
    waiver_scope (snd st) a (wv_ScopeType w) (wv_ScopeID w) \<and> wts_SupersededBy v = wv_SupersededBy w \<and>
    wts_Approved v = wv_Approved w \<and> wts_ExpiresAt v = wv_ExpiresAt w)"
proof -
  from assms obtain st1 u st2 where r: "ReadWaiverTransitionState ctx (actor_TenantID a) i st = Inr (v, st1)"
    and au: "authorizeWaiverSubject ctx a (wts_ScopeType v) (wts_ScopeID v) st1 = Inr (u, st2)" "snd st' = snd st2"
    by (auto simp: readAuthorizedWaiverState_def tx_success)
  from ReadWaiverTransitionState_Inr [OF r] authorizeWaiverSubject_Inr [OF au(1)] au(2) show ?thesis by auto
qed

lemma linked_subject_keeps: "linked_subject ctx a kind i st = Inr (u, st') \<Longrightarrow> snd st' = snd st"
  by (auto simp: linked_subject_def tx_success split: if_splits dest!: waiver_subject_Inr)

lemma authorizeWaiverCreation_Inr:
  assumes "authorizeWaiverCreation ctx a v st = Inr (prior, st')"
  shows "waiver_scope (snd st) a (cwi_ScopeType v) (cwi_ScopeID v)" and "snd st' = snd st"
    and "cwi_Supersedes v \<noteq> [] \<Longrightarrow> \<exists>w state. prior = Some state \<and> tbl_get (gs_Waivers (snd st)) (cwi_Supersedes v) = Some w \<and>
      wv_ID w = cwi_Supersedes v \<and> waiver_scope (snd st) a (wv_ScopeType w) (wv_ScopeID w)"
proof -
  from assms obtain u0 st0 u1 st1 u2 st2 u3 st3 where
    0: "waiver_authorize ctx a (scope_request ActionWaiversManage) st = Inr (u0, st0)"
    and 1: "authorizeWaiverSubject ctx a (cwi_ScopeType v) (cwi_ScopeID v) st0 = Inr (u1, st1)"
    and 2: "linked_subject ctx a ''control'' (cwi_ControlID v) st1 = Inr (u2, st2)"
    and 3: "linked_subject ctx a ''policy'' (cwi_PolicyID v) st2 = Inr (u3, st3)"
    and 4: "(if cwi_Supersedes v = [] then tx_return None
      else tx_bind (readAuthorizedWaiverState ctx a (cwi_Supersedes v)) (\<lambda>prior. tx_return (Some prior))) st3 = Inr (prior, st')"
    by (auto simp: authorizeWaiverCreation_def tx_bind_Inr)
  have s0: "snd st0 = snd st" using 0 by (auto simp: waiver_authorize_def risk_authorize_Inr)
  have s3: "snd st3 = snd st"
    using s0 authorizeWaiverSubject_Inr(2) [OF 1] linked_subject_keeps [OF 2] linked_subject_keeps [OF 3] by simp
  show "waiver_scope (snd st) a (cwi_ScopeType v) (cwi_ScopeID v)" using authorizeWaiverSubject_Inr(1) [OF 1] s0 by simp
  show "snd st' = snd st" using 4 s3 by (auto simp: tx_success split: if_splits dest!: readAuthorizedWaiverState_Inr)
  show "\<exists>w state. prior = Some state \<and> tbl_get (gs_Waivers (snd st)) (cwi_Supersedes v) = Some w \<and> wv_ID w = cwi_Supersedes v \<and>
      waiver_scope (snd st) a (wv_ScopeType w) (wv_ScopeID w)" if "cwi_Supersedes v \<noteq> []"
    using 4 s3 that by (auto simp: tx_success dest!: readAuthorizedWaiverState_Inr)
qed

text \<open>The store after a waiver is inserted: the waiver it supersedes, if any, names it as its successor.\<close>

definition supersede :: "Waiver \<Rightarrow> governance_store \<Rightarrow> governance_store" where
  "supersede w s = (case tbl_get (gs_Waivers s) (wv_Supersedes w) of
     None \<Rightarrow> s | Some p \<Rightarrow> (if wv_Supersedes w = [] then s else put_waiver (p\<lparr>wv_SupersededBy := wv_ID w\<rparr>) s))"

definition waiver_created :: "governance_command \<Rightarrow> Actor \<Rightarrow> Waiver \<Rightarrow> governance_store \<Rightarrow> governance_store \<Rightarrow> bool" where
  "waiver_created c a w s s' \<longleftrightarrow>
    tbl_get (gs_Waivers s) (wv_ID w) = None \<and> wv_ID w \<noteq> [] \<and> wv_TenantID w = actor_TenantID a \<and> wv_Owner w \<noteq> [] \<and> wv_Risk w \<noteq> [] \<and>
    wv_Reason w \<noteq> [] \<and> \<not> wv_Approved w \<and> wv_ApprovedBy w = [] \<and> wv_ApprovedAt w = None \<and> wv_SupersededBy w = [] \<and>
    wv_CreatedAt w = truncate_microsecond (gc_now c) \<and> wv_ExpiresAt w > wv_CreatedAt w \<and>
    waiver_scope s a (wv_ScopeType w) (wv_ScopeID w) \<and>
    (wv_Supersedes w \<noteq> [] \<longrightarrow> (\<exists>p. tbl_get (gs_Waivers s) (wv_Supersedes w) = Some p \<and> wv_ID p = wv_Supersedes w \<and>
      wv_TenantID p = wv_TenantID w \<and> wv_SupersededBy p = [] \<and> waiver_scope s a (wv_ScopeType p) (wv_ScopeID p))) \<and>
    appended (governance_event c a (wv_CreatedAt w) ''waiver.created'' ''waiver'' (wv_ID w)) (put_waiver w (supersede w s)) s'"

lemma InsertWaiver_Inr:
  assumes "InsertWaiver w s = Inr s'"
  shows "tbl_get (gs_Waivers s) (wv_ID w) = None" and "wv_ID w \<noteq> []" and "wv_Owner w \<noteq> []" and "wv_Risk w \<noteq> []" and "wv_Reason w \<noteq> []"
    and "wv_ExpiresAt w > wv_CreatedAt w"
    and "wv_Supersedes w \<noteq> [] \<Longrightarrow> \<exists>p. tbl_get (gs_Waivers s) (wv_Supersedes w) = Some p \<and> wv_TenantID p = wv_TenantID w \<and> wv_SupersededBy p = []"
    and "s' = put_waiver w (supersede w s)"
  using assms by (auto simp: InsertWaiver_def put_waiver_def supersede_def Let_def split: if_splits option.splits)

lemma create_waiver_tx_Inr:
  assumes "create_waiver_tx c a v w now st = Inr (u, st')" "w = new_waiver c a v now" "now = truncate_microsecond (gc_now c)"
  shows "waiver_created c a w (snd st) (snd st')"
proof -
  from assms(1) obtain prior st1 s2 st2 where
    sc: "authorizeWaiverCreation (gc_ctx c) a v st = Inr (prior, st1)" and ins: "InsertWaiver w (snd st1) = Inr (snd st2)"
    and au: "appendGovernanceAudit c a now ''waiver.created'' ''waiver'' (wv_ID w) st2 = Inr (u, st')"
    by (auto simp: create_waiver_tx_def tx_success)
  note sc' = authorizeWaiverCreation_Inr [OF sc]
  have p: "wv_Supersedes w \<noteq> [] \<Longrightarrow> \<exists>p. tbl_get (gs_Waivers (snd st)) (wv_Supersedes w) = Some p \<and> wv_ID p = wv_Supersedes w \<and>
      wv_TenantID p = wv_TenantID w \<and> wv_SupersededBy p = [] \<and> waiver_scope (snd st) a (wv_ScopeType p) (wv_ScopeID p)"
    using sc'(2,3) InsertWaiver_Inr(7) [OF ins] by (auto simp: assms(2) new_waiver_def)
  have f: "wv_TenantID w = actor_TenantID a" "\<not> wv_Approved w" "wv_ApprovedBy w = []" "wv_ApprovedAt w = None" "wv_SupersededBy w = []"
    "wv_CreatedAt w = truncate_microsecond (gc_now c)" "wv_ScopeType w = cwi_ScopeType v" "wv_ScopeID w = cwi_ScopeID v"
    by (simp_all add: assms(2,3) new_waiver_def)
  from InsertWaiver_Inr [OF ins] appendGovernanceAudit_Inr [OF au] sc'(1,2) p f assms(3)
  show ?thesis by (simp add: waiver_created_def)
qed

lemma CreateWaiver_effect:
  assumes "run_governance c (CreateWaiver c a v) = Inr (w, s')"
  shows "waiver_created c a w (gc_env c) s'"
proof -
  from run_governance_Inr [OF assms] obtain v' st1 st2 u where
    w: "w = new_waiver c a v' (truncate_microsecond (gc_now c))"
    and ex: "execute_governance c (create_waiver_tx c a v' w (truncate_microsecond (gc_now c))) st1 = Inr (u, st2)" "snd st2 = s'"
    by (auto simp: CreateWaiver_def Let_def tx_success)
  from execute_governance_Inr [OF ex(1)] obtain n n' where
    "create_waiver_tx c a v' w (truncate_microsecond (gc_now c)) (n, gc_env c) = Inr (u, n', snd st2)" by blast
  from create_waiver_tx_Inr [OF this w] ex(2) show ?thesis by simp
qed

definition waiver_approved :: "governance_command \<Rightarrow> Actor \<Rightarrow> Waiver \<Rightarrow> Waiver \<Rightarrow> governance_store \<Rightarrow> governance_store \<Rightarrow> bool" where
  "waiver_approved c a row w s s' \<longleftrightarrow>
    (let now = truncate_microsecond (gc_now c) in
     tbl_get (gs_Waivers s) (wv_ID row) = Some row \<and> wv_TenantID row = actor_TenantID a \<and>
     \<not> wv_Approved row \<and> now < wv_ExpiresAt row \<and> auditActorID a \<noteq> [] \<and>
     w = row\<lparr>wv_Approved := True, wv_ApprovedBy := auditActorID a, wv_ApprovedAt := Some now\<rparr> \<and>
     waiver_scope s a (wv_ScopeType row) (wv_ScopeID row) \<and>
     appended (governance_event c a now ''waiver.approved'' ''waiver'' (wv_ID w)) (put_waiver w s) s')"

lemma ApproveWaiver_Inr:
  "ApproveWaiver w s = Inr s' \<Longrightarrow> wv_ApprovedBy w \<noteq> [] \<and> s' = put_waiver w s"
  by (auto simp: ApproveWaiver_def put_waiver_def split: option.splits if_splits)

lemma ReadWaiverForApproval_Inr:
  "ReadWaiverForApproval ctx t i st = Inr (w, st') \<Longrightarrow>
    tbl_get (gs_Waivers (snd st)) i = Some w \<and> wv_ID w = i \<and> wv_TenantID w = t \<and> snd st' = snd st"
  by (auto simp: ReadWaiverForApproval_def tx_success split: option.splits if_splits)

lemma approve_waiver_tx_Inr:
  assumes "approve_waiver_tx c a i now st = Inr (w, st')" "now = truncate_microsecond (gc_now c)"
  shows "\<exists>row. waiver_approved c a row w (snd st) (snd st')"
proof -
  let ?approved = "\<lambda>row. row\<lparr>wv_Approved := True, wv_ApprovedBy := auditActorID a, wv_ApprovedAt := Some now\<rparr>"
  from assms(1) obtain u0 st0 state st1 row st2 s3 st3 u where
    0: "waiver_authorize (gc_ctx c) a (scope_request ActionWaiversManage) st = Inr (u0, st0)"
    and au: "readAuthorizedWaiverState (gc_ctx c) a i st0 = Inr (state, st1)"
    and ok: "\<not> wts_Approved state" "now < wts_ExpiresAt state"
    and rd: "ReadWaiverForApproval (gc_ctx c) (actor_TenantID a) i st1 = Inr (row, st2)"
    and wr: "ApproveWaiver (?approved row) (snd st2) = Inr (snd st3)"
    and log: "appendGovernanceAudit c a now ''waiver.approved'' ''waiver'' (wv_ID row) st3 = Inr (u, st')"
    and w: "w = ?approved row"
    by (auto simp: approve_waiver_tx_def authorizeWaiverApproval_def Let_def tx_success)
  have s0: "snd st0 = snd st" using 0 by (auto simp: waiver_authorize_def risk_authorize_Inr)
  note au' = readAuthorizedWaiverState_Inr [OF au] and rd' = ReadWaiverForApproval_Inr [OF rd]
  have row: "waiver_scope (snd st) a (wv_ScopeType row) (wv_ScopeID row)" "\<not> wv_Approved row" "now < wv_ExpiresAt row"
    "tbl_get (gs_Waivers (snd st)) i = Some row" "wv_ID row = i" "wv_TenantID row = actor_TenantID a" "snd st2 = snd st"
    using au' rd' s0 ok by auto
  have "waiver_approved c a row w (snd st) (snd st')"
    using row ApproveWaiver_Inr [OF wr] appendGovernanceAudit_Inr [OF log] assms(2) w
    by (simp add: waiver_approved_def)
  then show ?thesis by blast
qed

lemma ApproveWaiver_effect:
  assumes "run_governance c (ApproveWaiverCommand c a i) = Inr (w, s')"
  shows "\<exists>row. waiver_approved c a row w (gc_env c) s'"
proof -
  from run_governance_Inr [OF assms] obtain j st1 st2 where
    ex: "execute_governance c (approve_waiver_tx c a j (truncate_microsecond (gc_now c))) st1 = Inr (w, st2)" "snd st2 = s'"
    by (auto simp: ApproveWaiverCommand_def Let_def tx_success)
  from execute_governance_Inr [OF ex(1)] obtain n n' where
    "approve_waiver_tx c a j (truncate_microsecond (gc_now c)) (n, gc_env c) = Inr (w, n', snd st2)" by blast
  from approve_waiver_tx_Inr [OF this] ex(2) show ?thesis by simp
qed

subsection \<open>Approval records\<close>

definition put_approval :: "ApprovalRecord \<Rightarrow> governance_store \<Rightarrow> governance_store" where
  "put_approval v s = s\<lparr>gs_Approvals := tbl_put (gs_Approvals s) (apr_ID v) v\<rparr>"

definition approval_created :: "governance_command \<Rightarrow> Actor \<Rightarrow> ApprovalRecord \<Rightarrow> governance_store \<Rightarrow> governance_store \<Rightarrow> bool" where
  "approval_created c a v s s' \<longleftrightarrow>
    tbl_get (gs_Approvals s) (apr_ID v) = None \<and> apr_TenantID v = actor_TenantID a \<and> apr_ApproverID v = auditActorID a \<and>
    apr_ApproverID v \<noteq> [] \<and>
    (\<exists>o'. memoryGovernanceOwner s (actor_TenantID a) (apr_SubjectType v) (apr_SubjectID v) = Inr o' \<and> may_govern ActionApprovalsRecord a o') \<and>
    appended (governance_event c a (apr_CreatedAt v) ''approval.created'' ''approval'' (apr_ID v)) (put_approval v s) s'"

lemma authorizeApprovalSubject_Inr:
  assumes "authorizeApprovalSubject ctx a v st = Inr (u, st')"
  shows "\<exists>o'. memoryGovernanceOwner (snd st) (actor_TenantID a) (cai_SubjectType v) (cai_SubjectID v) = Inr o' \<and>
    may_govern ActionApprovalsRecord a o'" and "snd st' = snd st"
proof -
  from assms obtain u0 st0 subject st1 where
    0: "approval_authorize ctx a (scope_request ActionApprovalsRecord) st = Inr (u0, st0)"
    and rd: "ReadApprovalSubject ctx (actor_TenantID a) (cai_SubjectType v) (cai_SubjectID v) st0 = Inr (subject, st1)"
    and au: "approval_authorize ctx a (subject_request ActionApprovalsRecord subject) st1 = Inr (u, st')"
    by (auto simp: authorizeApprovalSubject_def tx_success)
  have s0: "snd st0 = snd st" using 0 by (auto simp: approval_authorize_def risk_authorize_Inr)
  from au have "may_govern ActionApprovalsRecord a (gsr_ProductID subject, gsr_ReleaseID subject)" "snd st' = snd st1"
    by (auto simp: approval_authorize_def risk_authorize_Inr NewApprovalWriteAuthorizer_def dest!: subject_request_permits)
  with subject_of_kinds_Inr [OF rd [unfolded ReadApprovalSubject_def]] s0
  show "\<exists>o'. memoryGovernanceOwner (snd st) (actor_TenantID a) (cai_SubjectType v) (cai_SubjectID v) = Inr o' \<and>
    may_govern ActionApprovalsRecord a o'" "snd st' = snd st" by auto
qed

lemma InsertApprovalRecord_Inr:
  "InsertApprovalRecord v s = Inr s' \<Longrightarrow> tbl_get (gs_Approvals s) (apr_ID v) = None \<and> apr_ApproverID v \<noteq> [] \<and> s' = put_approval v s"
  by (auto simp: InsertApprovalRecord_def put_approval_def split: if_splits)

lemma create_approval_tx_Inr:
  assumes "create_approval_tx c a v st = Inr (r, st')"
  shows "r = new_approval c a v" and "approval_created c a r (snd st) (snd st')"
proof -
  let ?r = "new_approval c a v"
  from assms obtain u0 st0 u1 st1 s2 s3 where
    0: "authorizeApprovalSubject (gc_ctx c) a v st = Inr (u0, st0)"
    and 1: "(if cai_EvidenceID v = [] then tx_return ()
      else tx_bind (tx_map_error mapControlWriteError (ApprovalEvidenceExists (gc_ctx c) (actor_TenantID a) (cai_EvidenceID v))) (\<lambda>exists.
        tx_fail_if (\<not> exists) ErrNotFound)) st0 = Inr (u1, st1)"
    and ins: "InsertApprovalRecord ?r (snd st1) = Inr s2"
    and log: "catalog_append (gc_hasher c) (governance_event c a (gc_now c) ''approval.created'' ''approval'' (apr_ID ?r)) s2 = Inr (snd st')"
    and r: "r = ?r"
    by (auto simp: create_approval_tx_def Let_def tx_success)
  show "r = ?r" by (rule r)
  have s1: "snd st1 = snd st0"
    using 1 by (auto simp: ApprovalEvidenceExists_def tx_success split: if_splits)
  note subj = authorizeApprovalSubject_Inr [OF 0]
  show "approval_created c a r (snd st) (snd st')"
    using subj s1 InsertApprovalRecord_Inr [OF ins] catalog_append_appended [OF log]
    by (simp add: r approval_created_def new_approval_def)
qed

lemma CreateApprovalRecord_effect:
  assumes "run_governance c (CreateApprovalRecord c a v) = Inr (r, s')"
  shows "approval_created c a r (gc_env c) s'"
proof -
  from run_governance_Inr [OF assms] obtain v' st1 st2 where
    ex: "execute_governance c (create_approval_tx c a v') st1 = Inr (r, st2)" "snd st2 = s'"
    by (auto simp: CreateApprovalRecord_def tx_success)
  from execute_governance_Inr [OF ex(1)] obtain n n' where "create_approval_tx c a v' (n, gc_env c) = Inr (r, n', snd st2)" by blast
  from create_approval_tx_Inr(2) [OF this] ex(2) show ?thesis by simp
qed

end
