(* ===== verification/Governance_Lifecycle.thy ===== *)
theory Governance_Lifecycle
  imports Governance_Properties
begin

text \<open>
  The governance commands as a step relation on committed stores: the rows they keep well formed, what later
  steps keep of a row (the locale \<open>forward_rows\<close>, interpreted on the three tables), and the confinement of each
  step to the tenant and the authority of its actor.
\<close>

section \<open>Commands as steps\<close>

datatype governance_call =
    NewException CreateExceptionInput
  | ExceptionApproval string
  | NewWaiver CreateWaiverInput
  | WaiverApproval string
  | NewApproval CreateApprovalInput

fun governance_exec :: "governance_command \<Rightarrow> Actor \<Rightarrow> governance_call \<Rightarrow> governance_store result" where
  "governance_exec c a (NewException v) = map_sum id snd (run_governance c (CreateException c a v))"
| "governance_exec c a (ExceptionApproval i) = map_sum id snd (run_governance c (ApproveExceptionCommand c a i))"
| "governance_exec c a (NewWaiver v) = map_sum id snd (run_governance c (CreateWaiver c a v))"
| "governance_exec c a (WaiverApproval i) = map_sum id snd (run_governance c (ApproveWaiverCommand c a i))"
| "governance_exec c a (NewApproval v) = map_sum id snd (run_governance c (CreateApprovalRecord c a v))"

inductive governance_step :: "governance_store \<Rightarrow> governance_store \<Rightarrow> bool" where
  "governance_exec c a call = Inr s' \<Longrightarrow> governance_step (gc_env c) s'"

inductive_cases governance_stepE: "governance_step s s'"

text \<open>The five ways in which a call can change the store, and the one in which it does not.\<close>

lemma governance_exec_effect:
  assumes "governance_exec c a call = Inr s'"
  obtains (exception) x where "exception_created c a x (gc_env c) s'"
    | (exception_approval) row x where "exception_approved c a row x (gc_env c) s'"
    | (already) x where "exception_already a x (gc_env c) s'"
    | (waiver) w where "waiver_created c a w (gc_env c) s'"
    | (waiver_approval) row w where "waiver_approved c a row w (gc_env c) s'"
    | (approval) v where "approval_created c a v (gc_env c) s'"
proof -
  have run: "map_sum id snd (run_governance c m) = Inr s' \<Longrightarrow> \<exists>v. run_governance c m = Inr (v, s')" for m :: "(governance_store, 'b) stx"
    by (cases "run_governance c m") auto
  show thesis
    using assms that
    by (cases call)
      (auto dest!: run CreateException_effect ApproveException_effect CreateWaiver_effect ApproveWaiver_effect CreateApprovalRecord_effect)
qed

section \<open>Well-formed rows\<close>

definition exception_wf :: "string \<Rightarrow> Exception \<Rightarrow> bool" where
  "exception_wf i x \<longleftrightarrow> exc_ID x = i \<and> exc_Owner x \<noteq> [] \<and> exc_Reason x \<noteq> [] \<and> exc_CreatedAt x < exc_ExpiresAt x \<and>
    (if exc_Approved x then exc_ApprovedBy x \<noteq> [] \<and> (\<exists>t. exc_ApprovedAt x = Some t \<and> t < exc_ExpiresAt x)
     else exc_ApprovedBy x = [] \<and> exc_ApprovedAt x = None)"

definition waiver_wf :: "string \<Rightarrow> Waiver \<Rightarrow> bool" where
  "waiver_wf i w \<longleftrightarrow> wv_ID w = i \<and> i \<noteq> [] \<and> wv_Owner w \<noteq> [] \<and> wv_Risk w \<noteq> [] \<and> wv_Reason w \<noteq> [] \<and> wv_CreatedAt w < wv_ExpiresAt w \<and>
    (if wv_Approved w then wv_ApprovedBy w \<noteq> [] \<and> (\<exists>t. wv_ApprovedAt w = Some t \<and> t < wv_ExpiresAt w)
     else wv_ApprovedBy w = [] \<and> wv_ApprovedAt w = None)"

text \<open>Supersession links the waivers of a tenant in both directions.\<close>

definition waiver_linked :: "(string, Waiver) table \<Rightarrow> Waiver \<Rightarrow> bool" where
  "waiver_linked t w \<longleftrightarrow>
    (wv_Supersedes w \<noteq> [] \<longrightarrow>
      (\<exists>p. tbl_get t (wv_Supersedes w) = Some p \<and> wv_SupersededBy p = wv_ID w \<and> wv_TenantID p = wv_TenantID w)) \<and>
    (wv_SupersededBy w \<noteq> [] \<longrightarrow>
      (\<exists>n. tbl_get t (wv_SupersededBy w) = Some n \<and> wv_Supersedes n = wv_ID w \<and> wv_TenantID n = wv_TenantID w))"

definition governance_ok :: "governance_store \<Rightarrow> bool" where
  "governance_ok s \<longleftrightarrow>
    (\<forall>i x. tbl_get (Exceptions (cs_rows s)) i = Some x \<longrightarrow> exception_wf i x) \<and>
    (\<forall>i w. tbl_get (gs_Waivers s) i = Some w \<longrightarrow> waiver_wf i w \<and> waiver_linked (gs_Waivers s) w)"

lemma governance_okD: "governance_ok s \<Longrightarrow> tbl_get (gs_Waivers s) i = Some w \<Longrightarrow> waiver_wf i w \<and> waiver_linked (gs_Waivers s) w"
  by (simp add: governance_ok_def)

lemma appended_tables:
  "appended v s s' \<Longrightarrow> cs_rows s' = cs_rows s \<and> gs_Waivers s' = gs_Waivers s \<and> gs_Approvals s' = gs_Approvals s"
  for s s' :: governance_store
  by (auto simp: appended_def)

lemma put_tables [simp]:
  "cs_rows (put_exception x s) = (cs_rows s)\<lparr>Exceptions := tbl_put (Exceptions (cs_rows s)) (exc_ID x) x\<rparr>"
  "gs_Waivers (put_exception x s) = gs_Waivers s" "gs_Approvals (put_exception x s) = gs_Approvals s"
  "cs_rows (put_waiver w s) = cs_rows s" "gs_Waivers (put_waiver w s) = tbl_put (gs_Waivers s) (wv_ID w) w"
  "gs_Approvals (put_waiver w s) = gs_Approvals s"
  "cs_rows (put_approval v s) = cs_rows s" "gs_Waivers (put_approval v s) = gs_Waivers s"
  "gs_Approvals (put_approval v s) = tbl_put (gs_Approvals s) (apr_ID v) v"
  by (simp_all add: put_exception_def put_waiver_def put_approval_def)

lemma supersede_tables [simp]: "cs_rows (supersede w s) = cs_rows s" "gs_Approvals (supersede w s) = gs_Approvals s"
  by (simp_all add: supersede_def split: option.split)

text \<open>The waivers after one is created: itself, the one it supersedes with the new link, the others as before.\<close>

lemma waiver_created_table:
  assumes "waiver_created c a w s s'"
  shows "tbl_get (gs_Waivers s') i = (if i = wv_ID w then Some w
    else if wv_Supersedes w \<noteq> [] \<and> i = wv_Supersedes w then map_option (wv_SupersededBy_update (\<lambda>_. wv_ID w)) (tbl_get (gs_Waivers s) i)
    else tbl_get (gs_Waivers s) i)"
  using assms by (auto simp: waiver_created_def supersede_def dest!: appended_tables split: option.splits)

lemma appended_ok: "appended v s s' \<Longrightarrow> governance_ok s \<Longrightarrow> governance_ok s'"
  unfolding governance_ok_def by (drule appended_tables) simp

lemma put_exception_ok: "governance_ok s \<Longrightarrow> exception_wf (exc_ID x) x \<Longrightarrow> governance_ok (put_exception x s)"
  by (auto simp: governance_ok_def split: if_splits)

lemma put_approval_ok: "governance_ok s \<Longrightarrow> governance_ok (put_approval v s)"
  by (simp add: governance_ok_def)

text \<open>Rewriting a waiver without touching its links keeps the links of all.\<close>

definition same_links :: "Waiver \<Rightarrow> Waiver \<Rightarrow> bool" where
  "same_links v w \<longleftrightarrow> wv_ID v = wv_ID w \<and> wv_TenantID v = wv_TenantID w \<and> wv_Supersedes v = wv_Supersedes w \<and>
    wv_SupersededBy v = wv_SupersededBy w"

lemma linked_put:
  "tbl_get t i = Some row \<Longrightarrow> same_links row w \<Longrightarrow> waiver_linked t v \<Longrightarrow> waiver_linked (tbl_put t i w) v"
  unfolding waiver_linked_def same_links_def by auto

lemma linked_same: "same_links v w \<Longrightarrow> waiver_linked t v \<longleftrightarrow> waiver_linked t w"
  by (simp add: waiver_linked_def same_links_def)

lemma put_waiver_ok:
  assumes ok: "governance_ok s" and row: "tbl_get (gs_Waivers s) (wv_ID w) = Some row" and wf: "waiver_wf (wv_ID w) w" and same: "same_links row w"
  shows "governance_ok (put_waiver w s)"
proof -
  have "waiver_linked (gs_Waivers s) w" using ok row linked_same [OF same] unfolding governance_ok_def by metis
  with assms show ?thesis by (auto simp: governance_ok_def split: if_splits intro: linked_put)
qed

lemma waiver_created_linked:
  assumes ok: "governance_ok s" and cr: "waiver_created c a w s s'" and v: "tbl_get (gs_Waivers s') i = Some v"
  shows "waiver_linked (gs_Waivers s') v"
proof -
  have get: "tbl_get (gs_Waivers s') j = (if j = wv_ID w then Some w
    else if wv_Supersedes w \<noteq> [] \<and> j = wv_Supersedes w then map_option (wv_SupersededBy_update (\<lambda>_. wv_ID w)) (tbl_get (gs_Waivers s) j)
    else tbl_get (gs_Waivers s) j)" for j by (rule waiver_created_table [OF cr])
  have new: "tbl_get (gs_Waivers s) (wv_ID w) = None" "wv_SupersededBy w = []"
    and prior: "wv_Supersedes w \<noteq> [] \<Longrightarrow> \<exists>p. tbl_get (gs_Waivers s) (wv_Supersedes w) = Some p \<and> wv_ID p = wv_Supersedes w \<and>
      wv_TenantID p = wv_TenantID w \<and> wv_SupersededBy p = []"
    using cr by (auto simp: waiver_created_def)
  have wf: "wv_ID u = j" "j \<noteq> []" "waiver_linked (gs_Waivers s) u" if "tbl_get (gs_Waivers s) j = Some u" for j u
    using ok that by (auto simp: governance_ok_def waiver_wf_def)
  have prev: "tbl_get (gs_Waivers s') j = Some p" if "tbl_get (gs_Waivers s) j = Some p" "wv_SupersededBy p \<noteq> []" for j p
    using that new(1) prior unfolding get by auto
  have succ: "\<exists>n'. tbl_get (gs_Waivers s') j = Some n' \<and> wv_Supersedes n' = wv_Supersedes n \<and> wv_TenantID n' = wv_TenantID n"
    if "tbl_get (gs_Waivers s) j = Some n" for j n
    using that new(1) unfolding get by auto
  have old: "waiver_linked (gs_Waivers s') u" if "waiver_linked (gs_Waivers s) u" "wv_ID u \<noteq> []" for u
    using that prev [of "wv_Supersedes u"] succ [of "wv_SupersededBy u"] unfolding waiver_linked_def by (auto 4 4)
  have "v = w \<or> wv_Supersedes w \<noteq> [] \<and> (\<exists>u. tbl_get (gs_Waivers s) (wv_Supersedes w) = Some u \<and> wv_SupersededBy_update (\<lambda>_. wv_ID w) u = v) \<or>
      tbl_get (gs_Waivers s) i = Some v"
    using v get [of i] by (metis (no_types, lifting) map_option_eq_Some option.inject)
  then consider "v = w"
    | u where "wv_Supersedes w \<noteq> []" "tbl_get (gs_Waivers s) (wv_Supersedes w) = Some u" "v = u\<lparr>wv_SupersededBy := wv_ID w\<rparr>"
    | "tbl_get (gs_Waivers s) i = Some v"
    by blast
  then show ?thesis
  proof cases
    case 1
    have "\<exists>p. tbl_get (gs_Waivers s') (wv_Supersedes w) = Some p \<and> wv_SupersededBy p = wv_ID w \<and> wv_TenantID p = wv_TenantID w"
      if sup: "wv_Supersedes w \<noteq> []"
      using prior [OF sup] new(1) sup unfolding get by auto
    with 1 new(2) show ?thesis by (simp add: waiver_linked_def)
  next
    case (2 u)
    have "waiver_linked (gs_Waivers s') u" using wf [OF 2(2)] by (intro old) simp_all
    moreover have "wv_ID u = wv_Supersedes w" "wv_TenantID u = wv_TenantID w" using prior [OF 2(1)] 2(2) by auto
    moreover have "tbl_get (gs_Waivers s') (wv_ID w) = Some w" unfolding get by simp
    ultimately show ?thesis by (simp add: 2(3) waiver_linked_def)
  next
    case 3
    then show ?thesis using wf [OF 3] by (intro old) simp_all
  qed
qed

lemma waiver_created_ok:
  assumes ok: "governance_ok s" and cr: "waiver_created c a w s s'"
  shows "governance_ok s'"
proof -
  have rows: "cs_rows s' = cs_rows s" using cr by (auto simp: waiver_created_def dest!: appended_tables)
  have w: "waiver_wf (wv_ID w) w" using cr by (simp add: waiver_created_def waiver_wf_def)
  have keep: "waiver_wf i (u\<lparr>wv_SupersededBy := x\<rparr>) \<longleftrightarrow> waiver_wf i u" for i u x by (simp add: waiver_wf_def)
  have old: "waiver_wf i u" if "tbl_get (gs_Waivers s) i = Some u" for i u using ok that by (simp add: governance_ok_def)
  have "waiver_wf i v" if "tbl_get (gs_Waivers s') i = Some v" for i v
    using that w old unfolding waiver_created_table [OF cr] by (auto simp: keep split: if_splits)
  with ok waiver_created_linked [OF ok cr] rows show ?thesis by (simp add: governance_ok_def)
qed

lemma exception_approved_appended:
  "exception_approved c a row x s s' \<Longrightarrow>
    appended (governance_event c a (truncate_microsecond (gc_now c)) ''exception.approved'' ''exception'' (exc_ID x)) (put_exception x s) s'"
  unfolding exception_approved_def Let_def by blast

lemma waiver_approved_appended:
  "waiver_approved c a row w s s' \<Longrightarrow>
    appended (governance_event c a (truncate_microsecond (gc_now c)) ''waiver.approved'' ''waiver'' (wv_ID w)) (put_waiver w s) s'"
  unfolding waiver_approved_def Let_def by blast

lemma governance_exec_ok:
  assumes "governance_exec c a call = Inr s'" and ok: "governance_ok (gc_env c)"
  shows "governance_ok s'"
  using assms(1)
proof (cases rule: governance_exec_effect)
  case (exception x)
  then have "exception_wf (exc_ID x) x" by (simp add: exception_created_def exception_wf_def)
  with exception ok show ?thesis by (auto simp: exception_created_def intro: appended_ok put_exception_ok)
next
  case (exception_approval row x)
  then have "tbl_get (Exceptions (cs_rows (gc_env c))) (exc_ID x) = Some row" by (simp add: exception_approved_def Let_def)
  with ok have "exception_wf (exc_ID x) row" unfolding governance_ok_def by blast
  with exception_approval have "exception_wf (exc_ID x) x" by (simp add: exception_approved_def exception_wf_def Let_def)
  with exception_approved_appended [OF exception_approval] ok show ?thesis by (blast intro: appended_ok put_exception_ok)
next
  case (already x)
  with ok show ?thesis by (simp add: exception_already_def)
next
  case (waiver w)
  with ok show ?thesis by (rule waiver_created_ok)
next
  case (waiver_approval row w)
  then have row: "tbl_get (gs_Waivers (gc_env c)) (wv_ID w) = Some row" by (simp add: waiver_approved_def Let_def)
  with ok have "waiver_wf (wv_ID w) row" unfolding governance_ok_def by blast
  with waiver_approval have "waiver_wf (wv_ID w) w" "same_links row w" by (simp_all add: waiver_approved_def waiver_wf_def same_links_def Let_def)
  with waiver_approved_appended [OF waiver_approval] ok row show ?thesis by (blast intro: appended_ok put_waiver_ok)
next
  case (approval v)
  with ok show ?thesis by (auto simp: approval_created_def intro: appended_ok put_approval_ok)
qed

section \<open>What later commands keep\<close>

text \<open>Of a row, everything but its approval and its successor is fixed; these are set once.\<close>

definition set_once :: "('v \<Rightarrow> bool) \<Rightarrow> 'v \<Rightarrow> 'v \<Rightarrow> bool" where
  "set_once present v w \<longleftrightarrow> w = v \<or> \<not> present v \<and> present w"

lemma set_once_refl [simp]: "set_once present v v"
  by (simp add: set_once_def)

lemma set_once_trans: "set_once present u v \<Longrightarrow> set_once present v w \<Longrightarrow> set_once present u w"
  by (auto simp: set_once_def)

definition exception_core :: "Exception \<Rightarrow> Exception" where
  "exception_core x = x\<lparr>exc_Approved := False, exc_ApprovedBy := [], exc_ApprovedAt := None\<rparr>"

definition exception_later :: "Exception \<Rightarrow> Exception \<Rightarrow> bool" where
  "exception_later x y \<longleftrightarrow> exception_core y = exception_core x \<and>
    set_once fst (exc_Approved x, exc_ApprovedBy x, exc_ApprovedAt x) (exc_Approved y, exc_ApprovedBy y, exc_ApprovedAt y)"

definition waiver_core :: "Waiver \<Rightarrow> Waiver" where
  "waiver_core w = w\<lparr>wv_Approved := False, wv_ApprovedBy := [], wv_ApprovedAt := None, wv_SupersededBy := []\<rparr>"

definition waiver_later :: "Waiver \<Rightarrow> Waiver \<Rightarrow> bool" where
  "waiver_later x y \<longleftrightarrow> waiver_core y = waiver_core x \<and>
    set_once fst (wv_Approved x, wv_ApprovedBy x, wv_ApprovedAt x) (wv_Approved y, wv_ApprovedBy y, wv_ApprovedAt y) \<and>
    set_once (\<lambda>v. v \<noteq> []) (wv_SupersededBy x) (wv_SupersededBy y)"

lemma later_refl [simp]: "exception_later x x" "waiver_later w w"
  by (simp_all add: exception_later_def waiver_later_def)

lemma exception_later_trans: "exception_later x y \<Longrightarrow> exception_later y z \<Longrightarrow> exception_later x z"
  unfolding exception_later_def by (elim conjE, intro conjI, simp, (erule (1) set_once_trans)+)

lemma waiver_later_trans: "waiver_later x y \<Longrightarrow> waiver_later y z \<Longrightarrow> waiver_later x z"
  unfolding waiver_later_def by (elim conjE, intro conjI, simp, (erule (1) set_once_trans)+)

lemma waiver_later_supersededI: "wv_SupersededBy x = [] \<Longrightarrow> n \<noteq> [] \<Longrightarrow> waiver_later x (x\<lparr>wv_SupersededBy := n\<rparr>)"
  by (simp add: waiver_later_def waiver_core_def set_once_def)

lemma waiver_later_approvedI:
  "\<not> wv_Approved x \<Longrightarrow> waiver_later x (x\<lparr>wv_Approved := True, wv_ApprovedBy := who, wv_ApprovedAt := at\<rparr>)"
  by (simp add: waiver_later_def waiver_core_def set_once_def)

lemma exception_later_approvedI:
  "\<not> exc_Approved x \<Longrightarrow> exception_later x (x\<lparr>exc_Approved := True, exc_ApprovedBy := who, exc_ApprovedAt := at\<rparr>)"
  by (simp add: exception_later_def exception_core_def set_once_def)

definition forward :: "governance_store \<Rightarrow> governance_store \<Rightarrow> bool" where
  "forward s s' \<longleftrightarrow>
    (\<forall>i x. tbl_get (Exceptions (cs_rows s)) i = Some x \<longrightarrow> (\<exists>y. tbl_get (Exceptions (cs_rows s')) i = Some y \<and> exception_later x y)) \<and>
    (\<forall>i x. tbl_get (gs_Waivers s) i = Some x \<longrightarrow> (\<exists>y. tbl_get (gs_Waivers s') i = Some y \<and> waiver_later x y)) \<and>
    (\<forall>i v. tbl_get (gs_Approvals s) i = Some v \<longrightarrow> tbl_get (gs_Approvals s') i = Some v)"

lemma forward_refl: "forward s s"
  by (auto simp: forward_def)

lemma forwardI:
  assumes "\<And>i x. tbl_get (Exceptions (cs_rows s)) i = Some x \<Longrightarrow> \<exists>y. tbl_get (Exceptions (cs_rows s')) i = Some y \<and> exception_later x y"
    and "\<And>i x. tbl_get (gs_Waivers s) i = Some x \<Longrightarrow> \<exists>y. tbl_get (gs_Waivers s') i = Some y \<and> waiver_later x y"
    and "\<And>i v. tbl_get (gs_Approvals s) i = Some v \<Longrightarrow> tbl_get (gs_Approvals s') i = Some v"
  shows "forward s s'"
  using assms by (simp add: forward_def)

lemma governance_exec_forward:
  assumes "governance_exec c a call = Inr s'"
  shows "forward (gc_env c) s'"
  using assms
proof (cases rule: governance_exec_effect)
  case (exception x)
  then show ?thesis by (intro forwardI) (auto simp: exception_created_def dest!: appended_tables)
next
  case (exception_approval row x)
  have row: "tbl_get (Exceptions (cs_rows (gc_env c))) (exc_ID x) = Some row" "exception_later row x"
    using exception_approval by (simp_all add: exception_approved_def exception_later_approvedI Let_def)
  with appended_tables [OF exception_approved_appended [OF exception_approval]] show ?thesis by (intro forwardI) auto
next
  case (already x)
  then show ?thesis by (simp add: exception_already_def forward_refl)
next
  case (waiver w)
  have t: "cs_rows s' = cs_rows (gc_env c)" "gs_Approvals s' = gs_Approvals (gc_env c)"
    using waiver by (auto simp: waiver_created_def dest!: appended_tables)
  have fresh: "tbl_get (gs_Waivers (gc_env c)) (wv_ID w) = None" "wv_ID w \<noteq> []" using waiver by (simp_all add: waiver_created_def)
  have "wv_SupersededBy u = []" if "wv_Supersedes w \<noteq> []" "tbl_get (gs_Waivers (gc_env c)) (wv_Supersedes w) = Some u" for u
    using waiver that by (auto simp: waiver_created_def)
  then have later: "waiver_later u (u\<lparr>wv_SupersededBy := wv_ID w\<rparr>)"
    if "wv_Supersedes w \<noteq> []" "tbl_get (gs_Waivers (gc_env c)) (wv_Supersedes w) = Some u" for u
    using that fresh(2) by (intro waiver_later_supersededI)
  show ?thesis
    using later fresh by (intro forwardI) (auto simp: t waiver_created_table [OF waiver])
next
  case (waiver_approval row w)
  have row: "tbl_get (gs_Waivers (gc_env c)) (wv_ID w) = Some row" "waiver_later row w"
    using waiver_approval by (simp_all add: waiver_approved_def waiver_later_approvedI Let_def)
  with appended_tables [OF waiver_approved_appended [OF waiver_approval]] show ?thesis by (intro forwardI) auto
next
  case (approval v)
  then show ?thesis by (intro forwardI) (auto simp: approval_created_def dest!: appended_tables)
qed

text \<open>The three tables keep the contract of forward-moving rows.\<close>

lemma governance_step_forward: "governance_step s s' \<Longrightarrow> forward s s'"
  by (auto elim: governance_stepE intro: governance_exec_forward)

lemma governance_step_ok: "governance_ok s \<Longrightarrow> governance_step s s' \<Longrightarrow> governance_ok s'"
  by (auto elim: governance_stepE intro: governance_exec_ok)

interpretation exception_rows: forward_rows "\<lambda>s. tbl_get (Exceptions (cs_rows s))" governance_ok governance_step exception_later
proof unfold_locales
  fix s s' i x
  assume "governance_step s s'" "tbl_get (Exceptions (cs_rows s)) i = Some x"
  then show "\<exists>y. tbl_get (Exceptions (cs_rows s')) i = Some y \<and> exception_later x y"
    using governance_step_forward unfolding forward_def by blast
qed (auto intro: governance_step_ok exception_later_trans)

interpretation waiver_rows: forward_rows "\<lambda>s. tbl_get (gs_Waivers s)" governance_ok governance_step waiver_later
proof unfold_locales
  fix s s' i x
  assume "governance_step s s'" "tbl_get (gs_Waivers s) i = Some x"
  then show "\<exists>y. tbl_get (gs_Waivers s') i = Some y \<and> waiver_later x y"
    using governance_step_forward unfolding forward_def by blast
qed (auto intro: governance_step_ok waiver_later_trans)

interpretation approval_rows: forward_rows "\<lambda>s. tbl_get (gs_Approvals s)" governance_ok governance_step "(=)"
proof unfold_locales
  fix s s' i x
  assume "governance_step s s'" "tbl_get (gs_Approvals s) i = Some x"
  then show "\<exists>y. tbl_get (gs_Approvals s') i = Some y \<and> x = y"
    using governance_step_forward unfolding forward_def by blast
qed (auto intro: governance_step_ok)

lemma governance_steps_forward: "governance_step\<^sup>*\<^sup>* s s' \<Longrightarrow> governance_ok s \<Longrightarrow> forward s s'"
  using exception_rows.steps_later waiver_rows.steps_later approval_rows.steps_later by (intro forwardI) blast+

text \<open>
  C35: The rows of governance only move forward. In every store that the commands reach from a well-formed one, an
  approved exception or waiver names its approver and a time of approval before its expiry and one that is not
  approved names neither; the links between waivers agree in both directions, so that no waiver is superseded
  twice. Later commands keep every row: an approval is given once and never withdrawn or rewritten, a successor
  is set once, no other field changes, and approval records never change.
\<close>

theorem governance_lifecycle:
  assumes "governance_ok s0" and "governance_step\<^sup>*\<^sup>* s0 s1" and "governance_step\<^sup>*\<^sup>* s1 s2"
  shows "governance_ok s1 \<and> forward s1 s2 \<and>
    (\<forall>i j v w. tbl_get (gs_Waivers s1) i = Some v \<longrightarrow> tbl_get (gs_Waivers s1) j = Some w \<longrightarrow>
      wv_Supersedes v = wv_Supersedes w \<longrightarrow> wv_Supersedes v \<noteq> [] \<longrightarrow> i = j)"
proof -
  have ok: "governance_ok s1" using exception_rows.steps_ok [OF assms(2,1)] .
  have "i = j" if v: "tbl_get (gs_Waivers s1) i = Some v" and w: "tbl_get (gs_Waivers s1) j = Some w"
    and sup: "wv_Supersedes v = wv_Supersedes w" "wv_Supersedes v \<noteq> []" for i j v w
  proof -
    have row: "wv_ID u = k" "wv_Supersedes u \<noteq> [] \<Longrightarrow> \<exists>p. tbl_get (gs_Waivers s1) (wv_Supersedes u) = Some p \<and> wv_SupersededBy p = k"
      if "tbl_get (gs_Waivers s1) k = Some u" for k u
      using governance_okD [OF ok that] by (auto simp: waiver_wf_def waiver_linked_def)
    from row [OF v] row [OF w] sup show ?thesis by auto
  qed
  with ok governance_steps_forward [OF assms(3)] show ?thesis by blast
qed

section \<open>Confinement to the tenant\<close>

text \<open>
  Of the store, a command of a tenant changes at most exceptions, waivers, approval records and the audit entries,
  and of these only the rows and the chain of that tenant, which grows by at most one entry of the actor.
\<close>

definition confined :: "Actor \<Rightarrow> governance_store \<Rightarrow> governance_store \<Rightarrow> bool" where
  "confined a s s' \<longleftrightarrow>
    (\<exists>E A W P. s' = s\<lparr>cs_rows := (cs_rows s)\<lparr>Exceptions := E\<rparr>, cs_AuditEntries := A, gs_Waivers := W, gs_Approvals := P\<rparr>) \<and>
    (\<forall>i x. exc_TenantID x \<noteq> actor_TenantID a \<longrightarrow>
      tbl_get (Exceptions (cs_rows s')) i = Some x \<longleftrightarrow> tbl_get (Exceptions (cs_rows s)) i = Some x) \<and>
    (\<forall>i w. wv_TenantID w \<noteq> actor_TenantID a \<longrightarrow> tbl_get (gs_Waivers s') i = Some w \<longleftrightarrow> tbl_get (gs_Waivers s) i = Some w) \<and>
    (\<forall>i v. apr_TenantID v \<noteq> actor_TenantID a \<longrightarrow> tbl_get (gs_Approvals s') i = Some v \<longleftrightarrow> tbl_get (gs_Approvals s) i = Some v) \<and>
    (\<forall>t. t \<noteq> actor_TenantID a \<longrightarrow> tbl_get (cs_AuditEntries s') t = tbl_get (cs_AuditEntries s) t) \<and>
    (s' = s \<or> (\<exists>e. chain_of (cs_audit s') (actor_TenantID a) = chain_of (cs_audit s) (actor_TenantID a) @ [e] \<and>
      ace_ActorID e = coerce_utf8 (auditActorID a)))"

lemma appended_confined:
  assumes ap: "appended (governance_event c a now kind subject i) s1 s'"
    and s1: "s1 = s\<lparr>cs_rows := (cs_rows s)\<lparr>Exceptions := E\<rparr>, gs_Waivers := W, gs_Approvals := P\<rparr>"
    and "\<And>i x. exc_TenantID x \<noteq> actor_TenantID a \<Longrightarrow> tbl_get E i = Some x \<longleftrightarrow> tbl_get (Exceptions (cs_rows s)) i = Some x"
    and "\<And>i w. wv_TenantID w \<noteq> actor_TenantID a \<Longrightarrow> tbl_get W i = Some w \<longleftrightarrow> tbl_get (gs_Waivers s) i = Some w"
    and "\<And>i v. apr_TenantID v \<noteq> actor_TenantID a \<Longrightarrow> tbl_get P i = Some v \<longleftrightarrow> tbl_get (gs_Approvals s) i = Some v"
  shows "confined a s s'"
proof -
  from ap obtain e where s': "s' = s1\<lparr>cs_AuditEntries := tbl_put (cs_AuditEntries s1) (actor_TenantID a)
      (chain_of (cs_audit s1) (actor_TenantID a) @ [e])\<rparr>" and e: "ace_ActorID e = coerce_utf8 (auditActorID a)"
    by (auto simp: appended_def governance_event_def)
  have chain: "chain_of (cs_audit s1) t = chain_of (cs_audit s) t" for t by (simp add: s1 chain_of_def cs_audit_def)
  have grown: "chain_of (cs_audit s') (actor_TenantID a) = chain_of (cs_audit s) (actor_TenantID a) @ [e]"
    unfolding chain [symmetric] by (simp add: s' chain_of_def cs_audit_def)
  have store: "s' = s\<lparr>cs_rows := (cs_rows s)\<lparr>Exceptions := E\<rparr>, cs_AuditEntries := cs_AuditEntries s', gs_Waivers := W, gs_Approvals := P\<rparr>"
    by (simp add: s' s1)
  have tables: "Exceptions (cs_rows s') = E" "gs_Waivers s' = W" "gs_Approvals s' = P" by (simp_all add: s' s1)
  have entries: "t \<noteq> actor_TenantID a \<longrightarrow> tbl_get (cs_AuditEntries s') t = tbl_get (cs_AuditEntries s) t" for t
    by (simp add: s' s1)
  show ?thesis
    unfolding confined_def tables using store assms(3-5) entries grown e by blast
qed

lemma put_exception_store:
  "put_exception x s = s\<lparr>cs_rows := (cs_rows s)\<lparr>Exceptions := tbl_put (Exceptions (cs_rows s)) (exc_ID x) x\<rparr>,
    gs_Waivers := gs_Waivers s, gs_Approvals := gs_Approvals s\<rparr>"
  by (simp add: put_exception_def)

lemma put_waiver_store:
  "put_waiver w s = s\<lparr>cs_rows := (cs_rows s)\<lparr>Exceptions := Exceptions (cs_rows s)\<rparr>,
    gs_Waivers := tbl_put (gs_Waivers s) (wv_ID w) w, gs_Approvals := gs_Approvals s\<rparr>"
  by (simp add: put_waiver_def)

lemma put_approval_store:
  "put_approval v s = s\<lparr>cs_rows := (cs_rows s)\<lparr>Exceptions := Exceptions (cs_rows s)\<rparr>,
    gs_Waivers := gs_Waivers s, gs_Approvals := tbl_put (gs_Approvals s) (apr_ID v) v\<rparr>"
  by (simp add: put_approval_def)

lemma superseded_store:
  "put_waiver w (supersede w s) = s\<lparr>cs_rows := (cs_rows s)\<lparr>Exceptions := Exceptions (cs_rows s)\<rparr>,
    gs_Waivers := gs_Waivers (put_waiver w (supersede w s)), gs_Approvals := gs_Approvals s\<rparr>"
  by (simp add: put_waiver_def supersede_def split: option.split)

lemma governance_exec_confined:
  assumes "governance_exec c a call = Inr s'"
  shows "confined a (gc_env c) s'"
  using assms
proof (cases rule: governance_exec_effect)
  case (exception x)
  then show ?thesis
    unfolding exception_created_def by (elim conjE) (rule appended_confined [OF _ put_exception_store], auto)
next
  case (exception_approval row x)
  have row: "tbl_get (Exceptions (cs_rows (gc_env c))) (exc_ID x) = Some row" "exc_TenantID row = actor_TenantID a" "exc_TenantID x = actor_TenantID a"
    using exception_approval by (simp_all add: exception_approved_def Let_def)
  then show ?thesis by (intro appended_confined [OF exception_approved_appended [OF exception_approval] put_exception_store]) auto
next
  case (already x)
  then have s': "s' = gc_env c" by (simp add: exception_already_def)
  have "gc_env c = (gc_env c)\<lparr>cs_rows := (cs_rows (gc_env c))\<lparr>Exceptions := Exceptions (cs_rows (gc_env c))\<rparr>,
      cs_AuditEntries := cs_AuditEntries (gc_env c), gs_Waivers := gs_Waivers (gc_env c), gs_Approvals := gs_Approvals (gc_env c)\<rparr>"
    by simp
  then show ?thesis unfolding confined_def s' by blast
next
  case (waiver w)
  have ap: "appended (governance_event c a (wv_CreatedAt w) ''waiver.created'' ''waiver'' (wv_ID w)) (put_waiver w (supersede w (gc_env c))) s'"
    and w: "wv_TenantID w = actor_TenantID a" "tbl_get (gs_Waivers (gc_env c)) (wv_ID w) = None"
    "\<And>p. wv_Supersedes w \<noteq> [] \<Longrightarrow> tbl_get (gs_Waivers (gc_env c)) (wv_Supersedes w) = Some p \<Longrightarrow> wv_TenantID p = actor_TenantID a"
    using waiver by (auto simp: waiver_created_def)
  have t: "gs_Waivers (put_waiver w (supersede w (gc_env c))) = gs_Waivers s'" using appended_tables [OF ap] by simp
  have "tbl_get (gs_Waivers s') i = Some u \<longleftrightarrow> tbl_get (gs_Waivers (gc_env c)) i = Some u" if "wv_TenantID u \<noteq> actor_TenantID a" for i u
    using that w unfolding waiver_created_table [OF waiver] by (auto split: if_splits)
  then show ?thesis by (intro appended_confined [OF ap superseded_store [of w "gc_env c", unfolded t]]) simp_all
next
  case (waiver_approval row w)
  have row: "tbl_get (gs_Waivers (gc_env c)) (wv_ID w) = Some row" "wv_TenantID row = actor_TenantID a" "wv_TenantID w = actor_TenantID a"
    using waiver_approval by (simp_all add: waiver_approved_def Let_def)
  then show ?thesis by (intro appended_confined [OF waiver_approved_appended [OF waiver_approval] put_waiver_store]) auto
next
  case (approval v)
  then show ?thesis
    unfolding approval_created_def by (elim conjE) (rule appended_confined [OF _ put_approval_store], auto)
qed

text \<open>Every row that a command adds or changes is one over whose subject the actor has authority.\<close>

definition authorized :: "Actor \<Rightarrow> governance_store \<Rightarrow> governance_store \<Rightarrow> bool" where
  "authorized a s s' \<longleftrightarrow>
    (\<forall>i x. tbl_get (Exceptions (cs_rows s')) i = Some x \<longrightarrow> tbl_get (Exceptions (cs_rows s)) i \<noteq> Some x \<longrightarrow>
      exception_scope s a (exc_ReleaseID x) (exc_FindingID x) (exc_ControlID x)) \<and>
    (\<forall>i w. tbl_get (gs_Waivers s') i = Some w \<longrightarrow> tbl_get (gs_Waivers s) i \<noteq> Some w \<longrightarrow>
      waiver_scope s a (wv_ScopeType w) (wv_ScopeID w)) \<and>
    (\<forall>i v. tbl_get (gs_Approvals s') i = Some v \<longrightarrow> tbl_get (gs_Approvals s) i \<noteq> Some v \<longrightarrow>
      apr_ApproverID v = auditActorID a \<and>
      (\<exists>o'. memoryGovernanceOwner s (actor_TenantID a) (apr_SubjectType v) (apr_SubjectID v) = Inr o' \<and>
        may_govern ActionApprovalsRecord a o'))"

lemma authorizedI:
  assumes "\<And>i x. tbl_get (Exceptions (cs_rows s')) i = Some x \<Longrightarrow> tbl_get (Exceptions (cs_rows s)) i \<noteq> Some x \<Longrightarrow>
      exception_scope s a (exc_ReleaseID x) (exc_FindingID x) (exc_ControlID x)"
    and "\<And>i w. tbl_get (gs_Waivers s') i = Some w \<Longrightarrow> tbl_get (gs_Waivers s) i \<noteq> Some w \<Longrightarrow>
      waiver_scope s a (wv_ScopeType w) (wv_ScopeID w)"
    and "\<And>i v. tbl_get (gs_Approvals s') i = Some v \<Longrightarrow> tbl_get (gs_Approvals s) i \<noteq> Some v \<Longrightarrow> apr_ApproverID v = auditActorID a \<and>
      (\<exists>o'. memoryGovernanceOwner s (actor_TenantID a) (apr_SubjectType v) (apr_SubjectID v) = Inr o' \<and>
        may_govern ActionApprovalsRecord a o')"
  shows "authorized a s s'"
  using assms by (simp add: authorized_def)

lemma governance_exec_authorized:
  assumes "governance_exec c a call = Inr s'"
  shows "authorized a (gc_env c) s'"
  using assms
proof (cases rule: governance_exec_effect)
  case (exception x)
  then have "exception_scope (gc_env c) a (exc_ReleaseID x) (exc_FindingID x) (exc_ControlID x)"
    and ap: "appended (governance_event c a (exc_CreatedAt x) ''exception.created'' ''exception'' (exc_ID x)) (put_exception x (gc_env c)) s'"
    unfolding exception_created_def by blast+
  with appended_tables [OF ap] show ?thesis by (intro authorizedI) (auto split: if_splits)
next
  case (exception_approval row x)
  then have "exception_scope (gc_env c) a (exc_ReleaseID x) (exc_FindingID x) (exc_ControlID x)"
    by (simp add: exception_approved_def Let_def)
  with appended_tables [OF exception_approved_appended [OF exception_approval]] show ?thesis
    by (intro authorizedI) (auto split: if_splits)
next
  case (already x)
  then show ?thesis by (simp add: exception_already_def authorized_def)
next
  case (waiver w)
  have t: "cs_rows s' = cs_rows (gc_env c)" "gs_Approvals s' = gs_Approvals (gc_env c)"
    using waiver by (auto simp: waiver_created_def dest!: appended_tables)
  have sc: "waiver_scope (gc_env c) a (wv_ScopeType w) (wv_ScopeID w)"
    "wv_Supersedes w \<noteq> [] \<Longrightarrow> tbl_get (gs_Waivers (gc_env c)) (wv_Supersedes w) = Some p \<Longrightarrow>
      waiver_scope (gc_env c) a (wv_ScopeType p) (wv_ScopeID p)" for p
    using waiver by (auto simp: waiver_created_def)
  then have "waiver_scope (gc_env c) a (wv_ScopeType v) (wv_ScopeID v)"
    if "tbl_get (gs_Waivers s') i = Some v" "tbl_get (gs_Waivers (gc_env c)) i \<noteq> Some v" for i v
    using that unfolding waiver_created_table [OF waiver] by (auto split: if_splits)
  then show ?thesis by (intro authorizedI) (auto simp: t)
next
  case (waiver_approval row w)
  then have "waiver_scope (gc_env c) a (wv_ScopeType w) (wv_ScopeID w)" by (simp add: waiver_approved_def Let_def)
  with appended_tables [OF waiver_approved_appended [OF waiver_approval]] show ?thesis
    by (intro authorizedI) (auto split: if_splits)
next
  case (approval v)
  then have "apr_ApproverID v = auditActorID a"
    and "\<exists>o'. memoryGovernanceOwner (gc_env c) (actor_TenantID a) (apr_SubjectType v) (apr_SubjectID v) = Inr o' \<and>
        may_govern ActionApprovalsRecord a o'"
    and ap: "appended (governance_event c a (apr_CreatedAt v) ''approval.created'' ''approval'' (apr_ID v)) (put_approval v (gc_env c)) s'"
    unfolding approval_created_def by blast+
  with appended_tables [OF ap] show ?thesis by (intro authorizedI) (auto split: if_splits)
qed

text \<open>
  C36: A governance command acts inside its tenant and inside the actor's authority. Whatever call succeeds, no other
  table of the store changes and no exception, waiver, approval record or audit entry of another tenant; the chain
  of the tenant grows by exactly one entry, of the actor, or nothing changes at all. Every exception the call adds
  or changes belongs to a release, and names a finding of that release and a control of the tenant, over which the
  reference monitor permits the actor; every waiver, the one superseded included, has such a scope; every approval
  record names the actor as approver of a subject whose owner the actor may approve.
\<close>

theorem governance_authority:
  assumes "governance_exec c a call = Inr s'"
  shows "confined a (gc_env c) s' \<and> authorized a (gc_env c) s'"
  using governance_exec_confined [OF assms] governance_exec_authorized [OF assms] ..

end
