(* ===== verification/Governance_Readiness.thy ===== *)
theory Governance_Readiness
  imports Governance_Lifecycle
begin

text \<open>
  Exceptions and readiness together: what the approval of an exception changes in the facts that the policy
  evaluation of a release reads.
\<close>

section \<open>Facts that do not depend on exceptions\<close>

lemma resolve_frame:
  "resolve_build (state\<lparr>Exceptions := E\<rparr>) = resolve_build state"
  "resolve_deployment (state\<lparr>Exceptions := E\<rparr>) = resolve_deployment state"
  "resolve_project (state\<lparr>Exceptions := E\<rparr>) = resolve_project state"
  "resolve_release (state\<lparr>Exceptions := E\<rparr>) = resolve_release state"
  "memoryGovernanceProductRelease (state\<lparr>Exceptions := E\<rparr>) = memoryGovernanceProductRelease state"
  by (intro ext; simp add: resolve_build_def resolve_deployment_def resolve_project_def resolve_release_def
      memoryGovernanceProductRelease_def split: option.split)+

lemma coordinates_frame [simp]:
  "memoryOperationsCoordinates (state\<lparr>Exceptions := E\<rparr>) = memoryOperationsCoordinates state"
  by (intro ext) (unfold memoryOperationsCoordinates_def resolve_frame, rule refl)

lemma outputs_frame [simp]: "outputs_loop (state\<lparr>Exceptions := E\<rparr>) tenant outs n = outputs_loop state tenant outs n"
  by (induction outs arbitrary: n) (simp_all add: artifact_matches_def Let_def)

lemma evidence_frame [simp]:
  "memoryAnomalyEvidence (state\<lparr>Exceptions := E\<rparr>) = memoryAnomalyEvidence state"
  "memoryAnomalyBuild (state\<lparr>Exceptions := E\<rparr>) = memoryAnomalyBuild state"
  by (intro ext; simp add: memoryAnomalyEvidence_def memoryAnomalyBuild_def collector_owned_def split: option.split)+

lemma scans_frame [simp]:
  "release_scans (state\<lparr>Exceptions := E\<rparr>) tenant product release = release_scans state tenant product release"
  by (simp add: release_scans_def scan_of_release_def)

lemma digests_frame [simp]:
  "release_digests (state\<lparr>Exceptions := E\<rparr>) tenant product release = release_digests state tenant product release"
  by (simp add: evidence_digests_def subject_digests_def)

lemma decided_frame [simp]: "decided (state\<lparr>Exceptions := E\<rparr>) = decided state"
  by (intro ext) (simp add: decided_def)

lemma control_frame [simp]: "control_owned (state\<lparr>Exceptions := E\<rparr>) = control_owned state"
  by (intro ext) (simp add: control_owned_def cong: option.case_cong)

text \<open>Open findings of a severity that are handled neither by a decision nor by an exception of the rows, nor by a given one.\<close>

definition covers :: "Exception \<Rightarrow> string \<Rightarrow> string \<Rightarrow> time \<Rightarrow> VulnerabilityFinding \<Rightarrow> bool" where
  "covers x tenant release at f \<longleftrightarrow> exc_TenantID x = tenant \<and> exc_ReleaseID x = release \<and>
    at < exc_ExpiresAt x \<and> exc_FindingID x \<in> {[], find_ID f}"

definition unhandled_without ::
  "Exception \<Rightarrow> MemoryUnitOfWorkSnapshot \<Rightarrow> string \<Rightarrow> string \<Rightarrow> string \<Rightarrow> time \<Rightarrow> string \<Rightarrow> bool" where
  "unhandled_without x state tenant product release at severity \<longleftrightarrow>
    (\<exists>scan findings f. (scan, findings) \<in> set (release_scans state tenant product release) \<and> f \<in> set findings \<and> blocking severity f \<and>
      \<not> decided state tenant release scan findings f \<and> \<not> excepted state tenant release at f \<and> \<not> covers x tenant release at f)"

lemma excepted_put:
  assumes "tbl_get (Exceptions state) (exc_ID x) = Some row" "\<not> exc_Approved row" "exc_Approved x" "control_owned state (exc_TenantID x) (exc_ControlID x)"
  shows "excepted (state\<lparr>Exceptions := tbl_put (Exceptions state) (exc_ID x) x\<rparr>) tenant release at f \<longleftrightarrow>
    excepted state tenant release at f \<or> covers x tenant release at f"
proof -
  have "excepted (state\<lparr>Exceptions := tbl_put (Exceptions state) (exc_ID x) x\<rparr>) tenant release at f"
    if "excepted state tenant release at f"
  proof -
    from that obtain y where y: "tbl_get (Exceptions state) (exc_ID y) = Some y" "exc_TenantID y = tenant" "exc_ReleaseID y = release"
      "exc_Approved y" "at < exc_ExpiresAt y" "exc_FindingID y \<in> {[], find_ID f}" "control_owned state tenant (exc_ControlID y)"
      unfolding excepted_def by blast
    then have "exc_ID y \<noteq> exc_ID x" using assms by auto
    with y show ?thesis unfolding excepted_def by (intro exI [of _ "exc_ID y"] exI [of _ y]) simp
  qed
  moreover have "excepted (state\<lparr>Exceptions := tbl_put (Exceptions state) (exc_ID x) x\<rparr>) tenant release at f"
    if "covers x tenant release at f"
    using that assms unfolding excepted_def covers_def by (intro exI [of _ "exc_ID x"] exI [of _ x]) auto
  moreover have "excepted state tenant release at f \<or> covers x tenant release at f"
    if "excepted (state\<lparr>Exceptions := tbl_put (Exceptions state) (exc_ID x) x\<rparr>) tenant release at f"
    using that unfolding excepted_def covers_def by (auto split: if_splits)
  ultimately show ?thesis by blast
qed

lemma excepted_already:
  assumes "tbl_get (Exceptions state) (exc_ID x) = Some x" "exc_Approved x" "control_owned state (exc_TenantID x) (exc_ControlID x)"
    "covers x tenant release at f"
  shows "excepted state tenant release at f"
  using assms unfolding excepted_def covers_def by auto

lemma unhandled_facts:
  "mrf_UnhandledCritical (release_facts s tenant product release at) \<longleftrightarrow>
    (\<exists>scan findings f. (scan, findings) \<in> set (release_scans (cs_rows s) tenant product release) \<and> f \<in> set findings \<and> blocking ''critical'' f \<and>
      \<not> decided (cs_rows s) tenant release scan findings f \<and> \<not> excepted (cs_rows s) tenant release at f)"
  "mrf_UnhandledHigh (release_facts s tenant product release at) \<longleftrightarrow>
    (\<exists>scan findings f. (scan, findings) \<in> set (release_scans (cs_rows s) tenant product release) \<and> f \<in> set findings \<and> blocking ''high'' f \<and>
      \<not> decided (cs_rows s) tenant release scan findings f \<and> \<not> excepted (cs_rows s) tenant release at f)"
  by (simp_all add: release_facts_def Let_def) (metis handled_iff)+

definition verdictless :: "memoryReadinessFacts \<Rightarrow> memoryReadinessFacts" where
  "verdictless facts = facts\<lparr>mrf_UnhandledCritical := False, mrf_UnhandledHigh := False\<rparr>"

lemma verdictless_eqI:
  "verdictless f = verdictless g \<Longrightarrow> mrf_UnhandledCritical f = b \<Longrightarrow> mrf_UnhandledHigh f = d \<Longrightarrow>
    f = g\<lparr>mrf_UnhandledCritical := b, mrf_UnhandledHigh := d\<rparr>"
  by (cases f; cases g) (simp add: verdictless_def)

lemma verdictless_frame:
  assumes "s' = s\<lparr>cs_rows := (cs_rows s)\<lparr>Exceptions := E\<rparr>, cs_AuditEntries := A, gs_Waivers := W, gs_Approvals := P\<rparr>"
  shows "verdictless (release_facts s' tenant product release at) = verdictless (release_facts s tenant product release at)"
  unfolding assms
  by (simp add: verdictless_def release_facts_def Let_def passed_build_def verified_attestation_def attestation_verified_def)

section \<open>The effect of an approval\<close>

lemma approval_cover:
  assumes "(\<exists>row. exception_approved c a row x s s') \<or> exception_already a x s s'"
  shows "excepted (cs_rows s') tenant release at f \<longleftrightarrow> excepted (cs_rows s) tenant release at f \<or> covers x tenant release at f"
    and "release_scans (cs_rows s') tenant product release = release_scans (cs_rows s) tenant product release"
    and "decided (cs_rows s') = decided (cs_rows s)"
proof -
  have "(excepted (cs_rows s') tenant release at f \<longleftrightarrow> excepted (cs_rows s) tenant release at f \<or> covers x tenant release at f) \<and>
    release_scans (cs_rows s') tenant product release = release_scans (cs_rows s) tenant product release \<and>
    decided (cs_rows s') = decided (cs_rows s)"
  proof (cases "exception_already a x s s'")
    case True
    then have "s' = s" "tbl_get (Exceptions (cs_rows s)) (exc_ID x) = Some x" "exc_Approved x"
      "control_owned (cs_rows s) (exc_TenantID x) (exc_ControlID x)"
      by (auto simp: exception_already_def exception_scope_def control_owned_def)
    then show ?thesis using excepted_already by blast
  next
    case False
    then obtain row where ap: "exception_approved c a row x s s'" using assms by blast
    have "tbl_get (Exceptions (cs_rows s)) (exc_ID x) = Some row" "\<not> exc_Approved row" "exc_Approved x"
      "control_owned (cs_rows s) (exc_TenantID x) (exc_ControlID x)"
      using ap by (auto simp: exception_approved_def exception_scope_def control_owned_def Let_def)
    moreover have "cs_rows s' = (cs_rows s)\<lparr>Exceptions := tbl_put (Exceptions (cs_rows s)) (exc_ID x) x\<rparr>"
      using appended_tables [OF exception_approved_appended [OF ap]] by simp
    ultimately show ?thesis using excepted_put by simp
  qed
  then show "excepted (cs_rows s') tenant release at f \<longleftrightarrow> excepted (cs_rows s) tenant release at f \<or> covers x tenant release at f"
    "release_scans (cs_rows s') tenant product release = release_scans (cs_rows s) tenant product release"
    "decided (cs_rows s') = decided (cs_rows s)"
    by blast+
qed

text \<open>
  C37: What the approval of an exception changes for a release. After an exception is approved, the facts that a policy
  evaluation reads for any release at any time are those of the store before, except for the two flags of unhandled
  findings: a critical or high finding stays unhandled exactly when it is open, no current decision marks it as fixed
  or not affected, no exception approved before covers it, and the approved exception is for another release, for
  another finding, or expired at that time.
\<close>

theorem exception_approval_exact:
  assumes "run_governance c (ApproveExceptionCommand c a i) = Inr (x, s')"
    and "readMemoryReadinessFacts ctx s' tenant product release at st = Inr (facts, st')"
  shows "facts = (release_facts (gc_env c) tenant product release at)\<lparr>
    mrf_UnhandledCritical := unhandled_without x (cs_rows (gc_env c)) tenant product release at ''critical'',
    mrf_UnhandledHigh := unhandled_without x (cs_rows (gc_env c)) tenant product release at ''high''\<rparr>"
proof -
  note cover = approval_cover [OF ApproveException_effect [OF assms(1)]]
  have "governance_exec c a (ExceptionApproval i) = Inr s'" using assms(1) by simp
  from governance_exec_confined [OF this] obtain E A W P where
    "s' = (gc_env c)\<lparr>cs_rows := (cs_rows (gc_env c))\<lparr>Exceptions := E\<rparr>, cs_AuditEntries := A, gs_Waivers := W, gs_Approvals := P\<rparr>"
    unfolding confined_def by blast
  from verdictless_frame [OF this] have "verdictless (release_facts s' tenant product release at) =
    verdictless (release_facts (gc_env c) tenant product release at)" .
  moreover have "mrf_UnhandledCritical (release_facts s' tenant product release at) =
      unhandled_without x (cs_rows (gc_env c)) tenant product release at ''critical''"
    "mrf_UnhandledHigh (release_facts s' tenant product release at) =
      unhandled_without x (cs_rows (gc_env c)) tenant product release at ''high''"
    unfolding unhandled_facts unhandled_without_def cover by blast+
  ultimately show ?thesis
    unfolding readMemoryReadinessFacts_Inr(1) [OF assms(2)] by (intro verdictless_eqI)
qed

end
