(* ===== verification/Governance_Runs.thy ===== *)
theory Governance_Runs
  imports Governance_Readiness
begin

text \<open>
  Exceptions can be granted: on a live context, a well-formed exception for a release within the actor's authority
  is created, and a pending exception that has not expired is approved.
\<close>

section \<open>The steps on a live context\<close>

definition exception_caller_ok :: "governance_command \<Rightarrow> Actor \<Rightarrow> bool" where
  "exception_caller_ok c a \<longleftrightarrow>
    (let t = actor_TenantID a; now = truncate_microsecond (gc_now c) in
     live (gc_ctx c) \<and> \<not> gc_raced c \<and> validRiskLifecycleTime now \<and> 0 \<le> year_of now \<and> year_of now \<le> 9999 \<and>
     validControlText t 1024 True \<and> TrimSpace t = t \<and> validControlText (auditActorID a) 1024 True \<and>
     tbl_get (Tenants (cs_rows (gc_env c))) t \<noteq> None \<and>
     validControlText (gc_newID c ''ace'') 1024 True \<and> list_all (\<lambda>e. ace_ID e \<noteq> gc_newID c ''ace'') (chain_of (cs_audit (gc_env c)) t) \<and>
     (\<forall>j. \<exists>h. gc_hasher c j = Inr h) \<and> permits a (risk_request ActionExceptionsManage ScopeEvaluation no_refs))"

lemma governance_text_iff: "governance_text v \<longleftrightarrow> validControlText v 1024 True \<and> TrimSpace v = v"
  by (auto simp: governance_text_def control_text_iff)

lemma caller_facts:
  assumes "exception_caller_ok c a"
  shows "live (gc_ctx c)" "\<not> gc_raced c" "governance_text (actor_TenantID a)" "requireMemoryTenant (cs_rows (gc_env c)) (actor_TenantID a) = None"
    "actor_TenantID a \<noteq> []" "auditActorID a \<noteq> []" "TrimSpace (auditActorID a) = auditActorID a"
    "permits a (risk_request ActionExceptionsManage ScopeEvaluation no_refs)" "validRiskLifecycleTime (truncate_microsecond (gc_now c))"
    "validControlText (actor_TenantID a) 1024 True" "validControlText (auditActorID a) 1024 True"
  using assms by (auto simp: exception_caller_ok_def governance_text_iff requireMemoryTenant_def audit_actor_nonempty validControlText_def Let_def)

lemma exception_authorize_live:
  assumes "exception_caller_ok c a" "permits a (risk_request ActionExceptionsManage (if areq_ScopeOnly r then ScopeEvaluation
      else if areq_TenantWide r then TenantEvaluation else ResolvedEvaluation) (areq_Resources r))"
    and "areq_Action r = ActionExceptionsManage" "areq_Scope r = []" "\<not> (areq_ScopeOnly r \<and> areq_TenantWide r)"
  shows "exception_authorize (gc_ctx c) a r (n, s) = Inr ((), n + 2, s)"
proof -
  note f = caller_facts [OF assms(1)]
  have "Authorize (ctx_drop 1 (ctx_drop n (gc_ctx c))) a (risk_request ActionExceptionsManage (if areq_ScopeOnly r then ScopeEvaluation
      else if areq_TenantWide r then TenantEvaluation else ResolvedEvaluation) (areq_Resources r)) = None"
    using f(1) assms(2) by (subst Authorize_permits) simp_all
  moreover have "TrimSpace (actor_TenantID a) = actor_TenantID a" using f(3) by (simp add: governance_text_iff)
  ultimately show ?thesis
    using assms(3-) f live_nil [of "ctx_drop n (gc_ctx c)"]
    by (auto simp: exception_authorize_def risk_authorize_def NewExceptionWriteAuthorizer_def riskResourceWriteAuthorizer_def risk_request_def
        tx_authorize_def)
qed

lemma scope_authorize_live:
  "exception_caller_ok c a \<Longrightarrow> exception_authorize (gc_ctx c) a (scope_request ActionExceptionsManage) (n, s) = Inr ((), n + 2, s)"
  by (rule exception_authorize_live) (simp_all add: caller_facts)

lemma exception_subject_live:
  assumes "exception_caller_ok c a" "kind \<in> {''release'', ''finding'', ''control''}" "governance_text i" "cs_rows s = cs_rows (gc_env c)"
    and "scope_owner s (actor_TenantID a) kind i = Inr (product, release)"
  shows "exception_subject (gc_ctx c) a kind i (n, s) =
    Inr (\<lparr>gsr_Type = kind, gsr_ID = i, gsr_TenantID = actor_TenantID a, gsr_ProductID = product, gsr_ReleaseID = release\<rparr>, n + 2, s)"
proof -
  note f = caller_facts [OF assms(1)]
  have "memoryGovernanceOwner s (actor_TenantID a) kind i = Inr (product, release)" using assms(2,5) by (auto simp: memoryGovernanceOwner_def)
  then show ?thesis
    using f assms(2-4) by (auto simp: exception_subject_def ReadExceptionSubject_def subject_of_kinds_def readSubject_def memoryGovernanceRead_def tx_run)
qed

text \<open>Identifiers that the readers accept; a reference may be absent.\<close>

definition optional_text :: "string \<Rightarrow> bool" where
  "optional_text v \<longleftrightarrow> v = [] \<or> governance_text v"

lemma optional_control_text: "optional_text v \<Longrightarrow> validControlText v 1024 False \<and> memoryGovernanceText v 1024"
  by (auto simp: optional_text_def governance_text_iff validControlText_def memoryGovernanceText_def contains_nul_def)

lemma release_owner_text: "release_owner state t i = Inr (p, r) \<Longrightarrow> p \<noteq> [] \<and> validControlText p 1024 True"
  by (auto simp: release_owner_def product_release_def memoryGovernanceProductRelease_def control_text_iff split: option.splits if_splits)

lemma control_owner_ok: "control_owned state t i \<Longrightarrow> i \<noteq> [] \<Longrightarrow> control_owner state t i = Inr ([], [])"
  by (auto simp: control_owner_def control_owned_def split: option.splits)

lemma authorizeExceptionScope_live:
  assumes ok: "exception_caller_ok c a" and sc: "exception_scope (gc_env c) a r f k"
    and texts: "governance_text r" "optional_text f" "optional_text k"
  shows "\<exists>n'. authorizeExceptionScope (gc_ctx c) a r f k (n, gc_env c) = Inr ((), n', gc_env c)"
proof -
  let ?s = "gc_env c" and ?t = "actor_TenantID a"
  note valid = texts(1) [unfolded governance_text_iff] optional_control_text [OF texts(2)] optional_control_text [OF texts(3)]
  obtain p where rel: "release_owner (cs_rows ?s) ?t r = Inr (p, r)" and may: "may_govern ActionExceptionsManage a (p, r)"
    and fin: "f \<noteq> [] \<Longrightarrow> memoryGovernanceFinding (cs_rows ?s) ?t f = Inr (p, r)"
    and ctl: "k \<noteq> [] \<Longrightarrow> control_owned (cs_rows ?s) ?t k"
    using sc by (auto simp: exception_scope_def)
  note p = release_owner_text [OF rel]
  have 1: "exception_subject (gc_ctx c) a ''release'' r (n, ?s) =
    Inr (\<lparr>gsr_Type = ''release'', gsr_ID = r, gsr_TenantID = ?t, gsr_ProductID = p, gsr_ReleaseID = r\<rparr>, n + 2, ?s)" for n
    using rel texts(1) by (intro exception_subject_live [OF ok]) (simp_all add: scope_owner_def)
  have 2: "exception_authorize (gc_ctx c) a (resource_request ActionExceptionsManage (no_refs\<lparr>ref_ProductID := p, ref_ReleaseID := r\<rparr>)) (n, ?s) =
    Inr ((), n + 2, ?s)" for n
    using may p by (intro exception_authorize_live [OF ok]) (simp_all add: may_govern_def)
  have 3: "exception_subject (gc_ctx c) a ''finding'' f (n, ?s) =
    Inr (\<lparr>gsr_Type = ''finding'', gsr_ID = f, gsr_TenantID = ?t, gsr_ProductID = p, gsr_ReleaseID = r\<rparr>, n + 2, ?s)" if "f \<noteq> []" for n
    using fin [OF that] texts(2) that by (intro exception_subject_live [OF ok]) (simp_all add: scope_owner_def optional_text_def)
  have 4: "exception_subject (gc_ctx c) a ''control'' k (n, ?s) =
    Inr (\<lparr>gsr_Type = ''control'', gsr_ID = k, gsr_TenantID = ?t, gsr_ProductID = [], gsr_ReleaseID = []\<rparr>, n + 2, ?s)" if "k \<noteq> []" for n
    using control_owner_ok [OF ctl [OF that] that] texts(3) that
    by (intro exception_subject_live [OF ok]) (simp_all add: scope_owner_def optional_text_def)
  show ?thesis
    using p valid 1 2 3 4 scope_authorize_live [OF ok]
    by (cases "f = []"; cases "k = []")
      (simp_all add: authorizeExceptionScope_def tx_bind_def tx_fail_if_def tx_result_def tx_return_def validGovernanceSubject_def subjectResources_def)
qed

lemma exception_preflight_live:
  "exception_caller_ok c a \<Longrightarrow> exception_preflight (gc_ctx c) a (n, s) = Inr ((), n + 3, s)"
  using scope_authorize_live caller_facts
  by (simp add: exception_preflight_def governance_context_def tx_bind_def tx_fail_if_def tx_result_def tx_return_def)

lemma appendGovernanceAudit_live:
  assumes ok: "exception_caller_ok c a" and "kind \<noteq> []" "subject \<noteq> []" "i \<noteq> []"
    and rows: "Tenants (cs_rows s) = Tenants (cs_rows (gc_env c))" "cs_AuditEntries s = cs_AuditEntries (gc_env c)"
  shows "\<exists>s'. appendGovernanceAudit c a (truncate_microsecond (gc_now c)) kind subject i (n, s) = Inr ((), n + 1, s')"
proof -
  let ?v = "governance_event c a (truncate_microsecond (gc_now c)) kind subject i"
  note f = caller_facts [OF ok]
  have "\<exists>s'. catalog_append (gc_hasher c) ?v s = Inr s'"
  proof (rule audit_append_ok)
    show "aev_TenantID ?v \<in> fst ` set (Tenants (cs_rows s))"
      using f(4) rows(1) by (force simp: governance_event_def requireMemoryTenant_def tbl_get_def split: if_splits option.splits dest: map_of_SomeD)
    show "list_all (\<lambda>e. ace_ID e \<noteq> aev_ID ?v) (chain_of (cs_audit s) (aev_TenantID ?v))"
      using ok rows by (simp add: exception_caller_ok_def governance_event_def cs_audit_def chain_of_def Let_def)
  qed (use ok f assms(2-4) in \<open>simp_all add: exception_caller_ok_def governance_event_def auditActorType_def validControlText_def
      validRiskLifecycleTime_def Let_def\<close>)
  then show ?thesis
    using ok f(1) by (auto simp: appendGovernanceAudit_def exception_caller_ok_def tx_run Let_def)
qed

section \<open>Creation and approval\<close>

definition exception_input_ok :: "governance_command \<Rightarrow> Actor \<Rightarrow> CreateExceptionInput \<Rightarrow> bool" where
  "exception_input_ok c a v \<longleftrightarrow>
    trimmed_exception v = v \<and> governance_text (cei_ReleaseID v) \<and> optional_text (cei_FindingID v) \<and> optional_text (cei_ControlID v) \<and>
    governance_text (cei_Owner v) \<and> validControlText (cei_Reason v) 65536 True \<and> validRiskLifecycleTime (cei_ExpiresAt v) \<and>
    truncate_microsecond (gc_now c) < cei_ExpiresAt v \<and> governance_text (gc_newID c ''ex'') \<and>
    tbl_get (Exceptions (cs_rows (gc_env c))) (gc_newID c ''ex'') = None \<and>
    exception_scope (gc_env c) a (cei_ReleaseID v) (cei_FindingID v) (cei_ControlID v)"

lemma InsertException_live:
  assumes ok: "exception_caller_ok c a" and v: "exception_input_ok c a v" and x: "x = new_exception c a v (truncate_microsecond (gc_now c))"
  shows "InsertException x (cs_rows (gc_env c)) =
    Inr ((cs_rows (gc_env c))\<lparr>Exceptions := tbl_put (Exceptions (cs_rows (gc_env c))) (exc_ID x) x\<rparr>)"
proof -
  note f = caller_facts [OF ok]
  obtain p where "release_owner (cs_rows (gc_env c)) (actor_TenantID a) (cei_ReleaseID v) = Inr (p, cei_ReleaseID v)"
    and k: "cei_ControlID v \<noteq> [] \<Longrightarrow> control_owned (cs_rows (gc_env c)) (actor_TenantID a) (cei_ControlID v)"
    using v by (auto simp: exception_input_ok_def exception_scope_def)
  from release_owner_row(2) [OF this(1)]
  have "memoryResourceBelongsToTenant rel_TenantID (cei_ReleaseID v) (actor_TenantID a) (Releases (cs_rows (gc_env c)))"
    by (auto simp: memoryResourceBelongsToTenant_def)
  moreover have "cei_ControlID v \<noteq> [] \<Longrightarrow>
      memoryResourceBelongsToTenant ctl_TenantID (cei_ControlID v) (actor_TenantID a) (SecurityControls (cs_rows (gc_env c)))"
    using k by (auto simp: memoryResourceBelongsToTenant_def control_owned_def split: option.splits)
  moreover have "\<not> is_zero_time (truncate_microsecond (gc_now c))" using f(9) by (simp add: validRiskLifecycleTime_def)
  ultimately show ?thesis
    using f v by (auto simp: x InsertException_def new_exception_def exception_input_ok_def governance_text_iff validControlText_def)
qed

lemma CreateException_live:
  assumes ok: "exception_caller_ok c a" and v: "exception_input_ok c a v"
  shows "\<exists>s'. run_governance c (CreateException c a v) = Inr (new_exception c a v (truncate_microsecond (gc_now c)), s')"
proof -
  let ?now = "truncate_microsecond (gc_now c)" and ?s = "gc_env c"
  let ?x = "new_exception c a v ?now"
  let ?r = "(cs_rows ?s)\<lparr>Exceptions := tbl_put (Exceptions (cs_rows ?s)) (exc_ID ?x) ?x\<rparr>"
  note f = caller_facts [OF ok] and pre = exception_preflight_live [OF ok] and ins = InsertException_live [OF ok v refl]
  have texts: "governance_text (cei_ReleaseID v)" "optional_text (cei_FindingID v)" "optional_text (cei_ControlID v)" "governance_text (cei_Owner v)"
    "validControlText (cei_Reason v) 65536 True" "trimmed_exception v = v" "governance_text (gc_newID c ''ex'')"
    and sc: "exception_scope ?s a (cei_ReleaseID v) (cei_FindingID v) (cei_ControlID v)"
    and time: "validRiskLifecycleTime (cei_ExpiresAt v)" "?now < cei_ExpiresAt v"
    using v by (auto simp: exception_input_ok_def)
  have x: "exc_ID ?x = gc_newID c ''ex''" "exc_ReleaseID ?x = cei_ReleaseID v" "exc_FindingID ?x = cei_FindingID v" "exc_ControlID ?x = cei_ControlID v"
    by (simp_all add: new_exception_def)
  have loose: "validControlText u m True \<Longrightarrow> validControlText u m False" for u m by (simp add: validControlText_def)
  have prep: "prepareCreateException (gc_ctx c) a v (n, st) = Inr (v, n + 3, st)" for n st
    using pre texts time(1) loose optional_control_text
    by (auto simp: prepareCreateException_def tx_bind_def tx_fail_if_def tx_result_def tx_return_def Let_def governance_text_iff validControlText_def)
  obtain n1 where au: "authorizeExceptionScope (gc_ctx c) a (cei_ReleaseID v) (cei_FindingID v) (cei_ControlID v) (5, ?s) = Inr ((), n1, ?s)"
    using authorizeExceptionScope_live [OF ok sc texts(1-3)] by blast
  obtain s' where log: "appendGovernanceAudit c a ?now ''exception.created'' ''exception'' (gc_newID c ''ex'') (n1 + 1, ?s\<lparr>cs_rows := ?r\<rparr>) =
      Inr ((), n1 + 1 + 1, s')"
    using appendGovernanceAudit_live [OF ok, of "''exception.created''" "''exception''" "gc_newID c ''ex''" "?s\<lparr>cs_rows := ?r\<rparr>" "n1 + 1"] texts(7)
    by (auto simp: governance_text_def)
  have "create_exception_tx c a ?x ?now (5, ?s) = Inr ((), n1 + 1 + 1, s')"
    using au log ins f(1) unfolding create_exception_tx_def governance_write_def governance_rows_def x
    by (simp add: tx_run)
  then have "execute_governance c (create_exception_tx c a ?x ?now) (3, ?s) = Inr ((), n1 + 3, s')"
    using f(1,2) by (simp add: execute_governance_def ExecuteUnit_def tx_run numeral_eq_Suc)
  then show ?thesis
    using prep f(9) time texts(7) x(1)
    by (auto simp: run_governance_def CreateException_def tx_bind_def tx_fail_if_def tx_result_def tx_return_def Let_def governance_text_iff)
qed

definition exception_pending :: "governance_command \<Rightarrow> Actor \<Rightarrow> Exception \<Rightarrow> bool" where
  "exception_pending c a x \<longleftrightarrow>
    tbl_get (Exceptions (cs_rows (gc_env c))) (exc_ID x) = Some x \<and> governance_text (exc_ID x) \<and> exc_TenantID x = actor_TenantID a \<and>
    \<not> exc_Approved x \<and> exc_ApprovedBy x = [] \<and> exc_ApprovedAt x = None \<and> truncate_microsecond (gc_now c) < exc_ExpiresAt x \<and>
    validRiskLifecycleTime (exc_ExpiresAt x) \<and> validRiskLifecycleTime (exc_CreatedAt x) \<and>
    governance_text (exc_ReleaseID x) \<and> optional_text (exc_FindingID x) \<and> optional_text (exc_ControlID x) \<and>
    governance_text (exc_Owner x) \<and> validControlText (exc_Reason x) 65536 True \<and>
    exception_scope (gc_env c) a (exc_ReleaseID x) (exc_FindingID x) (exc_ControlID x)"

lemma authorizeExceptionApproval_live:
  assumes ok: "exception_caller_ok c a" and x: "exception_pending c a x"
  shows "\<exists>n'. authorizeExceptionApproval (gc_ctx c) a (exc_ID x) (n, gc_env c) =
    Inr (\<lparr>ets_ID = exc_ID x, ets_TenantID = actor_TenantID a, ets_ReleaseID = exc_ReleaseID x, ets_FindingID = exc_FindingID x,
      ets_ControlID = exc_ControlID x, ets_Approved = False, ets_ExpiresAt = exc_ExpiresAt x\<rparr>, n', gc_env c)"
proof -
  note f = caller_facts [OF ok]
  have texts: "governance_text (exc_ReleaseID x)" "optional_text (exc_FindingID x)" "optional_text (exc_ControlID x)"
    and sc: "exception_scope (gc_env c) a (exc_ReleaseID x) (exc_FindingID x) (exc_ControlID x)"
    and row: "tbl_get (Exceptions (cs_rows (gc_env c))) (exc_ID x) = Some x" "governance_text (exc_ID x)" "exc_TenantID x = actor_TenantID a"
      "\<not> exc_Approved x" "validRiskLifecycleTime (exc_ExpiresAt x)"
    using x by (auto simp: exception_pending_def)
  obtain n' where "authorizeExceptionScope (gc_ctx c) a (exc_ReleaseID x) (exc_FindingID x) (exc_ControlID x) (Suc (Suc (n + 2)), gc_env c) =
      Inr ((), n', gc_env c)"
    using authorizeExceptionScope_live [OF ok sc texts] by blast
  moreover have "memoryGovernanceText (exc_ReleaseID x) 1024" "memoryGovernanceText (exc_FindingID x) 1024" "memoryGovernanceText (exc_ControlID x) 1024"
    using texts optional_control_text by (simp_all add: governance_text_def)
  ultimately show ?thesis
    using scope_authorize_live [OF ok] f row
    by (simp add: authorizeExceptionApproval_def ReadExceptionTransitionState_def memoryGovernanceRead_def tx_run)
qed

lemma ApproveException_live:
  assumes ok: "exception_caller_ok c a" and x: "exception_pending c a x"
  shows "\<exists>s'. run_governance c (ApproveExceptionCommand c a (exc_ID x)) =
    Inr (x\<lparr>exc_Approved := True, exc_ApprovedBy := auditActorID a, exc_ApprovedAt := Some (truncate_microsecond (gc_now c))\<rparr>, s')"
proof -
  let ?now = "truncate_microsecond (gc_now c)" and ?s = "gc_env c"
  let ?y = "x\<lparr>exc_Approved := True, exc_ApprovedBy := auditActorID a, exc_ApprovedAt := Some ?now\<rparr>"
  let ?r = "(cs_rows ?s)\<lparr>Exceptions := tbl_put (Exceptions (cs_rows ?s)) (exc_ID x) ?y\<rparr>"
  note f = caller_facts [OF ok] and pre = exception_preflight_live [OF ok]
  have row: "tbl_get (Exceptions (cs_rows ?s)) (exc_ID x) = Some x" "governance_text (exc_ID x)" "exc_TenantID x = actor_TenantID a"
      "\<not> exc_Approved x" "exc_ApprovedBy x = []" "exc_ApprovedAt x = None" "?now < exc_ExpiresAt x" "validRiskLifecycleTime (exc_CreatedAt x)"
      "governance_text (exc_Owner x)" "validControlText (exc_Reason x) 65536 True"
    using x by (auto simp: exception_pending_def)
  have texts: "memoryGovernanceText (exc_ReleaseID x) 1024" "memoryGovernanceText (exc_FindingID x) 1024" "memoryGovernanceText (exc_ControlID x) 1024"
      "memoryGovernanceText (exc_Owner x) 1024" "memoryGovernanceText [] 1024" "memoryGovernanceText (exc_Reason x) 65536" "validControlText [] 1024 False"
    using x optional_control_text [of "[]"] optional_control_text
    by (auto simp: exception_pending_def governance_text_def validControlText_def memoryGovernanceText_def optional_text_def)
  have prep: "prepareExceptionApproval (gc_ctx c) a (exc_ID x) (n, st) = Inr (exc_ID x, n + 3, st)" for n st
    using pre row(2) by (simp add: prepareExceptionApproval_def tx_bind_def tx_fail_if_def tx_result_def tx_return_def governance_text_iff)
  obtain n1 where au: "authorizeExceptionApproval (gc_ctx c) a (exc_ID x) (5, ?s) =
      Inr (\<lparr>ets_ID = exc_ID x, ets_TenantID = actor_TenantID a, ets_ReleaseID = exc_ReleaseID x, ets_FindingID = exc_FindingID x,
        ets_ControlID = exc_ControlID x, ets_Approved = False, ets_ExpiresAt = exc_ExpiresAt x\<rparr>, n1, ?s)"
    using authorizeExceptionApproval_live [OF ok x] by blast
  have rd: "ReadExceptionForApproval (gc_ctx c) (actor_TenantID a) (exc_ID x) (n1, ?s) = Inr (x, n1 + 2, ?s)"
    using f row texts by (simp add: ReadExceptionForApproval_def memoryGovernanceRead_def tx_run)
  have wr: "ApproveException ?y (cs_rows ?s) = Inr ?r"
    using f row by (simp add: ApproveException_def)
  obtain s' where log: "appendGovernanceAudit c a ?now ''exception.approved'' ''exception'' (exc_ID x) (Suc (n1 + 2), ?s\<lparr>cs_rows := ?r\<rparr>) =
      Inr ((), Suc (n1 + 2) + 1, s')"
    using appendGovernanceAudit_live [OF ok, of "''exception.approved''" "''exception''" "exc_ID x" "?s\<lparr>cs_rows := ?r\<rparr>" "Suc (n1 + 2)"] row(2)
    by (auto simp: governance_text_def)
  have "record_exception_approval c a ?now x (n1 + 2, ?s) = Inr (?y, Suc (n1 + 2) + 1, s')"
    using wr log f(1) row(4-6) by (simp add: record_exception_approval_def governance_write_def governance_rows_def tx_run Let_def)
  then have "approve_exception_tx c a (exc_ID x) ?now (5, ?s) = Inr (?y, Suc (n1 + 2) + 1, s')"
    using au rd row texts(7)
    by (simp add: approve_exception_tx_def exception_changed_def tx_bind_def tx_fail_if_def tx_result_def tx_return_def tx_map_error_def
        governance_text_iff Let_def)
  then have "execute_governance c (approve_exception_tx c a (exc_ID x) ?now) (3, ?s) = Inr (?y, n1 + 5, s')"
    using f(1,2) by (simp add: execute_governance_def ExecuteUnit_def tx_run numeral_eq_Suc)
  then show ?thesis
    using prep f(9) by (auto simp: run_governance_def ApproveExceptionCommand_def tx_bind_def tx_fail_if_def tx_result_def tx_return_def Let_def)
qed

text \<open>The owner of a subject does not depend on the exceptions of the store.\<close>

lemma product_release_frame: "product_release (state\<lparr>Exceptions := E\<rparr>) = product_release state"
  by (intro ext) (simp add: product_release_def resolve_frame)

lemma evidence_owner_frame: "memoryGovernanceEvidence (state\<lparr>Exceptions := E\<rparr>) = memoryGovernanceEvidence state"
proof -
  have "evidence_project (state\<lparr>Exceptions := E\<rparr>) = evidence_project state" "evidence_release (state\<lparr>Exceptions := E\<rparr>) = evidence_release state"
    by (intro ext; simp add: evidence_project_def evidence_release_def product_release_frame split: option.split)+
  then show ?thesis by (intro ext) (simp add: memoryGovernanceEvidence_def product_release_frame cong: if_cong split: option.split)
qed

lemma finding_owner_frame: "memoryGovernanceFinding (state\<lparr>Exceptions := E\<rparr>) = memoryGovernanceFinding state"
proof -
  have "finding_owner_step (state\<lparr>Exceptions := E\<rparr>) t = finding_owner_step state t" for t
    by (intro ext) (simp add: finding_owner_step_def evidence_owner_frame product_release_frame Let_def split: sum.split option.split prod.split)
  moreover have "scan_hits (state\<lparr>Exceptions := E\<rparr>) = scan_hits state" by (intro ext) (simp add: scan_hits_def)
  ultimately show ?thesis by (intro ext) (simp add: memoryGovernanceFinding_def)
qed

lemma exception_scope_frame:
  assumes "cs_rows s' = (cs_rows s)\<lparr>Exceptions := E\<rparr>"
  shows "exception_scope s' a r f k \<longleftrightarrow> exception_scope s a r f k"
proof -
  have "release_owner (cs_rows s') = release_owner (cs_rows s)"
    by (intro ext) (simp add: release_owner_def assms product_release_frame split: option.split)
  then show ?thesis by (simp add: exception_scope_def assms finding_owner_frame)
qed

lemma created_pending:
  assumes c: "exception_caller_ok c a" "exception_input_ok c a v"
    and run: "run_governance c (CreateException c a v) = Inr (x, s1)" "x = new_exception c a v (truncate_microsecond (gc_now c))"
    and d: "gc_env d = s1" "actor_TenantID b = actor_TenantID a" "truncate_microsecond (gc_now d) < exc_ExpiresAt x"
      "exception_scope (gc_env c) b (exc_ReleaseID x) (exc_FindingID x) (exc_ControlID x)"
  shows "exception_pending d b x"
proof -
  have ap: "appended (governance_event c a (exc_CreatedAt x) ''exception.created'' ''exception'' (exc_ID x)) (put_exception x (gc_env c)) s1"
    using CreateException_effect [OF run(1)] unfolding exception_created_def by blast
  have rows: "cs_rows s1 = (cs_rows (gc_env c))\<lparr>Exceptions := tbl_put (Exceptions (cs_rows (gc_env c))) (exc_ID x) x\<rparr>"
    using appended_tables [OF ap] by simp
  have "exception_scope s1 b (exc_ReleaseID x) (exc_FindingID x) (exc_ControlID x)"
    using d(4) exception_scope_frame [OF rows] by simp
  moreover have "tbl_get (Exceptions (cs_rows s1)) (exc_ID x) = Some x" by (simp add: rows)
  ultimately show ?thesis
    using c(2) caller_facts(9) [OF c(1)] d(1-3) run(2)
    by (simp add: exception_pending_def exception_input_ok_def new_exception_def)
qed

text \<open>
  C38: Exceptions can be granted. A well-formed request for an exception, by an actor with authority over its release
  and in a store where its finding and control belong to that release and tenant, creates a pending exception; any
  later request before its expiry to approve it, by an actor with that authority on the store so created, approves
  it in the name of that actor, and the approved exception is what the store then holds.
\<close>

theorem exception_granted:
  assumes "exception_caller_ok c a" and "exception_input_ok c a v"
  shows "\<exists>x s1. run_governance c (CreateException c a v) = Inr (x, s1) \<and> \<not> exc_Approved x \<and>
    (\<forall>d b. gc_env d = s1 \<longrightarrow> exception_caller_ok d b \<longrightarrow> actor_TenantID b = actor_TenantID a \<longrightarrow>
      truncate_microsecond (gc_now d) < exc_ExpiresAt x \<longrightarrow>
      exception_scope (gc_env c) b (exc_ReleaseID x) (exc_FindingID x) (exc_ControlID x) \<longrightarrow>
      (\<exists>y s2. run_governance d (ApproveExceptionCommand d b (exc_ID x)) = Inr (y, s2) \<and>
        y = x\<lparr>exc_Approved := True, exc_ApprovedBy := auditActorID b, exc_ApprovedAt := Some (truncate_microsecond (gc_now d))\<rparr> \<and>
        tbl_get (Exceptions (cs_rows s2)) (exc_ID x) = Some y))"
proof -
  let ?x = "new_exception c a v (truncate_microsecond (gc_now c))"
  obtain s1 where run: "run_governance c (CreateException c a v) = Inr (?x, s1)" using CreateException_live [OF assms] by blast
  have "\<exists>s2. run_governance d (ApproveExceptionCommand d b (exc_ID ?x)) =
      Inr (?x\<lparr>exc_Approved := True, exc_ApprovedBy := auditActorID b, exc_ApprovedAt := Some (truncate_microsecond (gc_now d))\<rparr>, s2) \<and>
    tbl_get (Exceptions (cs_rows s2)) (exc_ID ?x) =
      Some (?x\<lparr>exc_Approved := True, exc_ApprovedBy := auditActorID b, exc_ApprovedAt := Some (truncate_microsecond (gc_now d))\<rparr>)"
    if d: "gc_env d = s1" "exception_caller_ok d b" "actor_TenantID b = actor_TenantID a" "truncate_microsecond (gc_now d) < exc_ExpiresAt ?x"
      "exception_scope (gc_env c) b (exc_ReleaseID ?x) (exc_FindingID ?x) (exc_ControlID ?x)" for d b
  proof -
    let ?y = "?x\<lparr>exc_Approved := True, exc_ApprovedBy := auditActorID b, exc_ApprovedAt := Some (truncate_microsecond (gc_now d))\<rparr>"
    obtain s2 where s2: "run_governance d (ApproveExceptionCommand d b (exc_ID ?x)) = Inr (?y, s2)"
      using ApproveException_live [OF d(2) created_pending [OF assms run refl d(1,3-5)]] by blast
    have "tbl_get (Exceptions (cs_rows s2)) (exc_ID ?y) = Some ?y"
      using ApproveException_effect [OF s2] exception_approved_appended [THEN appended_tables] by (auto simp: exception_already_def)
    with s2 show ?thesis by auto
  qed
  moreover have "\<not> exc_Approved ?x" by (simp add: new_exception_def)
  ultimately show ?thesis using run by blast
qed

end
