(* ===== verification/Governance_Sample.thy ===== *)
theory Governance_Sample
  imports Governance_Runs Readiness_Sample
begin

text \<open>
  A sample of governance: the release of the readiness sample whose only decision is superseded, and an exception
  for its critical finding that is created and then approved, after which the finding is handled.
\<close>

definition governed_store :: governance_store where
  "governed_store = evaluation_store.extend (ready_store ''d2'')
    \<lparr>gs_Waivers = [], gs_Approvals = [], gs_CustomPolicies = [], gs_ManualSecurityDocuments = [], gs_ContractDiffs = []\<rparr>"

definition governed :: "string \<Rightarrow> governance_store \<Rightarrow> governance_command" where
  "governed n s =
    \<lparr>gc_ctx = Background, gc_env = s, gc_raced = False, gc_now = 20000, gc_newID = (\<lambda>p. p @ n), gc_hasher = (\<lambda>_. Inr ''c'')\<rparr>"

definition governor :: Actor where
  "governor = zero_actor\<lparr>actor_TenantID := ''t1'', actor_KeyID := ''k1'', actor_Scopes := [''release:write'', ''policy:write'']\<rparr>"

definition sample_exception :: CreateExceptionInput where
  "sample_exception = \<lparr>cei_ReleaseID = ''rel'', cei_FindingID = ''f1'', cei_ControlID = [], cei_Reason = ''r'', cei_Owner = ''o'',
    cei_ExpiresAt = 40000\<rparr>"

lemma governed_rows:
  "cs_rows governed_store = ready_rows ''d2''" "gs_Waivers governed_store = []" "gs_Approvals governed_store = []"
  "cs_AuditEntries governed_store = []" "Exceptions (ready_rows d) = []"
  "tbl_get (Tenants (ready_rows d)) ''t1'' = Some \<lparr>tenant_ID = ''t1'', tenant_Name = ''n'', tenant_CreatedAt = 1\<rparr>"
  by (simp_all add: governed_store_def ready_store_def evaluation_store.defs ready_rows_def sample_rows_def sample_tables sample_catalog_def
      emptyMemoryUnitOfWorkSnapshot_def tbl_get_def)

lemma governor_permitted:
  "permits governor (risk_request ActionExceptionsManage ScopeEvaluation no_refs)"
  "may_govern ActionExceptionsManage governor (''p1'', ''rel'')"
proof -
  have "Authorize Background governor (risk_request ActionExceptionsManage ScopeEvaluation no_refs) = None"
    "Authorize Background governor (risk_request ActionExceptionsManage ResolvedEvaluation (no_refs\<lparr>ref_ProductID := ''p1'', ref_ReleaseID := ''rel''\<rparr>)) = None"
    by code_simp+
  then show "permits governor (risk_request ActionExceptionsManage ScopeEvaluation no_refs)"
    "may_govern ActionExceptionsManage governor (''p1'', ''rel'')"
    by (auto simp: may_govern_def dest: Authorize_permitsD)
qed

lemma governed_scope: "exception_scope governed_store governor ''rel'' ''f1'' []"
proof -
  have "release_owner (ready_rows ''d2'') ''t1'' ''rel'' = Inr (''p1'', ''rel'')"
    "memoryGovernanceFinding (ready_rows ''d2'') ''t1'' ''f1'' = Inr (''p1'', ''rel'')"
    by code_simp+
  then show ?thesis
    using governor_permitted(2) by (simp add: exception_scope_def governed_rows governor_def zero_actor_def)
qed

lemma governed_texts:
  "governance_text ''rel''" "governance_text ''f1''" "governance_text ''t1''" "governance_text ''o''" "governance_text ''ex1''"
  "validControlText ''r'' 65536 True" "validControlText ''ace1'' 1024 True" "validControlText ''ace2'' 1024 True"
  "validControlText (auditActorID governor) 1024 True" "auditActorID governor = ''k1''"
proof -
  have "validControlText ''r'' 1024 True" by code_simp
  then show "validControlText ''r'' 65536 True" by (simp add: validControlText_def)
qed code_simp+

lemma governed_time: "truncate_microsecond 20000 = 20000" "truncate_microsecond 40000 = 40000" "validRiskLifecycleTime 20000"
  "validRiskLifecycleTime 40000" "year_of 20000 = 1"
  by code_simp+

lemma governed_caller:
  assumes "Tenants (cs_rows s) = Tenants (ready_rows ''d2'')" "list_all (\<lambda>e. ace_ID e \<noteq> ''ace'' @ n) (chain_of (cs_audit s) ''t1'')"
    "validControlText (''ace'' @ n) 1024 True"
  shows "exception_caller_ok (governed n s) governor"
proof -
  have t: "actor_TenantID governor = ''t1''" by (simp add: governor_def zero_actor_def)
  show ?thesis
    using assms governed_texts(3,9) governor_permitted(1) governed_time governed_rows(6) [of "''d2''"]
    by (simp add: exception_caller_ok_def governed_def t governance_text_iff)
qed

lemma governed_caller1: "exception_caller_ok (governed ''1'' governed_store) governor"
  by (rule governed_caller) (use governed_texts(7) in \<open>simp_all add: governed_rows cs_audit_def chain_of_def tbl_get_def\<close>)

lemma governed_input: "exception_input_ok (governed ''1'' governed_store) governor sample_exception"
proof -
  have "trimmed_exception sample_exception = sample_exception"
    by code_simp
  then show ?thesis
    using governed_texts governed_time governed_scope
    by (simp add: exception_input_ok_def governed_def sample_exception_def optional_text_def governed_rows tbl_get_def)
qed

lemma governed_caller2:
  assumes "run_governance (governed ''1'' governed_store) (CreateException (governed ''1'' governed_store) governor sample_exception) = Inr (x, s1)"
  shows "exception_caller_ok (governed ''2'' s1) governor"
proof (rule governed_caller)
  have env: "gc_env (governed ''1'' governed_store) = governed_store" by (simp add: governed_def)
  have ap: "appended (governance_event (governed ''1'' governed_store) governor (exc_CreatedAt x) ''exception.created'' ''exception'' (exc_ID x))
      (put_exception x governed_store) s1"
    using CreateException_effect [OF assms] unfolding exception_created_def env by blast
  show "Tenants (cs_rows s1) = Tenants (ready_rows ''d2'')" using appended_tables [OF ap] by (simp add: governed_rows)
  have "coerce_utf8 ''ace1'' = ''ace1''" by (simp add: coerce_utf8_ascii byte_def)
  with ap show "list_all (\<lambda>e. ace_ID e \<noteq> ''ace'' @ ''2'') (chain_of (cs_audit s1) ''t1'')"
    by (auto simp: appended_def governance_event_def governed_def governor_def zero_actor_def chain_of_def cs_audit_def put_exception_def
        governed_rows tbl_get_def tbl_put_def)
  show "validControlText (''ace'' @ ''2'') 1024 True" using governed_texts(8) by simp
qed

text \<open>The sample as a run of two commands: the exception is created, then approved.\<close>

definition created :: "Exception \<Rightarrow> governance_store \<Rightarrow> bool" where
  "created x s1 \<longleftrightarrow>
    run_governance (governed ''1'' governed_store) (CreateException (governed ''1'' governed_store) governor sample_exception) = Inr (x, s1)"

definition granted :: "Exception \<Rightarrow> governance_store \<Rightarrow> Exception \<Rightarrow> governance_store \<Rightarrow> bool" where
  "granted x s1 y s2 \<longleftrightarrow> created x s1 \<and>
    run_governance (governed ''2'' s1) (ApproveExceptionCommand (governed ''2'' s1) governor (exc_ID x)) = Inr (y, s2)"

lemma env [simp]: "gc_env (governed n s) = s" "gc_now (governed n s) = 20000"
  by (simp_all add: governed_def)

lemma created_exception:
  "created x s1 \<Longrightarrow> x = new_exception (governed ''1'' governed_store) governor sample_exception 20000"
  using CreateException_live [OF governed_caller1 governed_input] governed_time(1) by (auto simp: created_def)

lemma granted_ex: "\<exists>x s1 y s2. granted x s1 y s2"
proof -
  obtain x s1 where x: "created x s1" using CreateException_live [OF governed_caller1 governed_input] by (auto simp: created_def)
  have "exception_pending (governed ''2'' s1) governor x"
    using x [unfolded created_def] created_exception [OF x] governed_scope governed_time
    by (intro created_pending [OF governed_caller1 governed_input]) (simp_all add: new_exception_def sample_exception_def)
  from ApproveException_live [OF governed_caller2 [OF x [unfolded created_def]] this] x show ?thesis unfolding granted_def by blast
qed

lemma granted_exception:
  assumes "granted x s1 y s2"
  shows "exc_TenantID y = ''t1''" "exc_ReleaseID y = ''rel''" "exc_FindingID y = ''f1''" "exc_ExpiresAt y = 40000" "exc_ApprovedBy y = ''k1''"
proof -
  have x: "created x s1" "x = new_exception (governed ''1'' governed_store) governor sample_exception 20000"
    using assms created_exception [of x s1] by (simp_all add: granted_def)
  have "exception_pending (governed ''2'' s1) governor x"
    using x(1) [unfolded created_def] x(2) governed_scope governed_time
    by (intro created_pending [OF governed_caller1 governed_input]) (simp_all add: new_exception_def sample_exception_def)
  from ApproveException_live [OF governed_caller2 [OF x(1) [unfolded created_def]] this] assms
  have "y = x\<lparr>exc_Approved := True, exc_ApprovedBy := auditActorID governor, exc_ApprovedAt := Some 20000\<rparr>"
    by (auto simp: granted_def governed_time)
  then show "exc_TenantID y = ''t1''" "exc_ReleaseID y = ''rel''" "exc_FindingID y = ''f1''" "exc_ExpiresAt y = 40000" "exc_ApprovedBy y = ''k1''"
    using governed_texts(10) by (simp_all add: x(2) new_exception_def sample_exception_def governor_def zero_actor_def)
qed

lemma governed_ok: "governance_ok governed_store"
  by (simp add: governance_ok_def governed_rows tbl_get_def)

theorem exception_granted_witness:
  "\<exists>x s1 y s2. run_governance (governed ''1'' governed_store) (CreateException (governed ''1'' governed_store) governor sample_exception) = Inr (x, s1) \<and>
    run_governance (governed ''2'' s1) (ApproveExceptionCommand (governed ''2'' s1) governor (exc_ID x)) = Inr (y, s2) \<and>
    \<not> exc_Approved x \<and> exc_ApprovedBy y = ''k1'' \<and> tbl_get (Exceptions (cs_rows s2)) (exc_ID x) = Some y"
proof -
  from exception_granted [OF governed_caller1 governed_input] obtain x s1 where
    x: "run_governance (governed ''1'' governed_store) (CreateException (governed ''1'' governed_store) governor sample_exception) = Inr (x, s1)"
      "\<not> exc_Approved x"
    and ap: "\<And>d b. gc_env d = s1 \<Longrightarrow> exception_caller_ok d b \<Longrightarrow> actor_TenantID b = actor_TenantID governor \<Longrightarrow>
      truncate_microsecond (gc_now d) < exc_ExpiresAt x \<Longrightarrow>
      exception_scope governed_store b (exc_ReleaseID x) (exc_FindingID x) (exc_ControlID x) \<Longrightarrow>
      \<exists>y s2. run_governance d (ApproveExceptionCommand d b (exc_ID x)) = Inr (y, s2) \<and>
        y = x\<lparr>exc_Approved := True, exc_ApprovedBy := auditActorID b, exc_ApprovedAt := Some (truncate_microsecond (gc_now d))\<rparr> \<and>
        tbl_get (Exceptions (cs_rows s2)) (exc_ID x) = Some y"
    by auto
  have "exc_ReleaseID x = ''rel''" "exc_FindingID x = ''f1''" "exc_ControlID x = []" "exc_ExpiresAt x = 40000"
    using created_exception [unfolded created_def, OF x(1)] by (simp_all add: new_exception_def sample_exception_def)
  with ap [of "governed ''2'' s1" governor] governed_caller2 [OF x(1)] governed_scope governed_time
  obtain y s2 where y: "run_governance (governed ''2'' s1) (ApproveExceptionCommand (governed ''2'' s1) governor (exc_ID x)) = Inr (y, s2)"
      "exc_ApprovedBy y = auditActorID governor" "tbl_get (Exceptions (cs_rows s2)) (exc_ID x) = Some y"
    by auto
  with x governed_texts(10) show ?thesis by metis
qed

theorem governance_authority_witness:
  "\<exists>s1. governance_exec (governed ''1'' governed_store) governor (NewException sample_exception) = Inr s1 \<and>
    confined governor governed_store s1 \<and> authorized governor governed_store s1"
proof -
  obtain x s1 where "created x s1" using CreateException_live [OF governed_caller1 governed_input] by (auto simp: created_def)
  then have run: "governance_exec (governed ''1'' governed_store) governor (NewException sample_exception) = Inr s1" by (simp add: created_def)
  from governance_authority [OF this] run show ?thesis by auto
qed

theorem governance_lifecycle_witness:
  "\<exists>s1 s2. governance_step\<^sup>*\<^sup>* governed_store s1 \<and> governance_step\<^sup>*\<^sup>* s1 s2 \<and> governance_ok s1 \<and> forward s1 s2"
proof -
  obtain x s1 y s2 where g: "granted x s1 y s2" using granted_ex by blast
  then have "governance_exec (governed ''1'' governed_store) governor (NewException sample_exception) = Inr s1"
    "governance_exec (governed ''2'' s1) governor (ExceptionApproval (exc_ID x)) = Inr s2"
    by (simp_all add: granted_def created_def)
  then have "governance_step governed_store s1" "governance_step s1 s2"
    using governance_step.intros env(1) by metis+
  then have "governance_step\<^sup>*\<^sup>* governed_store s1" "governance_step\<^sup>*\<^sup>* s1 s2" by blast+
  with governance_lifecycle [OF governed_ok this] show ?thesis by blast
qed

text \<open>The only finding of the sample is the one the exception names.\<close>

lemma exec_scans: "governance_exec c a call = Inr s' \<Longrightarrow> VulnerabilityScans (cs_rows s') = VulnerabilityScans (cs_rows (gc_env c))"
proof -
  assume "governance_exec c a call = Inr s'"
  from governance_exec_confined [OF this] obtain E A W P where
    "s' = (gc_env c)\<lparr>cs_rows := (cs_rows (gc_env c))\<lparr>Exceptions := E\<rparr>, cs_AuditEntries := A, gs_Waivers := W, gs_Approvals := P\<rparr>"
    unfolding confined_def by blast
  then show ?thesis by simp
qed

lemma granted_scans:
  assumes "granted x s1 y s2"
  shows "VulnerabilityScans (cs_rows s1) = [(''v1'', sample_scan)]" "VulnerabilityScans (cs_rows s2) = [(''v1'', sample_scan)]"
proof -
  have "governance_exec (governed ''1'' governed_store) governor (NewException sample_exception) = Inr s1"
    "governance_exec (governed ''2'' s1) governor (ExceptionApproval (exc_ID x)) = Inr s2"
    using assms by (simp_all add: granted_def created_def)
  from this [THEN exec_scans] show "VulnerabilityScans (cs_rows s1) = [(''v1'', sample_scan)]" "VulnerabilityScans (cs_rows s2) = [(''v1'', sample_scan)]"
    by (simp_all add: governed_rows ready_rows_def)
qed

lemma sample_scan_findings:
  assumes "VulnerabilityScans state = [(''v1'', sample_scan)]" "(scan, findings) \<in> set (release_scans state t p r)" "f \<in> set findings"
  shows "find_ID f = ''f1''"
proof -
  have "tbl_get (VulnerabilityScans state) scan = Some v \<Longrightarrow> v = sample_scan" for v
    using assms(1) by (simp add: tbl_get_def split: if_splits)
  then show ?thesis
    using assms(2,3) by (auto simp: release_scans_def scan_entry_def sample_scan_def sample_finding_def)
qed

lemma sample_scan_wf: "well_formed_findings sample_scan"
proof -
  have "TrimSpace ''f1'' \<noteq> []" "TrimSpace ''Critical'' \<noteq> []" by code_simp+
  then show ?thesis by (simp add: well_formed_findings_def sample_scan_def sample_finding_def)
qed

theorem exception_approval_exact_witness:
  "map_sum id (\<lambda>(facts, _). mrf_UnhandledCritical facts) (readMemoryReadinessFacts Background governed_store ''t1'' ''p1'' ''rel'' 20000 (0, ())) = Inr True \<and>
   (\<exists>c x s' facts st. run_governance c (ApproveExceptionCommand c governor ''ex1'') = Inr (x, s') \<and>
     readMemoryReadinessFacts Background s' ''t1'' ''p1'' ''rel'' 20000 (0, ()) = Inr (facts, st) \<and> \<not> mrf_UnhandledCritical facts)"
proof
  show "map_sum id (\<lambda>(facts, _). mrf_UnhandledCritical facts) (readMemoryReadinessFacts Background governed_store ''t1'' ''p1'' ''rel'' 20000 (0, ())) = Inr True"
    by code_simp
  obtain x s1 y s2 where g: "granted x s1 y s2" using granted_ex by blast
  then have "exc_ID x = ''ex1''" using created_exception [of x s1] by (simp add: granted_def new_exception_def governed_def)
  with g have run: "run_governance (governed ''2'' s1) (ApproveExceptionCommand (governed ''2'' s1) governor ''ex1'') = Inr (y, s2)"
    by (simp add: granted_def)
  have "\<forall>i v. tbl_get (VulnerabilityScans (cs_rows s2)) i = Some v \<longrightarrow> scan_of_release (cs_rows s2) ''t1'' ''p1'' ''rel'' (i, v) \<longrightarrow> well_formed_findings v"
    using sample_scan_wf by (auto simp: granted_scans [OF g] tbl_get_def split: if_splits)
  from facts_live [OF live_Background this, where at = 20000 and n = 0 and st = "()"] obtain facts n where
    rd: "readMemoryReadinessFacts Background s2 ''t1'' ''p1'' ''rel'' 20000 (0, ()) = Inr (facts, n, ())" by blast
  have "\<not> unhandled_without y (cs_rows s1) ''t1'' ''p1'' ''rel'' 20000 ''critical''"
    using sample_scan_findings [OF granted_scans(1) [OF g]] granted_exception [OF g]
    by (auto simp: unhandled_without_def covers_def)
  with exception_approval_exact [OF run rd] have "\<not> mrf_UnhandledCritical facts" by simp
  with run rd show "\<exists>c x s' facts st. run_governance c (ApproveExceptionCommand c governor ''ex1'') = Inr (x, s') \<and>
     readMemoryReadinessFacts Background s' ''t1'' ''p1'' ''rel'' 20000 (0, ()) = Inr (facts, st) \<and> \<not> mrf_UnhandledCritical facts"
    by blast
qed

end
