(* ===== verification/Vulnerability_Decisions.thy ===== *)
theory Vulnerability_Decisions
  imports Governance_Runs
begin

text \<open>
  Decisions on vulnerability findings: the readers of a finding, of its references and of its active decisions
  (\<^verbatim>\<open>app/memory_manual_decision_reads.go\<close>, \<^verbatim>\<open>memory_manual_decision_support.go\<close>), the checked append with its
  supersession links (\<^verbatim>\<open>memory_manual_decision_append.go\<close>) and the command that records a decision
  (\<^verbatim>\<open>risk/app/vulnerability_decision_commands.go\<close>) on the unit of work that \<^verbatim>\<open>platform/wiring\<close> composes for it. A
  \<^verbatim>\<open>DecisionStatus\<close> is its string, blank for the zero value, and a decision of the context is the row it is stored as
  (\<^verbatim>\<open>VulnerabilityDecisionFromContextModel\<close> copies every field). The clock, the identifier generators and the hasher of
  audit entries are arguments; \<open>dc_auditID k\<close> is the identifier of the \<open>k\<close>-th audit entry of the command.
  A loop over a Go map visits the rows in the order of the table; with several damaged rows the code may report another
  of their errors, and its results do not depend on the order.
\<close>

section \<open>Rows\<close>

text \<open>
  The columns of SBOMs and VEX documents that are not coordinates, by the identifier of the row, and two further
  tables of the snapshot.
\<close>

record SBOMComponent =
  sc_Identity :: string
  sc_Name :: string
  sc_Version :: string
  sc_PURL :: string

record sbom_columns =
  sb_ArtifactID :: string
  sb_Components :: "SBOMComponent list"
  sb_CreatedAt :: time

record Incident =
  inc_ID :: string
  inc_TenantID :: string
  inc_ProductID :: string
  inc_ReleaseID :: string
  inc_Title :: string
  inc_Severity :: string
  inc_Status :: string
  inc_OpenedAt :: time
  inc_ClosedAt :: "time option"
  inc_SchemaVersion :: string
  inc_CreatedAt :: time

record RemediationTask =
  rt_ID :: string
  rt_TenantID :: string
  rt_IncidentID :: string
  rt_ReleaseID :: string
  rt_Title :: string
  rt_Owner :: string
  rt_Status :: string
  rt_DueAt :: "time option"
  rt_EvidenceID :: string
  rt_SchemaVersion :: string
  rt_CreatedAt :: time

record decision_store = governance_store +
  ds_SBOMColumns :: "(string, sbom_columns) table"
  ds_VEXArtifacts :: "(string, string) table"
  ds_Incidents :: "(string, Incident) table"
  ds_RemediationTasks :: "(string, RemediationTask) table"

definition sbom_of :: "decision_store \<Rightarrow> string \<Rightarrow> sbom_columns" where
  "sbom_of s i = (case tbl_get (ds_SBOMColumns s) i of
     None \<Rightarrow> \<lparr>sb_ArtifactID = [], sb_Components = [], sb_CreatedAt = 0\<rparr> | Some b \<Rightarrow> b)"

definition vex_artifact :: "decision_store \<Rightarrow> string \<Rightarrow> string" where
  "vex_artifact s i = (case tbl_get (ds_VEXArtifacts s) i of None \<Rightarrow> [] | Some a \<Rightarrow> a)"

section \<open>Readers\<close>

text \<open>A loop that observes the context before each element, with a body that observes it too.\<close>

fun tx_loop :: "go_context \<Rightarrow> ('x \<Rightarrow> 'acc \<Rightarrow> ('s, 'acc) stx) \<Rightarrow> 'x list \<Rightarrow> 'acc \<Rightarrow> ('s, 'acc) stx" where
  "tx_loop ctx g [] acc = tx_return acc"
| "tx_loop ctx g (x # xs) acc = tx_bind (tx_observe ctx) (\<lambda>_. tx_bind (g x acc) (tx_loop ctx g xs))"

definition nonEmpty :: "string \<Rightarrow> string \<Rightarrow> string" where
  "nonEmpty v fallback = (let v = TrimSpace v in if v = [] then fallback else v)"

definition release_parent :: "MemoryUnitOfWorkSnapshot \<Rightarrow> string \<Rightarrow> string \<Rightarrow> owner \<Rightarrow> owner result" where
  "release_parent s tenant release owner =
    (if release = [] then Inr owner
     else case tbl_get (Releases s) release of
       None \<Rightarrow> Inl ErrNotFound
     | Some r \<Rightarrow>
        (if rel_ID r \<noteq> release \<or> rel_TenantID r \<noteq> tenant \<or> fst owner \<noteq> [] \<and> fst owner \<noteq> rel_ProductID r then Inl ErrNotFound
         else product_release s tenant (rel_ProductID r) release))"

definition artifact_in_tenant :: "MemoryUnitOfWorkSnapshot \<Rightarrow> string \<Rightarrow> string \<Rightarrow> bool" where
  "artifact_in_tenant s tenant artifact \<longleftrightarrow>
    artifact = [] \<or> (case tbl_get (Artifacts s) artifact of None \<Rightarrow> False | Some a \<Rightarrow> art_ID a = artifact \<and> art_TenantID a = tenant)"

definition memoryDecisionParsedOwner ::
  "MemoryUnitOfWorkSnapshot \<Rightarrow> string \<Rightarrow> string \<Rightarrow> string \<Rightarrow> string \<Rightarrow> string \<Rightarrow> owner result" where
  "memoryDecisionParsedOwner s tenant source kind release artifact =
    bind_result (memoryGovernanceEvidence s tenant source kind) (\<lambda>owner.
      if release \<noteq> [] \<and> snd owner \<noteq> [] \<and> release \<noteq> snd owner then Inl ErrNotFound
      else bind_result (release_parent s tenant (nonEmpty release (snd owner)) owner) (\<lambda>owner.
        if artifact_in_tenant s tenant artifact then Inr owner else Inl ErrNotFound))"

record FindingReference =
  fr_ID :: string
  fr_ScanID :: string
  fr_TenantID :: string
  fr_ReleaseID :: string
  fr_ProductID :: string
  fr_ProjectID :: string
  fr_Vulnerability :: string
  fr_Component :: string
  fr_Severity :: string
  fr_State :: string
  fr_SBOMID :: string
  fr_SBOMComponentPURL :: string
  fr_SBOMComponentName :: string

text \<open>
  The choice of the SBOM component a finding is about: the best match of the component text, of the oldest SBOM.
\<close>

record sbom_choice =
  ch_ID :: string
  ch_CreatedAt :: time
  ch_Component :: SBOMComponent
  ch_Priority :: int

definition no_choice :: sbom_choice where
  "no_choice = \<lparr>ch_ID = [], ch_CreatedAt = 0,
    ch_Component = \<lparr>sc_Identity = [], sc_Name = [], sc_Version = [], sc_PURL = []\<rparr>, ch_Priority = 2\<rparr>"

definition component_rank :: "string \<Rightarrow> SBOMComponent \<Rightarrow> int" where
  "component_rank component c =
    (let purl = TrimSpace (sc_PURL c); name = TrimSpace (sc_Name c); version = TrimSpace (sc_Version c) in
     if purl \<noteq> [] \<and> purl = component then 0
     else if name = component \<or> version \<noteq> [] \<and> name @ ''@'' @ version = component then 1 else 2)"

definition component_step :: "string \<Rightarrow> string \<Rightarrow> time \<Rightarrow> SBOMComponent \<Rightarrow> sbom_choice \<Rightarrow> sbom_choice" where
  "component_step component i createdAt c best =
    (let rank = component_rank component c in
     if rank \<ge> 2 \<or> rank > ch_Priority best \<or>
        rank = ch_Priority best \<and> (createdAt > ch_CreatedAt best \<or> createdAt = ch_CreatedAt best \<and> i \<ge> ch_ID best)
     then best
     else \<lparr>ch_ID = i, ch_CreatedAt = createdAt, ch_Component = c, ch_Priority = rank\<rparr>)"

definition sbom_step ::
  "go_context \<Rightarrow> decision_store \<Rightarrow> FindingReference \<Rightarrow> string \<times> source_row \<Rightarrow> sbom_choice \<Rightarrow> (decision_store, sbom_choice) stx" where
  "sbom_step ctx s f = (\<lambda>(key, b) best.
    if key \<noteq> src_ID b \<or> src_TenantID b \<noteq> fr_TenantID f then tx_return best
    else let columns = sbom_of s key in
      case memoryDecisionParsedOwner (cs_rows s) (fr_TenantID f) (src_EvidenceID b) ''sbom'' (src_ReleaseID b) (sb_ArtifactID columns) of
        Inl _ \<Rightarrow> tx_return best
      | Inr owner \<Rightarrow>
         (if fst owner \<noteq> fr_ProductID f \<or> snd owner \<noteq> fr_ReleaseID f then tx_return best
          else range_loop ctx (\<lambda>c best. Inr (component_step (TrimSpace (fr_Component f)) (src_ID b) (sb_CreatedAt columns) c best))
            (sb_Components columns) best))"

definition memoryDecisionSBOMContext ::
  "go_context \<Rightarrow> decision_store \<Rightarrow> FindingReference \<Rightarrow> (decision_store, FindingReference) stx" where
  "memoryDecisionSBOMContext ctx s f =
    (if TrimSpace (fr_Component f) = [] then tx_bind (tx_observe ctx) (\<lambda>_. tx_return f)
     else
     tx_bind (tx_loop ctx (sbom_step ctx s f) (tbl_rows (cs_SBOMs s)) no_choice) (\<lambda>best.
     if ch_Priority best = 2 then tx_bind (tx_observe ctx) (\<lambda>_. tx_return f)
     else let c = ch_Component best in
     tx_bind (tx_fail_if (\<not> memoryGovernanceText (ch_ID best) 1024 \<or> \<not> memoryGovernanceText (sc_PURL c) 1024 \<or>
       \<not> memoryGovernanceText (sc_Name c) 65536 \<or> \<not> memoryGovernanceText (sc_Version c) (length (sc_Version c))) ErrValidation) (\<lambda>_.
     tx_bind (tx_observe ctx) (\<lambda>_.
     tx_return (f\<lparr>fr_SBOMID := ch_ID best, fr_SBOMComponentPURL := TrimSpace (sc_PURL c),
       fr_SBOMComponentName := TrimSpace (sc_Name c)\<rparr>)))))"

definition evidence_project_id :: "MemoryUnitOfWorkSnapshot \<Rightarrow> string \<Rightarrow> string" where
  "evidence_project_id s i = (case tbl_get (Evidence s) i of None \<Rightarrow> [] | Some e \<Rightarrow> ev_ProjectID e)"

definition decision_finding_step ::
  "MemoryUnitOfWorkSnapshot \<Rightarrow> string \<Rightarrow> string \<Rightarrow> VulnerabilityScan \<Rightarrow> VulnerabilityFinding \<Rightarrow> FindingReference option \<Rightarrow>
   FindingReference option result" where
  "decision_finding_step s tenant i scan f found =
    (if find_ID f \<noteq> i then Inr found
     else case memoryDecisionParsedOwner s tenant (scan_EvidenceID scan) ''vulnerability_scan'' (scan_ReleaseID scan) [] of
       Inl e \<Rightarrow> (if e = ErrValidation then Inl e else Inr found)
     | Inr (product, release) \<Rightarrow>
        (if release = [] then Inr found
         else let project = evidence_project_id s (scan_EvidenceID scan) in
         if list_ex (\<lambda>t. \<not> memoryGovernanceText t 1024) [scan_ID scan, product, release, project, find_Vulnerability f, find_Component f]
         then Inl ErrValidation
         else if TrimSpace (find_Vulnerability f) = [] \<or> \<not> memoryGovernanceText (find_Severity f) 128 \<or>
           \<not> memoryGovernanceText (find_State f) 128 then Inl ErrValidation
         else if found \<noteq> None then Inl ErrConflict
         else Inr (Some \<lparr>fr_ID = i, fr_ScanID = scan_ID scan, fr_TenantID = tenant, fr_ReleaseID = release, fr_ProductID = product,
           fr_ProjectID = project, fr_Vulnerability = find_Vulnerability f, fr_Component = find_Component f,
           fr_Severity = find_Severity f, fr_State = find_State f, fr_SBOMID = [], fr_SBOMComponentPURL = [],
           fr_SBOMComponentName = []\<rparr>)))"

definition decision_scan_step ::
  "go_context \<Rightarrow> MemoryUnitOfWorkSnapshot \<Rightarrow> string \<Rightarrow> string \<Rightarrow> string \<times> VulnerabilityScan \<Rightarrow> FindingReference option \<Rightarrow>
   (decision_store, FindingReference option) stx" where
  "decision_scan_step ctx s tenant i = (\<lambda>(key, scan) found.
    if key \<noteq> scan_ID scan \<or> scan_TenantID scan \<noteq> tenant then tx_return found
    else range_loop ctx (decision_finding_step s tenant i scan)
      (case scan_Findings scan of None \<Rightarrow> [] | Some fs \<Rightarrow> fs) found)"

definition readMemoryDecisionFinding ::
  "go_context \<Rightarrow> decision_store \<Rightarrow> string \<Rightarrow> string \<Rightarrow> (decision_store, FindingReference) stx" where
  "readMemoryDecisionFinding ctx s tenant i =
    tx_bind (tx_loop ctx (decision_scan_step ctx (cs_rows s) tenant i) (tbl_rows (VulnerabilityScans (cs_rows s))) None) (\<lambda>found.
    case found of None \<Rightarrow> tx_result (Inl ErrNotFound) | Some f \<Rightarrow> memoryDecisionSBOMContext ctx s f)"

definition ReadDecisionFinding :: "go_context \<Rightarrow> string \<Rightarrow> string \<Rightarrow> (decision_store, FindingReference) stx" where
  "ReadDecisionFinding ctx tenant i =
    memoryGovernanceScan ctx tenant i (\<lambda>s. readMemoryDecisionFinding ctx s tenant i)"

definition evidence_kind :: "MemoryUnitOfWorkSnapshot \<Rightarrow> string \<Rightarrow> string" where
  "evidence_kind s i = (case tbl_get (Evidence s) i of None \<Rightarrow> [] | Some e \<Rightarrow> ev_Type e)"

definition ReadDecisionEvidence :: "go_context \<Rightarrow> string \<Rightarrow> string \<Rightarrow> (decision_store, owner) stx" where
  "ReadDecisionEvidence ctx tenant i =
    memoryGovernanceScan ctx tenant i (\<lambda>s.
      tx_bind (tx_result (memoryGovernanceEvidence (cs_rows s) tenant i (evidence_kind (cs_rows s) i))) (\<lambda>owner.
      tx_bind (tx_observe ctx) (\<lambda>_. tx_return owner)))"

definition ReadDecisionVEX :: "go_context \<Rightarrow> string \<Rightarrow> string \<Rightarrow> (decision_store, owner \<times> string) stx" where
  "ReadDecisionVEX ctx tenant i =
    memoryGovernanceScan ctx tenant i (\<lambda>s. case tbl_get (cs_VEXDocuments s) i of
      None \<Rightarrow> tx_result (Inl ErrNotFound)
    | Some v \<Rightarrow>
       (if src_ID v \<noteq> i \<or> src_TenantID v \<noteq> tenant then tx_result (Inl ErrNotFound)
        else if \<not> memoryGovernanceText (src_EvidenceID v) 1024 then tx_result (Inl ErrValidation)
        else
        tx_bind (tx_result (memoryDecisionParsedOwner (cs_rows s) tenant (src_EvidenceID v) ''vex'' (src_ReleaseID v) (vex_artifact s i))) (\<lambda>owner.
        tx_bind (tx_observe ctx) (\<lambda>_. tx_return (owner, src_EvidenceID v)))))"

section \<open>Supporting references\<close>

definition evidence_known :: "MemoryUnitOfWorkSnapshot \<Rightarrow> string \<Rightarrow> string \<Rightarrow> bool" where
  "evidence_known s tenant i \<longleftrightarrow> i = [] \<or> \<not> isl (memoryGovernanceEvidence s tenant i (evidence_kind s i))"

definition incident_owned :: "decision_store \<Rightarrow> string \<Rightarrow> string \<Rightarrow> string \<Rightarrow> string \<Rightarrow> bool" where
  "incident_owned s tenant product release i \<longleftrightarrow>
    (case tbl_get (ds_Incidents s) i of None \<Rightarrow> False
     | Some v \<Rightarrow> inc_ID v = i \<and> inc_TenantID v = tenant \<and> inc_ProductID v = product \<and> inc_ReleaseID v = release)"

definition waiver_owned :: "decision_store \<Rightarrow> string \<Rightarrow> string \<Rightarrow> string \<Rightarrow> string \<Rightarrow> bool" where
  "waiver_owned s tenant product release i \<longleftrightarrow>
    (case tbl_get (gs_Waivers s) i of None \<Rightarrow> False
     | Some v \<Rightarrow> wv_ID v = i \<and> wv_TenantID v = tenant \<and>
        (wv_ScopeType v = ''product'' \<and> wv_ScopeID v = product \<or> wv_ScopeType v = ''release'' \<and> wv_ScopeID v = release))"

definition contract_owned :: "decision_store \<Rightarrow> string \<Rightarrow> string \<Rightarrow> string \<Rightarrow> bool" where
  "contract_owned s tenant product i \<longleftrightarrow>
    (case tbl_get (cs_OpenAPIContracts s) i of None \<Rightarrow> False
     | Some c \<Rightarrow> src_ID c = i \<and> src_TenantID c = tenant \<and> src_ProductID c = product \<and>
        memoryGovernanceProductRelease (cs_rows s) tenant product (src_ReleaseID c) = None \<and>
        (case memoryGovernanceEvidence (cs_rows s) tenant (src_EvidenceID c) ''openapi_contract'' of
           Inl _ \<Rightarrow> False
         | Inr e \<Rightarrow> \<not> (fst e \<noteq> [] \<and> fst e \<noteq> product \<or> src_ReleaseID c \<noteq> [] \<and> snd e \<noteq> [] \<and> src_ReleaseID c \<noteq> snd e)))"

definition approved_subject_owned :: "decision_store \<Rightarrow> string \<Rightarrow> string \<Rightarrow> string \<Rightarrow> string \<Rightarrow> string \<Rightarrow> bool" where
  "approved_subject_owned s tenant product release kind i \<longleftrightarrow>
    (if kind = ''release'' then i = release
     else if kind = ''waiver'' then waiver_owned s tenant product release i
     else if kind = ''customer_package'' then
       (case tbl_get (es_CustomerPackages s) i of None \<Rightarrow> False
        | Some p \<Rightarrow> pkg_ID p = i \<and> pkg_TenantID p = tenant \<and> pkg_ProductID p = product \<and> pkg_ReleaseID p = release \<and>
           (case tbl_get (es_RedactionProfiles s) (pkg_RedactionProfileID p) of None \<Rightarrow> False
            | Some q \<Rightarrow> rprof_ID q = pkg_RedactionProfileID p \<and> rprof_TenantID q = tenant))
     else if kind = ''security_review'' then
       (case tbl_get (gs_ManualSecurityDocuments s) i of None \<Rightarrow> False
        | Some d \<Rightarrow> mdoc_ID d = i \<and> mdoc_TenantID d = tenant \<and> mdoc_DocumentType d = ''security_review'' \<and>
           mdoc_ProductID d = product \<and> mdoc_ReleaseID d = release \<and>
           (case memoryGovernanceEvidence (cs_rows s) tenant (mdoc_EvidenceID d) ''security_review'' of
              Inl _ \<Rightarrow> False
            | Inr e \<Rightarrow> (fst e = [] \<or> fst e = product) \<and> (snd e = [] \<or> snd e = release)))
     else if kind = ''contract_diff'' then
       (case tbl_get (gs_ContractDiffs s) i of None \<Rightarrow> False
        | Some d \<Rightarrow> cdiff_ID d = i \<and> cdiff_TenantID d = tenant \<and> cdiff_ProductID d = product \<and> cdiff_ReleaseID d = release \<and>
           list_all (contract_owned s tenant product) [cdiff_BaseContractID d, cdiff_TargetContractID d])
     else False)"

definition task_owned :: "decision_store \<Rightarrow> string \<Rightarrow> string \<Rightarrow> string \<Rightarrow> string \<Rightarrow> bool" where
  "task_owned s tenant product release i \<longleftrightarrow>
    (case tbl_get (ds_RemediationTasks s) i of None \<Rightarrow> False
     | Some v \<Rightarrow> rt_ID v = i \<and> rt_TenantID v = tenant \<and> evidence_known (cs_rows s) tenant (rt_EvidenceID v) \<and>
        (rt_IncidentID v = [] \<or> incident_owned s tenant product release (rt_IncidentID v)) \<and>
        (rt_ReleaseID v = [] \<or> rt_ReleaseID v = release) \<and>
        (rt_ReleaseID v = release \<or> rt_IncidentID v \<noteq> [] \<and> incident_owned s tenant product release (rt_IncidentID v)))"

definition memoryDecisionSupportingOwned :: "decision_store \<Rightarrow> string \<Rightarrow> string \<Rightarrow> string \<Rightarrow> string \<Rightarrow> string \<Rightarrow> bool" where
  "memoryDecisionSupportingOwned s tenant product release kind i \<longleftrightarrow>
    (if kind = ''exception'' then
       (case tbl_get (Exceptions (cs_rows s)) i of None \<Rightarrow> False
        | Some v \<Rightarrow> exc_ID v = i \<and> exc_TenantID v = tenant \<and> exc_ReleaseID v = release)
     else if kind = ''waiver'' then waiver_owned s tenant product release i
     else if kind = ''incident'' then incident_owned s tenant product release i
     else if kind = ''release_bundle'' then
       (case tbl_get (cs_ReleaseBundles s) i of None \<Rightarrow> False
        | Some v \<Rightarrow> bun_ID v = i \<and> bun_TenantID v = tenant \<and> bun_ReleaseID v = release)
     else if kind = ''remediation_task'' then task_owned s tenant product release i
     else if kind = ''approval'' then
       (case tbl_get (gs_Approvals s) i of None \<Rightarrow> False
        | Some v \<Rightarrow> apr_ID v = i \<and> apr_TenantID v = tenant \<and> evidence_known (cs_rows s) tenant (apr_EvidenceID v) \<and>
           approved_subject_owned s tenant product release (apr_SubjectType v) (apr_SubjectID v))
     else False)"

definition ValidateDecisionSupportingReference ::
  "go_context \<Rightarrow> string \<Rightarrow> string \<Rightarrow> string \<Rightarrow> SubjectRef \<Rightarrow> (decision_store, unit) stx" where
  "ValidateDecisionSupportingReference ctx tenant product release r =
    tx_bind (tx_fail_if (\<not> memoryMembershipQueryText product 1024 \<or> \<not> memoryMembershipQueryText release 1024 \<or>
      \<not> memoryGovernanceText (sref_Digest r) 128 \<or> TrimSpace (sref_Digest r) \<noteq> []) ErrValidation) (\<lambda>_.
    memoryGovernanceScan ctx tenant (sref_ID r) (\<lambda>s.
      tx_bind (tx_result (check_then (memoryGovernanceProductRelease (cs_rows s) tenant product release) (Inr ()))) (\<lambda>_.
      tx_bind (tx_fail_if (\<not> memoryDecisionSupportingOwned s tenant product release (sref_Type r) (sref_ID r)) ErrNotFound) (\<lambda>_.
      tx_observe ctx))))"

section \<open>Active decisions\<close>

record ActiveDecisionHead =
  adh_ID :: string
  adh_TenantID :: string
  adh_FindingID :: string
  adh_ScanID :: string
  adh_ReleaseID :: string
  adh_Status :: string

definition ParseDecisionStatus :: "string \<Rightarrow> string result" where
  "ParseDecisionStatus v =
    (let v = TrimSpace v in
     if v \<in> {''affected'', ''not_affected'', ''fixed'', ''under_investigation''} then Inr v
     else Inl (ErrOther ''invalid vulnerability decision status''))"

text \<open>The bounded insertion into the sorted list of identifiers (\<^verbatim>\<open>sort.SearchStrings\<close> and the shift).\<close>

definition insert_id :: "nat \<Rightarrow> string \<Rightarrow> string list \<Rightarrow> string list" where
  "insert_id limit i ids =
    (let position = length (takeWhile (\<lambda>j. j < i) ids) in
     if position \<ge> limit then ids
     else take limit (take position ids @ [i] @ drop position ids))"

definition is_head :: "string \<Rightarrow> string \<Rightarrow> VulnerabilityDecision \<Rightarrow> bool" where
  "is_head tenant finding v \<longleftrightarrow> \<not> (dec_TenantID v \<noteq> tenant \<or> dec_FindingID v \<noteq> finding \<or> dec_SupersededBy v \<noteq> [])"

definition head_id_step :: "nat \<Rightarrow> string \<Rightarrow> string \<Rightarrow> string \<times> VulnerabilityDecision \<Rightarrow> string list \<Rightarrow> string list" where
  "head_id_step limit tenant finding = (\<lambda>(i, v) ids. if is_head tenant finding v then insert_id limit i ids else ids)"

definition read_head :: "MemoryUnitOfWorkSnapshot \<Rightarrow> string \<Rightarrow> string \<Rightarrow> string \<Rightarrow> ActiveDecisionHead list \<Rightarrow> ActiveDecisionHead list result" where
  "read_head s tenant finding i out =
    (case tbl_get (Decisions s) i of
       None \<Rightarrow> Inl ErrConflict
     | Some v \<Rightarrow>
        (if dec_ID v \<noteq> i then Inl ErrConflict
         else if list_ex (\<lambda>t. \<not> memoryGovernanceText t 1024) [dec_ID v, dec_ScanID v, dec_ReleaseID v] then Inl ErrValidation
         else if \<not> memoryGovernanceText (dec_Status v) 128 then Inl ErrValidation
         else case ParseDecisionStatus (dec_Status v) of
           Inl _ \<Rightarrow> Inl ErrConflict
         | Inr status \<Rightarrow> Inr (out @ [\<lparr>adh_ID = i, adh_TenantID = tenant, adh_FindingID = finding, adh_ScanID = dec_ScanID v,
             adh_ReleaseID = dec_ReleaseID v, adh_Status = status\<rparr>])))"

definition readMemoryActiveDecisionHeads ::
  "go_context \<Rightarrow> decision_store \<Rightarrow> string \<Rightarrow> string \<Rightarrow> nat \<Rightarrow> (decision_store, ActiveDecisionHead list) stx" where
  "readMemoryActiveDecisionHeads ctx s tenant finding limit =
    tx_bind (range_loop ctx (\<lambda>row ids. Inr (head_id_step limit tenant finding row ids)) (tbl_rows (Decisions (cs_rows s))) []) (\<lambda>ids.
    tx_bind (tx_result (fold_result (read_head (cs_rows s) tenant finding) ids [])) (\<lambda>heads.
    tx_bind (tx_observe ctx) (\<lambda>_.
    tx_return heads)))"

definition ReadActiveDecisionHeads :: "go_context \<Rightarrow> string \<Rightarrow> string \<Rightarrow> nat \<Rightarrow> (decision_store, ActiveDecisionHead list) stx" where
  "ReadActiveDecisionHeads ctx tenant finding limit =
    tx_bind (tx_fail_if (limit < 1 \<or> limit > 129) ErrValidation) (\<lambda>_.
    memoryGovernanceScan ctx tenant finding (\<lambda>s. readMemoryActiveDecisionHeads ctx s tenant finding limit))"

section \<open>The checked append\<close>

definition SupportedDecisionSupportingReference :: "string \<Rightarrow> bool" where
  "SupportedDecisionSupportingReference kind \<longleftrightarrow>
    kind \<in> {''approval'', ''exception'', ''waiver'', ''remediation_task'', ''release_bundle'', ''incident''}"

text \<open>The loop over the expected heads; \<open>seen\<close> holds the identifiers so far.\<close>

fun heads_expected :: "VulnerabilityDecision \<Rightarrow> string list \<Rightarrow> ActiveDecisionHead list \<Rightarrow> bool" where
  "heads_expected v seen [] \<longleftrightarrow> True"
| "heads_expected v seen (h # hs) \<longleftrightarrow>
    \<not> (adh_ID h = [] \<or> \<not> memoryGovernanceText (adh_ID h) 1024 \<or> adh_ID h = dec_ID v \<or> adh_ID h \<in> set seen \<or>
       adh_TenantID h \<noteq> dec_TenantID v \<or> adh_FindingID h \<noteq> dec_FindingID v \<or> adh_ScanID h \<noteq> dec_ScanID v \<or>
       adh_ReleaseID h \<noteq> dec_ReleaseID v \<or> adh_Status h = []) \<and> heads_expected v (adh_ID h # seen) hs"

definition validMemoryDecisionAppend :: "VulnerabilityDecision \<Rightarrow> ActiveDecisionHead list \<Rightarrow> bool" where
  "validMemoryDecisionAppend v expected \<longleftrightarrow>
    \<not> (dec_Status v = [] \<or> is_zero_time (dec_CreatedAt v) \<or> dec_SupersededBy v \<noteq> [] \<or> length expected > 128 \<or>
       length (dec_EvidenceIDs v) > 256 \<or> length (dec_SupportingRefs v) > 20) \<and>
    list_all (\<lambda>t. TrimSpace t \<noteq> [] \<and> memoryGovernanceText t 1024) [dec_FindingID v, dec_ScanID v, dec_ReleaseID v, dec_Vulnerability v] \<and>
    list_all (\<lambda>t. memoryGovernanceText t 1024) [dec_Component v, dec_SBOMID v, dec_SBOMComponentPURL v, dec_EvidenceID v,
      dec_VEXDocumentID v, dec_Supersedes v, dec_ApprovedBy v] \<and>
    list_all (\<lambda>t. memoryGovernanceText t 65536) [dec_SBOMComponentName v, dec_Justification v, dec_ImpactStatement v, dec_ActionStatement v] \<and>
    TrimSpace (dec_Justification v) \<noteq> [] \<and> memoryGovernanceText (dec_InternalNotes v) 8192 \<and> memoryGovernanceText (dec_Source v) 128 \<and>
    dec_Source v \<noteq> [] \<and> memoryGovernanceText (dec_SchemaVersion v) 128 \<and> dec_SchemaVersion v \<noteq> [] \<and>
    list_all (\<lambda>i. i \<noteq> [] \<and> memoryGovernanceText i 1024) (dec_EvidenceIDs v) \<and>
    list_all (\<lambda>r. SupportedDecisionSupportingReference (sref_Type r) \<and> sref_ID r \<noteq> [] \<and> memoryGovernanceText (sref_ID r) 1024 \<and>
      memoryGovernanceText (sref_Digest r) 128 \<and> TrimSpace (sref_Digest r) = []) (dec_SupportingRefs v) \<and>
    heads_expected v [] expected"

definition finding_disagrees :: "VulnerabilityDecision \<Rightarrow> FindingReference \<Rightarrow> bool" where
  "finding_disagrees v f \<longleftrightarrow>
    fr_ScanID f \<noteq> dec_ScanID v \<or> fr_ReleaseID f \<noteq> dec_ReleaseID v \<or> fr_Vulnerability f \<noteq> dec_Vulnerability v \<or>
    fr_Component f \<noteq> dec_Component v \<or>
    dec_SBOMID v \<noteq> [] \<and> (dec_SBOMID v \<noteq> fr_SBOMID f \<or> dec_SBOMComponentPURL v \<noteq> fr_SBOMComponentPURL f \<or>
      dec_SBOMComponentName v \<noteq> fr_SBOMComponentName f)"

definition append_evidence_step :: "MemoryUnitOfWorkSnapshot \<Rightarrow> VulnerabilityDecision \<Rightarrow> FindingReference \<Rightarrow> string \<Rightarrow> unit \<Rightarrow> unit result" where
  "append_evidence_step s v f i u =
    bind_result (memoryGovernanceEvidence s (dec_TenantID v) i (evidence_kind s i)) (\<lambda>owner.
      if fst owner \<noteq> [] \<and> fst owner \<noteq> fr_ProductID f \<or> snd owner \<noteq> [] \<and> snd owner \<noteq> dec_ReleaseID v then Inl ErrNotFound else Inr ())"

definition append_vex :: "decision_store \<Rightarrow> VulnerabilityDecision \<Rightarrow> FindingReference \<Rightarrow> unit result" where
  "append_vex s v f =
    (if dec_VEXDocumentID v = [] then Inr ()
     else case tbl_get (cs_VEXDocuments s) (dec_VEXDocumentID v) of
       None \<Rightarrow> Inl ErrNotFound
     | Some d \<Rightarrow>
        (if src_ID d \<noteq> dec_VEXDocumentID v \<or> src_TenantID d \<noteq> dec_TenantID v then Inl ErrNotFound
         else bind_result (memoryDecisionParsedOwner (cs_rows s) (dec_TenantID v) (src_EvidenceID d) ''vex'' (src_ReleaseID d)
             (vex_artifact s (dec_VEXDocumentID v))) (\<lambda>owner.
           if snd owner \<noteq> dec_ReleaseID v \<or> fst owner \<noteq> [] \<and> fst owner \<noteq> fr_ProductID f then Inl ErrNotFound else Inr ())))"

definition link_heads :: "string \<Rightarrow> ActiveDecisionHead list \<Rightarrow> (string, VulnerabilityDecision) table \<Rightarrow> (string, VulnerabilityDecision) table" where
  "link_heads i = fold (\<lambda>h t. case tbl_get t (adh_ID h) of
     None \<Rightarrow> t | Some prior \<Rightarrow> tbl_put t (adh_ID h) (prior\<lparr>dec_SupersededBy := i\<rparr>))"

definition tx_put :: "'s \<Rightarrow> ('s, unit) stx" where
  "tx_put s = (\<lambda>(n, _). Inr ((), n, s))"

definition append_body ::
  "go_context \<Rightarrow> VulnerabilityDecision \<Rightarrow> ActiveDecisionHead list \<Rightarrow> decision_store \<Rightarrow> (decision_store, unit) stx" where
  "append_body ctx v want s =
    (let state = cs_rows s in
    tx_bind (tx_fail_if (tbl_get (Decisions state) (dec_ID v) \<noteq> None) ErrConflict) (\<lambda>_.
    tx_bind (readMemoryDecisionFinding ctx s (dec_TenantID v) (dec_FindingID v)) (\<lambda>f.
    tx_bind (tx_fail_if (finding_disagrees v f) ErrNotFound) (\<lambda>_.
    tx_bind (tx_result (fold_result (append_evidence_step state v f)
      (dec_EvidenceIDs v @ (if dec_EvidenceID v = [] then [] else [dec_EvidenceID v])) ())) (\<lambda>_.
    tx_bind (tx_result (append_vex s v f)) (\<lambda>_.
    tx_bind (tx_fail_if (list_ex (\<lambda>r. \<not> memoryDecisionSupportingOwned s (dec_TenantID v) (fr_ProductID f) (dec_ReleaseID v)
      (sref_Type r) (sref_ID r)) (dec_SupportingRefs v)) ErrNotFound) (\<lambda>_.
    tx_bind (readMemoryActiveDecisionHeads ctx s (dec_TenantID v) (dec_FindingID v) 129) (\<lambda>current.
    tx_bind (tx_fail_if (length current \<noteq> length want \<or> length current > 128) ErrConflict) (\<lambda>_.
    tx_bind (tx_fail_if (current \<noteq> want) ErrConflict) (\<lambda>_.
    tx_bind (tx_fail_if (case want of [] \<Rightarrow> dec_Supersedes v \<noteq> [] | h # _ \<Rightarrow> dec_Supersedes v \<noteq> adh_ID h) ErrConflict) (\<lambda>_.
    tx_bind (tx_observe ctx) (\<lambda>_.
    tx_put (s\<lparr>cs_rows := state\<lparr>Decisions := tbl_put (link_heads (dec_ID v) want (Decisions state)) (dec_ID v) v\<rparr>\<rparr>)))))))))))))"

definition AppendVulnerabilityDecision ::
  "go_context \<Rightarrow> VulnerabilityDecision \<Rightarrow> ActiveDecisionHead list \<Rightarrow> (decision_store, unit) stx" where
  "AppendVulnerabilityDecision ctx v expected =
    (if \<not> validMemoryDecisionAppend v expected then tx_result (Inl ErrValidation)
     else memoryGovernanceScan ctx (dec_TenantID v) (dec_ID v) (append_body ctx v (sort_key adh_ID expected)))"

section \<open>The command\<close>

record CreateVulnerabilityDecisionInput =
  cvd_Status :: string
  cvd_Justification :: string
  cvd_ImpactStatement :: string
  cvd_ActionStatement :: string
  cvd_CustomerVisible :: bool
  cvd_InternalNotes :: string
  cvd_EvidenceIDs :: "string list"
  cvd_SupportingRefs :: "SubjectRef list"
  cvd_VEXDocumentID :: string
  cvd_ReviewedAt :: "time option"
  cvd_ReviewDueAt :: "time option"

record decision_command =
  dc_ctx :: go_context
  dc_env :: decision_store
  dc_raced :: bool
  dc_now :: time
  dc_newID :: string
  dc_auditID :: "nat \<Rightarrow> string"
  dc_hasher :: canonical_hasher

definition NewVulnerabilityDecisionWriteAuthorizer :: "go_context \<Rightarrow> Actor \<Rightarrow> AuthorizationRequest \<Rightarrow> error option" where
  "NewVulnerabilityDecisionWriteAuthorizer = riskResourceWriteAuthorizer ActionVulnerabilityDecisionsRecord"

definition decision_authorize :: "go_context \<Rightarrow> Actor \<Rightarrow> AuthorizationRequest \<Rightarrow> (decision_store, unit) stx" where
  "decision_authorize ctx a r = tx_authorize (\<lambda>c. NewVulnerabilityDecisionWriteAuthorizer c a r) 2 ctx"

definition decision_context :: "go_context \<Rightarrow> (decision_store, unit) stx" where
  "decision_context ctx = (if nil_context ctx then tx_result (Inl (ErrOther ''context canceled'')) else tx_observe ctx)"

definition execute_decision :: "decision_command \<Rightarrow> (decision_store, 'a) stx \<Rightarrow> (decision_store, 'a) stx" where
  "execute_decision c m = tx_map_error mapControlWriteError (ExecuteUnit (dc_ctx c) (dc_raced c) (dc_env c) m)"

definition validFindingReference :: "FindingReference \<Rightarrow> string \<Rightarrow> string \<Rightarrow> bool" where
  "validFindingReference v tenantID i \<longleftrightarrow> fr_ID v = i \<and> fr_TenantID v = tenantID \<and> fr_ReleaseID v \<noteq> [] \<and> fr_ScanID v \<noteq> []"

definition validDecisionFindingText :: "FindingReference \<Rightarrow> bool" where
  "validDecisionFindingText f \<longleftrightarrow>
    list_all (\<lambda>t. validControlText t 1024 False) [fr_ID f, fr_TenantID f, fr_ScanID f, fr_ProductID f, fr_ProjectID f, fr_ReleaseID f,
      fr_Vulnerability f, fr_Component f, fr_SBOMID f, fr_SBOMComponentPURL f] \<and>
    validControlText (fr_Vulnerability f) 1024 True \<and> validControlText (fr_SBOMComponentName f) 65536 False"

definition authorizeDecisionFinding :: "go_context \<Rightarrow> Actor \<Rightarrow> string \<Rightarrow> (decision_store, FindingReference) stx" where
  "authorizeDecisionFinding ctx a findingID =
    tx_bind (decision_authorize ctx a (scope_request ActionVulnerabilityDecisionsRecord)) (\<lambda>_.
    tx_bind (ReadDecisionFinding ctx (actor_TenantID a) findingID) (\<lambda>finding.
    tx_bind (tx_fail_if (\<not> validFindingReference finding (actor_TenantID a) findingID \<or> fr_ProductID finding = []) ErrNotFound) (\<lambda>_.
    tx_bind (tx_fail_if (\<not> validDecisionFindingText finding) ErrValidation) (\<lambda>_.
    tx_bind (decision_authorize ctx a (resource_request ActionVulnerabilityDecisionsRecord
      (no_refs\<lparr>ref_ProductID := fr_ProductID finding, ref_ProjectID := fr_ProjectID finding, ref_ReleaseID := fr_ReleaseID finding\<rparr>))) (\<lambda>_.
    tx_return finding)))))"

definition AuthorizeVulnerabilityDecision :: "decision_command \<Rightarrow> Actor \<Rightarrow> string \<Rightarrow> (decision_store, unit) stx" where
  "AuthorizeVulnerabilityDecision c a findingID =
    tx_bind (decision_context (dc_ctx c)) (\<lambda>_.
    tx_bind (decision_authorize (dc_ctx c) a (scope_request ActionVulnerabilityDecisionsRecord)) (\<lambda>_.
    let findingID = TrimSpace findingID in
    tx_bind (tx_fail_if (\<not> validControlText (actor_TenantID a) 1024 True \<or> \<not> validControlText (auditActorID a) 1024 True \<or>
      \<not> validControlText findingID 1024 True) ErrValidation) (\<lambda>_.
    execute_decision c (tx_bind (authorizeDecisionFinding (dc_ctx c) a findingID) (\<lambda>_. tx_return ())))))"

subsection \<open>Input\<close>

text \<open>The closure \<^verbatim>\<open>text\<close> over the texts of the input with their limits; \<open>used\<close> is its running byte count.\<close>

fun texts_within :: "int \<Rightarrow> (string \<times> nat) list \<Rightarrow> bool" where
  "texts_within used [] \<longleftrightarrow> True"
| "texts_within used ((v, limit) # vs) \<longleftrightarrow>
    \<not> int (length v) > 131072 - used \<and> used + int (length v) \<le> 131072 \<and> validControlText v limit False \<and>
    texts_within (used + int (length v)) vs"

definition validDecisionCommandInput :: "CreateVulnerabilityDecisionInput \<Rightarrow> bool" where
  "validDecisionCommandInput v \<longleftrightarrow>
    \<not> (length (cvd_EvidenceIDs v) > 256 \<or> length (cvd_SupportingRefs v) > 20) \<and>
    texts_within 0 ([(cvd_Justification v, 65536), (cvd_ImpactStatement v, 65536), (cvd_ActionStatement v, 65536),
      (cvd_InternalNotes v, 8192), (cvd_Status v, 128), (cvd_VEXDocumentID v, 1024)] @
      map (\<lambda>i. (i, 1024)) (cvd_EvidenceIDs v) @
      concat (map (\<lambda>r. [(sref_Type r, 128), (sref_ID r, 1024), (sref_Digest r, 128)]) (cvd_SupportingRefs v)))"

definition normalized_review :: "CreateVulnerabilityDecisionInput \<Rightarrow> time \<Rightarrow> (time \<times> time option) result" where
  "normalized_review v now =
    bind_result (case cvd_ReviewedAt v of
        None \<Rightarrow> Inr now
      | Some t \<Rightarrow> (if is_zero_time t \<or> t > now + Minute then Inl ErrValidation else Inr t)) (\<lambda>reviewedAt.
      case cvd_ReviewDueAt v of
        None \<Rightarrow> Inr (reviewedAt, None)
      | Some due \<Rightarrow> (if is_zero_time due \<or> \<not> due > reviewedAt then Inl ErrValidation else Inr (reviewedAt, Some due)))"

definition normalized_evidence :: "string list \<Rightarrow> string list result" where
  "normalized_evidence ids =
    (let ids = map TrimSpace ids in if [] \<in> set ids then Inl ErrValidation else Inr (sort (remdups ids)))"

text \<open>
  \<^verbatim>\<open>ToLower\<close> is exact on the six supported types; two spellings of an unsupported type that is not ASCII may be refused
  here as unsupported where the code refuses them as duplicates.
\<close>

definition normalized_refs :: "SubjectRef list \<Rightarrow> SubjectRef list result" where
  "normalized_refs refs =
    (let refs = map (\<lambda>r. r\<lparr>sref_Type := ToLower (TrimSpace (sref_Type r)), sref_ID := TrimSpace (sref_ID r)\<rparr>) refs in
     if list_ex (\<lambda>r. sref_Type r = [] \<or> sref_ID r = [] \<or> TrimSpace (sref_Digest r) \<noteq> []) refs then Inl ErrValidation
     else if \<not> distinct (map (\<lambda>r. sref_Type r @ [CHR 0x00] @ sref_ID r) refs) then Inl ErrValidation
     else Inr (sort_key sref_Type (sort_key sref_ID refs)))"

definition normalizeDecisionInput :: "CreateVulnerabilityDecisionInput \<Rightarrow> time \<Rightarrow> CreateVulnerabilityDecisionInput result" where
  "normalizeDecisionInput v now =
    (case ParseDecisionStatus (cvd_Status v) of
       Inl _ \<Rightarrow> Inl ErrValidation
     | Inr status \<Rightarrow>
        let v = v\<lparr>cvd_Status := status, cvd_Justification := TrimSpace (cvd_Justification v),
          cvd_ImpactStatement := TrimSpace (cvd_ImpactStatement v), cvd_ActionStatement := TrimSpace (cvd_ActionStatement v),
          cvd_InternalNotes := TrimSpace (cvd_InternalNotes v), cvd_VEXDocumentID := TrimSpace (cvd_VEXDocumentID v)\<rparr> in
        if cvd_Justification v = [] \<or> length (cvd_InternalNotes v) > 8192 \<or> cvd_CustomerVisible v \<and> cvd_ImpactStatement v = []
        then Inl ErrValidation
        else bind_result (normalized_review v now) (\<lambda>(reviewedAt, due).
          bind_result (normalized_evidence (cvd_EvidenceIDs v)) (\<lambda>ids.
          if length (cvd_SupportingRefs v) > 20 then Inl ErrValidation
          else bind_result (normalized_refs (cvd_SupportingRefs v)) (\<lambda>refs.
            Inr (v\<lparr>cvd_ReviewedAt := Some reviewedAt, cvd_ReviewDueAt := due, cvd_EvidenceIDs := ids, cvd_SupportingRefs := refs\<rparr>)))))"

subsection \<open>References and heads\<close>

definition decision_evidence_step ::
  "go_context \<Rightarrow> FindingReference \<Rightarrow> string \<Rightarrow> (decision_store, unit) stx" where
  "decision_evidence_step ctx f i =
    tx_bind (ReadDecisionEvidence ctx (fr_TenantID f) i) (\<lambda>owner.
    tx_fail_if (fst owner \<noteq> [] \<and> fst owner \<noteq> fr_ProductID f \<or>
      snd owner \<noteq> [] \<and> (snd owner \<noteq> fr_ReleaseID f \<or> fst owner = [])) ErrNotFound)"

fun tx_all :: "('x \<Rightarrow> ('s, unit) stx) \<Rightarrow> 'x list \<Rightarrow> ('s, unit) stx" where
  "tx_all g [] = tx_return ()"
| "tx_all g (x # xs) = tx_bind (g x) (\<lambda>_. tx_all g xs)"

definition validateDecisionCommandReferences ::
  "go_context \<Rightarrow> FindingReference \<Rightarrow> CreateVulnerabilityDecisionInput \<Rightarrow> (decision_store, unit) stx" where
  "validateDecisionCommandReferences ctx f v =
    tx_bind (if cvd_VEXDocumentID v = [] then tx_return ()
      else tx_bind (ReadDecisionVEX ctx (fr_TenantID f) (cvd_VEXDocumentID v)) (\<lambda>(owner, evidence).
        tx_fail_if (fst owner \<noteq> fr_ProductID f \<or> snd owner \<noteq> fr_ReleaseID f \<or> \<not> validControlText evidence 1024 True) ErrNotFound)) (\<lambda>_.
    tx_bind (tx_all (decision_evidence_step ctx f) (cvd_EvidenceIDs v)) (\<lambda>_.
    tx_all (ValidateDecisionSupportingReference ctx (fr_TenantID f) (fr_ProductID f) (fr_ReleaseID f)) (cvd_SupportingRefs v)))"

definition maxActiveDecisionHeads :: nat where
  "maxActiveDecisionHeads = 128"

text \<open>The loop over the sorted heads; \<open>previous\<close> is the identifier of the head before.\<close>

fun check_heads :: "Actor \<Rightarrow> FindingReference \<Rightarrow> string option \<Rightarrow> ActiveDecisionHead list \<Rightarrow> unit result" where
  "check_heads a f previous [] = Inr ()"
| "check_heads a f previous (h # hs) =
    (if \<not> validControlText (adh_ID h) 1024 True then Inl ErrValidation
     else if adh_TenantID h \<noteq> actor_TenantID a \<or> adh_FindingID h \<noteq> fr_ID f \<or> adh_ScanID h \<noteq> fr_ScanID f \<or>
       adh_ReleaseID h \<noteq> fr_ReleaseID f \<or> previous = Some (adh_ID h) \<or> adh_Status h = [] then Inl ErrConflict
     else check_heads a f (Some (adh_ID h)) hs)"

definition VulnerabilityDecisionVersion :: string where
  "VulnerabilityDecisionVersion = ''vulnerability-decision.v1.0.0''"

definition CanTransitionTo :: "string \<Rightarrow> string \<Rightarrow> bool" where
  "CanTransitionTo status next \<longleftrightarrow> status \<noteq> [] \<and> next \<noteq> []"

definition current_heads :: "Actor \<Rightarrow> FindingReference \<Rightarrow> ActiveDecisionHead list \<Rightarrow> ActiveDecisionHead list" where
  "current_heads a f = filter (\<lambda>h. adh_TenantID h = actor_TenantID a \<and> adh_FindingID h = fr_ID f)"

definition buildVulnerabilityDecision ::
  "decision_command \<Rightarrow> Actor \<Rightarrow> FindingReference \<Rightarrow> CreateVulnerabilityDecisionInput \<Rightarrow> ActiveDecisionHead list \<Rightarrow>
   VulnerabilityDecision result" where
  "buildVulnerabilityDecision c a f v heads =
    (case ParseDecisionStatus (cvd_Status v) of
       Inl _ \<Rightarrow> Inl ErrValidation
     | Inr status \<Rightarrow>
        (if list_ex (\<lambda>h. \<not> CanTransitionTo (adh_Status h) status) (current_heads a f heads) then Inl ErrValidation
         else Inr
          \<lparr>dec_ID = dc_newID c, dec_TenantID = actor_TenantID a, dec_FindingID = fr_ID f, dec_ScanID = fr_ScanID f,
           dec_ReleaseID = fr_ReleaseID f, dec_Vulnerability = fr_Vulnerability f, dec_Component = fr_Component f,
           dec_SBOMID = fr_SBOMID f, dec_SBOMComponentPURL = fr_SBOMComponentPURL f, dec_SBOMComponentName = fr_SBOMComponentName f,
           dec_Status = status, dec_Justification = cvd_Justification v, dec_ImpactStatement = cvd_ImpactStatement v,
           dec_ActionStatement = cvd_ActionStatement v, dec_CustomerVisible = cvd_CustomerVisible v,
           dec_InternalNotes = cvd_InternalNotes v, dec_Source = ''api'', dec_EvidenceID = [], dec_EvidenceIDs = cvd_EvidenceIDs v,
           dec_SupportingRefs = cvd_SupportingRefs v, dec_VEXDocumentID = cvd_VEXDocumentID v,
           dec_Supersedes = (case filter (\<lambda>h. adh_ID h \<noteq> []) (current_heads a f heads) of [] \<Rightarrow> [] | h # _ \<Rightarrow> adh_ID h),
           dec_SupersededBy = [], dec_ApprovedBy = auditActorID a, dec_ReviewedAt = cvd_ReviewedAt v,
           dec_ReviewDueAt = cvd_ReviewDueAt v, dec_SchemaVersion = VulnerabilityDecisionVersion, dec_CreatedAt = dc_now c\<rparr>))"

subsection \<open>Recording a decision\<close>

definition decision_event :: "decision_command \<Rightarrow> Actor \<Rightarrow> nat \<Rightarrow> string \<Rightarrow> string \<Rightarrow> string \<Rightarrow> AuditEvent" where
  "decision_event c a k entryType subjectType i =
    \<lparr>aev_ID = dc_auditID c k, aev_TenantID = actor_TenantID a, aev_EntryType = entryType, aev_SubjectType = subjectType,
     aev_SubjectID = i, aev_ActorType = auditActorType a, aev_ActorID = auditActorID a, aev_OccurredAt = dc_now c,
     aev_PayloadHash = [], aev_SignatureRef = []\<rparr>"

definition decision_audit :: "decision_command \<Rightarrow> Actor \<Rightarrow> nat \<Rightarrow> string \<Rightarrow> string \<Rightarrow> string \<Rightarrow> (decision_store, unit) stx" where
  "decision_audit c a k entryType subjectType i =
    tx_bind (decision_context (dc_ctx c)) (\<lambda>_.
    tx_bind (tx_fail_if (\<not> validControlText (dc_auditID c k) 1024 True) ErrValidation) (\<lambda>_.
    tx_mutate (dc_ctx c) (catalog_append (dc_hasher c) (decision_event c a k entryType subjectType i))))"

fun audit_heads :: "decision_command \<Rightarrow> Actor \<Rightarrow> nat \<Rightarrow> ActiveDecisionHead list \<Rightarrow> (decision_store, unit) stx" where
  "audit_heads c a k [] = tx_return ()"
| "audit_heads c a k (h # hs) =
    tx_bind (decision_audit c a k ''vulnerability_decision.superseded'' ''vulnerability_decision'' (adh_ID h)) (\<lambda>_.
    audit_heads c a (Suc k) hs)"

definition decision_tx ::
  "decision_command \<Rightarrow> Actor \<Rightarrow> string \<Rightarrow> CreateVulnerabilityDecisionInput \<Rightarrow> (decision_store, VulnerabilityDecision) stx" where
  "decision_tx c a findingID v =
    (let ctx = dc_ctx c in
    tx_bind (decision_context ctx) (\<lambda>_.
    tx_bind (authorizeDecisionFinding ctx a findingID) (\<lambda>finding.
    tx_bind (validateDecisionCommandReferences ctx finding v) (\<lambda>_.
    tx_bind (ReadActiveDecisionHeads ctx (actor_TenantID a) findingID (maxActiveDecisionHeads + 1)) (\<lambda>heads.
    tx_bind (decision_context ctx) (\<lambda>_.
    tx_bind (tx_fail_if (length heads > maxActiveDecisionHeads) ErrConflict) (\<lambda>_.
    let heads = sort_key adh_ID heads in
    tx_bind (tx_result (check_heads a finding None heads)) (\<lambda>_.
    tx_bind (tx_result (buildVulnerabilityDecision c a finding v heads)) (\<lambda>created.
    tx_bind (tx_fail_if (\<not> validControlText (dec_ID created) 1024 True) ErrValidation) (\<lambda>_.
    tx_bind (tx_fail_if (list_ex (\<lambda>h. adh_ID h = dec_ID created) heads) ErrConflict) (\<lambda>_.
    tx_bind (decision_context ctx) (\<lambda>_.
    tx_bind (AppendVulnerabilityDecision ctx created heads) (\<lambda>_.
    tx_bind (audit_heads c a 0 heads) (\<lambda>_.
    tx_bind (decision_audit c a (length heads) ''vulnerability_decision.created'' ''vulnerability_finding'' (fr_ID finding)) (\<lambda>_.
    tx_return created)))))))))))))))"

definition CreateVulnerabilityDecision ::
  "decision_command \<Rightarrow> Actor \<Rightarrow> string \<Rightarrow> CreateVulnerabilityDecisionInput \<Rightarrow> (decision_store, VulnerabilityDecision) stx" where
  "CreateVulnerabilityDecision c a findingID v =
    tx_bind (decision_context (dc_ctx c)) (\<lambda>_.
    tx_bind (tx_fail_if (TrimSpace (actor_TenantID a) = [] \<or> auditActorID a = []) ErrForbidden) (\<lambda>_.
    tx_bind (decision_authorize (dc_ctx c) a (scope_request ActionVulnerabilityDecisionsRecord)) (\<lambda>_.
    let findingID = TrimSpace findingID in
    tx_bind (tx_fail_if (\<not> validControlText (actor_TenantID a) 1024 True \<or> \<not> validControlText (auditActorID a) 1024 True \<or>
      \<not> validControlText findingID 1024 True \<or> \<not> validDecisionCommandInput v) ErrValidation) (\<lambda>_.
    tx_bind (tx_fail_if (is_zero_time (dc_now c)) ErrValidation) (\<lambda>_.
    tx_bind (tx_result (normalizeDecisionInput v (dc_now c))) (\<lambda>v.
    tx_bind (tx_fail_if (list_ex (\<lambda>r. \<not> SupportedDecisionSupportingReference (sref_Type r)) (cvd_SupportingRefs v)) ErrNotFound) (\<lambda>_.
    execute_decision c (decision_tx c a findingID v))))))))"

definition run_decision :: "decision_command \<Rightarrow> (decision_store, 'a) stx \<Rightarrow> ('a \<times> decision_store) result" where
  "run_decision c m = (case m (0, dc_env c) of Inl e \<Rightarrow> Inl e | Inr (x, _, s) \<Rightarrow> Inr (x, s))"

end
