(* ===== verification/Decision_Properties.thy ===== *)
theory Decision_Properties
  imports Vulnerability_Decisions
begin

text \<open>
  What recording a decision promises: the decision becomes the only active one of its finding, the decisions it
  supersedes keep their content, and the finding counts as handled for readiness exactly as the new decision says.
\<close>

section \<open>Readers keep the store\<close>

lemma keeps_store_loop: "(\<And>x acc. keeps_store (g x acc)) \<Longrightarrow> keeps_store (tx_loop ctx g xs acc)"
  by (induction xs arbitrary: acc) auto

lemma keeps_store_scan: "(\<And>s. keeps_store (read s)) \<Longrightarrow> keeps_store (memoryGovernanceScan ctx tenant i read)"
  unfolding memoryGovernanceScan_def by auto

lemma keeps_store_all: "(\<And>x. keeps_store (g x)) \<Longrightarrow> keeps_store (tx_all g xs)"
  by (induction xs) auto

lemma keeps_store_sbom [intro!]: "keeps_store (memoryDecisionSBOMContext ctx s f)"
  unfolding memoryDecisionSBOMContext_def Let_def
  by (auto intro!: keeps_store_loop simp: sbom_step_def Let_def split: prod.splits sum.splits)

lemma keeps_store_finding [intro!]: "keeps_store (readMemoryDecisionFinding ctx s tenant i)"
  unfolding readMemoryDecisionFinding_def
  by (auto intro!: keeps_store_loop simp: decision_scan_step_def split: prod.splits option.splits)

lemma keeps_store_heads [intro!]: "keeps_store (readMemoryActiveDecisionHeads ctx s tenant finding limit)"
  unfolding readMemoryActiveDecisionHeads_def by auto

lemma keeps_store_decision_references [intro!]: "keeps_store (validateDecisionCommandReferences ctx f v)"
  unfolding validateDecisionCommandReferences_def ReadDecisionVEX_def decision_evidence_step_def ReadDecisionEvidence_def
    ValidateDecisionSupportingReference_def
  by (auto intro!: keeps_store_all keeps_store_scan split: option.splits prod.splits)

lemma keeps_store_decision_authorize [intro!]: "keeps_store (decision_authorize ctx a r)"
  unfolding decision_authorize_def by auto

lemma keeps_store_decision_context [intro!]: "keeps_store (decision_context ctx)"
  unfolding decision_context_def by auto

lemma keeps_store_authorize_finding [intro!]: "keeps_store (authorizeDecisionFinding ctx a i)"
  unfolding authorizeDecisionFinding_def ReadDecisionFinding_def by (auto intro!: keeps_store_scan)

lemma keeps_store_read_heads [intro!]: "keeps_store (ReadActiveDecisionHeads ctx t f n)"
  unfolding ReadActiveDecisionHeads_def by (auto intro!: keeps_store_scan)

section \<open>The active decisions of a finding\<close>

lemma insort_split: "insort k ys = takeWhile (\<lambda>j. j < k) ys @ [k] @ dropWhile (\<lambda>j. j < k) ys"
  by (induction ys) (auto simp: not_le)

lemma take_insort_take: "take n (insort k (take n ys)) = take n (insort k ys)"
  by (induction ys arbitrary: n) (auto simp: take_Cons')

lemma insert_id_insort: "insert_id n k (take n ys) = take n (insort k ys)"
proof -
  let ?zs = "take n ys" and ?w = "takeWhile (\<lambda>j. j < k) (take n ys)"
  have split: "take (length ?w) ?zs @ [k] @ drop (length ?w) ?zs = insort k ?zs"
    unfolding insort_split by (metis takeWhile_eq_take dropWhile_eq_drop)
  show ?thesis
  proof (cases "length ?w \<ge> n")
    case True
    have "length ?w \<le> length ?zs" by (rule length_takeWhile_le)
    with True have len: "length ?w = n" "length ?zs = n" by simp_all
    then have "?w = ?zs" by (metis takeWhile_eq_take take_all order_refl)
    moreover have "take n (insort k ?zs) = ?w" unfolding insort_split [of k "take n ys"] using len(1) by simp
    ultimately have eq: "take n (insort k ys) = ?zs" by (simp only: take_insort_take)
    from True show ?thesis unfolding insert_id_def Let_def eq by simp
  next
    case False
    then show ?thesis unfolding insert_id_def Let_def split using take_insort_take by simp
  qed
qed

lemma fold_insert_id: "fold (insert_id n) ks (take n (sort xs)) = take n (sort (rev ks @ xs))"
proof (induction ks arbitrary: xs)
  case (Cons k ks)
  have "insert_id n k (take n (sort xs)) = take n (sort (k # xs))" by (simp add: insert_id_insort)
  with Cons [of "k # xs"] show ?case by simp
qed simp

definition head_ids :: "MemoryUnitOfWorkSnapshot \<Rightarrow> string \<Rightarrow> string \<Rightarrow> string set" where
  "head_ids state tenant finding = {i. \<exists>d. tbl_get (Decisions state) i = Some d \<and> is_head tenant finding d}"

lemma head_id_fold:
  "fold (head_id_step n t f) rs ids = fold (insert_id n) (map fst (filter (\<lambda>(_, d). is_head t f d) rs)) ids"
  by (induction rs arbitrary: ids) (auto simp: head_id_step_def)

lemma read_head_fold:
  assumes "fold_result (read_head state t f) ids out = Inr heads"
  shows "\<exists>hs. heads = out @ hs \<and> map adh_ID hs = ids \<and> (\<forall>h\<in>set hs. adh_TenantID h = t \<and> adh_FindingID h = f \<and>
    (\<exists>d. tbl_get (Decisions state) (adh_ID h) = Some d \<and> dec_ID d = adh_ID h \<and> adh_ScanID h = dec_ScanID d \<and> adh_ReleaseID h = dec_ReleaseID d))"
  using assms
proof (induction ids arbitrary: out)
  case (Cons i ids)
  then obtain out' where step: "read_head state t f i out = Inr out'" "fold_result (read_head state t f) ids out' = Inr heads"
    by auto
  from step(1) obtain h where out': "out' = out @ [h]" "adh_ID h = i" "adh_TenantID h = t" "adh_FindingID h = f"
    and row: "\<exists>d. tbl_get (Decisions state) (adh_ID h) = Some d \<and> dec_ID d = adh_ID h \<and> adh_ScanID h = dec_ScanID d \<and> adh_ReleaseID h = dec_ReleaseID d"
    by (auto simp: read_head_def split: option.splits if_splits sum.splits)
  from Cons.IH [OF step(2)] obtain hs where hs: "heads = out' @ hs" "map adh_ID hs = ids"
    "\<forall>h\<in>set hs. adh_TenantID h = t \<and> adh_FindingID h = f \<and>
      (\<exists>d. tbl_get (Decisions state) (adh_ID h) = Some d \<and> dec_ID d = adh_ID h \<and> adh_ScanID h = dec_ScanID d \<and> adh_ReleaseID h = dec_ReleaseID d)"
    by blast
  with out' row show ?case by (intro exI [of _ "h # hs"]) auto
qed auto

lemma heads_complete:
  assumes "readMemoryActiveDecisionHeads ctx s t f 129 st = Inr (heads, st')" "length heads \<le> 128"
  shows "adh_ID ` set heads = head_ids (cs_rows s) t f" and "distinct (map adh_ID heads)" and "sorted (map adh_ID heads)"
    and "\<forall>h\<in>set heads. adh_TenantID h = t \<and> adh_FindingID h = f"
proof -
  let ?rows = "tbl_rows (Decisions (cs_rows s))"
  let ?ks = "map fst (filter (\<lambda>(_, d). is_head t f d) ?rows)"
  from assms(1) obtain ids st1 where
    "range_loop ctx (\<lambda>row ids. Inr (head_id_step 129 t f row ids)) ?rows [] st = Inr (ids, st1)"
    and rd: "fold_result (read_head (cs_rows s) t f) ids [] = Inr heads"
    by (auto simp: readMemoryActiveDecisionHeads_def tx_success)
  then have "ids = fold (insert_id 129) ?ks []" by (auto dest!: range_loop_Inr simp: head_id_fold)
  then have ids: "ids = take 129 (sort (rev ?ks))" using fold_insert_id [of 129 ?ks "[]"] by simp
  from read_head_fold [OF rd] have hs: "map adh_ID heads = ids" "\<forall>h\<in>set heads. adh_TenantID h = t \<and> adh_FindingID h = f" by auto
  have "length ids \<le> 128" using hs(1) assms(2) by (metis length_map)
  then have all: "map adh_ID heads = sort (rev ?ks)" unfolding hs(1) ids by simp
  have "distinct ?ks" by (simp add: distinct_map_filter)
  then show "distinct (map adh_ID heads)" "sorted (map adh_ID heads)" unfolding all by simp_all
  have "adh_ID ` set heads = set ?ks" by (metis all image_set set_rev set_sort)
  also have "\<dots> = head_ids (cs_rows s) t f" by (force simp: head_ids_def)
  finally show "adh_ID ` set heads = head_ids (cs_rows s) t f" .
  show "\<forall>h\<in>set heads. adh_TenantID h = t \<and> adh_FindingID h = f" by (rule hs(2))
qed

section \<open>The finding of a decision\<close>

lemma fold_result_inv:
  assumes "fold_result g xs acc = Inr acc'" "P acc" "\<And>x b b'. x \<in> set xs \<Longrightarrow> P b \<Longrightarrow> g x b = Inr b' \<Longrightarrow> P b'"
  shows "P acc'"
  using assms by (induction xs arbitrary: acc) auto

lemma tx_loop_inv:
  assumes "tx_loop ctx g xs acc st = Inr (acc', st')" "P acc"
    and "\<And>x b b' st st'. x \<in> set xs \<Longrightarrow> P b \<Longrightarrow> g x b st = Inr (b', st') \<Longrightarrow> P b'"
  shows "P acc'"
  using assms
proof (induction xs arbitrary: acc st)
  case (Cons x xs)
  from Cons.prems(1) obtain b st1 st2 where "g x acc st1 = Inr (b, st2)" "tx_loop ctx g xs b st2 = Inr (acc', st')"
    by (auto simp: tx_success)
  with Cons show ?case by (metis list.set_intros)
qed (simp add: tx_success)

text \<open>A reference to a finding names a finding of a scan of the tenant, with the current owner of the scan.\<close>

definition finding_at :: "MemoryUnitOfWorkSnapshot \<Rightarrow> FindingReference \<Rightarrow> bool" where
  "finding_at state f \<longleftrightarrow>
    (\<exists>scan g. tbl_get (VulnerabilityScans state) (fr_ScanID f) = Some scan \<and> scan_ID scan = fr_ScanID f \<and> scan_TenantID scan = fr_TenantID f \<and>
      g \<in> set (case scan_Findings scan of None \<Rightarrow> [] | Some fs \<Rightarrow> fs) \<and>
      find_ID g = fr_ID f \<and> find_Vulnerability g = fr_Vulnerability f \<and> find_Component g = fr_Component f \<and> fr_ReleaseID f \<noteq> [] \<and>
      memoryDecisionParsedOwner state (fr_TenantID f) (scan_EvidenceID scan) ''vulnerability_scan'' (scan_ReleaseID scan) [] =
        Inr (fr_ProductID f, fr_ReleaseID f) \<and>
      fr_ProjectID f = evidence_project_id state (scan_EvidenceID scan))"

lemma decision_finding_step_at:
  assumes "decision_finding_step state t i scan g found = Inr found'"
    and "tbl_get (VulnerabilityScans state) (scan_ID scan) = Some scan" "scan_TenantID scan = t"
    and g: "g \<in> set (case scan_Findings scan of None \<Rightarrow> [] | Some fs \<Rightarrow> fs)"
    and "\<forall>f. found = Some f \<longrightarrow> finding_at state f \<and> fr_ID f = i \<and> fr_TenantID f = t"
  shows "\<forall>f. found' = Some f \<longrightarrow> finding_at state f \<and> fr_ID f = i \<and> fr_TenantID f = t"
proof (cases "found' = found")
  case False
  with assms(1) have "\<exists>f. found' = Some f \<and> find_ID g = i \<and> fr_ID f = i \<and> fr_TenantID f = t \<and> fr_ScanID f = scan_ID scan \<and>
    fr_ReleaseID f \<noteq> [] \<and> fr_Vulnerability f = find_Vulnerability g \<and> fr_Component f = find_Component g \<and>
    fr_ProjectID f = evidence_project_id state (scan_EvidenceID scan) \<and>
    memoryDecisionParsedOwner state t (scan_EvidenceID scan) ''vulnerability_scan'' (scan_ReleaseID scan) [] = Inr (fr_ProductID f, fr_ReleaseID f)"
    unfolding decision_finding_step_def Let_def by (auto split: if_splits sum.splits prod.splits)
  then obtain f where f: "found' = Some f" "find_ID g = i" "fr_ID f = i" "fr_TenantID f = t" "fr_ScanID f = scan_ID scan"
    "fr_ReleaseID f \<noteq> []" "fr_Vulnerability f = find_Vulnerability g" "fr_Component f = find_Component g"
    "fr_ProjectID f = evidence_project_id state (scan_EvidenceID scan)"
    "memoryDecisionParsedOwner state t (scan_EvidenceID scan) ''vulnerability_scan'' (scan_ReleaseID scan) [] = Inr (fr_ProductID f, fr_ReleaseID f)"
    by blast
  have "finding_at state f"
    unfolding finding_at_def by (rule exI [of _ scan], rule exI [of _ g]) (use assms(2,3) g f in simp)
  with f show ?thesis by simp
qed (use assms(5) in simp)

lemma finding_at_sbom: "finding_at state (f\<lparr>fr_SBOMID := i, fr_SBOMComponentPURL := p, fr_SBOMComponentName := n\<rparr>) = finding_at state f"
  by (simp add: finding_at_def)

lemma memoryDecisionSBOMContext_finding:
  "memoryDecisionSBOMContext ctx s g st = Inr (f, st') \<Longrightarrow>
    f = g \<or> (\<exists>i p n. f = g\<lparr>fr_SBOMID := i, fr_SBOMComponentPURL := p, fr_SBOMComponentName := n\<rparr>)"
  unfolding memoryDecisionSBOMContext_def Let_def by (auto simp: tx_success split: if_splits)

lemma readMemoryDecisionFinding_at:
  assumes "readMemoryDecisionFinding ctx s t i st = Inr (f, st')"
  shows "finding_at (cs_rows s) f \<and> fr_ID f = i \<and> fr_TenantID f = t"
proof -
  let ?P = "\<lambda>found. \<forall>f. found = Some f \<longrightarrow> finding_at (cs_rows s) f \<and> fr_ID f = i \<and> fr_TenantID f = t"
  from assms obtain g st1 where
    loop: "tx_loop ctx (decision_scan_step ctx (cs_rows s) t i) (tbl_rows (VulnerabilityScans (cs_rows s))) None st = Inr (Some g, st1)"
    and sbom: "memoryDecisionSBOMContext ctx s g st1 = Inr (f, st')"
    by (auto simp: readMemoryDecisionFinding_def tx_success split: option.splits)
  have "?P (Some g)"
  proof (rule tx_loop_inv [OF loop])
    fix x b b' st st'
    assume x: "x \<in> set (tbl_rows (VulnerabilityScans (cs_rows s)))" "?P b" "decision_scan_step ctx (cs_rows s) t i x b st = Inr (b', st')"
    obtain key scan where kv: "x = (key, scan)" by (cases x)
    show "?P b'"
    proof (cases "key = scan_ID scan \<and> scan_TenantID scan = t")
      case True
      with x kv have row: "tbl_get (VulnerabilityScans (cs_rows s)) (scan_ID scan) = Some scan" "scan_TenantID scan = t"
        and "fold_result (decision_finding_step (cs_rows s) t i scan) (case scan_Findings scan of None \<Rightarrow> [] | Some fs \<Rightarrow> fs) b = Inr b'"
        by (auto simp: decision_scan_step_def dest: range_loop_Inr)
      from this(3) x(2) show ?thesis
        by (rule fold_result_inv) (rule decision_finding_step_at [OF _ row])
    next
      case False
      with x kv show ?thesis by (auto simp: decision_scan_step_def tx_success)
    qed
  qed simp
  then have "finding_at (cs_rows s) g" "fr_ID g = i" "fr_TenantID g = t" by simp_all
  with memoryDecisionSBOMContext_finding [OF sbom] show ?thesis by (elim disjE exE) (simp_all add: finding_at_sbom)
qed

section \<open>What a recorded decision changes\<close>

text \<open>
  The rows after a decision: it is stored under its new identifier, the active decisions of its finding name it as
  their successor and are otherwise kept, and every other row is as before.
\<close>

definition decision_recorded :: "VulnerabilityDecision \<Rightarrow> MemoryUnitOfWorkSnapshot \<Rightarrow> MemoryUnitOfWorkSnapshot \<Rightarrow> bool" where
  "decision_recorded v r r' \<longleftrightarrow>
    r' = r\<lparr>Decisions := Decisions r'\<rparr> \<and> tbl_get (Decisions r) (dec_ID v) = None \<and> dec_SupersededBy v = [] \<and> dec_ID v \<noteq> [] \<and>
    (\<forall>i. tbl_get (Decisions r') i = (if i = dec_ID v then Some v
      else map_option (\<lambda>d. if is_head (dec_TenantID v) (dec_FindingID v) d then d\<lparr>dec_SupersededBy := dec_ID v\<rparr> else d)
        (tbl_get (Decisions r) i)))"

lemma link_heads_get:
  "tbl_get (link_heads n hs t) i =
    (if i \<in> adh_ID ` set hs then map_option (\<lambda>d. d\<lparr>dec_SupersededBy := n\<rparr>) (tbl_get t i) else tbl_get t i)"
proof (induction hs arbitrary: t)
  case (Cons h hs)
  have step: "link_heads n (h # hs) t = link_heads n hs (case tbl_get t (adh_ID h) of
     None \<Rightarrow> t | Some prior \<Rightarrow> tbl_put t (adh_ID h) (prior\<lparr>dec_SupersededBy := n\<rparr>))"
    by (simp add: link_heads_def)
  show ?case unfolding step Cons by (auto split: option.split)
qed (simp add: link_heads_def)

lemma linked_recorded:
  assumes "adh_ID ` set want = head_ids r (dec_TenantID v) (dec_FindingID v)"
    and "tbl_get (Decisions r) (dec_ID v) = None" "dec_SupersededBy v = []" "dec_ID v \<noteq> []"
    and r': "r' = r\<lparr>Decisions := tbl_put (link_heads (dec_ID v) want (Decisions r)) (dec_ID v) v\<rparr>"
  shows "decision_recorded v r r'"
proof -
  have "tbl_get (link_heads (dec_ID v) want (Decisions r)) i =
      map_option (\<lambda>d. if is_head (dec_TenantID v) (dec_FindingID v) d then d\<lparr>dec_SupersededBy := dec_ID v\<rparr> else d) (tbl_get (Decisions r) i)" for i
    unfolding link_heads_get assms(1) head_ids_def by (cases "tbl_get (Decisions r) i") simp_all
  then show ?thesis using assms(2-4) by (simp add: decision_recorded_def r')
qed

lemma decision_recordedD:
  assumes "decision_recorded v r r'"
  shows "r' = r\<lparr>Decisions := Decisions r'\<rparr>" "tbl_get (Decisions r) (dec_ID v) = None" "dec_SupersededBy v = []" "dec_ID v \<noteq> []"
    "tbl_get (Decisions r') i = (if i = dec_ID v then Some v
      else map_option (\<lambda>d. if is_head (dec_TenantID v) (dec_FindingID v) d then d\<lparr>dec_SupersededBy := dec_ID v\<rparr> else d) (tbl_get (Decisions r) i))"
  using assms unfolding decision_recorded_def by blast+

lemma decision_recorded_heads:
  assumes "decision_recorded v r r'"
  shows "head_ids r' (dec_TenantID v) (dec_FindingID v) = {dec_ID v}"
proof -
  from decision_recordedD [OF assms] have get: "tbl_get (Decisions r') i = (if i = dec_ID v then Some v
      else map_option (\<lambda>d. if is_head (dec_TenantID v) (dec_FindingID v) d then d\<lparr>dec_SupersededBy := dec_ID v\<rparr> else d) (tbl_get (Decisions r) i))"
    "dec_SupersededBy v = []" "dec_ID v \<noteq> []" for i by blast+
  have "(\<exists>d. tbl_get (Decisions r') i = Some d \<and> is_head (dec_TenantID v) (dec_FindingID v) d) \<longleftrightarrow> i = dec_ID v" for i
  proof (cases "i = dec_ID v")
    case False
    then show ?thesis using get(3) by (cases "tbl_get (Decisions r) i") (simp_all add: get(1) is_head_def)
  qed (simp add: get is_head_def)
  then show ?thesis by (simp add: head_ids_def)
qed

lemma governance_scan_Inr:
  "memoryGovernanceScan ctx t i read st = Inr (x, st') \<Longrightarrow>
    \<exists>n. read (snd st) (n, snd st) = Inr (x, st') \<and> governance_text t \<and> governance_text i"
  by (auto simp: memoryGovernanceScan_def tx_success)

lemma append_body_Inr:
  assumes "append_body ctx v want s (n, s) = Inr (u, st')" "dec_SupersededBy v = []" "dec_ID v \<noteq> []"
  shows "map adh_ID want = sorted_list_of_set (head_ids (cs_rows s) (dec_TenantID v) (dec_FindingID v))"
    and "\<exists>r'. decision_recorded v (cs_rows s) r' \<and> snd st' = s\<lparr>cs_rows := r'\<rparr>"
proof -
  let ?r' = "(cs_rows s)\<lparr>Decisions := tbl_put (link_heads (dec_ID v) want (Decisions (cs_rows s))) (dec_ID v) v\<rparr>"
  from assms(1) obtain st1 st2 where heads: "readMemoryActiveDecisionHeads ctx s (dec_TenantID v) (dec_FindingID v) 129 st1 = Inr (want, st2)"
    and fresh: "tbl_get (Decisions (cs_rows s)) (dec_ID v) = None" "length want \<le> 128" and st': "snd st' = s\<lparr>cs_rows := ?r'\<rparr>"
    by (auto simp: append_body_def Let_def tx_put_def tx_success)
  note h = heads_complete [OF heads fresh(2)]
  show "map adh_ID want = sorted_list_of_set (head_ids (cs_rows s) (dec_TenantID v) (dec_FindingID v))"
    using h(1-3) by (metis image_set sorted_list_of_set.idem_if_sorted_distinct)
  show "\<exists>r'. decision_recorded v (cs_rows s) r' \<and> snd st' = s\<lparr>cs_rows := r'\<rparr>"
    using linked_recorded [OF h(1) fresh(1) assms(2,3) refl] st' by blast
qed

lemma AppendVulnerabilityDecision_Inr:
  assumes "AppendVulnerabilityDecision ctx v expected st = Inr (u, st')"
  shows "map adh_ID (sort_key adh_ID expected) = sorted_list_of_set (head_ids (cs_rows (snd st)) (dec_TenantID v) (dec_FindingID v))"
    and "\<exists>r'. decision_recorded v (cs_rows (snd st)) r' \<and> snd st' = (snd st)\<lparr>cs_rows := r'\<rparr>"
    and "TrimSpace (dec_Justification v) \<noteq> []"
proof -
  from assms have ok: "validMemoryDecisionAppend v expected"
    and sc: "memoryGovernanceScan ctx (dec_TenantID v) (dec_ID v) (append_body ctx v (sort_key adh_ID expected)) st = Inr (u, st')"
    by (auto simp: AppendVulnerabilityDecision_def tx_success split: if_splits)
  from governance_scan_Inr [OF sc] obtain n where
    body: "append_body ctx v (sort_key adh_ID expected) (snd st) (n, snd st) = Inr (u, st')" and "governance_text (dec_ID v)" by blast
  moreover from this(2) have "dec_ID v \<noteq> []" by (auto simp: governance_text_def)
  moreover from ok show "TrimSpace (dec_Justification v) \<noteq> []" by (simp add: validMemoryDecisionAppend_def)
  moreover from ok have "dec_SupersededBy v = []" by (simp add: validMemoryDecisionAppend_def)
  ultimately show "map adh_ID (sort_key adh_ID expected) = sorted_list_of_set (head_ids (cs_rows (snd st)) (dec_TenantID v) (dec_FindingID v))"
    "\<exists>r'. decision_recorded v (cs_rows (snd st)) r' \<and> snd st' = (snd st)\<lparr>cs_rows := r'\<rparr>"
    using append_body_Inr [OF body] by blast+
qed

section \<open>The command\<close>

fun appended_all :: "AuditEvent list \<Rightarrow> 'z catalog_store_scheme \<Rightarrow> 'z catalog_store_scheme \<Rightarrow> bool" where
  "appended_all [] s s' \<longleftrightarrow> s' = s"
| "appended_all (v # vs) s s' \<longleftrightarrow> (\<exists>s1. appended v s s1 \<and> appended_all vs s1 s')"

lemma appended_all_append: "appended_all (vs @ ws) s s' \<longleftrightarrow> (\<exists>s1. appended_all vs s s1 \<and> appended_all ws s1 s')"
  by (induction vs arbitrary: s) auto

text \<open>The audit events of a decision: one for each decision it supersedes, in the order of identifiers, and one for the finding.\<close>

definition superseded_events :: "decision_command \<Rightarrow> Actor \<Rightarrow> nat \<Rightarrow> string list \<Rightarrow> AuditEvent list" where
  "superseded_events c a k ids =
    map (\<lambda>(j, i). decision_event c a j ''vulnerability_decision.superseded'' ''vulnerability_decision'' i) (enumerate k ids)"

definition decision_events :: "decision_command \<Rightarrow> Actor \<Rightarrow> string list \<Rightarrow> string \<Rightarrow> AuditEvent list" where
  "decision_events c a ids finding = superseded_events c a 0 ids @
    [decision_event c a (length ids) ''vulnerability_decision.created'' ''vulnerability_finding'' finding]"

definition may_decide :: "Actor \<Rightarrow> FindingReference \<Rightarrow> bool" where
  "may_decide a f \<longleftrightarrow> permits a (risk_request ActionVulnerabilityDecisionsRecord ResolvedEvaluation
    (no_refs\<lparr>ref_ProductID := fr_ProductID f, ref_ProjectID := fr_ProjectID f, ref_ReleaseID := fr_ReleaseID f\<rparr>))"

lemma decision_context_Inr [tx_success]:
  "decision_context ctx st = Inr (u, st') \<longleftrightarrow> \<not> nil_context ctx \<and> ctx_err ctx (fst st) = None \<and> st' = (fst st + 1, snd st)"
  by (auto simp: decision_context_def tx_success)

lemma decision_audit_Inr:
  "decision_audit c a k kind subject i st = Inr (u, st') \<Longrightarrow> appended (decision_event c a k kind subject i) (snd st) (snd st')"
  by (auto simp: decision_audit_def tx_success dest!: catalog_append_appended)

lemma audit_heads_Inr:
  "audit_heads c a k hs st = Inr (u, st') \<Longrightarrow> appended_all (superseded_events c a k (map adh_ID hs)) (snd st) (snd st')"
proof (induction hs arbitrary: k st)
  case (Cons h hs)
  then obtain st1 where "decision_audit c a k ''vulnerability_decision.superseded'' ''vulnerability_decision'' (adh_ID h) st = Inr ((), st1)"
    "audit_heads c a (Suc k) hs st1 = Inr (u, st')" by (auto simp: tx_bind_Inr)
  from decision_audit_Inr [OF this(1)] Cons.IH [OF this(2)] show ?case by (auto simp: superseded_events_def)
qed (simp add: tx_success superseded_events_def)

lemma authorizeDecisionFinding_Inr:
  assumes "authorizeDecisionFinding ctx a i st = Inr (f, st')"
  shows "finding_at (cs_rows (snd st)) f" and "fr_ID f = i" and "fr_TenantID f = actor_TenantID a" and "may_decide a f" and "snd st' = snd st"
proof -
  let ?q = "resource_request ActionVulnerabilityDecisionsRecord
      (no_refs\<lparr>ref_ProductID := fr_ProductID f, ref_ProjectID := fr_ProjectID f, ref_ReleaseID := fr_ReleaseID f\<rparr>)"
  from assms obtain u st1 st2 u3 where au: "decision_authorize ctx a (scope_request ActionVulnerabilityDecisionsRecord) st = Inr (u, st1)"
    and rd: "ReadDecisionFinding ctx (actor_TenantID a) i st1 = Inr (f, st2)" and grant: "decision_authorize ctx a ?q st2 = Inr (u3, st')"
    by (auto simp: authorizeDecisionFinding_def tx_bind_Inr tx_fail_if_Inr tx_return_Inr)
  have s1: "snd st1 = snd st" using au by (rule keeps_storeD [OF keeps_store_decision_authorize])
  from governance_scan_Inr [OF rd [unfolded ReadDecisionFinding_def]] obtain n where
    "readMemoryDecisionFinding ctx (snd st1) (actor_TenantID a) i (n, snd st1) = Inr (f, st2)" by blast
  from readMemoryDecisionFinding_at [OF this] s1
  show "finding_at (cs_rows (snd st)) f" "fr_ID f = i" "fr_TenantID f = actor_TenantID a" by simp_all
  show "may_decide a f"
    using grant by (auto simp: decision_authorize_def tx_success NewVulnerabilityDecisionWriteAuthorizer_def may_decide_def dest!: risk_authorizer_permits)
  show "snd st' = snd st" using assms by (rule keeps_storeD [OF keeps_store_authorize_finding])
qed

text \<open>The content of a decision: the finding as it was read, and what the caller said of it.\<close>

definition decides :: "decision_command \<Rightarrow> Actor \<Rightarrow> FindingReference \<Rightarrow> CreateVulnerabilityDecisionInput \<Rightarrow> VulnerabilityDecision \<Rightarrow> bool" where
  "decides c a f v d \<longleftrightarrow>
    dec_ID d = dc_newID c \<and> dec_TenantID d = actor_TenantID a \<and> dec_FindingID d = fr_ID f \<and> dec_ScanID d = fr_ScanID f \<and>
    dec_ReleaseID d = fr_ReleaseID f \<and> dec_Vulnerability d = fr_Vulnerability f \<and> dec_Component d = fr_Component f \<and>
    dec_Status d = TrimSpace (cvd_Status v) \<and> dec_Status d \<in> {''affected'', ''not_affected'', ''fixed'', ''under_investigation''} \<and>
    dec_Justification d = TrimSpace (cvd_Justification v) \<and> dec_Justification d \<noteq> [] \<and>
    (dec_CustomerVisible d \<longleftrightarrow> cvd_CustomerVisible v) \<and> (dec_CustomerVisible d \<longrightarrow> dec_ImpactStatement d \<noteq> []) \<and>
    dec_Source d = ''api'' \<and> dec_ApprovedBy d = auditActorID a \<and> dec_CreatedAt d = dc_now c"

lemma ParseDecisionStatus_Inr:
  "ParseDecisionStatus x = Inr y \<longleftrightarrow> y = TrimSpace x \<and> y \<in> {''affected'', ''not_affected'', ''fixed'', ''under_investigation''}"
  by (auto simp: ParseDecisionStatus_def Let_def)

lemma normalizeDecisionInput_Inr:
  assumes "normalizeDecisionInput v now = Inr w"
  shows "cvd_Status w = TrimSpace (cvd_Status v)" "cvd_Justification w = TrimSpace (cvd_Justification v)" "cvd_Justification w \<noteq> []"
    "cvd_CustomerVisible w = cvd_CustomerVisible v" "cvd_CustomerVisible w \<Longrightarrow> cvd_ImpactStatement w \<noteq> []"
  using assms by (auto simp: normalizeDecisionInput_def ParseDecisionStatus_Inr Let_def split: sum.splits if_splits)

lemma buildVulnerabilityDecision_decides:
  assumes "buildVulnerabilityDecision c a f w heads = Inr d" "normalizeDecisionInput v now = Inr w"
  shows "decides c a f v d"
  using assms(1) normalizeDecisionInput_Inr [OF assms(2)] unfolding buildVulnerabilityDecision_def
  by (auto simp: decides_def ParseDecisionStatus_Inr simp del: insert_iff split: sum.splits if_splits)

definition decision_made ::
  "decision_command \<Rightarrow> Actor \<Rightarrow> CreateVulnerabilityDecisionInput \<Rightarrow> VulnerabilityDecision \<Rightarrow> decision_store \<Rightarrow> decision_store \<Rightarrow> bool" where
  "decision_made c a v d s s' \<longleftrightarrow>
    (\<exists>f. finding_at (cs_rows s) f \<and> fr_TenantID f = actor_TenantID a \<and> may_decide a f \<and> decides c a f v d) \<and>
    (\<exists>r'. decision_recorded d (cs_rows s) r' \<and>
      appended_all (decision_events c a (sorted_list_of_set (head_ids (cs_rows s) (dec_TenantID d) (dec_FindingID d))) (dec_FindingID d))
        (s\<lparr>cs_rows := r'\<rparr>) s')"

lemma decision_tx_Inr:
  assumes "decision_tx c a i w st = Inr (d, st')" "normalizeDecisionInput v now = Inr w"
  shows "decision_made c a v d (snd st) (snd st')" and "dec_FindingID d = i"
proof -
  let ?ctx = "dc_ctx c"
  from assms(1) obtain st0 f st1 u2 st2 read st3 st4 heads u5 st5 u6 st6 u7 where
    0: "snd st0 = snd st" and 1: "authorizeDecisionFinding ?ctx a i st0 = Inr (f, st1)"
    and 2: "validateDecisionCommandReferences ?ctx f w st1 = Inr (u2, st2)"
    and 3: "ReadActiveDecisionHeads ?ctx (actor_TenantID a) i (maxActiveDecisionHeads + 1) st2 = Inr (read, st3)"
    and 4: "snd st4 = snd st3" "heads = sort_key adh_ID read" "buildVulnerabilityDecision c a f w heads = Inr d"
    and 5: "AppendVulnerabilityDecision ?ctx d heads st4 = Inr (u5, st5)"
    and 6: "audit_heads c a 0 heads st5 = Inr (u6, st6)"
    and 7: "decision_audit c a (length heads) ''vulnerability_decision.created'' ''vulnerability_finding'' (fr_ID f) st6 = Inr (u7, st')"
    unfolding decision_tx_def Let_def
    by (auto simp: tx_bind_Inr tx_fail_if_Inr tx_result_Inr tx_return_Inr decision_context_Inr)
  note au = authorizeDecisionFinding_Inr [OF 1, unfolded 0]
  have s4: "snd st4 = snd st"
    using keeps_storeD [OF keeps_store_decision_references 2] keeps_storeD [OF keeps_store_read_heads 3] au(5) 4(1) by simp
  note ap = AppendVulnerabilityDecision_Inr [OF 5, unfolded s4]
  have dec: "decides c a f v d" using buildVulnerabilityDecision_decides [OF 4(3) assms(2)] .
  have ids: "map adh_ID heads = sorted_list_of_set (head_ids (cs_rows (snd st)) (dec_TenantID d) (dec_FindingID d))"
    using ap(1) by (simp add: 4(2) sort_key_id_if_sorted)
  obtain r' where r': "decision_recorded d (cs_rows (snd st)) r'" "snd st5 = (snd st)\<lparr>cs_rows := r'\<rparr>" using ap(2) by blast
  have "appended_all (decision_events c a (map adh_ID heads) (dec_FindingID d)) (snd st5) (snd st')"
    using audit_heads_Inr [OF 6] decision_audit_Inr [OF 7] dec by (auto simp: decision_events_def appended_all_append decides_def)
  with r' au dec show "decision_made c a v d (snd st) (snd st')" unfolding decision_made_def ids r'(2) by blast
  show "dec_FindingID d = i" using dec au(2) by (simp add: decides_def)
qed

lemma run_decision_Inr: "run_decision c m = Inr (x, s') \<Longrightarrow> \<exists>n. m (0, dc_env c) = Inr (x, n, s')"
  by (auto simp: run_decision_def split: sum.splits prod.splits)

lemma execute_decision_Inr:
  "execute_decision c m st = Inr (x, st') \<Longrightarrow> \<exists>n n'. m (n, dc_env c) = Inr (x, n', snd st')"
  by (auto simp: execute_decision_def tx_success) blast

lemma CreateVulnerabilityDecision_effect:
  assumes "run_decision c (CreateVulnerabilityDecision c a i v) = Inr (d, s')"
  shows "decision_made c a v d (dc_env c) s'" and "dec_FindingID d = TrimSpace i"
proof -
  from run_decision_Inr [OF assms] obtain w st1 st2 where
    norm: "normalizeDecisionInput v (dc_now c) = Inr w"
    and ex: "execute_decision c (decision_tx c a (TrimSpace i) w) st1 = Inr (d, st2)" "snd st2 = s'"
    by (auto simp: CreateVulnerabilityDecision_def Let_def tx_success)
  from execute_decision_Inr [OF ex(1)] obtain n n' where
    "decision_tx c a (TrimSpace i) w (n, dc_env c) = Inr (d, n', snd st2)" by blast
  from decision_tx_Inr [OF this norm] ex(2) show "decision_made c a v d (dc_env c) s'" "dec_FindingID d = TrimSpace i" by simp_all
qed

end
