(* ===== verification/Decision_Readiness.thy ===== *)
theory Decision_Readiness
  imports Decision_Properties
begin

text \<open>
  The recorded decision in the store as a whole, and what it changes in the facts that the policy evaluation of a
  release reads.
\<close>

section \<open>The audit chain\<close>

text \<open>An entry of a chain says what the event said that it was appended for.\<close>

definition entry_of :: "AuditEvent \<Rightarrow> AuditChainEntry \<Rightarrow> bool" where
  "entry_of v e \<longleftrightarrow> ace_ID e = coerce_utf8 (aev_ID v) \<and> ace_EntryType e = coerce_utf8 (aev_EntryType v) \<and>
    ace_SubjectID e = coerce_utf8 (aev_SubjectID v) \<and> ace_ActorID e = coerce_utf8 (aev_ActorID v) \<and> ace_OccurredAt e = aev_OccurredAt v"

text \<open>The chain of one tenant grows by entries of these events, and nothing else of the store changes.\<close>

definition chain_grown :: "string \<Rightarrow> AuditEvent list \<Rightarrow> 'z catalog_store_scheme \<Rightarrow> 'z catalog_store_scheme \<Rightarrow> bool" where
  "chain_grown t vs s s' \<longleftrightarrow>
    (\<exists>A. s' = s\<lparr>cs_AuditEntries := A\<rparr>) \<and>
    (\<forall>u. u \<noteq> t \<longrightarrow> chain_of (cs_audit s') u = chain_of (cs_audit s) u) \<and>
    (\<exists>es. chain_of (cs_audit s') t = chain_of (cs_audit s) t @ es \<and> list_all2 entry_of vs es)"

lemma appended_grown:
  assumes "appended v s s'"
  shows "chain_grown (aev_TenantID v) [v] s s'"
proof -
  from assms obtain e where s': "s' = s\<lparr>cs_AuditEntries := tbl_put (cs_AuditEntries s) (aev_TenantID v) (chain_of (cs_audit s) (aev_TenantID v) @ [e])\<rparr>"
    and e: "entry_of v e" by (auto simp: appended_def entry_of_def)
  have "chain_of (cs_audit s') u = (if u = aev_TenantID v then chain_of (cs_audit s) u @ [e] else chain_of (cs_audit s) u)" for u
    by (simp add: s' chain_of_def cs_audit_def)
  with e s' show ?thesis unfolding chain_grown_def by auto
qed

lemma chain_grown_trans:
  assumes "chain_grown t vs s s1" "chain_grown t ws s1 s'"
  shows "chain_grown t (vs @ ws) s s'"
proof -
  from assms(1) obtain A es where 1: "s1 = s\<lparr>cs_AuditEntries := A\<rparr>" "\<forall>u. u \<noteq> t \<longrightarrow> chain_of (cs_audit s1) u = chain_of (cs_audit s) u"
    "chain_of (cs_audit s1) t = chain_of (cs_audit s) t @ es" "list_all2 entry_of vs es"
    unfolding chain_grown_def by blast
  from assms(2) obtain B es' where 2: "s' = s1\<lparr>cs_AuditEntries := B\<rparr>" "\<forall>u. u \<noteq> t \<longrightarrow> chain_of (cs_audit s') u = chain_of (cs_audit s1) u"
    "chain_of (cs_audit s') t = chain_of (cs_audit s1) t @ es'" "list_all2 entry_of ws es'"
    unfolding chain_grown_def by blast
  have "s' = s\<lparr>cs_AuditEntries := B\<rparr>" by (simp add: 1(1) 2(1))
  moreover have "list_all2 entry_of (vs @ ws) (es @ es')" using 1(4) 2(4) by (rule list_all2_appendI)
  moreover have "chain_of (cs_audit s') t = chain_of (cs_audit s) t @ es @ es'" using 1(3) 2(3) by simp
  moreover have "\<forall>u. u \<noteq> t \<longrightarrow> chain_of (cs_audit s') u = chain_of (cs_audit s) u" using 1(2) 2(2) by simp
  ultimately show ?thesis unfolding chain_grown_def by blast
qed

lemma appended_all_grown:
  "appended_all vs s s' \<Longrightarrow> \<forall>v\<in>set vs. aev_TenantID v = t \<Longrightarrow> chain_grown t vs s s'"
proof (induction vs arbitrary: s)
  case (Cons v vs)
  then obtain s1 where "appended v s s1" "appended_all vs s1 s'" by auto
  with Cons have "chain_grown t [v] s s1" "chain_grown t vs s1 s'" using appended_grown by force+
  then have "chain_grown t ([v] @ vs) s s'" by (rule chain_grown_trans)
  then show ?case by simp
qed (auto simp: chain_grown_def intro: exI [of _ "cs_AuditEntries s'"])

lemma decision_events_tenant: "\<forall>v\<in>set (decision_events c a ids f). aev_TenantID v = actor_TenantID a"
  by (auto simp: decision_events_def superseded_events_def decision_event_def)

section \<open>The store after a decision\<close>

lemma decision_made_store:
  assumes "decision_made c a v d s s'"
  shows "decision_recorded d (cs_rows s) (cs_rows s')"
    and "chain_grown (actor_TenantID a) (decision_events c a
      (sorted_list_of_set (head_ids (cs_rows s) (dec_TenantID d) (dec_FindingID d))) (dec_FindingID d)) (s\<lparr>cs_rows := cs_rows s'\<rparr>) s'"
    and "\<exists>D A. s' = s\<lparr>cs_rows := (cs_rows s)\<lparr>Decisions := D\<rparr>, cs_AuditEntries := A\<rparr>"
proof -
  let ?vs = "decision_events c a (sorted_list_of_set (head_ids (cs_rows s) (dec_TenantID d) (dec_FindingID d))) (dec_FindingID d)"
  from assms obtain r' where r': "decision_recorded d (cs_rows s) r'" and "appended_all ?vs (s\<lparr>cs_rows := r'\<rparr>) s'"
    unfolding decision_made_def by blast
  from appended_all_grown [OF this(2) decision_events_tenant]
  have grown: "chain_grown (actor_TenantID a) ?vs (s\<lparr>cs_rows := r'\<rparr>) s'" .
  then obtain A where A: "s' = s\<lparr>cs_rows := r', cs_AuditEntries := A\<rparr>" unfolding chain_grown_def by auto
  then have rows: "cs_rows s' = r'" by simp
  show "decision_recorded d (cs_rows s) (cs_rows s')" "chain_grown (actor_TenantID a) ?vs (s\<lparr>cs_rows := cs_rows s'\<rparr>) s'"
    unfolding rows by (rule r', rule grown)
  show "\<exists>D A. s' = s\<lparr>cs_rows := (cs_rows s)\<lparr>Decisions := D\<rparr>, cs_AuditEntries := A\<rparr>"
    using A decision_recordedD(1) [OF r'] by metis
qed

text \<open>
  C39: Recording a decision, exactly. A decision that is recorded is about a finding of a scan of the actor's tenant, with
  the release and product that own the scan now, and the reference monitor grants the actor decisions on them; it
  carries the finding's coordinates, the stated status (one of the four) and a justification, an impact statement when
  customers may see it, and the actor as the approver. Its identifier is new, every decision of the finding that was
  active names it as its successor and is otherwise unchanged, all other rows of all tables are as before, and it is
  the only active decision of the finding. The chain of the tenant grows by one entry for each decision that was
  superseded, in the order of their identifiers, and one for the finding, and nothing else of the store changes.
\<close>

theorem decision_exact:
  assumes "run_decision c (CreateVulnerabilityDecision c a i v) = Inr (d, s')"
  shows "dec_FindingID d = TrimSpace i \<and>
    (\<exists>f. finding_at (cs_rows (dc_env c)) f \<and> fr_TenantID f = actor_TenantID a \<and> may_decide a f \<and> decides c a f v d) \<and>
    decision_recorded d (cs_rows (dc_env c)) (cs_rows s') \<and>
    head_ids (cs_rows s') (dec_TenantID d) (dec_FindingID d) = {dec_ID d} \<and>
    chain_grown (actor_TenantID a) (decision_events c a
      (sorted_list_of_set (head_ids (cs_rows (dc_env c)) (dec_TenantID d) (dec_FindingID d))) (dec_FindingID d))
      ((dc_env c)\<lparr>cs_rows := cs_rows s'\<rparr>) s'"
proof -
  note made = CreateVulnerabilityDecision_effect [OF assms] and store = decision_made_store [OF CreateVulnerabilityDecision_effect(1) [OF assms]]
  from made(1) have "\<exists>f. finding_at (cs_rows (dc_env c)) f \<and> fr_TenantID f = actor_TenantID a \<and> may_decide a f \<and> decides c a f v d"
    unfolding decision_made_def by blast
  with made(2) store(1,2) decision_recorded_heads [OF store(1)] show ?thesis by blast
qed

section \<open>Facts that do not depend on decisions\<close>

lemma decisions_resolve_frame:
  "resolve_build (state\<lparr>Decisions := D\<rparr>) = resolve_build state"
  "resolve_deployment (state\<lparr>Decisions := D\<rparr>) = resolve_deployment state"
  "resolve_project (state\<lparr>Decisions := D\<rparr>) = resolve_project state"
  "resolve_release (state\<lparr>Decisions := D\<rparr>) = resolve_release state"
  "memoryGovernanceProductRelease (state\<lparr>Decisions := D\<rparr>) = memoryGovernanceProductRelease state"
  by (intro ext; simp add: resolve_build_def resolve_deployment_def resolve_project_def resolve_release_def
      memoryGovernanceProductRelease_def split: option.split)+

lemma decisions_coordinates_frame [simp]:
  "memoryOperationsCoordinates (state\<lparr>Decisions := D\<rparr>) = memoryOperationsCoordinates state"
  by (intro ext) (unfold memoryOperationsCoordinates_def decisions_resolve_frame, rule refl)

lemma decisions_outputs_frame [simp]: "outputs_loop (state\<lparr>Decisions := D\<rparr>) tenant outs n = outputs_loop state tenant outs n"
  by (induction outs arbitrary: n) (simp_all add: artifact_matches_def Let_def)

lemma decisions_evidence_frame [simp]:
  "memoryAnomalyEvidence (state\<lparr>Decisions := D\<rparr>) = memoryAnomalyEvidence state"
  "memoryAnomalyBuild (state\<lparr>Decisions := D\<rparr>) = memoryAnomalyBuild state"
  by (intro ext; simp add: memoryAnomalyEvidence_def memoryAnomalyBuild_def collector_owned_def split: option.split)+

lemma decisions_scans_frame [simp]:
  "release_scans (state\<lparr>Decisions := D\<rparr>) tenant product release = release_scans state tenant product release"
  by (simp add: release_scans_def scan_of_release_def)

lemma decisions_digests_frame [simp]:
  "release_digests (state\<lparr>Decisions := D\<rparr>) tenant product release = release_digests state tenant product release"
  by (simp add: evidence_digests_def subject_digests_def)

lemma decisions_control_frame [simp]: "control_owned (state\<lparr>Decisions := D\<rparr>) = control_owned state"
  by (intro ext) (simp add: control_owned_def cong: option.case_cong)

lemma decisions_excepted_frame [simp]: "excepted (state\<lparr>Decisions := D\<rparr>) = excepted state"
  by (intro ext) (simp add: excepted_def)

lemma decisions_verdictless_frame:
  assumes "s' = s\<lparr>cs_rows := (cs_rows s)\<lparr>Decisions := D\<rparr>, cs_AuditEntries := A\<rparr>"
  shows "verdictless (release_facts s' tenant product release at) = verdictless (release_facts s tenant product release at)"
  unfolding assms
  by (simp add: verdictless_def release_facts_def Let_def passed_build_def verified_attestation_def attestation_verified_def)

section \<open>Readiness after a decision\<close>

definition settles :: "VulnerabilityDecision \<Rightarrow> string \<Rightarrow> string \<Rightarrow> VulnerabilityFinding list \<Rightarrow> VulnerabilityFinding \<Rightarrow> bool" where
  "settles d release scan findings f \<longleftrightarrow>
    dec_ReleaseID d = release \<and> dec_ScanID d = scan \<and> dec_Vulnerability d = find_Vulnerability f \<and> dec_Component d = find_Component f \<and>
    dec_Status d \<in> {''fixed'', ''not_affected''} \<and> length (filter (\<lambda>g. find_ID g = find_ID f) findings) = 1"

lemma decided_other:
  assumes rec: "decision_recorded d r r'" and other: "\<not> (tenant = dec_TenantID d \<and> find_ID f = dec_FindingID d)"
  shows "decided r' tenant release scan findings f \<longleftrightarrow> decided r tenant release scan findings f"
proof -
  note D = decision_recordedD [OF rec]
  have "tbl_get (Decisions r') i = Some x \<longleftrightarrow> tbl_get (Decisions r) i = Some x"
    if "dec_TenantID x = tenant" "dec_FindingID x = find_ID f" "dec_SupersededBy x = []" for i x
  proof (cases "i = dec_ID d")
    case True
    with D(2,5) that other show ?thesis by auto
  next
    case False
    show ?thesis
    proof (cases "tbl_get (Decisions r) i")
      case (Some y)
      show ?thesis
      proof (cases "is_head (dec_TenantID d) (dec_FindingID d) y")
        case True
        then have "tbl_get (Decisions r') i = Some (y\<lparr>dec_SupersededBy := dec_ID d\<rparr>)" using D(5) [of i] False Some by simp
        moreover have "y\<lparr>dec_SupersededBy := dec_ID d\<rparr> \<noteq> x" using D(4) that(3) by auto
        moreover have "y \<noteq> x" using True that(1,2) other by (auto simp: is_head_def)
        ultimately show ?thesis using Some by simp
      qed (use D(5) [of i] False Some in simp)
    qed (use D(5) [of i] False in simp)
  qed
  then show ?thesis unfolding decided_def by blast
qed

lemma decided_self:
  assumes rec: "decision_recorded d r r'" and self: "tenant = dec_TenantID d" "find_ID f = dec_FindingID d"
  shows "decided r' tenant release scan findings f \<longleftrightarrow> settles d release scan findings f"
proof -
  note D = decision_recordedD [OF rec]
  have new: "tbl_get (Decisions r') (dec_ID d) = Some d" using D(5) by simp
  have only: "i = dec_ID d \<and> x = d" if "tbl_get (Decisions r') i = Some x" "dec_TenantID x = tenant" "dec_FindingID x = find_ID f" "dec_SupersededBy x = []" for i x
  proof -
    have "i \<in> head_ids r' (dec_TenantID d) (dec_FindingID d)" using that self by (simp add: head_ids_def is_head_def)
    then show ?thesis using decision_recorded_heads [OF rec] new that(1) by simp
  qed
  show ?thesis
  proof
    assume "decided r' tenant release scan findings f"
    then obtain i x where x: "tbl_get (Decisions r') i = Some x" "dec_TenantID x = tenant" "dec_ReleaseID x = release" "dec_ScanID x = scan"
      "dec_FindingID x = find_ID f" "dec_Vulnerability x = find_Vulnerability f" "dec_Component x = find_Component f" "dec_SupersededBy x = []"
      "dec_Status x \<in> {''fixed'', ''not_affected''}" "length (filter (\<lambda>g. find_ID g = find_ID f) findings) = 1"
      unfolding decided_def by blast
    with only [OF x(1,2,5,8)] show "settles d release scan findings f" by (simp add: settles_def)
  next
    assume "settles d release scan findings f"
    then show "decided r' tenant release scan findings f"
      unfolding decided_def settles_def using new D(3) self by (intro conjI exI [of _ "dec_ID d"] exI [of _ d]) simp_all
  qed
qed

text \<open>Open findings of a severity that stay unhandled when this decision replaces the active decisions of its finding.\<close>

definition unhandled_after ::
  "VulnerabilityDecision \<Rightarrow> MemoryUnitOfWorkSnapshot \<Rightarrow> string \<Rightarrow> string \<Rightarrow> string \<Rightarrow> time \<Rightarrow> string \<Rightarrow> bool" where
  "unhandled_after d state tenant product release at severity \<longleftrightarrow>
    (\<exists>scan findings f. (scan, findings) \<in> set (release_scans state tenant product release) \<and> f \<in> set findings \<and> blocking severity f \<and>
      \<not> (if tenant = dec_TenantID d \<and> find_ID f = dec_FindingID d then settles d release scan findings f
        else decided state tenant release scan findings f) \<and>
      \<not> excepted state tenant release at f)"

lemma decided_recorded:
  "decision_recorded d r r' \<Longrightarrow> decided r' tenant release scan findings f \<longleftrightarrow>
    (if tenant = dec_TenantID d \<and> find_ID f = dec_FindingID d then settles d release scan findings f else decided r tenant release scan findings f)"
  by (simp add: decided_other decided_self)

text \<open>
  C40: What a recorded decision changes for a release. After the decision, the facts that a policy evaluation reads for
  any release at any time are those of the store before, except for the two flags of unhandled findings: whether the
  finding of the decision is handled by a decision depends on the new one alone (it settles the finding of its own
  scan, release, vulnerability and component when it says fixed or not affected, and earlier decisions, whatever they
  said, count no more), and every other finding is handled exactly as before.
\<close>

theorem decision_settles:
  assumes "run_decision c (CreateVulnerabilityDecision c a i v) = Inr (d, s')"
    and "readMemoryReadinessFacts ctx s' tenant product release at st = Inr (facts, st')"
  shows "facts = (release_facts (dc_env c) tenant product release at)\<lparr>
    mrf_UnhandledCritical := unhandled_after d (cs_rows (dc_env c)) tenant product release at ''critical'',
    mrf_UnhandledHigh := unhandled_after d (cs_rows (dc_env c)) tenant product release at ''high''\<rparr>"
proof -
  note store = decision_made_store [OF CreateVulnerabilityDecision_effect(1) [OF assms(1)]]
  obtain D A where s': "s' = (dc_env c)\<lparr>cs_rows := (cs_rows (dc_env c))\<lparr>Decisions := D\<rparr>, cs_AuditEntries := A\<rparr>" using store(3) by blast
  then have "cs_rows s' = (cs_rows (dc_env c))\<lparr>Decisions := D\<rparr>" by simp
  then have frame: "release_scans (cs_rows s') tenant product release = release_scans (cs_rows (dc_env c)) tenant product release"
    "excepted (cs_rows s') = excepted (cs_rows (dc_env c))" by simp_all
  from decisions_verdictless_frame [OF s'] have "verdictless (release_facts s' tenant product release at) =
    verdictless (release_facts (dc_env c) tenant product release at)" .
  moreover have "mrf_UnhandledCritical (release_facts s' tenant product release at) =
      unhandled_after d (cs_rows (dc_env c)) tenant product release at ''critical''"
    "mrf_UnhandledHigh (release_facts s' tenant product release at) =
      unhandled_after d (cs_rows (dc_env c)) tenant product release at ''high''"
    unfolding unhandled_facts unhandled_after_def frame decided_recorded [OF store(1)] by (rule refl)+
  ultimately show ?thesis
    unfolding readMemoryReadinessFacts_Inr(1) [OF assms(2)] by (intro verdictless_eqI)
qed

end
