(* ===== verification/Decision_Sample.thy ===== *)
theory Decision_Sample
  imports Decision_Readiness Governance_Sample
begin

text \<open>
  A sample decision: the release of the readiness sample, whose critical finding is decided as fixed, and a new
  decision that says it is affected after all. It supersedes the first one, and the finding is unhandled again.
\<close>

definition decided_store :: decision_store where
  "decided_store = governance_store.extend (evaluation_store.extend (ready_store [])
    \<lparr>gs_Waivers = [], gs_Approvals = [], gs_CustomPolicies = [], gs_ManualSecurityDocuments = [], gs_ContractDiffs = []\<rparr>)
    \<lparr>ds_SBOMColumns = [], ds_VEXArtifacts = [], ds_Incidents = [], ds_RemediationTasks = []\<rparr>"

definition deciding :: decision_command where
  "deciding = \<lparr>dc_ctx = Background, dc_env = decided_store, dc_raced = False, dc_now = 20000, dc_newID = ''d2'',
    dc_auditID = (\<lambda>k. if k = 0 then ''e1'' else ''e2''), dc_hasher = (\<lambda>_. Inr ''c'')\<rparr>"

definition decider :: Actor where
  "decider = zero_actor\<lparr>actor_TenantID := ''t1'', actor_KeyID := ''k1'', actor_Scopes := [''evidence:write'']\<rparr>"

definition sample_input :: CreateVulnerabilityDecisionInput where
  "sample_input = \<lparr>cvd_Status = ''affected'', cvd_Justification = ''j'', cvd_ImpactStatement = [], cvd_ActionStatement = [],
    cvd_CustomerVisible = False, cvd_InternalNotes = [], cvd_EvidenceIDs = [], cvd_SupportingRefs = [], cvd_VEXDocumentID = [],
    cvd_ReviewedAt = None, cvd_ReviewDueAt = None\<rparr>"

definition sample_reference :: FindingReference where
  "sample_reference = \<lparr>fr_ID = ''f1'', fr_ScanID = ''v1'', fr_TenantID = ''t1'', fr_ReleaseID = ''rel'', fr_ProductID = ''p1'',
    fr_ProjectID = [], fr_Vulnerability = ''CVE-1'', fr_Component = ''lib'', fr_Severity = ''Critical'', fr_State = [], fr_SBOMID = [],
    fr_SBOMComponentPURL = [], fr_SBOMComponentName = []\<rparr>"

definition sample_head :: ActiveDecisionHead where
  "sample_head = \<lparr>adh_ID = ''d1'', adh_TenantID = ''t1'', adh_FindingID = ''f1'', adh_ScanID = ''v1'', adh_ReleaseID = ''rel'',
    adh_Status = ''fixed''\<rparr>"

definition sample_affected :: VulnerabilityDecision where
  "sample_affected =
    \<lparr>dec_ID = ''d2'', dec_TenantID = ''t1'', dec_FindingID = ''f1'', dec_ScanID = ''v1'', dec_ReleaseID = ''rel'',
     dec_Vulnerability = ''CVE-1'', dec_Component = ''lib'', dec_SBOMID = [], dec_SBOMComponentPURL = [], dec_SBOMComponentName = [],
     dec_Status = ''affected'', dec_Justification = ''j'', dec_ImpactStatement = [], dec_ActionStatement = [],
     dec_CustomerVisible = False, dec_InternalNotes = [], dec_Source = ''api'', dec_EvidenceID = [], dec_EvidenceIDs = [],
     dec_SupportingRefs = [], dec_VEXDocumentID = [], dec_Supersedes = ''d1'', dec_SupersededBy = [], dec_ApprovedBy = ''k1'',
     dec_ReviewedAt = Some 20000, dec_ReviewDueAt = None, dec_SchemaVersion = VulnerabilityDecisionVersion, dec_CreatedAt = 20000\<rparr>"

section \<open>The steps\<close>

lemma decided_tables:
  "cs_rows decided_store = ready_rows []" "cs_SBOMs decided_store = []" "cs_AuditEntries decided_store = []"
  "VulnerabilityScans (ready_rows []) = [(''v1'', sample_scan)]" "Decisions (ready_rows []) = [(''d1'', sample_decision [])]"
  "tbl_get (Tenants (ready_rows [])) ''t1'' = Some \<lparr>tenant_ID = ''t1'', tenant_Name = ''n'', tenant_CreatedAt = 1\<rparr>"
  by (simp_all add: decided_store_def ready_store_def evaluation_store.defs governance_store.defs ready_rows_def sample_rows_def sample_tables
      sample_catalog_def emptyMemoryUnitOfWorkSnapshot_def tbl_get_def)

lemma decider_permitted:
  "permits decider (risk_request ActionVulnerabilityDecisionsRecord ScopeEvaluation no_refs)" "may_decide decider sample_reference"
proof -
  have "Authorize Background decider (risk_request ActionVulnerabilityDecisionsRecord ScopeEvaluation no_refs) = None"
    "Authorize Background decider (risk_request ActionVulnerabilityDecisionsRecord ResolvedEvaluation
      (no_refs\<lparr>ref_ProductID := ''p1'', ref_ProjectID := [], ref_ReleaseID := ''rel''\<rparr>)) = None"
    by code_simp+
  then show "permits decider (risk_request ActionVulnerabilityDecisionsRecord ScopeEvaluation no_refs)" "may_decide decider sample_reference"
    by (auto simp: may_decide_def sample_reference_def dest: Authorize_permitsD)
qed

lemma decider_actor:
  "actor_TenantID decider = ''t1''" "auditActorID decider = ''k1''" "auditActorType decider \<noteq> []" "TrimSpace ''t1'' = ''t1''" "TrimSpace ''k1'' = ''k1''"
  by code_simp+

lemma decision_authorize_live:
  assumes "permits decider (risk_request ActionVulnerabilityDecisionsRecord (if areq_ScopeOnly r then ScopeEvaluation
      else if areq_TenantWide r then TenantEvaluation else ResolvedEvaluation) (areq_Resources r))"
    and "areq_Action r = ActionVulnerabilityDecisionsRecord" "areq_Scope r = []" "\<not> (areq_ScopeOnly r \<and> areq_TenantWide r)"
  shows "decision_authorize Background decider r (n, s) = Inr ((), n + 2, s)"
proof -
  have "Authorize (ctx_drop 1 (ctx_drop n Background)) decider (risk_request ActionVulnerabilityDecisionsRecord (if areq_ScopeOnly r then ScopeEvaluation
      else if areq_TenantWide r then TenantEvaluation else ResolvedEvaluation) (areq_Resources r)) = None"
    using assms(1) by (subst Authorize_permits) simp_all
  then show ?thesis
    using assms(2-) decider_actor live_nil [of "ctx_drop n Background"]
    by (auto simp: decision_authorize_def NewVulnerabilityDecisionWriteAuthorizer_def riskResourceWriteAuthorizer_def risk_request_def tx_authorize_def)
qed

lemma decided_texts: "governance_text ''t1''" "governance_text ''f1''" "governance_text ''d2''" "TrimSpace '' f1'' = ''f1''" "TrimSpace ''lib'' = ''lib''"
  "validControlText ''t1'' 1024 True" "validControlText ''k1'' 1024 True" "validControlText ''f1'' 1024 True"
  "validFindingReference sample_reference ''t1'' ''f1''" "validControlText ''d2'' 1024 True" "validControlText ''e1'' 1024 True" "validControlText ''e2'' 1024 True"
  by code_simp+

lemma sample_tenant_known: "requireMemoryTenant (ready_rows []) ''t1'' = None"
  by (simp add: requireMemoryTenant_def decided_tables)

lemma sample_finding_read:
  "readMemoryDecisionFinding Background decided_store ''t1'' ''f1'' (n, s) = Inr (sample_reference, n + 3, s)"
proof -
  have step: "decision_finding_step (ready_rows []) ''t1'' ''f1'' sample_scan sample_finding None = Inr (Some sample_reference)" by code_simp
  have "decision_scan_step Background (ready_rows []) ''t1'' ''f1'' (''v1'', sample_scan) None (n, s) = Inr (Some sample_reference, n + 1, s)" for n
    using step by (simp add: decision_scan_step_def range_loop_live) (simp add: sample_scan_def)
  then show ?thesis
    using decided_texts(5)
    by (simp add: readMemoryDecisionFinding_def decided_tables tbl_rows_def tx_run memoryDecisionSBOMContext_def no_choice_def sample_reference_def)
qed

lemma sample_heads_read:
  "readMemoryActiveDecisionHeads Background decided_store ''t1'' ''f1'' 129 (n, s) = Inr ([sample_head], n + 2, s)"
proof -
  have "head_id_step 129 ''t1'' ''f1'' (''d1'', sample_decision []) [] = [''d1'']" 
    "read_head (ready_rows []) ''t1'' ''f1'' ''d1'' [] = Inr [sample_head]" by code_simp+
  then show ?thesis by (simp add: readMemoryActiveDecisionHeads_def decided_tables tbl_rows_def range_loop_live tx_run)
qed

lemma sample_authorized: "authorizeDecisionFinding Background decider ''f1'' (n, decided_store) = Inr (sample_reference, n + 9, decided_store)"
proof -
  have "validDecisionFindingText sample_reference"
  proof -
    have "list_all (\<lambda>t. validControlText t 1024 False) [''f1'', ''t1'', ''v1'', ''p1'', ''rel'', ''CVE-1'', ''lib'', []]" "validControlText ''CVE-1'' 1024 True"
      by code_simp+
    then show ?thesis by (simp add: validDecisionFindingText_def sample_reference_def validControlText_def)
  qed
  moreover have "decision_authorize Background decider (scope_request ActionVulnerabilityDecisionsRecord) (n, decided_store) = Inr ((), n + 2, decided_store)" for n
    by (rule decision_authorize_live) (simp_all add: decider_permitted)
  moreover have "decision_authorize Background decider (resource_request ActionVulnerabilityDecisionsRecord
      (no_refs\<lparr>ref_ProductID := ''p1'', ref_ProjectID := [], ref_ReleaseID := ''rel''\<rparr>)) (n, decided_store) = Inr ((), n + 2, decided_store)" for n
    by (rule decision_authorize_live) (use decider_permitted(2) in \<open>simp_all add: may_decide_def sample_reference_def\<close>)
  moreover have "fr_ProductID sample_reference = ''p1''" "fr_ProjectID sample_reference = []" "fr_ReleaseID sample_reference = ''rel''"
    by (simp_all add: sample_reference_def)
  ultimately show ?thesis
    using sample_tenant_known decided_texts(1,2,9)
    by (simp add: authorizeDecisionFinding_def ReadDecisionFinding_def memoryGovernanceScan_live decided_tables(1) sample_finding_read decider_actor
        tx_bind_def tx_fail_if_def tx_result_def tx_return_def)
qed

definition sample_normalized :: CreateVulnerabilityDecisionInput where
  "sample_normalized = sample_input\<lparr>cvd_ReviewedAt := Some 20000\<rparr>"

lemma sample_input_ok: "validDecisionCommandInput sample_input" "normalizeDecisionInput sample_input 20000 = Inr sample_normalized"
proof -
  have t: "TrimSpace ''affected'' = ''affected''" "TrimSpace ''j'' = ''j''" "TrimSpace [] = []"
    "validControlText ''j'' 1024 False" "validControlText ''affected'' 128 False" "validControlText [] m False" for m
    by (code_simp, code_simp, code_simp, code_simp, code_simp, simp add: validControlText_def contains_nul_def)
  show "validDecisionCommandInput sample_input"
    using t(4-) by (simp add: validDecisionCommandInput_def sample_input_def validControlText_def)
  show "normalizeDecisionInput sample_input 20000 = Inr sample_normalized"
    by (simp add: normalizeDecisionInput_def sample_input_def sample_normalized_def t ParseDecisionStatus_def normalized_review_def
        normalized_evidence_def normalized_refs_def)
qed

lemma sample_built: "buildVulnerabilityDecision deciding decider sample_reference sample_normalized [sample_head] = Inr sample_affected"
  by (simp add: buildVulnerabilityDecision_def sample_normalized_def sample_input_def ParseDecisionStatus_def sample_head_def current_heads_def
      decider_actor sample_reference_def sample_affected_def CanTransitionTo_def deciding_def) code_simp

lemma sample_append_valid: "validMemoryDecisionAppend sample_affected [sample_head]"
proof -
  have t: "list_all (\<lambda>t. memoryGovernanceText t 128) [''f1'', ''v1'', ''rel'', ''CVE-1'', ''lib'', [], ''d1'', ''k1'', ''j'', ''api'', VulnerabilityDecisionVersion]"
    "list_all (\<lambda>t. TrimSpace t \<noteq> []) [''f1'', ''v1'', ''rel'', ''CVE-1'', ''j'']" "VulnerabilityDecisionVersion \<noteq> []"
    by code_simp+
  have "memoryGovernanceText v 128 \<Longrightarrow> 128 \<le> m \<Longrightarrow> memoryGovernanceText v m" for v m by (simp add: memoryGovernanceText_def)
  with t show ?thesis
    by (simp add: validMemoryDecisionAppend_def sample_affected_def sample_head_def)
qed

lemma sample_appended:
  "\<exists>n' r'. AppendVulnerabilityDecision Background sample_affected [sample_head] (n, decided_store) = Inr ((), n', decided_store\<lparr>cs_rows := r'\<rparr>)"
proof -
  have f: "dec_TenantID sample_affected = ''t1''" "dec_ID sample_affected = ''d2''" "dec_FindingID sample_affected = ''f1''"
    "dec_EvidenceIDs sample_affected = []" "dec_EvidenceID sample_affected = []" "dec_SupportingRefs sample_affected = []"
    "dec_VEXDocumentID sample_affected = []" "dec_Supersedes sample_affected = ''d1''" "adh_ID sample_head = ''d1''"
    "\<not> finding_disagrees sample_affected sample_reference"
    by (simp_all add: sample_affected_def sample_head_def finding_disagrees_def sample_reference_def)
  have "tbl_get (Decisions (ready_rows [])) ''d2'' = None" by (simp add: decided_tables tbl_get_def)
  then show ?thesis
    using sample_append_valid sample_tenant_known decided_texts(1,3)
    by (simp add: AppendVulnerabilityDecision_def memoryGovernanceScan_live decided_tables(1) append_body_def f append_vex_def sample_finding_read
        sample_heads_read tx_bind_def tx_fail_if_def tx_result_def tx_return_def tx_put_def Let_def)
      (rule exI, rule refl)
qed

lemma decision_audit_live:
  assumes "Tenants (cs_rows s) = Tenants (ready_rows [])" "kind \<noteq> []" "subject \<noteq> []" "i \<noteq> []"
    "list_all (\<lambda>e. ace_ID e \<noteq> dc_auditID deciding k) (chain_of (cs_audit s) ''t1'')"
  shows "\<exists>n' s'. decision_audit deciding decider k kind subject i (n, s) = Inr ((), n', s')"
proof -
  let ?v = "decision_event deciding decider k kind subject i"
  have id: "validControlText (dc_auditID deciding k) 1024 True" using decided_texts(11,12) by (simp add: deciding_def)
  have "\<exists>s'. catalog_append (dc_hasher deciding) ?v s = Inr s'"
  proof (rule audit_append_ok)
    show "aev_TenantID ?v \<in> fst ` set (Tenants (cs_rows s))"
      using decided_tables(6) by (force simp: assms(1) decision_event_def decider_actor tbl_get_def dest: map_of_SomeD)
  qed (use id assms decider_actor governed_time(5) in \<open>simp_all add: decision_event_def deciding_def validControlText_def\<close>)
  then show ?thesis using id by (auto simp: decision_audit_def decision_context_def tx_run deciding_def)
qed

lemma sample_audited:
  assumes "Tenants (cs_rows s) = Tenants (ready_rows [])" "cs_AuditEntries s = []"
  shows "\<exists>n1 s1 n2 s2. audit_heads deciding decider 0 [sample_head] (n, s) = Inr ((), n1, s1) \<and>
    decision_audit deciding decider 1 ''vulnerability_decision.created'' ''vulnerability_finding'' ''f1'' (n1, s1) = Inr ((), n2, s2)"
proof -
  have "adh_ID sample_head \<noteq> []" "list_all (\<lambda>e. ace_ID e \<noteq> dc_auditID deciding 0) (chain_of (cs_audit s) ''t1'')"
    using assms(2) by (simp_all add: sample_head_def chain_of_def cs_audit_def tbl_get_def)
  from decision_audit_live [OF assms(1) _ _ this] obtain n1 s1 where 1: "decision_audit deciding decider 0 ''vulnerability_decision.superseded'' ''vulnerability_decision''
      (adh_ID sample_head) (n, s) = Inr ((), n1, s1)"
    by blast
  from appended_grown [OF decision_audit_Inr [OF 1]] obtain A e where
    g: "s1 = s\<lparr>cs_AuditEntries := A\<rparr>" "chain_of (cs_audit s1) ''t1'' = chain_of (cs_audit s) ''t1'' @ [e]" "ace_ID e = coerce_utf8 ''e1''"
    by (auto simp: chain_grown_def entry_of_def decision_event_def decider_actor deciding_def list_all2_Cons1)
  have "coerce_utf8 ''e1'' = ''e1''" by (simp add: coerce_utf8_ascii byte_def)
  with g assms have "list_all (\<lambda>e. ace_ID e \<noteq> dc_auditID deciding 1) (chain_of (cs_audit s1) ''t1'')" "Tenants (cs_rows s1) = Tenants (ready_rows [])"
    by (simp_all add: deciding_def chain_of_def cs_audit_def tbl_get_def)
  from decision_audit_live [OF this(2) _ _ _ this(1)] obtain n2 s2 where
    "decision_audit deciding decider 1 ''vulnerability_decision.created'' ''vulnerability_finding'' ''f1'' (n1, s1) = Inr ((), n2, s2)" by blast
  with 1 show ?thesis by (auto simp: tx_bind_def tx_return_def)
qed

lemma sample_tx: "\<exists>n' s'. decision_tx deciding decider ''f1'' sample_normalized (n, decided_store) = Inr (sample_affected, n', s')"
proof -
  have f: "dc_ctx deciding = Background" "dec_ID sample_affected = ''d2''" "fr_ID sample_reference = ''f1''" "adh_ID sample_head \<noteq> ''d2''"
    "cvd_VEXDocumentID sample_normalized = []" "cvd_EvidenceIDs sample_normalized = []" "cvd_SupportingRefs sample_normalized = []"
    by (simp_all add: deciding_def sample_affected_def sample_reference_def sample_head_def sample_normalized_def sample_input_def)
  have ok: "check_heads decider sample_reference None [sample_head] = Inr ()" by code_simp
  have refs: "validateDecisionCommandReferences Background sample_reference sample_normalized st = Inr ((), st)" for st
    by (simp add: validateDecisionCommandReferences_def f tx_bind_def tx_return_def)
  have heads: "ReadActiveDecisionHeads Background ''t1'' ''f1'' 129 (n, decided_store) = Inr ([sample_head], n + 4, decided_store)" for n
    using sample_tenant_known decided_texts(1,2)
    by (simp add: ReadActiveDecisionHeads_def memoryGovernanceScan_live decided_tables(1) sample_heads_read tx_bind_def tx_fail_if_def tx_result_def tx_return_def)
  obtain m r' where ap: "AppendVulnerabilityDecision Background sample_affected [sample_head] (16 + n, decided_store) = Inr ((), m, decided_store\<lparr>cs_rows := r'\<rparr>)"
    using sample_appended by blast
  from AppendVulnerabilityDecision_Inr(2) [OF this] obtain r where r: "decision_recorded sample_affected (ready_rows []) r"
    "decided_store\<lparr>cs_rows := r'\<rparr> = decided_store\<lparr>cs_rows := r\<rparr>" by (auto simp: decided_tables)
  have "r' = r" using arg_cong [OF r(2), of cs_rows] by simp
  moreover have "Tenants r = Tenants ((ready_rows [])\<lparr>Decisions := Decisions r\<rparr>)" using decision_recordedD(1) [OF r(1)] by (rule arg_cong)
  ultimately have "Tenants r' = Tenants (ready_rows [])" by simp
  then have "Tenants (cs_rows (decided_store\<lparr>cs_rows := r'\<rparr>)) = Tenants (ready_rows [])" "cs_AuditEntries (decided_store\<lparr>cs_rows := r'\<rparr>) = []"
    by (simp_all add: decided_tables)
  from sample_audited [OF this] obtain n1 s1 n2 s2 where au: "audit_heads deciding decider 0 [sample_head] (m, decided_store\<lparr>cs_rows := r'\<rparr>) = Inr ((), n1, s1)"
    "decision_audit deciding decider 1 ''vulnerability_decision.created'' ''vulnerability_finding'' ''f1'' (n1, s1) = Inr ((), n2, s2)"
    by blast
  from ap ok au decided_texts(10) show ?thesis
    by (simp add: decision_tx_def f decision_context_def sample_authorized refs heads decider_actor maxActiveDecisionHeads_def sample_built
        tx_bind_def tx_fail_if_def tx_result_def tx_return_def Let_def del: audit_heads.simps check_heads.simps)
qed

lemma sample_run: "\<exists>s'. run_decision deciding (CreateVulnerabilityDecision deciding decider '' f1'' sample_input) = Inr (sample_affected, s')"
proof -
  have f: "dc_ctx deciding = Background" "dc_env deciding = decided_store" "\<not> dc_raced deciding" "dc_now deciding = 20000"
    "cvd_SupportingRefs sample_normalized = []"
    by (simp_all add: deciding_def sample_normalized_def sample_input_def)
  have "decision_authorize Background decider (scope_request ActionVulnerabilityDecisionsRecord) (n, decided_store) = Inr ((), n + 2, decided_store)" for n
    by (rule decision_authorize_live) (simp_all add: decider_permitted)
  moreover obtain n' s' where "decision_tx deciding decider ''f1'' sample_normalized (5, decided_store) = Inr (sample_affected, n', s')"
    using sample_tx by blast
  ultimately show ?thesis
    using sample_input_ok decided_texts
    by (simp add: run_decision_def CreateVulnerabilityDecision_def execute_decision_def ExecuteUnit_def decision_context_def f decider_actor
        tx_run numeral_eq_Suc)
qed

section \<open>The properties at the sample\<close>

lemma deciding_env [simp]: "dc_env deciding = decided_store"
  by (simp add: deciding_def)

theorem decision_exact_witness:
  "\<exists>d s'. run_decision deciding (CreateVulnerabilityDecision deciding decider '' f1'' sample_input) = Inr (d, s') \<and>
    tbl_get (Decisions (cs_rows s')) ''d1'' = Some (sample_decision ''d2'') \<and> tbl_get (Decisions (cs_rows s')) ''d2'' = Some d \<and>
    head_ids (cs_rows s') ''t1'' ''f1'' = {''d2''}"
proof -
  obtain s' where run: "run_decision deciding (CreateVulnerabilityDecision deciding decider '' f1'' sample_input) = Inr (sample_affected, s')"
    using sample_run by blast
  note ex = decision_exact [OF run, unfolded deciding_env decided_tables(1)]
  have f: "dec_ID sample_affected = ''d2''" "dec_TenantID sample_affected = ''t1''" "dec_FindingID sample_affected = ''f1''"
    by (simp_all add: sample_affected_def)
  from ex have rec: "decision_recorded sample_affected (ready_rows []) (cs_rows s')" and heads: "head_ids (cs_rows s') ''t1'' ''f1'' = {''d2''}"
    by (simp_all add: f)
  have "tbl_get (Decisions (ready_rows [])) ''d1'' = Some (sample_decision [])" by (simp add: decided_tables tbl_get_def)
  then have "tbl_get (Decisions (cs_rows s')) ''d1'' = Some (sample_decision ''d2'')"
    using decision_recordedD(5) [OF rec, of "''d1''"] by (simp add: f is_head_def sample_decision_def)
  moreover have "tbl_get (Decisions (cs_rows s')) ''d2'' = Some sample_affected" using decision_recordedD(5) [OF rec, of "''d2''"] by (simp add: f)
  ultimately show ?thesis using run heads by blast
qed

lemma sample_unhandled:
  "sample_finding \<in> set [sample_finding] \<and> (''v1'', [sample_finding]) \<in> set (release_scans (ready_rows []) ''t1'' ''p1'' ''rel'')"
  "blocking ''critical'' sample_finding"
  by code_simp+

theorem decision_settles_witness:
  "map_sum id (\<lambda>(facts, _). mrf_UnhandledCritical facts) (readMemoryReadinessFacts Background decided_store ''t1'' ''p1'' ''rel'' 20000 (0, ())) = Inr False \<and>
   (\<exists>d s' facts st. run_decision deciding (CreateVulnerabilityDecision deciding decider '' f1'' sample_input) = Inr (d, s') \<and>
     readMemoryReadinessFacts Background s' ''t1'' ''p1'' ''rel'' 20000 (0, ()) = Inr (facts, st) \<and> mrf_UnhandledCritical facts)"
proof
  show "map_sum id (\<lambda>(facts, _). mrf_UnhandledCritical facts) (readMemoryReadinessFacts Background decided_store ''t1'' ''p1'' ''rel'' 20000 (0, ())) = Inr False"
    by code_simp
  obtain s' where run: "run_decision deciding (CreateVulnerabilityDecision deciding decider '' f1'' sample_input) = Inr (sample_affected, s')"
    using sample_run by blast
  obtain D A where "s' = decided_store\<lparr>cs_rows := (ready_rows [])\<lparr>Decisions := D\<rparr>, cs_AuditEntries := A\<rparr>"
    using decision_made_store(3) [OF CreateVulnerabilityDecision_effect(1) [OF run]] by (auto simp: decided_tables)
  then have "VulnerabilityScans (cs_rows s') = [(''v1'', sample_scan)]" by (simp add: decided_tables)
  then have "\<forall>i v. tbl_get (VulnerabilityScans (cs_rows s')) i = Some v \<longrightarrow> scan_of_release (cs_rows s') ''t1'' ''p1'' ''rel'' (i, v) \<longrightarrow> well_formed_findings v"
    using sample_scan_wf by (auto simp: tbl_get_def split: if_splits)
  from facts_live [OF live_Background this, where at = 20000 and n = 0 and st = "()"] obtain facts n where
    rd: "readMemoryReadinessFacts Background s' ''t1'' ''p1'' ''rel'' 20000 (0, ()) = Inr (facts, n, ())" by blast
  have "\<not> settles sample_affected ''rel'' ''v1'' [sample_finding] sample_finding" "dec_TenantID sample_affected = ''t1''"
    "dec_FindingID sample_affected = find_ID sample_finding"
    by (simp_all add: settles_def sample_affected_def sample_finding_def)
  moreover have "\<not> excepted (ready_rows []) ''t1'' ''rel'' 20000 sample_finding" by (simp add: excepted_def governed_rows tbl_get_def)
  ultimately have "unhandled_after sample_affected (ready_rows []) ''t1'' ''p1'' ''rel'' 20000 ''critical''"
    unfolding unhandled_after_def using sample_unhandled
    by (intro exI [of _ "''v1''"] exI [of _ "[sample_finding]"] exI [of _ sample_finding]) simp
  with decision_settles [OF run rd] have "mrf_UnhandledCritical facts" by (simp add: decided_tables)
  with run rd show "\<exists>d s' facts st. run_decision deciding (CreateVulnerabilityDecision deciding decider '' f1'' sample_input) = Inr (d, s') \<and>
     readMemoryReadinessFacts Background s' ''t1'' ''p1'' ''rel'' 20000 (0, ()) = Inr (facts, st) \<and> mrf_UnhandledCritical facts"
    by blast
qed

end
