(* ===== verification/Spec2Isabelle.thy ===== *)
theory Spec2Isabelle
  imports Authorization_Properties Credential_Properties Unit_Of_Work Idempotency Merkle_Properties Pagination Release_Properties Readiness_Sample
    Governance_Sample Decision_Sample
begin

text \<open>
  \<^bold>\<open>Evydence\<close> is a multi-tenant server that collects evidence about software releases, keeps it in an append-only
  store with a hash-chained audit log per tenant, signs and verifies it, and decides from it whether a release is
  ready. This development models the core of the server under \<^verbatim>\<open>internal/\<close> and proves what it promises. The name
  of a definition is the name of the Go function or type it models; an auxiliary name in lower case with underscores
  is a part of a function (a loop body, a condition) and the manifest gives its lines.

  \<^bold>\<open>The program and its parts.\<close> A request arrives with a credential. \<^verbatim>\<open>internal/authz\<close> decides whether the actor may
  perform the action on the resources. A command of a context (\<^verbatim>\<open>release/app\<close>, \<^verbatim>\<open>risk/app\<close>, \<^verbatim>\<open>verification/app\<close>)
  validates its input, asks the authorizer, and runs a unit of work (\<^verbatim>\<open>internal/app/uow.go\<close>, \<^verbatim>\<open>memory_uow.go\<close>), in
  which it reads the ownership of its subject again, asks again, writes rows through the repositories and appends an
  audit entry. The unit commits all of it or nothing, and only when no other unit has committed since it began. An
  idempotency record (\<^verbatim>\<open>internal/app/idempotency*.go\<close>) makes a retried request answer with the stored response.
  Verification reads chains, keys and batches back and writes receipts. \<^verbatim>\<open>platform/wiring\<close> composes commands with
  repositories.

  \<^bold>\<open>Shared vocabulary.\<close> \<open>Prelude\<close> has strings as byte lists with the used parts of Go's \<^verbatim>\<open>strings\<close>, \<^verbatim>\<open>unicode/utf8\<close> and
  \<^verbatim>\<open>time\<close>, the error values, contexts and 64-bit wrap-around. An error is a value of a sum type; the errors of the
  contexts that wrap the same sentinel share a constructor. A context is observed by number: \<open>ctx_err ctx n\<close> is what
  its \<open>n\<close>-th observation returns, so a cancellation between any two steps of a command is a context of the model. A time
  is an instant in nanoseconds since year 1, so conversions to UTC are identities. \<open>Hashing\<close> is SHA-256 on 32-bit words;
  \<open>Json_Text\<close> is what \<^verbatim>\<open>encoding/json\<close> does to text, numbers and members.

  \<^bold>\<open>Authorization\<close> (\<^verbatim>\<open>internal/authz\<close>, \<^verbatim>\<open>internal/identity/domain\<close>). \<open>Actors\<close>, \<open>Actions\<close> (the closed registry),
  \<open>Resource_Policy\<close> (grants and coordinate shapes) and \<open>Authorization\<close> (\<open>Authorize\<close> with its boundaries, the artifact
  policy and the storage filter). \<open>Authorization_Properties\<close> states a declarative reference monitor \<open>permits\<close>, shows that
  the decision implements it, and derives tenant isolation, the need for the registered capability, least privilege of
  human grants, monotonicity, safe delegation, and that list filters agree with point reads (C1 to C4).
  \<open>Credential_Policies\<close> and \<open>Credential_Properties\<close> do the same for portal tokens, collector keys, identity exchanges and
  webhooks (C5 to C7).

  \<^bold>\<open>Identity state\<close> (\<open>Sessions\<close>). Sessions, OIDC and SAML login requests and assertion uses; the locale
  \<open>validity_window\<close> has the laws they share, interpreted on each of them.

  \<^bold>\<open>The store\<close> (\<^verbatim>\<open>internal/app/memory_uow.go\<close>, \<^verbatim>\<open>internal/domain/domain.go\<close>). \<open>Rows\<close> has the persisted records field by
  field and tables as association lists under the laws of the locale \<open>go_map\<close>. \<open>Store\<close>, \<open>Store_Catalog\<close> and
  \<open>Store_Evidence\<close> are the repository operations, each a function from a snapshot to an error or the next snapshot.
  \<open>Store_Registry\<close> and \<open>Store_Properties\<close> show that they refine an append-only registry of tenant-owned identifiers,
  that natural keys are unique, that a lapsed session is never revived and a login request is consumed once (C9 to
  C14). \<open>Unit_Of_Work\<close> has the factory with its 64-bit version, units on private copies and their interleaving as a step
  relation; every interleaving is the sequential execution of the committed units (C8). \<open>Transactions\<close> is the form in
  which commands use a unit: a program over the store and the number of context observations made so far.

  \<^bold>\<open>Idempotent commands.\<close> \<open>Idempotency_Keys\<close> (storage keys round-trip, C18) and \<open>Idempotency\<close> (records, repository,
  executor): at most one execution per key, guaranteed replay, failures without partial work (C15 to C17).

  \<^bold>\<open>Verification\<close> (\<^verbatim>\<open>internal/verification\<close>). \<open>Verification\<close> (receipts are passed exactly when every required check
  passed, C19), \<open>Audit_Chain\<close> and \<open>Audit_Properties\<close> (appended chains verify, a passed inspection describes an intact chain,
  equal heads mean equal chains up to an explicit collision; C20 to C22), \<open>Signing_Keys\<close> and \<open>Signing_Properties\<close> (one active
  key, rotation and revocation; C23 to C25), \<open>Merkle\<close> and \<open>Merkle_Properties\<close> (batches and checkpoints; C26 to C28).
  The locale \<open>canonical_hashing\<close> is what the chain asks of a hasher of fields, interpreted on the normalized-JSON hash.

  \<^bold>\<open>Pagination\<close> (\<^verbatim>\<open>internal/app/query/pagination.go\<close>). A page is the next items of a sorted permutation, and following
  the cursors ends and yields every record once (C29, C30).

  \<^bold>\<open>Releases\<close> (\<^verbatim>\<open>internal/release\<close>). \<open>Release_Catalog\<close> (states, guards, readers, authorizer), \<open>Release_Commands\<close> (creation of
  products, projects, releases and candidates; freeze, approval, promotion and rejection), \<open>Release_Properties\<close>: the commands
  interleave as steps on the committed store, every reachable row is one of its lifecycle, rows only move forward (the
  locale \<open>forward_rows\<close>), and a transition happens once, at the expected revision, with the authority for it (C31, C32).

  \<^bold>\<open>Readiness\<close> (\<^verbatim>\<open>internal/risk/domain/readiness.go\<close>, \<^verbatim>\<open>internal/app/memory_readiness_*.go\<close>). \<open>Readiness\<close> is the policy and the
  reader of its facts, \<open>Policy_Evaluation\<close> the command. \<open>Readiness_Properties\<close> gives the specification \<open>release_ready\<close>, with
  quantifiers over the rows, and shows that a stored evaluation passed exactly when the rows meet it (C33);
  \<open>Readiness_Runs\<close> shows that evaluations within the limits of the reader return (C34; the locale \<open>budgeted_loop\<close> is the
  contract of the loops that spend a budget), and \<open>Readiness_Sample\<close> has a release that passes and one that fails.

  \<^bold>\<open>Governance\<close> (\<^verbatim>\<open>internal/risk/app\<close>, \<^verbatim>\<open>internal/app/memory_governance_*.go\<close>). \<open>Governance\<close> has waivers, approval records,
  the owner of every governed subject and the readers; \<open>Governance_Commands\<close> the creation and approval of exceptions and
  waivers and the recording of approvals; \<open>Governance_Properties\<close> what each command did when it succeeded;
  \<open>Governance_Lifecycle\<close> the commands as steps, with the invariant of the rows and the forward movement of the three tables
  (C35) and the confinement of a step to the tenant and authority of its actor (C36). \<open>Governance_Readiness\<close> composes it with
  readiness: an approval changes exactly the findings that the exception covers (C37). \<open>Governance_Runs\<close> shows that an
  exception can be granted (C38); \<open>Governance_Sample\<close> runs it.

  \<^bold>\<open>Vulnerability decisions\<close> (\<^verbatim>\<open>risk/app/vulnerability_decision_commands.go\<close>, \<^verbatim>\<open>app/memory_manual_decision_*.go\<close>).
  \<open>Vulnerability_Decisions\<close> has the readers of a finding, its references and its active decisions, the checked append and
  the command; \<open>Decision_Properties\<close> shows that the bounded sorted insertion of the reader finds all active decisions and what
  a successful command did. \<open>Decision_Readiness\<close> states it of the whole store: the new decision is the only active one of its
  finding, the superseded ones keep their content, and the chain gets one entry for each (C39); and composes it with
  readiness: whether the finding is handled depends on the new decision alone (C40). \<open>Decision_Sample\<close> supersedes a decision.

  \<^bold>\<open>Arguments of the model.\<close> The clock, the identifier generator, signers and verifiers of signature values, the artifact
  association reader, page readers, and the redaction of responses are arguments, as they are ports of the code.
  A command that runs several units gets the committed store of each, since other commands may commit in between, and a
  flag that tells whether another unit commits while it runs.

  \<^bold>\<open>Bounds and fuel.\<close> The limits of the code are written out: 1024-byte identifiers, 65536-byte reasons, 4096 identifiers
  and 8 MiB of them in a readiness snapshot, 256 signatures of a bundle, page and byte budgets of the chain inspection.
  Sequence numbers and revisions are kept at 64 bits with wrap-around; theorems that need a chain shorter than
  2^63 entries say so. Loops are structural recursions or have a termination proof; the paged
  reading of a chain, whatever its reader returns, ends because each page spends some of the byte budget, and the client that
  follows cursors (\<open>read_all\<close>) has fuel, of which one unit per page is proved to be enough. Unicode case mapping is modelled
  as far as a comparison with ASCII text can tell.

  \<^bold>\<open>Conventions.\<close> Rows are values that survive the copy through \<^verbatim>\<open>encoding/json\<close> that the repositories make (valid UTF-8,
  years 0 to 9999), except in audit entries, where the replacement of invalid text is modelled. A \<^verbatim>\<open>range\<close> over a map visits
  the rows of its table in order: lists that a loop collects are sorted afterwards, but where several rows are faulty
  the error is that of the first in this order, while the program may report another of them.

  \<^bold>\<open>Not modelled.\<close> The HTTP adapter, the OpenAPI document and the command-line programs (I/O around the commands); the
  PostgreSQL store (SQL run by a server; the in-memory store behind the same ports is modelled); object stores, key
  management and identity providers, attestation verifiers (third-party code behind arguments of the model);
  configuration, telemetry and logging (no state a command reads); the cursor token of pagination (an authenticated
  encoding of a sort key); document parsers (over third-party decoders). Of the contexts, the commands of evidence, identity,
  integration, operations and package assembly and the remaining readers of reports are not modelled; the repository
  rules and policies that evidence and identity commands compose are. The legacy single-lock ledger and service methods that
  the unit-of-work commands replace are left out.
\<close>

end
